(* ===== verification/Prelude.thy ===== *)
theory Prelude
  imports Main "HOL-Library.Monad_Syntax" "HOL-Library.Word"
begin

text \<open>
  Shared vocabulary of the development: the C string comparisons the code uses, the reading
  of C flags, and the generic facts on lists and options that the component theories use.

  A C string is a HOL \<^typ>\<open>string\<close> (its bytes before the terminating NUL). A pointer that
  may be NULL is an \<^typ>\<open>'a option\<close>. A computation that can crash (dereference NULL or a freed
  cell, or call \<^verbatim>\<open>belle_sip_fatal\<close>) or fail to return has a result in
  \<^typ>\<open>'a option\<close>, with \<^term>\<open>None\<close> for the crash, and is written with the option
  monad's do-notation.
\<close>

named_theorems heap_simps \<open>reading and writing list cells\<close>
named_theorems run_simps \<open>unfolding the monadic steps of an operation\<close>

section \<open>C strings\<close>

text \<open>\<open>tolower\<close> of the C locale, on which \<open>strcasecmp\<close> is built.\<close>

definition tolower :: "char \<Rightarrow> char" where
  "tolower c = (if 65 \<le> (of_char c :: nat) \<and> (of_char c :: nat) \<le> 90
                then char_of ((of_char c :: nat) + 32) else c)"

text \<open>\<open>strcasecmp(a,b)==0\<close>; \<open>strcmp(a,b)==0\<close> is plain equality.\<close>

definition strcaseeq :: "string \<Rightarrow> string \<Rightarrow> bool" where
  "strcaseeq a b \<longleftrightarrow> map tolower a = map tolower b"

lemma strcaseeq_refl [simp]: "strcaseeq a a"
  by (simp add: strcaseeq_def)

lemma strcaseeq_sym: "strcaseeq a b \<longleftrightarrow> strcaseeq b a"
  by (auto simp: strcaseeq_def)

lemma strcaseeq_trans: "strcaseeq a b \<Longrightarrow> strcaseeq b c \<Longrightarrow> strcaseeq a c"
  by (simp add: strcaseeq_def)

lemma strcaseeq_length: "strcaseeq a b \<Longrightarrow> length a = length b"
  unfolding strcaseeq_def by (metis length_map)

text \<open>\<open>isdigit\<close>, \<open>isspace\<close> and \<open>isxdigit\<close> of the C locale, and the value of a hexadecimal digit.\<close>

definition is_digit :: "char \<Rightarrow> bool" where
  "is_digit c \<longleftrightarrow> 48 \<le> (of_char c :: nat) \<and> (of_char c :: nat) \<le> 57"

definition is_space :: "char \<Rightarrow> bool" where
  "is_space c \<longleftrightarrow> (of_char c :: nat) = 32 \<or> 9 \<le> (of_char c :: nat) \<and> (of_char c :: nat) \<le> 13"

definition is_hex_digit :: "char \<Rightarrow> bool" where
  "is_hex_digit c \<longleftrightarrow> is_digit c \<or> (let n = of_char (tolower c) :: nat in 97 \<le> n \<and> n \<le> 102)"

definition hex_value :: "char \<Rightarrow> int" where
  "hex_value c = (if is_digit c then of_char c - 48 else of_char (tolower c) - 87)"

definition skip_space :: "string \<Rightarrow> string" where
  "skip_space s = dropWhile is_space s"

text \<open>\<^verbatim>\<open>atoi\<close> (for texts whose value fits an \<^verbatim>\<open>int\<close>; beyond, C leaves the result undefined).\<close>

definition digits_value :: "string \<Rightarrow> int" where
  "digits_value ds = foldl (\<lambda>n c. 10 * n + (of_char c - 48)) 0 ds"

definition atoi :: "string \<Rightarrow> int" where
  "atoi s = (case dropWhile is_space s of
       [] \<Rightarrow> 0
     | c # cs \<Rightarrow> (if c = CHR ''-'' then - digits_value (takeWhile is_digit cs)
                 else if c = CHR ''+'' then digits_value (takeWhile is_digit cs)
                 else digits_value (takeWhile is_digit (c # cs))))"

text \<open>\<^verbatim>\<open>snprintf("%i")\<close>.\<close>

fun decimal :: "nat \<Rightarrow> string" where
  "decimal n = (if n < 10 then [char_of (48 + n)] else decimal (n div 10) @ [char_of (48 + n mod 10)])"

declare decimal.simps [simp del]

definition int_text :: "int \<Rightarrow> string" where
  "int_text i = (if i < 0 then CHR ''-'' # decimal (nat (- i)) else decimal (nat i))"

lemma digit_code:
  assumes "n < 10"
  shows "is_digit (char_of (48 + n))" and "(of_char (char_of (48 + n :: nat)) :: int) = 48 + int n"
proof -
  have "list_all (\<lambda>n. is_digit (char_of (48 + n)) \<and> (of_char (char_of (48 + n :: nat)) :: int) = 48 + int n) [0..<10]"
    by code_simp
  then show "is_digit (char_of (48 + n))" "(of_char (char_of (48 + n :: nat)) :: int) = 48 + int n"
    using assms by (simp_all only: list_all_iff set_upt atLeastLessThan_iff) simp_all
qed

lemma decimal_digits: "list_all is_digit (decimal n)"
proof (induction n rule: decimal.induct)
  case (1 n)
  then show ?case
    by (subst decimal.simps) (simp add: digit_code(1))
qed

lemma digits_value_append: "digits_value (xs @ [c]) = 10 * digits_value xs + (of_char c - 48)"
  by (simp add: digits_value_def)

lemma digits_value_decimal: "digits_value (decimal n) = int n"
proof (induction n rule: decimal.induct)
  case (1 n)
  show ?case
  proof (cases "n < 10")
    case True
    then show ?thesis
      by (subst decimal.simps) (simp add: digits_value_def digit_code(2))
  next
    case False
    then have "decimal n = decimal (n div 10) @ [char_of (48 + n mod 10)]"
      by (subst decimal.simps) simp
    moreover have "10 * int (n div 10) + int (n mod 10) = int n"
      by (metis mult_div_mod_eq of_nat_add of_nat_mult of_nat_numeral)
    ultimately show ?thesis
      using 1 False digit_code(2) [of "n mod 10"] by (simp add: digits_value_append)
  qed
qed

lemma decimal_not_Nil: "decimal n \<noteq> []"
  by (subst decimal.simps) simp

lemma decimal_hd: "is_digit (hd (decimal n))"
  using decimal_digits [of n] decimal_not_Nil [of n] by (cases "decimal n") auto

lemma atoi_int_text: "atoi (int_text i) = i"
proof -
  have take_all: "takeWhile is_digit (decimal n) = decimal n" for n
    using decimal_digits [of n] by (simp add: list_all_iff takeWhile_eq_all_conv)
  show ?thesis
  proof (cases "i < 0")
    case True
    then show ?thesis
      by (simp add: atoi_def int_text_def take_all digits_value_decimal is_space_def)
  next
    case False
    obtain c s where cs: "decimal (nat i) = c # s"
      using decimal_not_Nil by (cases "decimal (nat i)") auto
    then have "is_digit c"
      using decimal_hd [of "nat i"] by simp
    then have "\<not> is_space c" "c \<noteq> CHR ''-''" "c \<noteq> CHR ''+''"
      by (auto simp: is_digit_def is_space_def)
    then have "atoi (decimal (nat i)) = digits_value (takeWhile is_digit (decimal (nat i)))"
      using cs by (simp add: atoi_def)
    then show ?thesis
      using False by (simp add: int_text_def take_all digits_value_decimal)
  qed
qed

text \<open>\<open>strncmp(s,p,strlen(p))==0\<close>: \<open>p\<close> is a prefix of \<open>s\<close>.\<close>

definition has_prefix :: "string \<Rightarrow> string \<Rightarrow> bool" where
  "has_prefix p s \<longleftrightarrow> take (length p) s = p"

section \<open>Lists\<close>

text \<open>The index of the first element satisfying a predicate, as the C search loops find it.\<close>

fun find_index :: "('a \<Rightarrow> bool) \<Rightarrow> 'a list \<Rightarrow> nat option" where
  "find_index P [] = None"
| "find_index P (x # xs) = (if P x then Some 0 else map_option Suc (find_index P xs))"

lemma find_index_None: "find_index P xs = None \<longleftrightarrow> (\<forall>x\<in>set xs. \<not> P x)"
  by (induction xs) auto

lemma find_index_Some:
  "find_index P xs = Some i \<Longrightarrow> i < length xs \<and> P (xs ! i) \<and> (\<forall>j<i. \<not> P (xs ! j))"
proof (induction xs arbitrary: i)
  case (Cons x xs)
  then show ?case
    by (auto split: if_splits simp: nth_Cons split: nat.splits)
qed simp

text \<open>Deleting the first match, as \<open>find_custom\<close> followed by \<open>delete_link\<close> does.\<close>

fun remove_first :: "('a \<Rightarrow> bool) \<Rightarrow> 'a list \<Rightarrow> 'a list" where
  "remove_first P [] = []"
| "remove_first P (x # xs) = (if P x then xs else x # remove_first P xs)"

lemma remove_first_id [simp]: "(\<And>x. x \<in> set xs \<Longrightarrow> \<not> P x) \<Longrightarrow> remove_first P xs = xs"
  by (induction xs) auto

lemma set_remove_first_subset: "set (remove_first P xs) \<subseteq> set xs"
  by (induction xs) auto

lemma remove_first_remove1: "remove_first (\<lambda>x. x = a) xs = remove1 a xs"
  by (induction xs) auto

lemma distinct_remove_first: "distinct xs \<Longrightarrow> distinct (remove_first P xs)"
  by (induction xs) (use set_remove_first_subset in fastforce)+

lemma remove_first_append:
  "remove_first P (xs @ ys) =
     (if \<exists>x\<in>set xs. P x then remove_first P xs @ ys else xs @ remove_first P ys)"
  by (induction xs) auto

lemma map_remove_first: "map f (remove_first (\<lambda>x. P (f x)) xs) = remove_first P (map f xs)"
  by (induction xs) auto

lemma find_append: "find P (xs @ ys) = (case find P xs of None \<Rightarrow> find P ys | Some x \<Rightarrow> Some x)"
  by (induction xs) auto

lemma find_SomeD: "find P xs = Some x \<Longrightarrow> x \<in> set xs \<and> P x"
  by (induction xs) (auto split: if_splits)

end
