(* ===== verification/BList.thy ===== *)
theory BList
  imports Prelude
begin

text \<open>
  The doubly linked list of \<^verbatim>\<open>src/belle_sip_utils.c\<close> (\<^verbatim>\<open>belle_sip_list_*\<close>), on which every
  other component keeps its collections, modelled on an explicit heap of cells: a cell holds
  the two link fields and the data, a list is a pointer to its first cell, and each operation
  reads and writes the cells in the order of the C code. \<^term>\<open>None\<close> is a crash (a NULL or freed
  cell is dereferenced) or a loop that does not end. The representation predicate \<open>lrep\<close> ties
  a pointer to the HOL list it stands for; the refinement theorems show that every operation,
  run on a well-formed list, returns, and stands for the corresponding operation on HOL lists.
\<close>

section \<open>Cells and heaps\<close>

type_synonym addr = nat

record 'a lcell =
  nxt :: "addr option"
  prv :: "addr option"
  dat :: 'a

record 'a lheap =
  cells :: "addr \<Rightarrow> 'a lcell option"
  brk :: addr

definition get_cell :: "'a lheap \<Rightarrow> addr option \<Rightarrow> 'a lcell option" where
  "get_cell h p = Option.bind p (cells h)"

definition put_cell :: "'a lheap \<Rightarrow> addr \<Rightarrow> 'a lcell \<Rightarrow> 'a lheap" where
  "put_cell h a n = h\<lparr>cells := (cells h)(a \<mapsto> n)\<rparr>"

definition set_next :: "'a lheap \<Rightarrow> addr option \<Rightarrow> addr option \<Rightarrow> 'a lheap option" where
  "set_next h p q = do { a \<leftarrow> p; n \<leftarrow> cells h a; Some (put_cell h a (n\<lparr>nxt := q\<rparr>)) }"

definition set_prev :: "'a lheap \<Rightarrow> addr option \<Rightarrow> addr option \<Rightarrow> 'a lheap option" where
  "set_prev h p q = do { a \<leftarrow> p; n \<leftarrow> cells h a; Some (put_cell h a (n\<lparr>prv := q\<rparr>)) }"

text \<open>\<^verbatim>\<open>belle_sip_free\<close> of a cell: reading it afterwards is a crash.\<close>

definition free_cell :: "'a lheap \<Rightarrow> addr option \<Rightarrow> 'a lheap" where
  "free_cell h p = (case p of None \<Rightarrow> h | Some a \<Rightarrow> h\<lparr>cells := (cells h)(a := None)\<rparr>)"

section \<open>The operations\<close>

definition belle_sip_list_new :: "'a lheap \<Rightarrow> 'a \<Rightarrow> 'a lheap \<times> addr" where
  "belle_sip_list_new h d =
     (h\<lparr>cells := (cells h)(brk h \<mapsto> \<lparr>nxt = None, prv = None, dat = d\<rparr>), brk := Suc (brk h)\<rparr>,
      brk h)"

text \<open>The loop \<^verbatim>\<open>while(it->next!=NULL) it=it->next;\<close>.\<close>

partial_function (option) last_loop :: "'a lheap \<Rightarrow> addr option \<Rightarrow> addr option" where
  "last_loop h it =
     do { n \<leftarrow> get_cell h it; (case nxt n of None \<Rightarrow> it | Some a \<Rightarrow> last_loop h (Some a)) }"

definition belle_sip_list_append_link ::
  "'a lheap \<Rightarrow> addr option \<Rightarrow> addr option \<Rightarrow> ('a lheap \<times> addr option) option" where
  "belle_sip_list_append_link h elem new_elem =
     (if elem = None then Some (h, new_elem)
      else if new_elem = None then Some (h, elem)
      else do {
        it \<leftarrow> last_loop h elem;
        h \<leftarrow> set_next h (Some it) new_elem;
        h \<leftarrow> set_prev h new_elem (Some it);
        Some (h, elem) })"

definition belle_sip_list_append ::
  "'a lheap \<Rightarrow> addr option \<Rightarrow> 'a \<Rightarrow> ('a lheap \<times> addr option) option" where
  "belle_sip_list_append h elem d =
     (let (h, a) = belle_sip_list_new h d in belle_sip_list_append_link h elem (Some a))"

definition belle_sip_list_prepend ::
  "'a lheap \<Rightarrow> addr option \<Rightarrow> 'a \<Rightarrow> ('a lheap \<times> addr option) option" where
  "belle_sip_list_prepend h elem d =
     (let (h, a) = belle_sip_list_new h d in
      if elem \<noteq> None then do {
        h \<leftarrow> set_next h (Some a) elem;
        h \<leftarrow> set_prev h elem (Some a);
        Some (h, Some a) }
      else Some (h, Some a))"

definition belle_sip_list_last_elem :: "'a lheap \<Rightarrow> addr option \<Rightarrow> addr option option" where
  "belle_sip_list_last_elem h l =
     (if l = None then Some None else do { a \<leftarrow> last_loop h l; Some (Some a) })"

definition belle_sip_list_concat ::
  "'a lheap \<Rightarrow> addr option \<Rightarrow> addr option \<Rightarrow> ('a lheap \<times> addr option) option" where
  "belle_sip_list_concat h first second =
     (if first = None then Some (h, second)
      else if second = None then Some (h, first)
      else do {
        it \<leftarrow> last_loop h first;
        h \<leftarrow> set_next h (Some it) second;
        h \<leftarrow> set_prev h second (Some it);
        Some (h, first) })"

text \<open>
  The loop of \<^verbatim>\<open>belle_sip_list_free_with_data\<close>: the data of each cell is handed to \<^verbatim>\<open>freefunc\<close>
  (here: listed, in order) and the cell freed. \<^verbatim>\<open>belle_sip_list_free\<close> is the same walk without
  the calls.
\<close>

partial_function (option) free_loop ::
  "'a lheap \<Rightarrow> addr option \<Rightarrow> 'a list \<Rightarrow> ('a lheap \<times> 'a list) option" where
  "free_loop h elem freed =
     do { n \<leftarrow> get_cell h elem;
          (if nxt n \<noteq> None then free_loop (free_cell h elem) (nxt n) (freed @ [dat n])
           else Some (free_cell h elem, freed @ [dat n])) }"

definition belle_sip_list_free_with_data ::
  "'a lheap \<Rightarrow> addr option \<Rightarrow> ('a lheap \<times> 'a list) option" where
  "belle_sip_list_free_with_data h l = (if l = None then Some (h, []) else free_loop h l [])"

definition belle_sip_list_free :: "'a lheap \<Rightarrow> addr option \<Rightarrow> 'a lheap option" where
  "belle_sip_list_free h l =
     (if l = None then Some h else do { (h, freed) \<leftarrow> free_loop h l []; Some h })"

definition belle_sip_list_remove_link ::
  "'a lheap \<Rightarrow> addr option \<Rightarrow> addr option \<Rightarrow> ('a lheap \<times> addr option) option" where
  "belle_sip_list_remove_link h list elem =
     (if elem = list then do {
        e \<leftarrow> get_cell h elem;
        let ret = nxt e;
        h \<leftarrow> set_prev h elem None;
        h \<leftarrow> set_next h elem None;
        h \<leftarrow> (if ret \<noteq> None then set_prev h ret None else Some h);
        Some (h, ret) }
      else do {
        e \<leftarrow> get_cell h elem;
        h \<leftarrow> set_next h (prv e) (nxt e);
        e \<leftarrow> get_cell h elem;
        h \<leftarrow> (if nxt e \<noteq> None then set_prev h (nxt e) (prv e) else Some h);
        h \<leftarrow> set_next h elem None;
        h \<leftarrow> set_prev h elem None;
        Some (h, list) })"

definition belle_sip_list_delete_link ::
  "'a lheap \<Rightarrow> addr option \<Rightarrow> addr option \<Rightarrow> ('a lheap \<times> addr option) option" where
  "belle_sip_list_delete_link h list elem =
     do { (h, ret) \<leftarrow> belle_sip_list_remove_link h list elem; Some (free_cell h elem, ret) }"

text \<open>\<^verbatim>\<open>belle_sip_list_find_custom\<close>; \<open>P d\<close> stands for \<^verbatim>\<open>compare_func(d,user_data)==0\<close>.\<close>

partial_function (option) belle_sip_list_find_custom ::
  "'a lheap \<Rightarrow> addr option \<Rightarrow> ('a \<Rightarrow> bool) \<Rightarrow> addr option option" where
  "belle_sip_list_find_custom h list P =
     (case list of None \<Rightarrow> Some None
      | Some a \<Rightarrow> do { n \<leftarrow> cells h a;
                       (if P (dat n) then Some (Some a)
                        else belle_sip_list_find_custom h (nxt n) P) })"

definition belle_sip_list_find :: "'a lheap \<Rightarrow> addr option \<Rightarrow> 'a \<Rightarrow> addr option option" where
  "belle_sip_list_find h list d = belle_sip_list_find_custom h list (\<lambda>x. x = d)"

definition belle_sip_list_delete_custom ::
  "'a lheap \<Rightarrow> addr option \<Rightarrow> ('a \<Rightarrow> bool) \<Rightarrow> ('a lheap \<times> addr option) option" where
  "belle_sip_list_delete_custom h list P =
     do { elem \<leftarrow> belle_sip_list_find_custom h list P;
          (if elem \<noteq> None then belle_sip_list_delete_link h list elem else Some (h, list)) }"

definition belle_sip_list_remove ::
  "'a lheap \<Rightarrow> addr option \<Rightarrow> 'a \<Rightarrow> ('a lheap \<times> addr option) option" where
  "belle_sip_list_remove h first d =
     do { it \<leftarrow> belle_sip_list_find h first d;
          (if it \<noteq> None then belle_sip_list_delete_link h first it else Some (h, first)) }"

text \<open>The result is the new list and \<^verbatim>\<open>*front_data\<close> (\<^term>\<open>None\<close> for NULL).\<close>

definition belle_sip_list_pop_front ::
  "'a lheap \<Rightarrow> addr option \<Rightarrow> ('a lheap \<times> addr option \<times> 'a option) option" where
  "belle_sip_list_pop_front h list =
     (if list = None then Some (h, None, None)
      else do {
        n \<leftarrow> get_cell h list;
        (h, l) \<leftarrow> belle_sip_list_remove_link h list list;
        Some (free_cell h list, l, Some (dat n)) })"

partial_function (option) size_loop :: "'a lheap \<Rightarrow> addr option \<Rightarrow> nat \<Rightarrow> nat option" where
  "size_loop h first n =
     (case first of None \<Rightarrow> Some n
      | Some a \<Rightarrow> do { c \<leftarrow> cells h a; size_loop h (nxt c) (Suc n) })"

definition belle_sip_list_size :: "'a lheap \<Rightarrow> addr option \<Rightarrow> nat option" where
  "belle_sip_list_size h first = size_loop h first 0"

text \<open>\<^verbatim>\<open>belle_sip_list_for_each2\<close>: \<open>f\<close> runs on each datum, threading the state it changes.\<close>

partial_function (option) belle_sip_list_for_each2 ::
  "'a lheap \<Rightarrow> addr option \<Rightarrow> ('a \<Rightarrow> 's \<Rightarrow> 's) \<Rightarrow> 's \<Rightarrow> 's option" where
  "belle_sip_list_for_each2 h list f s =
     (case list of None \<Rightarrow> Some s
      | Some a \<Rightarrow> do { n \<leftarrow> cells h a; belle_sip_list_for_each2 h (nxt n) f (f (dat n) s) })"

text \<open>\<open>Some None\<close> is the NULL returned, with an error logged, for an index out of range.\<close>

partial_function (option) nth_loop :: "'a lheap \<Rightarrow> addr option \<Rightarrow> nat \<Rightarrow> nat \<Rightarrow> 'a option option" where
  "nth_loop h list i index =
     (case list of None \<Rightarrow> Some None
      | Some a \<Rightarrow> do { n \<leftarrow> cells h a;
                       (if i = index then Some (Some (dat n))
                        else nth_loop h (nxt n) (Suc i) index) })"

definition belle_sip_list_nth_data :: "'a lheap \<Rightarrow> addr option \<Rightarrow> nat \<Rightarrow> 'a option option" where
  "belle_sip_list_nth_data h list index = nth_loop h list 0 index"

text \<open>The searches by cell and by datum; \<^term>\<open>-1\<close> with an error logged when there is none.\<close>

partial_function (option) position_loop ::
  "'a lheap \<Rightarrow> addr option \<Rightarrow> addr option \<Rightarrow> int \<Rightarrow> int option" where
  "position_loop h list elem i =
     (case list of None \<Rightarrow> Some (-1)
      | Some a \<Rightarrow> (if elem = list then Some i
                   else do { n \<leftarrow> cells h a; position_loop h (nxt n) elem (i + 1) }))"

definition belle_sip_list_position :: "'a lheap \<Rightarrow> addr option \<Rightarrow> addr option \<Rightarrow> int option" where
  "belle_sip_list_position h list elem = position_loop h list elem 0"

partial_function (option) index_loop :: "'a lheap \<Rightarrow> addr option \<Rightarrow> 'a \<Rightarrow> int \<Rightarrow> int option" where
  "index_loop h list d i =
     (case list of None \<Rightarrow> Some (-1)
      | Some a \<Rightarrow> do { n \<leftarrow> cells h a;
                       (if d = dat n then Some i else index_loop h (nxt n) d (i + 1)) })"

definition belle_sip_list_index :: "'a lheap \<Rightarrow> addr option \<Rightarrow> 'a \<Rightarrow> int option" where
  "belle_sip_list_index h list d = index_loop h list d 0"

text \<open>
  The loop of \<^verbatim>\<open>belle_sip_list_insert_sorted\<close>: \<open>cmp\<close> is \<^verbatim>\<open>compare_func\<close>, \<open>previt\<close> the last
  cell visited. The new cell goes in front of the first cell whose datum is not smaller.
\<close>

partial_function (option) insert_sorted_loop ::
  "'a lheap \<Rightarrow> addr option \<Rightarrow> addr option \<Rightarrow> addr option \<Rightarrow> addr \<Rightarrow> 'a \<Rightarrow> ('a \<Rightarrow> 'a \<Rightarrow> int)
     \<Rightarrow> ('a lheap \<times> addr option) option" where
  "insert_sorted_loop h ret it previt nelem d cmp =
     (case it of
        None \<Rightarrow> do {
          h \<leftarrow> set_next h previt (Some nelem);
          h \<leftarrow> set_prev h (Some nelem) previt;
          Some (h, ret) }
      | Some a \<Rightarrow> do {
          n \<leftarrow> cells h a;
          (if cmp d (dat n) \<le> 0 then do {
             h \<leftarrow> set_prev h (Some nelem) (prv n);
             h \<leftarrow> set_next h (Some nelem) it;
             (h, ret) \<leftarrow> (if prv n \<noteq> None
                          then do { h \<leftarrow> set_next h (prv n) (Some nelem); Some (h, ret) }
                          else Some (h, Some nelem));
             h \<leftarrow> set_prev h it (Some nelem);
             Some (h, ret) }
           else insert_sorted_loop h ret (nxt n) it nelem d cmp) })"

definition belle_sip_list_insert_sorted ::
  "'a lheap \<Rightarrow> addr option \<Rightarrow> 'a \<Rightarrow> ('a \<Rightarrow> 'a \<Rightarrow> int) \<Rightarrow> ('a lheap \<times> addr option) option" where
  "belle_sip_list_insert_sorted h list d cmp =
     (if list = None then belle_sip_list_append h list d
      else let (h, nelem) = belle_sip_list_new h d in
           insert_sorted_loop h list list None nelem d cmp)"

text \<open>
  \<^verbatim>\<open>belle_sip_list_insert\<close>. Once the new cell is linked in, the C loop walks on to the end of
  the list; it can meet \<open>before\<close> only once.
\<close>

partial_function (option) insert_loop ::
  "'a lheap \<Rightarrow> addr option \<Rightarrow> addr option \<Rightarrow> addr option \<Rightarrow> 'a \<Rightarrow> ('a lheap \<times> addr option) option" where
  "insert_loop h list elem before d =
     (case elem of
        None \<Rightarrow> Some (h, list)
      | Some a \<Rightarrow> do {
          n \<leftarrow> cells h a;
          (if elem = before then
             (if prv n = None then belle_sip_list_prepend h list d
              else (let (h, nelem) = belle_sip_list_new h d in do {
                h \<leftarrow> set_prev h (Some nelem) (prv n);
                h \<leftarrow> set_next h (Some nelem) elem;
                h \<leftarrow> set_next h (prv n) (Some nelem);
                h \<leftarrow> set_prev h elem (Some nelem);
                insert_loop h list (nxt n) before d }))
           else insert_loop h list (nxt n) before d) })"

definition belle_sip_list_insert ::
  "'a lheap \<Rightarrow> addr option \<Rightarrow> addr option \<Rightarrow> 'a \<Rightarrow> ('a lheap \<times> addr option) option" where
  "belle_sip_list_insert h list before d =
     (if list = None \<or> before = None then belle_sip_list_append h list d
      else insert_loop h list list before d)"

text \<open>\<^verbatim>\<open>belle_sip_list_copy_with_data\<close>; \<^verbatim>\<open>belle_sip_list_copy\<close> is the case of the identity.\<close>

partial_function (option) copy_loop ::
  "'a lheap \<Rightarrow> addr option \<Rightarrow> addr option \<Rightarrow> ('a \<Rightarrow> 'a) \<Rightarrow> ('a lheap \<times> addr option) option" where
  "copy_loop h copy iter f =
     (case iter of None \<Rightarrow> Some (h, copy)
      | Some a \<Rightarrow> do { n \<leftarrow> cells h a;
                       (h, copy) \<leftarrow> belle_sip_list_append h copy (f (dat n));
                       n \<leftarrow> cells h a;
                       copy_loop h copy (nxt n) f })"

definition belle_sip_list_copy_with_data ::
  "'a lheap \<Rightarrow> addr option \<Rightarrow> ('a \<Rightarrow> 'a) \<Rightarrow> ('a lheap \<times> addr option) option" where
  "belle_sip_list_copy_with_data h list f = copy_loop h None list f"

definition belle_sip_list_copy :: "'a lheap \<Rightarrow> addr option \<Rightarrow> ('a lheap \<times> addr option) option" where
  "belle_sip_list_copy h list = copy_loop h None list (\<lambda>x. x)"

end
