(* ===== verification/BListRefine.thy ===== *)
theory BListRefine
  imports BList
begin

text \<open>
  The contract of the lists of \<^verbatim>\<open>belle_sip_utils.c\<close>: \<open>lrep h p as xs\<close> says that in heap \<open>h\<close>
  the pointer \<open>p\<close> is a well-formed doubly linked list whose cells are \<open>as\<close> (distinct, first to
  last, each pointing back to the one before) and whose data are \<open>xs\<close>. Each operation is shown
  to return (no crash, no endless loop) and to stand for a HOL list operation; cells outside
  the list are untouched (\<open>heap_frame\<close>). The interface the rest of the library sees, a FIFO
  queue, is the locale \<open>fifo\<close>, interpreted on the pointer model.
\<close>

section \<open>Segments\<close>

fun seg :: "(addr \<Rightarrow> 'a lcell option) \<Rightarrow> addr option \<Rightarrow> addr option \<Rightarrow> addr list
    \<Rightarrow> addr option \<Rightarrow> addr option \<Rightarrow> bool" where
  "seg c pr p [] la nx \<longleftrightarrow> p = nx \<and> la = pr"
| "seg c pr p (a # as) la nx \<longleftrightarrow>
     p = Some a \<and> (\<exists>n. c a = Some n \<and> prv n = pr \<and> seg c (Some a) (nxt n) as la nx)"

definition seg_data :: "(addr \<Rightarrow> 'a lcell option) \<Rightarrow> addr list \<Rightarrow> 'a list" where
  "seg_data c as = map (\<lambda>a. dat (the (c a))) as"

definition wf_heap :: "'a lheap \<Rightarrow> bool" where
  "wf_heap h \<longleftrightarrow> (\<forall>a. cells h a \<noteq> None \<longrightarrow> a < brk h)"

definition lrep :: "'a lheap \<Rightarrow> addr option \<Rightarrow> addr list \<Rightarrow> 'a list \<Rightarrow> bool" where
  "lrep h p as xs \<longleftrightarrow> wf_heap h \<and> distinct as \<and> (\<exists>la. seg (cells h) None p as la None)
     \<and> xs = seg_data (cells h) as"

definition heap_frame :: "addr set \<Rightarrow> 'a lheap \<Rightarrow> 'a lheap \<Rightarrow> bool" where
  "heap_frame A h h' \<longleftrightarrow> (\<forall>b. b \<notin> A \<and> b < brk h \<longrightarrow> cells h' b = cells h b) \<and> brk h \<le> brk h'"

declare seg.simps(2) [simp del]

lemma seg_Cons: "seg c pr (Some a) (a # as) la nx \<longleftrightarrow>
    (\<exists>n. c a = Some n \<and> prv n = pr \<and> seg c (Some a) (nxt n) as la nx)"
  by (simp add: seg.simps(2))

lemma seg_append:
  "seg c pr p (as @ bs) la nx \<longleftrightarrow> (\<exists>m q. seg c pr p as m q \<and> seg c m q bs la nx)"
  by (induction as arbitrary: pr p) (auto simp: seg.simps(2))

lemma seg_cong:
  "(\<And>a. a \<in> set as \<Longrightarrow> c a = c' a) \<Longrightarrow> seg c pr p as la nx \<longleftrightarrow> seg c' pr p as la nx"
  by (induction as arbitrary: pr p) (auto simp: seg.simps(2))

lemma seg_upd [simp]: "a \<notin> set as \<Longrightarrow> seg (c(a := x)) pr p as la nx \<longleftrightarrow> seg c pr p as la nx"
  by (rule seg_cong) auto

lemma seg_alive: "seg c pr p as la nx \<Longrightarrow> a \<in> set as \<Longrightarrow> c a \<noteq> None"
  by (induction as arbitrary: pr p) (auto simp: seg.simps(2))

lemma seg_None: "seg c pr p as la nx \<Longrightarrow> p = None \<Longrightarrow> as = [] \<and> nx = None"
  by (cases as) (auto simp: seg.simps(2))

lemma seg_last: "seg c pr p as la nx \<Longrightarrow> as \<noteq> [] \<Longrightarrow> la = Some (last as)"
  by (induction as arbitrary: pr p) (auto simp: seg.simps(2) split: if_splits)

lemma seg_hd: "seg c pr p as la nx \<Longrightarrow> as \<noteq> [] \<Longrightarrow> p = Some (hd as)"
  by (cases as) (auto simp: seg.simps(2))

text \<open>
  A well-formed segment up to NULL never visits a cell twice: the heap is a function, so a
  repeated cell would have two different rests.
\<close>

lemma seg_unique: "seg c pr p as la None \<Longrightarrow> seg c pr' p bs lb None \<Longrightarrow> as = bs"
proof (induction as arbitrary: pr pr' p bs)
  case Nil
  then show ?case by (cases bs) (auto simp: seg.simps(2))
next
  case (Cons a as)
  then show ?case by (cases bs) (auto simp: seg.simps(2))
qed

lemma seg_distinct: "seg c pr p as la None \<Longrightarrow> distinct as"
proof (induction as arbitrary: pr p)
  case (Cons a as)
  then have d: "distinct as" by (auto simp: seg.simps(2))
  have "a \<notin> set as"
  proof
    assume "a \<in> set as"
    then obtain xs ys where as: "as = xs @ a # ys" by (auto dest: split_list)
    from Cons.prems obtain n where n: "c a = Some n" "seg c (Some a) (nxt n) as la None"
      by (auto simp: seg.simps(2))
    then obtain m where "seg c m (Some a) (a # ys) la None"
      by (auto simp: as seg_append seg.simps(2))
    with n(1) obtain l' where "seg c l' (nxt n) ys la None" by (auto simp: seg_Cons)
    with n(2) have "as = ys" by (rule seg_unique)
    with as show False by simp
  qed
  with d show ?case by simp
qed simp

lemma seg_data_simps [simp]:
  "seg_data c [] = []" "seg_data c (a # as) = dat (the (c a)) # seg_data c as"
  "seg_data c (as @ bs) = seg_data c as @ seg_data c bs"
  by (simp_all add: seg_data_def)

lemma seg_data_cong: "(\<And>a. a \<in> set as \<Longrightarrow> c a = c' a) \<Longrightarrow> seg_data c as = seg_data c' as"
  by (simp add: seg_data_def)

lemma seg_data_upd [simp]: "a \<notin> set as \<Longrightarrow> seg_data (c(a := x)) as = seg_data c as"
  by (simp add: seg_data_def)

lemma length_seg_data [simp]: "length (seg_data c as) = length as"
  by (simp add: seg_data_def)

text \<open>Changing the link fields of the boundary cells of a segment.\<close>

lemma seg_set_nxt_last:
  "seg c pr p (as @ [a]) la nx \<Longrightarrow> a \<notin> set as \<Longrightarrow> c a = Some n
     \<Longrightarrow> seg (c(a \<mapsto> n\<lparr>nxt := q\<rparr>)) pr p (as @ [a]) (Some a) q"
  by (auto simp: seg_append seg.simps(2))

lemma seg_set_prv_hd:
  "seg c pr p (a # as) la nx \<Longrightarrow> a \<notin> set as \<Longrightarrow> c a = Some n
     \<Longrightarrow> seg (c(a \<mapsto> n\<lparr>prv := q\<rparr>)) q (Some a) (a # as) la nx"
  by (auto simp: seg.simps(2))

section \<open>The primitive steps\<close>

lemma set_next_Some [heap_simps, simp]:
  "cells h a = Some n \<Longrightarrow> set_next h (Some a) q = Some (put_cell h a (n\<lparr>nxt := q\<rparr>))"
  by (simp add: set_next_def)

lemma set_prev_Some [heap_simps, simp]:
  "cells h a = Some n \<Longrightarrow> set_prev h (Some a) q = Some (put_cell h a (n\<lparr>prv := q\<rparr>))"
  by (simp add: set_prev_def)

lemma put_cell_simps [heap_simps, simp]:
  "cells (put_cell h a n) = (cells h)(a \<mapsto> n)" "brk (put_cell h a n) = brk h"
  by (simp_all add: put_cell_def)

lemma get_cell_Some [heap_simps, simp]: "get_cell h (Some a) = cells h a"
  by (simp add: get_cell_def)

lemma free_cell_simps [heap_simps, simp]:
  "cells (free_cell h (Some a)) = (cells h)(a := None)" "brk (free_cell h p) = brk h"
  by (simp_all add: free_cell_def split: option.splits)

lemma list_new_simps [heap_simps, simp]:
  "snd (belle_sip_list_new h d) = brk h"
  "cells (fst (belle_sip_list_new h d)) = (cells h)(brk h \<mapsto> \<lparr>nxt = None, prv = None, dat = d\<rparr>)"
  "brk (fst (belle_sip_list_new h d)) = Suc (brk h)"
  by (simp_all add: belle_sip_list_new_def)

lemma lrep_alive: "lrep h p as xs \<Longrightarrow> a \<in> set as \<Longrightarrow> \<exists>n. cells h a = Some n"
  by (auto simp: lrep_def dest: seg_alive)

lemma lrep_below: "lrep h p as xs \<Longrightarrow> a \<in> set as \<Longrightarrow> a < brk h"
  using lrep_alive unfolding lrep_def wf_heap_def by blast

lemma lrep_fresh: "lrep h p as xs \<Longrightarrow> brk h \<notin> set as"
  using lrep_below by blast

lemma lrep_NULL: "lrep h None as xs \<Longrightarrow> as = [] \<and> xs = []"
  by (auto simp: lrep_def dest: seg_None)

lemma lrep_Nil: "lrep h p [] xs \<Longrightarrow> p = None \<and> xs = []"
  by (auto simp: lrep_def)

lemma lrep_empty [simp]: "wf_heap h \<Longrightarrow> lrep h None [] []"
  by (simp add: lrep_def)

lemma lrep_length: "lrep h p as xs \<Longrightarrow> length as = length xs"
  by (simp add: lrep_def)

lemma lrep_hd: "lrep h p (a # as) xs \<Longrightarrow> p = Some a"
  by (auto simp: lrep_def seg.simps(2))


section \<open>Walking a list\<close>

lemma last_loop_seg:
  "seg (cells h) pr p as (Some a) None \<Longrightarrow> as \<noteq> [] \<Longrightarrow> last_loop h p = Some a"
proof (induction as arbitrary: pr p)
  case (Cons b as)
  then obtain n where n: "p = Some b" "cells h b = Some n"
    "seg (cells h) (Some b) (nxt n) as (Some a) None"
    by (auto simp: seg.simps(2))
  show ?case
  proof (cases as)
    case Nil
    with n show ?thesis by (simp add: last_loop.simps)
  next
    case (Cons d ds)
    with n(3) have "nxt n = Some d" by (simp add: seg.simps(2))
    with n Cons.IH[OF n(3)] Cons show ?thesis by (simp add: last_loop.simps)
  qed
qed simp

lemma last_loop_lrep: "lrep h p as xs \<Longrightarrow> as \<noteq> [] \<Longrightarrow> last_loop h p = Some (last as)"
  unfolding lrep_def by (metis last_loop_seg seg_last)

lemma find_custom_seg:
  "seg (cells h) pr p as la None \<Longrightarrow>
     belle_sip_list_find_custom h p P
       = Some (map_option (\<lambda>i. as ! i) (find_index P (seg_data (cells h) as)))"
proof (induction as arbitrary: pr p)
  case Nil
  then show ?case by (simp add: belle_sip_list_find_custom.simps)
next
  case (Cons a as)
  then show ?case
    by (auto simp: seg.simps(2) belle_sip_list_find_custom.simps option.map_comp comp_def)
qed

lemma find_custom_lrep:
  "lrep h p as xs \<Longrightarrow>
     belle_sip_list_find_custom h p P = Some (map_option (\<lambda>i. as ! i) (find_index P xs))"
  by (auto simp: lrep_def intro: find_custom_seg)

lemma size_loop_seg: "seg (cells h) pr p as la None \<Longrightarrow> size_loop h p n = Some (n + length as)"
  by (induction as arbitrary: pr p n) (auto simp: seg.simps(2) size_loop.simps)

lemma for_each2_seg:
  "seg (cells h) pr p as la None \<Longrightarrow>
     belle_sip_list_for_each2 h p f s = Some (fold f (seg_data (cells h) as) s)"
  by (induction as arbitrary: pr p s)
    (auto simp: seg.simps(2) belle_sip_list_for_each2.simps)

lemma nth_loop_seg:
  "seg (cells h) pr p as la None \<Longrightarrow> i \<le> k \<Longrightarrow>
     nth_loop h p i k = Some (if k - i < length as then Some (seg_data (cells h) as ! (k - i)) else None)"
proof (induction as arbitrary: pr p i)
  case Nil
  then show ?case by (simp add: nth_loop.simps)
next
  case (Cons a as)
  show ?case
  proof (cases "i = k")
    case True
    with Cons.prems show ?thesis by (auto simp: seg.simps(2) nth_loop.simps)
  next
    case False
    with Cons.prems have "Suc i \<le> k" by simp
    with Cons False show ?thesis
      by (auto simp: seg.simps(2) nth_loop.simps[of _ _ i] nth_Cons' Suc_diff_Suc)
  qed
qed

lemma index_loop_seg:
  "seg (cells h) pr p as la None \<Longrightarrow>
     index_loop h p d i = Some (case find_index (\<lambda>x. x = d) (seg_data (cells h) as) of
                                  None \<Rightarrow> -1 | Some k \<Rightarrow> i + int k)"
proof (induction as arbitrary: pr p i)
  case (Cons a as)
  then show ?case
    by (auto simp: seg.simps(2) index_loop.simps split: option.splits)
qed (simp add: index_loop.simps)

lemma position_loop_seg:
  "seg (cells h) pr p as la None \<Longrightarrow>
     position_loop h p (Some e) i = Some (case find_index (\<lambda>x. x = e) as of
                                  None \<Rightarrow> -1 | Some k \<Rightarrow> i + int k)"
proof (induction as arbitrary: pr p i)
  case (Cons a as)
  then show ?case
    by (auto simp: seg.simps(2) position_loop.simps split: option.splits)
qed (simp add: position_loop.simps)

section \<open>Linking and unlinking cells\<close>

text \<open>Appending one segment to another: \<^verbatim>\<open>append_link\<close>, \<^verbatim>\<open>append\<close> and \<^verbatim>\<open>concat\<close>.\<close>

lemma link_segs:
  assumes "seg c None p (as @ [a]) la None" and "seg c pr' (Some b) (b # bs) lb None"
    and "distinct ((as @ [a]) @ (b # bs))" and "c a = Some n" and "c b = Some m"
  shows "seg (c(a \<mapsto> n\<lparr>nxt := Some b\<rparr>, b \<mapsto> m\<lparr>prv := Some a\<rparr>)) None p ((as @ [a]) @ (b # bs)) lb None"
proof -
  let ?c = "c(a \<mapsto> n\<lparr>nxt := Some b\<rparr>)"
  from assms have 1: "seg ?c None p (as @ [a]) (Some a) (Some b)"
    by (intro seg_set_nxt_last) auto
  from assms have 2: "seg ?c pr' (Some b) (b # bs) lb None" "?c b = Some m"
    by (auto simp: fun_upd_def[symmetric])
  from 1 assms(3) have "seg (?c(b \<mapsto> m\<lparr>prv := Some a\<rparr>)) None p (as @ [a]) (Some a) (Some b)"
    by (subst seg_upd) auto
  moreover from 2 assms(3)
  have "seg (?c(b \<mapsto> m\<lparr>prv := Some a\<rparr>)) (Some a) (Some b) (b # bs) lb None"
    by (intro seg_set_prv_hd) auto
  ultimately show ?thesis
    using seg_append by blast
qed

lemma seg_data_links:
  "c a = Some n \<Longrightarrow> dat n' = dat n \<Longrightarrow> seg_data (c(a \<mapsto> n')) as = seg_data c as"
  by (auto simp: seg_data_def)

lemma wf_heap_put: "wf_heap h \<Longrightarrow> cells h a \<noteq> None \<Longrightarrow> wf_heap (put_cell h a n)"
  by (auto simp: wf_heap_def)

lemma heap_frame_refl [simp]: "heap_frame A h h"
  by (simp add: heap_frame_def)

lemma concat_lrep:
  assumes 1: "lrep h p as xs" and 2: "lrep h q bs ys" and d: "set as \<inter> set bs = {}"
  shows "\<exists>h' r. belle_sip_list_concat h p q = Some (h', r) \<and> lrep h' r (as @ bs) (xs @ ys)
     \<and> heap_frame (set as \<union> set bs) h h'"
proof (cases "p = None \<or> q = None")
  case True
  with 1 2 show ?thesis
    unfolding belle_sip_list_concat_def using lrep_NULL by fastforce
next
  case False
  then have ne: "as \<noteq> []" "bs \<noteq> []" using 1 2 by (auto simp: lrep_def)
  then obtain as' a where as: "as = as' @ [a]" by (cases as rule: rev_cases) auto
  from ne obtain b bs' where bs: "bs = b # bs'" by (cases bs) auto
  from 2 bs have q: "q = Some b" by (auto dest: lrep_hd)
  from 1 2 as bs obtain n m where nm: "cells h a = Some n" "cells h b = Some m"
    using lrep_alive by (metis in_set_conv_decomp list.set_intros(1))
  from d as bs have ab: "a \<noteq> b" by auto
  let ?h' = "put_cell (put_cell h a (n\<lparr>nxt := Some b\<rparr>)) b (m\<lparr>prv := Some a\<rparr>)"
  have run: "belle_sip_list_concat h p q = Some (?h', p)"
    using False nm ab q last_loop_lrep[OF 1 ne(1)] as
    by (simp add: belle_sip_list_concat_def)
  from 1 2 d as bs obtain la lb where
    "seg (cells h) None p (as' @ [a]) la None" "seg (cells h) None (Some b) (b # bs') lb None"
    "distinct ((as' @ [a]) @ b # bs')"
    by (auto simp: lrep_def seg_Cons seg.simps(2))
  from link_segs[OF this nm] have "seg (cells ?h') None p (as @ bs) lb None"
    by (simp add: as bs)
  moreover have "seg_data (cells ?h') (as @ bs) = xs @ ys"
    using 1 2 nm ab by (simp add: lrep_def seg_data_links)
  moreover have "wf_heap ?h'" using 1 nm by (auto simp: lrep_def intro!: wf_heap_put)
  ultimately have "lrep ?h' p (as @ bs) (xs @ ys)"
    using 1 2 d by (auto simp: lrep_def)
  moreover have "heap_frame (set as \<union> set bs) h ?h'"
    by (auto simp: heap_frame_def as bs)
  ultimately show ?thesis using run by blast
qed

lemma append_link_concat: "belle_sip_list_append_link h p q = belle_sip_list_concat h p q"
  by (simp add: belle_sip_list_append_link_def belle_sip_list_concat_def)

lemma lrep_list_new:
  assumes "lrep h p as xs"
  shows "lrep (fst (belle_sip_list_new h d)) p as xs"
    and "lrep (fst (belle_sip_list_new h d)) (Some (brk h)) [brk h] [d]"
  using assms lrep_fresh[OF assms]
  by (auto simp: lrep_def wf_heap_def seg.simps(2) less_Suc_eq)

lemma heap_frame_new:
  "heap_frame (insert (brk h) A) (fst (belle_sip_list_new h d)) h' \<Longrightarrow> heap_frame A h h'"
  by (auto simp: heap_frame_def)

lemma append_lrep:
  assumes "lrep h p as xs"
  shows "\<exists>h' r. belle_sip_list_append h p d = Some (h', r) \<and> lrep h' r (as @ [brk h]) (xs @ [d])
     \<and> heap_frame (set as) h h'"
proof -
  have dis: "set as \<inter> set [brk h] = {}" using lrep_fresh[OF assms] by simp
  from concat_lrep[OF lrep_list_new[OF assms, of d] dis] obtain h' r where
    "belle_sip_list_append h p d = Some (h', r)" "lrep h' r (as @ [brk h]) (xs @ [d])"
    "heap_frame (insert (brk h) (set as)) (fst (belle_sip_list_new h d)) h'"
    by (auto simp: belle_sip_list_append_def append_link_concat belle_sip_list_new_def)
  then show ?thesis by (auto dest: heap_frame_new)
qed


lemma prepend_lrep:
  assumes "lrep h p as xs"
  shows "\<exists>h' r. belle_sip_list_prepend h p d = Some (h', r) \<and> lrep h' r (brk h # as) (d # xs)
     \<and> heap_frame (set as) h h'"
proof (cases "p = None")
  case True
  with assms have "as = []" "xs = []" by (auto dest: lrep_NULL)
  with True lrep_list_new(2)[OF assms, of d] show ?thesis
    by (auto simp: belle_sip_list_prepend_def belle_sip_list_new_def heap_frame_def)
next
  case False
  then obtain b bs where as: "as = b # bs" using assms by (cases as) (auto simp: lrep_def)
  with assms have p: "p = Some b" by (auto dest: lrep_hd)
  let ?h = "fst (belle_sip_list_new h d)"
  have new: "lrep ?h (Some (brk h)) [brk h] [d]" "lrep ?h p as xs"
    using lrep_list_new[OF assms] by auto
  from as lrep_fresh[OF assms] have dis: "set [brk h] \<inter> set as = {}" by auto
  from concat_lrep[OF new dis] have
    "\<exists>h' r. belle_sip_list_concat ?h (Some (brk h)) p = Some (h', r)
       \<and> lrep h' r (brk h # as) (d # xs) \<and> heap_frame (insert (brk h) (set as)) ?h h'"
    by auto
  moreover have "belle_sip_list_prepend h p d = belle_sip_list_concat ?h (Some (brk h)) p"
    by (simp add: belle_sip_list_prepend_def belle_sip_list_concat_def belle_sip_list_new_def
          p last_loop.simps)
  ultimately show ?thesis by (auto dest: heap_frame_new)
qed

text \<open>
  Unlinking a cell: its neighbours are joined, its own links cleared, and the rest of the
  heap left alone.
\<close>

lemma unlink_middle:
  assumes "seg c None p (as @ [a, e]) la q" and "seg c la q bs lb None"
    and "distinct (as @ [a, e] @ bs)" and "c a = Some n" and "c e = Some m"
  shows "seg (c(a \<mapsto> n\<lparr>nxt := nxt m\<rparr>)) None p (as @ [a]) (Some a) q"
    and "prv m = Some a" and "nxt m = q" and "la = Some e"
proof -
  from assms(1,4,5) show "prv m = Some a" "nxt m = q" "la = Some e"
    by (auto simp: seg_append seg.simps(2))
  moreover from assms(1,4) obtain la' where "seg c None p (as @ [a]) la' (Some e)"
    by (auto simp: seg_append seg.simps(2))
  ultimately show "seg (c(a \<mapsto> n\<lparr>nxt := nxt m\<rparr>)) None p (as @ [a]) (Some a) q"
    using assms(3,4) by (auto intro: seg_set_nxt_last)
qed

definition unlinked :: "'a lheap \<Rightarrow> 'a lheap \<Rightarrow> addr \<Rightarrow> bool" where
  "unlinked h h' e \<longleftrightarrow>
     (\<exists>n m. cells h e = Some n \<and> cells h' e = Some m \<and> nxt m = None \<and> prv m = None \<and> dat m = dat n)"

lemma remove_link_head:
  assumes rep: "lrep h p (e # bs) xs"
  shows "\<exists>h' r. belle_sip_list_remove_link h p (Some e) = Some (h', r) \<and> lrep h' r bs (tl xs)
     \<and> unlinked h h' e \<and> heap_frame (set (e # bs)) h h' \<and> brk h' = brk h"
proof -
  from rep have p: "p = Some e" by (rule lrep_hd)
  from rep obtain n lb where n: "cells h e = Some n" "prv n = None"
    and sg: "seg (cells h) (Some e) (nxt n) bs lb None" and dis: "e \<notin> set bs" "distinct bs"
    and xs: "xs = dat n # seg_data (cells h) bs" and wf: "wf_heap h"
    by (auto simp: lrep_def seg.simps(2))
  let ?h1 = "put_cell h e (n\<lparr>prv := None, nxt := None\<rparr>)"
  show ?thesis
  proof (cases bs)
    case Nil
    with sg have "nxt n = None" by simp
    then have "belle_sip_list_remove_link h p (Some e) = Some (?h1, None)"
      using n by (simp add: belle_sip_list_remove_link_def p put_cell_def)
    with Nil wf n xs show ?thesis
      by (auto simp: lrep_def unlinked_def heap_frame_def intro!: wf_heap_put)
  next
    case (Cons b bs')
    with sg have q: "nxt n = Some b" by (simp add: seg.simps(2))
    from sg Cons q obtain m where m: "cells h b = Some m" by (auto simp: seg_Cons)
    from Cons dis have eb: "e \<noteq> b" by auto
    let ?h2 = "put_cell ?h1 b (m\<lparr>prv := None\<rparr>)"
    have run: "belle_sip_list_remove_link h p (Some e) = Some (?h2, Some b)"
      using n m q eb by (simp add: belle_sip_list_remove_link_def p put_cell_def)
    have "seg (cells ?h1) (Some e) (Some b) (b # bs') lb None"
      using sg q Cons dis by simp
    then have "seg (cells ?h2) None (Some b) bs lb None"
      using seg_set_prv_hd[of "cells ?h1" "Some e" "Some b" b bs' lb None m None] m eb dis Cons
      by simp
    moreover have "seg_data (cells ?h2) bs = tl xs"
      using xs m eb dis by (simp add: seg_data_links)
    moreover have "wf_heap ?h2" using wf n m eb by (auto simp: wf_heap_def)
    ultimately have "lrep ?h2 (Some b) bs (tl xs)" using dis by (auto simp: lrep_def)
    moreover have "unlinked h ?h2 e" using n eb by (simp add: unlinked_def)
    moreover have "heap_frame (set (e # bs)) h ?h2" by (auto simp: heap_frame_def Cons)
    ultimately show ?thesis using run by auto
  qed
qed

lemma remove_link_inner:
  assumes rep: "lrep h p (as @ [a, e] @ bs) xs"
  shows "\<exists>h'. belle_sip_list_remove_link h p (Some e) = Some (h', p)
     \<and> lrep h' p (as @ [a] @ bs) (take (Suc (length as)) xs @ drop (Suc (Suc (length as))) xs)
     \<and> unlinked h h' e \<and> heap_frame (set (as @ [a, e] @ bs)) h h' \<and> brk h' = brk h"
proof -
  let ?c = "cells h"
  from rep obtain la q lb where
    s1: "seg ?c None p (as @ [a, e]) la q" and s2: "seg ?c la q bs lb None"
    and dis: "distinct (as @ [a, e] @ bs)" and wf: "wf_heap h"
    and xs: "xs = seg_data ?c as @ [dat (the (?c a)), dat (the (?c e))] @ seg_data ?c bs"
    by (auto simp: lrep_def seg_append seg.simps(2))
  from rep obtain n m where n: "?c a = Some n" and m: "?c e = Some m"
    using lrep_alive[OF rep, of a] lrep_alive[OF rep, of e] by auto
  note um = unlink_middle[OF s1 s2 dis n m]
  from s1 dis have pe: "p \<noteq> Some e" by (cases as) (auto simp: seg.simps(2))
  from dis have ae: "a \<noteq> e" by auto
  let ?h1 = "put_cell h a (n\<lparr>nxt := q\<rparr>)"
  have tail: "\<exists>h'. belle_sip_list_remove_link h p (Some e) = Some (h', p) \<and> brk h' = brk h
     \<and> (\<forall>b. b \<notin> insert e (set bs) \<longrightarrow> cells h' b = cells ?h1 b)
     \<and> cells h' e = Some (m\<lparr>nxt := None, prv := None\<rparr>)
     \<and> seg (cells h') (Some a) q bs (if bs = [] then Some a else lb) None
     \<and> seg_data (cells h') bs = seg_data ?c bs \<and> (\<forall>b. cells h' b \<noteq> None \<longrightarrow> ?c b \<noteq> None)"
  proof (cases bs)
    case Nil
    with s2 have "q = None" by simp
    with Nil n m ae pe um show ?thesis
      by (auto simp: belle_sip_list_remove_link_def put_cell_def)
  next
    case (Cons b bs')
    with s2 have q: "q = Some b" by (simp add: seg.simps(2))
    with s2 Cons obtain k where k: "?c b = Some k" by (auto simp: seg_Cons)
    from Cons dis have ne: "b \<noteq> a" "b \<noteq> e" "a \<notin> set bs'" "e \<notin> set bs'" "b \<notin> set bs'" by auto
    from s2 Cons q ne have "seg (?c(a \<mapsto> n\<lparr>nxt := q\<rparr>)) la (Some b) (b # bs') lb None"
      by (auto simp: seg_Cons)
    then have "seg (?c(a \<mapsto> n\<lparr>nxt := q\<rparr>, b \<mapsto> k\<lparr>prv := Some a\<rparr>)) (Some a) (Some b) bs lb None"
      using seg_set_prv_hd[of "?c(a \<mapsto> n\<lparr>nxt := q\<rparr>)" la "Some b" b bs' lb None k "Some a"]
        Cons k ne by auto
    moreover have "seg_data (?c(a \<mapsto> n\<lparr>nxt := q\<rparr>, b \<mapsto> k\<lparr>prv := Some a\<rparr>)) bs = seg_data ?c bs"
      using n k ne by (simp add: seg_data_links)
    ultimately show ?thesis using Cons n m k ae pe um q ne
      by (auto simp: belle_sip_list_remove_link_def put_cell_def)
  qed
  then obtain h' where run: "belle_sip_list_remove_link h p (Some e) = Some (h', p)"
    and b: "brk h' = brk h" and same: "\<And>b. b \<notin> insert e (set bs) \<Longrightarrow> cells h' b = cells ?h1 b"
    and e': "cells h' e = Some (m\<lparr>nxt := None, prv := None\<rparr>)"
    and s3: "seg (cells h') (Some a) q bs (if bs = [] then Some a else lb) None"
    and dt: "seg_data (cells h') bs = seg_data ?c bs"
    and al: "\<And>b. cells h' b \<noteq> None \<Longrightarrow> ?c b \<noteq> None"
    by blast
  have "seg (cells h') None p (as @ [a]) (Some a) q"
  proof (subst seg_cong)
    show "cells h' b = (?c(a \<mapsto> n\<lparr>nxt := q\<rparr>)) b" if "b \<in> set (as @ [a])" for b
    proof -
      from that dis have "b \<notin> insert e (set bs)" by auto
      with same[of b] show ?thesis by simp
    qed
    show "seg (?c(a \<mapsto> n\<lparr>nxt := q\<rparr>)) None p (as @ [a]) (Some a) q"
      using um by simp
  qed
  with s3 have "\<exists>l. seg (cells h') None p (as @ [a] @ bs) l None"
    by (metis append_assoc seg_append)
  moreover have "seg_data (cells h') as = seg_data ?c as"
  proof (rule seg_data_cong)
    fix b assume "b \<in> set as"
    with dis have "b \<notin> insert e (set bs)" "b \<noteq> a" by auto
    with same[of b] show "cells h' b = ?c b" by simp
  qed
  moreover have "dat (the (cells h' a)) = dat n" using same[of a] dis n by simp
  ultimately have "lrep h' p (as @ [a] @ bs)
      (take (Suc (length as)) xs @ drop (Suc (Suc (length as))) xs)"
    using dis wf al b dt n unfolding lrep_def wf_heap_def by (auto simp: xs)
  moreover have "heap_frame (set (as @ [a, e] @ bs)) h h'"
    using same b by (auto simp: heap_frame_def)
  moreover have "unlinked h h' e" using m e' by (simp add: unlinked_def)
  ultimately show ?thesis using run b by blast
qed

lemma remove_link_lrep:
  assumes "lrep h p as xs" and "i < length as"
  shows "\<exists>h' r. belle_sip_list_remove_link h p (Some (as ! i)) = Some (h', r)
     \<and> lrep h' r (take i as @ drop (Suc i) as) (take i xs @ drop (Suc i) xs)
     \<and> unlinked h h' (as ! i) \<and> heap_frame (set as) h h' \<and> brk h' = brk h"
proof (cases i)
  case 0
  with assms obtain e bs where "as = e # bs" by (cases as) auto
  with 0 assms(1) remove_link_head[of h p e bs xs] show ?thesis
    by (cases xs) (auto dest: lrep_length)
next
  case (Suc j)
  with assms(2) have split: "as = take j as @ [as ! j, as ! i] @ drop (Suc i) as"
    by (metis Cons_nth_drop_Suc Suc_lessD append_Cons append_Nil append_take_drop_id)
  then have set_as: "set (take j as @ [as ! j, as ! i] @ drop (Suc i) as) = set as" by metis
  from split assms(1) have "lrep h p (take j as @ [as ! j, as ! i] @ drop (Suc i) as) xs" by simp
  from remove_link_inner[OF this, unfolded set_as] Suc assms(2) show ?thesis
    by (auto simp: take_Suc_conv_app_nth min_def)
qed


section \<open>Deleting\<close>

lemma wf_heap_free: "wf_heap h \<Longrightarrow> wf_heap (free_cell h p)"
  by (auto simp: wf_heap_def free_cell_def split: option.splits)

lemma lrep_free_cell: "lrep h p as xs \<Longrightarrow> a \<notin> set as \<Longrightarrow> lrep (free_cell h (Some a)) p as xs"
  by (auto simp: lrep_def wf_heap_free)

lemma delete_link_lrep:
  assumes rep: "lrep h p as xs" and i: "i < length as"
  shows "\<exists>h' r. belle_sip_list_delete_link h p (Some (as ! i)) = Some (h', r)
     \<and> lrep h' r (take i as @ drop (Suc i) as) (take i xs @ drop (Suc i) xs)
     \<and> cells h' (as ! i) = None \<and> heap_frame (set as) h h' \<and> brk h' = brk h"
proof -
  from remove_link_lrep[OF rep i] obtain h1 r where
    run: "belle_sip_list_remove_link h p (Some (as ! i)) = Some (h1, r)"
    and rep1: "lrep h1 r (take i as @ drop (Suc i) as) (take i xs @ drop (Suc i) xs)"
    and fr: "heap_frame (set as) h h1" and b: "brk h1 = brk h" by blast
  from rep have "distinct as" by (simp add: lrep_def)
  then have "distinct (take i as @ as ! i # drop (Suc i) as)"
    using i by (simp add: id_take_nth_drop[symmetric])
  then have "as ! i \<notin> set (take i as @ drop (Suc i) as)" by simp
  from lrep_free_cell[OF rep1 this] fr b i show ?thesis
    by (auto simp: belle_sip_list_delete_link_def run heap_frame_def)
qed

lemma remove_first_index:
  "find_index P xs = Some i \<Longrightarrow> remove_first P xs = take i xs @ drop (Suc i) xs"
  by (induction xs arbitrary: i) (auto split: if_splits)

lemma delete_custom_lrep:
  assumes rep: "lrep h p as xs"
  shows "\<exists>h' r as'. belle_sip_list_delete_custom h p P = Some (h', r)
     \<and> lrep h' r as' (remove_first P xs) \<and> set as' \<subseteq> set as \<and> heap_frame (set as) h h'"
proof (cases "find_index P xs")
  case None
  then have "remove_first P xs = xs" by (simp add: find_index_None)
  with None rep show ?thesis
    by (auto simp: belle_sip_list_delete_custom_def find_custom_lrep[OF rep])
next
  case (Some i)
  then have "i < length as" using find_index_Some lrep_length[OF rep] by fastforce
  from delete_link_lrep[OF rep this] Some show ?thesis
    by (fastforce simp: belle_sip_list_delete_custom_def find_custom_lrep[OF rep]
          remove_first_index dest: in_set_takeD in_set_dropD)
qed

lemma remove_lrep:
  assumes "lrep h p as xs"
  shows "\<exists>h' r as'. belle_sip_list_remove h p d = Some (h', r)
     \<and> lrep h' r as' (remove1 d xs) \<and> set as' \<subseteq> set as \<and> heap_frame (set as) h h'"
  using delete_custom_lrep[OF assms, of "\<lambda>x. x = d"]
  by (simp add: belle_sip_list_remove_def belle_sip_list_delete_custom_def
        belle_sip_list_find_def remove_first_remove1)

lemma pop_front_lrep:
  assumes rep: "lrep h p as (x # xs)"
  shows "\<exists>h' r. belle_sip_list_pop_front h p = Some (h', r, Some x)
     \<and> lrep h' r (tl as) xs \<and> heap_frame (set as) h h'"
proof -
  from rep obtain a bs where as: "as = a # bs" by (cases as) (auto dest: lrep_length)
  with rep have p: "p = Some a" by (auto dest: lrep_hd)
  from rep as obtain n where n: "cells h a = Some n" "dat n = x"
    by (auto simp: lrep_def seg_Cons seg.simps(2))
  from delete_link_lrep[OF rep, of 0] as obtain h' r where
    "belle_sip_list_delete_link h p (Some a) = Some (h', r)" "lrep h' r bs xs"
    "heap_frame (set as) h h'" by auto
  with as p n show ?thesis
    by (auto simp: belle_sip_list_pop_front_def belle_sip_list_delete_link_def
          split: Option.bind_splits prod.splits)
qed

text \<open>\<^verbatim>\<open>free_with_data\<close> hands every datum, in order, to \<^verbatim>\<open>freefunc\<close>, and leaves no cell.\<close>

lemma free_loop_seg:
  "seg (cells h) pr p as la None \<Longrightarrow> distinct as \<Longrightarrow> as \<noteq> [] \<Longrightarrow>
     \<exists>h'. free_loop h p fr = Some (h', fr @ seg_data (cells h) as)
       \<and> (\<forall>a. cells h' a = (if a \<in> set as then None else cells h a)) \<and> brk h' = brk h"
proof (induction as arbitrary: h pr p fr)
  case (Cons a as)
  then obtain n where n: "p = Some a" "cells h a = Some n"
    "seg (cells h) (Some a) (nxt n) as la None" "a \<notin> set as" "distinct as"
    by (auto simp: seg.simps(2))
  show ?case
  proof (cases "as = []")
    case True
    with n show ?thesis by (simp add: free_loop.simps)
  next
    case False
    with n(3) have nx: "nxt n \<noteq> None" by (auto dest: seg_None)
    let ?h1 = "free_cell h (Some a)"
    from n have "seg (cells ?h1) (Some a) (nxt n) as la None" by simp
    from Cons.IH[OF this n(5) False, of "fr @ [dat n]"]
    obtain h' where run: "free_loop ?h1 (nxt n) (fr @ [dat n])
        = Some (h', (fr @ [dat n]) @ seg_data (cells ?h1) as)"
      and c: "\<forall>b. cells h' b = (if b \<in> set as then None else cells ?h1 b)"
      and b: "brk h' = brk ?h1" by blast
    from n have "seg_data (cells ?h1) as = seg_data (cells h) as" by simp
    with n nx run have "free_loop h p fr = Some (h', fr @ seg_data (cells h) (a # as))"
      by (simp add: free_loop.simps[of h "Some a"])
    with c b show ?thesis by auto
  qed
qed simp

lemma free_with_data_lrep:
  assumes "lrep h p as xs"
  shows "\<exists>h'. belle_sip_list_free_with_data h p = Some (h', xs)
     \<and> (\<forall>a. cells h' a = (if a \<in> set as then None else cells h a)) \<and> brk h' = brk h"
proof (cases "as = []")
  case True
  with assms show ?thesis by (auto simp: belle_sip_list_free_with_data_def dest: lrep_Nil)
next
  case False
  have "p \<noteq> None" using False assms by (cases p) (auto dest: lrep_NULL)
  moreover from assms obtain la where
    sg: "seg (cells h) None p as la None" "distinct as" "xs = seg_data (cells h) as"
    by (auto simp: lrep_def)
  from free_loop_seg[OF sg(1,2) False, of "[]"] obtain h' where
    "free_loop h p [] = Some (h', xs)" "brk h' = brk h"
    "\<forall>a. cells h' a = (if a \<in> set as then None else cells h a)"
    by (auto simp: sg(3))
  ultimately show ?thesis by (auto simp: belle_sip_list_free_with_data_def)
qed

section \<open>Copying\<close>

lemma copy_loop_seg:
  "seg (cells h) pr p as la None \<Longrightarrow> lrep h q bs ys \<Longrightarrow> set as \<inter> set bs = {} \<Longrightarrow>
     (\<forall>a\<in>set as. a < brk h) \<Longrightarrow>
     \<exists>h' r cs. copy_loop h q p f = Some (h', r) \<and> lrep h' r cs (ys @ map f (seg_data (cells h) as))
       \<and> heap_frame (set bs) h h' \<and> set cs \<subseteq> set bs \<union> {brk h..}"
proof (induction as arbitrary: h pr p q bs ys)
  case Nil
  then show ?case by (auto simp: copy_loop.simps)
next
  case (Cons a as)
  then obtain n where n: "p = Some a" "cells h a = Some n"
    "seg (cells h) (Some a) (nxt n) as la None" by (auto simp: seg.simps(2))
  from append_lrep[OF Cons.prems(2)] obtain h1 q1 where
    ap: "belle_sip_list_append h q (f (dat n)) = Some (h1, q1)"
    and rep1: "lrep h1 q1 (bs @ [brk h]) (ys @ [f (dat n)])" and fr: "heap_frame (set bs) h h1"
    by blast
  have same: "cells h1 b = cells h b" if "b \<in> set (a # as)" for b
    using that fr Cons.prems(3,4) by (auto simp: heap_frame_def)
  have dis: "set as \<inter> set (bs @ [brk h]) = {}" using Cons.prems(3,4) by auto
  have sg: "seg (cells h1) (Some a) (nxt n) as la None"
    using n(3) same by (subst seg_cong[where c' = "cells h"]) auto
  have below: "\<forall>a\<in>set as. a < brk h1"
    using Cons.prems(4) fr by (fastforce simp: heap_frame_def)
  from Cons.IH[OF sg rep1 dis below] obtain h' r cs where
    h': "copy_loop h1 q1 (nxt n) f = Some (h', r)"
    "lrep h' r cs ((ys @ [f (dat n)]) @ map f (seg_data (cells h1) as))"
    "heap_frame (set (bs @ [brk h])) h1 h'" "set cs \<subseteq> set (bs @ [brk h]) \<union> {brk h1..}"
    by blast
  have "seg_data (cells h1) as = seg_data (cells h) as" using same by (intro seg_data_cong) auto
  moreover have "heap_frame (set bs) h h'" using fr h'(3) by (auto simp: heap_frame_def)
  moreover have "copy_loop h q p f = Some (h', r)"
    using n ap h'(1) same[of a] by (simp add: copy_loop.simps[of h])
  moreover have "set cs \<subseteq> set bs \<union> {brk h..}"
    using h'(4) fr by (fastforce simp: heap_frame_def)
  ultimately show ?case using h' n by auto
qed

lemma copy_with_data_lrep:
  assumes rep: "lrep h p as xs"
  shows "\<exists>h' r cs. belle_sip_list_copy_with_data h p f = Some (h', r) \<and> lrep h' r cs (map f xs)
     \<and> lrep h' p as xs \<and> set cs \<inter> set as = {}"
proof -
  from rep obtain la where sg: "seg (cells h) None p as la None" and wf: "wf_heap h"
    by (auto simp: lrep_def)
  have below: "\<forall>a\<in>set as. a < brk h" using lrep_below[OF rep] by blast
  from copy_loop_seg[OF sg lrep_empty[OF wf] _ below, of f] obtain h' r cs where
    h': "copy_loop h None p f = Some (h', r)" "lrep h' r cs (map f (seg_data (cells h) as))"
    "heap_frame {} h h'" "set cs \<subseteq> {brk h..}" by auto
  have same: "cells h' a = cells h a" if "a \<in> set as" for a
    using that below h'(3) by (auto simp: heap_frame_def)
  have "seg (cells h') None p as la None"
    using sg same by (subst seg_cong[where c' = "cells h"]) auto
  moreover have "seg_data (cells h') as = seg_data (cells h) as"
    using same by (intro seg_data_cong) auto
  ultimately have "lrep h' p as xs" using rep h'(2) by (auto simp: lrep_def)
  moreover have "set cs \<inter> set as = {}" using h'(4) below by fastforce
  ultimately show ?thesis using h' rep
    by (auto simp: belle_sip_list_copy_with_data_def lrep_def)
qed


section \<open>Inserting\<close>

text \<open>The links written when a new cell \<open>e\<close> goes in front of cell \<open>b\<close>.\<close>

definition link_before :: "'a lheap \<Rightarrow> addr \<Rightarrow> addr \<Rightarrow> 'a lheap option" where
  "link_before h e b = do {
     n \<leftarrow> cells h b;
     h \<leftarrow> set_prev h (Some e) (prv n);
     h \<leftarrow> set_next h (Some e) (Some b);
     h \<leftarrow> (if prv n \<noteq> None then set_next h (prv n) (Some e) else Some h);
     set_prev h (Some b) (Some e) }"

lemma link_before_lrep:
  assumes rep: "lrep h p (as @ b # bs) (xs @ ys)" and e: "lrep h (Some e) [e] [d]"
    and fresh: "e \<notin> set (as @ b # bs)" and len: "length as = length xs"
  shows "\<exists>h'. link_before h e b = Some h'
     \<and> lrep h' (if as = [] then Some e else p) (as @ e # b # bs) (xs @ d # ys)
     \<and> heap_frame (insert e (set (as @ b # bs))) h h'"
proof -
  let ?c = "cells h"
  from rep obtain m q lb where s1: "seg ?c None p as m q" and s2: "seg ?c m q (b # bs) lb None"
    and dis: "distinct (as @ b # bs)" and wf: "wf_heap h"
    and dt: "xs @ ys = seg_data ?c as @ seg_data ?c (b # bs)"
    by (auto simp: lrep_def seg_append)
  from dt len have xs: "xs = seg_data ?c as" and ys: "ys = seg_data ?c (b # bs)"
    by (simp_all add: append_eq_append_conv)
  from e obtain k where k: "?c e = Some k" "dat k = d" by (auto simp: lrep_def seg_Cons)
  from s2 obtain n where n: "?c b = Some n" "prv n = m" "q = Some b"
    "seg ?c (Some b) (nxt n) bs lb None" by (auto simp: seg.simps(2))
  from fresh dis have ne: "e \<noteq> b" "e \<notin> set bs" "b \<notin> set bs" "b \<notin> set as" "e \<notin> set as" by auto
  let ?k = "k\<lparr>prv := m, nxt := Some b\<rparr>" and ?n = "n\<lparr>prv := Some e\<rparr>"
  have rest: "seg (c'(e \<mapsto> ?k, b \<mapsto> ?n)) m (Some e) (e # b # bs) lb None"
    if "\<And>a. a \<in> set bs \<Longrightarrow> c' a = ?c a" for c'
    using n(4) ne that by (auto simp: seg_Cons seg_cong[of bs c' ?c])
  show ?thesis
  proof (cases as rule: rev_cases)
    case Nil
    with s1 have m: "m = None" by simp
    let ?h' = "put_cell (put_cell h e ?k) b ?n"
    have "link_before h e b = Some ?h'"
      using k n ne m by (simp add: link_before_def put_cell_def)
    moreover from rest[of ?c] m have "seg (cells ?h') None (Some e) (e # b # bs) lb None" by simp
    moreover have "wf_heap ?h'" using wf k n ne by (auto simp: wf_heap_def)
    ultimately show ?thesis using Nil dis fresh k n ne xs ys
      by (auto simp: lrep_def heap_frame_def)
  next
    case (snoc as' a)
    then obtain j where j: "?c a = Some j" using s1 seg_alive by fastforce
    from snoc s1 have m: "m = Some a" by (auto simp: seg_append seg.simps(2))
    from snoc fresh dis have ne': "a \<noteq> e" "a \<noteq> b" "a \<notin> set bs" "a \<notin> set as'" "e \<notin> set as'" "b \<notin> set as'"
      by auto
    let ?j = "j\<lparr>nxt := Some e\<rparr>"
    let ?h' = "put_cell (put_cell (put_cell h e ?k) a ?j) b ?n"
    have run: "link_before h e b = Some ?h'"
      using k n ne ne' j m by (simp add: link_before_def put_cell_def)
    have c': "cells ?h' = (?c(a \<mapsto> ?j))(e \<mapsto> ?k, b \<mapsto> ?n)"
      using ne' by (auto simp: fun_upd_def)
    from s1 snoc j ne' have "seg (?c(a \<mapsto> ?j)) None p as (Some a) (Some e)"
      by (auto intro: seg_set_nxt_last)
    then have "seg (cells ?h') None p as (Some a) (Some e)"
      by (simp only: c' seg_upd[OF ne(4)] seg_upd[OF ne(5)])
    moreover have "seg ((?c(a \<mapsto> ?j))(e \<mapsto> ?k, b \<mapsto> ?n)) m (Some e) (e # b # bs) lb None"
      by (rule rest) (use ne' in auto)
    then have "seg (cells ?h') (Some a) (Some e) (e # b # bs) lb None" unfolding c' by (simp only: m)
    ultimately have "seg (cells ?h') None p (as @ e # b # bs) lb None" using seg_append by blast
    moreover have "seg_data (cells ?h') as = xs" "seg_data (cells ?h') (b # bs) = ys"
      using snoc xs ys ne ne' n j by (simp_all add: c' seg_data_links)
    moreover have "wf_heap ?h'" using wf k n ne ne' j by (auto simp: wf_heap_def)
    ultimately show ?thesis using run snoc dis fresh k ne ne'
      by (auto simp: lrep_def heap_frame_def c')
  qed
qed

text \<open>Where \<^verbatim>\<open>insert_sorted\<close> puts the new datum.\<close>

definition insert_pos :: "('a \<Rightarrow> 'a \<Rightarrow> int) \<Rightarrow> 'a \<Rightarrow> 'a list \<Rightarrow> 'a list" where
  "insert_pos cmp d xs = takeWhile (\<lambda>x. 0 < cmp d x) xs @ d # dropWhile (\<lambda>x. 0 < cmp d x) xs"

lemma insert_sorted_loop_unfold:
  "cells h a = Some n \<Longrightarrow> e \<noteq> a \<Longrightarrow> (prv n \<noteq> Some e) \<Longrightarrow> (\<forall>b. prv n = Some b \<longrightarrow> b \<noteq> a) \<Longrightarrow>
   insert_sorted_loop h ret (Some a) pv e d cmp =
     (if cmp d (dat n) \<le> 0
      then do { h \<leftarrow> link_before h e a; Some (h, if prv n = None then Some e else ret) }
      else insert_sorted_loop h ret (nxt n) (Some a) e d cmp)"
  by (subst insert_sorted_loop.simps)
    (auto simp: link_before_def split: Option.bind_splits)

lemma insert_sorted_loop_lrep:
  assumes rep: "lrep h p (as @ bs) (xs @ ys)" and e: "lrep h (Some e) [e] [d]"
    and fresh: "e \<notin> set (as @ bs)" and len: "length as = length xs"
    and ne: "as @ bs \<noteq> []"
    and sg: "seg (cells h) (if as = [] then None else Some (last as)) it bs lb None"
    and pv: "pv = (if as = [] then None else Some (last as))"
  shows "\<exists>h' r as'. insert_sorted_loop h p it pv e d cmp = Some (h', r)
     \<and> lrep h' r as' (xs @ insert_pos cmp d ys)"
  using rep fresh len ne sg pv
proof (induction bs arbitrary: as xs ys it pv)
  case Nil
  then have as: "as \<noteq> []" and it: "it = None" by auto
  then have pv: "pv = Some (last as)" using Nil by simp
  from Nil.prems(1,3) have ys: "ys = []" using lrep_length by fastforce
  have dis: "set as \<inter> set [e] = {}" using Nil.prems(2) by simp
  from Nil.prems(1) ys have "lrep h p as xs" by simp
  from concat_lrep[OF this e dis] obtain h' r where
    con: "belle_sip_list_concat h p (Some e) = Some (h', r)" "lrep h' r (as @ [e]) (xs @ [d])"
    by blast
  have "p \<noteq> None" using \<open>lrep h p as xs\<close> as lrep_NULL[of h as xs] by (cases p) auto
  with con(1) last_loop_lrep[OF \<open>lrep h p as xs\<close> as]
  have "insert_sorted_loop h p None pv e d cmp = Some (h', r)"
    unfolding belle_sip_list_concat_def pv
    by (subst insert_sorted_loop.simps) (auto split: Option.bind_splits)
  with con(2) it have "\<exists>h' r. insert_sorted_loop h p it pv e d cmp = Some (h', r) \<and>
     lrep h' r (as @ [e]) (xs @ [d])" by blast
  then show ?case using ys by (auto simp: insert_pos_def)
next
  case (Cons b bs)
  then obtain n where n: "it = Some b" "cells h b = Some n" "prv n = pv"
    "seg (cells h) (Some b) (nxt n) bs lb None" by (auto simp: seg.simps(2))
  from Cons.prems(1,3) obtain y ys' where ys: "ys = y # ys'" "y = dat n"
    using n(2) by (cases ys) (auto simp: lrep_def append_eq_append_conv)
  have dis: "distinct (as @ b # bs)" using Cons.prems(1) by (simp add: lrep_def)
  have "pv \<noteq> Some e" "\<forall>c. pv = Some c \<longrightarrow> c \<noteq> b"
    using Cons.prems(2,6) dis last_in_set[of as] by auto
  with n Cons.prems(2) have step: "insert_sorted_loop h p it pv e d cmp =
     (if cmp d y \<le> 0
      then do { h \<leftarrow> link_before h e b; Some (h, if pv = None then Some e else p) }
      else insert_sorted_loop h p (nxt n) (Some b) e d cmp)"
    using insert_sorted_loop_unfold[OF n(2), of e p pv d cmp] ys(2) by auto
  show ?case
  proof (cases "cmp d y \<le> 0")
    case True
    from link_before_lrep[OF Cons.prems(1) e Cons.prems(2,3)] True ys Cons.prems(6)
    obtain h' where "link_before h e b = Some h'"
      "lrep h' (if as = [] then Some e else p) (as @ e # b # bs) (xs @ d # y # ys')" by auto
    with True show ?thesis using ys
      by (intro exI[of _ h'] exI[of _ "if pv = None then Some e else p"] exI[of _ "as @ e # b # bs"])
        (subst step, auto simp: insert_pos_def Cons.prems(6) split: if_splits)
  next
    case False
    have "\<exists>h' r as'. insert_sorted_loop h p (nxt n) (Some b) e d cmp = Some (h', r)
        \<and> lrep h' r as' ((xs @ [y]) @ insert_pos cmp d ys')"
      by (rule Cons.IH[of "as @ [b]"]) (use Cons.prems n ys in auto)
    with False show ?thesis by (simp add: step insert_pos_def ys)
  qed
qed

lemma insert_sorted_lrep:
  assumes rep: "lrep h p as xs"
  shows "\<exists>h' r as'. belle_sip_list_insert_sorted h p d cmp = Some (h', r)
     \<and> lrep h' r as' (insert_pos cmp d xs)"
proof (cases "p = None")
  case True
  with rep have "xs = []" by (auto dest: lrep_NULL)
  with True append_lrep[OF rep, of d] show ?thesis
    by (fastforce simp: belle_sip_list_insert_sorted_def insert_pos_def)
next
  case False
  let ?h = "fst (belle_sip_list_new h d)"
  from False rep have "as \<noteq> []" by (auto simp: lrep_def)
  moreover from lrep_list_new(1)[OF rep, of d] obtain lb where
    "seg (cells ?h) None p as lb None" by (auto simp: lrep_def)
  ultimately have "\<exists>h' r as'. insert_sorted_loop ?h p p None (brk h) d cmp = Some (h', r)
     \<and> lrep h' r as' ([] @ insert_pos cmp d xs)"
    using lrep_list_new[OF rep, of d] lrep_fresh[OF rep]
    by (intro insert_sorted_loop_lrep[where as = "[]" and bs = as]) auto
  moreover have "belle_sip_list_insert_sorted h p d cmp = insert_sorted_loop ?h p p None (brk h) d cmp"
    using False by (auto simp: belle_sip_list_insert_sorted_def belle_sip_list_new_def)
  ultimately show ?thesis by simp
qed

text \<open>
  Inserting in front of a given cell. Once the new cell is in, the C loop walks on to the end:
  no later cell is the one inserted before.
\<close>

lemma link_before_nxt:
  "link_before h e b = Some h' \<Longrightarrow> cells h b = Some n \<Longrightarrow> cells h' b = Some n' \<Longrightarrow> e \<noteq> b
     \<Longrightarrow> prv n \<noteq> Some b \<Longrightarrow> nxt n' = nxt n"
  by (auto simp: link_before_def set_next_def set_prev_def put_cell_def
        split: Option.bind_splits if_splits)

lemma insert_loop_end:
  "seg (cells h) pr it bs lb None \<Longrightarrow> b \<notin> set bs
     \<Longrightarrow> insert_loop h l it (Some b) d = Some (h, l)"
proof (induction bs arbitrary: pr it)
  case Nil
  then show ?case by (subst insert_loop.simps) simp
next
  case (Cons c bs)
  then show ?case by (subst insert_loop.simps) (auto simp: seg.simps(2))
qed

lemma insert_loop_skip:
  "seg (cells h) pr it (as @ b # bs) lb None \<Longrightarrow> b \<notin> set as
     \<Longrightarrow> insert_loop h l it (Some b) d = insert_loop h l (Some b) (Some b) d"
proof (induction as arbitrary: pr it)
  case Nil
  then show ?case by (simp add: seg.simps(2))
next
  case (Cons a as)
  then obtain n where "it = Some a" "cells h a = Some n" "seg (cells h) (Some a) (nxt n) (as @ b # bs) lb None"
    by (auto simp: seg.simps(2))
  with Cons show ?case by (subst insert_loop.simps) auto
qed

lemma insert_lrep:
  assumes rep: "lrep h p (as @ b # bs) (xs @ ys)" and len: "length as = length xs"
  shows "\<exists>h' r as'. belle_sip_list_insert h p (Some b) d = Some (h', r)
     \<and> lrep h' r as' (xs @ d # ys)"
proof -
  let ?h = "fst (belle_sip_list_new h d)" and ?e = "brk h"
  from rep obtain lb where sg: "seg (cells h) None p (as @ b # bs) lb None"
    and dis: "distinct (as @ b # bs)" by (auto simp: lrep_def)
  then have p: "p \<noteq> None" by (cases as) (auto simp: seg.simps(2))
  from insert_loop_skip[OF sg] dis p
  have run: "belle_sip_list_insert h p (Some b) d = insert_loop h p (Some b) (Some b) d"
    by (auto simp: belle_sip_list_insert_def)
  show ?thesis
  proof (cases as)
    case Nil
    with len rep have "p = Some b" "xs = []" by (auto dest: lrep_hd)
    from sg Nil \<open>p = Some b\<close> obtain n where "cells h b = Some n" "prv n = None" by (auto simp: seg_Cons)
    with run have "belle_sip_list_insert h p (Some b) d = belle_sip_list_prepend h p d"
      by (simp add: insert_loop.simps)
    with prepend_lrep[OF rep, of d] \<open>xs = []\<close> show ?thesis by auto
  next
    case (Cons a as')
    from sg obtain m q where m: "seg (cells h) None p as m q" "seg (cells h) m q (b # bs) lb None"
      by (auto simp: seg_append)
    with Cons have "m = Some (last as)" using seg_last by blast
    from m obtain n where n: "cells h b = Some n" "prv n = m" "q = Some b"
      by (auto simp: seg.simps(2))
    note fresh = lrep_fresh[OF rep]
    from link_before_lrep[OF lrep_list_new[OF rep, of d] fresh len] Cons obtain h' where
      h': "link_before ?h ?e b = Some h'" "lrep h' p (as @ ?e # b # bs) (xs @ d # ys)" by auto
    then obtain lb' m' q' where sb: "seg (cells h') m' q' (b # bs) lb' None"
      by (auto simp: lrep_def seg_append seg.simps(2))
    then obtain n' where n': "cells h' b = Some n'" "seg (cells h') (Some b) (nxt n') bs lb' None"
      by (auto simp: seg.simps(2))
    have "insert_loop h p (Some b) (Some b) d = insert_loop h' p (nxt n) (Some b) d"
      using h'(1) n \<open>m = Some (last as)\<close> fresh
      by (subst insert_loop.simps) (auto simp: link_before_def belle_sip_list_new_def split: Option.bind_splits)
    moreover have "nxt n' = nxt n"
      using h'(1) n n'(1) \<open>m = Some (last as)\<close> fresh dis Cons
      by (intro link_before_nxt[OF h'(1)]) (auto dest: last_in_set split: if_splits)
    ultimately show ?thesis using insert_loop_end[OF n'(2)] dis h'(2) run by auto
  qed
qed

end
