(* ===== verification/Fifo.thy ===== *)
theory Fifo
  imports BListRefine "HOL-Library.Multiset"
begin

text \<open>
  The interface under which the queues of the stack (a channel's outgoing and incoming messages,
  a message's headers of one name) use the list of \<^verbatim>\<open>belle_sip_utils.c\<close>: the locale \<open>fifo\<close>
  (append at the end, pop at the front), its client lemma that a queue that is filled and then
  drained yields the data in order, and its interpretation on the pointer operations
  \<^term>\<open>belle_sip_list_append\<close> and \<^term>\<open>belle_sip_list_pop_front\<close>. The list properties follow.
\<close>

section \<open>The interface\<close>

fun push_all :: "('h \<Rightarrow> 'l \<Rightarrow> 'd \<Rightarrow> ('h \<times> 'l) option) \<Rightarrow> 'h \<Rightarrow> 'l \<Rightarrow> 'd list \<Rightarrow> ('h \<times> 'l) option" where
  "push_all push h p [] = Some (h, p)"
| "push_all push h p (d # ds) = do { (h, p) \<leftarrow> push h p d; push_all push h p ds }"

fun pop_n :: "('h \<Rightarrow> 'l \<Rightarrow> ('h \<times> 'l \<times> 'd option) option) \<Rightarrow> 'h \<Rightarrow> 'l \<Rightarrow> nat
    \<Rightarrow> ('h \<times> 'l \<times> 'd list) option" where
  "pop_n pop h p 0 = Some (h, p, [])"
| "pop_n pop h p (Suc n) = do {
     (h, p, d) \<leftarrow> pop h p;
     (case d of None \<Rightarrow> Some (h, p, [])
      | Some x \<Rightarrow> do { (h, p, ds) \<leftarrow> pop_n pop h p n; Some (h, p, x # ds) }) }"

locale fifo =
  fixes rep :: "'h \<Rightarrow> 'l \<Rightarrow> 'd list \<Rightarrow> bool"
    and push :: "'h \<Rightarrow> 'l \<Rightarrow> 'd \<Rightarrow> ('h \<times> 'l) option"
    and pop :: "'h \<Rightarrow> 'l \<Rightarrow> ('h \<times> 'l \<times> 'd option) option"
  assumes push_ok: "rep h p xs \<Longrightarrow> \<exists>h' p'. push h p d = Some (h', p') \<and> rep h' p' (xs @ [d])"
    and pop_ok: "rep h p (x # xs) \<Longrightarrow> \<exists>h' p'. pop h p = Some (h', p', Some x) \<and> rep h' p' xs"
    and pop_empty: "rep h p [] \<Longrightarrow> pop h p = Some (h, p, None)"
begin

lemma push_all_ok: "rep h p xs \<Longrightarrow> \<exists>h' p'. push_all push h p ds = Some (h', p') \<and> rep h' p' (xs @ ds)"
proof (induction ds arbitrary: h p xs)
  case (Cons d ds)
  from push_ok[OF Cons.prems, of d] obtain h1 p1 where
    1: "push h p d = Some (h1, p1)" "rep h1 p1 (xs @ [d])" by blast
  from Cons.IH[OF 1(2)] 1(1) show ?case by auto
qed auto

lemma pop_n_ok: "rep h p (xs @ ys) \<Longrightarrow> \<exists>h' p'. pop_n pop h p (length xs) = Some (h', p', xs) \<and> rep h' p' ys"
proof (induction xs arbitrary: h p)
  case (Cons x xs)
  from pop_ok[of h p x "xs @ ys"] Cons.prems obtain h1 p1 where
    1: "pop h p = Some (h1, p1, Some x)" "rep h1 p1 (xs @ ys)" by auto
  from Cons.IH[OF 1(2)] 1(1) show ?case by auto
qed auto

lemma fill_drain:
  assumes "rep h p []"
  shows "\<exists>h1 p1 h2 p2. push_all push h p ds = Some (h1, p1)
    \<and> pop_n pop h1 p1 (length ds) = Some (h2, p2, ds) \<and> rep h2 p2 []
    \<and> pop h2 p2 = Some (h2, p2, None)"
proof -
  from push_all_ok[OF assms, of ds] obtain h1 p1 where
    1: "push_all push h p ds = Some (h1, p1)" "rep h1 p1 (ds @ [])" by auto
  from pop_n_ok[OF 1(2)] 1(1) pop_empty show ?thesis by blast
qed

end

section \<open>The pointer lists implement it\<close>

definition brep :: "'a lheap \<Rightarrow> addr option \<Rightarrow> 'a list \<Rightarrow> bool" where
  "brep h p xs \<longleftrightarrow> (\<exists>as. lrep h p as xs)"

interpretation blist: fifo brep belle_sip_list_append belle_sip_list_pop_front
proof unfold_locales
  fix h :: "'a lheap" and p xs d
  assume "brep h p xs"
  then show "\<exists>h' p'. belle_sip_list_append h p d = Some (h', p') \<and> brep h' p' (xs @ [d])"
    unfolding brep_def using append_lrep[of h p _ xs d] by blast
next
  fix h :: "'a lheap" and p x xs
  assume "brep h p (x # xs)"
  then show "\<exists>h' p'. belle_sip_list_pop_front h p = Some (h', p', Some x) \<and> brep h' p' xs"
    unfolding brep_def using pop_front_lrep[of h p _ x xs] by blast
next
  fix h :: "'a lheap" and p
  assume "brep h p []"
  then obtain as where "lrep h p as []" by (auto simp: brep_def)
  then have "p = None" using lrep_length lrep_Nil by fastforce
  then show "belle_sip_list_pop_front h p = Some (h, p, None)"
    by (simp add: belle_sip_list_pop_front_def)
qed

text \<open>An empty heap, and a list built on it, for the concrete runs below.\<close>

definition empty_heap :: "'a lheap" where
  "empty_heap = \<lparr>cells = (\<lambda>_. None), brk = 0\<rparr>"

lemma brep_empty: "brep empty_heap None []"
  unfolding brep_def by (rule exI[of _ "[]"]) (simp add: empty_heap_def wf_heap_def)

definition list_of :: "'a list \<Rightarrow> 'a lheap \<times> addr option" where
  "list_of xs = the (push_all belle_sip_list_append empty_heap None xs)"

lemma brep_list_of: "brep (fst (list_of xs)) (snd (list_of xs)) xs"
  using blist.push_all_ok[OF brep_empty, of xs] by (auto simp: list_of_def)

section \<open>Properties\<close>

text \<open>C1. A queue kept as a list is first in, first out: appending any data to an empty list and
  popping as many times returns the same data in the same order, with no crash and no endless
  loop, leaves the list empty, and a further pop returns NULL.\<close>

theorem list_fifo:
  assumes "brep h p []"
  shows "\<exists>h1 p1 h2 p2. push_all belle_sip_list_append h p ds = Some (h1, p1)
    \<and> pop_n belle_sip_list_pop_front h1 p1 (length ds) = Some (h2, p2, ds)
    \<and> brep h2 p2 [] \<and> belle_sip_list_pop_front h2 p2 = Some (h2, p2, None)"
  using assms by (rule blist.fill_drain)

lemma list_fifo_witness:
  "\<exists>h1 p1 h2 p2. push_all belle_sip_list_append empty_heap None [3, 1, 2::nat] = Some (h1, p1)
    \<and> pop_n belle_sip_list_pop_front h1 p1 3 = Some (h2, p2, [3, 1, 2])"
  using list_fifo[OF brep_empty, of "[3, 1, 2::nat]"] by (simp add: numeral_3_eq_3) blast

lemma sorted_wrt_insert_pos:
  assumes tr: "\<And>a b c. cmp a b \<le> 0 \<Longrightarrow> cmp b c \<le> (0::int) \<Longrightarrow> cmp a c \<le> 0"
    and tot: "\<And>a b. 0 < cmp a b \<Longrightarrow> cmp b a \<le> 0"
    and s: "sorted_wrt (\<lambda>a b. cmp a b \<le> 0) xs"
  shows "sorted_wrt (\<lambda>a b. cmp a b \<le> 0) (insert_pos cmp d xs)"
  using s
proof (induction xs)
  case (Cons x xs)
  show ?case
  proof (cases "0 < cmp d x")
    case True
    with Cons tot show ?thesis
      by (auto simp: insert_pos_def dest: set_takeWhileD set_dropWhileD)
  next
    case False
    then have "cmp d x \<le> 0" by simp
    then have "cmp d y \<le> 0" if "y \<in> set xs" for y using Cons.prems that tr by fastforce
    with False Cons.prems show ?thesis by (simp add: insert_pos_def)
  qed
qed (simp add: insert_pos_def)

lemma mset_insert_pos: "mset (insert_pos cmp d xs) = add_mset d (mset xs)"
proof -
  let ?P = "\<lambda>x. 0 < cmp d x"
  have "mset (takeWhile ?P xs) + mset (dropWhile ?P xs) = mset xs"
    by (metis mset_append takeWhile_dropWhile_id)
  then show ?thesis by (simp add: insert_pos_def)
qed

text \<open>\<^verbatim>\<open>belle_sip_list_insert_sorted\<close> keeps a list sorted by the comparison function: from a
  list sorted by a transitive and total comparison it returns a sorted list with exactly one
  occurrence of the new datum added, and equal elements keep their order, the new one first.\<close>

lemma insert_sorted_sorted:
  assumes "brep h p xs"
    and "\<And>a b c. cmp a b \<le> 0 \<Longrightarrow> cmp b c \<le> (0::int) \<Longrightarrow> cmp a c \<le> 0"
    and "\<And>a b. 0 < cmp a b \<Longrightarrow> cmp b a \<le> 0"
    and "sorted_wrt (\<lambda>a b. cmp a b \<le> 0) xs"
  shows "\<exists>h' r ys. belle_sip_list_insert_sorted h p d cmp = Some (h', r) \<and> brep h' r ys
     \<and> sorted_wrt (\<lambda>a b. cmp a b \<le> 0) ys \<and> mset ys = add_mset d (mset xs)"
proof -
  from assms(1) obtain h' r where "belle_sip_list_insert_sorted h p d cmp = Some (h', r)"
    "brep h' r (insert_pos cmp d xs)" unfolding brep_def using insert_sorted_lrep[of h p _ xs d cmp] by blast
  moreover have "sorted_wrt (\<lambda>a b. cmp a b \<le> 0) (insert_pos cmp d xs)"
    using assms(2-4) by (rule sorted_wrt_insert_pos)
  ultimately show ?thesis using mset_insert_pos[of cmp d xs] by blast
qed

lemma insert_sorted_sorted_witness:
  "\<exists>h' r ys. belle_sip_list_insert_sorted (fst (list_of [1, 4::int])) (snd (list_of [1, 4::int])) 2 (-)
       = Some (h', r) \<and> brep h' r ys \<and> sorted_wrt (\<lambda>a b. a - b \<le> 0) ys \<and> mset ys = {#1, 2, 4#}"
proof -
  have "\<exists>h' r ys. belle_sip_list_insert_sorted (fst (list_of [1, 4::int])) (snd (list_of [1, 4::int])) 2 (-)
       = Some (h', r) \<and> brep h' r ys \<and> sorted_wrt (\<lambda>a b. a - b \<le> 0) ys
       \<and> mset ys = add_mset 2 (mset [1, 4])"
    by (rule insert_sorted_sorted[OF brep_list_of]) auto
  then show ?thesis by (simp add: add_mset_commute)
qed

text \<open>Removing a link from the middle, the head or the tail, as \<^verbatim>\<open>belle_sip_list_remove\<close> does for
  the first cell holding a datum, repairs both neighbours' links: the result is the well-formed
  list without the first occurrence, whatever the datum's position, absent included.\<close>

lemma list_remove_first:
  assumes "brep h p xs"
  shows "\<exists>h' r. belle_sip_list_remove h p d = Some (h', r) \<and> brep h' r (remove1 d xs)"
  using assms unfolding brep_def using remove_lrep[of h p _ xs d] by blast

lemma list_remove_first_witness:
  "\<exists>h' r. belle_sip_list_remove (fst (list_of [7, 8, 9, 8::nat])) (snd (list_of [7, 8, 9, 8::nat])) 8
     = Some (h', r) \<and> brep h' r [7, 9, 8]"
  using list_remove_first[OF brep_list_of, of "[7, 8, 9, 8::nat]" 8] by simp

text \<open>\<^verbatim>\<open>belle_sip_list_copy_with_data\<close> makes a separate list: the original is intact (same
  cells, same data), the copy holds the images of its data in order, and they share no cell.\<close>

lemma list_copy_separate:
  assumes "lrep h p as xs"
  shows "\<exists>h' r bs. belle_sip_list_copy_with_data h p f = Some (h', r)
     \<and> lrep h' p as xs \<and> lrep h' r bs (map f xs) \<and> set as \<inter> set bs = {}"
  using copy_with_data_lrep[OF assms] by blast

lemma list_copy_separate_witness:
  "\<exists>h' r bs. belle_sip_list_copy_with_data
       \<lparr>cells = [0 \<mapsto> \<lparr>nxt = None, prv = None, dat = (5::nat)\<rparr>], brk = 1\<rparr> (Some 0) Suc = Some (h', r)
     \<and> lrep h' (Some 0) [0] [5] \<and> lrep h' r bs [6]"
proof -
  have "lrep \<lparr>cells = [0 \<mapsto> \<lparr>nxt = None, prv = None, dat = (5::nat)\<rparr>], brk = 1\<rparr> (Some 0) [0] [5]"
    by (simp add: lrep_def wf_heap_def seg.simps(2))
  from list_copy_separate[OF this, of Suc] show ?thesis by auto
qed

end
