(* ===== verification/Params.thy ===== *)
theory Params
  imports Prelude
begin

text \<open>
  The parameter lists of \<^verbatim>\<open>src/belle_sip_parameters.c\<close> (the base class of URIs, addresses, Via and
  most headers), with the pairs of \<^verbatim>\<open>belle_sip_utils.c\<close>: \<open>param_list\<close> holds the pairs in
  insertion order and \<open>paramnames_list\<close> the same names. The lists are HOL lists; \<^verbatim>\<open>find_custom\<close>
  followed by \<^verbatim>\<open>delete_link\<close> is \<^term>\<open>remove_first\<close>, as the list refinement shows. The locale
  \<open>assoc_store\<close> is the contract a client relies on (what a lookup returns after a write),
  interpreted on the parameter operations.
\<close>

section \<open>The interface of a keyed store\<close>

locale assoc_store =
  fixes inv :: "'m \<Rightarrow> bool"
    and has :: "'m \<Rightarrow> 'k \<Rightarrow> bool"
    and get :: "'m \<Rightarrow> 'k \<Rightarrow> 'v"
    and put :: "'m \<Rightarrow> 'k \<Rightarrow> 'v \<Rightarrow> 'm"
    and del :: "'m \<Rightarrow> 'k \<Rightarrow> 'm"
  assumes inv_put: "inv m \<Longrightarrow> inv (put m k v)"
    and inv_del: "inv m \<Longrightarrow> inv (del m k)"
    and has_put: "inv m \<Longrightarrow> has (put m k v) k' \<longleftrightarrow> k = k' \<or> has m k'"
    and get_put: "inv m \<Longrightarrow> get (put m k v) k' = (if k = k' then v else get m k')"
    and has_del: "inv m \<Longrightarrow> has (del m k) k' \<longleftrightarrow> k \<noteq> k' \<and> has m k'"
    and get_del: "inv m \<Longrightarrow> k \<noteq> k' \<Longrightarrow> get (del m k) k' = get m k'"
begin

definition put_all :: "'m \<Rightarrow> ('k \<times> 'v) list \<Rightarrow> 'm" where
  "put_all m kvs = foldl (\<lambda>m (k, v). put m k v) m kvs"

lemma inv_put_all: "inv m \<Longrightarrow> inv (put_all m kvs)"
  unfolding put_all_def by (induction kvs arbitrary: m) (auto intro: inv_put)

lemma has_put_all: "inv m \<Longrightarrow> has (put_all m kvs) k \<longleftrightarrow> k \<in> fst ` set kvs \<or> has m k"
  unfolding put_all_def
  by (induction kvs arbitrary: m) (auto simp: inv_put has_put image_iff Bex_def)

lemma get_put_all:
  "inv m \<Longrightarrow> get (put_all m kvs) k
     = (case map_of (rev kvs) k of Some v \<Rightarrow> v | None \<Rightarrow> get m k)"
proof (induction kvs arbitrary: m)
  case (Cons kv kvs)
  obtain a b where "kv = (a, b)" by force
  with Cons.IH[OF inv_put[OF Cons.prems, of a b]] Cons.prems show ?case
    by (simp add: put_all_def get_put map_add_def split: option.splits)
qed (simp add: put_all_def)

lemma put_all_del_absent:
  "inv m \<Longrightarrow> k \<notin> fst ` set kvs \<Longrightarrow> \<not> has (del (put_all m kvs) k) k"
  by (simp add: has_del inv_put_all)

end

section \<open>Pairs and parameter lists\<close>

record param_pair =
  pname :: string
  pvalue :: "string option"

record parameters =
  param_list :: "param_pair list"
  paramnames_list :: "string list"

definition belle_sip_param_pair_new :: "string \<Rightarrow> string option \<Rightarrow> param_pair" where
  "belle_sip_param_pair_new name v = \<lparr>pname = name, pvalue = v\<rparr>"

definition belle_sip_param_pair_comp_func :: "param_pair \<Rightarrow> string \<Rightarrow> bool" where
  "belle_sip_param_pair_comp_func a b \<longleftrightarrow> pname a = b"

definition belle_sip_param_pair_case_comp_func :: "param_pair \<Rightarrow> string \<Rightarrow> bool" where
  "belle_sip_param_pair_case_comp_func a b \<longleftrightarrow> strcaseeq (pname a) b"

definition parameters_init :: parameters where
  "parameters_init = \<lparr>param_list = [], paramnames_list = []\<rparr>"

definition belle_sip_parameters_clean :: "parameters \<Rightarrow> parameters" where
  "belle_sip_parameters_clean ps = \<lparr>param_list = [], paramnames_list = []\<rparr>"

definition belle_sip_parameters_get_parameter_base ::
  "parameters \<Rightarrow> string \<Rightarrow> (param_pair \<Rightarrow> string \<Rightarrow> bool) \<Rightarrow> string option" where
  "belle_sip_parameters_get_parameter_base ps name func =
     (case find (\<lambda>p. func p name) (param_list ps) of Some p \<Rightarrow> pvalue p | None \<Rightarrow> None)"

definition belle_sip_parameters_get_parameter :: "parameters \<Rightarrow> string \<Rightarrow> string option" where
  "belle_sip_parameters_get_parameter ps name =
     belle_sip_parameters_get_parameter_base ps name belle_sip_param_pair_comp_func"

definition belle_sip_parameters_get_case_parameter :: "parameters \<Rightarrow> string \<Rightarrow> string option" where
  "belle_sip_parameters_get_case_parameter ps name =
     belle_sip_parameters_get_parameter_base ps name belle_sip_param_pair_case_comp_func"

definition belle_sip_parameters_has_parameter :: "parameters \<Rightarrow> string \<Rightarrow> bool" where
  "belle_sip_parameters_has_parameter ps name \<longleftrightarrow>
     find (\<lambda>p. belle_sip_param_pair_comp_func p name) (param_list ps) \<noteq> None"

definition belle_sip_parameters_set_parameter ::
  "parameters \<Rightarrow> string \<Rightarrow> string option \<Rightarrow> parameters" where
  "belle_sip_parameters_set_parameter ps name v =
     (let names = remove_first (\<lambda>n. n = name) (paramnames_list ps);
          pairs = remove_first (\<lambda>p. belle_sip_param_pair_comp_func p name) (param_list ps);
          newpair = belle_sip_param_pair_new name v
      in \<lparr>param_list = pairs @ [newpair], paramnames_list = names @ [pname newpair]\<rparr>)"

text \<open>The pair is only deleted when the name is in the list of names.\<close>

definition belle_sip_parameters_remove_parameter :: "parameters \<Rightarrow> string \<Rightarrow> parameters" where
  "belle_sip_parameters_remove_parameter ps name =
     (if name \<in> set (paramnames_list ps) then
        \<lparr>param_list = remove_first (\<lambda>p. belle_sip_param_pair_comp_func p name) (param_list ps),
         paramnames_list = remove_first (\<lambda>n. n = name) (paramnames_list ps)\<rparr>
      else ps)"

definition belle_sip_parameters_copy_parameters_from :: "parameters \<Rightarrow> parameters \<Rightarrow> parameters" where
  "belle_sip_parameters_copy_parameters_from ps orig =
     foldl (\<lambda>ps p. belle_sip_parameters_set_parameter ps (pname p) (pvalue p)) ps (param_list orig)"

definition belle_sip_parameters_get_parameter_names :: "parameters \<Rightarrow> string list" where
  "belle_sip_parameters_get_parameter_names ps = paramnames_list ps"

text \<open>\<^verbatim>\<open>belle_sip_parameters_marshal\<close>, the text appended to the buffer when it has room.\<close>

fun marshal_pairs :: "param_pair list \<Rightarrow> string" where
  "marshal_pairs [] = []"
| "marshal_pairs (p # ps) =
     (case pvalue p of Some v \<Rightarrow> '';'' @ pname p @ ''='' @ v | None \<Rightarrow> '';'' @ pname p) @ marshal_pairs ps"

definition belle_sip_parameters_marshal :: "parameters \<Rightarrow> string" where
  "belle_sip_parameters_marshal ps = marshal_pairs (param_list ps)"

text \<open>
  \<^verbatim>\<open>belle_sip_parameters_set\<close>: the do-while loop over the text. \<open>takeWhile\<close> up to the semicolon
  is the segment after the NUL has been written over it; an equal sign counts only inside it.
\<close>

function set_params_loop :: "parameters \<Rightarrow> string \<Rightarrow> parameters" where
  "set_params_loop ps current =
     (let seg = takeWhile (\<lambda>c. c \<noteq> CHR '';'') current;
          rest = dropWhile (\<lambda>c. c \<noteq> CHR '';'') current;
          ps' = (if CHR ''='' \<in> set seg
                 then belle_sip_parameters_set_parameter ps (takeWhile (\<lambda>c. c \<noteq> CHR ''='') seg)
                        (Some (tl (dropWhile (\<lambda>c. c \<noteq> CHR ''='') seg)))
                 else belle_sip_parameters_set_parameter ps seg None)
      in case rest of
           [] \<Rightarrow> ps'
         | _ # nxt \<Rightarrow> (if nxt = [] then ps' else set_params_loop ps' nxt))"
  by pat_completeness auto

termination
proof (relation "measure (\<lambda>(_, s). length s)")
  fix ps :: parameters and current seg rest a nxt and ps' :: parameters
  assume "rest = dropWhile (\<lambda>c. c \<noteq> CHR '';'') current" and "rest = a # nxt"
  then have "length (a # nxt) \<le> length current"
    using length_dropWhile_le[of "\<lambda>c. c \<noteq> CHR '';''" current] by metis
  then show "((ps', nxt), (ps, current)) \<in> measure (\<lambda>(_, s). length s)" by simp
qed simp

definition belle_sip_parameters_set :: "parameters \<Rightarrow> string option \<Rightarrow> parameters" where
  "belle_sip_parameters_set ps params =
     (let ps = belle_sip_parameters_clean ps in
      case params of None \<Rightarrow> ps
      | Some s \<Rightarrow> (if s = [] then ps else set_params_loop ps s))"

declare set_params_loop.simps [simp del]

section \<open>Invariant\<close>

definition wf_params :: "parameters \<Rightarrow> bool" where
  "wf_params ps \<longleftrightarrow> paramnames_list ps = map pname (param_list ps) \<and> distinct (paramnames_list ps)"

lemma wf_params_init [simp]: "wf_params parameters_init"
  by (simp add: wf_params_def parameters_init_def)

lemma map_pname_remove_first:
  "map pname (remove_first (\<lambda>p. pname p = k) ps) = remove_first (\<lambda>n. n = k) (map pname ps)"
  using map_remove_first[of pname "\<lambda>n. n = k" ps] by simp

lemma notin_remove_first: "distinct xs \<Longrightarrow> k \<notin> set (remove_first (\<lambda>n. n = k) xs)"
  by (simp add: remove_first_remove1)

lemma wf_set_parameter: "wf_params ps \<Longrightarrow> wf_params (belle_sip_parameters_set_parameter ps k v)"
  by (auto simp: wf_params_def belle_sip_parameters_set_parameter_def belle_sip_param_pair_new_def
        belle_sip_param_pair_comp_func_def map_pname_remove_first distinct_remove_first
        notin_remove_first Let_def)

lemma wf_remove_parameter: "wf_params ps \<Longrightarrow> wf_params (belle_sip_parameters_remove_parameter ps k)"
  by (auto simp: wf_params_def belle_sip_parameters_remove_parameter_def
        belle_sip_param_pair_comp_func_def map_pname_remove_first distinct_remove_first)

lemma find_remove_first_other:
  "k \<noteq> k' \<Longrightarrow> find (\<lambda>p. pname p = k') (remove_first (\<lambda>p. pname p = k) ps) = find (\<lambda>p. pname p = k') ps"
  by (induction ps) auto

lemma find_in_names: "find (\<lambda>p. pname p = k) ps = None \<longleftrightarrow> k \<notin> set (map pname ps)"
  by (auto simp: find_None_iff)

lemma find_remove_first_same:
  "distinct (map pname ps) \<Longrightarrow> find (\<lambda>p. pname p = k) (remove_first (\<lambda>p. pname p = k) ps) = None"
  unfolding find_in_names map_pname_remove_first by (rule notin_remove_first)

lemmas param_defs = belle_sip_parameters_get_parameter_def belle_sip_parameters_get_parameter_base_def
  belle_sip_parameters_has_parameter_def belle_sip_parameters_set_parameter_def
  belle_sip_parameters_remove_parameter_def belle_sip_param_pair_comp_func_def
  belle_sip_param_pair_new_def Let_def

interpretation par: assoc_store wf_params belle_sip_parameters_has_parameter
  belle_sip_parameters_get_parameter belle_sip_parameters_set_parameter
  belle_sip_parameters_remove_parameter
proof unfold_locales
  fix m k v k'
  assume wf: "wf_params m"
  then show "wf_params (belle_sip_parameters_set_parameter m k v)" by (rule wf_set_parameter)
  from wf show "wf_params (belle_sip_parameters_remove_parameter m k)" by (rule wf_remove_parameter)
  show "belle_sip_parameters_has_parameter (belle_sip_parameters_set_parameter m k v) k'
    \<longleftrightarrow> k = k' \<or> belle_sip_parameters_has_parameter m k'"
    by (cases "k = k'") (auto simp: param_defs find_append find_remove_first_other split: option.splits)
  show "belle_sip_parameters_get_parameter (belle_sip_parameters_set_parameter m k v) k'
    = (if k = k' then v else belle_sip_parameters_get_parameter m k')"
    using wf by (auto simp: param_defs wf_params_def find_append find_remove_first_other
        find_remove_first_same split: option.splits)
  show "belle_sip_parameters_has_parameter (belle_sip_parameters_remove_parameter m k) k'
    \<longleftrightarrow> k \<noteq> k' \<and> belle_sip_parameters_has_parameter m k'"
    using wf find_in_names[of k' "param_list m"]
    by (cases "k = k'") (auto simp: param_defs wf_params_def find_remove_first_other find_remove_first_same)
next
  fix m k k'
  assume "wf_params m" and "(k::string) \<noteq> k'"
  then show "belle_sip_parameters_get_parameter (belle_sip_parameters_remove_parameter m k) k'
    = belle_sip_parameters_get_parameter m k'"
    by (auto simp: param_defs find_remove_first_other)
qed

section \<open>Printing and parsing\<close>

text \<open>The texts that survive a round trip: names are not empty and hold neither separator.\<close>

definition printable_pair :: "param_pair \<Rightarrow> bool" where
  "printable_pair p \<longleftrightarrow> pname p \<noteq> [] \<and> CHR '';'' \<notin> set (pname p) \<and> CHR ''='' \<notin> set (pname p)
     \<and> (case pvalue p of None \<Rightarrow> True | Some v \<Rightarrow> CHR '';'' \<notin> set v)"

definition pair_text :: "param_pair \<Rightarrow> string" where
  "pair_text p = (case pvalue p of Some v \<Rightarrow> pname p @ ''='' @ v | None \<Rightarrow> pname p)"

lemma marshal_Cons: "marshal_pairs (p # ps) = CHR '';'' # pair_text p @ marshal_pairs ps"
  by (simp add: pair_text_def split: option.splits)

lemma pair_text_no_semicolon: "printable_pair p \<Longrightarrow> CHR '';'' \<notin> set (pair_text p)"
  by (auto simp: printable_pair_def pair_text_def split: option.splits)

lemma takeWhile_all: "c \<notin> set xs \<Longrightarrow> takeWhile (\<lambda>x. x \<noteq> c) (xs @ ys) = xs @ takeWhile (\<lambda>x. x \<noteq> c) ys"
  by (induction xs) auto

lemma dropWhile_all: "c \<notin> set xs \<Longrightarrow> dropWhile (\<lambda>x. x \<noteq> c) (xs @ ys) = dropWhile (\<lambda>x. x \<noteq> c) ys"
  by (induction xs) auto

lemma takeWhile_none: "c \<notin> set xs \<Longrightarrow> takeWhile (\<lambda>x. x \<noteq> c) xs = xs"
  by (induction xs) auto

lemma dropWhile_none: "c \<notin> set xs \<Longrightarrow> dropWhile (\<lambda>x. x \<noteq> c) xs = []"
  by (induction xs) auto

lemma marshal_pairs_seg [simp]:
  "takeWhile (\<lambda>c. c \<noteq> CHR '';'') (marshal_pairs ps) = []"
  "dropWhile (\<lambda>c. c \<noteq> CHR '';'') (marshal_pairs ps) = marshal_pairs ps"
  by (cases ps; simp add: marshal_Cons del: marshal_pairs.simps(2))+

lemma set_pair_text:
  assumes "printable_pair p"
  shows "(if CHR ''='' \<in> set (pair_text p)
     then belle_sip_parameters_set_parameter ps (takeWhile (\<lambda>c. c \<noteq> CHR ''='') (pair_text p))
            (Some (tl (dropWhile (\<lambda>c. c \<noteq> CHR ''='') (pair_text p))))
     else belle_sip_parameters_set_parameter ps (pair_text p) None)
   = belle_sip_parameters_set_parameter ps (pname p) (pvalue p)"
  using assms
  by (auto simp: printable_pair_def pair_text_def takeWhile_all dropWhile_all split: option.splits)

lemma set_params_loop_marshal:
  "\<forall>q\<in>set (p # ps). printable_pair q \<Longrightarrow>
   set_params_loop acc (tl (marshal_pairs (p # ps)))
     = foldl (\<lambda>ps q. belle_sip_parameters_set_parameter ps (pname q) (pvalue q)) acc (p # ps)"
proof (induction ps arbitrary: p acc)
  case Nil
  then show ?case
    using set_pair_text[of p acc] pair_text_no_semicolon[of p]
    by (subst set_params_loop.simps)
      (simp add: marshal_Cons takeWhile_none dropWhile_none Let_def del: marshal_pairs.simps(2))
next
  case (Cons q ps)
  have ne: "pair_text q \<noteq> []"
    using Cons.prems by (auto simp: printable_pair_def pair_text_def split: option.splits)
  from Cons.prems have "set_params_loop acc (tl (marshal_pairs (p # q # ps)))
    = set_params_loop (belle_sip_parameters_set_parameter acc (pname p) (pvalue p))
        (tl (marshal_pairs (q # ps)))"
    using set_pair_text[of p acc] pair_text_no_semicolon[of p] ne
    by (subst set_params_loop.simps)
      (simp add: marshal_Cons takeWhile_all dropWhile_all Let_def del: marshal_pairs.simps(2))
  with Cons show ?case by simp
qed

lemma set_fresh_parameters:
  assumes "wf_params acc" and "distinct (map pname ps)"
    and "set (map pname ps) \<inter> set (paramnames_list acc) = {}"
  shows "foldl (\<lambda>ps q. belle_sip_parameters_set_parameter ps (pname q) (pvalue q)) acc ps
    = \<lparr>param_list = param_list acc @ ps, paramnames_list = paramnames_list acc @ map pname ps\<rparr>"
  using assms
proof (induction ps arbitrary: acc)
  case (Cons p ps)
  have "pname q \<noteq> pname p" if "q \<in> set (param_list acc)" for q
    using Cons.prems(1,3) that by (auto simp: wf_params_def image_iff)
  then have "remove_first (\<lambda>q. pname q = pname p) (param_list acc) = param_list acc"
    by (intro remove_first_id) blast
  moreover have "remove_first (\<lambda>n. n = pname p) (paramnames_list acc) = paramnames_list acc"
    using Cons.prems(3) by (intro remove_first_id) auto
  ultimately have one: "belle_sip_parameters_set_parameter acc (pname p) (pvalue p)
    = \<lparr>param_list = param_list acc @ [p], paramnames_list = paramnames_list acc @ [pname p]\<rparr>"
    by (cases p) (simp add: param_defs)
  show ?case
    using Cons.IH[OF wf_set_parameter[OF Cons.prems(1), of "pname p" "pvalue p"]] Cons.prems
    by (simp add: one)
qed simp

lemma map_of_pairs:
  "map_of (map (\<lambda>p. (pname p, pvalue p)) ps) k = map_option pvalue (find (\<lambda>p. pname p = k) ps)"
  by (induction ps) auto

section \<open>Properties\<close>

text \<open>After \<^verbatim>\<open>belle_sip_parameters_copy_parameters_from\<close>, which sets every pair of the source in
  turn, a name has the value it has in the source when the source has it, and keeps the value
  of the target otherwise; the target's two lists stay consistent and without duplicates.\<close>

lemma copy_parameters_lookup:
  assumes "wf_params ps" and "wf_params orig"
  shows "belle_sip_parameters_get_parameter (belle_sip_parameters_copy_parameters_from ps orig) k
     = (if belle_sip_parameters_has_parameter orig k
        then belle_sip_parameters_get_parameter orig k
        else belle_sip_parameters_get_parameter ps k)
   \<and> wf_params (belle_sip_parameters_copy_parameters_from ps orig)"
proof -
  let ?kvs = "map (\<lambda>p. (pname p, pvalue p)) (param_list orig)"
  have eq: "belle_sip_parameters_copy_parameters_from ps orig = par.put_all ps ?kvs"
    by (simp add: belle_sip_parameters_copy_parameters_from_def par.put_all_def foldl_map)
  have "distinct (map fst ?kvs)" using assms(2) by (auto simp: wf_params_def comp_def)
  then have "map_of (rev ?kvs) k = map_of ?kvs k"
    by (subst map_of_inject_set[THEN iffD2]) (simp_all flip: rev_map)
  moreover have "map_of ?kvs k = map_option pvalue (find (\<lambda>p. pname p = k) (param_list orig))"
    by (rule map_of_pairs)
  ultimately show ?thesis
    using par.get_put_all[OF assms(1), of ?kvs k] par.inv_put_all[OF assms(1), of ?kvs]
    by (auto simp: eq param_defs split: option.splits)
qed

lemma copy_parameters_lookup_witness:
  "belle_sip_parameters_get_parameter
     (belle_sip_parameters_copy_parameters_from
        (belle_sip_parameters_set_parameter parameters_init ''a'' (Some ''1''))
        (belle_sip_parameters_set_parameter parameters_init ''a'' (Some ''2''))) ''a'' = Some ''2''"
  using copy_parameters_lookup[of "belle_sip_parameters_set_parameter parameters_init ''a'' (Some ''1'')"
      "belle_sip_parameters_set_parameter parameters_init ''a'' (Some ''2'')" "''a''"]
  by (simp add: wf_set_parameter par.has_put par.get_put)

text \<open>C2. Parsing what was printed gives the same parameters back: \<^verbatim>\<open>belle_sip_parameters_set\<close> on the
  text of \<^verbatim>\<open>belle_sip_parameters_marshal\<close> (without its leading semicolon) rebuilds the list, in
  order, whatever the parameters were before, for printable names and values.\<close>

theorem parameters_parse_marshal:
  assumes "wf_params ps" and "param_list ps \<noteq> []" and "\<forall>p\<in>set (param_list ps). printable_pair p"
  shows "belle_sip_parameters_set old (Some (tl (belle_sip_parameters_marshal ps))) = ps"
proof -
  from assms(2) obtain p qs where ps: "param_list ps = p # qs" by (cases "param_list ps") auto
  have "tl (marshal_pairs (p # qs)) \<noteq> []"
    using assms(3) ps by (auto simp: printable_pair_def split: option.splits)
  moreover have "set_params_loop parameters_init (tl (marshal_pairs (p # qs)))
     = \<lparr>param_list = p # qs, paramnames_list = map pname (p # qs)\<rparr>"
  proof -
    have "distinct (map pname (p # qs))" using assms(1) ps by (auto simp: wf_params_def)
    from set_fresh_parameters[OF wf_params_init this] set_params_loop_marshal[of p qs parameters_init]
      assms(3) ps show ?thesis by (simp add: parameters_init_def del: marshal_pairs.simps)
  qed
  moreover have "\<dots> = ps" using assms(1) ps by (cases ps) (simp add: wf_params_def)
  ultimately show ?thesis
    unfolding belle_sip_parameters_set_def belle_sip_parameters_clean_def
      belle_sip_parameters_marshal_def ps parameters_init_def by simp
qed

lemma parameters_parse_marshal_witness:
  "belle_sip_parameters_set parameters_init (Some ''branch=z9hG4bK.x;rport'')
     = \<lparr>param_list = [\<lparr>pname = ''branch'', pvalue = Some ''z9hG4bK.x''\<rparr>, \<lparr>pname = ''rport'', pvalue = None\<rparr>],
        paramnames_list = [''branch'', ''rport'']\<rparr>"
  using parameters_parse_marshal[of "\<lparr>param_list = [\<lparr>pname = ''branch'', pvalue = Some ''z9hG4bK.x''\<rparr>,
      \<lparr>pname = ''rport'', pvalue = None\<rparr>], paramnames_list = [''branch'', ''rport'']\<rparr>" parameters_init]
  by (simp add: wf_params_def printable_pair_def belle_sip_parameters_marshal_def)

end
