(* ===== verification/Uri.thy ===== *)
theory Uri
  imports Params
begin

text \<open>
  SIP URIs (\<^verbatim>\<open>src/belle_sip_uri_impl.c\<close>): the record, the getters and setters the stack uses, the
  default ports (\<^verbatim>\<open>src/listeningpoint.c\<close>), the hop built from a URI (\<^verbatim>\<open>src/sipstack.c\<close>) and the
  check of which components a URI may have in which header.
\<close>

section \<open>URIs\<close>

record sip_uri =
  uri_secure :: bool
  uri_user :: "string option"
  uri_user_password :: "string option"
  uri_host :: "string option"
  uri_port :: int
  uri_params :: parameters
  uri_header_list :: parameters

definition belle_sip_uri_new :: sip_uri where
  "belle_sip_uri_new = \<lparr>uri_secure = False, uri_user = None, uri_user_password = None,
     uri_host = None, uri_port = 0, uri_params = parameters_init, uri_header_list = parameters_init\<rparr>"

definition belle_sip_uri_create :: "string option \<Rightarrow> string option \<Rightarrow> sip_uri" where
  "belle_sip_uri_create user host = belle_sip_uri_new\<lparr>uri_user := user, uri_host := host\<rparr>"

text \<open>A clone copies the parameters one by one into fresh lists.\<close>

definition parameters_clone :: "parameters \<Rightarrow> parameters" where
  "parameters_clone ps = belle_sip_parameters_copy_parameters_from parameters_init ps"

definition belle_sip_uri_clone :: "sip_uri \<Rightarrow> sip_uri" where
  "belle_sip_uri_clone orig = belle_sip_uri_new\<lparr>
     uri_secure := uri_secure orig, uri_user := uri_user orig, uri_user_password := uri_user_password orig,
     uri_host := uri_host orig, uri_port := uri_port orig,
     uri_header_list := parameters_clone (uri_header_list orig),
     uri_params := parameters_clone (uri_params orig)\<rparr>"

definition belle_sip_uri_get_header :: "sip_uri \<Rightarrow> string \<Rightarrow> string option" where
  "belle_sip_uri_get_header u name = belle_sip_parameters_get_parameter (uri_header_list u) name"

definition belle_sip_uri_set_header :: "sip_uri \<Rightarrow> string \<Rightarrow> string option \<Rightarrow> sip_uri" where
  "belle_sip_uri_set_header u name v =
     u\<lparr>uri_header_list := belle_sip_parameters_set_parameter (uri_header_list u) name v\<rparr>"

definition belle_sip_uri_remove_header :: "sip_uri \<Rightarrow> string \<Rightarrow> sip_uri" where
  "belle_sip_uri_remove_header u name =
     u\<lparr>uri_header_list := belle_sip_parameters_remove_parameter (uri_header_list u) name\<rparr>"

definition belle_sip_uri_get_header_names :: "sip_uri \<Rightarrow> string list" where
  "belle_sip_uri_get_header_names u = paramnames_list (uri_header_list u)"

definition belle_sip_uri_headers_clean :: "sip_uri \<Rightarrow> sip_uri" where
  "belle_sip_uri_headers_clean u = u\<lparr>uri_header_list := belle_sip_parameters_clean (uri_header_list u)\<rparr>"

definition belle_sip_uri_get_transport_param :: "sip_uri \<Rightarrow> string option" where
  "belle_sip_uri_get_transport_param u = belle_sip_parameters_get_parameter (uri_params u) ''transport''"

definition belle_sip_uri_get_maddr_param :: "sip_uri \<Rightarrow> string option" where
  "belle_sip_uri_get_maddr_param u = belle_sip_parameters_get_parameter (uri_params u) ''maddr''"

text \<open>\<^verbatim>\<open>-1\<close> for an unknown transport.\<close>

definition belle_sip_listening_point_get_well_known_port :: "string \<Rightarrow> int" where
  "belle_sip_listening_point_get_well_known_port transport =
     (if strcaseeq transport ''UDP'' \<or> strcaseeq transport ''TCP'' then 5060
      else if strcaseeq transport ''DTLS'' \<or> strcaseeq transport ''TLS'' then 5061 else - 1)"

definition uri_transport_or_default :: "sip_uri \<Rightarrow> string" where
  "uri_transport_or_default u = (case belle_sip_uri_get_transport_param u of
     Some t \<Rightarrow> t | None \<Rightarrow> (if uri_secure u then ''tls'' else ''udp''))"

definition belle_sip_uri_get_listening_port :: "sip_uri \<Rightarrow> int" where
  "belle_sip_uri_get_listening_port u =
     (if uri_port u = 0 then belle_sip_listening_point_get_well_known_port (uri_transport_or_default u)
      else uri_port u)"

section \<open>Hops\<close>

record hop =
  hop_transport :: "string option"
  hop_cname :: "string option"
  hop_host :: "string option"
  hop_port :: int

definition belle_sip_hop_new :: "string option \<Rightarrow> string option \<Rightarrow> string option \<Rightarrow> int \<Rightarrow> hop" where
  "belle_sip_hop_new transport cname host port =
     \<lparr>hop_transport = transport, hop_cname = cname, hop_host = host, hop_port = port\<rparr>"

definition belle_sip_hop_new_from_uri :: "sip_uri \<Rightarrow> hop" where
  "belle_sip_hop_new_from_uri u =
     (let (host, cname) = (case belle_sip_uri_get_maddr_param u of
            None \<Rightarrow> (uri_host u, None) | Some m \<Rightarrow> (Some m, uri_host u))
      in belle_sip_hop_new (Some (uri_transport_or_default u)) cname host
           (belle_sip_uri_get_listening_port u))"

section \<open>Components allowed by context\<close>

datatype mark = mark_m | mark_o | mark_na

record uri_components =
  uc_user :: mark
  uc_password :: mark
  uc_host :: mark
  uc_port :: mark
  uc_user_param :: mark
  uc_method :: mark
  uc_maddr_param :: mark
  uc_ttl_param :: mark
  uc_transp_param :: mark
  uc_lr_param :: mark
  uc_other_param :: mark
  uc_headers :: mark

definition uri_component_use_for_request :: uri_components where
  "uri_component_use_for_request = \<lparr>uc_user = mark_o, uc_password = mark_o, uc_host = mark_m, uc_port = mark_o,
     uc_user_param = mark_o, uc_method = mark_na, uc_maddr_param = mark_o, uc_ttl_param = mark_o,
     uc_transp_param = mark_o, uc_lr_param = mark_o, uc_other_param = mark_o, uc_headers = mark_na\<rparr>"

definition uri_component_use_for_header_to :: uri_components where
  "uri_component_use_for_header_to = \<lparr>uc_user = mark_o, uc_password = mark_o, uc_host = mark_m, uc_port = mark_na,
     uc_user_param = mark_o, uc_method = mark_na, uc_maddr_param = mark_na, uc_ttl_param = mark_na,
     uc_transp_param = mark_na, uc_lr_param = mark_na, uc_other_param = mark_o, uc_headers = mark_na\<rparr>"

definition uri_component_use_for_header_from :: uri_components where
  "uri_component_use_for_header_from = \<lparr>uc_user = mark_o, uc_password = mark_o, uc_host = mark_m, uc_port = mark_na,
     uc_user_param = mark_o, uc_method = mark_na, uc_maddr_param = mark_na, uc_ttl_param = mark_na,
     uc_transp_param = mark_na, uc_lr_param = mark_na, uc_other_param = mark_o, uc_headers = mark_na\<rparr>"

definition uri_component_use_for_contact_in_reg :: uri_components where
  "uri_component_use_for_contact_in_reg = \<lparr>uc_user = mark_o, uc_password = mark_o, uc_host = mark_o, uc_port = mark_o,
     uc_user_param = mark_o, uc_method = mark_na, uc_maddr_param = mark_o, uc_ttl_param = mark_o,
     uc_transp_param = mark_o, uc_lr_param = mark_na, uc_other_param = mark_o, uc_headers = mark_o\<rparr>"

definition uri_component_use_for_dialog_ct_rr_ro :: uri_components where
  "uri_component_use_for_dialog_ct_rr_ro = \<lparr>uc_user = mark_o, uc_password = mark_o, uc_host = mark_o, uc_port = mark_o,
     uc_user_param = mark_o, uc_method = mark_na, uc_maddr_param = mark_o, uc_ttl_param = mark_na,
     uc_transp_param = mark_o, uc_lr_param = mark_o, uc_other_param = mark_o, uc_headers = mark_na\<rparr>"

definition uri_component_use_for_external :: uri_components where
  "uri_component_use_for_external = \<lparr>uc_user = mark_o, uc_password = mark_o, uc_host = mark_m, uc_port = mark_o,
     uc_user_param = mark_o, uc_method = mark_o, uc_maddr_param = mark_o, uc_ttl_param = mark_o,
     uc_transp_param = mark_o, uc_lr_param = mark_o, uc_other_param = mark_o, uc_headers = mark_o\<rparr>"

fun check_component :: "bool \<Rightarrow> mark \<Rightarrow> bool" where
  "check_component is_present mark_o = True"
| "check_component is_present mark_m = is_present"
| "check_component is_present mark_na = (\<not> is_present)"

definition check_uri_components :: "sip_uri \<Rightarrow> uri_components \<Rightarrow> bool" where
  "check_uri_components u c \<longleftrightarrow>
     check_component (uri_user u \<noteq> None) (uc_user c)
   \<and> check_component (uri_host u \<noteq> None) (uc_host c)
   \<and> check_component (0 < uri_port u) (uc_port c)
   \<and> check_component (belle_sip_parameters_has_parameter (uri_params u) ''maddr'') (uc_maddr_param c)
   \<and> check_component (belle_sip_parameters_has_parameter (uri_params u) ''ttl'') (uc_ttl_param c)
   \<and> check_component (belle_sip_parameters_has_parameter (uri_params u) ''transport'') (uc_transp_param c)
   \<and> check_component (belle_sip_parameters_has_parameter (uri_params u) ''lr'') (uc_lr_param c)
   \<and> check_component (0 < length (param_list (uri_header_list u))) (uc_headers c)"

definition belle_sip_uri_check_components_from_request_uri :: "sip_uri \<Rightarrow> bool" where
  "belle_sip_uri_check_components_from_request_uri u =
     check_uri_components u uri_component_use_for_request"

definition belle_sip_uri_check_components_from_context ::
  "sip_uri \<Rightarrow> string option \<Rightarrow> string \<Rightarrow> bool" where
  "belle_sip_uri_check_components_from_context u method header_name =
     (if strcaseeq ''From'' header_name then check_uri_components u uri_component_use_for_header_from
      else if strcaseeq ''To'' header_name then check_uri_components u uri_component_use_for_header_to
      else if strcaseeq ''Contact'' header_name
              \<and> (case method of None \<Rightarrow> False | Some m \<Rightarrow> strcaseeq ''REGISTER'' m)
      then check_uri_components u uri_component_use_for_contact_in_reg
      else if strcaseeq ''Contact'' header_name \<or> strcaseeq ''Record-Route'' header_name
              \<or> strcaseeq ''Route'' header_name
      then check_uri_components u uri_component_use_for_dialog_ct_rr_ro
      else check_uri_components u uri_component_use_for_external)"

end
