(* ===== verification/MainLoop.thy ===== *)
theory MainLoop
  imports Prelude
begin

text \<open>
  The main loop of \<^verbatim>\<open>src/belle_sip_loop.c\<close>. A source is a timer (\<^verbatim>\<open>fd==-1\<close>) or a polled descriptor;
  its callback is a value of type \<^typ>\<open>'cb\<close>, which the client's \<open>notify\<close> function interprets on the
  whole state. The loop's own state is the record \<open>mloop\<close>, which the records of the client
  components extend, so that a callback may add, remove, cancel or re-arm sources while the
  loop is iterating. \<^verbatim>\<open>belle_sip_time_ms\<close> is the field \<open>ml_time\<close>, and the poll of the operating
  system the parameter \<open>poll\<close>, which gives the time after waiting and the events of each
  descriptor, or \<^term>\<open>None\<close> for an error. Times are 64-bit and timeouts 32-bit words.
\<close>

section \<open>Sources and the loop's state\<close>

record 'cb source =
  src_cb :: 'cb
  src_id :: nat
  src_has_fd :: bool
  src_timeout :: "32 word"
  src_expire_ms :: "64 word"
  src_revents :: nat
  src_cancelled :: bool
  src_expired :: bool
  src_oneshot :: bool
  src_notify_required :: bool

record 'cb mloop =
  ml_time :: "64 word"
  ml_sources :: "nat list"
  ml_src :: "nat \<Rightarrow> 'cb source option"
  ml_brk :: nat
  ml_global_id :: nat
  ml_in_iterate :: bool
  ml_run :: bool

definition BELLE_SIP_STOP :: int where "BELLE_SIP_STOP = 0"
definition BELLE_SIP_CONTINUE :: int where "BELLE_SIP_CONTINUE = 1"
definition BELLE_SIP_CONTINUE_WITHOUT_CATCHUP :: int where "BELLE_SIP_CONTINUE_WITHOUT_CATCHUP = 2"
definition BELLE_SIP_EVENT_READ :: nat where "BELLE_SIP_EVENT_READ = 1"
definition BELLE_SIP_EVENT_TIMEOUT :: nat where "BELLE_SIP_EVENT_TIMEOUT = 8"

definition upd_src :: "('cb, 'a) mloop_scheme \<Rightarrow> nat \<Rightarrow> ('cb source \<Rightarrow> 'cb source)
    \<Rightarrow> ('cb, 'a) mloop_scheme option" where
  "upd_src w s f = (case ml_src w s of None \<Rightarrow> None
     | Some r \<Rightarrow> Some (w\<lparr>ml_src := (ml_src w)(s \<mapsto> f r)\<rparr>))"

text \<open>\<^verbatim>\<open>source->timeout>=0\<close>, on the signed field.\<close>

definition timeout_set :: "'cb source \<Rightarrow> bool" where
  "timeout_set r \<longleftrightarrow> 0 \<le> sint (src_timeout r)"

definition belle_sip_source_new ::
  "('cb, 'a) mloop_scheme \<Rightarrow> 'cb \<Rightarrow> bool \<Rightarrow> 32 word \<Rightarrow> ('cb, 'a) mloop_scheme \<times> nat" where
  "belle_sip_source_new w cb has_fd timeout =
     (let s = ml_brk w in
      (w\<lparr>ml_src := (ml_src w)(s \<mapsto> \<lparr>src_cb = cb, src_id = ml_global_id w, src_has_fd = has_fd,
           src_timeout = timeout, src_expire_ms = 0, src_revents = 0, src_cancelled = False,
           src_expired = False, src_oneshot = False, src_notify_required = False\<rparr>),
         ml_brk := Suc s, ml_global_id := Suc (ml_global_id w)\<rparr>, s))"

definition belle_sip_timeout_source_new ::
  "('cb, 'a) mloop_scheme \<Rightarrow> 'cb \<Rightarrow> 32 word \<Rightarrow> ('cb, 'a) mloop_scheme \<times> nat" where
  "belle_sip_timeout_source_new w cb timeout = belle_sip_source_new w cb False timeout"

text \<open>
  \<^verbatim>\<open>belle_sip_main_loop_add_source\<close>. A source that has a neighbour in the list is a fatal error;
  the only source of the list has none, and adding it again links it to itself (an endless
  list), which is also a crash here.
\<close>

definition belle_sip_main_loop_add_source ::
  "('cb, 'a) mloop_scheme \<Rightarrow> nat \<Rightarrow> ('cb, 'a) mloop_scheme option" where
  "belle_sip_main_loop_add_source w s =
     (if s \<in> set (ml_sources w) then None
      else do {
        w \<leftarrow> upd_src w s (\<lambda>r. (if timeout_set r
               then r\<lparr>src_expire_ms := ml_time w + ucast (src_timeout r)\<rparr> else r)\<lparr>src_cancelled := False\<rparr>);
        Some (w\<lparr>ml_sources := ml_sources w @ [s]\<rparr>) })"

definition belle_sip_main_loop_remove_source ::
  "('cb, 'a) mloop_scheme \<Rightarrow> nat \<Rightarrow> ('cb, 'a) mloop_scheme option" where
  "belle_sip_main_loop_remove_source w s =
     (if s \<notin> set (ml_sources w) then Some w
      else do {
        w \<leftarrow> upd_src w s (\<lambda>r. r\<lparr>src_cancelled := True\<rparr>);
        Some (w\<lparr>ml_sources := remove1 s (ml_sources w)\<rparr>) })"

definition belle_sip_main_loop_create_timeout ::
  "('cb, 'a) mloop_scheme \<Rightarrow> 'cb \<Rightarrow> 32 word \<Rightarrow> (('cb, 'a) mloop_scheme \<times> nat) option" where
  "belle_sip_main_loop_create_timeout w cb timeout =
     (let (w, s) = belle_sip_timeout_source_new w cb timeout in
      do { w \<leftarrow> belle_sip_main_loop_add_source w s; Some (w, s) })"

definition belle_sip_main_loop_do_later ::
  "('cb, 'a) mloop_scheme \<Rightarrow> 'cb \<Rightarrow> ('cb, 'a) mloop_scheme option" where
  "belle_sip_main_loop_do_later w cb =
     do { (w, s) \<leftarrow> belle_sip_main_loop_create_timeout w cb 0;
          upd_src w s (\<lambda>r. r\<lparr>src_oneshot := True\<rparr>) }"

definition belle_sip_source_set_timeout ::
  "('cb, 'a) mloop_scheme \<Rightarrow> nat \<Rightarrow> 32 word \<Rightarrow> ('cb, 'a) mloop_scheme option" where
  "belle_sip_source_set_timeout w s val =
     upd_src w s (\<lambda>r. (if src_expired r then r
        else r\<lparr>src_expire_ms := ml_time w + ucast val\<rparr>)\<lparr>src_timeout := val\<rparr>)"

definition belle_sip_source_get_timeout :: "('cb, 'a) mloop_scheme \<Rightarrow> nat \<Rightarrow> 32 word option" where
  "belle_sip_source_get_timeout w s = map_option src_timeout (ml_src w s)"

definition belle_sip_main_loop_find_source :: "('cb, 'a) mloop_scheme \<Rightarrow> nat \<Rightarrow> nat option" where
  "belle_sip_main_loop_find_source w i =
     find (\<lambda>s. map_option src_id (ml_src w s) = Some i) (ml_sources w)"

definition belle_sip_main_loop_cancel_source ::
  "('cb, 'a) mloop_scheme \<Rightarrow> nat \<Rightarrow> ('cb, 'a) mloop_scheme option" where
  "belle_sip_main_loop_cancel_source w i =
     (case belle_sip_main_loop_find_source w i of None \<Rightarrow> Some w
      | Some s \<Rightarrow> upd_src w s (\<lambda>r. r\<lparr>src_cancelled := True\<rparr>))"

definition belle_sip_main_loop_quit :: "('cb, 'a) mloop_scheme \<Rightarrow> ('cb, 'a) mloop_scheme \<times> int" where
  "belle_sip_main_loop_quit w = (w\<lparr>ml_run := False\<rparr>, BELLE_SIP_STOP)"

section \<open>One iteration\<close>

text \<open>Step 1: the descriptors to poll and the earliest expiry (\<^term>\<open>-1\<close> when there is none).\<close>

fun prepare_loop :: "('cb, 'a) mloop_scheme \<Rightarrow> nat list \<Rightarrow> nat list \<Rightarrow> 64 word
    \<Rightarrow> (nat list \<times> 64 word) option" where
  "prepare_loop w [] pfd min_time = Some (pfd, min_time)"
| "prepare_loop w (s # elem) pfd min_time = do {
     r \<leftarrow> ml_src w s;
     (if src_cancelled r then prepare_loop w elem pfd min_time
      else prepare_loop w elem (if src_has_fd r then pfd @ [s] else pfd)
             (if timeout_set r \<and> src_expire_ms r < min_time then src_expire_ms r else min_time)) }"

text \<open>The duration given to the poll, the \<^verbatim>\<open>int\<close> truncation of the 64-bit difference included.\<close>

definition poll_duration :: "64 word \<Rightarrow> 64 word \<Rightarrow> 32 word" where
  "poll_duration min_time cur =
     (if min_time = - 1 then - 1
      else if 0 < sint (min_time - cur) then ucast (min_time - cur) else 0)"

text \<open>Step 2: the sources to notify, in list order; cancelled ones are queued to be removed.\<close>

definition examine_source :: "'cb source \<Rightarrow> nat \<Rightarrow> 64 word \<Rightarrow> 'cb source \<times> bool" where
  "examine_source r e cur =
     (let revents = (if src_has_fd r
                     then (if src_notify_required r then BELLE_SIP_EVENT_READ else e) else 0);
          r = (if src_has_fd r then r\<lparr>src_revents := revents, src_notify_required := False\<rparr> else r)
      in if revents \<noteq> 0 \<or> timeout_set r \<and> src_expire_ms r \<le> cur
         then (r\<lparr>src_expired := True,
                 src_revents := (if src_revents r = 0 then BELLE_SIP_EVENT_TIMEOUT else src_revents r)\<rparr>, True)
         else (r, False))"

fun examine_loop :: "('cb, 'a) mloop_scheme \<Rightarrow> (nat \<Rightarrow> nat) \<Rightarrow> 64 word \<Rightarrow> nat list \<Rightarrow> nat list
    \<Rightarrow> (('cb, 'a) mloop_scheme \<times> nat list) option" where
  "examine_loop w ev cur [] tbn = Some (w, tbn)"
| "examine_loop w ev cur (s # elem) tbn = do {
     r \<leftarrow> ml_src w s;
     (if src_cancelled r then examine_loop w ev cur elem (tbn @ [s])
      else let (r, due) = examine_source r (ev s) cur
           in examine_loop (w\<lparr>ml_src := (ml_src w)(s \<mapsto> r)\<rparr>) ev cur elem (if due then tbn @ [s] else tbn)) }"

text \<open>Step 3: the notifications. \<open>notify cb revents w\<close> runs a callback on the whole state.\<close>

definition notify_source ::
  "('cb \<Rightarrow> nat \<Rightarrow> ('cb, 'a) mloop_scheme \<Rightarrow> (('cb, 'a) mloop_scheme \<times> int) option) \<Rightarrow> 64 word
     \<Rightarrow> ('cb, 'a) mloop_scheme \<Rightarrow> nat \<Rightarrow> ('cb, 'a) mloop_scheme option" where
  "notify_source notify cur w s = do {
     r \<leftarrow> ml_src w s;
     (if src_cancelled r then belle_sip_main_loop_remove_source w s
      else do {
        (w, ret) \<leftarrow> notify (src_cb r) (src_revents r) w;
        r \<leftarrow> ml_src w s;
        (if ret = BELLE_SIP_STOP \<or> src_oneshot r then belle_sip_main_loop_remove_source w s
         else if src_revents r = BELLE_SIP_EVENT_TIMEOUT then
           upd_src w s (\<lambda>r. r\<lparr>src_expire_ms := (if ret = BELLE_SIP_CONTINUE_WITHOUT_CATCHUP
                                then cur + scast (src_timeout r)
                                else src_expire_ms r + scast (src_timeout r)),
                              src_expired := False\<rparr>)
         else Some w) }) }"

fun notify_loop ::
  "('cb \<Rightarrow> nat \<Rightarrow> ('cb, 'a) mloop_scheme \<Rightarrow> (('cb, 'a) mloop_scheme \<times> int) option) \<Rightarrow> 64 word
     \<Rightarrow> ('cb, 'a) mloop_scheme \<Rightarrow> nat list \<Rightarrow> ('cb, 'a) mloop_scheme option" where
  "notify_loop notify cur w [] = Some w"
| "notify_loop notify cur w (s # elem) =
     do { w \<leftarrow> notify_source notify cur w s; notify_loop notify cur w elem }"

definition belle_sip_main_loop_iterate ::
  "('cb \<Rightarrow> nat \<Rightarrow> ('cb, 'a) mloop_scheme \<Rightarrow> (('cb, 'a) mloop_scheme \<times> int) option)
     \<Rightarrow> (nat list \<Rightarrow> 32 word \<Rightarrow> (64 word \<times> (nat \<Rightarrow> nat)) option)
     \<Rightarrow> ('cb, 'a) mloop_scheme \<Rightarrow> ('cb, 'a) mloop_scheme option" where
  "belle_sip_main_loop_iterate notify poll w =
     (if ml_in_iterate w then Some w
      else let w = w\<lparr>ml_in_iterate := True\<rparr> in do {
        (pfd, min_time) \<leftarrow> prepare_loop w (ml_sources w) [] (- 1);
        w \<leftarrow> (case poll pfd (poll_duration min_time (ml_time w)) of
               None \<Rightarrow> Some w
             | Some (cur, ev) \<Rightarrow> do {
                 let w = w\<lparr>ml_time := cur\<rparr>;
                 (w, to_be_notified) \<leftarrow> examine_loop w ev cur (ml_sources w) [];
                 notify_loop notify cur w to_be_notified });
        Some (w\<lparr>ml_in_iterate := False\<rparr>) })"

text \<open>
  \<^verbatim>\<open>belle_sip_main_loop_run\<close>, with one poll function per turn: \<^term>\<open>None\<close> when the turns given
  run out before the loop is told to quit.
\<close>

fun run_loop ::
  "('cb \<Rightarrow> nat \<Rightarrow> ('cb, 'a) mloop_scheme \<Rightarrow> (('cb, 'a) mloop_scheme \<times> int) option)
     \<Rightarrow> (nat list \<Rightarrow> 32 word \<Rightarrow> (64 word \<times> (nat \<Rightarrow> nat)) option) list
     \<Rightarrow> ('cb, 'a) mloop_scheme \<Rightarrow> ('cb, 'a) mloop_scheme option" where
  "run_loop notify [] w = (if ml_run w then None else Some w)"
| "run_loop notify (poll # polls) w =
     (if ml_run w then do {
        w \<leftarrow> belle_sip_main_loop_iterate notify poll w;
        (if ml_in_iterate w then Some w else run_loop notify polls w) }
      else Some w)"

definition belle_sip_main_loop_run ::
  "('cb \<Rightarrow> nat \<Rightarrow> ('cb, 'a) mloop_scheme \<Rightarrow> (('cb, 'a) mloop_scheme \<times> int) option)
     \<Rightarrow> (nat list \<Rightarrow> 32 word \<Rightarrow> (64 word \<times> (nat \<Rightarrow> nat)) option) list
     \<Rightarrow> ('cb, 'a) mloop_scheme \<Rightarrow> ('cb, 'a) mloop_scheme option" where
  "belle_sip_main_loop_run notify polls w = run_loop notify polls (w\<lparr>ml_run := True\<rparr>)"

section \<open>Invariant\<close>

definition ml_inv :: "('cb, 'a) mloop_scheme \<Rightarrow> bool" where
  "ml_inv w \<longleftrightarrow> distinct (ml_sources w) \<and> (\<forall>s\<in>set (ml_sources w). ml_src w s \<noteq> None)
     \<and> (\<forall>s. ml_src w s \<noteq> None \<longrightarrow> s < ml_brk w)"

lemma upd_src_Some [simp]: "ml_src w s = Some r \<Longrightarrow> upd_src w s f = Some (w\<lparr>ml_src := (ml_src w)(s \<mapsto> f r)\<rparr>)"
  by (simp add: upd_src_def)

lemma ml_inv_upd: "ml_inv w \<Longrightarrow> upd_src w s f = Some w' \<Longrightarrow> ml_inv w'"
  by (auto simp: ml_inv_def upd_src_def split: option.splits if_splits)

lemma ml_inv_new: "ml_inv w \<Longrightarrow> ml_inv (fst (belle_sip_timeout_source_new w cb t))"
  by (auto simp: ml_inv_def belle_sip_timeout_source_new_def belle_sip_source_new_def Let_def less_Suc_eq)

lemma ml_inv_add: "ml_inv w \<Longrightarrow> belle_sip_main_loop_add_source w s = Some w' \<Longrightarrow> ml_inv w'"
  by (auto simp: ml_inv_def belle_sip_main_loop_add_source_def upd_src_def
        split: if_splits option.splits Option.bind_splits)

lemma ml_inv_remove: "ml_inv w \<Longrightarrow> belle_sip_main_loop_remove_source w s = Some w' \<Longrightarrow> ml_inv w'"
  by (auto simp: ml_inv_def belle_sip_main_loop_remove_source_def upd_src_def set_remove1_eq
        split: if_splits option.splits Option.bind_splits)

lemma remove_source_returns:
  "ml_inv w \<Longrightarrow> \<exists>w'. belle_sip_main_loop_remove_source w s = Some w'
     \<and> ml_sources w' = remove1 s (ml_sources w)"
  by (auto simp: ml_inv_def belle_sip_main_loop_remove_source_def upd_src_def remove1_idem)

lemma add_new_returns:
  "ml_inv w \<Longrightarrow> \<exists>w'. belle_sip_main_loop_add_source (fst (belle_sip_timeout_source_new w cb t))
        (snd (belle_sip_timeout_source_new w cb t)) = Some w'
     \<and> ml_sources w' = ml_sources w @ [ml_brk w]"
  by (auto simp: ml_inv_def belle_sip_main_loop_add_source_def belle_sip_timeout_source_new_def
        belle_sip_source_new_def upd_src_def Let_def)

text \<open>
  What the operations on sources leave alone: everything but the sources themselves, whose
  memory is never taken back. Client components see their own fields unchanged.
\<close>

definition loop_only :: "('cb, 'a) mloop_scheme \<Rightarrow> ('cb, 'a) mloop_scheme \<Rightarrow> bool" where
  "loop_only w w' \<longleftrightarrow> (\<exists>ss src b g. w' = w\<lparr>ml_sources := ss, ml_src := src, ml_brk := b, ml_global_id := g\<rparr>)
     \<and> (\<forall>s. ml_src w s \<noteq> None \<longrightarrow> ml_src w' s \<noteq> None)"

lemma loop_onlyI:
  "w' = w\<lparr>ml_sources := ss, ml_src := src, ml_brk := b, ml_global_id := g\<rparr> \<Longrightarrow>
   (\<And>s. ml_src w s \<noteq> None \<Longrightarrow> src s \<noteq> None) \<Longrightarrow> loop_only w w'"
  unfolding loop_only_def by (intro conjI exI[of _ ss] exI[of _ src] exI[of _ b] exI[of _ g]) auto

lemma loop_only_refl: "loop_only w w"
  by (rule loop_onlyI[where ss="ml_sources w" and src="ml_src w" and b="ml_brk w" and g="ml_global_id w"]) simp_all

lemma loop_only_trans: "loop_only w w' \<Longrightarrow> loop_only w' w'' \<Longrightarrow> loop_only w w''"
proof -
  assume a: "loop_only w w'" and b: "loop_only w' w''"
  obtain ss src b1 g where 1: "w' = w\<lparr>ml_sources := ss, ml_src := src, ml_brk := b1, ml_global_id := g\<rparr>"
    using a unfolding loop_only_def by blast
  obtain ss2 src2 b2 g2 where 2: "w'' = w'\<lparr>ml_sources := ss2, ml_src := src2, ml_brk := b2, ml_global_id := g2\<rparr>"
    using b unfolding loop_only_def by blast
  have 3: "ml_src w'' s \<noteq> None" if "ml_src w s \<noteq> None" for s
    using a b that unfolding loop_only_def by blast
  have "w'' = w\<lparr>ml_sources := ss2, ml_src := src2, ml_brk := b2, ml_global_id := g2\<rparr>"
    unfolding 2 unfolding 1 by simp
  moreover from this have "src2 s \<noteq> None" if "ml_src w s \<noteq> None" for s using 3[OF that] by simp
  ultimately show ?thesis
    by (rule loop_onlyI[where ss=ss2 and src=src2 and b=b2 and g=g2])
qed

lemma loop_only_time: "loop_only w w' \<Longrightarrow> ml_time w' = ml_time w \<and> mloop.more w' = mloop.more w"
  by (auto simp: loop_only_def)

lemma upd_src_returns:
  assumes "ml_inv w" and "ml_src w s \<noteq> None"
  shows "\<exists>w'. upd_src w s f = Some w' \<and> loop_only w w' \<and> ml_inv w' \<and> ml_sources w' = ml_sources w"
proof -
  obtain r where r: "ml_src w s = Some r" using assms(2) by auto
  let ?w = "w\<lparr>ml_src := (ml_src w)(s \<mapsto> f r)\<rparr>"
  have "loop_only w ?w"
    by (rule loop_onlyI[where ss="ml_sources w" and src="(ml_src w)(s \<mapsto> f r)" and b="ml_brk w" and g="ml_global_id w"]) auto
  moreover have "upd_src w s f = Some ?w" using r by simp
  ultimately show ?thesis using ml_inv_upd[OF assms(1)] by fastforce
qed

lemma set_timeout_returns:
  "ml_inv w \<Longrightarrow> ml_src w s \<noteq> None \<Longrightarrow>
   \<exists>w'. belle_sip_source_set_timeout w s v = Some w' \<and> loop_only w w' \<and> ml_inv w' \<and> ml_sources w' = ml_sources w"
  unfolding belle_sip_source_set_timeout_def by (rule upd_src_returns)

lemma remove_source_frame:
  assumes "ml_inv w"
  shows "\<exists>w'. belle_sip_main_loop_remove_source w s = Some w' \<and> loop_only w w' \<and> ml_inv w'
     \<and> ml_sources w' = remove1 s (ml_sources w)"
proof (cases "s \<in> set (ml_sources w)")
  case False
  then show ?thesis using assms loop_only_refl
    by (simp add: belle_sip_main_loop_remove_source_def remove1_idem)
next
  case True
  then obtain r where r: "ml_src w s = Some r" using assms by (auto simp: ml_inv_def)
  let ?w = "w\<lparr>ml_src := (ml_src w)(s \<mapsto> r\<lparr>src_cancelled := True\<rparr>), ml_sources := remove1 s (ml_sources w)\<rparr>"
  have eq: "belle_sip_main_loop_remove_source w s = Some ?w"
    using True r by (simp add: belle_sip_main_loop_remove_source_def)
  have "loop_only w ?w"
    by (rule loop_onlyI[where ss="remove1 s (ml_sources w)" and src="(ml_src w)(s \<mapsto> r\<lparr>src_cancelled := True\<rparr>)"
          and b="ml_brk w" and g="ml_global_id w"]) auto
  then show ?thesis using eq ml_inv_remove[OF assms eq] by simp
qed

lemma create_timeout_frame:
  assumes "ml_inv w"
  shows "\<exists>w'. belle_sip_main_loop_create_timeout w cb v = Some (w', ml_brk w) \<and> loop_only w w' \<and> ml_inv w'
     \<and> ml_sources w' = ml_sources w @ [ml_brk w] \<and> ml_src w' (ml_brk w) \<noteq> None"
proof -
  let ?n = "fst (belle_sip_timeout_source_new w cb v)"
  have n: "ml_inv ?n" "loop_only w ?n" "snd (belle_sip_timeout_source_new w cb v) = ml_brk w"
      "ml_sources ?n = ml_sources w" "ml_src ?n (ml_brk w) \<noteq> None"
    using assms ml_inv_new[OF assms]
    by (auto simp: belle_sip_timeout_source_new_def belle_sip_source_new_def Let_def
        intro!: loop_onlyI[where ss="ml_sources w" and b="Suc (ml_brk w)" and g="Suc (ml_global_id w)"])
  have fresh: "ml_brk w \<notin> set (ml_sources w)" using assms by (auto simp: ml_inv_def)
  obtain w1 where w1: "upd_src ?n (ml_brk w) (\<lambda>r. (if timeout_set r
               then r\<lparr>src_expire_ms := ml_time ?n + ucast (src_timeout r)\<rparr> else r)\<lparr>src_cancelled := False\<rparr>) = Some w1"
      "loop_only ?n w1" "ml_inv w1" "ml_sources w1 = ml_sources w"
    using upd_src_returns[OF n(1) n(5)] n(4) by metis
  let ?w = "w1\<lparr>ml_sources := ml_sources w1 @ [ml_brk w]\<rparr>"
  have add: "belle_sip_main_loop_add_source ?n (ml_brk w) = Some ?w"
    using w1 n fresh by (simp add: belle_sip_main_loop_add_source_def)
  have "loop_only w1 ?w"
    by (rule loop_onlyI[where ss="ml_sources w1 @ [ml_brk w]" and src="ml_src w1" and b="ml_brk w1" and g="ml_global_id w1"]) auto
  then have "loop_only w ?w" using n w1 loop_only_trans by metis
  moreover have "ml_inv ?w" using ml_inv_add[OF n(1) add] .
  moreover have "ml_src ?w (ml_brk w) \<noteq> None" using w1(2) n(5) by (simp add: loop_only_def)
  ultimately show ?thesis
    using add n(3) w1(4) by (simp add: belle_sip_main_loop_create_timeout_def case_prod_unfold Let_def)
qed

section \<open>Which sources are notified\<close>

definition to_notify :: "('cb, 'a) mloop_scheme \<Rightarrow> (nat \<Rightarrow> nat) \<Rightarrow> 64 word \<Rightarrow> nat \<Rightarrow> bool" where
  "to_notify w ev cur s = (case ml_src w s of None \<Rightarrow> False
     | Some r \<Rightarrow> src_cancelled r \<or> (src_has_fd r \<and> (src_notify_required r \<or> ev s \<noteq> 0))
         \<or> (timeout_set r \<and> src_expire_ms r \<le> cur))"

lemma to_notify_upd: "s \<noteq> s' \<Longrightarrow> to_notify (w\<lparr>ml_src := (ml_src w)(s \<mapsto> r)\<rparr>) ev cur s' = to_notify w ev cur s'"
  by (simp add: to_notify_def)

lemma examine_loop_filter:
  assumes "distinct elem" and "\<forall>s\<in>set elem. ml_src w s \<noteq> None"
  shows "\<exists>w'. examine_loop w ev cur elem tbn = Some (w', tbn @ filter (to_notify w ev cur) elem)
     \<and> ml_sources w' = ml_sources w"
  using assms
proof (induction elem arbitrary: w tbn)
  case (Cons s elem)
  then obtain r where r: "ml_src w s = Some r" by auto
  have flt: "filter (to_notify (w\<lparr>ml_src := (ml_src w)(s \<mapsto> r')\<rparr>) ev cur) elem
    = filter (to_notify w ev cur) elem" for r'
    using Cons.prems(1) by (intro filter_cong refl to_notify_upd) auto
  have pre: "\<forall>s'\<in>set elem. ml_src (w\<lparr>ml_src := (ml_src w)(s \<mapsto> r')\<rparr>) s' \<noteq> None" for r'
    using Cons.prems by auto
  show ?case
  proof (cases "src_cancelled r")
    case True
    with Cons.IH[of w "tbn @ [s]"] Cons.prems r show ?thesis by (simp add: to_notify_def)
  next
    case False
    have d: "distinct elem" using Cons.prems by simp
    note ih = Cons.IH[OF d pre]
    have due: "snd (examine_source r (ev s) cur) = to_notify w ev cur s"
      using r False
      by (auto simp: examine_source_def to_notify_def Let_def BELLE_SIP_EVENT_READ_def timeout_set_def)
    show ?thesis
      using r False ih[of "fst (examine_source r (ev s) cur)"
          "if to_notify w ev cur s then tbn @ [s] else tbn"] flt due
      by (cases "examine_source r (ev s) cur") auto
  qed
qed simp

section \<open>Properties\<close>


text \<open>Two timers, one of which is due.\<close>

definition two_timers :: "string mloop" where
  "two_timers = \<lparr>ml_time = 0, ml_sources = [0, 1],
     ml_src = [0 \<mapsto> \<lparr>src_cb = ''A'', src_id = 1, src_has_fd = False, src_timeout = 500, src_expire_ms = 500,
                    src_revents = 0, src_cancelled = False, src_expired = False, src_oneshot = False,
                    src_notify_required = False\<rparr>,
               1 \<mapsto> \<lparr>src_cb = ''B'', src_id = 2, src_has_fd = False, src_timeout = 32000, src_expire_ms = 32000,
                    src_revents = 0, src_cancelled = False, src_expired = False, src_oneshot = False,
                    src_notify_required = False\<rparr>],
     ml_brk = 2, ml_global_id = 3, ml_in_iterate = False, ml_run = False\<rparr>"

lemma ml_inv_two_timers: "ml_inv two_timers"
  by (auto simp: ml_inv_def two_timers_def split: if_splits)




text \<open>A source that has been notified of an event of its descriptor keeps its \<^verbatim>\<open>expired\<close> flag, so a
  later \<^verbatim>\<open>belle_sip_source_set_timeout\<close> changes the timeout but not the expiry date.\<close>

lemma set_timeout_after_event_keeps_expiry:
  assumes "ml_src w s = Some r" and "src_has_fd r" and "\<not> src_cancelled r"
    and "\<not> src_notify_required r" and "ev s = BELLE_SIP_EVENT_READ" and "\<not> src_oneshot r"
    and "examine_loop w ev cur [s] [] = Some (w1, tbn)"
    and "notify_loop (\<lambda>cb revents w. Some (w, BELLE_SIP_CONTINUE)) cur w1 tbn = Some w2"
    and "belle_sip_source_set_timeout w2 s t = Some w3"
  shows "\<exists>r'. ml_src w3 s = Some r' \<and> src_timeout r' = t \<and> src_expire_ms r' = src_expire_ms r"
  using assms
  by (auto simp: Let_def examine_source_def notify_source_def belle_sip_source_set_timeout_def
        BELLE_SIP_EVENT_READ_def BELLE_SIP_EVENT_TIMEOUT_def BELLE_SIP_CONTINUE_def BELLE_SIP_STOP_def)

lemma set_timeout_after_event_keeps_expiry_witness:
  "\<exists>w1 tbn w2 w3 r'. examine_loop (two_timers\<lparr>ml_src := [0 \<mapsto> (the (ml_src two_timers 0))\<lparr>src_has_fd := True\<rparr>]\<rparr>)
       (\<lambda>_. 1) 10 [0] [] = Some (w1, tbn)
     \<and> notify_loop (\<lambda>cb revents w. Some (w, BELLE_SIP_CONTINUE)) 10 w1 tbn = Some w2
     \<and> belle_sip_source_set_timeout w2 0 9000 = Some w3
     \<and> ml_src w3 0 = Some r' \<and> src_timeout r' = 9000 \<and> src_expire_ms r' = 500"
proof -
  let ?r = "(the (ml_src two_timers 0))\<lparr>src_has_fd := True\<rparr>"
  let ?w = "two_timers\<lparr>ml_src := [0 \<mapsto> ?r]\<rparr>"
  have r: "ml_src ?w 0 = Some ?r" "src_has_fd ?r" "\<not> src_cancelled ?r" "\<not> src_notify_required ?r"
    "\<not> src_oneshot ?r" "src_expire_ms ?r = 500"
    by (simp_all add: two_timers_def)
  obtain w1 tbn where 1: "examine_loop ?w (\<lambda>_. 1) 10 [0] [] = Some (w1, tbn)"
    by (simp add: two_timers_def Let_def examine_source_def)
  moreover obtain w2 where 2: "notify_loop (\<lambda>cb revents w. Some (w, BELLE_SIP_CONTINUE)) 10 w1 tbn = Some w2"
    using 1 by (auto simp: two_timers_def Let_def examine_source_def notify_source_def BELLE_SIP_CONTINUE_def BELLE_SIP_STOP_def
        BELLE_SIP_EVENT_TIMEOUT_def)
  moreover obtain w3 where 3: "belle_sip_source_set_timeout w2 0 9000 = Some w3"
    using 1 2 by (auto simp: two_timers_def Let_def examine_source_def notify_source_def BELLE_SIP_CONTINUE_def BELLE_SIP_STOP_def
        BELLE_SIP_EVENT_TIMEOUT_def belle_sip_source_set_timeout_def)
  moreover have "\<exists>r'. ml_src w3 0 = Some r' \<and> src_timeout r' = 9000 \<and> src_expire_ms r' = src_expire_ms ?r"
    by (rule set_timeout_after_event_keeps_expiry[OF r(1-4) _ r(5) 1 2 3])
      (simp add: BELLE_SIP_EVENT_READ_def)
  ultimately show ?thesis using r(6) by metis
qed

end
