(* ===== verification/SipMsg.thy ===== *)
theory SipMsg
  imports Uri MainLoop
begin

text \<open>
  Headers and messages: the header types the protocol core reads (\<^verbatim>\<open>src/belle_sip_headers_impl.c\<close>)
  and the message of \<^verbatim>\<open>src/message.c\<close>, a list of containers, one per header name, each holding the
  headers of that name in order. Headers are shared between messages by pointer and changed in
  place (the To tag, the Via branch, the CSeq number), so they live in a store by address, as
  do the messages. The record \<open>store\<close> extends the main loop's state.
\<close>

section \<open>Headers\<close>

record addr_header =
  displayname :: "string option"
  addr_uri :: "sip_uri option"
  addr_absolute_uri :: "string option"
  addr_params :: parameters

record via_header =
  via_protocol :: "string option"
  via_transport :: "string option"
  via_host :: "string option"
  via_port :: int
  via_received :: "string option"
  via_params :: parameters

record contact_flags =
  ct_wildcard :: bool
  ct_automatic :: bool
  ct_unknown :: bool

text \<open>The credentials of a request (\<^verbatim>\<open>Authorization\<close>, \<^verbatim>\<open>Proxy-Authorization\<close>) and the challenge of a response.\<close>

record auth_base =
  auth_scheme :: "string option"
  auth_realm :: "string option"
  auth_nonce :: "string option"
  auth_algorithm :: "string option"
  auth_opaque :: "string option"
  auth_params :: parameters

record auth_header = auth_base +
  auth_username :: "string option"
  auth_uri :: "sip_uri option"
  auth_response :: "string option"
  auth_cnonce :: "string option"
  auth_nonce_count :: int
  auth_qop :: "string option"

record www_authenticate = auth_base +
  www_domain :: "string option"
  www_stale :: int
  www_qop :: "string list"

datatype hbody =
    HVia via_header
  | is_HFrom: HFrom addr_header
  | is_HTo: HTo addr_header
  | is_HContact: HContact addr_header contact_flags
  | is_HRoute: HRoute addr_header
  | is_HRecordRoute: HRecordRoute addr_header bool
  | is_HCallId: HCallId "string option"
  | is_HCSeq: HCSeq "string option" "32 word"
  | is_HMaxForwards: HMaxForwards int
  | is_HContentLength: HContentLength nat
  | is_HPrivacy: HPrivacy "string list"
  | is_HAuthorization: HAuthorization auth_header
  | is_HProxyAuthorization: HProxyAuthorization auth_header
  | is_HWWWAuthenticate: HWWWAuthenticate www_authenticate
  | is_HProxyAuthenticate: HProxyAuthenticate www_authenticate
  | is_HExpires: HExpires int
  | is_HDate: HDate "string option"
  | is_HExtension: HExtension "string option"

record header =
  hname :: string
  hbody :: hbody

definition via_new :: via_header where
  "via_new = \<lparr>via_protocol = None, via_transport = None, via_host = None, via_port = 0,
     via_received = None, via_params = parameters_init\<rparr>"

definition belle_sip_header_via_create :: "string \<Rightarrow> int \<Rightarrow> string \<Rightarrow> string option \<Rightarrow> header" where
  "belle_sip_header_via_create host port transport branch =
     \<lparr>hname = ''Via'', hbody = HVia \<lparr>via_protocol = Some ''SIP/2.0'', via_transport = Some transport,
        via_host = Some host, via_port = port, via_received = None,
        via_params = belle_sip_parameters_set_parameter parameters_init ''branch'' branch\<rparr>\<rparr>"

definition belle_sip_header_via_get_branch :: "via_header \<Rightarrow> string option" where
  "belle_sip_header_via_get_branch v = belle_sip_parameters_get_parameter (via_params v) ''branch''"

definition belle_sip_header_via_set_branch :: "via_header \<Rightarrow> string \<Rightarrow> via_header" where
  "belle_sip_header_via_set_branch v b =
     v\<lparr>via_params := belle_sip_parameters_set_parameter (via_params v) ''branch'' (Some b)\<rparr>"

definition belle_sip_header_via_get_rport :: "via_header \<Rightarrow> int" where
  "belle_sip_header_via_get_rport v =
     (case belle_sip_parameters_get_parameter (via_params v) ''rport'' of None \<Rightarrow> - 1 | Some s \<Rightarrow> atoi s)"

definition belle_sip_header_via_get_listening_port :: "via_header \<Rightarrow> int option" where
  "belle_sip_header_via_get_listening_port v =
     (if via_port v = 0
      then map_option belle_sip_listening_point_get_well_known_port (via_transport v)
      else Some (via_port v))"

definition belle_sip_header_via_get_transport_lowercase :: "via_header \<Rightarrow> string option" where
  "belle_sip_header_via_get_transport_lowercase v = do {
     t \<leftarrow> via_transport v;
     Some (if strcaseeq ''udp'' t then ''udp'' else if strcaseeq ''tcp'' t then ''tcp''
           else if strcaseeq ''tls'' t then ''tls'' else if strcaseeq ''dtls'' t then ''dtls'' else t) }"

definition addr_new :: addr_header where
  "addr_new = \<lparr>displayname = None, addr_uri = None, addr_absolute_uri = None, addr_params = parameters_init\<rparr>"

definition addr_clone :: "addr_header \<Rightarrow> addr_header" where
  "addr_clone a = \<lparr>displayname = displayname a, addr_uri = map_option belle_sip_uri_clone (addr_uri a),
     addr_absolute_uri = addr_absolute_uri a, addr_params = parameters_clone (addr_params a)\<rparr>"

fun addr_of :: "hbody \<Rightarrow> addr_header option" where
  "addr_of (HFrom a) = Some a"
| "addr_of (HTo a) = Some a"
| "addr_of (HContact a f) = Some a"
| "addr_of (HRoute a) = Some a"
| "addr_of (HRecordRoute a auto) = Some a"
| "addr_of _ = None"

fun set_addr :: "hbody \<Rightarrow> addr_header \<Rightarrow> hbody" where
  "set_addr (HFrom _) a = HFrom a"
| "set_addr (HTo _) a = HTo a"
| "set_addr (HContact _ f) a = HContact a f"
| "set_addr (HRoute _) a = HRoute a"
| "set_addr (HRecordRoute _ auto) a = HRecordRoute a auto"
| "set_addr b a = b"

definition get_tag :: "addr_header \<Rightarrow> string option" where
  "get_tag a = belle_sip_parameters_get_parameter (addr_params a) ''tag''"

definition set_tag :: "addr_header \<Rightarrow> string \<Rightarrow> addr_header" where
  "set_tag a t = a\<lparr>addr_params := belle_sip_parameters_set_parameter (addr_params a) ''tag'' (Some t)\<rparr>"

text \<open>The URI components that From and To must not carry are cleared when they are created.\<close>

definition clear_uri_components :: "sip_uri \<Rightarrow> sip_uri" where
  "clear_uri_components u =
     (let ps = uri_params u;
          ps = belle_sip_parameters_remove_parameter ps ''lr'';
          ps = belle_sip_parameters_remove_parameter ps ''ttl'';
          ps = belle_sip_parameters_remove_parameter ps ''method'';
          ps = belle_sip_parameters_remove_parameter ps ''maddr'';
          ps = belle_sip_parameters_remove_parameter ps ''transport''
      in belle_sip_uri_headers_clean (u\<lparr>uri_params := ps, uri_port := 0\<rparr>))"

definition from_like_create :: "addr_header \<Rightarrow> string option \<Rightarrow> addr_header" where
  "from_like_create a tag =
     (let h = addr_clone a;
          h = h\<lparr>addr_uri := map_option clear_uri_components (addr_uri h)\<rparr>
      in case tag of None \<Rightarrow> h | Some t \<Rightarrow> set_tag h t)"

definition belle_sip_header_from_create :: "addr_header \<Rightarrow> string option \<Rightarrow> header" where
  "belle_sip_header_from_create a tag = \<lparr>hname = ''From'', hbody = HFrom (from_like_create a tag)\<rparr>"

definition belle_sip_header_to_create :: "addr_header \<Rightarrow> string option \<Rightarrow> header" where
  "belle_sip_header_to_create a tag = \<lparr>hname = ''To'', hbody = HTo (from_like_create a tag)\<rparr>"

definition belle_sip_header_route_create :: "addr_header \<Rightarrow> header" where
  "belle_sip_header_route_create a = \<lparr>hname = ''Route'', hbody = HRoute (addr_clone a)\<rparr>"

definition belle_sip_header_contact_new :: header where
  "belle_sip_header_contact_new = \<lparr>hname = ''Contact'',
     hbody = HContact addr_new \<lparr>ct_wildcard = False, ct_automatic = False, ct_unknown = False\<rparr>\<rparr>"

definition belle_sip_header_cseq_create :: "32 word \<Rightarrow> string \<Rightarrow> header" where
  "belle_sip_header_cseq_create n method = \<lparr>hname = ''CSeq'', hbody = HCSeq (Some method) n\<rparr>"

definition belle_sip_header_extension_create :: "string \<Rightarrow> string option \<Rightarrow> header" where
  "belle_sip_header_extension_create name v = \<lparr>hname = name, hbody = HExtension v\<rparr>"

text \<open>\<^verbatim>\<open>belle_sip_object_clone\<close> of a header; the clone of a Contact does not copy \<^verbatim>\<open>unknown\<close>.\<close>

fun hbody_clone :: "hbody \<Rightarrow> hbody" where
  "hbody_clone (HVia v) = HVia (v\<lparr>via_params := parameters_clone (via_params v)\<rparr>)"
| "hbody_clone (HFrom a) = HFrom (addr_clone a)"
| "hbody_clone (HTo a) = HTo (addr_clone a)"
| "hbody_clone (HContact a f) = HContact (addr_clone a) (f\<lparr>ct_unknown := False\<rparr>)"
| "hbody_clone (HRoute a) = HRoute (addr_clone a)"
| "hbody_clone (HRecordRoute a auto) = HRecordRoute (addr_clone a) auto"
| "hbody_clone (HAuthorization a) = HAuthorization (a\<lparr>auth_params := parameters_clone (auth_params a),
     auth_uri := map_option belle_sip_uri_clone (auth_uri a)\<rparr>)"
| "hbody_clone (HProxyAuthorization a) = HProxyAuthorization (a\<lparr>auth_params := parameters_clone (auth_params a),
     auth_uri := map_option belle_sip_uri_clone (auth_uri a)\<rparr>)"
| "hbody_clone (HWWWAuthenticate a) = HWWWAuthenticate (a\<lparr>auth_params := parameters_clone (auth_params a)\<rparr>)"
| "hbody_clone (HProxyAuthenticate a) = HProxyAuthenticate (a\<lparr>auth_params := parameters_clone (auth_params a)\<rparr>)"
| "hbody_clone b = b"

definition header_clone :: "header \<Rightarrow> header" where
  "header_clone h = \<lparr>hname = hname h, hbody = hbody_clone (hbody h)\<rparr>"

section \<open>Messages\<close>

type_synonym headers_container = "string \<times> nat list"

text \<open>
  A request and a response share the record (\<open>is_request\<close> tells the class). The container list is
  \<^term>\<open>None\<close> once the pointer to it dangles, see \<^verbatim>\<open>belle_sip_message_remove_header\<close>.
\<close>

record message =
  m_header_list :: "headers_container list option"
  m_body :: "string option"
  is_request :: bool
  rq_method :: string
  rq_uri :: "sip_uri option"
  rq_absolute_uri :: "string option"
  rq_dialog :: "nat option"
  rq_rfc2543_branch :: "string option"
  rq_dialog_queued :: bool
  rs_status_code :: int
  rs_reason_phrase :: "string option"

record 'cb store = "'cb mloop" +
  hdrs :: "nat \<Rightarrow> header option"
  msgs :: "nat \<Rightarrow> message option"
  st_brk :: nat

definition new_hdr :: "('cb, 'a) store_scheme \<Rightarrow> header \<Rightarrow> ('cb, 'a) store_scheme \<times> nat" where
  "new_hdr w h = (w\<lparr>hdrs := (hdrs w)(st_brk w \<mapsto> h), st_brk := Suc (st_brk w)\<rparr>, st_brk w)"

definition new_msg :: "('cb, 'a) store_scheme \<Rightarrow> message \<Rightarrow> ('cb, 'a) store_scheme \<times> nat" where
  "new_msg w m = (w\<lparr>msgs := (msgs w)(st_brk w \<mapsto> m), st_brk := Suc (st_brk w)\<rparr>, st_brk w)"

definition upd_hdr :: "('cb, 'a) store_scheme \<Rightarrow> nat \<Rightarrow> (header \<Rightarrow> header) \<Rightarrow> ('cb, 'a) store_scheme option" where
  "upd_hdr w a f = (case hdrs w a of None \<Rightarrow> None | Some h \<Rightarrow> Some (w\<lparr>hdrs := (hdrs w)(a \<mapsto> f h)\<rparr>))"

definition upd_msg :: "('cb, 'a) store_scheme \<Rightarrow> nat \<Rightarrow> (message \<Rightarrow> message) \<Rightarrow> ('cb, 'a) store_scheme option" where
  "upd_msg w a f = (case msgs w a of None \<Rightarrow> None | Some m \<Rightarrow> Some (w\<lparr>msgs := (msgs w)(a \<mapsto> f m)\<rparr>))"

definition empty_message :: message where
  "empty_message = \<lparr>m_header_list = Some [], m_body = None, is_request = True, rq_method = [],
     rq_uri = None, rq_absolute_uri = None, rq_dialog = None, rq_rfc2543_branch = None,
     rq_dialog_queued = False, rs_status_code = 0, rs_reason_phrase = None\<rparr>"

definition belle_sip_request_new :: "('cb, 'a) store_scheme \<Rightarrow> ('cb, 'a) store_scheme \<times> nat" where
  "belle_sip_request_new w = new_msg w empty_message"

definition belle_sip_response_new :: "('cb, 'a) store_scheme \<Rightarrow> ('cb, 'a) store_scheme \<times> nat" where
  "belle_sip_response_new w = new_msg w (empty_message\<lparr>is_request := False\<rparr>)"

text \<open>The one-letter names; any other name is its own expansion.\<close>

definition expand_name :: "string \<Rightarrow> string" where
  "expand_name name =
     (if name = ''a'' then ''Accept-Contact'' else if name = ''u'' then ''Allow-Events''
      else if name = ''e'' then ''Content-Encoding'' else if name = ''o'' then ''Event''
      else if name = ''y'' then ''Identity'' else if name = ''n'' then ''Identity-Info''
      else if name = ''r'' then ''Refer-To'' else if name = ''b'' then ''Referred-By''
      else if name = ''j'' then ''Reject-Contact'' else if name = ''d'' then ''Request-Disposition''
      else if name = ''x'' then ''Session-Expires'' else if name = ''s'' then ''Subject''
      else if name = ''k'' then ''Supported'' else name)"

definition headers_container_comp_func :: "headers_container \<Rightarrow> string \<Rightarrow> bool" where
  "headers_container_comp_func c name \<longleftrightarrow> strcaseeq (fst c) name"

definition container_get :: "headers_container list \<Rightarrow> string \<Rightarrow> nat list option" where
  "container_get cs name = map_option snd (find (\<lambda>c. headers_container_comp_func c name) cs)"

definition belle_sip_headers_container_get ::
  "('cb, 'a) store_scheme \<Rightarrow> nat \<Rightarrow> string \<Rightarrow> nat list option option" where
  "belle_sip_headers_container_get w m name =
     do { r \<leftarrow> msgs w m; cs \<leftarrow> m_header_list r; Some (container_get cs name) }"

text \<open>
  \<^verbatim>\<open>get_or_create_container\<close> followed by a change of the container's list. A new container takes
  the expanded name and goes last.
\<close>

fun in_container :: "headers_container list \<Rightarrow> string \<Rightarrow> (nat list \<Rightarrow> nat list) \<Rightarrow> headers_container list" where
  "in_container [] name f = [(expand_name name, f [])]"
| "in_container (c # cs) name f =
     (if headers_container_comp_func c name then (fst c, f (snd c)) # cs else c # in_container cs name f)"

definition get_or_create_container ::
  "('cb, 'a) store_scheme \<Rightarrow> nat \<Rightarrow> string \<Rightarrow> (nat list \<Rightarrow> nat list) \<Rightarrow> ('cb, 'a) store_scheme option" where
  "get_or_create_container w m name f = do {
     r \<leftarrow> msgs w m; cs \<leftarrow> m_header_list r;
     upd_msg w m (\<lambda>r. r\<lparr>m_header_list := Some (in_container cs name f)\<rparr>) }"

definition belle_sip_message_add_first ::
  "('cb, 'a) store_scheme \<Rightarrow> nat \<Rightarrow> nat \<Rightarrow> ('cb, 'a) store_scheme option" where
  "belle_sip_message_add_first w m h =
     do { x \<leftarrow> hdrs w h; get_or_create_container w m (hname x) (\<lambda>l. h # l) }"

definition belle_sip_message_add_header ::
  "('cb, 'a) store_scheme \<Rightarrow> nat \<Rightarrow> nat \<Rightarrow> ('cb, 'a) store_scheme option" where
  "belle_sip_message_add_header w m h =
     do { x \<leftarrow> hdrs w h; get_or_create_container w m (hname x) (\<lambda>l. l @ [h]) }"

text \<open>A header of another name in the list is a fatal error.\<close>

definition belle_sip_message_add_headers ::
  "('cb, 'a) store_scheme \<Rightarrow> nat \<Rightarrow> nat list \<Rightarrow> ('cb, 'a) store_scheme option" where
  "belle_sip_message_add_headers w m hl =
     (case hl of [] \<Rightarrow> Some w
      | h # _ \<Rightarrow> do {
          x \<leftarrow> hdrs w h;
          (if \<forall>g\<in>set hl. map_option hname (hdrs w g) = Some (hname x)
           then get_or_create_container w m (hname x) (\<lambda>l. l @ hl) else None) })"

definition belle_sip_message_set_header ::
  "('cb, 'a) store_scheme \<Rightarrow> nat \<Rightarrow> nat \<Rightarrow> ('cb, 'a) store_scheme option" where
  "belle_sip_message_set_header w m h =
     do { x \<leftarrow> hdrs w h; get_or_create_container w m (hname x) (\<lambda>l. [h]) }"

definition belle_sip_message_get_headers ::
  "('cb, 'a) store_scheme \<Rightarrow> nat \<Rightarrow> string \<Rightarrow> nat list option" where
  "belle_sip_message_get_headers w m name =
     do { c \<leftarrow> belle_sip_headers_container_get w m name; Some (case c of None \<Rightarrow> [] | Some l \<Rightarrow> l) }"

definition belle_sip_message_get_header ::
  "('cb, 'a) store_scheme \<Rightarrow> nat \<Rightarrow> string \<Rightarrow> nat option option" where
  "belle_sip_message_get_header w m name = do {
     l \<leftarrow> belle_sip_message_get_headers w m name;
     Some (case l of [] \<Rightarrow> None | h # _ \<Rightarrow> Some h) }"

text \<open>The first header of the first container whose first header has the type.\<close>

definition belle_sip_message_get_header_by_type ::
  "('cb, 'a) store_scheme \<Rightarrow> nat \<Rightarrow> (hbody \<Rightarrow> bool) \<Rightarrow> nat option option" where
  "belle_sip_message_get_header_by_type w m P = do {
     r \<leftarrow> msgs w m; cs \<leftarrow> m_header_list r;
     Some (find (\<lambda>h. case hdrs w h of None \<Rightarrow> False | Some x \<Rightarrow> P (hbody x))
             (map hd (filter (\<lambda>l. l \<noteq> []) (map snd cs)))) }"

definition belle_sip_message_remove_first ::
  "('cb, 'a) store_scheme \<Rightarrow> nat \<Rightarrow> string \<Rightarrow> ('cb, 'a) store_scheme option" where
  "belle_sip_message_remove_first w m name = do {
     c \<leftarrow> belle_sip_headers_container_get w m name;
     (if c = None then Some w else get_or_create_container w m name tl) }"

definition belle_sip_message_remove_last ::
  "('cb, 'a) store_scheme \<Rightarrow> nat \<Rightarrow> string \<Rightarrow> ('cb, 'a) store_scheme option" where
  "belle_sip_message_remove_last w m name = do {
     c \<leftarrow> belle_sip_headers_container_get w m name;
     (if c = None then Some w else get_or_create_container w m name butlast) }"

text \<open>
  \<^verbatim>\<open>belle_sip_message_remove_header\<close> does not store the list that \<^verbatim>\<open>belle_sip_list_remove\<close> returns:
  when the container is the first of the list, the message keeps a pointer to the freed cell.
\<close>

definition belle_sip_message_remove_header ::
  "('cb, 'a) store_scheme \<Rightarrow> nat \<Rightarrow> string \<Rightarrow> ('cb, 'a) store_scheme option" where
  "belle_sip_message_remove_header w m name = do {
     r \<leftarrow> msgs w m; cs \<leftarrow> m_header_list r;
     (case find_index (\<lambda>c. headers_container_comp_func c name) cs of
        None \<Rightarrow> Some w
      | Some 0 \<Rightarrow> upd_msg w m (\<lambda>r. r\<lparr>m_header_list := None\<rparr>)
      | Some i \<Rightarrow> upd_msg w m (\<lambda>r. r\<lparr>m_header_list := Some (take i cs @ drop (Suc i) cs)\<rparr>)) }"

definition belle_sip_message_get_all_headers :: "('cb, 'a) store_scheme \<Rightarrow> nat \<Rightarrow> nat list option" where
  "belle_sip_message_get_all_headers w m =
     do { r \<leftarrow> msgs w m; cs \<leftarrow> m_header_list r; Some (concat (map snd cs)) }"

text \<open>\<^verbatim>\<open>belle_sip_util_copy_headers\<close>: a clone of the first header replaces those of the target, or
  clones of all are added.\<close>

fun copy_all_headers :: "('cb, 'a) store_scheme \<Rightarrow> nat \<Rightarrow> nat list \<Rightarrow> ('cb, 'a) store_scheme option" where
  "copy_all_headers w dest [] = Some w"
| "copy_all_headers w dest (h # hs) = do {
     x \<leftarrow> hdrs w h;
     let (w, c) = new_hdr w (header_clone x);
     w \<leftarrow> belle_sip_message_add_header w dest c;
     copy_all_headers w dest hs }"

definition belle_sip_util_copy_headers ::
  "('cb, 'a) store_scheme \<Rightarrow> nat \<Rightarrow> nat \<Rightarrow> string \<Rightarrow> bool \<Rightarrow> ('cb, 'a) store_scheme option" where
  "belle_sip_util_copy_headers w orig dest name multiple = do {
     l \<leftarrow> belle_sip_message_get_headers w orig name;
     (if multiple then copy_all_headers w dest l
      else case l of [] \<Rightarrow> Some w
        | h # _ \<Rightarrow> do { x \<leftarrow> hdrs w h;
                       let (w, c) = new_hdr w (header_clone x);
                       belle_sip_message_set_header w dest c }) }"

definition belle_sip_request_set_dialog ::
  "('cb, 'a) store_scheme \<Rightarrow> nat \<Rightarrow> nat option \<Rightarrow> ('cb, 'a) store_scheme option" where
  "belle_sip_request_set_dialog w m d = upd_msg w m (\<lambda>r. r\<lparr>rq_dialog := d\<rparr>)"

definition belle_sip_request_set_uri ::
  "('cb, 'a) store_scheme \<Rightarrow> nat \<Rightarrow> sip_uri option \<Rightarrow> ('cb, 'a) store_scheme option" where
  "belle_sip_request_set_uri w m u = upd_msg w m (\<lambda>r. (if u \<noteq> None \<and> rq_absolute_uri r \<noteq> None
     then r\<lparr>rq_absolute_uri := None\<rparr> else r)\<lparr>rq_uri := u\<rparr>)"

end
