(* ===== verification/Message.thy ===== *)
theory Message
  imports SipMsg
begin

text \<open>
  Requests and responses built from others (\<^verbatim>\<open>src/message.c\<close>): the reason phrases, the request made
  from a URI and its headers, the response made from a request, the hop a response returns to,
  the contact fixed by a response's Via, and the checks of incoming and outgoing messages.
\<close>

section \<open>Construction\<close>

definition well_known_codes :: "(int \<times> string) list" where
  "well_known_codes = [
     (100, ''Trying''), (101, ''Dialog establishment''), (180, ''Ringing''),
     (181, ''Call is being forwarded''), (182, ''Queued''), (183, ''Session progress''),
     (200, ''Ok''), (202, ''Accepted''), (300, ''Multiple choices''), (301, ''Moved permanently''),
     (302, ''Moved temporarily''), (305, ''Use proxy''), (380, ''Alternate contact''),
     (400, ''Bad request''), (401, ''Unauthorized''), (402, ''Payment required''), (403, ''Forbidden''),
     (404, ''Not found''), (405, ''Method not allowed''), (406, ''Not acceptable''),
     (407, ''Proxy authentication required''), (408, ''Request timeout''), (410, ''Gone''),
     (412, ''Conditional Request Failed''), (413, ''Request entity too large''),
     (414, ''Request-URI too long''), (415, ''Unsupported media type''),
     (416, ''Unsupported URI scheme''), (420, ''Bad extension''), (421, ''Extension required''),
     (423, ''Interval too brief''), (480, ''Temporarily unavailable''),
     (481, ''Call/transaction does not exist''), (482, ''Loop detected''), (483, ''Too many hops''),
     (484, ''Address incomplete''), (485, ''Ambiguous''), (486, ''Busy here''),
     (487, ''Request terminated''), (488, ''Not acceptable here''), (489, ''Bad Event''),
     (491, ''Request pending''), (493, ''Undecipherable''), (500, ''Server internal error''),
     (501, ''Not implemented''), (502, ''Bad gateway''), (503, ''Service unavailable''),
     (504, ''Server time-out''), (505, ''Version not supported''), (513, ''Message too large''),
     (600, ''Busy everywhere''), (603, ''Decline''), (604, ''Does not exist anywhere''),
     (606, ''Not acceptable'')]"

definition belle_sip_get_well_known_reason_phrase :: "int \<Rightarrow> string" where
  "belle_sip_get_well_known_reason_phrase status_code =
     (case map_of well_known_codes status_code of None \<Rightarrow> ''Unknown reason'' | Some p \<Rightarrow> p)"

definition is_authorized_uri_header :: "string \<Rightarrow> bool" where
  "is_authorized_uri_header name \<longleftrightarrow>
     \<not> (\<exists>n\<in>set [''From'', ''Call-ID'', ''CSeq'', ''Via'', ''Record-Route'', ''Accept'', ''Accept-Encoding'',
          ''Accept-Language'', ''Allow'', ''Contact'', ''Organization'', ''Supported'', ''User-Agent''].
          strcaseeq n name)"

text \<open>The headers of the URI become headers of the request, except the dangerous ones.\<close>

fun add_uri_headers :: "('cb, 'a) store_scheme \<Rightarrow> nat \<Rightarrow> sip_uri \<Rightarrow> string list \<Rightarrow> ('cb, 'a) store_scheme option" where
  "add_uri_headers w m u [] = Some w"
| "add_uri_headers w m u (n # ns) =
     (if is_authorized_uri_header n then do {
        let (w, h) = new_hdr w (belle_sip_header_extension_create n (belle_sip_uri_get_header u n));
        w \<leftarrow> belle_sip_message_add_header w m h;
        add_uri_headers w m u ns }
      else add_uri_headers w m u ns)"

text \<open>
  \<^verbatim>\<open>belle_sip_request_create\<close>. The URI object is cleaned of its headers in place: the caller's URI
  is \<^verbatim>\<open>requri\<close> without headers, which is the URI of the request.
\<close>

definition belle_sip_request_create ::
  "('cb, 'a) store_scheme \<Rightarrow> sip_uri \<Rightarrow> string \<Rightarrow> nat \<Rightarrow> nat \<Rightarrow> nat \<Rightarrow> nat option \<Rightarrow> nat \<Rightarrow> int
     \<Rightarrow> (('cb, 'a) store_scheme \<times> nat) option" where
  "belle_sip_request_create w requri method callid cseq from to via max_forward = do {
     let (w, ret) = belle_sip_request_new w;
     let (w, mf) = new_hdr w \<lparr>hname = ''Max-Forwards'',
                     hbody = HMaxForwards (if max_forward = 0 then 70 else max_forward)\<rparr>;
     w \<leftarrow> upd_msg w ret (\<lambda>r. r\<lparr>rq_method := method\<rparr>);
     w \<leftarrow> belle_sip_message_add_header w ret via;
     w \<leftarrow> belle_sip_message_add_header w ret from;
     w \<leftarrow> (case to of None \<Rightarrow> Some w | Some t \<Rightarrow> belle_sip_message_add_header w ret t);
     w \<leftarrow> belle_sip_message_add_header w ret cseq;
     w \<leftarrow> belle_sip_message_add_header w ret callid;
     present \<leftarrow> belle_sip_message_get_header_by_type w ret is_HMaxForwards;
     w \<leftarrow> (if present = None then belle_sip_message_add_header w ret mf else Some w);
     w \<leftarrow> add_uri_headers w ret requri (belle_sip_uri_get_header_names requri);
     w \<leftarrow> belle_sip_request_set_uri w ret (Some (belle_sip_uri_headers_clean requri));
     Some (w, ret) }"

definition belle_sip_response_init_default :: "message \<Rightarrow> int \<Rightarrow> string option \<Rightarrow> message" where
  "belle_sip_response_init_default r status_code phrase = r\<lparr>rs_status_code := status_code,
     rs_reason_phrase := Some (case phrase of None \<Rightarrow> belle_sip_get_well_known_reason_phrase status_code
                                | Some p \<Rightarrow> p)\<rparr>"

definition add_opt_header ::
  "('cb, 'a) store_scheme \<Rightarrow> nat \<Rightarrow> nat option \<Rightarrow> ('cb, 'a) store_scheme option" where
  "add_opt_header w m h = (case h of None \<Rightarrow> Some w | Some h \<Rightarrow> belle_sip_message_add_header w m h)"

definition belle_sip_response_create_from_request ::
  "('cb, 'a) store_scheme \<Rightarrow> nat \<Rightarrow> int \<Rightarrow> (('cb, 'a) store_scheme \<times> nat) option" where
  "belle_sip_response_create_from_request w req status_code = do {
     let (w, resp) = belle_sip_response_new w;
     w \<leftarrow> upd_msg w resp (\<lambda>r. belle_sip_response_init_default r status_code None);
     h \<leftarrow> belle_sip_message_get_header w req ''timestamp'';
     w \<leftarrow> (if status_code = 100 then add_opt_header w resp h else Some w);
     vias \<leftarrow> belle_sip_message_get_headers w req ''via'';
     w \<leftarrow> belle_sip_message_add_headers w resp vias;
     h \<leftarrow> belle_sip_message_get_header w req ''from'';
     w \<leftarrow> add_opt_header w resp h;
     h \<leftarrow> belle_sip_message_get_header w req ''to'';
     w \<leftarrow> (case h of None \<Rightarrow> Some w
           | Some h \<Rightarrow> (if status_code \<noteq> 100 then do {
                x \<leftarrow> hdrs w h;
                let (w, to) = new_hdr w (header_clone x);
                belle_sip_message_add_header w resp to }
              else belle_sip_message_add_header w resp h));
     h \<leftarrow> belle_sip_message_get_header w req ''call-id'';
     w \<leftarrow> add_opt_header w resp h;
     h \<leftarrow> belle_sip_message_get_header w req ''cseq'';
     w \<leftarrow> add_opt_header w resp h;
     Some (w, resp) }"

definition belle_sip_response_fill_for_dialog ::
  "('cb, 'a) store_scheme \<Rightarrow> nat \<Rightarrow> nat \<Rightarrow> ('cb, 'a) store_scheme option" where
  "belle_sip_response_fill_for_dialog w obj req = do {
     rr \<leftarrow> belle_sip_message_get_headers w req ''Record-route'';
     ct \<leftarrow> belle_sip_message_get_header_by_type w obj is_HContact;
     w \<leftarrow> belle_sip_message_remove_header w obj ''Record-route'';
     w \<leftarrow> belle_sip_message_add_headers w obj rr;
     o' \<leftarrow> msgs w obj; r \<leftarrow> msgs w req;
     (if 200 \<le> rs_status_code o' \<and> rs_status_code o' < 300 \<and> ct = None
         \<and> (rq_method r = ''INVITE'' \<or> rq_method r = ''SUBSCRIBE'')
      then let (w, c) = new_hdr w belle_sip_header_contact_new in belle_sip_message_add_header w obj c
      else Some w) }"

section \<open>Where a message goes and comes from\<close>

definition belle_sip_response_get_return_hop :: "('cb, 'a) store_scheme \<Rightarrow> nat \<Rightarrow> hop option option" where
  "belle_sip_response_get_return_hop w msg = do {
     h \<leftarrow> belle_sip_message_get_header w msg ''via'';
     (case h of None \<Rightarrow> Some None
      | Some h \<Rightarrow> do {
          x \<leftarrow> hdrs w h;
          (case hbody x of
             HVia v \<Rightarrow> do {
               let host = (case via_received v of Some r \<Rightarrow> Some r | None \<Rightarrow> via_host v);
               port \<leftarrow> (if 0 < belle_sip_header_via_get_rport v then Some (belle_sip_header_via_get_rport v)
                        else belle_sip_header_via_get_listening_port v);
               t \<leftarrow> belle_sip_header_via_get_transport_lowercase v;
               Some (Some (belle_sip_hop_new (Some t) None host port)) }
           | _ \<Rightarrow> None) }) }"

definition belle_sip_stack_get_next_hop :: "('cb, 'a) store_scheme \<Rightarrow> nat \<Rightarrow> hop option" where
  "belle_sip_stack_get_next_hop w req = do {
     h \<leftarrow> belle_sip_message_get_header w req ''route'';
     (case h of
        Some h \<Rightarrow> do { x \<leftarrow> hdrs w h; a \<leftarrow> addr_of (hbody x); u \<leftarrow> addr_uri a;
                      Some (belle_sip_hop_new_from_uri u) }
      | None \<Rightarrow> do { r \<leftarrow> msgs w req; u \<leftarrow> rq_uri r; Some (belle_sip_hop_new_from_uri u) }) }"

text \<open>The origin of a request, from its first Via (the port is only set when it is not 0).\<close>

definition belle_sip_request_extract_origin :: "('cb, 'a) store_scheme \<Rightarrow> nat \<Rightarrow> sip_uri option" where
  "belle_sip_request_extract_origin w req = do {
     h \<leftarrow> belle_sip_message_get_header_by_type w req is_HVia;
     h \<leftarrow> h; x \<leftarrow> hdrs w h;
     (case hbody x of
        HVia v \<Rightarrow>
          (let rport = belle_sip_header_via_get_rport v;
               u = belle_sip_uri_new\<lparr>uri_host := (case via_received v of Some r \<Rightarrow> Some r | None \<Rightarrow> via_host v)\<rparr>;
               u = (if 0 < rport then u\<lparr>uri_port := rport\<rparr>
                    else if via_port v \<noteq> 0 then u\<lparr>uri_port := via_port v\<rparr> else u)
           in Some (case belle_sip_header_via_get_transport_lowercase v of
                None \<Rightarrow> u
              | Some t \<Rightarrow> u\<lparr>uri_params := belle_sip_parameters_set_parameter (uri_params u) ''transport'' (Some t)\<rparr>))
      | _ \<Rightarrow> None) }"

text \<open>
  \<^verbatim>\<open>belle_sip_response_fix_contact\<close>, on the URI of the contact; setting the transport parameter to
  NULL stores the parameter without a value.
\<close>

definition fix_contact_uri :: "via_header \<Rightarrow> sip_uri \<Rightarrow> sip_uri option" where
  "fix_contact_uri v u = do {
     transport \<leftarrow> via_transport v;
     lower \<leftarrow> belle_sip_header_via_get_transport_lowercase v;
     let rport = belle_sip_header_via_get_rport v;
     let u = u\<lparr>uri_host := (case via_received v of Some r \<Rightarrow> Some r | None \<Rightarrow> via_host v)\<rparr>;
     let contact_port = uri_port u;
     let u = (if 0 < rport then (if rport + contact_port \<noteq> 5060 then u\<lparr>uri_port := rport\<rparr> else u)
              else if via_port v + contact_port \<noteq> 5060 then u\<lparr>uri_port := via_port v\<rparr> else u);
     let tp = belle_sip_uri_get_transport_param u;
     Some (if \<not> strcaseeq transport ''UDP'' then
             (if (case tp of None \<Rightarrow> True | Some t \<Rightarrow> \<not> strcaseeq t transport)
              then u\<lparr>uri_params := belle_sip_parameters_set_parameter (uri_params u) ''transport'' (Some lower)\<rparr>
              else u)
           else if tp \<noteq> None
           then u\<lparr>uri_params := belle_sip_parameters_set_parameter (uri_params u) ''transport'' None\<rparr>
           else u) }"

definition belle_sip_response_fix_contact ::
  "('cb, 'a) store_scheme \<Rightarrow> nat \<Rightarrow> nat \<Rightarrow> ('cb, 'a) store_scheme option" where
  "belle_sip_response_fix_contact w response contact = do {
     h \<leftarrow> belle_sip_message_get_header w response ''Via'';
     h \<leftarrow> h; x \<leftarrow> hdrs w h; c \<leftarrow> hdrs w contact;
     a \<leftarrow> addr_of (hbody c); u \<leftarrow> addr_uri a;
     (case hbody x of
        HVia v \<Rightarrow> do {
          u' \<leftarrow> fix_contact_uri v u;
          upd_hdr w contact (\<lambda>c. c\<lparr>hbody := set_addr (hbody c) (a\<lparr>addr_uri := Some u'\<rparr>)\<rparr>) }
      | _ \<Rightarrow> None) }"

section \<open>Checks\<close>

definition mandatory_headers :: "(string \<times> string list) list" where
  "mandatory_headers = [
     (''REGISTER'', [''Call-ID'', ''CSeq'', ''From'', ''Max-Forwards'', ''To'', ''Via'']),
     (''INVITE'', [''Contact'', ''Call-ID'', ''CSeq'', ''From'', ''Max-Forwards'', ''To'', ''Via'']),
     (''CANCEL'', [''Call-ID'', ''CSeq'', ''From'', ''Max-Forwards'', ''To'', ''Via'']),
     (''BYE'', [''Call-ID'', ''CSeq'', ''From'', ''Max-Forwards'', ''To'', ''Via'']),
     (''ACK'', [''Call-ID'', ''CSeq'', ''From'', ''Max-Forwards'', ''To'', ''Via'']),
     (''*'', [''To'', ''From'', ''CSeq'', ''Via''])]"

fun all_present :: "('cb, 'a) store_scheme \<Rightarrow> nat \<Rightarrow> string list \<Rightarrow> bool option" where
  "all_present w m [] = Some True"
| "all_present w m (n # ns) = do {
     h \<leftarrow> belle_sip_message_get_header w m n;
     (if h = None then Some False else all_present w m ns) }"

text \<open>The loop over the table returns at the first entry that applies; the code after the loop
  (the Via branch) is only reached when no entry applies.\<close>

fun check_headers_loop :: "('cb, 'a) store_scheme \<Rightarrow> nat \<Rightarrow> string \<Rightarrow> (string \<times> string list) list
    \<Rightarrow> bool option" where
  "check_headers_loop w m method [] = do {
     h \<leftarrow> belle_sip_message_get_header_by_type w m is_HVia;
     (case h of None \<Rightarrow> Some False
      | Some h \<Rightarrow> do { x \<leftarrow> hdrs w h;
          (case hbody x of HVia v \<Rightarrow> Some (belle_sip_header_via_get_branch v \<noteq> None) | _ \<Rightarrow> None) }) }"
| "check_headers_loop w m method (e # es) =
     (if strcaseeq method (fst e) \<or> hd (fst e) = CHR ''*'' then all_present w m (snd e)
      else check_headers_loop w m method es)"

definition belle_sip_message_check_headers :: "('cb, 'a) store_scheme \<Rightarrow> nat \<Rightarrow> bool option" where
  "belle_sip_message_check_headers w m = do {
     r \<leftarrow> msgs w m;
     (if is_request r then check_headers_loop w m (rq_method r) mandatory_headers else Some True) }"

fun check_uris_loop :: "('cb, 'a) store_scheme \<Rightarrow> string \<Rightarrow> nat list \<Rightarrow> bool option" where
  "check_uris_loop w method [] = Some True"
| "check_uris_loop w method (h # hs) = do {
     x \<leftarrow> hdrs w h;
     (case Option.bind (addr_of (hbody x)) addr_uri of
        Some u \<Rightarrow> (if belle_sip_uri_check_components_from_context u (Some method) (hname x)
                  then check_uris_loop w method hs else Some False)
      | None \<Rightarrow> check_uris_loop w method hs) }"

definition belle_sip_request_check_uris_components :: "('cb, 'a) store_scheme \<Rightarrow> nat \<Rightarrow> bool option" where
  "belle_sip_request_check_uris_components w req = do {
     r \<leftarrow> msgs w req;
     hs \<leftarrow> belle_sip_message_get_all_headers w req;
     ok \<leftarrow> check_uris_loop w (rq_method r) hs;
     (if ok then do { u \<leftarrow> rq_uri r; Some (belle_sip_uri_check_components_from_request_uri u) }
      else Some False) }"

section \<open>Cloning\<close>

fun clone_headers :: "('cb, 'a) store_scheme \<Rightarrow> nat list \<Rightarrow> (('cb, 'a) store_scheme \<times> nat list) option" where
  "clone_headers w [] = Some (w, [])"
| "clone_headers w (h # hs) = do {
     x \<leftarrow> hdrs w h;
     let (w, c) = new_hdr w (header_clone x);
     (w, cs) \<leftarrow> clone_headers w hs;
     Some (w, c # cs) }"

fun belle_sip_message_clone :: "('cb, 'a) store_scheme \<Rightarrow> nat \<Rightarrow> headers_container list
    \<Rightarrow> ('cb, 'a) store_scheme option" where
  "belle_sip_message_clone w obj [] = Some w"
| "belle_sip_message_clone w obj (c # cs) = do {
     (w, ll) \<leftarrow> clone_headers w (snd c);
     w \<leftarrow> belle_sip_message_add_headers w obj ll;
     belle_sip_message_clone w obj cs }"

definition belle_sip_request_clone_with_body ::
  "('cb, 'a) store_scheme \<Rightarrow> nat \<Rightarrow> (('cb, 'a) store_scheme \<times> nat) option" where
  "belle_sip_request_clone_with_body w initial_req = do {
     o' \<leftarrow> msgs w initial_req;
     cs \<leftarrow> m_header_list o';
     let (w, req) = new_msg w (empty_message\<lparr>rq_method := rq_method o',
            rq_uri := map_option belle_sip_uri_clone (rq_uri o'), rq_absolute_uri := rq_absolute_uri o',
            rq_rfc2543_branch := rq_rfc2543_branch o', m_body := m_body o'\<rparr>);
     w \<leftarrow> belle_sip_message_clone w req cs;
     Some (w, req) }"

end
