(* ===== verification/World.thy ===== *)
theory World
  imports Message
begin

text \<open>
  The state of the protocol core: the transactions (\<^verbatim>\<open>struct belle_sip_transaction\<close> with the fields
  of its four concrete classes), the dialogs, the channels, the provider's lists, and what
  leaves the program: bytes given to a socket and events given to the application's listeners.
  Objects are never freed in this model (their reference counts are a matter of the object
  component); the lists that own them are modelled. The record extends the header and message
  store, which extends the main loop.
\<close>

section \<open>States\<close>

datatype transaction_state =
    TR_INIT | TR_CALLING | TR_COMPLETED | TR_CONFIRMED | TR_ACCEPTED | TR_PROCEEDING | TR_TRYING
  | TR_TERMINATED

datatype dialog_state = DIALOG_NULL | DIALOG_EARLY | DIALOG_CONFIRMED | DIALOG_TERMINATED

datatype channel_state =
    CHANNEL_INIT | CHANNEL_RES_IN_PROGRESS | CHANNEL_RES_DONE | CHANNEL_CONNECTING | CHANNEL_RETRY
  | CHANNEL_READY | CHANNEL_ERROR | CHANNEL_DISCONNECTED

datatype output_stream_state =
    OUTPUT_STREAM_IDLE | OUTPUT_STREAM_SENDING_HEADERS | OUTPUT_STREAM_SENDING_BODY

section \<open>Transactions\<close>

datatype transaction_class = ICT | NICT | IST | NIST

fun is_client :: "transaction_class \<Rightarrow> bool" where
  "is_client ICT = True" | "is_client NICT = True" | "is_client IST = False" | "is_client NIST = False"

text \<open>The names of the timers of RFC 3261 and RFC 6026.\<close>

datatype timer_name =
  TimerA | TimerB | TimerD | TimerM | TimerE | TimerF | TimerK | TimerG | TimerH | TimerI | TimerL | TimerJ

text \<open>What a source of the main loop runs.\<close>

datatype callback =
    CbTimer timer_name nat
  | CbDialog200OkTimer nat
  | CbDialog200OkEnd nat
  | CbDialogProcessQueue nat
  | CbDialogTerminated nat
  | CbChannelConnectNext nat
  | CbChannelStateDeferred nat
  | CbDelayedSend nat nat
  | CbChannelIO nat
  | CbChannelInactive nat
  | CbRefresher nat
  | CbKeepAlive nat
  | CbListeningPointIO nat

record transaction =
  tr_class :: transaction_class
  tr_request :: nat
  tr_last_response :: "nat option"
  tr_channel :: "nat option"
  tr_dialog :: "nat option"
  tr_branch_id :: string
  tr_state :: transaction_state
  tr_is_internal :: bool
  tr_timed_out :: bool
  tr_sent_by_dialog_queue :: bool
  tr_preset_route :: "sip_uri option"
  tr_next_hop :: "hop option"
  tr_to_tag :: string
  tr_timers :: "timer_name \<Rightarrow> nat option"
  tr_ack :: "nat option"

record dialog =
  dlg_last_out_invite :: "nat option"
  dlg_last_out_ack :: "nat option"
  dlg_last_200Ok :: "nat option"
  dlg_timer_200Ok :: "nat option"
  dlg_timer_200Ok_end :: "nat option"
  dlg_state :: dialog_state
  dlg_previous_state :: dialog_state
  dlg_call_id :: "nat option"
  dlg_local_party :: "nat option"
  dlg_remote_party :: "nat option"
  dlg_route_set :: "nat list"
  dlg_remote_target :: "nat option"
  dlg_local_tag :: "string option"
  dlg_remote_tag :: "string option"
  dlg_local_cseq :: "32 word"
  dlg_remote_cseq :: "32 word"
  dlg_last_transaction :: "nat option"
  dlg_privacy :: "nat option"
  dlg_queued_ct :: "nat list"
  dlg_is_server :: bool
  dlg_is_secure :: bool
  dlg_terminate_on_bye :: bool
  dlg_needs_ack :: bool

section \<open>Channels\<close>

datatype channel_listener = LProvider | LTransaction nat

record channel =
  ch_source :: nat
  ch_lp :: "nat option"
  ch_state :: channel_state
  ch_listeners :: "channel_listener list"
  ch_transport :: string
  ch_reliable :: bool
  ch_peer_cname :: "string option"
  ch_peer_name :: string
  ch_peer_port :: int
  ch_local_ip :: "string option"
  ch_local_port :: int
  ch_public_ip :: "string option"
  ch_public_port :: int
  ch_learnt_ip_port :: bool
  ch_srv_overrides_port :: bool
  ch_peers :: "(nat \<times> int) list"
  ch_outgoing_messages :: "nat list"
  ch_cur_out_message :: "nat option"
  ch_out_state :: output_stream_state
  ch_ewouldblock_buffer :: "string option"
  ch_body_left :: string
  ch_inactivity_timer :: "nat option"
  ch_last_recv_time :: "64 word"
  ch_force_close :: bool
  ch_about_to_be_closed :: bool
  ch_has_name :: bool

text \<open>
  A listening point; creating a channel on it may fail (\<^verbatim>\<open>create_channel\<close> of the transport), which
  \<open>lp_can_create\<close> says.
\<close>

record listening_point =
  lp_transport :: string
  lp_uri :: sip_uri
  lp_channels :: "nat list"
  lp_reliable :: bool
  lp_can_create :: bool
  lp_keep_alive_timer :: "nat option"

section \<open>Authentication contexts\<close>

text \<open>What the provider remembers of a challenge (\<^verbatim>\<open>authorization_context_t\<close>); the Call-ID is a header.\<close>

record authorization_context =
  ac_callid :: nat
  ac_scheme :: "string option"
  ac_realm :: "string option"
  ac_nonce :: "string option"
  ac_qop :: "string option"
  ac_opaque :: "string option"
  ac_user_id :: "string option"
  ac_algorithm :: "string option"
  ac_nonce_count :: int
  ac_is_proxy :: bool

text \<open>The event by which the application is asked for credentials; what TLS client authentication adds is left out.\<close>

record auth_event =
  ae_username :: "string option"
  ae_userid :: "string option"
  ae_realm :: "string option"
  ae_passwd :: "string option"
  ae_ha1 :: "string option"
  ae_domain :: "string option"

section \<open>Refreshers\<close>

text \<open>\<^verbatim>\<open>struct belle_sip_refresher\<close>; \<open>rf_listener\<close> tells whether the application set a listener.\<close>

datatype refresher_state = RF_STARTED | RF_STOPPED

datatype timer_purpose = NORMAL_REFRESH | RETRY

record refresher =
  rf_listener :: bool
  rf_timer :: "nat option"
  rf_transaction :: nat
  rf_realm :: "string option"
  rf_target_expires :: int
  rf_obtained_expires :: int
  rf_state :: refresher_state
  rf_retry_after :: int
  rf_auth_events :: "auth_event list"
  rf_auth_failures :: int
  rf_on_io_error :: bool
  rf_number_of_retry :: int
  rf_timer_purpose :: timer_purpose
  rf_manual :: bool

section \<open>Events given to the application\<close>

datatype event =
    EvRequest "nat option" "nat option" nat
  | EvResponse "nat option" "nat option" nat
  | EvTimeout nat bool
  | EvTransactionTerminated nat bool
  | EvDialogTerminated nat
  | EvIoError "nat option" nat

section \<open>The world\<close>

record world = "callback store" +
  trs :: "nat \<Rightarrow> transaction option"
  dlgs :: "nat \<Rightarrow> dialog option"
  chans :: "nat \<Rightarrow> channel option"
  refreshers :: "nat \<Rightarrow> refresher option"
  obj_brk :: nat
  prov_lps :: "listening_point list"
  prov_listeners :: "nat list"
  prov_internal_listeners :: "nat list"
  prov_client_transactions :: "nat list"
  prov_server_transactions :: "nat list"
  prov_dialogs :: "nat list"
  prov_auth_contexts :: "authorization_context list"
  prov_unconditional_answer :: bool
  prov_rport_enabled :: bool
  prov_nat_helper :: bool
  cfg_T1 :: "32 word"
  cfg_T2 :: "32 word"
  cfg_T4 :: "32 word"
  cfg_tx_delay :: "32 word"
  cfg_inactive_transport_timeout :: "32 word"
  cfg_send_error :: int
  rnd_stream :: "nat \<Rightarrow> 32 word"
  rnd_pos :: nat
  wire :: "(nat \<times> string) list"

text \<open>
  What the core calls that is not this program: the application's listeners (given the listener
  and the event), the sockets (bytes sent, or a negative error number; whether a connection to an
  address is made, pending or refused), the resolver (the addresses, as identifier and port, when
  it answers at once; otherwise it answers later), the local address of a connected channel, and
  \<^verbatim>\<open>getaddrinfo\<close> on a numeric host. The text forms of a header and of a URI, which the hashes of
  \<^verbatim>\<open>src/provider.c\<close> feed to MD5, are parameters too: marshalling is not modelled. A listener that is asked for credentials fills
  the event it is given; the low bits of the memory address of a header make a client nonce.
\<close>

datatype connect_result = ConnectReady | ConnectPending | ConnectFailed

record env =
  app :: "nat \<Rightarrow> event \<Rightarrow> world \<Rightarrow> world option"
  socket_send :: "nat \<Rightarrow> string \<Rightarrow> world \<Rightarrow> int"
  socket_connect :: "nat \<Rightarrow> nat \<times> int \<Rightarrow> world \<Rightarrow> connect_result"
  resolver_answer :: "nat \<Rightarrow> world \<Rightarrow> (nat \<times> int) list option"
  local_address :: "nat \<Rightarrow> world \<Rightarrow> (string \<times> int) option"
  numeric_address :: "hop \<Rightarrow> (nat \<times> int) option"
  header_text :: "header \<Rightarrow> string"
  uri_text :: "sip_uri \<Rightarrow> string"
  auth_requested :: "nat \<Rightarrow> auth_event \<Rightarrow> world \<Rightarrow> auth_event"
  address_bits :: "nat \<Rightarrow> 16 word"

definition upd_tr :: "world \<Rightarrow> nat \<Rightarrow> (transaction \<Rightarrow> transaction) \<Rightarrow> world option" where
  "upd_tr w t f = (case trs w t of None \<Rightarrow> None | Some r \<Rightarrow> Some (w\<lparr>trs := (trs w)(t \<mapsto> f r)\<rparr>))"

definition upd_dlg :: "world \<Rightarrow> nat \<Rightarrow> (dialog \<Rightarrow> dialog) \<Rightarrow> world option" where
  "upd_dlg w d f = (case dlgs w d of None \<Rightarrow> None | Some r \<Rightarrow> Some (w\<lparr>dlgs := (dlgs w)(d \<mapsto> f r)\<rparr>))"

definition upd_chan :: "world \<Rightarrow> nat \<Rightarrow> (channel \<Rightarrow> channel) \<Rightarrow> world option" where
  "upd_chan w c f = (case chans w c of None \<Rightarrow> None | Some r \<Rightarrow> Some (w\<lparr>chans := (chans w)(c \<mapsto> f r)\<rparr>))"

definition upd_rf :: "world \<Rightarrow> nat \<Rightarrow> (refresher \<Rightarrow> refresher) \<Rightarrow> world option" where
  "upd_rf w r f = (case refreshers w r of None \<Rightarrow> None | Some x \<Rightarrow> Some (w\<lparr>refreshers := (refreshers w)(r \<mapsto> f x)\<rparr>))"

text \<open>The listeners are called in order, on a copy of the list.\<close>

fun invoke_listeners :: "env \<Rightarrow> nat list \<Rightarrow> event \<Rightarrow> world \<Rightarrow> world option" where
  "invoke_listeners E [] ev w = Some w"
| "invoke_listeners E (l # ls) ev w = do { w \<leftarrow> app E l ev w; invoke_listeners E ls ev w }"

definition invoke_listeners_for_transaction :: "env \<Rightarrow> nat \<Rightarrow> event \<Rightarrow> world \<Rightarrow> world option" where
  "invoke_listeners_for_transaction E t ev w = do {
     r \<leftarrow> trs w t;
     invoke_listeners E (if tr_is_internal r then prov_internal_listeners w else prov_listeners w) ev w }"

text \<open>The world after start-up, with the default timers of \<^verbatim>\<open>belle_sip_stack_new\<close>.\<close>

definition empty_world :: "(nat \<Rightarrow> 32 word) \<Rightarrow> world" where
  "empty_world rnd = \<lparr>ml_time = 0, ml_sources = [], ml_src = (\<lambda>_. None), ml_brk = 0, ml_global_id = 1,
     ml_in_iterate = False, ml_run = False, hdrs = (\<lambda>_. None), msgs = (\<lambda>_. None), st_brk = 0,
     trs = (\<lambda>_. None), dlgs = (\<lambda>_. None), chans = (\<lambda>_. None), refreshers = (\<lambda>_. None), obj_brk = 0, prov_lps = [],
     prov_listeners = [], prov_internal_listeners = [], prov_client_transactions = [],
     prov_server_transactions = [], prov_dialogs = [], prov_auth_contexts = [], prov_unconditional_answer = False,
     prov_rport_enabled = True, prov_nat_helper = False,
     cfg_T1 = 500, cfg_T2 = 4000, cfg_T4 = 5000, cfg_tx_delay = 0, cfg_inactive_transport_timeout = 3600,
     cfg_send_error = 0, rnd_stream = rnd, rnd_pos = 0, wire = []\<rparr>"

section \<open>Random tokens\<close>

text \<open>\<^verbatim>\<open>belle_sip_random\<close> reads the operating system's generator: the next word of a stream.\<close>

definition belle_sip_random :: "world \<Rightarrow> world \<times> 32 word" where
  "belle_sip_random w = (w\<lparr>rnd_pos := Suc (rnd_pos w)\<rparr>, rnd_stream w (rnd_pos w))"

definition symbols :: string where
  "symbols = ''aAbBcCdDeEfFgGhHiIjJkKlLmMnNoOpPqQrRsStTuUvVwWxXyYzZ0123456789-~''"

text \<open>\<open>n\<close> characters remain, \<open>i\<close> have been written; five are taken from each random word.\<close>

fun random_token_loop :: "world \<Rightarrow> nat \<Rightarrow> nat \<Rightarrow> 32 word \<Rightarrow> world \<times> string" where
  "random_token_loop w 0 i val = (w, [])"
| "random_token_loop w (Suc n) i val =
     (let (w, val) = (if i mod 5 = 0 then belle_sip_random w else (w, val));
          c = symbols ! unat (and val 63);
          (w, s) = random_token_loop w n (Suc i) (drop_bit 6 val)
      in (w, c # s))"

definition belle_sip_random_token :: "world \<Rightarrow> nat \<Rightarrow> world \<times> string" where
  "belle_sip_random_token w sz = random_token_loop w (sz - 1) 0 0"

end
