(* ===== verification/MessageProps.thy ===== *)
theory MessageProps
  imports Message World
begin

text \<open>
  What the message operations guarantee: the containers as a map from names to header lists, the
  response built from a request, and two places where the code departs from what it says: the
  check of the mandatory headers and the removal of the first container.
\<close>

section \<open>The containers as a map\<close>

definition store_wf :: "('cb, 'a) store_scheme \<Rightarrow> bool" where
  "store_wf w \<longleftrightarrow> (\<forall>a. hdrs w a \<noteq> None \<longrightarrow> a < st_brk w) \<and> (\<forall>a. msgs w a \<noteq> None \<longrightarrow> a < st_brk w)"

definition header_values :: "headers_container list \<Rightarrow> string \<Rightarrow> nat list" where
  "header_values cs name = (case container_get cs name of None \<Rightarrow> [] | Some l \<Rightarrow> l)"

lemma container_get_Nil [simp]: "container_get [] name = None"
  by (simp add: container_get_def)

lemma container_get_Cons [simp]:
  "container_get (c # cs) name = (if strcaseeq (fst c) name then Some (snd c) else container_get cs name)"
  by (simp add: container_get_def headers_container_comp_func_def)

lemma container_get_case: "strcaseeq a b \<Longrightarrow> container_get cs a = container_get cs b"
  by (induction cs) (auto simp: strcaseeq_def)

lemma container_get_in_container:
  "expand_name n = n \<Longrightarrow> container_get (in_container cs n f) n' =
     (if strcaseeq n n' then Some (f (header_values cs n)) else container_get cs n')"
proof (induction cs)
  case Nil
  then show ?case by (simp add: header_values_def)
next
  case (Cons c cs)
  then show ?case
    by (auto simp: headers_container_comp_func_def header_values_def strcaseeq_def)
qed

lemma get_headers_values:
  "msgs w m = Some r \<Longrightarrow> m_header_list r = Some cs \<Longrightarrow>
   belle_sip_message_get_headers w m name = Some (header_values cs name)"
  by (simp add: belle_sip_message_get_headers_def belle_sip_headers_container_get_def header_values_def)

lemma get_header_values:
  "msgs w m = Some r \<Longrightarrow> m_header_list r = Some cs \<Longrightarrow>
   belle_sip_message_get_header w m name =
     Some (case header_values cs name of [] \<Rightarrow> None | h # _ \<Rightarrow> Some h)"
  by (simp add: belle_sip_message_get_header_def get_headers_values)

lemma get_or_create_container_eq:
  "msgs w m = Some r \<Longrightarrow> m_header_list r = Some cs \<Longrightarrow>
   get_or_create_container w m name f =
     Some (w\<lparr>msgs := (msgs w)(m \<mapsto> r\<lparr>m_header_list := Some (in_container cs name f)\<rparr>)\<rparr>)"
  by (simp add: get_or_create_container_def upd_msg_def)

text \<open>Adding a header to a message: reading its name back, in any case, gives the headers of that
  name with the new one last; every other name reads as before. The name must not be one of the
  thirteen compact forms, which are filed under their long form.\<close>

lemma add_header_get_headers:
  assumes "msgs w m = Some r" and "m_header_list r = Some cs" and "hdrs w h = Some x"
    and "expand_name (hname x) = hname x"
  shows "\<exists>w'. belle_sip_message_add_header w m h = Some w'
    \<and> belle_sip_message_get_headers w' m n = Some (if strcaseeq (hname x) n
        then header_values cs n @ [h] else header_values cs n)"
proof -
  have eq: "belle_sip_message_add_header w m h
      = Some (w\<lparr>msgs := (msgs w)(m \<mapsto> r\<lparr>m_header_list := Some (in_container cs (hname x) (\<lambda>l. l @ [h]))\<rparr>)\<rparr>)"
    using assms by (simp add: belle_sip_message_add_header_def get_or_create_container_eq)
  have "header_values (in_container cs (hname x) (\<lambda>l. l @ [h])) n
      = (if strcaseeq (hname x) n then header_values cs n @ [h] else header_values cs n)"
    using container_get_case[of "hname x" n cs]
    by (simp add: header_values_def container_get_in_container[OF assms(4)])
  then show ?thesis
    using eq get_headers_values[of "w\<lparr>msgs := (msgs w)(m \<mapsto> r\<lparr>m_header_list :=
        Some (in_container cs (hname x) (\<lambda>l. l @ [h]))\<rparr>)\<rparr>" m] by simp
qed

definition two_header_world :: world where
  "two_header_world = (empty_world (\<lambda>_. 0))\<lparr>
     hdrs := [10 \<mapsto> \<lparr>hname = ''Subject'', hbody = HExtension (Some ''a'')\<rparr>,
              11 \<mapsto> \<lparr>hname = ''s'', hbody = HExtension (Some ''b'')\<rparr>],
     msgs := [2 \<mapsto> empty_message], st_brk := 20\<rparr>"

lemma strcaseeq_subject: "strcaseeq ''Subject'' ''SUBJECT''"
  by code_simp

lemma add_header_get_headers_witness:
  "\<exists>w'. belle_sip_message_add_header two_header_world 2 10 = Some w'
     \<and> belle_sip_message_get_headers w' 2 ''SUBJECT'' = Some [10]"
  using add_header_get_headers[of two_header_world 2 empty_message "[]" 10
      "\<lparr>hname = ''Subject'', hbody = HExtension (Some ''a'')\<rparr>" "''SUBJECT''"]
  strcaseeq_subject
  by (simp add: two_header_world_def empty_message_def expand_name_def header_values_def)

text \<open>A header whose name is one of the compact forms is filed under the long form, where a
  lookup by the compact form does not find it: the header cannot be read back under its own name, and
  adding two of them makes two containers of the same long name.\<close>

lemma compact_name_not_found:
  assumes "msgs w m = Some r" and "m_header_list r = Some []" and "hdrs w h = Some x" and "hname x = ''s''"
    and "hdrs w h2 = Some x2" and "hname x2 = ''s''"
  shows "\<exists>w1 w2 r2. belle_sip_message_add_header w m h = Some w1
    \<and> belle_sip_message_get_headers w1 m ''s'' = Some []
    \<and> belle_sip_message_add_header w1 m h2 = Some w2
    \<and> msgs w2 m = Some r2 \<and> m_header_list r2 = Some [(''Subject'', [h]), (''Subject'', [h2])]
    \<and> belle_sip_message_get_headers w2 m ''Subject'' = Some [h]"
proof -
  define w1 where "w1 = w\<lparr>msgs := (msgs w)(m \<mapsto> r\<lparr>m_header_list := Some [(''Subject'', [h])]\<rparr>)\<rparr>"
  define w2 where "w2 = w1\<lparr>msgs := (msgs w1)(m \<mapsto> r\<lparr>m_header_list := Some [(''Subject'', [h]), (''Subject'', [h2])]\<rparr>)\<rparr>"
  have 1: "belle_sip_message_add_header w m h = Some w1"
    using assms by (simp add: belle_sip_message_add_header_def get_or_create_container_eq w1_def expand_name_def)
  have n: "\<not> strcaseeq ''Subject'' ''s''" using strcaseeq_length by fastforce
  have 2: "belle_sip_message_add_header w1 m h2 = Some w2"
    using assms n by (simp add: belle_sip_message_add_header_def get_or_create_container_eq w1_def w2_def
        expand_name_def headers_container_comp_func_def)
  have 3: "belle_sip_message_get_headers w1 m ''s'' = Some []"
    using n by (simp add: w1_def get_headers_values header_values_def)
  have 4: "belle_sip_message_get_headers w2 m ''Subject'' = Some [h]"
    by (simp add: w2_def get_headers_values header_values_def)
  show ?thesis using 1 2 3 4 by (auto simp: w2_def)
qed

lemma compact_name_not_found_witness:
  "\<exists>w1. belle_sip_message_add_header (two_header_world\<lparr>hdrs := [11 \<mapsto> \<lparr>hname = ''s'', hbody = HExtension None\<rparr>]\<rparr>) 2 11 = Some w1
    \<and> belle_sip_message_get_headers w1 2 ''s'' = Some []"
  using compact_name_not_found[of "two_header_world\<lparr>hdrs := [11 \<mapsto> \<lparr>hname = ''s'', hbody = HExtension None\<rparr>]\<rparr>"
      2 empty_message 11 "\<lparr>hname = ''s'', hbody = HExtension None\<rparr>" 11 "\<lparr>hname = ''s'', hbody = HExtension None\<rparr>"]
  by (auto simp: two_header_world_def empty_message_def)

section \<open>A response built from a request\<close>

text \<open>A parsed request: its containers and headers carry the canonical names.\<close>

definition canonical_request :: "('cb, 'a) store_scheme \<Rightarrow> nat \<Rightarrow> nat list \<Rightarrow> nat \<Rightarrow> nat \<Rightarrow> nat \<Rightarrow> nat \<Rightarrow> bool" where
  "canonical_request w req vias f t i q \<longleftrightarrow> store_wf w \<and> vias \<noteq> []
     \<and> (\<exists>r cs. msgs w req = Some r \<and> m_header_list r = Some cs
         \<and> header_values cs ''via'' = vias \<and> header_values cs ''from'' = [f] \<and> header_values cs ''to'' = [t]
         \<and> header_values cs ''call-id'' = [i] \<and> header_values cs ''cseq'' = [q])
     \<and> (\<forall>v\<in>set vias. map_option hname (hdrs w v) = Some ''Via'')
     \<and> map_option hname (hdrs w f) = Some ''From'' \<and> map_option hname (hdrs w t) = Some ''To''
     \<and> map_option hname (hdrs w i) = Some ''Call-ID'' \<and> map_option hname (hdrs w q) = Some ''CSeq''"

lemma names_differ [simp]:
  "\<not> strcaseeq ''Via'' ''From''" "\<not> strcaseeq ''Via'' ''To''" "\<not> strcaseeq ''Via'' ''Call-ID''"
  "\<not> strcaseeq ''Via'' ''CSeq''" "\<not> strcaseeq ''From'' ''To''" "\<not> strcaseeq ''From'' ''Call-ID''"
  "\<not> strcaseeq ''From'' ''CSeq''" "\<not> strcaseeq ''To'' ''Call-ID''" "\<not> strcaseeq ''To'' ''CSeq''"
  "\<not> strcaseeq ''Call-ID'' ''CSeq''"
  by code_simp+

lemma names_expand [simp]:
  "expand_name ''Via'' = ''Via''" "expand_name ''From'' = ''From''" "expand_name ''To'' = ''To''"
  "expand_name ''Call-ID'' = ''Call-ID''" "expand_name ''CSeq'' = ''CSeq''"
  by code_simp+

lemma hname_header_clone [simp]: "hname (header_clone x) = hname x"
  by (simp add: header_clone_def)

text \<open>C7. The response to a request other than 100 Trying carries the status code with its reason, the
  very Via, From, Call-ID and CSeq headers of the request, in that order, and a clone of its To
  header, so that giving the response a To tag does not change the request.\<close>

theorem response_copies_request:
  assumes c: "canonical_request w req vias f t i q" and code: "code \<noteq> 100" and x: "hdrs w t = Some x"
  shows "\<exists>w' resp t' r'. belle_sip_response_create_from_request w req code = Some (w', resp)
    \<and> msgs w' resp = Some r' \<and> \<not> is_request r' \<and> rs_status_code r' = code
    \<and> rs_reason_phrase r' = Some (belle_sip_get_well_known_reason_phrase code)
    \<and> m_header_list r' = Some [(''Via'', vias), (''From'', [f]), (''To'', [t']), (''Call-ID'', [i]), (''CSeq'', [q])]
    \<and> hdrs w' t' = Some (header_clone x) \<and> hdrs w t' = None
    \<and> msgs w' req = msgs w req \<and> (\<forall>a. hdrs w a \<noteq> None \<longrightarrow> hdrs w' a = hdrs w a)"
proof -
  obtain r cs where r: "msgs w req = Some r" "m_header_list r = Some cs"
      "header_values cs ''via'' = vias" "header_values cs ''from'' = [f]" "header_values cs ''to'' = [t]"
      "header_values cs ''call-id'' = [i]" "header_values cs ''cseq'' = [q]"
    using c unfolding canonical_request_def by blast
  obtain v vs where vias: "vias = v # vs" using c by (cases vias) (auto simp: canonical_request_def)
  have wf: "store_wf w" and vn: "\<forall>v\<in>set vias. map_option hname (hdrs w v) = Some ''Via''"
    using c by (simp_all add: canonical_request_def)
  obtain xv xf xi xq where h: "hdrs w v = Some xv" "hname xv = ''Via''" "hdrs w f = Some xf" "hname xf = ''From''"
      "hname x = ''To''" "hdrs w i = Some xi" "hname xi = ''Call-ID''" "hdrs w q = Some xq" "hname xq = ''CSeq''"
    using c x vias by (auto simp: canonical_request_def)
  have fresh: "req \<noteq> st_brk w" "i \<noteq> Suc (st_brk w)" "q \<noteq> Suc (st_brk w)" "hdrs w (Suc (st_brk w)) = None"
    using wf r(1) h by (force simp: store_wf_def)+
  have all_via: "\<forall>g\<in>set (v # vs). map_option hname (hdrs w g) = Some (hname xv)"
    using vn h(2) by (simp add: vias)
  show ?thesis
    using r(1,2,4-7) r(3)[unfolded vias] code x h fresh all_via
    by (simp add: belle_sip_response_create_from_request_def belle_sip_response_new_def new_msg_def
        new_hdr_def upd_msg_def add_opt_header_def belle_sip_message_add_header_def
        belle_sip_message_add_headers_def get_or_create_container_eq get_headers_values get_header_values
        belle_sip_response_init_default_def empty_message_def headers_container_comp_func_def vias
        del: set_simps list.set)
qed

definition sample_request_world :: world where
  "sample_request_world = (empty_world (\<lambda>_. 0))\<lparr>
     hdrs := [2 \<mapsto> belle_sip_header_via_create ''h'' 5060 ''UDP'' (Some ''z9hG4bK1''),
              3 \<mapsto> belle_sip_header_from_create addr_new (Some ''a''),
              4 \<mapsto> belle_sip_header_to_create addr_new None,
              5 \<mapsto> \<lparr>hname = ''Call-ID'', hbody = HCallId (Some ''c'')\<rparr>,
              6 \<mapsto> belle_sip_header_cseq_create 1 ''OPTIONS''],
     msgs := [7 \<mapsto> empty_message\<lparr>rq_method := ''OPTIONS'', m_header_list := Some [(''Via'', [2]),
        (''From'', [3]), (''To'', [4]), (''Call-ID'', [5]), (''CSeq'', [6])]\<rparr>], st_brk := 8\<rparr>"

lemma lower_names [simp]:
  "strcaseeq ''Via'' ''via''" "strcaseeq ''From'' ''from''" "strcaseeq ''To'' ''to''"
  "strcaseeq ''Call-ID'' ''call-id''" "strcaseeq ''CSeq'' ''cseq''"
  "\<not> strcaseeq ''Via'' ''from''" "\<not> strcaseeq ''Via'' ''to''" "\<not> strcaseeq ''Via'' ''call-id''"
  "\<not> strcaseeq ''Via'' ''cseq''" "\<not> strcaseeq ''From'' ''to''" "\<not> strcaseeq ''From'' ''call-id''"
  "\<not> strcaseeq ''From'' ''cseq''" "\<not> strcaseeq ''To'' ''call-id''" "\<not> strcaseeq ''To'' ''cseq''"
  "\<not> strcaseeq ''Call-ID'' ''cseq''"
  by code_simp+

lemma canonical_sample: "canonical_request sample_request_world 7 [2] 3 4 5 6"
  by (simp add: canonical_request_def sample_request_world_def header_values_def store_wf_def empty_world_def
      belle_sip_header_via_create_def belle_sip_header_from_create_def belle_sip_header_to_create_def
      belle_sip_header_cseq_create_def)

lemma response_copies_request_witness:
  "\<exists>w' resp r' t'. belle_sip_response_create_from_request sample_request_world 7 200 = Some (w', resp)
     \<and> msgs w' resp = Some r' \<and> rs_status_code r' = 200
     \<and> m_header_list r' = Some [(''Via'', [2]), (''From'', [3]), (''To'', [t']), (''Call-ID'', [5]), (''CSeq'', [6])]"
proof -
  have "hdrs sample_request_world 4 = Some (belle_sip_header_to_create addr_new None)"
    by (simp add: sample_request_world_def)
  then show ?thesis using response_copies_request[OF canonical_sample, of 200] by fastforce
qed

section \<open>Where the code departs from its intent\<close>

text \<open>The check of the mandatory headers of a request only looks whether the headers listed for its
  method are there: the table ends with an entry for every method, so the test of the branch of the
  top Via, written after the loop, is never reached, and a request without a branch passes.\<close>

lemma check_headers_ignores_branch:
  assumes "msgs w m = Some r" and "is_request r"
  shows "belle_sip_message_check_headers w m =
    all_present w m (case find (\<lambda>e. strcaseeq (rq_method r) (fst e)) mandatory_headers of
       Some e \<Rightarrow> snd e | None \<Rightarrow> [''To'', ''From'', ''CSeq'', ''Via''])"
  using assms by (simp add: belle_sip_message_check_headers_def mandatory_headers_def)

lemma check_headers_ignores_branch_witness:
  "belle_sip_message_check_headers (sample_request_world\<lparr>hdrs := (hdrs sample_request_world)
      (2 \<mapsto> belle_sip_header_via_create ''h'' 5060 ''UDP'' None)\<rparr>) 7 = Some True"
proof -
  have m: "\<And>w. msgs (sample_request_world\<lparr>hdrs := w\<rparr>) 7 = Some (empty_message\<lparr>rq_method := ''OPTIONS'',
      m_header_list := Some [(''Via'', [2]), (''From'', [3]), (''To'', [4]), (''Call-ID'', [5]), (''CSeq'', [6])]\<rparr>)"
    by (simp add: sample_request_world_def)
  have n: "\<not> strcaseeq ''OPTIONS'' ''REGISTER''" "\<not> strcaseeq ''OPTIONS'' ''INVITE''" "\<not> strcaseeq ''OPTIONS'' ''CANCEL''"
    "\<not> strcaseeq ''OPTIONS'' ''BYE''" "\<not> strcaseeq ''OPTIONS'' ''ACK''" "\<not> strcaseeq ''OPTIONS'' ''*''"
    by code_simp+
  have d: "\<not> strcaseeq ''CSeq'' ''From''" "\<not> strcaseeq ''From'' ''Via''" "\<not> strcaseeq ''To'' ''Via''"
    "\<not> strcaseeq ''Call-ID'' ''To''" by code_simp+
  show ?thesis
    using check_headers_ignores_branch[OF m] n d
    by (simp add: empty_message_def mandatory_headers_def get_header_values[OF m] header_values_def)
qed

text \<open>Removing the headers of a name when their container is the first of the message: the list that
  remains is not stored, the message keeps a pointer to the freed cell, and every later access to its
  headers is a use after free.\<close>

lemma remove_first_container_dangles:
  assumes "msgs w m = Some r" and "m_header_list r = Some ((n, hs) # cs)" and "strcaseeq n name"
  shows "\<exists>w'. belle_sip_message_remove_header w m name = Some w'
    \<and> (\<forall>n'. belle_sip_message_get_headers w' m n' = None)
    \<and> (\<forall>h. belle_sip_message_add_header w' m h = None)"
  using assms
  by (auto simp: belle_sip_message_remove_header_def headers_container_comp_func_def upd_msg_def
      belle_sip_message_get_headers_def belle_sip_headers_container_get_def belle_sip_message_add_header_def
      get_or_create_container_def split: Option.bind_split)

lemma remove_first_container_dangles_witness:
  "\<exists>w'. belle_sip_message_remove_header sample_request_world 7 ''via'' = Some w'
     \<and> belle_sip_message_get_headers w' 7 ''From'' = None"
proof -
  have "msgs sample_request_world 7 = Some (empty_message\<lparr>rq_method := ''OPTIONS'',
      m_header_list := Some [(''Via'', [2]), (''From'', [3]), (''To'', [4]), (''Call-ID'', [5]), (''CSeq'', [6])]\<rparr>)"
    by (simp add: sample_request_world_def)
  then show ?thesis
    using remove_first_container_dangles[of sample_request_world 7 _ "''Via''" "[2]" _ "''via''"] by fastforce
qed

end
