(* ===== verification/Channel.thy ===== *)
theory Channel
  imports World
begin

text \<open>
  The sending half of \<^verbatim>\<open>src/channel.c\<close>: the connection states, the queue of outgoing messages, the
  output of one message (headers, body, and the buffer kept when the socket would block), and
  the listening points that own the channels (\<^verbatim>\<open>src/listeningpoint.c\<close>). A channel calls its
  listeners through an interface (\<^verbatim>\<open>belle_sip_channel_listener_t\<close>); the record \<open>chan_iface\<close> holds
  the two methods used here and the marshalling of a message, which the components above
  provide. The memory body handler of \<^verbatim>\<open>src/bodyhandler.c\<close> is the body still to be sent.
\<close>

record chan_iface =
  on_state_changed :: "channel_listener \<Rightarrow> nat \<Rightarrow> channel_state \<Rightarrow> world \<Rightarrow> world option"
  on_sending :: "channel_listener \<Rightarrow> nat \<Rightarrow> nat \<Rightarrow> world \<Rightarrow> world option"
  marshal_message :: "world \<Rightarrow> nat \<Rightarrow> string option"

definition belle_sip_send_network_buffer_size :: nat where
  "belle_sip_send_network_buffer_size = 16384"

text \<open>\<^verbatim>\<open>BELLESIP_EWOULDBLOCK\<close> and \<^verbatim>\<open>BELLESIP_EINPROGRESS\<close> (Linux numbers).\<close>

definition belle_sip_error_code_is_would_block :: "int \<Rightarrow> bool" where
  "belle_sip_error_code_is_would_block err \<longleftrightarrow> err = 11 \<or> err = 115"

section \<open>States and listeners\<close>

fun invoke_channel_listeners :: "(channel_listener \<Rightarrow> world \<Rightarrow> world option) \<Rightarrow> channel_listener list
    \<Rightarrow> world \<Rightarrow> world option" where
  "invoke_channel_listeners f [] w = Some w"
| "invoke_channel_listeners f (l # ls) w = do { w \<leftarrow> f l w; invoke_channel_listeners f ls w }"

definition belle_sip_channel_add_listener :: "world \<Rightarrow> nat \<Rightarrow> channel_listener \<Rightarrow> world option" where
  "belle_sip_channel_add_listener w c l =
     upd_chan w c (\<lambda>r. r\<lparr>ch_listeners := ch_listeners r @ [l]\<rparr>)"

definition belle_sip_channel_remove_listener :: "world \<Rightarrow> nat \<Rightarrow> channel_listener \<Rightarrow> world option" where
  "belle_sip_channel_remove_listener w c l =
     upd_chan w c (\<lambda>r. r\<lparr>ch_listeners := remove1 l (ch_listeners r)\<rparr>)"

definition belle_sip_channel_is_reliable :: "world \<Rightarrow> nat \<Rightarrow> bool option" where
  "belle_sip_channel_is_reliable w c = map_option ch_reliable (chans w c)"

text \<open>Closing removes the channel's own source from the main loop.\<close>

definition belle_sip_channel_close :: "world \<Rightarrow> nat \<Rightarrow> world option" where
  "belle_sip_channel_close w c = do { r \<leftarrow> chans w c; belle_sip_main_loop_remove_source w (ch_source r) }"

definition channel_invoke_state_listener :: "chan_iface \<Rightarrow> nat \<Rightarrow> world \<Rightarrow> world option" where
  "channel_invoke_state_listener I c w = do {
     r \<leftarrow> chans w c;
     w \<leftarrow> (if ch_state r = CHANNEL_DISCONNECTED \<or> ch_state r = CHANNEL_ERROR
           then belle_sip_channel_close w c else Some w);
     r \<leftarrow> chans w c;
     invoke_channel_listeners (\<lambda>l. on_state_changed I l c (ch_state r)) (ch_listeners r) w }"

text \<open>
  \<^verbatim>\<open>belle_sip_channel_handle_error\<close>: while the channel is not READY the next address is tried
  later; otherwise, or when there is none, the listeners are told of the error later.
\<close>

definition belle_sip_channel_handle_error :: "chan_iface \<Rightarrow> nat \<Rightarrow> world \<Rightarrow> world option" where
  "belle_sip_channel_handle_error I c w = do {
     r \<leftarrow> chans w c;
     (if ch_state r \<noteq> CHANNEL_READY \<and> 1 < length (ch_peers r)
      then do {
        w \<leftarrow> upd_chan w c (\<lambda>r. r\<lparr>ch_peers := tl (ch_peers r), ch_state := CHANNEL_RETRY\<rparr>);
        w \<leftarrow> channel_invoke_state_listener I c w;
        w \<leftarrow> belle_sip_channel_close w c;
        belle_sip_main_loop_do_later w (CbChannelConnectNext c) }
      else do {
        w \<leftarrow> upd_chan w c (\<lambda>r. r\<lparr>ch_state := CHANNEL_ERROR\<rparr>);
        belle_sip_main_loop_do_later w (CbChannelStateDeferred c) }) }"

definition channel_set_state :: "chan_iface \<Rightarrow> nat \<Rightarrow> channel_state \<Rightarrow> world \<Rightarrow> world option" where
  "channel_set_state I c s w =
     (if s = CHANNEL_ERROR then belle_sip_channel_handle_error I c w
      else do {
        w \<leftarrow> upd_chan w c (\<lambda>r. r\<lparr>ch_state := s\<rparr>);
        channel_invoke_state_listener I c w })"

definition belle_sip_channel_notify_timeout :: "chan_iface \<Rightarrow> nat \<Rightarrow> world \<Rightarrow> (world \<times> bool) option" where
  "belle_sip_channel_notify_timeout I c w = do {
     r \<leftarrow> chans w c;
     (if 60 * 1000 \<le> ml_time w - ch_last_recv_time r
      then do { w \<leftarrow> channel_set_state I c CHANNEL_ERROR w; Some (w, True) }
      else Some (w, False)) }"

section \<open>Output\<close>

text \<open>
  The inactivity timer, created by the first use of the channel and restarted by every other;
  the timeout is a signed number of seconds, turned into milliseconds.
\<close>

definition update_inactivity_timer :: "nat \<Rightarrow> bool \<Rightarrow> world \<Rightarrow> world option" where
  "update_inactivity_timer c from_recv w = do {
     r \<leftarrow> chans w c;
     let inactive_timeout = cfg_inactive_transport_timeout w * 1000;
     w \<leftarrow> (if 0 < sint inactive_timeout
           then (case ch_inactivity_timer r of
                   None \<Rightarrow> do {
                     (w, s) \<leftarrow> belle_sip_main_loop_create_timeout w (CbChannelInactive c) inactive_timeout;
                     upd_chan w c (\<lambda>r. r\<lparr>ch_inactivity_timer := Some s\<rparr>) }
                 | Some s \<Rightarrow> belle_sip_source_set_timeout w s inactive_timeout)
           else (case ch_inactivity_timer r of
                   None \<Rightarrow> Some w
                 | Some s \<Rightarrow> do {
                     w \<leftarrow> belle_sip_main_loop_remove_source w s;
                     upd_chan w c (\<lambda>r. r\<lparr>ch_inactivity_timer := None\<rparr>) }));
     (if from_recv then upd_chan w c (\<lambda>r. r\<lparr>ch_last_recv_time := ml_time w\<rparr>) else Some w) }"

definition channel_inactive_timeout :: "chan_iface \<Rightarrow> nat \<Rightarrow> world \<Rightarrow> (world \<times> int) option" where
  "channel_inactive_timeout I c w =
     do { w \<leftarrow> channel_set_state I c CHANNEL_DISCONNECTED w; Some (w, BELLE_SIP_STOP) }"

text \<open>\<^verbatim>\<open>belle_sip_channel_send\<close>: what the socket accepts is recorded in \<open>wire\<close>.\<close>

definition belle_sip_channel_send :: "env \<Rightarrow> nat \<Rightarrow> string \<Rightarrow> world \<Rightarrow> (world \<times> int) option" where
  "belle_sip_channel_send E c buf w = do {
     w \<leftarrow> update_inactivity_timer c False w;
     let ret = socket_send E c buf w;
     Some (if 0 < ret then w\<lparr>wire := wire w @ [(c, take (nat ret) buf)]\<rparr> else w, ret) }"

text \<open>\<^verbatim>\<open>send_buffer\<close>: the configured \<^verbatim>\<open>send_error\<close> replaces the socket.\<close>

definition send_buffer :: "env \<Rightarrow> chan_iface \<Rightarrow> nat \<Rightarrow> string \<Rightarrow> world \<Rightarrow> (world \<times> int) option" where
  "send_buffer E I c buf w = do {
     (w, ret) \<leftarrow> (if cfg_send_error w = 0 then belle_sip_channel_send E c buf w
                  else if cfg_send_error w < 0 then Some (w, cfg_send_error w)
                  else Some (w, int (length buf)));
     (if ret < 0 \<and> \<not> belle_sip_error_code_is_would_block (- ret)
      then do { w \<leftarrow> channel_set_state I c CHANNEL_ERROR w; Some (w, ret) }
      else Some (w, ret)) }"

text \<open>
  The loops that push a buffer out: \<open>SentAll\<close>, \<open>Blocked rest\<close> when the socket would block with
  \<open>rest\<close> unsent, \<open>Broken\<close> on an error or a disconnection. A socket that claims to have sent
  more than it was given is not modelled (\<^term>\<open>None\<close>).
\<close>

datatype push_result = SentAll | Blocked string | Broken

function push_out :: "env \<Rightarrow> chan_iface \<Rightarrow> nat \<Rightarrow> string \<Rightarrow> world \<Rightarrow> (world \<times> push_result) option" where
  "push_out E I c buf w =
     (case send_buffer E I c buf w of None \<Rightarrow> None
      | Some (w, sendret) \<Rightarrow>
          (if 0 < sendret then
             (if int (length buf) < sendret then None
              else if nat sendret = length buf then Some (w, SentAll)
              else push_out E I c (drop (nat sendret) buf) w)
           else if belle_sip_error_code_is_would_block (- sendret) then Some (w, Blocked buf)
           else Some (w, Broken)))"
  by pat_completeness auto

termination
  by (relation "measure (\<lambda>(E, I, c, buf, w). length buf)") auto

declare push_out.simps [simp del]

definition check_content_length :: "world \<Rightarrow> nat \<Rightarrow> nat \<Rightarrow> world option" where
  "check_content_length w msg body_len = do {
     h \<leftarrow> belle_sip_message_get_header_by_type w msg is_HContentLength;
     (if body_len \<noteq> 0 then
        (case h of
           None \<Rightarrow> (let (w, cl) = new_hdr w \<lparr>hname = ''Content-Length'', hbody = HContentLength body_len\<rparr>
                   in belle_sip_message_add_header w msg cl)
         | Some cl \<Rightarrow> do {
             x \<leftarrow> hdrs w cl;
             (case hbody x of
                HContentLength val \<Rightarrow>
                  (if val \<noteq> body_len then upd_hdr w cl (\<lambda>x. x\<lparr>hbody := HContentLength val\<rparr>) else Some w)
              | _ \<Rightarrow> None) })
      else Some w) }"

text \<open>The label \<^verbatim>\<open>done\<close>: ready for another message.\<close>

definition send_done :: "nat \<Rightarrow> world \<Rightarrow> world option" where
  "send_done c w = upd_chan w c (\<lambda>r. r\<lparr>ch_ewouldblock_buffer := None, ch_out_state := OUTPUT_STREAM_IDLE,
                                    ch_cur_out_message := None\<rparr>)"

definition handle_ewouldblock :: "nat \<Rightarrow> string \<Rightarrow> world \<Rightarrow> world option" where
  "handle_ewouldblock c rest w = upd_chan w c (\<lambda>r. r\<lparr>ch_ewouldblock_buffer := Some rest\<rparr>)"

text \<open>The body is sent in chunks of at most one buffer; the handler says STOP with the last one.\<close>

function send_body_loop :: "env \<Rightarrow> chan_iface \<Rightarrow> nat \<Rightarrow> string \<Rightarrow> world \<Rightarrow> (world \<times> bool) option" where
  "send_body_loop E I c left w =
     (let chunk = take (belle_sip_send_network_buffer_size - 1) left;
          rest = drop (belle_sip_send_network_buffer_size - 1) left in
      case upd_chan w c (\<lambda>r. r\<lparr>ch_body_left := rest\<rparr>) of None \<Rightarrow> None
      | Some w \<Rightarrow>
        (case (if chunk = [] then Some (w, SentAll) else push_out E I c chunk w) of None \<Rightarrow> None
         | Some (w, SentAll) \<Rightarrow> (if rest = [] then Some (w, True) else send_body_loop E I c rest w)
         | Some (w, Blocked b) \<Rightarrow> (case handle_ewouldblock c b w of None \<Rightarrow> None | Some w \<Rightarrow> Some (w, False))
         | Some (w, Broken) \<Rightarrow> Some (w, True)))"
  by pat_completeness auto

termination
  by (relation "measure (\<lambda>(E, I, c, left, w). length left)")
    (auto simp: belle_sip_send_network_buffer_size_def)

declare send_body_loop.simps [simp del]

text \<open>
  The block \<^verbatim>\<open>if (out_state==SENDING_HEADERS)\<close>. The flag says whether the function goes on to the
  body block (True) or returns or has reached \<^verbatim>\<open>done\<close>; the second component of the result is
  \<open>Finished\<close> when \<^verbatim>\<open>done\<close> is to be run.
\<close>

datatype send_step = GoOn | Finished | Suspended

definition send_headers_step :: "env \<Rightarrow> chan_iface \<Rightarrow> nat \<Rightarrow> nat \<Rightarrow> world \<Rightarrow> (world \<times> send_step) option" where
  "send_headers_step E I c msg w = do {
     r \<leftarrow> chans w c;
     w \<leftarrow> invoke_channel_listeners (\<lambda>l. on_sending I l c msg) (ch_listeners r) w;
     m \<leftarrow> msgs w msg;
     let body = m_body m;
     let body_len = (case body of None \<Rightarrow> 0 | Some b \<Rightarrow> length b);
     w \<leftarrow> check_content_length w msg body_len;
     (case marshal_message I w msg of
        None \<Rightarrow> Some (w, Finished)
      | Some hd_text \<Rightarrow> do {
          (w, out) \<leftarrow> (case body of
               None \<Rightarrow> Some (w, hd_text)
             | Some b \<Rightarrow>
                 (if 0 < body_len \<and> body_len \<le> belle_sip_send_network_buffer_size - 1 - length hd_text
                  then Some (w, hd_text @ b)
                  else if body_len = 0 then None
                  else do { w \<leftarrow> upd_chan w c (\<lambda>r. r\<lparr>ch_body_left := b, ch_out_state := OUTPUT_STREAM_SENDING_BODY\<rparr>);
                            Some (w, hd_text) }));
          (w, res) \<leftarrow> push_out E I c out w;
          (case res of
             SentAll \<Rightarrow> Some (w, GoOn)
           | Blocked rest \<Rightarrow> do { w \<leftarrow> handle_ewouldblock c rest w; Some (w, Suspended) }
           | Broken \<Rightarrow> Some (w, Finished)) }) }"

definition send_body_step :: "env \<Rightarrow> chan_iface \<Rightarrow> nat \<Rightarrow> world \<Rightarrow> (world \<times> send_step) option" where
  "send_body_step E I c w = do {
     r \<leftarrow> chans w c;
     (if ch_out_state r = OUTPUT_STREAM_SENDING_BODY
      then do { (w, fin) \<leftarrow> send_body_loop E I c (ch_body_left r) w;
                Some (w, if fin then Finished else Suspended) }
      else Some (w, Finished)) }"

definition channel_send_message :: "env \<Rightarrow> chan_iface \<Rightarrow> nat \<Rightarrow> world \<Rightarrow> world option" where
  "channel_send_message E I c w = do {
     r \<leftarrow> chans w c;
     msg \<leftarrow> ch_cur_out_message r;
     (w, st) \<leftarrow> (case ch_ewouldblock_buffer r of
          None \<Rightarrow> Some (w, GoOn)
        | Some buf \<Rightarrow> do {
            (w, res) \<leftarrow> push_out E I c buf w;
            (case res of
               SentAll \<Rightarrow> do { w \<leftarrow> upd_chan w c (\<lambda>r. r\<lparr>ch_ewouldblock_buffer := None\<rparr>); Some (w, GoOn) }
             | Blocked rest \<Rightarrow> do { w \<leftarrow> upd_chan w c (\<lambda>r. r\<lparr>ch_ewouldblock_buffer := Some rest\<rparr>);
                                   Some (w, Suspended) }
             | Broken \<Rightarrow> Some (w, Finished)) });
     (w, st) \<leftarrow> (if st = GoOn then do {
                   r \<leftarrow> chans w c;
                   (if ch_out_state r = OUTPUT_STREAM_SENDING_HEADERS
                    then send_headers_step E I c msg w else Some (w, GoOn)) }
                 else Some (w, st));
     (w, st) \<leftarrow> (if st = GoOn then send_body_step E I c w else Some (w, st));
     (if st = Finished then send_done c w else Some w) }"

definition send_message :: "env \<Rightarrow> chan_iface \<Rightarrow> nat \<Rightarrow> nat \<Rightarrow> world \<Rightarrow> world option" where
  "send_message E I c msg w = do {
     w \<leftarrow> upd_chan w c (\<lambda>r. r\<lparr>ch_cur_out_message := Some msg, ch_out_state := OUTPUT_STREAM_SENDING_HEADERS\<rparr>);
     channel_send_message E I c w }"

text \<open>
  The loop of \<^verbatim>\<open>channel_process_queue\<close>: the message is popped before the state is looked at. A
  bound on the turns is given: \<^term>\<open>None\<close> when it is too small.
\<close>

fun process_queue_loop :: "env \<Rightarrow> chan_iface \<Rightarrow> nat \<Rightarrow> nat \<Rightarrow> world \<Rightarrow> world option" where
  "process_queue_loop E I 0 c w = None"
| "process_queue_loop E I (Suc n) c w = do {
     r \<leftarrow> chans w c;
     (case ch_outgoing_messages r of
        [] \<Rightarrow> Some w
      | msg # rest \<Rightarrow> do {
          w \<leftarrow> upd_chan w c (\<lambda>r. r\<lparr>ch_outgoing_messages := rest\<rparr>);
          (if ch_state r = CHANNEL_READY \<and> ch_out_state r = OUTPUT_STREAM_IDLE
           then do { w \<leftarrow> send_message E I c msg w; process_queue_loop E I n c w }
           else Some w) }) }"

definition channel_process_queue :: "env \<Rightarrow> chan_iface \<Rightarrow> nat \<Rightarrow> world \<Rightarrow> world option" where
  "channel_process_queue E I c w = do {
     r \<leftarrow> chans w c;
     w \<leftarrow> (if ch_out_state r \<noteq> OUTPUT_STREAM_IDLE then channel_send_message E I c w else Some w);
     r \<leftarrow> chans w c;
     process_queue_loop E I (Suc (length (ch_outgoing_messages r))) c w }"

end
