(* ===== verification/ChannelState.thy ===== *)
theory ChannelState
  imports Channel
begin

text \<open>
  The rest of the sending half of a channel (\<^verbatim>\<open>src/channel.c\<close>): resolution, connection, queueing of
  a message with or without the simulated delay, the search of a channel for a hop, and the
  listening points (\<^verbatim>\<open>src/listeningpoint.c\<close>). The properties of the output follow.
\<close>

section \<open>Connection\<close>

definition belle_sip_channel_set_ready :: "env \<Rightarrow> chan_iface \<Rightarrow> nat \<Rightarrow> world \<Rightarrow> world option" where
  "belle_sip_channel_set_ready E I c w = do {
     r \<leftarrow> chans w c;
     w \<leftarrow> (case (ch_local_ip r, local_address E c w) of
             (None, Some (ip, port)) \<Rightarrow> upd_chan w c (\<lambda>r. r\<lparr>ch_local_ip := Some ip, ch_local_port := port\<rparr>)
           | _ \<Rightarrow> Some w);
     w \<leftarrow> channel_set_state I c CHANNEL_READY w;
     channel_process_queue E I c w }"

text \<open>A datagram channel is ready as soon as it is connected; a stream channel later.\<close>

definition belle_sip_channel_connect :: "env \<Rightarrow> chan_iface \<Rightarrow> nat \<Rightarrow> world \<Rightarrow> world option" where
  "belle_sip_channel_connect E I c w = do {
     w \<leftarrow> channel_set_state I c CHANNEL_CONNECTING w;
     r \<leftarrow> chans w c;
     (case ch_peers r of
        [] \<Rightarrow> None
      | peer # _ \<Rightarrow> do {
          w \<leftarrow> (if snd peer \<noteq> ch_peer_port r
                then upd_chan w c (\<lambda>r. r\<lparr>ch_srv_overrides_port := True, ch_peer_port := snd peer\<rparr>)
                else Some w);
          (case socket_connect E c peer w of
             ConnectReady \<Rightarrow> belle_sip_channel_set_ready E I c w
           | ConnectPending \<Rightarrow> Some w
           | ConnectFailed \<Rightarrow> channel_set_state I c CHANNEL_ERROR w) }) }"

text \<open>\<^verbatim>\<open>channel_prepare_continue\<close> once resolved; nothing sets the state back to INIT.\<close>

definition prepare_continue_resolved :: "env \<Rightarrow> chan_iface \<Rightarrow> nat \<Rightarrow> world \<Rightarrow> world option" where
  "prepare_continue_resolved E I c w = do {
     r \<leftarrow> chans w c;
     (case ch_state r of
        CHANNEL_INIT \<Rightarrow> None
      | CHANNEL_RES_DONE \<Rightarrow> belle_sip_channel_connect E I c w
      | CHANNEL_READY \<Rightarrow> channel_process_queue E I c w
      | _ \<Rightarrow> Some w) }"

definition channel_res_done :: "env \<Rightarrow> chan_iface \<Rightarrow> nat \<Rightarrow> (nat \<times> int) list \<Rightarrow> world \<Rightarrow> world option" where
  "channel_res_done E I c ai_list w =
     (if ai_list \<noteq> [] then do {
        w \<leftarrow> upd_chan w c (\<lambda>r. r\<lparr>ch_peers := ai_list\<rparr>);
        w \<leftarrow> channel_set_state I c CHANNEL_RES_DONE w;
        prepare_continue_resolved E I c w }
      else channel_set_state I c CHANNEL_ERROR w)"

definition belle_sip_channel_resolve :: "env \<Rightarrow> chan_iface \<Rightarrow> nat \<Rightarrow> world \<Rightarrow> world option" where
  "belle_sip_channel_resolve E I c w = do {
     w \<leftarrow> channel_set_state I c CHANNEL_RES_IN_PROGRESS w;
     (case resolver_answer E c w of None \<Rightarrow> Some w
      | Some ai_list \<Rightarrow> channel_res_done E I c ai_list w) }"

definition belle_sip_channel_prepare :: "env \<Rightarrow> chan_iface \<Rightarrow> nat \<Rightarrow> world \<Rightarrow> world option" where
  "belle_sip_channel_prepare E I c w = do {
     r \<leftarrow> chans w c;
     (if ch_state r = CHANNEL_INIT then belle_sip_channel_resolve E I c w
      else prepare_continue_resolved E I c w) }"

section \<open>Queueing\<close>

definition queue_message :: "env \<Rightarrow> chan_iface \<Rightarrow> nat \<Rightarrow> nat \<Rightarrow> world \<Rightarrow> world option" where
  "queue_message E I c msg w = do {
     w \<leftarrow> upd_chan w c (\<lambda>r. r\<lparr>ch_outgoing_messages := ch_outgoing_messages r @ [msg]\<rparr>);
     r \<leftarrow> chans w c;
     (if ch_state r = CHANNEL_INIT then belle_sip_channel_prepare E I c w
      else if ch_state r = CHANNEL_READY then channel_process_queue E I c w
      else Some w) }"

definition queue_message_delayed :: "nat \<Rightarrow> nat \<Rightarrow> world \<Rightarrow> world option" where
  "queue_message_delayed c msg w = do {
     (w, s) \<leftarrow> belle_sip_main_loop_create_timeout w (CbDelayedSend c msg) (cfg_tx_delay w);
     Some w }"

definition belle_sip_channel_queue_message :: "env \<Rightarrow> chan_iface \<Rightarrow> nat \<Rightarrow> nat \<Rightarrow> world \<Rightarrow> world option" where
  "belle_sip_channel_queue_message E I c msg w =
     (if 0 < sint (cfg_tx_delay w) then queue_message_delayed c msg w else queue_message E I c msg w)"

definition on_delayed_send_do :: "env \<Rightarrow> chan_iface \<Rightarrow> nat \<Rightarrow> nat \<Rightarrow> world \<Rightarrow> world option" where
  "on_delayed_send_do E I c msg w = do {
     r \<leftarrow> chans w c;
     (if ch_state r \<noteq> CHANNEL_ERROR \<and> ch_state r \<noteq> CHANNEL_DISCONNECTED
      then queue_message E I c msg w else Some w) }"

definition belle_sip_channel_force_close :: "chan_iface \<Rightarrow> nat \<Rightarrow> world \<Rightarrow> world option" where
  "belle_sip_channel_force_close I c w = do {
     w \<leftarrow> upd_chan w c (\<lambda>r. r\<lparr>ch_force_close := True\<rparr>);
     channel_set_state I c CHANNEL_DISCONNECTED w }"

section \<open>Finding and creating channels\<close>

definition belle_sip_channel_matches :: "channel \<Rightarrow> hop \<Rightarrow> (nat \<times> int) option \<Rightarrow> bool" where
  "belle_sip_channel_matches r h addr =
     (if hop_host h = Some (ch_peer_name r) \<and> (hop_port h = ch_peer_port r \<or> ch_srv_overrides_port r)
      then (case (hop_cname h, ch_peer_cname r) of (Some a, Some b) \<Rightarrow> a = b | _ \<Rightarrow> True)
      else (case (addr, ch_peers r) of (Some a, p # _) \<Rightarrow> a = p | _ \<Rightarrow> False))"

definition belle_sip_channel_find_from_list :: "env \<Rightarrow> world \<Rightarrow> nat list \<Rightarrow> hop \<Rightarrow> nat option" where
  "belle_sip_channel_find_from_list E w l h =
     find (\<lambda>c. case chans w c of None \<Rightarrow> False
                | Some r \<Rightarrow> \<not> ch_about_to_be_closed r
                            \<and> belle_sip_channel_matches r h (numeric_address E h)) l"

definition belle_sip_listening_point_add_channel :: "world \<Rightarrow> nat \<Rightarrow> nat \<Rightarrow> world option" where
  "belle_sip_listening_point_add_channel w i c =
     (if length (prov_lps w) \<le> i then None
      else do {
        w \<leftarrow> upd_chan w c (\<lambda>r. r\<lparr>ch_lp := Some i\<rparr>);
        w \<leftarrow> belle_sip_channel_add_listener w c LProvider;
        r \<leftarrow> chans w c;
        let lp = prov_lps w ! i;
        Some (w\<lparr>prov_lps := (prov_lps w)[i := lp\<lparr>lp_channels :=
                 (if ch_has_name r then c # lp_channels lp else lp_channels lp @ [c])\<rparr>]\<rparr>) })"

text \<open>
  \<^verbatim>\<open>create_channel\<close> of the transport: a channel in state INIT to the named peer
  (\<^verbatim>\<open>belle_sip_channel_init\<close>), bound to the address of the listening point, which has a name unless
  the host is an address. Only stream channels know the canonical name of the peer.
\<close>

definition bind_address :: "string option \<Rightarrow> string option" where
  "bind_address bindip = (case bindip of None \<Rightarrow> None
     | Some b \<Rightarrow> (if b \<noteq> ''::0'' \<and> b \<noteq> ''0.0.0.0'' then Some b else None))"

definition new_channel :: "env \<Rightarrow> world \<Rightarrow> listening_point \<Rightarrow> hop \<Rightarrow> (world \<times> nat) option" where
  "new_channel E w lp h = do {
     host \<leftarrow> hop_host h;
     let c = obj_brk w;
     let (w, s) = belle_sip_source_new w (CbChannelIO c) False (- 1);
     let w = w\<lparr>chans := (chans w)(c \<mapsto> \<lparr>ch_source = s, ch_lp = None, ch_state = CHANNEL_INIT, ch_listeners = [],
              ch_transport = lp_transport lp, ch_reliable = lp_reliable lp, ch_peer_cname = (if lp_reliable lp then hop_cname h else None),
              ch_peer_name = host, ch_peer_port = hop_port h, ch_local_ip = bind_address (uri_host (lp_uri lp)),
              ch_local_port = uri_port (lp_uri lp), ch_public_ip = None, ch_public_port = 0,
              ch_learnt_ip_port = False, ch_srv_overrides_port = False, ch_peers = [],
              ch_outgoing_messages = [], ch_cur_out_message = None, ch_out_state = OUTPUT_STREAM_IDLE,
              ch_ewouldblock_buffer = None, ch_body_left = [], ch_inactivity_timer = None,
              ch_last_recv_time = 0, ch_force_close = False, ch_about_to_be_closed = False,
              ch_has_name = (numeric_address E h = None)\<rparr>), obj_brk := Suc c\<rparr>;
     w \<leftarrow> update_inactivity_timer c False w;
     Some (w, c) }"

definition belle_sip_listening_point_create_channel :: "env \<Rightarrow> world \<Rightarrow> nat \<Rightarrow> hop \<Rightarrow> (world \<times> nat option) option" where
  "belle_sip_listening_point_create_channel E w i h =
     (if \<not> lp_can_create (prov_lps w ! i) then Some (w, None)
      else do {
        (w, c) \<leftarrow> new_channel E w (prov_lps w ! i) h;
        w \<leftarrow> belle_sip_listening_point_add_channel w i c;
        Some (w, Some c) })"

definition belle_sip_listening_point_remove_channel :: "world \<Rightarrow> nat \<Rightarrow> nat \<Rightarrow> world option" where
  "belle_sip_listening_point_remove_channel w i c =
     (if length (prov_lps w) \<le> i then None
      else do {
        w \<leftarrow> belle_sip_channel_remove_listener w c LProvider;
        let lp = prov_lps w ! i;
        Some (w\<lparr>prov_lps := (prov_lps w)[i := lp\<lparr>lp_channels := remove1 c (lp_channels lp)\<rparr>]\<rparr>) })"

text \<open>
  \<^verbatim>\<open>belle_sip_provider_get_channel\<close>: the first channel of a listening point of the transport that
  matches the hop, or a new one on the last such listening point.
\<close>

fun get_channel_loop :: "env \<Rightarrow> world \<Rightarrow> string \<Rightarrow> hop \<Rightarrow> listening_point list \<Rightarrow> nat \<Rightarrow> nat option
    \<Rightarrow> nat option \<times> nat option" where
  "get_channel_loop E w t h [] i candidate = (None, candidate)"
| "get_channel_loop E w t h (lp # l) i candidate =
     (if strcaseeq (lp_transport lp) t
      then (case belle_sip_channel_find_from_list E w (lp_channels lp) h of
              Some c \<Rightarrow> (Some c, candidate)
            | None \<Rightarrow> get_channel_loop E w t h l (Suc i) (Some i))
      else get_channel_loop E w t h l (Suc i) candidate)"

definition belle_sip_provider_get_channel :: "env \<Rightarrow> hop \<Rightarrow> world \<Rightarrow> (world \<times> nat option) option" where
  "belle_sip_provider_get_channel E h w =
     (case hop_transport h of
        None \<Rightarrow> Some (w, None)
      | Some t \<Rightarrow>
          (case get_channel_loop E w t h (prov_lps w) 0 None of
             (Some c, _) \<Rightarrow> Some (w, Some c)
           | (None, Some i) \<Rightarrow> belle_sip_listening_point_create_channel E w i h
           | (None, None) \<Rightarrow> Some (w, None)))"

end
