(* ===== verification/ChannelSend.thy ===== *)
theory ChannelSend
  imports ChannelState
begin

text \<open>
  What the output queue of a channel guarantees. On a socket that accepts everything, the queued
  messages go out complete and in order; on a socket that would block, the lemmas at the end
  show what happens to the queue and to the message being sent.
\<close>

section \<open>The inactivity timer does not stop the output\<close>

definition timer_known :: "world \<Rightarrow> nat \<Rightarrow> bool" where
  "timer_known w c \<longleftrightarrow> ml_inv w \<and> (case chans w c of None \<Rightarrow> False
     | Some r \<Rightarrow> (case ch_inactivity_timer r of None \<Rightarrow> True | Some s \<Rightarrow> ml_src w s \<noteq> None))"

text \<open>
  A step of the output of channel \<open>c\<close>: it changes this channel, its inactivity timer and the wire,
  and no transaction, dialog, message, other channel or other timer.
\<close>

definition inactivity_of :: "world \<Rightarrow> nat \<Rightarrow> nat option" where
  "inactivity_of w c = (case chans w c of None \<Rightarrow> None | Some r \<Rightarrow> ch_inactivity_timer r)"

definition io_only :: "nat \<Rightarrow> world \<Rightarrow> world \<Rightarrow> bool" where
  "io_only c w w' \<longleftrightarrow>
     w' = w\<lparr>ml_sources := ml_sources w', ml_src := ml_src w', ml_brk := ml_brk w', ml_global_id := ml_global_id w',
            chans := chans w', wire := wire w'\<rparr>
     \<and> (\<forall>c'. c' \<noteq> c \<longrightarrow> chans w' c' = chans w c') \<and> map_option ch_reliable (chans w' c) = map_option ch_reliable (chans w c)
     \<and> (\<forall>s. ml_src w s \<noteq> None \<longrightarrow> inactivity_of w c \<noteq> Some s \<longrightarrow>
          ml_src w' s = ml_src w s \<and> (s \<in> set (ml_sources w') \<longleftrightarrow> s \<in> set (ml_sources w)))
     \<and> (\<forall>s. inactivity_of w' c = Some s \<longrightarrow> inactivity_of w c = Some s \<or> ml_src w s = None)"

lemma io_only_refl: "io_only c w w"
  by (simp add: io_only_def)

lemma io_only_trans:
  assumes a: "io_only c w w'" and b: "io_only c w' w''"
  shows "io_only c w w''"
proof -
  have i: "inactivity_of w' c \<noteq> Some s" if "ml_src w s \<noteq> None" "inactivity_of w c \<noteq> Some s" for s
    using a that unfolding io_only_def by metis
  have src: "ml_src w'' s = ml_src w s \<and> (s \<in> set (ml_sources w'') \<longleftrightarrow> s \<in> set (ml_sources w))"
    if s: "ml_src w s \<noteq> None" "inactivity_of w c \<noteq> Some s" for s
  proof -
    have "ml_src w' s = ml_src w s" "s \<in> set (ml_sources w') \<longleftrightarrow> s \<in> set (ml_sources w)"
      using a s unfolding io_only_def by metis+
    moreover have "ml_src w'' s = ml_src w' s" "s \<in> set (ml_sources w'') \<longleftrightarrow> s \<in> set (ml_sources w')"
      using b i[OF s] s(1) calculation(1) unfolding io_only_def by metis+
    ultimately show ?thesis by simp
  qed
  have ch: "chans w'' c' = chans w c'" if "c' \<noteq> c" for c' using a b that unfolding io_only_def by metis
  have ina: "inactivity_of w c = Some s \<or> ml_src w s = None" if "inactivity_of w'' c = Some s" for s
    using a b that unfolding io_only_def by metis
  have "w' = w\<lparr>ml_sources := ml_sources w', ml_src := ml_src w', ml_brk := ml_brk w', ml_global_id := ml_global_id w',
            chans := chans w', wire := wire w'\<rparr>" (is "_ = ?u") using a by (simp add: io_only_def)
  moreover have "w'' = w'\<lparr>ml_sources := ml_sources w'', ml_src := ml_src w'', ml_brk := ml_brk w'', ml_global_id := ml_global_id w'',
            chans := chans w'', wire := wire w''\<rparr>" (is "_ = ?v w'") using b by (simp add: io_only_def)
  moreover have "map_option ch_reliable (chans w'' c) = map_option ch_reliable (chans w c)" using a b by (simp add: io_only_def)
  ultimately have rel: "map_option ch_reliable (chans w'' c) = map_option ch_reliable (chans w c)" and "w'' = ?v ?u" by simp_all
  note \<open>w'' = ?v ?u\<close>
  also have "\<dots> = w\<lparr>ml_sources := ml_sources w'', ml_src := ml_src w'', ml_brk := ml_brk w'', ml_global_id := ml_global_id w'',
            chans := chans w'', wire := wire w''\<rparr>" by simp
  finally show ?thesis using rel ch src ina unfolding io_only_def by blast
qed

lemma io_only_chan:
  "chans w c = Some r \<Longrightarrow> ch_inactivity_timer r' = ch_inactivity_timer r \<Longrightarrow> ch_reliable r' = ch_reliable r \<Longrightarrow> io_only c w (w\<lparr>chans := (chans w)(c \<mapsto> r')\<rparr>)"
  by (simp add: io_only_def inactivity_of_def)

lemma io_only_wire: "io_only c w (w\<lparr>wire := x\<rparr>)"
  by (simp add: io_only_def inactivity_of_def)

lemma io_only_same: "io_only c w w' \<Longrightarrow> trs w' = trs w \<and> dlgs w' = dlgs w \<and> msgs w' = msgs w \<and> hdrs w' = hdrs w
   \<and> cfg_T1 w' = cfg_T1 w \<and> cfg_T2 w' = cfg_T2 w \<and> cfg_T4 w' = cfg_T4 w \<and> ml_time w' = ml_time w"
proof -
  assume "io_only c w w'"
  then obtain ch ss src b g wr where
    "w' = w\<lparr>ml_sources := ss, ml_src := src, ml_brk := b, ml_global_id := g, chans := ch, wire := wr\<rparr>"
    unfolding io_only_def by blast
  then show ?thesis by simp
qed

lemma io_update_inactivity:
  assumes k: "timer_known w c" and u: "update_inactivity_timer c False w = Some w'"
  shows "io_only c w w'"
proof -
  obtain r where r: "chans w c = Some r" and inv: "ml_inv w"
    and t: "\<And>s. ch_inactivity_timer r = Some s \<Longrightarrow> ml_src w s \<noteq> None"
    using k by (auto simp: timer_known_def split: option.splits)
  have fresh: "ml_brk w \<notin> set (ml_sources w)" "ml_src w (ml_brk w) = None" using inv by (auto simp: ml_inv_def)
  have d: "distinct (ml_sources w)" using inv by (simp add: ml_inv_def)
  define v where "v = cfg_inactive_transport_timeout w * 1000"
  have eq: "(case ch_inactivity_timer r of
                   None \<Rightarrow> (if 0 < sint v then do {
                     (w, s) \<leftarrow> belle_sip_main_loop_create_timeout w (CbChannelInactive c) v;
                     upd_chan w c (\<lambda>r. r\<lparr>ch_inactivity_timer := Some s\<rparr>) } else Some w)
                 | Some s \<Rightarrow> (if 0 < sint v then belle_sip_source_set_timeout w s v
                     else do { w \<leftarrow> belle_sip_main_loop_remove_source w s;
                     upd_chan w c (\<lambda>r. r\<lparr>ch_inactivity_timer := None\<rparr>) })) = Some w'"
    using u r by (simp add: update_inactivity_timer_def v_def[symmetric] split: if_splits option.splits)
  show ?thesis
  proof (cases "ch_inactivity_timer r")
    case None
    show ?thesis
    proof (cases "0 < sint v")
      case True
      show ?thesis
        using eq None True fresh r
        by (auto simp: belle_sip_main_loop_create_timeout_def belle_sip_timeout_source_new_def belle_sip_source_new_def
            belle_sip_main_loop_add_source_def upd_src_def upd_chan_def Let_def inactivity_of_def io_only_def)
    qed (use eq None io_only_refl in simp)
  next
    case (Some s)
    then obtain q where q: "ml_src w s = Some q" using t by blast
    show ?thesis
      using eq Some q r d
      by (auto simp: belle_sip_source_set_timeout_def belle_sip_main_loop_remove_source_def upd_src_def upd_chan_def
          inactivity_of_def set_remove1_eq Option.bind_eq_Some_conv io_only_def split: if_splits)
  qed
qed

text \<open>Nothing of the channel but its inactivity timer has changed, and no message or byte.\<close>

definition only_timer :: "nat \<Rightarrow> world \<Rightarrow> world \<Rightarrow> bool" where
  "only_timer c w w' \<longleftrightarrow> timer_known w' c \<and> wire w' = wire w \<and> msgs w' = msgs w \<and> hdrs w' = hdrs w
     \<and> cfg_send_error w' = cfg_send_error w \<and> io_only c w w'
     \<and> (\<exists>t. chans w' c = map_option (\<lambda>r. r\<lparr>ch_inactivity_timer := t\<rparr>) (chans w c))"

lemma upd_chan_Some [simp]:
  "chans w c = Some r \<Longrightarrow> upd_chan w c f = Some (w\<lparr>chans := (chans w)(c \<mapsto> f r)\<rparr>)"
  by (simp add: upd_chan_def)

lemma loop_only_world:
  assumes "loop_only w w'"
  shows "chans w' = chans w" "wire w' = wire w" "msgs w' = msgs w" "hdrs w' = hdrs w"
    "cfg_send_error w' = cfg_send_error w"
  using assms by (auto simp: loop_only_def)

lemma ml_inv_chans [simp]: "ml_inv (w\<lparr>chans := x\<rparr>) = ml_inv (w :: world)"
  by (simp add: ml_inv_def)

lemma only_timerI:
  assumes "loop_only w w1" and "ml_inv w1" and "chans w c = Some r"
    and "\<And>s. t = Some s \<Longrightarrow> ml_src w1 s \<noteq> None"
    and "io_only c w (w1\<lparr>chans := (chans w1)(c \<mapsto> r\<lparr>ch_inactivity_timer := t\<rparr>)\<rparr>)"
  shows "only_timer c w (w1\<lparr>chans := (chans w1)(c \<mapsto> r\<lparr>ch_inactivity_timer := t\<rparr>)\<rparr>)"
proof -
  have "\<exists>u. Some (r\<lparr>ch_inactivity_timer := t\<rparr>) = map_option (\<lambda>r. r\<lparr>ch_inactivity_timer := u\<rparr>) (chans w c)"
    using assms(3) by auto
  then show ?thesis
    using loop_only_world[OF assms(1)] assms(2,4,5)
    by (simp add: only_timer_def timer_known_def split: option.split)
qed

lemma only_timer_loop:
  assumes "loop_only w w1" and "ml_inv w1" and "timer_known w c" and "io_only c w w1"
  shows "only_timer c w w1"
proof -
  obtain r where r: "chans w c = Some r" using assms(3) by (auto simp: timer_known_def split: option.splits)
  have "\<exists>u. Some r = map_option (\<lambda>r. r\<lparr>ch_inactivity_timer := u\<rparr>) (Some r)"
    by (rule exI[of _ "ch_inactivity_timer r"]) simp
  moreover have "timer_known w1 c"
    using assms r loop_only_world(1)[OF assms(1)]
    by (auto simp: timer_known_def loop_only_def split: option.splits)
  ultimately show ?thesis using loop_only_world[OF assms(1)] assms(4) r by (simp add: only_timer_def)
qed

lemma update_inactivity_timer_returns:
  assumes k: "timer_known w c"
  shows "\<exists>w'. update_inactivity_timer c False w = Some w' \<and> only_timer c w w'"
proof -
  obtain r where r: "chans w c = Some r" and inv: "ml_inv w"
    and t: "\<And>s. ch_inactivity_timer r = Some s \<Longrightarrow> ml_src w s \<noteq> None"
    using k by (auto simp: timer_known_def split: option.splits)
  define v where "v = cfg_inactive_transport_timeout w * 1000"
  show ?thesis
  proof (cases "ch_inactivity_timer r")
    case None
    obtain w1 where 1: "belle_sip_main_loop_create_timeout w (CbChannelInactive c) v = Some (w1, ml_brk w)"
      "loop_only w w1" "ml_inv w1" "ml_src w1 (ml_brk w) \<noteq> None"
      using create_timeout_frame[OF inv] by blast
    have "chans w1 c = Some r" using loop_only_world[OF 1(2)] r by simp
    then show ?thesis
      using 1(1) only_timerI[OF 1(2,3) r, of "Some (ml_brk w)"] 1(4) r None io_update_inactivity[OF k]
        only_timer_loop[OF loop_only_refl inv k io_only_refl]
      by (cases "0 < sint v") (simp_all add: update_inactivity_timer_def v_def[symmetric])
  next
    case (Some s)
    obtain w1 where 1: "belle_sip_source_set_timeout w s v = Some w1" "loop_only w w1" "ml_inv w1"
      using set_timeout_returns[OF inv t[OF Some]] by blast
    obtain w2 where 2: "belle_sip_main_loop_remove_source w s = Some w2" "loop_only w w2" "ml_inv w2"
      using remove_source_frame[OF inv] by blast
    have "chans w2 c = Some r" using loop_only_world(1)[OF 2(2)] r by simp
    then show ?thesis
      using 1(1) 2(1) only_timer_loop[OF 1(2,3) k] only_timerI[OF 2(2,3) r, of None] r Some io_update_inactivity[OF k]
      by (cases "0 < sint v") (simp_all add: update_inactivity_timer_def v_def[symmetric])
  qed
qed

section \<open>A socket that accepts everything\<close>

definition accepting :: "env \<Rightarrow> chan_iface \<Rightarrow> nat \<Rightarrow> (nat \<Rightarrow> string) \<Rightarrow> bool" where
  "accepting E I c txt \<longleftrightarrow> (\<forall>buf w. socket_send E c buf w = int (length buf))
     \<and> (\<forall>l m w. on_sending I l c m w = Some w)
     \<and> (\<forall>w m. marshal_message I w m = Some (txt m)) \<and> (\<forall>m. txt m \<noteq> [])"

lemma push_out_accepting:
  assumes a: "accepting E I c txt" and k: "timer_known w c" and e: "cfg_send_error w = 0" and b: "buf \<noteq> []"
  shows "\<exists>w1. only_timer c w w1 \<and> push_out E I c buf w = Some (w1\<lparr>wire := wire w1 @ [(c, buf)]\<rparr>, SentAll)"
proof -
  obtain w1 where 1: "update_inactivity_timer c False w = Some w1" "only_timer c w w1"
    using update_inactivity_timer_returns[OF k] by blast
  have "belle_sip_channel_send E c buf w = Some (w1\<lparr>wire := wire w1 @ [(c, buf)]\<rparr>, int (length buf))"
    using 1 a b by (simp add: belle_sip_channel_send_def accepting_def Let_def)
  then have "send_buffer E I c buf w = Some (w1\<lparr>wire := wire w1 @ [(c, buf)]\<rparr>, int (length buf))"
    using e by (simp add: send_buffer_def)
  then show ?thesis using 1(2) b by (subst push_out.simps) auto
qed

lemma check_content_length_no_body:
  "belle_sip_message_get_header_by_type w m is_HContentLength \<noteq> None \<Longrightarrow> check_content_length w m 0 = Some w"
  by (auto simp: check_content_length_def)

text \<open>A message that can be sent: it is in memory, its headers too, and it has no body.\<close>

definition sendable :: "world \<Rightarrow> nat \<Rightarrow> bool" where
  "sendable w m \<longleftrightarrow> (case msgs w m of None \<Rightarrow> False | Some r \<Rightarrow> m_body r = None)
     \<and> belle_sip_message_get_header_by_type w m is_HContentLength \<noteq> None"

definition idle_channel :: "world \<Rightarrow> nat \<Rightarrow> nat list \<Rightarrow> bool" where
  "idle_channel w c q \<longleftrightarrow> timer_known w c \<and> cfg_send_error w = 0 \<and> (\<exists>r. chans w c = Some r \<and> ch_state r = CHANNEL_READY
     \<and> ch_out_state r = OUTPUT_STREAM_IDLE \<and> ch_ewouldblock_buffer r = None \<and> ch_outgoing_messages r = q)"

lemma invoke_neutral: "(\<And>l w. f l w = Some w) \<Longrightarrow> invoke_channel_listeners f ls w = Some w"
  by (induction ls) auto


lemma sendable_mono: "msgs w' = msgs w \<Longrightarrow> hdrs w' = hdrs w \<Longrightarrow> sendable w' m = sendable w m"
  by (simp add: sendable_def belle_sip_message_get_header_by_type_def belle_sip_message_get_all_headers_def
      split: option.splits)

lemma only_timer_chan:
  assumes "only_timer c w w'" and "chans w c = Some r"
  obtains r' t where "chans w' c = Some r'" and "r' = r\<lparr>ch_inactivity_timer := t\<rparr>"
  using assms by (auto simp: only_timer_def)

lemma timer_known_upd:
  "timer_known w c \<Longrightarrow> chans w c = Some r \<Longrightarrow> ch_inactivity_timer r' = ch_inactivity_timer r \<Longrightarrow>
   timer_known (w\<lparr>chans := (chans w)(c \<mapsto> r')\<rparr>) c"
  by (simp add: timer_known_def split: option.splits)

text \<open>One message: it is written whole, and the channel is idle again.\<close>

lemma headers_step_accepting:
  assumes a: "accepting E I c txt" and k: "timer_known w c" and e: "cfg_send_error w = 0"
    and m: "sendable w msg" and r: "chans w c = Some r"
  shows "\<exists>w1. only_timer c w w1 \<and> send_headers_step E I c msg w = Some (w1\<lparr>wire := wire w1 @ [(c, txt msg)]\<rparr>, GoOn)"
proof -
  obtain mr where mr: "msgs w msg = Some mr" "m_body mr = None"
    using m by (auto simp: sendable_def split: option.splits)
  obtain w1 where w1: "only_timer c w w1"
    "push_out E I c (txt msg) w = Some (w1\<lparr>wire := wire w1 @ [(c, txt msg)]\<rparr>, SentAll)"
    using push_out_accepting[OF a k e, of "txt msg"] a unfolding accepting_def by blast
  have n: "invoke_channel_listeners (\<lambda>l. on_sending I l c msg) (ch_listeners r) w = Some w"
    using a by (intro invoke_neutral) (simp add: accepting_def)
  have cl: "check_content_length w msg 0 = Some w"
    using m check_content_length_no_body by (simp add: sendable_def)
  have tx: "marshal_message I w msg = Some (txt msg)" using a by (simp add: accepting_def)
  show ?thesis
    using w1 r mr n cl tx by (intro exI[of _ w1]) (simp add: send_headers_step_def)
qed

lemma send_message_accepting:
  assumes a: "accepting E I c txt" and i: "idle_channel w c q" and m: "sendable w msg"
  shows "\<exists>w'. send_message E I c msg w = Some w' \<and> idle_channel w' c q
     \<and> wire w' = wire w @ [(c, txt msg)] \<and> msgs w' = msgs w \<and> hdrs w' = hdrs w \<and> io_only c w w'"
proof -
  obtain r where r: "chans w c = Some r" "ch_state r = CHANNEL_READY" "ch_out_state r = OUTPUT_STREAM_IDLE"
      "ch_ewouldblock_buffer r = None" "ch_outgoing_messages r = q" and k: "timer_known w c"
      and e: "cfg_send_error w = 0"
    using i unfolding idle_channel_def by blast
  define r0 where "r0 = r\<lparr>ch_cur_out_message := Some msg, ch_out_state := OUTPUT_STREAM_SENDING_HEADERS\<rparr>"
  define w0 where "w0 = w\<lparr>chans := (chans w)(c \<mapsto> r0)\<rparr>"
  have c0: "chans w0 c = Some r0" and e0: "cfg_send_error w0 = 0"
    and same: "msgs w0 = msgs w" "hdrs w0 = hdrs w" "wire w0 = wire w"
    using e by (simp_all add: w0_def)
  have k0: "timer_known w0 c" unfolding w0_def
    by (rule timer_known_upd[OF k r(1)]) (simp add: r0_def)
  have m0: "sendable w0 msg" using m sendable_mono[OF same(1,2)] by simp
  obtain w1 where w1: "only_timer c w0 w1"
    "send_headers_step E I c msg w0 = Some (w1\<lparr>wire := wire w1 @ [(c, txt msg)]\<rparr>, GoOn)"
    using headers_step_accepting[OF a k0 e0 m0 c0] by blast
  obtain r1 t where c1: "chans w1 c = Some r1" "r1 = r0\<lparr>ch_inactivity_timer := t\<rparr>"
    using only_timer_chan[OF w1(1) c0] .
  define r2 where "r2 = r1\<lparr>ch_ewouldblock_buffer := None, ch_out_state := OUTPUT_STREAM_IDLE, ch_cur_out_message := None\<rparr>"
  define w2 where "w2 = w1\<lparr>chans := (chans w1)(c \<mapsto> r2), wire := wire w1 @ [(c, txt msg)]\<rparr>"
  have send: "send_message E I c msg w = Some w2"
  proof -
    have b: "send_body_step E I c (w1\<lparr>wire := wire w1 @ [(c, txt msg)]\<rparr>)
        = Some (w1\<lparr>wire := wire w1 @ [(c, txt msg)]\<rparr>, Finished)"
      using c1 by (simp add: send_body_step_def r0_def)
    have d: "send_done c (w1\<lparr>wire := wire w1 @ [(c, txt msg)]\<rparr>) = Some w2"
      using c1(1) by (simp add: send_done_def w2_def r2_def)
    have "channel_send_message E I c w0 = Some w2"
      using w1(2) c0 b d r by (simp add: channel_send_message_def r0_def)
    then show ?thesis using r(1) by (simp add: send_message_def w0_def r0_def)
  qed
  have "timer_known (w1\<lparr>chans := (chans w1)(c \<mapsto> r2)\<rparr>) c"
    by (rule timer_known_upd[OF _ c1(1)]) (use w1(1) in \<open>simp_all add: only_timer_def r2_def\<close>)
  then have "timer_known w2 c" by (simp add: timer_known_def w2_def ml_inv_def split: option.splits)
  then have "idle_channel w2 c q"
    using w1(1) e0 r(2,5) by (simp add: idle_channel_def w2_def r2_def c1(2) r0_def only_timer_def)
  moreover have "io_only c w w2"
  proof -
    have "io_only c w w0" unfolding w0_def by (rule io_only_chan[OF r(1)]) (simp_all add: r0_def)
    moreover have "io_only c w0 w1" using w1(1) by (simp add: only_timer_def)
    moreover have "io_only c w1 (w1\<lparr>chans := (chans w1)(c \<mapsto> r2)\<rparr>)" by (rule io_only_chan[OF c1(1)]) (simp_all add: r2_def)
    moreover have "io_only c (w1\<lparr>chans := (chans w1)(c \<mapsto> r2)\<rparr>) w2"
      using io_only_wire[of c "w1\<lparr>chans := (chans w1)(c \<mapsto> r2)\<rparr>" "wire w1 @ [(c, txt msg)]"] by (simp add: w2_def)
    ultimately show ?thesis using io_only_trans by blast
  qed
  ultimately show ?thesis using send w1(1) same by (auto simp: w2_def only_timer_def)
qed

lemma process_queue_loop_accepting:
  assumes a: "accepting E I c txt"
  shows "idle_channel w c q \<Longrightarrow> \<forall>m\<in>set q. sendable w m \<Longrightarrow> length q < n \<Longrightarrow>
    \<exists>w'. process_queue_loop E I n c w = Some w' \<and> idle_channel w' c []
      \<and> wire w' = wire w @ map (\<lambda>m. (c, txt m)) q \<and> io_only c w w'"
proof (induction q arbitrary: w n)
  case Nil
  then obtain n' where "n = Suc n'" by (cases n) auto
  then show ?case using Nil io_only_refl by (auto simp: idle_channel_def)
next
  case (Cons m q)
  then obtain n' where n': "n = Suc n'" "length q < n'" by (cases n) auto
  obtain r where r: "chans w c = Some r" "ch_state r = CHANNEL_READY" "ch_out_state r = OUTPUT_STREAM_IDLE"
      "ch_ewouldblock_buffer r = None" "ch_outgoing_messages r = m # q" and k: "timer_known w c"
      and e: "cfg_send_error w = 0"
    using Cons.prems(1) unfolding idle_channel_def by blast
  define w0 where "w0 = w\<lparr>chans := (chans w)(c \<mapsto> r\<lparr>ch_outgoing_messages := q\<rparr>)\<rparr>"
  have "timer_known w0 c" unfolding w0_def by (rule timer_known_upd[OF k r(1)]) simp
  then have i0: "idle_channel w0 c q" using r e by (simp add: idle_channel_def w0_def)
  have m0: "sendable w0 m" using Cons.prems(2) sendable_mono[of w0 w m] by (simp add: w0_def)
  obtain w1 where w1: "send_message E I c m w0 = Some w1" "idle_channel w1 c q"
    "wire w1 = wire w0 @ [(c, txt m)]" "msgs w1 = msgs w0" "hdrs w1 = hdrs w0" "io_only c w0 w1"
    using send_message_accepting[OF a i0 m0] by blast
  have "\<forall>m\<in>set q. sendable w1 m"
    using Cons.prems(2) sendable_mono[of w1 w] w1(4,5) by (simp add: w0_def)
  then obtain w2 where w2: "process_queue_loop E I n' c w1 = Some w2" "idle_channel w2 c []"
    "wire w2 = wire w1 @ map (\<lambda>m. (c, txt m)) q" "io_only c w1 w2"
    using Cons.IH[OF w1(2) _ n'(2)] by blast
  have p: "process_queue_loop E I n c w = process_queue_loop E I n' c w1"
    using r w1(1) by (simp add: n'(1) w0_def)
  have "io_only c w w0" unfolding w0_def by (rule io_only_chan[OF r(1)]) simp_all
  then have io: "io_only c w w2" using w1(6) w2(4) io_only_trans by blast
  show ?case using p w2 io w1(3) by (simp add: w0_def)
qed

lemma process_queue_accepting:
  assumes "accepting E I c txt" and "idle_channel w c q" and "\<forall>m\<in>set q. sendable w m"
  shows "\<exists>w'. channel_process_queue E I c w = Some w' \<and> idle_channel w' c []
    \<and> wire w' = wire w @ map (\<lambda>m. (c, txt m)) q \<and> io_only c w w'"
proof -
  obtain r where "chans w c = Some r" "ch_out_state r = OUTPUT_STREAM_IDLE" "ch_outgoing_messages r = q"
    using assms(2) unfolding idle_channel_def by blast
  then show ?thesis
    using process_queue_loop_accepting[OF assms, of "Suc (length q)"]
    by (simp add: channel_process_queue_def del: process_queue_loop.simps)
qed


section \<open>Concrete channels\<close>

definition sample_channel :: channel where
  "sample_channel = \<lparr>ch_source = 0, ch_lp = None, ch_state = CHANNEL_READY, ch_listeners = [LProvider],
     ch_transport = ''UDP'', ch_reliable = False, ch_peer_cname = None, ch_peer_name = ''h'', ch_peer_port = 5060,
     ch_local_ip = Some ''l'', ch_local_port = 5060, ch_public_ip = None, ch_public_port = 0, ch_learnt_ip_port = False,
     ch_srv_overrides_port = False, ch_peers = [], ch_outgoing_messages = [1, 2], ch_cur_out_message = None,
     ch_out_state = OUTPUT_STREAM_IDLE, ch_ewouldblock_buffer = None, ch_body_left = [],
     ch_inactivity_timer = None, ch_last_recv_time = 0, ch_force_close = False,
     ch_about_to_be_closed = False, ch_has_name = True\<rparr>"

definition sample_msg :: message where
  "sample_msg = empty_message\<lparr>rq_method := ''OPTIONS''\<rparr>"

definition sample_world :: "channel \<Rightarrow> world" where
  "sample_world r = (empty_world (\<lambda>_. 0))\<lparr>chans := [0 \<mapsto> r], msgs := [1 \<mapsto> sample_msg, 2 \<mapsto> sample_msg]\<rparr>"

definition accept_env :: env where
  "accept_env = \<lparr>app = (\<lambda>l ev w. Some w), socket_send = (\<lambda>c buf w. int (length buf)),
     socket_connect = (\<lambda>c p w. ConnectReady), resolver_answer = (\<lambda>c w. None),
     local_address = (\<lambda>c w. None), numeric_address = (\<lambda>h. None),
     header_text = (\<lambda>h. []), uri_text = (\<lambda>u. []), auth_requested = (\<lambda>l ev w. ev),
     address_bits = (\<lambda>a. 0)\<rparr>"

definition block_env :: env where
  "block_env = accept_env\<lparr>socket_send := (\<lambda>c buf w. - 11)\<rparr>"

definition plain_iface :: chan_iface where
  "plain_iface = \<lparr>on_state_changed = (\<lambda>l c s w. Some w), on_sending = (\<lambda>l c m w. Some w),
     marshal_message = (\<lambda>w m. Some (if m = 1 then ''m1'' else ''m2''))\<rparr>"

definition sample_text :: "nat \<Rightarrow> string" where
  "sample_text m = (if m = 1 then ''m1'' else ''m2'')"

lemma accepting_sample: "accepting accept_env plain_iface 0 sample_text"
  by (simp add: accepting_def accept_env_def plain_iface_def sample_text_def)

lemma sendable_sample: "m \<in> {1, 2} \<Longrightarrow> sendable (sample_world r) m"
  by (auto simp: sendable_def sample_world_def sample_msg_def empty_message_def
      belle_sip_message_get_header_by_type_def belle_sip_message_get_all_headers_def)

lemma timer_known_sample: "ch_inactivity_timer r = None \<Longrightarrow> timer_known (sample_world r) 0"
  by (simp add: timer_known_def sample_world_def empty_world_def ml_inv_def)


section \<open>A socket that would block\<close>

lemma push_out_blocked:
  assumes b: "\<And>buf w. socket_send E c buf w = - 11" and k: "timer_known w c" and e: "cfg_send_error w = 0"
  shows "\<exists>w1. only_timer c w w1 \<and> push_out E I c buf w = Some (w1, Blocked buf)"
proof -
  obtain w1 where 1: "update_inactivity_timer c False w = Some w1" "only_timer c w w1"
    using update_inactivity_timer_returns[OF k] by blast
  have "send_buffer E I c buf w = Some (w1, - 11)"
    using 1 b e by (simp add: send_buffer_def belle_sip_channel_send_def
        belle_sip_error_code_is_would_block_def)
  then show ?thesis using 1(2) by (subst push_out.simps) (auto simp: belle_sip_error_code_is_would_block_def)
qed

text \<open>C6. The queue of a channel whose previous message is still blocked: when the socket would
  block again, processing the queue writes nothing and keeps the message being sent, but the first
  message waiting in the queue is taken out of it and lost, because the loop pops before it tests the
  state of the channel.\<close>

theorem blocked_queue_drops_message:
  assumes b: "\<And>buf w. socket_send E c buf w = - 11" and k: "timer_known w c" and e: "cfg_send_error w = 0"
    and r: "chans w c = Some r" and o: "ch_out_state r \<noteq> OUTPUT_STREAM_IDLE"
    and buf: "ch_ewouldblock_buffer r = Some buf" and cur: "ch_cur_out_message r = Some cur"
    and q: "ch_outgoing_messages r = m # q"
  shows "\<exists>w' r'. channel_process_queue E I c w = Some w' \<and> wire w' = wire w \<and> chans w' c = Some r'
    \<and> ch_cur_out_message r' = Some cur \<and> ch_ewouldblock_buffer r' = Some buf \<and> ch_outgoing_messages r' = q"
proof -
  obtain w1 where w1: "only_timer c w w1" "push_out E I c buf w = Some (w1, Blocked buf)"
    using push_out_blocked[OF b k e] by blast
  obtain r1 t where r1: "chans w1 c = Some r1" "r1 = r\<lparr>ch_inactivity_timer := t\<rparr>"
    using only_timer_chan[OF w1(1) r] .
  define w2 where "w2 = w1\<lparr>chans := (chans w1)(c \<mapsto> r1\<lparr>ch_ewouldblock_buffer := Some buf\<rparr>)\<rparr>"
  have s: "channel_send_message E I c w = Some w2"
    using r cur buf w1(2) r1(1) by (simp add: channel_send_message_def w2_def)
  have c2: "chans w2 c = Some (r1\<lparr>ch_ewouldblock_buffer := Some buf\<rparr>)" by (simp add: w2_def)
  define w3 where "w3 = w2\<lparr>chans := (chans w2)(c \<mapsto> r1\<lparr>ch_ewouldblock_buffer := Some buf, ch_outgoing_messages := q\<rparr>)\<rparr>"
  have p: "channel_process_queue E I c w = Some w3"
    using r o s c2 q by (simp add: channel_process_queue_def r1(2) w3_def)
  have "wire w3 = wire w" using w1(1) by (simp add: w3_def w2_def only_timer_def)
  then show ?thesis using p cur by (auto simp: w3_def r1(2))
qed

lemma blocked_queue_drops_message_witness:
  "\<exists>w' r'. channel_process_queue block_env plain_iface 0
      (sample_world (sample_channel\<lparr>ch_out_state := OUTPUT_STREAM_SENDING_HEADERS,
         ch_ewouldblock_buffer := Some ''x'', ch_cur_out_message := Some 1, ch_outgoing_messages := [2]\<rparr>)) = Some w'
    \<and> wire w' = [] \<and> chans w' 0 = Some r' \<and> ch_outgoing_messages r' = []"
proof -
  let ?r = "sample_channel\<lparr>ch_out_state := OUTPUT_STREAM_SENDING_HEADERS,
         ch_ewouldblock_buffer := Some ''x'', ch_cur_out_message := Some 1, ch_outgoing_messages := [2]\<rparr>"
  have b: "socket_send block_env 0 buf w = - 11" for buf w by (simp add: block_env_def)
  have k: "timer_known (sample_world ?r) 0" by (rule timer_known_sample) (simp add: sample_channel_def)
  have w: "cfg_send_error (sample_world ?r) = 0" "chans (sample_world ?r) 0 = Some ?r" "wire (sample_world ?r) = []"
    by (simp_all add: sample_world_def empty_world_def)
  show ?thesis
    using blocked_queue_drops_message[OF b k w(1) w(2), of "''x''" 1 2 "[]" plain_iface] w(3) by auto
qed

text \<open>A message whose headers were only partly written when the socket would block: once the
  socket accepts again, the unsent rest goes out and then the whole message a second time, because
  the stream is still in the state that sends the headers.\<close>

lemma blocked_headers_sent_twice:
  assumes a: "accepting E I c txt" and k: "timer_known w c" and e: "cfg_send_error w = 0"
    and r: "chans w c = Some r" and o: "ch_out_state r = OUTPUT_STREAM_SENDING_HEADERS"
    and buf: "ch_ewouldblock_buffer r = Some buf" "buf \<noteq> []"
    and cur: "ch_cur_out_message r = Some cur" "sendable w cur"
  shows "\<exists>w'. channel_send_message E I c w = Some w' \<and> wire w' = wire w @ [(c, buf), (c, txt cur)]"
proof -
  obtain w1 where w1: "only_timer c w w1"
    "push_out E I c buf w = Some (w1\<lparr>wire := wire w1 @ [(c, buf)]\<rparr>, SentAll)"
    using push_out_accepting[OF a k e buf(2)] by blast
  obtain r1 t where r1: "chans w1 c = Some r1" "r1 = r\<lparr>ch_inactivity_timer := t\<rparr>"
    using only_timer_chan[OF w1(1) r] .
  define r2 where "r2 = r1\<lparr>ch_ewouldblock_buffer := None\<rparr>"
  define w2 where "w2 = w1\<lparr>wire := wire w1 @ [(c, buf)], chans := (chans w1)(c \<mapsto> r2)\<rparr>"
  have c2: "chans w2 c = Some r2" by (simp add: w2_def)
  have u: "upd_chan (w1\<lparr>wire := wire w1 @ [(c, buf)]\<rparr>) c (\<lambda>r. r\<lparr>ch_ewouldblock_buffer := None\<rparr>) = Some w2"
    using r1(1) by (simp add: w2_def r2_def)
  have "timer_known (w1\<lparr>chans := (chans w1)(c \<mapsto> r2)\<rparr>) c"
    by (rule timer_known_upd[OF _ r1(1)]) (use w1(1) in \<open>simp_all add: only_timer_def r2_def\<close>)
  then have k2: "timer_known w2 c" by (simp add: timer_known_def w2_def ml_inv_def split: option.splits)
  have e2: "cfg_send_error w2 = 0" and m2: "sendable w2 cur"
    using w1(1) e cur(2) sendable_mono[of w2 w cur] by (simp_all add: w2_def only_timer_def)
  obtain w3 where w3: "only_timer c w2 w3"
    "send_headers_step E I c cur w2 = Some (w3\<lparr>wire := wire w3 @ [(c, txt cur)]\<rparr>, GoOn)"
    using headers_step_accepting[OF a k2 e2 m2 c2] by blast
  obtain r3 t' where r3: "chans w3 c = Some r3" "r3 = r2\<lparr>ch_inactivity_timer := t'\<rparr>"
    using only_timer_chan[OF w3(1) c2] .
  have h: "ch_out_state r2 = OUTPUT_STREAM_SENDING_HEADERS" using o by (simp add: r2_def r1(2))
  have b: "send_body_step E I c (w3\<lparr>wire := wire w3 @ [(c, txt cur)]\<rparr>)
        = Some (w3\<lparr>wire := wire w3 @ [(c, txt cur)]\<rparr>, Finished)"
    using r3 h by (simp add: send_body_step_def)
  obtain w4 where w4: "send_done c (w3\<lparr>wire := wire w3 @ [(c, txt cur)]\<rparr>) = Some w4"
      "wire w4 = wire w3 @ [(c, txt cur)]"
    using r3 by (simp add: send_done_def)
  have "channel_send_message E I c w = Some w4"
    using r cur(1) buf(1) w1(2) u c2 h w3(2) b w4(1) by (simp add: channel_send_message_def)
  moreover have "wire w4 = wire w @ [(c, buf), (c, txt cur)]"
    using w4(2) w3(1) w1(1) by (simp add: only_timer_def w2_def)
  ultimately show ?thesis by blast
qed

lemma blocked_headers_sent_twice_witness:
  "\<exists>w'. channel_send_message accept_env plain_iface 0
      (sample_world (sample_channel\<lparr>ch_out_state := OUTPUT_STREAM_SENDING_HEADERS,
         ch_ewouldblock_buffer := Some ''1'', ch_cur_out_message := Some 1\<rparr>)) = Some w'
    \<and> wire w' = [(0, ''1''), (0, ''m1'')]"
proof -
  let ?r = "sample_channel\<lparr>ch_out_state := OUTPUT_STREAM_SENDING_HEADERS,
         ch_ewouldblock_buffer := Some ''1'', ch_cur_out_message := Some 1\<rparr>"
  have k: "timer_known (sample_world ?r) 0" by (rule timer_known_sample) (simp add: sample_channel_def)
  have w: "cfg_send_error (sample_world ?r) = 0" "chans (sample_world ?r) 0 = Some ?r" "wire (sample_world ?r) = []"
    by (simp_all add: sample_world_def empty_world_def)
  show ?thesis
    using blocked_headers_sent_twice[OF accepting_sample k w(1) w(2), of "''1''" 1] sendable_sample[of 1 ?r] w(3)
    by (auto simp: sample_text_def)
qed

end
