(* ===== verification/Dialog.thy ===== *)
theory Dialog
  imports ChannelState
begin

text \<open>
  Dialogs (\<^verbatim>\<open>src/dialog.c\<close>) and the list of dialogs of the provider (\<^verbatim>\<open>src/provider.c\<close>): creation
  from a transaction, establishment by a response, the update of the dialog by each message of a
  transaction, the requests made inside a dialog, the matching of a message, the ACK handling and
  the queue of waiting client transactions.

  Two operations of the layer above are arguments: \<open>term\<close> is \<^verbatim>\<open>belle_sip_transaction_terminate\<close>
  and \<open>send\<close> is \<^verbatim>\<open>belle_sip_provider_send_request\<close>; the theory of the transactions closes the
  knot. The parts of a dialog that the source keeps as header objects are header addresses here.
\<close>

section \<open>Reading headers\<close>

definition cseq_number :: "world \<Rightarrow> nat \<Rightarrow> 32 word option" where
  "cseq_number w h = do { x \<leftarrow> hdrs w h; (case hbody x of HCSeq m n \<Rightarrow> Some n | _ \<Rightarrow> None) }"

definition cseq_method :: "world \<Rightarrow> nat \<Rightarrow> string option" where
  "cseq_method w h = do { x \<leftarrow> hdrs w h; (case hbody x of HCSeq m n \<Rightarrow> m | _ \<Rightarrow> None) }"

definition call_id_value :: "world \<Rightarrow> nat \<Rightarrow> string option" where
  "call_id_value w h = do { x \<leftarrow> hdrs w h; (case hbody x of HCallId s \<Rightarrow> s | _ \<Rightarrow> None) }"

definition via_of :: "world \<Rightarrow> nat \<Rightarrow> via_header option" where
  "via_of w h = do { x \<leftarrow> hdrs w h; (case hbody x of HVia v \<Rightarrow> Some v | _ \<Rightarrow> None) }"

definition address_of :: "world \<Rightarrow> nat \<Rightarrow> addr_header option" where
  "address_of w h = do { x \<leftarrow> hdrs w h; addr_of (hbody x) }"

definition tag_of :: "world \<Rightarrow> nat \<Rightarrow> string option option" where
  "tag_of w h = do { a \<leftarrow> address_of w h; Some (get_tag a) }"

definition is_dialog_method :: "string \<Rightarrow> bool" where
  "is_dialog_method m \<longleftrightarrow> m = ''INVITE'' \<or> m = ''SUBSCRIBE''"

definition response_code :: "world \<Rightarrow> nat option \<Rightarrow> int option" where
  "response_code w resp = (case resp of None \<Rightarrow> Some 0
     | Some p \<Rightarrow> do { r \<leftarrow> msgs w p; Some (rs_status_code r) })"

fun belle_sip_transaction_state_is_transient :: "transaction_state \<Rightarrow> bool" where
  "belle_sip_transaction_state_is_transient TR_INIT = True"
| "belle_sip_transaction_state_is_transient TR_TRYING = True"
| "belle_sip_transaction_state_is_transient TR_CALLING = True"
| "belle_sip_transaction_state_is_transient TR_PROCEEDING = True"
| "belle_sip_transaction_state_is_transient _ = False"

section \<open>State\<close>

definition dialog_set_state :: "dialog \<Rightarrow> dialog_state \<Rightarrow> dialog" where
  "dialog_set_state r s = r\<lparr>dlg_previous_state := dlg_state r, dlg_state := s\<rparr>"

definition set_to_tag :: "dialog \<Rightarrow> string option \<Rightarrow> dialog" where
  "set_to_tag r to_tag =
     (if dlg_is_server r
      then (if to_tag \<noteq> None \<and> dlg_local_tag r = None then r\<lparr>dlg_local_tag := to_tag\<rparr> else r)
      else (if to_tag \<noteq> None \<and> dlg_remote_tag r = None then r\<lparr>dlg_remote_tag := to_tag\<rparr> else r))"

text \<open>Route headers made of the Record-Route headers of a message, in order.\<close>

fun make_routes :: "world \<Rightarrow> nat list \<Rightarrow> (world \<times> nat list) option" where
  "make_routes w [] = Some (w, [])"
| "make_routes w (h # hs) = do {
     a \<leftarrow> address_of w h;
     let (w, r) = new_hdr w (belle_sip_header_route_create a);
     (w, rs) \<leftarrow> make_routes w hs;
     Some (w, r # rs) }"

text \<open>The top Via's protocol against \<^verbatim>\<open>TLS\<close>, with a \<^verbatim>\<open>sips\<close> request URI.\<close>

definition is_secure_request :: "world \<Rightarrow> nat \<Rightarrow> nat \<Rightarrow> bool option" where
  "is_secure_request w via req = do {
     v \<leftarrow> via_of w via; p \<leftarrow> via_protocol v; m \<leftarrow> msgs w req;
     (if strcaseeq p ''TLS'' then do { u \<leftarrow> rq_uri m; Some (uri_secure u) } else Some False) }"

text \<open>The Boolean is False for the error return.\<close>

definition belle_sip_dialog_init_as_uas :: "nat \<Rightarrow> nat \<Rightarrow> nat \<Rightarrow> world \<Rightarrow> (world \<times> bool) option" where
  "belle_sip_dialog_init_as_uas d req resp w = do {
     ct \<leftarrow> belle_sip_message_get_header_by_type w req is_HContact;
     cseq \<leftarrow> belle_sip_message_get_header_by_type w req is_HCSeq;
     to \<leftarrow> belle_sip_message_get_header_by_type w resp is_HTo;
     via \<leftarrow> belle_sip_message_get_header_by_type w req is_HVia;
     (case (ct, to, cseq, via) of
        (Some ct, Some to, Some cseq, Some via) \<Rightarrow> do {
          secure \<leftarrow> is_secure_request w via req;
          rr \<leftarrow> belle_sip_message_get_headers w req ''Record-Route'';
          (w, routes) \<leftarrow> make_routes w rr;
          n \<leftarrow> cseq_number w cseq;
          w \<leftarrow> upd_dlg w d (\<lambda>r. (if secure then r\<lparr>dlg_is_secure := True\<rparr> else r)
                 \<lparr>dlg_route_set := routes, dlg_remote_target := Some ct, dlg_remote_cseq := n,
                  dlg_local_party := Some to\<rparr>);
          Some (w, True) }
      | _ \<Rightarrow> Some (w, False)) }"

definition set_last_out_invite :: "nat \<Rightarrow> nat \<Rightarrow> world \<Rightarrow> world option" where
  "set_last_out_invite d req w = upd_dlg w d (\<lambda>r. r\<lparr>dlg_last_out_invite := Some req\<rparr>)"

definition belle_sip_dialog_init_as_uac :: "nat \<Rightarrow> nat \<Rightarrow> nat \<Rightarrow> world \<Rightarrow> (world \<times> bool) option" where
  "belle_sip_dialog_init_as_uac d req resp w = do {
     ct \<leftarrow> belle_sip_message_get_header_by_type w resp is_HContact;
     cseq \<leftarrow> belle_sip_message_get_header_by_type w req is_HCSeq;
     to \<leftarrow> belle_sip_message_get_header_by_type w resp is_HTo;
     via \<leftarrow> belle_sip_message_get_header_by_type w req is_HVia;
     (case (to, cseq, via) of
        (Some to, Some cseq, Some via) \<Rightarrow> do {
          secure \<leftarrow> is_secure_request w via req;
          rr \<leftarrow> belle_sip_message_get_headers w resp ''Record-Route'';
          (w, routes) \<leftarrow> make_routes w rr;
          n \<leftarrow> cseq_number w cseq;
          w \<leftarrow> upd_dlg w d (\<lambda>r. (if secure then r\<lparr>dlg_is_secure := True\<rparr> else r)
                 \<lparr>dlg_route_set := rev routes,
                  dlg_remote_target := (if ct \<noteq> None then ct else dlg_remote_target r),
                  dlg_local_cseq := n, dlg_remote_party := Some to\<rparr>);
          m \<leftarrow> msgs w req;
          w \<leftarrow> (if rq_method m = ''INVITE'' then set_last_out_invite d req w else Some w);
          Some (w, True) }
      | _ \<Rightarrow> Some (w, False)) }"

section \<open>Retransmission of the 200 Ok\<close>

definition belle_sip_dialog_init_200Ok_retrans :: "nat \<Rightarrow> nat \<Rightarrow> world \<Rightarrow> world option" where
  "belle_sip_dialog_init_200Ok_retrans d resp w = do {
     (w, s) \<leftarrow> belle_sip_main_loop_create_timeout w (CbDialog200OkTimer d) (cfg_T1 w);
     w \<leftarrow> upd_dlg w d (\<lambda>r. r\<lparr>dlg_timer_200Ok := Some s\<rparr>);
     (w, s) \<leftarrow> belle_sip_main_loop_create_timeout w (CbDialog200OkEnd d) (cfg_T1 w * 64);
     upd_dlg w d (\<lambda>r. r\<lparr>dlg_timer_200Ok_end := Some s, dlg_last_200Ok := Some resp\<rparr>) }"

definition stop_opt :: "nat option \<Rightarrow> world \<Rightarrow> world option" where
  "stop_opt s w = (case s of None \<Rightarrow> Some w | Some s \<Rightarrow> belle_sip_main_loop_remove_source w s)"

definition belle_sip_dialog_stop_200Ok_retrans :: "nat \<Rightarrow> world \<Rightarrow> world option" where
  "belle_sip_dialog_stop_200Ok_retrans d w = do {
     r \<leftarrow> dlgs w d;
     w \<leftarrow> stop_opt (dlg_timer_200Ok r) w;
     w \<leftarrow> stop_opt (dlg_timer_200Ok_end r) w;
     upd_dlg w d (\<lambda>r. r\<lparr>dlg_timer_200Ok := None, dlg_timer_200Ok_end := None, dlg_last_200Ok := None\<rparr>) }"

section \<open>Establishment\<close>

definition belle_sip_dialog_establish_full :: "nat \<Rightarrow> nat \<Rightarrow> nat \<Rightarrow> world \<Rightarrow> (world \<times> bool) option" where
  "belle_sip_dialog_establish_full d req resp w = do {
     ct \<leftarrow> belle_sip_message_get_header_by_type w resp is_HContact;
     to \<leftarrow> belle_sip_message_get_header_by_type w resp is_HTo;
     m \<leftarrow> msgs w req;
     let invite = (rq_method m = ''INVITE'');
     w \<leftarrow> (if invite then upd_dlg w d (\<lambda>r. r\<lparr>dlg_needs_ack := True\<rparr>) else Some w);
     r \<leftarrow> dlgs w d;
     (if \<not> dlg_is_server r \<and> ct = None \<and> dlg_remote_target r = None then Some (w, False)
      else do {
        w \<leftarrow> (if dlg_is_server r
              then (if invite then belle_sip_dialog_init_200Ok_retrans d resp w else Some w)
              else if ct \<noteq> None then upd_dlg w d (\<lambda>r. r\<lparr>dlg_remote_target := ct\<rparr>) else Some w);
        to \<leftarrow> to;
        tag \<leftarrow> tag_of w to;
        w \<leftarrow> upd_dlg w d (\<lambda>r. dialog_set_state (set_to_tag r tag) DIALOG_CONFIRMED);
        Some (w, True) }) }"

definition belle_sip_dialog_establish :: "nat \<Rightarrow> nat \<Rightarrow> nat \<Rightarrow> world \<Rightarrow> (world \<times> bool) option" where
  "belle_sip_dialog_establish d req resp w = do {
     to \<leftarrow> belle_sip_message_get_header_by_type w resp is_HTo;
     call_id \<leftarrow> belle_sip_message_get_header_by_type w req is_HCallId;
     r \<leftarrow> dlgs w d;
     (if dlg_state r \<noteq> DIALOG_NULL then Some (w, False)
      else case call_id of
        None \<Rightarrow> Some (w, False)
      | Some c \<Rightarrow> do {
          w \<leftarrow> upd_dlg w d (\<lambda>r. r\<lparr>dlg_call_id := Some c\<rparr>);
          (w, ok) \<leftarrow> (if dlg_is_server r then belle_sip_dialog_init_as_uas d req resp w
                      else belle_sip_dialog_init_as_uac d req resp w);
          (if \<not> ok then Some (w, False)
           else do {
             to \<leftarrow> to;
             tag \<leftarrow> tag_of w to;
             w \<leftarrow> upd_dlg w d (\<lambda>r. set_to_tag r tag);
             Some (w, True) }) }) }"

text \<open>Written as in the source, where a first request (\<open>remote_cseq\<close> 0) is recorded and rejected.\<close>

definition belle_sip_dialog_check_incoming_request_ordering :: "nat \<Rightarrow> nat \<Rightarrow> world \<Rightarrow> (world \<times> bool) option" where
  "belle_sip_dialog_check_incoming_request_ordering d req w = do {
     h \<leftarrow> belle_sip_message_get_header_by_type w req is_HCSeq; h \<leftarrow> h;
     cseq \<leftarrow> cseq_number w h;
     r \<leftarrow> dlgs w d;
     (if dlg_remote_cseq r = 0
      then do { w \<leftarrow> upd_dlg w d (\<lambda>r. r\<lparr>dlg_remote_cseq := cseq\<rparr>); Some (w, False) }
      else Some (w, dlg_remote_cseq r < cseq)) }"

section \<open>The queue of client transactions\<close>

definition belle_sip_dialog_process_queue :: "nat \<Rightarrow> world \<Rightarrow> world option" where
  "belle_sip_dialog_process_queue d w = belle_sip_main_loop_do_later w (CbDialogProcessQueue d)"

definition belle_sip_dialog_queue_client_transaction :: "nat \<Rightarrow> nat \<Rightarrow> world \<Rightarrow> world option" where
  "belle_sip_dialog_queue_client_transaction d t w = upd_dlg w d (\<lambda>r. r\<lparr>dlg_queued_ct := dlg_queued_ct r @ [t]\<rparr>)"

definition belle_sip_dialog_request_pending :: "nat \<Rightarrow> world \<Rightarrow> bool option" where
  "belle_sip_dialog_request_pending d w = do {
     r \<leftarrow> dlgs w d;
     (case dlg_last_transaction r of None \<Rightarrow> Some False
      | Some t \<Rightarrow> do { x \<leftarrow> trs w t; Some (belle_sip_transaction_state_is_transient (tr_state x)) }) }"

section \<open>Deletion\<close>

fun terminate_all :: "(nat \<Rightarrow> world \<Rightarrow> world option) \<Rightarrow> nat list \<Rightarrow> world \<Rightarrow> world option" where
  "terminate_all term [] w = Some w"
| "terminate_all term (t # ts) w = do { w \<leftarrow> term t w; terminate_all term ts w }"

definition belle_sip_provider_add_dialog :: "nat \<Rightarrow> world \<Rightarrow> world" where
  "belle_sip_provider_add_dialog d w = w\<lparr>prov_dialogs := d # prov_dialogs w\<rparr>"

definition belle_sip_provider_remove_dialog :: "nat \<Rightarrow> world \<Rightarrow> world option" where
  "belle_sip_provider_remove_dialog d w =
     belle_sip_main_loop_do_later (w\<lparr>prov_dialogs := remove1 d (prov_dialogs w)\<rparr>) (CbDialogTerminated d)"

definition belle_sip_dialog_delete :: "(nat \<Rightarrow> world \<Rightarrow> world option) \<Rightarrow> nat \<Rightarrow> world \<Rightarrow> world option" where
  "belle_sip_dialog_delete term d w = do {
     w \<leftarrow> belle_sip_dialog_stop_200Ok_retrans d w;
     w \<leftarrow> upd_dlg w d (\<lambda>r. dialog_set_state r DIALOG_TERMINATED);
     r \<leftarrow> dlgs w d;
     w \<leftarrow> terminate_all term (dlg_queued_ct r) w;
     w \<leftarrow> upd_dlg w d (\<lambda>r. r\<lparr>dlg_queued_ct := []\<rparr>);
     belle_sip_provider_remove_dialog d w }"

end
