(* ===== verification/DialogUpdate.thy ===== *)
theory DialogUpdate
  imports Dialog
begin

text \<open>
  The rest of \<^verbatim>\<open>src/dialog.c\<close>: the update of a dialog by a transaction (\<^verbatim>\<open>belle_sip_dialog_update\<close>, called
  for every request sent, response sent or received, and termination without a final response),
  the creation of a dialog, the requests made inside it, the matching of messages and the ACK.
\<close>

section \<open>The update by a transaction\<close>

text \<open>\<^verbatim>\<open>belle_sip_dialog_handle_200Ok\<close>: True when the 200 Ok is a retransmission, whose ACK is sent again.\<close>

definition belle_sip_dialog_handle_200Ok ::
  "(nat \<Rightarrow> world \<Rightarrow> world option) \<Rightarrow> nat \<Rightarrow> nat \<Rightarrow> world \<Rightarrow> (world \<times> bool) option" where
  "belle_sip_dialog_handle_200Ok send d msg w = do {
     r \<leftarrow> dlgs w d;
     (case dlg_last_out_ack r of
        None \<Rightarrow> Some (w, False)
      | Some ack \<Rightarrow> do {
          cseq \<leftarrow> belle_sip_message_get_header_by_type w msg is_HCSeq;
          (case cseq of
             None \<Rightarrow> Some (w, False)
           | Some cseq \<Rightarrow> do {
               ack_cseq \<leftarrow> belle_sip_message_get_header_by_type w ack is_HCSeq;
               ack_cseq \<leftarrow> ack_cseq;
               n \<leftarrow> cseq_number w cseq;
               k \<leftarrow> cseq_number w ack_cseq;
               (if n = k then do { w \<leftarrow> send ack w; Some (w, True) } else Some (w, False)) }) }) }"

text \<open>
  The switch of \<^verbatim>\<open>belle_sip_dialog_update\<close> by the dialog's state. The result says whether the dialog
  is to be deleted and whether the message is a retransmission (the early return).
\<close>

definition update_early :: "nat \<Rightarrow> nat \<Rightarrow> nat option \<Rightarrow> int \<Rightarrow> string \<Rightarrow> world \<Rightarrow> (world \<times> bool) option" where
  "update_early d req resp code method w =
     (if 300 \<le> code \<and> is_dialog_method method then Some (w, True)
      else if 200 \<le> code \<and> code < 300 \<and> is_dialog_method method
      then do { resp \<leftarrow> resp;
                (w, _) \<leftarrow> belle_sip_dialog_establish_full d req resp w; Some (w, False) }
      else Some (w, False))"

definition update_null :: "nat \<Rightarrow> nat \<Rightarrow> nat option \<Rightarrow> int \<Rightarrow> string \<Rightarrow> world \<Rightarrow> (world \<times> bool) option" where
  "update_null d req resp code method w =
     (if 100 < code \<and> code < 300 \<and> is_dialog_method method
      then do {
        resp' \<leftarrow> resp;
        (w, _) \<leftarrow> belle_sip_dialog_establish d req resp' w;
        (if code < 200
         then do { w \<leftarrow> upd_dlg w d (\<lambda>r. dialog_set_state r DIALOG_EARLY); Some (w, False) }
         else update_early d req resp code method w) }
      else update_early d req resp code method w)"

definition update_confirmed :: "(nat \<Rightarrow> world \<Rightarrow> world option) \<Rightarrow> nat \<Rightarrow> nat \<Rightarrow> nat option \<Rightarrow> int \<Rightarrow> string
    \<Rightarrow> nat \<Rightarrow> bool \<Rightarrow> world \<Rightarrow> (world \<times> bool \<times> bool) option" where
  "update_confirmed send d req resp code method t as_uas w =
     (if method = ''INVITE'' then
        (if 200 \<le> code \<and> code < 300 then do {
           resp \<leftarrow> resp;
           (w, ct) \<leftarrow> (if as_uas then do { ct \<leftarrow> belle_sip_message_get_header_by_type w req is_HContact; Some (w, ct) }
                       else do { w \<leftarrow> set_last_out_invite d req w;
                                 ct \<leftarrow> belle_sip_message_get_header_by_type w resp is_HContact; Some (w, ct) });
           r \<leftarrow> dlgs w d;
           w \<leftarrow> (if ct \<noteq> None
                 then (if dlg_remote_target r = None then None
                       else upd_dlg w d (\<lambda>r. r\<lparr>dlg_remote_target := ct\<rparr>))
                 else Some w);
           (w, again) \<leftarrow> (if as_uas then Some (w, False) else belle_sip_dialog_handle_200Ok send d resp w);
           (if again then Some (w, False, True)
            else do { w \<leftarrow> upd_dlg w d (\<lambda>r. r\<lparr>dlg_needs_ack := True\<rparr>); Some (w, False, False) }) }
         else if 300 \<le> code
         then do { w \<leftarrow> upd_dlg w d (\<lambda>r. r\<lparr>dlg_needs_ack := False\<rparr>); Some (w, False, False) }
         else Some (w, False, False))
      else if method = ''BYE'' then do {
        x \<leftarrow> trs w t;
        (if 200 \<le> code \<or> code = 0 \<and> tr_state x = TR_TERMINATED
         then do { w \<leftarrow> upd_dlg w d (\<lambda>r. r\<lparr>dlg_needs_ack := False\<rparr>);
                   r \<leftarrow> dlgs w d;
                   Some (w, dlg_terminate_on_bye r, False) }
         else Some (w, False, False)) }
      else Some (w, False, False))"

definition belle_sip_dialog_update :: "(nat \<Rightarrow> world \<Rightarrow> world option) \<Rightarrow> (nat \<Rightarrow> world \<Rightarrow> world option)
    \<Rightarrow> nat \<Rightarrow> nat \<Rightarrow> bool \<Rightarrow> world \<Rightarrow> (world \<times> bool) option" where
  "belle_sip_dialog_update term send d t as_uas w = do {
     x \<leftarrow> trs w t;
     let req = tr_request x;
     let resp = tr_last_response x;
     w \<leftarrow> upd_dlg w d (\<lambda>r. r\<lparr>dlg_last_transaction := Some t\<rparr>);
     w \<leftarrow> (if \<not> as_uas
           then do { p \<leftarrow> belle_sip_message_get_header_by_type w req is_HPrivacy;
                     upd_dlg w d (\<lambda>r. r\<lparr>dlg_privacy := p\<rparr>) }
           else Some w);
     code \<leftarrow> response_code w resp;
     w \<leftarrow> (if as_uas
           then do { h \<leftarrow> belle_sip_message_get_header_by_type w req is_HCSeq; h \<leftarrow> h; n \<leftarrow> cseq_number w h;
                     upd_dlg w d (\<lambda>r. r\<lparr>dlg_remote_cseq := n\<rparr>) }
           else Some w);
     m \<leftarrow> msgs w req;
     let method = rq_method m;
     r \<leftarrow> dlgs w d;
     (w, delete, again) \<leftarrow> (case dlg_state r of
          DIALOG_NULL \<Rightarrow> do { (w, del) \<leftarrow> update_null d req resp code method w; Some (w, del, False) }
        | DIALOG_EARLY \<Rightarrow> do { (w, del) \<leftarrow> update_early d req resp code method w; Some (w, del, False) }
        | DIALOG_CONFIRMED \<Rightarrow> update_confirmed send d req resp code method t as_uas w
        | DIALOG_TERMINATED \<Rightarrow> Some (w, False, False));
     (if again then Some (w, True)
      else do {
        w \<leftarrow> (if delete then belle_sip_dialog_delete term d w else belle_sip_dialog_process_queue d w);
        Some (w, False) }) }"

section \<open>Creation\<close>

text \<open>A dialog of a transaction, or \<^term>\<open>None\<close> inside when its headers do not allow one.\<close>

definition belle_sip_dialog_new :: "nat \<Rightarrow> world \<Rightarrow> (world \<times> nat option) option" where
  "belle_sip_dialog_new t w = do {
     x \<leftarrow> trs w t;
     from \<leftarrow> belle_sip_message_get_header_by_type w (tr_request x) is_HFrom;
     (case from of
        None \<Rightarrow> Some (w, None)
      | Some from \<Rightarrow> do {
          from_tag \<leftarrow> tag_of w from;
          (case from_tag of
             None \<Rightarrow> Some (w, None)
           | Some ft \<Rightarrow> do {
               to \<leftarrow> (case tr_last_response x of None \<Rightarrow> Some (Some None)
                      | Some p \<Rightarrow> do {
                          h \<leftarrow> belle_sip_message_get_header_by_type w p is_HTo;
                          (case h of None \<Rightarrow> Some None
                           | Some h \<Rightarrow> do { g \<leftarrow> tag_of w h; Some (Some g) }) });
               (case to of
                  None \<Rightarrow> Some (w, None)
                | Some to_tag \<Rightarrow> do {
                    routes \<leftarrow> belle_sip_message_get_headers w (tr_request x) ''Route'';
                    let server = (\<not> is_client (tr_class x));
                    let d = obj_brk w;
                    Some (w\<lparr>dlgs := (dlgs w)(d \<mapsto> \<lparr>dlg_last_out_invite = None, dlg_last_out_ack = None,
                              dlg_last_200Ok = None, dlg_timer_200Ok = None, dlg_timer_200Ok_end = None,
                              dlg_state = DIALOG_NULL, dlg_previous_state = DIALOG_NULL, dlg_call_id = None,
                              dlg_local_party = (if server then None else Some from),
                              dlg_remote_party = (if server then Some from else None),
                              dlg_route_set = (if server then [] else routes),
                              dlg_remote_target = None,
                              dlg_local_tag = (if server then to_tag else Some ft),
                              dlg_remote_tag = (if server then Some ft else to_tag),
                              dlg_local_cseq = 0, dlg_remote_cseq = 0, dlg_last_transaction = None,
                              dlg_privacy = None, dlg_queued_ct = [], dlg_is_server = server,
                              dlg_is_secure = False, dlg_terminate_on_bye = True, dlg_needs_ack = False\<rparr>),
                            obj_brk := Suc d\<rparr>, Some d) }) }) }) }"

definition belle_sip_provider_create_dialog_internal :: "nat \<Rightarrow> bool \<Rightarrow> world \<Rightarrow> (world \<times> nat option) option" where
  "belle_sip_provider_create_dialog_internal t check_last_resp w = do {
     x \<leftarrow> trs w t;
     code \<leftarrow> response_code w (tr_last_response x);
     (if check_last_resp \<and> tr_last_response x \<noteq> None \<and> 200 \<le> code \<and> code < 300 then None
      else do {
        (w, d) \<leftarrow> belle_sip_dialog_new t w;
        (case d of None \<Rightarrow> Some (w, None)
         | Some d \<Rightarrow> do {
             w \<leftarrow> upd_tr w t (\<lambda>x. x\<lparr>tr_dialog := Some d\<rparr>);
             Some (belle_sip_provider_add_dialog d w, Some d) }) }) }"

definition belle_sip_provider_create_dialog :: "nat \<Rightarrow> world \<Rightarrow> (world \<times> nat option) option" where
  "belle_sip_provider_create_dialog t w = belle_sip_provider_create_dialog_internal t True w"

section \<open>Requests inside a dialog\<close>

text \<open>
  The static \<^verbatim>\<open>create_request\<close>. \<^verbatim>\<open>belle_sip_request_create\<close> removes the headers of the URI of the remote
  target, which the request shares.
\<close>

definition create_request :: "nat \<Rightarrow> string \<Rightarrow> bool \<Rightarrow> world \<Rightarrow> (world \<times> nat) option" where
  "create_request d method full w = do {
     r \<leftarrow> dlgs w d;
     target \<leftarrow> dlg_remote_target r;
     a \<leftarrow> address_of w target;
     u \<leftarrow> addr_uri a;
     call_id \<leftarrow> dlg_call_id r;
     lp \<leftarrow> dlg_local_party r; lpa \<leftarrow> address_of w lp;
     rp \<leftarrow> dlg_remote_party r; rpa \<leftarrow> address_of w rp;
     let (w, cseq) = new_hdr w (belle_sip_header_cseq_create (dlg_local_cseq r) method);
     let (w, from) = new_hdr w (belle_sip_header_from_create lpa None);
     let (w, to) = new_hdr w (belle_sip_header_to_create rpa None);
     let (w, via) = new_hdr w \<lparr>hname = ''Via'', hbody = HVia via_new\<rparr>;
     (w, req) \<leftarrow> belle_sip_request_create w u method call_id cseq from (Some to) via 0;
     w \<leftarrow> upd_hdr w target (\<lambda>x. x\<lparr>hbody := set_addr (hbody x) (a\<lparr>addr_uri := Some (belle_sip_uri_headers_clean u)\<rparr>)\<rparr>);
     w \<leftarrow> (if full then belle_sip_message_add_headers w req (dlg_route_set r) else Some w);
     w \<leftarrow> add_opt_header w req (dlg_privacy r);
     w \<leftarrow> belle_sip_request_set_dialog w req (Some d);
     Some (w, req) }"

definition belle_sip_dialog_create_queued_request :: "nat \<Rightarrow> string \<Rightarrow> world \<Rightarrow> (world \<times> nat option) option" where
  "belle_sip_dialog_create_queued_request d method w =
     (if is_dialog_method method then Some (w, None)
      else do {
        (w, req) \<leftarrow> create_request d method False w;
        w \<leftarrow> upd_msg w req (\<lambda>m. m\<lparr>rq_dialog_queued := True\<rparr>);
        Some (w, Some req) })"

definition belle_sip_dialog_update_local_cseq :: "dialog \<Rightarrow> string \<Rightarrow> dialog" where
  "belle_sip_dialog_update_local_cseq r method =
     (let n = (if dlg_local_cseq r = 0 then 110 else dlg_local_cseq r)
      in r\<lparr>dlg_local_cseq := (if method \<noteq> ''ACK'' then n + 1 else n)\<rparr>)"

definition belle_sip_dialog_create_request :: "nat \<Rightarrow> string \<Rightarrow> world \<Rightarrow> (world \<times> nat option) option" where
  "belle_sip_dialog_create_request d method w = do {
     r \<leftarrow> dlgs w d;
     (if dlg_state r \<noteq> DIALOG_CONFIRMED \<and> dlg_state r \<noteq> DIALOG_EARLY then Some (w, None)
      else do {
        pending \<leftarrow> belle_sip_dialog_request_pending d w;
        (if method \<noteq> ''BYE'' \<and> pending \<and> dlg_state r \<noteq> DIALOG_EARLY \<and> method \<noteq> ''UPDATE''
         then Some (w, None)
         else do {
           w \<leftarrow> upd_dlg w d (\<lambda>r. belle_sip_dialog_update_local_cseq r method);
           (w, req) \<leftarrow> create_request d method True w;
           Some (w, Some req) }) }) }"

definition belle_sip_dialog_create_ack :: "nat \<Rightarrow> 32 word \<Rightarrow> world \<Rightarrow> (world \<times> nat option) option" where
  "belle_sip_dialog_create_ack d cseq w = do {
     r \<leftarrow> dlgs w d;
     (case dlg_last_out_invite r of
        None \<Rightarrow> Some (w, None)
      | Some invite \<Rightarrow> do {
          h \<leftarrow> belle_sip_message_get_header_by_type w invite is_HCSeq; h \<leftarrow> h;
          n \<leftarrow> cseq_number w h;
          (if n \<noteq> cseq then Some (w, None)
           else do {
             (w, ack) \<leftarrow> create_request d ''ACK'' True w;
             aut \<leftarrow> belle_sip_message_get_headers w invite ''Authorization'';
             prx_aut \<leftarrow> belle_sip_message_get_headers w invite ''Proxy-Authorization'';
             w \<leftarrow> belle_sip_message_add_headers w ack aut;
             w \<leftarrow> belle_sip_message_add_headers w ack prx_aut;
             w \<leftarrow> belle_sip_request_set_dialog w ack None;
             Some (w, Some ack) }) }) }"

definition is_system_header :: "string \<Rightarrow> bool" where
  "is_system_header name \<longleftrightarrow>
     (\<exists>n\<in>set [''Via'', ''From'', ''To'', ''CSeq'', ''Call-ID'', ''Proxy-Authorization'', ''Authorization'',
          ''Max-Forwards'', ''Allow'', ''Route'']. strcaseeq n name)"

fun copy_non_system_headers :: "nat \<Rightarrow> nat list \<Rightarrow> world \<Rightarrow> world option" where
  "copy_non_system_headers req [] w = Some w"
| "copy_non_system_headers req (h # hs) w = do {
     x \<leftarrow> hdrs w h;
     w \<leftarrow> (if is_system_header (hname x) then Some w else belle_sip_message_add_header w req h);
     copy_non_system_headers req hs w }"

text \<open>The copied body has the length given by Content-Length; reading past the body is a crash.\<close>

definition copy_body :: "nat \<Rightarrow> nat \<Rightarrow> nat option \<Rightarrow> world \<Rightarrow> world option" where
  "copy_body initial_req req content_length w =
     (case content_length of None \<Rightarrow> Some w
      | Some h \<Rightarrow> do {
          x \<leftarrow> hdrs w h; m \<leftarrow> msgs w initial_req;
          (case hbody x of
             HContentLength n \<Rightarrow>
               (if n = 0 then Some w
                else case m_body m of None \<Rightarrow> upd_msg w req (\<lambda>m. m\<lparr>m_body := None\<rparr>)
                  | Some b \<Rightarrow> (if length b < n then None
                               else upd_msg w req (\<lambda>m. m\<lparr>m_body := Some (take n b)\<rparr>)))
           | _ \<Rightarrow> None) })"

definition belle_sip_dialog_create_request_from_generic ::
  "nat \<Rightarrow> nat \<Rightarrow> bool \<Rightarrow> world \<Rightarrow> (world \<times> nat option) option" where
  "belle_sip_dialog_create_request_from_generic d initial_req queued w = do {
     m \<leftarrow> msgs w initial_req;
     (w, req) \<leftarrow> (if queued then belle_sip_dialog_create_queued_request d (rq_method m) w
                  else belle_sip_dialog_create_request d (rq_method m) w);
     (case req of
        None \<Rightarrow> Some (w, None)
      | Some req \<Rightarrow> do {
          cl \<leftarrow> belle_sip_message_get_header_by_type w initial_req is_HContentLength;
          hs \<leftarrow> belle_sip_message_get_all_headers w initial_req;
          w \<leftarrow> copy_non_system_headers req hs w;
          orig \<leftarrow> belle_sip_message_get_header_by_type w initial_req is_HVia; orig \<leftarrow> orig;
          ov \<leftarrow> via_of w orig;
          new_via \<leftarrow> belle_sip_message_get_header_by_type w req is_HVia; new_via \<leftarrow> new_via;
          nv \<leftarrow> via_of w new_via;
          w \<leftarrow> upd_hdr w new_via (\<lambda>x. x\<lparr>hbody := HVia (nv\<lparr>via_params :=
                 belle_sip_parameters_copy_parameters_from (via_params nv) (via_params ov)\<rparr>)\<rparr>);
          w \<leftarrow> copy_body initial_req req cl w;
          Some (w, Some req) }) }"

definition belle_sip_dialog_create_request_from :: "nat \<Rightarrow> nat \<Rightarrow> world \<Rightarrow> (world \<times> nat option) option" where
  "belle_sip_dialog_create_request_from d req w = belle_sip_dialog_create_request_from_generic d req False w"

definition belle_sip_dialog_create_queued_request_from :: "nat \<Rightarrow> nat \<Rightarrow> world \<Rightarrow> (world \<times> nat option) option" where
  "belle_sip_dialog_create_queued_request_from d req w = belle_sip_dialog_create_request_from_generic d req True w"

definition belle_sip_dialog_update_request :: "nat \<Rightarrow> nat \<Rightarrow> world \<Rightarrow> world option" where
  "belle_sip_dialog_update_request d req w = do {
     h \<leftarrow> belle_sip_message_get_header_by_type w req is_HCSeq; h \<leftarrow> h;
     m \<leftarrow> msgs w req;
     w \<leftarrow> upd_dlg w d (\<lambda>r. belle_sip_dialog_update_local_cseq r (rq_method m));
     r \<leftarrow> dlgs w d;
     w \<leftarrow> belle_sip_message_add_headers w req (dlg_route_set r);
     target \<leftarrow> dlg_remote_target r; a \<leftarrow> address_of w target;
     w \<leftarrow> belle_sip_request_set_uri w req (addr_uri a);
     upd_hdr w h (\<lambda>x. x\<lparr>hbody := (case hbody x of HCSeq c n \<Rightarrow> HCSeq c (dlg_local_cseq r) | b \<Rightarrow> b)\<rparr>) }"

section \<open>Matching\<close>

text \<open>\<^verbatim>\<open>_belle_sip_dialog_match\<close>: a NULL state is a fatal error, and comparing with a NULL string a crash.\<close>

definition dialog_match_values :: "nat \<Rightarrow> string option \<Rightarrow> string option \<Rightarrow> string option \<Rightarrow> world \<Rightarrow> bool option" where
  "dialog_match_values d call_id local_tag remote_tag w = do {
     r \<leftarrow> dlgs w d;
     (if dlg_state r = DIALOG_NULL then None
      else do {
        h \<leftarrow> dlg_call_id r; dcid \<leftarrow> call_id_value w h; c \<leftarrow> call_id;
        (if dcid \<noteq> c then Some False
         else do {
           lt \<leftarrow> dlg_local_tag r; l \<leftarrow> local_tag;
           (if lt \<noteq> l then Some False
            else case dlg_remote_tag r of None \<Rightarrow> Some False
              | Some rt \<Rightarrow> do { g \<leftarrow> remote_tag; Some (rt = g) }) }) }) }"

definition belle_sip_dialog_match :: "nat \<Rightarrow> nat \<Rightarrow> bool \<Rightarrow> world \<Rightarrow> bool option" where
  "belle_sip_dialog_match d msg as_uas w = do {
     c \<leftarrow> belle_sip_message_get_header_by_type w msg is_HCallId;
     f \<leftarrow> belle_sip_message_get_header_by_type w msg is_HFrom;
     t \<leftarrow> belle_sip_message_get_header_by_type w msg is_HTo;
     (case (c, f, t) of
        (Some c, Some f, Some t) \<Rightarrow> do {
          from_tag \<leftarrow> tag_of w f; to_tag \<leftarrow> tag_of w t;
          dialog_match_values d (call_id_value w c) (if as_uas then to_tag else from_tag)
            (if as_uas then from_tag else to_tag) w }
      | _ \<Rightarrow> Some False) }"

text \<open>The loop of \<^verbatim>\<open>belle_sip_provider_find_dialog_from_message\<close>; a second match is a fatal error.\<close>

fun find_dialog_loop :: "string option \<Rightarrow> string option \<Rightarrow> string option \<Rightarrow> world \<Rightarrow> nat list \<Rightarrow> nat option
    \<Rightarrow> nat option option" where
  "find_dialog_loop c l g w [] found = Some found"
| "find_dialog_loop c l g w (d # ds) found = do {
     r \<leftarrow> dlgs w d;
     (if dlg_state r = DIALOG_NULL then find_dialog_loop c l g w ds found
      else do {
        ok \<leftarrow> dialog_match_values d c l g w;
        (if ok then (if found = None then find_dialog_loop c l g w ds (Some d) else None)
         else find_dialog_loop c l g w ds found) }) }"

definition belle_sip_provider_find_dialog_from_message :: "nat \<Rightarrow> bool \<Rightarrow> world \<Rightarrow> nat option option" where
  "belle_sip_provider_find_dialog_from_message msg as_uas w = do {
     m \<leftarrow> msgs w msg;
     (if is_request m \<and> rq_dialog m \<noteq> None then Some (rq_dialog m)
      else do {
        t \<leftarrow> belle_sip_message_get_header_by_type w msg is_HTo;
        to_tag \<leftarrow> (case t of None \<Rightarrow> Some None | Some t \<Rightarrow> tag_of w t);
        (case to_tag of
           None \<Rightarrow> Some None
         | Some tt \<Rightarrow> do {
             c \<leftarrow> belle_sip_message_get_header_by_type w msg is_HCallId;
             f \<leftarrow> belle_sip_message_get_header_by_type w msg is_HFrom;
             from_tag \<leftarrow> (case f of None \<Rightarrow> Some None | Some f \<Rightarrow> tag_of w f);
             (case (c, from_tag) of
                (Some c, Some ft) \<Rightarrow>
                  find_dialog_loop (call_id_value w c) (Some (if as_uas then tt else ft))
                    (Some (if as_uas then ft else tt)) w (prov_dialogs w) None
              | _ \<Rightarrow> Some None) }) }) }"

text \<open>\<^verbatim>\<open>belle_sip_provider_find_dialog\<close>: the first dialog with the call-id and both tags; a dialog whose
  remote tag is still unknown is compared with a NULL pointer.\<close>

fun find_dialog_by_tags :: "string \<Rightarrow> string \<Rightarrow> string \<Rightarrow> world \<Rightarrow> nat list \<Rightarrow> nat option option" where
  "find_dialog_by_tags c f t w [] = Some None"
| "find_dialog_by_tags c f t w (d # ds) = do {
     r \<leftarrow> dlgs w d;
     (if dlg_state r = DIALOG_NULL then find_dialog_by_tags c f t w ds
      else do {
        h \<leftarrow> dlg_call_id r; dcid \<leftarrow> call_id_value w h;
        (if dcid \<noteq> c then find_dialog_by_tags c f t w ds
         else do {
           target_from \<leftarrow> (if dlg_is_server r then dlg_remote_tag r else dlg_local_tag r);
           (if f \<noteq> target_from then find_dialog_by_tags c f t w ds
            else do {
              target_to \<leftarrow> (if dlg_is_server r then dlg_local_tag r else dlg_remote_tag r);
              (if t = target_to then Some (Some d) else find_dialog_by_tags c f t w ds) }) }) }) }"

definition belle_sip_provider_find_dialog :: "string \<Rightarrow> string \<Rightarrow> string \<Rightarrow> world \<Rightarrow> nat option option" where
  "belle_sip_provider_find_dialog call_id from_tag to_tag w =
     find_dialog_by_tags call_id from_tag to_tag w (prov_dialogs w)"

section \<open>ACK and authorization of a request\<close>

definition belle_sip_dialog_send_ack :: "(nat \<Rightarrow> world \<Rightarrow> world option) \<Rightarrow> nat \<Rightarrow> nat \<Rightarrow> world \<Rightarrow> world option" where
  "belle_sip_dialog_send_ack send d req w = do {
     r \<leftarrow> dlgs w d;
     (if dlg_needs_ack r then do {
        w \<leftarrow> upd_dlg w d (\<lambda>r. r\<lparr>dlg_needs_ack := False, dlg_last_out_ack := Some req\<rparr>);
        w \<leftarrow> send req w;
        belle_sip_dialog_process_queue d w }
      else Some w) }"

text \<open>The Boolean is True when the ACK is new (the source returns 0).\<close>

definition belle_sip_dialog_handle_ack :: "nat \<Rightarrow> nat \<Rightarrow> world \<Rightarrow> (world \<times> bool) option" where
  "belle_sip_dialog_handle_ack d ack w = do {
     h \<leftarrow> belle_sip_message_get_header_by_type w ack is_HCSeq;
     r \<leftarrow> dlgs w d;
     (if \<not> dlg_needs_ack r then Some (w, False)
      else do {
        h \<leftarrow> h; n \<leftarrow> cseq_number w h;
        (if n = dlg_remote_cseq r then do {
           w \<leftarrow> upd_dlg w d (\<lambda>r. r\<lparr>dlg_needs_ack := False\<rparr>);
           w \<leftarrow> belle_sip_dialog_stop_200Ok_retrans d w;
           w \<leftarrow> belle_sip_dialog_process_queue d w;
           Some (w, True) }
         else Some (w, False)) }) }"

definition belle_sip_dialog_is_authorized_transaction :: "nat \<Rightarrow> string \<Rightarrow> world \<Rightarrow> bool option" where
  "belle_sip_dialog_is_authorized_transaction d method w = do {
     pending \<leftarrow> belle_sip_dialog_request_pending d w;
     (if \<not> pending then Some True
      else if strcaseeq method ''BYE'' then Some True
      else do {
        r \<leftarrow> dlgs w d; t \<leftarrow> dlg_last_transaction r; x \<leftarrow> trs w t; m \<leftarrow> msgs w (tr_request x);
        Some (is_client (tr_class x) \<and> rq_method m = ''SUBSCRIBE'' \<and> method = ''NOTIFY''
              \<or> rq_method m = ''INVITE'' \<and> (method = ''PRACK'' \<or> method = ''UPDATE'')) }) }"

end
