(* ===== verification/Md5.thy ===== *)
theory Md5
  imports Prelude
begin

unbundle bit_operations_syntax

text \<open>
  The message digest of \<^verbatim>\<open>src/md5.c\<close>: the four rounds on a block, the incremental interface
  (\<^verbatim>\<open>init\<close>, \<^verbatim>\<open>append\<close>, \<^verbatim>\<open>finish\<close>) with its buffer and its 64-bit length in two words, and the proof that
  feeding a message in pieces gives the digest that RFC 1321 defines on the whole message.
\<close>

type_synonym md5_byte = "8 word"
type_synonym md5_word = "32 word"
type_synonym registers = "md5_word \<times> md5_word \<times> md5_word \<times> md5_word"

section \<open>One block\<close>

definition md5_F :: "md5_word \<Rightarrow> md5_word \<Rightarrow> md5_word \<Rightarrow> md5_word" where
  "md5_F x y z = (x AND y) OR (NOT x AND z)"

definition md5_G :: "md5_word \<Rightarrow> md5_word \<Rightarrow> md5_word \<Rightarrow> md5_word" where
  "md5_G x y z = (x AND z) OR (y AND NOT z)"

definition md5_H :: "md5_word \<Rightarrow> md5_word \<Rightarrow> md5_word \<Rightarrow> md5_word" where
  "md5_H x y z = x XOR y XOR z"

definition md5_I :: "md5_word \<Rightarrow> md5_word \<Rightarrow> md5_word \<Rightarrow> md5_word" where
  "md5_I x y z = y XOR (x OR NOT z)"

definition ROTATE_LEFT :: "md5_word \<Rightarrow> nat \<Rightarrow> md5_word" where
  "ROTATE_LEFT x n = push_bit n x OR drop_bit (32 - n) x"

text \<open>
  \<^verbatim>\<open>SET(a, b, c, d, k, s, Ti)\<close>. The sixteen operations of a round name the registers in the cyclic
  order a b c d, d a b c, c d a b, b c d a; the result is returned in the order of the next one.
\<close>

definition md5_SET :: "(md5_word \<Rightarrow> md5_word \<Rightarrow> md5_word \<Rightarrow> md5_word) \<Rightarrow> md5_word list
    \<Rightarrow> nat \<times> nat \<times> md5_word \<Rightarrow> registers \<Rightarrow> registers" where
  "md5_SET f X = (\<lambda>(k, s, Ti) (a, b, c, d).
     let t = a + f b c d + X ! k + Ti; a = ROTATE_LEFT t s + b in (d, a, b, c))"

text \<open>\<^verbatim>\<open>T_MASK ^ x\<close>\<close>

definition T_MASK :: "md5_word \<Rightarrow> md5_word" where
  "T_MASK x = - 1 XOR x"

definition md5_round1 :: "(nat \<times> nat \<times> md5_word) list" where
  "md5_round1 = [
     (0, 7, T_MASK 0x28955b87), (1, 12, T_MASK 0x173848a9), (2, 17, 0x242070db), (3, 22, T_MASK 0x3e423111),
     (4, 7, T_MASK 0x0a83f050), (5, 12, 0x4787c62a), (6, 17, T_MASK 0x57cfb9ec), (7, 22, T_MASK 0x02b96afe),
     (8, 7, 0x698098d8), (9, 12, T_MASK 0x74bb0850), (10, 17, T_MASK 0x0000a44e), (11, 22, T_MASK 0x76a32841),
     (12, 7, 0x6b901122), (13, 12, T_MASK 0x02678e6c), (14, 17, T_MASK 0x5986bc71), (15, 22, 0x49b40821)]"

definition md5_round2 :: "(nat \<times> nat \<times> md5_word) list" where
  "md5_round2 = [
     (1, 5, T_MASK 0x09e1da9d), (6, 9, T_MASK 0x3fbf4cbf), (11, 14, 0x265e5a51), (0, 20, T_MASK 0x16493855),
     (5, 5, T_MASK 0x29d0efa2), (10, 9, 0x02441453), (15, 14, T_MASK 0x275e197e), (4, 20, T_MASK 0x182c0437),
     (9, 5, 0x21e1cde6), (14, 9, T_MASK 0x3cc8f829), (3, 14, T_MASK 0x0b2af278), (8, 20, 0x455a14ed),
     (13, 5, T_MASK 0x561c16fa), (2, 9, T_MASK 0x03105c07), (7, 14, 0x676f02d9), (12, 20, T_MASK 0x72d5b375)]"

definition md5_round3 :: "(nat \<times> nat \<times> md5_word) list" where
  "md5_round3 = [
     (5, 4, T_MASK 0x0005c6bd), (8, 11, T_MASK 0x788e097e), (11, 16, 0x6d9d6122), (14, 23, T_MASK 0x021ac7f3),
     (1, 4, T_MASK 0x5b4115bb), (4, 11, 0x4bdecfa9), (7, 16, T_MASK 0x0944b49f), (10, 23, T_MASK 0x4140438f),
     (13, 4, 0x289b7ec6), (0, 11, T_MASK 0x155ed805), (3, 16, T_MASK 0x2b10cf7a), (6, 23, 0x04881d05),
     (9, 4, T_MASK 0x262b2fc6), (12, 11, T_MASK 0x1924661a), (15, 16, 0x1fa27cf8), (2, 23, T_MASK 0x3b53a99a)]"

definition md5_round4 :: "(nat \<times> nat \<times> md5_word) list" where
  "md5_round4 = [
     (0, 6, T_MASK 0x0bd6ddbb), (7, 10, 0x432aff97), (14, 15, T_MASK 0x546bdc58), (5, 21, T_MASK 0x036c5fc6),
     (12, 6, 0x655b59c3), (3, 10, T_MASK 0x70f3336d), (10, 15, T_MASK 0x00100b82), (1, 21, T_MASK 0x7a7ba22e),
     (8, 6, 0x6fa87e4f), (15, 10, T_MASK 0x01d3191f), (6, 15, T_MASK 0x5cfebceb), (13, 21, 0x4e0811a1),
     (4, 6, T_MASK 0x08ac817d), (11, 10, T_MASK 0x42c50dca), (2, 15, 0x2ad7d2bb), (9, 21, T_MASK 0x14792c6e)]"

text \<open>The block read as sixteen little-endian words.\<close>

fun block_words :: "md5_byte list \<Rightarrow> md5_word list" where
  "block_words (p # q # r # s # xp) =
     (ucast p + push_bit 8 (ucast q) + push_bit 16 (ucast r) + push_bit 24 (ucast s)) # block_words xp"
| "block_words _ = []"

fun add_registers :: "registers \<Rightarrow> registers \<Rightarrow> registers" where
  "add_registers (a, b, c, d) (a', b', c', d') = (a + a', b + b', c + c', d + d')"

definition md5_process :: "registers \<Rightarrow> md5_byte list \<Rightarrow> registers" where
  "md5_process abcd data = (let X = block_words data in
     add_registers abcd (fold (md5_SET md5_I X) md5_round4 (fold (md5_SET md5_H X) md5_round3
       (fold (md5_SET md5_G X) md5_round2 (fold (md5_SET md5_F X) md5_round1 abcd)))))"

section \<open>The incremental interface\<close>

record md5_state =
  md5_count0 :: md5_word
  md5_count1 :: md5_word
  md5_abcd :: registers
  md5_buf :: "md5_byte list"

definition md5_start :: registers where
  "md5_start = (0x67452301, T_MASK 0x10325476, T_MASK 0x67452301, 0x10325476)"

text \<open>The buffer keeps what the memory holds.\<close>

definition belle_sip_md5_init :: "md5_state \<Rightarrow> md5_state" where
  "belle_sip_md5_init pms = pms\<lparr>md5_count0 := 0, md5_count1 := 0, md5_abcd := md5_start\<rparr>"

text \<open>The loop over full blocks, and the bytes it leaves.\<close>

function process_blocks :: "registers \<Rightarrow> md5_byte list \<Rightarrow> registers \<times> md5_byte list" where
  "process_blocks abcd p =
     (if 64 \<le> length p then process_blocks (md5_process abcd (take 64 p)) (drop 64 p) else (abcd, p))"
  by auto
termination by (relation "measure (\<lambda>(abcd, p). length p)") auto

declare process_blocks.simps [simp del]

definition memcpy_at :: "'a list \<Rightarrow> nat \<Rightarrow> 'a list \<Rightarrow> 'a list" where
  "memcpy_at buf offset xs = take offset buf @ xs @ drop (offset + length xs) buf"

definition process_tail :: "md5_state \<Rightarrow> md5_byte list \<Rightarrow> md5_state" where
  "process_tail pms p = (let (abcd, rest) = process_blocks (md5_abcd pms) p in
     pms\<lparr>md5_abcd := abcd, md5_buf := memcpy_at (md5_buf pms) 0 rest\<rparr>)"

definition belle_sip_md5_append :: "md5_state \<Rightarrow> md5_byte list \<Rightarrow> md5_state" where
  "belle_sip_md5_append pms data =
     (let nbytes = length data;
          offset = unat (drop_bit 3 (md5_count0 pms) AND 63);
          nbits = push_bit 3 (word_of_nat nbytes) :: md5_word in
      if nbytes = 0 then pms
      else
        let count0 = md5_count0 pms + nbits;
            count1 = md5_count1 pms + drop_bit 29 (word_of_nat nbytes) + (if count0 < nbits then 1 else 0);
            pms = pms\<lparr>md5_count0 := count0, md5_count1 := count1\<rparr> in
        if offset \<noteq> 0 then
          (let copy = (if 64 < offset + nbytes then 64 - offset else nbytes);
               pms = pms\<lparr>md5_buf := memcpy_at (md5_buf pms) offset (take copy data)\<rparr> in
           if offset + copy < 64 then pms
           else process_tail (pms\<lparr>md5_abcd := md5_process (md5_abcd pms) (md5_buf pms)\<rparr>) (drop copy data))
        else process_tail pms data)"

definition word_bytes :: "md5_word \<Rightarrow> md5_byte list" where
  "word_bytes x = map (\<lambda>i. ucast (drop_bit (8 * i) x)) [0, 1, 2, 3]"

fun registers_bytes :: "registers \<Rightarrow> md5_byte list" where
  "registers_bytes (a, b, c, d) = word_bytes a @ word_bytes b @ word_bytes c @ word_bytes d"

definition md5_pad :: "md5_byte list" where
  "md5_pad = 0x80 # replicate 63 0"

definition belle_sip_md5_finish :: "md5_state \<Rightarrow> md5_byte list" where
  "belle_sip_md5_finish pms =
     (let data = word_bytes (md5_count0 pms) @ word_bytes (md5_count1 pms);
          pms = belle_sip_md5_append pms (take (unat ((55 - drop_bit 3 (md5_count0 pms)) AND 63) + 1) md5_pad);
          pms = belle_sip_md5_append pms data
      in registers_bytes (md5_abcd pms))"

section \<open>The digest of a whole message\<close>

text \<open>RFC 1321: the message, a one bit, zeros up to 56 modulo 64, the length in bits on 64 bits.\<close>

definition length_bytes :: "nat \<Rightarrow> md5_byte list" where
  "length_bytes n = map (\<lambda>i. ucast (drop_bit (8 * i) (word_of_nat n :: 64 word))) [0..<8]"

definition md5_padding :: "nat \<Rightarrow> md5_byte list" where
  "md5_padding n = 0x80 # replicate ((119 - n mod 64) mod 64) 0"

definition md5 :: "md5_byte list \<Rightarrow> md5_byte list" where
  "md5 msg = registers_bytes (fst (process_blocks md5_start
     (msg @ md5_padding (length msg) @ length_bytes (8 * length msg))))"

section \<open>Blocks\<close>

lemma process_blocks_append:
  "process_blocks r (xs @ ys) = (let (r', rest) = process_blocks r xs in process_blocks r' (rest @ ys))"
proof (induction r xs rule: process_blocks.induct)
  case (1 r xs)
  show ?case
  proof (cases "64 \<le> length xs")
    case True
    have "process_blocks r (xs @ ys) = process_blocks (md5_process r (take 64 xs)) (drop 64 xs @ ys)"
      using True by (subst process_blocks.simps) simp
    then show ?thesis using True 1 by (simp add: process_blocks.simps[of r xs])
  qed (simp add: process_blocks.simps[of r xs])
qed

lemma process_blocks_rest: "process_blocks r xs = (r', rest) \<Longrightarrow> length rest = length xs mod 64"
proof (induction r xs arbitrary: r' rule: process_blocks.induct)
  case (1 r xs)
  then show ?case
    by (cases "64 \<le> length xs") (auto simp: process_blocks.simps[of r xs] le_mod_geq)
qed

lemma process_blocks_one:
  assumes "length xs = 64" shows "process_blocks r (xs @ ys) = process_blocks (md5_process r xs) ys"
  using assms by (subst process_blocks.simps) simp

section \<open>The state after a message\<close>

definition holds :: "md5_state \<Rightarrow> md5_byte list \<Rightarrow> bool" where
  "holds pms msg \<longleftrightarrow> length (md5_buf pms) = 64 \<and> md5_count0 pms = word_of_nat (8 * length msg)
     \<and> md5_count1 pms = word_of_nat (8 * length msg div 2 ^ 32)
     \<and> process_blocks md5_start msg = (md5_abcd pms, take (length msg mod 64) (md5_buf pms))"

lemma holds_init: "length (md5_buf pms) = 64 \<Longrightarrow> holds (belle_sip_md5_init pms) []"
  by (simp add: holds_def belle_sip_md5_init_def process_blocks.simps)

lemma unat_offset: "unat (drop_bit 3 x AND 63) = unat x div 8 mod 64" for x :: md5_word
proof -
  have m: "(63 :: md5_word) = mask 6" by (simp add: mask_eq_exp_minus_1)
  have "drop_bit 3 x AND 63 = take_bit 6 (drop_bit 3 x)" unfolding m by (simp only: take_bit_eq_mask)
  moreover have "unat (take_bit 6 (drop_bit 3 x)) = take_bit 6 (drop_bit 3 (unat x))"
    by transfer (simp add: nat_take_bit_eq flip: drop_bit_nat_eq take_bit_nat_eq)
  ultimately show ?thesis by (simp add: take_bit_eq_mod drop_bit_eq_div)
qed

lemma offset_of: "unat (drop_bit 3 (word_of_nat (8 * n) :: md5_word) AND 63) = n mod 64"
proof -
  have "unat (word_of_nat (8 * n) :: md5_word) = 8 * n mod 2 ^ 32" by (subst unat_of_nat) simp
  then have "unat (drop_bit 3 (word_of_nat (8 * n) :: md5_word) AND 63) = (8 * n mod 2 ^ 32) div 8 mod 64"
    using unat_offset[of "word_of_nat (8 * n)"] by argo
  also have "8 * n mod 2 ^ 32 = 8 * (n mod 2 ^ 29)" using mult_mod_right[of 8 n "2 ^ 29"] by simp
  also have "8 * (n mod 2 ^ 29) div 8 mod 64 = n mod 64" by (simp add: mod_mod_cancel)
  finally show ?thesis .
qed

lemma carry_small:
  fixes a B M :: nat
  assumes "a < M" and "B < M"
  shows "(a + B) div M = (if (a + B) mod M < B then 1 else 0)"
proof (cases "M \<le> a + B")
  case True
  then have "(a + B) mod M = a + B - M" "(a + B) div M = 1" using assms by (simp_all add: le_mod_geq le_div_geq)
  then show ?thesis using True assms by simp
qed simp

lemma carry_nat:
  fixes A B M :: nat
  assumes "B < M"
  shows "(A + B) div M = A div M + (if (A + B) mod M < B then 1 else 0)"
  using div_add1_eq[of A B M] carry_small[of "A mod M" M B] assms by (simp add: mod_add_left_eq)

lemma count_carry:
  assumes "n < 2 ^ 29"
  shows "(word_of_nat (A div 2 ^ 32) :: md5_word) + drop_bit 29 (word_of_nat n)
      + (if (word_of_nat A :: md5_word) + word_of_nat (8 * n) < word_of_nat (8 * n) then 1 else 0)
    = word_of_nat ((A + 8 * n) div 2 ^ 32)"
proof -
  have b: "8 * n < 2 ^ 32" "n < 2 ^ 32" using assms by simp_all
  have z: "drop_bit 29 (word_of_nat n :: md5_word) = 0"
  proof -
    have "unat (word_of_nat n :: md5_word) = n" using b(2) by (subst unat_of_nat) simp
    then have "unat (drop_bit 29 (word_of_nat n :: md5_word)) = n div 2 ^ 29" by (simp add: drop_bit_eq_div unat_div_distrib)
    then show ?thesis using assms by (simp add: unat_eq_zero)
  qed
  have u: "unat (word_of_nat k :: md5_word) = k mod 2 ^ 32" for k by (subst unat_of_nat) simp
  have e: "(word_of_nat A :: md5_word) + word_of_nat (8 * n) = word_of_nat (A + 8 * n)" by (simp only: of_nat_add)
  have "(word_of_nat (A + 8 * n) :: md5_word) < word_of_nat (8 * n) \<longleftrightarrow> (A + 8 * n) mod 2 ^ 32 < 8 * n"
    unfolding word_less_nat_alt u using b(1) by (simp only: mod_less)
  then show ?thesis unfolding e z carry_nat[OF b(1)] by (simp only: of_nat_add of_nat_0 of_nat_1 add_0_right split: if_split) simp
qed

lemma process_tail_blocks:
  assumes "process_blocks (md5_abcd pms) p = (r, rest)" and "length (md5_buf pms) = 64"
  shows "md5_abcd (process_tail pms p) = r \<and> take (length p mod 64) (md5_buf (process_tail pms p)) = rest
     \<and> length (md5_buf (process_tail pms p)) = 64 \<and> md5_count0 (process_tail pms p) = md5_count0 pms
     \<and> md5_count1 (process_tail pms p) = md5_count1 pms"
proof -
  have "length rest = length p mod 64" by (rule process_blocks_rest[OF assms(1)])
  moreover have "length p mod 64 < 64" by simp
  ultimately show ?thesis using assms by (simp add: process_tail_def memcpy_at_def)
qed

text \<open>The buffer and the registers after \<^verbatim>\<open>append\<close>, when the count says how full the buffer is.\<close>

definition absorbs :: "md5_state \<Rightarrow> md5_byte list \<Rightarrow> md5_state \<Rightarrow> bool" where
  "absorbs pms p pms' \<longleftrightarrow> (\<forall>r rest. process_blocks (md5_abcd pms) p = (r, rest) \<longrightarrow> md5_abcd pms' = r
     \<and> take (length p mod 64) (md5_buf pms') = rest \<and> length (md5_buf pms') = 64)"

lemma absorbsI:
  "process_blocks (md5_abcd pms) p = (r, rest) \<Longrightarrow> md5_abcd pms' = r \<Longrightarrow> take (length p mod 64) (md5_buf pms') = rest \<Longrightarrow>
    length (md5_buf pms') = 64 \<Longrightarrow> absorbs pms p pms'"
  by (auto simp: absorbs_def)

lemma absorbsD:
  "absorbs pms p pms' \<Longrightarrow> process_blocks (md5_abcd pms) p = (r, rest) \<Longrightarrow>
    md5_abcd pms' = r \<and> take (length p mod 64) (md5_buf pms') = rest \<and> length (md5_buf pms') = 64"
  by (simp add: absorbs_def)

lemma append_absorbs:
  assumes buf: "length (md5_buf pms) = 64" and off: "unat (drop_bit 3 (md5_count0 pms) AND 63) = k"
  shows "absorbs pms (take k (md5_buf pms) @ data) (belle_sip_md5_append pms data)"
proof -
  let ?buf = "md5_buf pms"
  have "(63 :: md5_word) = mask 6" by (simp add: mask_eq_exp_minus_1)
  have k: "k < 64" using off unat_offset[of "md5_count0 pms"] by simp
  have short: "process_blocks r p = (r, p)" if "length p < 64" for r p using that by (simp add: process_blocks.simps)
  consider "data = []" | "data \<noteq> []" "k = 0" | "data \<noteq> []" "k \<noteq> 0" "k + length data < 64"
    | "data \<noteq> []" "k \<noteq> 0" "64 \<le> k + length data" by fastforce
  then show ?thesis
  proof cases
    case 1
    then show ?thesis using k buf by (simp add: absorbs_def belle_sip_md5_append_def short)
  next
    case 2
    then show ?thesis using off buf process_tail_blocks by (auto simp: absorbs_def belle_sip_md5_append_def Let_def)
  next
    case 3
    then show ?thesis using k off buf
      by (simp add: absorbs_def belle_sip_md5_append_def Let_def short memcpy_at_def)
  next
    case 4
    define copy where "copy = 64 - k"
    define block where "block = take k ?buf @ take copy data"
    have c: "copy \<le> length data" "k + copy = 64" "length block = 64" "memcpy_at ?buf k (take copy data) = block"
      using 4 k buf by (simp_all add: copy_def block_def memcpy_at_def)
    have "process_blocks (md5_abcd pms) (take k ?buf @ data) = process_blocks (md5_process (md5_abcd pms) block) (drop copy data)"
      using process_blocks_one[OF c(3), of _ "drop copy data"] by (simp add: block_def)
    moreover have "length (take k ?buf @ data) mod 64 = length (drop copy data) mod 64"
      using c(1,2) buf k by (simp add: copy_def le_mod_geq add.commute)
    moreover obtain v where v: "belle_sip_md5_append pms data = process_tail v (drop copy data)"
        "md5_abcd v = md5_process (md5_abcd pms) block" "length (md5_buf v) = 64"
    proof
      let ?n = "push_bit 3 (word_of_nat (length data)) :: md5_word"
      show "belle_sip_md5_append pms data = process_tail (pms\<lparr>md5_count0 := md5_count0 pms + ?n,
            md5_count1 := md5_count1 pms + drop_bit 29 (word_of_nat (length data)) + (if md5_count0 pms + ?n < ?n then 1 else 0),
            md5_buf := block, md5_abcd := md5_process (md5_abcd pms) block\<rparr>) (drop copy data)"
        using 4 off c(4) unfolding belle_sip_md5_append_def Let_def copy_def
        by (cases "64 < k + length data"; simp)
    qed (use c(3) in simp_all)
    moreover obtain r rest where p: "process_blocks (md5_process (md5_abcd pms) block) (drop copy data) = (r, rest)" by fastforce
    ultimately show ?thesis
      using process_tail_blocks[of v "drop copy data" r rest] v by (intro absorbsI[of _ _ r rest]) (simp_all only: p)
  qed
qed

lemma append_counts:
  "data \<noteq> [] \<Longrightarrow> md5_count0 (belle_sip_md5_append pms data) = md5_count0 pms + push_bit 3 (word_of_nat (length data))
    \<and> md5_count1 (belle_sip_md5_append pms data) = md5_count1 pms + drop_bit 29 (word_of_nat (length data))
      + (if md5_count0 pms + push_bit 3 (word_of_nat (length data)) < push_bit 3 (word_of_nat (length data)) then 1 else 0)"
  by (auto simp: belle_sip_md5_append_def Let_def process_tail_def split: prod.splits)

lemma holds_append:
  assumes h: "holds pms msg" and n: "length data < 2 ^ 29"
  shows "holds (belle_sip_md5_append pms data) (msg @ data)"
proof (cases "data = []")
  case True
  then show ?thesis using h by (simp add: belle_sip_md5_append_def)
next
  case False
  have buf: "length (md5_buf pms) = 64" and c0: "md5_count0 pms = word_of_nat (8 * length msg)"
    and c1: "md5_count1 pms = word_of_nat (8 * length msg div 2 ^ 32)"
    and b: "process_blocks md5_start msg = (md5_abcd pms, take (length msg mod 64) (md5_buf pms))"
    using h by (simp_all only: holds_def)
  obtain r rest where p: "process_blocks (md5_abcd pms) (take (length msg mod 64) (md5_buf pms) @ data) = (r, rest)"
    by fastforce
  have off: "unat (drop_bit 3 (md5_count0 pms) AND 63) = length msg mod 64" unfolding c0 by (rule offset_of)
  have l: "length (take (length msg mod 64) (md5_buf pms) @ data) mod 64 = length (msg @ data) mod 64"
    using buf by (simp add: mod_add_left_eq)
  have nb: "push_bit 3 (word_of_nat (length data) :: md5_word) = word_of_nat (8 * length data)"
    by (simp add: push_bit_eq_mult)
  have e: "8 * length (msg @ data) = 8 * length msg + 8 * length data" by simp
  have "md5_count0 (belle_sip_md5_append pms data) = word_of_nat (8 * length (msg @ data))"
    unfolding append_counts[OF False, THEN conjunct1] nb c0 e by (simp only: of_nat_add)
  moreover have "md5_count1 (belle_sip_md5_append pms data) = word_of_nat (8 * length (msg @ data) div 2 ^ 32)"
    unfolding append_counts[OF False, THEN conjunct2] nb c0 c1 e by (rule count_carry[OF n])
  moreover have "process_blocks md5_start (msg @ data) = (r, rest)"
    unfolding process_blocks_append[of md5_start msg data] b by (simp only: Let_def prod.case p)
  moreover have "md5_abcd (belle_sip_md5_append pms data) = r \<and> take (length (msg @ data) mod 64) (md5_buf (belle_sip_md5_append pms data)) = rest
     \<and> length (md5_buf (belle_sip_md5_append pms data)) = 64"
    using absorbsD[OF append_absorbs[OF buf off] p] by (simp only: l)
  ultimately show ?thesis by (simp only: holds_def simp_thms)
qed

section \<open>Feeding a message in pieces\<close>

lemma holds_fold:
  "holds pms msg \<Longrightarrow> \<forall>c\<in>set chunks. length c < 2 ^ 29 \<Longrightarrow> holds (foldl belle_sip_md5_append pms chunks) (msg @ concat chunks)"
proof (induction chunks arbitrary: pms msg)
  case (Cons c cs)
  have "holds (belle_sip_md5_append pms c) (msg @ c)" using Cons.prems by (intro holds_append) simp_all
  then show ?case using Cons.IH[of "belle_sip_md5_append pms c" "msg @ c"] Cons.prems by simp
qed simp

lemma uint_low: "uint (x AND 63) = uint x mod 64" for x :: md5_word
proof -
  have m: "(63 :: md5_word) = mask 6" by (simp add: mask_eq_exp_minus_1)
  show ?thesis unfolding m take_bit_eq_mask[symmetric] unsigned_take_bit_eq by (simp add: take_bit_eq_mod)
qed

lemma padding_length: "unat ((55 - drop_bit 3 (word_of_nat (8 * n) :: md5_word)) AND 63) = (119 - n mod 64) mod 64"
proof -
  let ?k = "drop_bit 3 (word_of_nat (8 * n) :: md5_word)"
  have "int (unat (?k AND 63)) = uint ?k mod 64" by (simp only: uint_low flip: uint_nat)
  then have k: "uint ?k mod 64 = int (n mod 64)" by (simp only: offset_of)
  have "int (unat ((55 - ?k) AND 63)) = (55 - uint ?k) mod 2 ^ 32 mod 64"
    by (simp only: uint_low uint_word_ariths flip: uint_nat) simp
  also have "\<dots> = (55 - uint ?k mod 64) mod 64" by (simp add: mod_mod_cancel mod_diff_right_eq)
  also have "\<dots> = int ((119 - n mod 64) mod 64)"
  proof -
    have "(119 - int (n mod 64)) mod 64 = (55 - int (n mod 64)) mod 64" using mod_add_self2[of "55 - int (n mod 64)" 64] by (simp add: algebra_simps)
    moreover have "int (119 - n mod 64) = 119 - int (n mod 64)" by (rule of_nat_diff[where 'a = int, of _ 119, simplified]) (use mod_less_divisor[of 64 n] in linarith)
    ultimately show ?thesis unfolding k by (simp only: zmod_int) simp
  qed
  finally show ?thesis by (simp only: of_nat_eq_iff)
qed

lemma word_byte: "k + 8 \<le> 32 \<Longrightarrow> (ucast (drop_bit k (word_of_nat n :: md5_word)) :: md5_byte) = word_of_nat (n div 2 ^ k)"
  by transfer (auto simp: drop_bit_take_bit min_def simp flip: drop_bit_eq_div of_nat_drop_bit)

lemma length_byte: "k + 8 \<le> 64 \<Longrightarrow> (ucast (drop_bit k (word_of_nat n :: 64 word)) :: md5_byte) = word_of_nat (n div 2 ^ k)"
  by transfer (auto simp: drop_bit_take_bit min_def simp flip: drop_bit_eq_div of_nat_drop_bit)

lemma word_bytes_length: "word_bytes (word_of_nat n) @ word_bytes (word_of_nat (n div 2 ^ 32)) = length_bytes n"
proof -
  have w: "word_bytes (word_of_nat m) = map (\<lambda>i. word_of_nat (m div 2 ^ (8 * i))) [0, 1, 2, 3]" for m
    unfolding word_bytes_def by (intro map_cong refl word_byte) auto
  have l: "length_bytes n = map (\<lambda>i. word_of_nat (n div 2 ^ (8 * i))) [0..<8]"
    unfolding length_bytes_def by (intro map_cong refl length_byte) auto
  have "[0..<8] = [0, 1, 2, 3, 4, 5, 6, 7 :: nat]" by (simp add: upt_rec)
  then show ?thesis unfolding w l by (simp flip: div_mult2_eq)
qed

lemma digest_in_pieces:
  assumes "length (md5_buf pms) = 64" and "\<forall>c\<in>set chunks. length c < 2 ^ 28"
  shows "belle_sip_md5_finish (foldl belle_sip_md5_append (belle_sip_md5_init pms) chunks) = md5 (concat chunks)"
proof -
  let ?s = "foldl belle_sip_md5_append (belle_sip_md5_init pms) chunks" and ?m = "concat chunks"
  let ?p = "md5_padding (length ?m)" and ?n = "length_bytes (8 * length ?m)"
  have h: "holds ?s ?m"
    using holds_fold[OF holds_init[OF assms(1)], of chunks] assms(2) by fastforce
  have c: "md5_count0 ?s = word_of_nat (8 * length ?m)" "md5_count1 ?s = word_of_nat (8 * length ?m div 2 ^ 32)"
    using h by (simp_all only: holds_def)
  have p: "take (unat ((55 - drop_bit 3 (md5_count0 ?s)) AND 63) + 1) md5_pad = ?p"
    unfolding c padding_length by (simp add: md5_pad_def md5_padding_def)
  have l: "word_bytes (md5_count0 ?s) @ word_bytes (md5_count1 ?s) = ?n" unfolding c by (rule word_bytes_length)
  have "holds (belle_sip_md5_append ?s ?p) (?m @ ?p)" by (rule holds_append[OF h]) (simp add: md5_padding_def)
  then have "holds (belle_sip_md5_append (belle_sip_md5_append ?s ?p) ?n) ((?m @ ?p) @ ?n)"
    by (rule holds_append) (simp add: length_bytes_def)
  then have "process_blocks md5_start (?m @ ?p @ ?n)
      = (md5_abcd (belle_sip_md5_append (belle_sip_md5_append ?s ?p) ?n), take (length ((?m @ ?p) @ ?n) mod 64) (md5_buf (belle_sip_md5_append (belle_sip_md5_append ?s ?p) ?n)))"
    unfolding holds_def append_assoc by blast
  then show ?thesis unfolding belle_sip_md5_finish_def Let_def p l md5_def by (simp only: fst_conv)
qed

lemma md5_abc: "md5 (map of_char ''abc'') = [0x90, 0x01, 0x50, 0x98, 0x3c, 0xd2, 0x4f, 0xb0, 0xd6, 0x96, 0x3f, 0x7d, 0x28, 0xe1, 0x7f, 0x72]"
  by code_simp

text \<open>C16. The digest of a message does not depend on how the message is cut into calls of \<^verbatim>\<open>append\<close>, nor on what the
  buffer held before: it is the digest of RFC 1321 on the whole message. (Each piece is below \<open>2 ^ 28\<close> bytes, so that
  \<^verbatim>\<open>nbytes << 3\<close> stays an \<^verbatim>\<open>int\<close>.)\<close>

theorem md5_in_pieces:
  assumes "length (md5_buf pms) = 64" and "\<forall>c\<in>set chunks. length c < 2 ^ 28"
  shows "belle_sip_md5_finish (foldl belle_sip_md5_append (belle_sip_md5_init pms) chunks) = md5 (concat chunks)"
  using assms by (rule digest_in_pieces)

text \<open>The digest of RFC 1321 for ''abc'', fed in two pieces over a buffer of ones.\<close>

theorem md5_in_pieces_witness:
  "belle_sip_md5_finish (foldl belle_sip_md5_append
      (belle_sip_md5_init \<lparr>md5_count0 = 7, md5_count1 = 7, md5_abcd = md5_start, md5_buf = replicate 64 1\<rparr>)
      [map of_char ''a'', map of_char ''bc''])
   = [0x90, 0x01, 0x50, 0x98, 0x3c, 0xd2, 0x4f, 0xb0, 0xd6, 0x96, 0x3f, 0x7d, 0x28, 0xe1, 0x7f, 0x72]"
  using md5_in_pieces[of "\<lparr>md5_count0 = 7, md5_count1 = 7, md5_abcd = md5_start, md5_buf = replicate 64 1\<rparr>"
      "[map of_char ''a'', map of_char ''bc'']"] md5_abc by simp

end
