(* ===== verification/Hash.thy ===== *)
theory Hash
  imports Dialog Md5
begin

text \<open>
  Tokens computed from a message (\<^verbatim>\<open>src/provider.c\<close>, \<^verbatim>\<open>src/belle_sip_utils.c\<close>): MD5 over parts of the
  message, read as text six bits at a time. The branch of a request of an RFC 2543 stack, and the
  branch and tag of a message sent outside transactions, are such tokens.
\<close>

section \<open>Octets as text\<close>

text \<open>
  The bits of a digest as text, six at a time (\<^verbatim>\<open>bits_reader_read\<close>, \<^verbatim>\<open>belle_sip_octets_to_text\<close>): a
  read that starts past the last octet stops the text, and octets past the end read as zero.
\<close>

definition bits_reader_read :: "8 word list \<Rightarrow> nat \<Rightarrow> nat \<Rightarrow> 32 word option" where
  "bits_reader_read buf bit_pos count =
     (let byte_index = bit_pos div 8; bit_index = bit_pos mod 8;
          octet = (\<lambda>k. if byte_index + k < length buf then ucast (buf ! (byte_index + k)) else 0 :: 32 word)
      in if 24 \<le> count \<or> length buf \<le> byte_index then None
         else Some (and (drop_bit (32 - bit_index - count)
                (or (push_bit 24 (octet 0)) (or (push_bit 16 (octet 1)) (or (push_bit 8 (octet 2)) (octet 3)))))
                (push_bit count 1 - 1)))"

fun octets_to_text_loop :: "8 word list \<Rightarrow> nat \<Rightarrow> nat \<Rightarrow> string" where
  "octets_to_text_loop buf pos 0 = []"
| "octets_to_text_loop buf pos (Suc n) =
     (case bits_reader_read buf pos 6 of None \<Rightarrow> []
      | Some v \<Rightarrow> symbols ! unat v # octets_to_text_loop buf (pos + 6) n)"

definition belle_sip_octets_to_text :: "8 word list \<Rightarrow> nat \<Rightarrow> string" where
  "belle_sip_octets_to_text hash size_ret = octets_to_text_loop hash 0 (size_ret - 1)"

section \<open>Digests of a message\<close>

definition bytes_of :: "string \<Rightarrow> 8 word list" where
  "bytes_of s = map of_char s"

text \<open>The context is an uninitialised variable: its buffer holds anything, zeros here.\<close>

definition md5_texts :: "8 word list list \<Rightarrow> 8 word list" where
  "md5_texts texts = belle_sip_md5_finish (foldl belle_sip_md5_append
     (belle_sip_md5_init \<lparr>md5_count0 = 0, md5_count1 = 0, md5_abcd = md5_start, md5_buf = replicate 64 0\<rparr>) texts)"

text \<open>
  \<^verbatim>\<open>belle_sip_object_marshal\<close> into the 255 bytes of \<^verbatim>\<open>tmp\<close>: a longer text is cut at 254 characters and the offset
  is the size of the buffer, so that a Via is hashed with the terminating NUL.
\<close>

definition marshalled_string :: "string \<Rightarrow> 8 word list" where
  "marshalled_string s = bytes_of (take 254 s)"

definition marshalled_buffer :: "string \<Rightarrow> 8 word list" where
  "marshalled_buffer s = (if length s < 255 then bytes_of s else bytes_of (take 254 s) @ [0])"

text \<open>An optional tag of an optional header; without the header the tag is empty.\<close>

definition hashed_tag :: "world \<Rightarrow> nat option \<Rightarrow> 8 word list option" where
  "hashed_tag w h = (case h of None \<Rightarrow> Some []
     | Some h \<Rightarrow> do { t \<leftarrow> tag_of w h; Some (case t of None \<Rightarrow> [] | Some t \<Rightarrow> bytes_of t) })"

definition compute_hash_from_invariants :: "env \<Rightarrow> nat \<Rightarrow> nat \<Rightarrow> string option \<Rightarrow> world \<Rightarrow> string option" where
  "compute_hash_from_invariants E msg branchid_size initial w = do {
     m \<leftarrow> msgs w msg;
     callid_hdr \<leftarrow> belle_sip_message_get_header_by_type w msg is_HCallId;
     cseq_hdr \<leftarrow> belle_sip_message_get_header_by_type w msg is_HCSeq;
     from_hdr \<leftarrow> belle_sip_message_get_header_by_type w msg is_HFrom;
     to_hdr \<leftarrow> belle_sip_message_get_header_by_type w msg is_HTo;
     cseq \<leftarrow> (case cseq_hdr of None \<Rightarrow> Some 0 | Some h \<Rightarrow> cseq_number w h);
     callid \<leftarrow> (case callid_hdr of None \<Rightarrow> Some [] | Some h \<Rightarrow> call_id_value w h);
     from_tag \<leftarrow> hashed_tag w from_hdr;
     to_tag \<leftarrow> hashed_tag w to_hdr;
     vias \<leftarrow> belle_sip_message_get_headers w msg ''via'';
     via \<leftarrow> (case (if is_request m then drop 1 vias else vias) of
               [] \<Rightarrow> Some []
             | h # _ \<Rightarrow> do { x \<leftarrow> hdrs w h; Some (marshalled_buffer (header_text E x)) });
     let requri = (if is_request m then (case rq_uri m of None \<Rightarrow> [] | Some u \<Rightarrow> marshalled_string (uri_text E u)) else []);
     let digest = md5_texts [case initial of None \<Rightarrow> [] | Some s \<Rightarrow> bytes_of s, requri, from_tag, to_tag,
                     bytes_of callid, word_bytes cseq, via];
     Some (belle_sip_octets_to_text digest branchid_size) }"

text \<open>A header that is missing is a crash, and so is a To without a SIP URI.\<close>

definition compute_rfc2543_branch :: "env \<Rightarrow> nat \<Rightarrow> nat \<Rightarrow> world \<Rightarrow> string option" where
  "compute_rfc2543_branch E req branchid_size w = do {
     c \<leftarrow> belle_sip_message_get_header_by_type w req is_HCSeq; c \<leftarrow> c;
     cseq \<leftarrow> cseq_number w c;
     i \<leftarrow> belle_sip_message_get_header_by_type w req is_HCallId; i \<leftarrow> i;
     callid \<leftarrow> call_id_value w i;
     v \<leftarrow> belle_sip_message_get_header_by_type w req is_HVia; v \<leftarrow> v;
     via \<leftarrow> via_of w v;
     f \<leftarrow> belle_sip_message_get_header_by_type w req is_HFrom; f \<leftarrow> f;
     from \<leftarrow> hdrs w f;
     t \<leftarrow> belle_sip_message_get_header_by_type w req is_HTo; t \<leftarrow> t;
     a \<leftarrow> address_of w t;
     u \<leftarrow> addr_uri a;
     let digest = md5_texts [bytes_of (header_text E from), bytes_of (uri_text E u), bytes_of callid, word_bytes cseq,
                     case belle_sip_header_via_get_branch via of None \<Rightarrow> [] | Some b \<Rightarrow> bytes_of b];
     Some (belle_sip_octets_to_text digest branchid_size) }"

end
