(* ===== verification/Transaction.thy ===== *)
theory Transaction
  imports DialogUpdate Hash
begin

text \<open>
  What the four transaction machines share (\<^verbatim>\<open>src/transaction.c\<close>, \<^verbatim>\<open>src/provider.c\<close>): their creation,
  their timers, termination with its effects on the dialog, the listeners and the provider's lists,
  timeouts, and the sending of a request or response outside any transaction.

  Terminating a transaction may delete its dialog, which terminates the transactions waiting in the
  dialog's queue: the recursion is bounded by a number, and
  \<open>belle_sip_transaction_terminate\<close> gives it the number of live transactions.
\<close>

section \<open>Timers\<close>

fun class_timers :: "transaction_class \<Rightarrow> timer_name list" where
  "class_timers ICT = [TimerA, TimerB, TimerD, TimerM]"
| "class_timers NICT = [TimerF, TimerE, TimerK]"
| "class_timers IST = [TimerG, TimerH, TimerI, TimerL]"
| "class_timers NIST = [TimerJ]"

text \<open>A new timer source stored in the transaction and added to the main loop.\<close>

definition belle_sip_transaction_start_timer :: "nat \<Rightarrow> timer_name \<Rightarrow> 32 word \<Rightarrow> world \<Rightarrow> world option" where
  "belle_sip_transaction_start_timer t n delay w = do {
     (w, s) \<leftarrow> belle_sip_main_loop_create_timeout w (CbTimer n t) delay;
     upd_tr w t (\<lambda>x. x\<lparr>tr_timers := (tr_timers x)(n \<mapsto> s)\<rparr>) }"

definition belle_sip_transaction_stop_timer :: "nat \<Rightarrow> timer_name \<Rightarrow> world \<Rightarrow> world option" where
  "belle_sip_transaction_stop_timer t n w = do {
     x \<leftarrow> trs w t;
     (case tr_timers x n of None \<Rightarrow> Some w
      | Some s \<Rightarrow> do {
          w \<leftarrow> belle_sip_main_loop_remove_source w s;
          upd_tr w t (\<lambda>x. x\<lparr>tr_timers := (tr_timers x)(n := None)\<rparr>) }) }"

fun stop_timers :: "nat \<Rightarrow> timer_name list \<Rightarrow> world \<Rightarrow> world option" where
  "stop_timers t [] w = Some w"
| "stop_timers t (n # ns) w = do { w \<leftarrow> belle_sip_transaction_stop_timer t n w; stop_timers t ns w }"

text \<open>The method \<^verbatim>\<open>on_terminate\<close> of the class (\<^verbatim>\<open>ict.c\<close>, \<^verbatim>\<open>nict.c\<close>, \<^verbatim>\<open>ist.c\<close>, \<^verbatim>\<open>nist.c\<close>).\<close>

definition on_terminate :: "nat \<Rightarrow> world \<Rightarrow> world option" where
  "on_terminate t w = do {
     x \<leftarrow> trs w t;
     w \<leftarrow> stop_timers t (class_timers (tr_class x)) w;
     (if tr_class x = ICT then upd_tr w t (\<lambda>x. x\<lparr>tr_ack := None\<rparr>) else Some w) }"

section \<open>State and termination\<close>

definition belle_sip_transaction_set_state :: "nat \<Rightarrow> transaction_state \<Rightarrow> world \<Rightarrow> world option" where
  "belle_sip_transaction_set_state t s w = upd_tr w t (\<lambda>x. x\<lparr>tr_state := s\<rparr>)"

definition belle_sip_provider_add_client_transaction :: "nat \<Rightarrow> world \<Rightarrow> world" where
  "belle_sip_provider_add_client_transaction t w =
     w\<lparr>prov_client_transactions := t # prov_client_transactions w\<rparr>"

definition belle_sip_provider_add_server_transaction :: "nat \<Rightarrow> world \<Rightarrow> world" where
  "belle_sip_provider_add_server_transaction t w =
     w\<lparr>prov_server_transactions := t # prov_server_transactions w\<rparr>"

definition belle_sip_provider_remove_client_transaction :: "nat \<Rightarrow> world \<Rightarrow> world" where
  "belle_sip_provider_remove_client_transaction t w =
     w\<lparr>prov_client_transactions := remove1 t (prov_client_transactions w)\<rparr>"

definition belle_sip_provider_remove_server_transaction :: "nat \<Rightarrow> world \<Rightarrow> world" where
  "belle_sip_provider_remove_server_transaction t w =
     w\<lparr>prov_server_transactions := remove1 t (prov_server_transactions w)\<rparr>"

definition belle_sip_provider_set_transaction_terminated :: "env \<Rightarrow> nat \<Rightarrow> world \<Rightarrow> world option" where
  "belle_sip_provider_set_transaction_terminated E t w = do {
     w \<leftarrow> on_terminate t w;
     x \<leftarrow> trs w t;
     let server = (\<not> is_client (tr_class x));
     w \<leftarrow> invoke_listeners_for_transaction E t (EvTransactionTerminated t server) w;
     Some (if server then belle_sip_provider_remove_server_transaction t w
           else belle_sip_provider_remove_client_transaction t w) }"

text \<open>\<^verbatim>\<open>belle_sip_provider_send_request\<close> and \<^verbatim>\<open>belle_sip_provider_send_response\<close>: outside transactions.\<close>

definition belle_sip_provider_send_request :: "env \<Rightarrow> chan_iface \<Rightarrow> nat \<Rightarrow> world \<Rightarrow> world option" where
  "belle_sip_provider_send_request E I req w = do {
     h \<leftarrow> belle_sip_stack_get_next_hop w req;
     (w, chan) \<leftarrow> belle_sip_provider_get_channel E h w;
     (case chan of None \<Rightarrow> Some w | Some c \<Rightarrow> belle_sip_channel_queue_message E I c req w) }"

definition BELLE_SIP_BRANCH_MAGIC_COOKIE :: string where
  "BELLE_SIP_BRANCH_MAGIC_COOKIE = ''z9hG4bK''"

definition set_to_header_tag :: "nat \<Rightarrow> string \<Rightarrow> world \<Rightarrow> world option" where
  "set_to_header_tag to tag w = do {
     a \<leftarrow> address_of w to;
     upd_hdr w to (\<lambda>x. x\<lparr>hbody := set_addr (hbody x) (set_tag a tag)\<rparr>) }"

definition belle_sip_provider_send_response :: "env \<Rightarrow> chan_iface \<Rightarrow> nat \<Rightarrow> world \<Rightarrow> world option" where
  "belle_sip_provider_send_response E I resp w = do {
     to \<leftarrow> belle_sip_message_get_header w resp ''to'';
     m \<leftarrow> msgs w resp;
     w \<leftarrow> (case to of None \<Rightarrow> Some w
           | Some to \<Rightarrow> do {
               g \<leftarrow> tag_of w to;
               (if rs_status_code m \<noteq> 100 \<and> g = None
                then do { tag \<leftarrow> compute_hash_from_invariants E resp 6 (Some ''tag'') w; set_to_header_tag to tag w }
                else Some w) });
     h \<leftarrow> belle_sip_response_get_return_hop w resp;
     (case h of None \<Rightarrow> Some w
      | Some h \<Rightarrow> do {
          (w, chan) \<leftarrow> belle_sip_provider_get_channel E h w;
          (case chan of None \<Rightarrow> Some w | Some c \<Rightarrow> belle_sip_channel_queue_message E I c resp w) }) }"

text \<open>\<^verbatim>\<open>belle_sip_transaction_terminate\<close>, at most \<open>n\<close> transactions deep.\<close>

fun terminate_n :: "env \<Rightarrow> chan_iface \<Rightarrow> nat \<Rightarrow> nat \<Rightarrow> world \<Rightarrow> world option" where
  "terminate_n E I 0 t w = do { x \<leftarrow> trs w t; (if tr_state x = TR_TERMINATED then Some w else None) }"
| "terminate_n E I (Suc n) t w = do {
     x \<leftarrow> trs w t;
     (if tr_state x = TR_TERMINATED then Some w
      else do {
        w \<leftarrow> belle_sip_transaction_set_state t TR_TERMINATED w;
        code \<leftarrow> response_code w (tr_last_response x);
        w \<leftarrow> (case tr_dialog x of None \<Rightarrow> Some w
              | Some d \<Rightarrow>
                  (if tr_last_response x = None \<or> code < 200
                   then map_option fst (belle_sip_dialog_update (terminate_n E I n)
                          (belle_sip_provider_send_request E I) d t (\<not> is_client (tr_class x)) w)
                   else Some w));
        w \<leftarrow> on_terminate t w;
        belle_sip_provider_set_transaction_terminated E t w }) }"

definition live :: "world \<Rightarrow> nat \<Rightarrow> bool" where
  "live w t \<longleftrightarrow> (case trs w t of None \<Rightarrow> False | Some x \<Rightarrow> tr_state x \<noteq> TR_TERMINATED)"

definition live_count :: "world \<Rightarrow> nat" where
  "live_count w = length (filter (live w) [0..<obj_brk w])"

definition belle_sip_transaction_terminate :: "env \<Rightarrow> chan_iface \<Rightarrow> nat \<Rightarrow> world \<Rightarrow> world option" where
  "belle_sip_transaction_terminate E I t w = terminate_n E I (live_count w) t w"

section \<open>Timeouts\<close>

definition notify_timeout :: "env \<Rightarrow> nat \<Rightarrow> world \<Rightarrow> world option" where
  "notify_timeout E t w = do {
     x \<leftarrow> trs w t;
     invoke_listeners_for_transaction E t (EvTimeout t (\<not> is_client (tr_class x))) w }"

definition belle_sip_transaction_notify_timeout :: "env \<Rightarrow> chan_iface \<Rightarrow> nat \<Rightarrow> world \<Rightarrow> world option" where
  "belle_sip_transaction_notify_timeout E I t w = do {
     x \<leftarrow> trs w t;
     m \<leftarrow> msgs w (tr_request x);
     (if rq_method m = ''REGISTER''
      then do {
        c \<leftarrow> tr_channel x;
        (w, dead) \<leftarrow> belle_sip_channel_notify_timeout I c w;
        (if dead then upd_tr w t (\<lambda>x. x\<lparr>tr_timed_out := True\<rparr>) else Some w) }
      else do {
        w \<leftarrow> notify_timeout E t w;
        belle_sip_transaction_terminate E I t w }) }"

section \<open>Dialog of a transaction\<close>

definition belle_sip_transaction_set_dialog :: "nat \<Rightarrow> nat option \<Rightarrow> world \<Rightarrow> world option" where
  "belle_sip_transaction_set_dialog t d w = upd_tr w t (\<lambda>x. x\<lparr>tr_dialog := d\<rparr>)"

section \<open>Creation\<close>

definition new_transaction :: "transaction_class \<Rightarrow> nat \<Rightarrow> string \<Rightarrow> string \<Rightarrow> world \<Rightarrow> world \<times> nat" where
  "new_transaction cls req branch to_tag w =
     (let t = obj_brk w in
      (w\<lparr>trs := (trs w)(t \<mapsto> \<lparr>tr_class = cls, tr_request = req, tr_last_response = None, tr_channel = None,
           tr_dialog = None, tr_branch_id = branch, tr_state = TR_INIT, tr_is_internal = False,
           tr_timed_out = False, tr_sent_by_dialog_queue = False, tr_preset_route = None,
           tr_next_hop = None, tr_to_tag = to_tag, tr_timers = (\<lambda>_. None), tr_ack = None\<rparr>),
         obj_brk := Suc t\<rparr>, t))"

text \<open>\<^verbatim>\<open>belle_sip_client_transaction_init\<close>: a fresh branch, except for CANCEL, which keeps its branch.\<close>

definition belle_sip_client_transaction_init ::
  "transaction_class \<Rightarrow> nat \<Rightarrow> world \<Rightarrow> (world \<times> nat) option" where
  "belle_sip_client_transaction_init cls req w = do {
     via \<leftarrow> belle_sip_message_get_header w req ''via''; via \<leftarrow> via;
     v \<leftarrow> via_of w via;
     m \<leftarrow> msgs w req;
     (w, branch) \<leftarrow> (if rq_method m \<noteq> ''CANCEL''
        then (let (w, token) = belle_sip_random_token w 10;
                  b = BELLE_SIP_BRANCH_MAGIC_COOKIE @ ''.'' @ token
              in do { w \<leftarrow> upd_hdr w via (\<lambda>x. x\<lparr>hbody := HVia (belle_sip_header_via_set_branch v b)\<rparr>);
                      Some (w, b) })
        else do { b \<leftarrow> belle_sip_header_via_get_branch v; Some (w, b) });
     Some (new_transaction cls req branch [] w) }"

text \<open>\<^verbatim>\<open>belle_sip_server_transaction_init\<close>: the branch of the top Via, or the one computed for RFC 2543.\<close>

definition belle_sip_server_transaction_init ::
  "transaction_class \<Rightarrow> nat \<Rightarrow> world \<Rightarrow> (world \<times> nat) option" where
  "belle_sip_server_transaction_init cls req w = do {
     via \<leftarrow> belle_sip_message_get_header w req ''via''; via \<leftarrow> via;
     v \<leftarrow> via_of w via;
     m \<leftarrow> msgs w req;
     branch \<leftarrow> (case belle_sip_header_via_get_branch v of
          None \<Rightarrow> rq_rfc2543_branch m
        | Some b \<Rightarrow> (if has_prefix BELLE_SIP_BRANCH_MAGIC_COOKIE b then Some b else rq_rfc2543_branch m));
     let (w, to_tag) = belle_sip_random_token w 8;
     Some (new_transaction cls req branch to_tag w) }"

end
