(* ===== verification/Ict.thy ===== *)
theory Ict
  imports Transaction
begin

text \<open>
  The client machines, first part: sending the request and the timers of the INVITE client
  transaction (\<^verbatim>\<open>src/ict.c\<close>) and of the non-INVITE client transaction (\<^verbatim>\<open>src/nict.c\<close>). The responses,
  which reach the dialog and the application, are in the theory \<open>Client\<close>. A timer callback returns
  the new state and whether its source stops.
\<close>

text \<open>A message given to the transaction's channel.\<close>

definition queue_on_channel :: "env \<Rightarrow> chan_iface \<Rightarrow> nat \<Rightarrow> nat \<Rightarrow> world \<Rightarrow> world option" where
  "queue_on_channel E I t msg w =
     do { x \<leftarrow> trs w t; c \<leftarrow> tr_channel x; belle_sip_channel_queue_message E I c msg w }"

definition channel_reliable :: "nat \<Rightarrow> world \<Rightarrow> bool option" where
  "channel_reliable t w = do { x \<leftarrow> trs w t; c \<leftarrow> tr_channel x; belle_sip_channel_is_reliable w c }"

section \<open>INVITE client transaction\<close>

definition ict_send_request :: "env \<Rightarrow> chan_iface \<Rightarrow> nat \<Rightarrow> world \<Rightarrow> world option" where
  "ict_send_request E I t w = do {
     w \<leftarrow> belle_sip_transaction_set_state t TR_CALLING w;
     reliable \<leftarrow> channel_reliable t w;
     w \<leftarrow> (if \<not> reliable then belle_sip_transaction_start_timer t TimerA (cfg_T1 w) w else Some w);
     w \<leftarrow> belle_sip_transaction_start_timer t TimerB (cfg_T1 w * 64) w;
     x \<leftarrow> trs w t;
     queue_on_channel E I t (tr_request x) w }"

definition make_ack :: "nat \<Rightarrow> nat \<Rightarrow> world \<Rightarrow> (world \<times> nat) option" where
  "make_ack t resp w = do {
     x \<leftarrow> trs w t;
     (case tr_ack x of
        Some ack \<Rightarrow> Some (w, ack)
      | None \<Rightarrow> do {
          let req = tr_request x;
          m \<leftarrow> msgs w req;
          let (w, ack) = belle_sip_request_new w;
          w \<leftarrow> upd_tr w t (\<lambda>x. x\<lparr>tr_ack := Some ack\<rparr>);
          w \<leftarrow> upd_msg w ack (\<lambda>m. m\<lparr>rq_method := ''ACK''\<rparr>);
          w \<leftarrow> belle_sip_request_set_uri w ack (rq_uri m);
          w \<leftarrow> belle_sip_util_copy_headers w req ack ''Via'' False;
          w \<leftarrow> belle_sip_util_copy_headers w req ack ''Call-ID'' False;
          w \<leftarrow> belle_sip_util_copy_headers w req ack ''From'' False;
          w \<leftarrow> belle_sip_util_copy_headers w resp ack ''To'' False;
          w \<leftarrow> belle_sip_util_copy_headers w req ack ''Contact'' True;
          w \<leftarrow> belle_sip_util_copy_headers w req ack ''Route'' True;
          w \<leftarrow> belle_sip_util_copy_headers w req ack ''Max-Forwards'' False;
          h \<leftarrow> belle_sip_message_get_header w req ''CSeq''; h \<leftarrow> h;
          n \<leftarrow> cseq_number w h;
          let (w, c) = new_hdr w (belle_sip_header_cseq_create n ''ACK'');
          w \<leftarrow> belle_sip_message_add_header w ack c;
          Some (w, ack) }) }"

definition ict_on_timer_D :: "env \<Rightarrow> chan_iface \<Rightarrow> nat \<Rightarrow> world \<Rightarrow> (world \<times> int) option" where
  "ict_on_timer_D E I t w = do {
     x \<leftarrow> trs w t;
     w \<leftarrow> (if tr_state x = TR_COMPLETED then belle_sip_transaction_terminate E I t w else Some w);
     Some (w, BELLE_SIP_STOP) }"

definition ict_on_timer_M :: "env \<Rightarrow> chan_iface \<Rightarrow> nat \<Rightarrow> world \<Rightarrow> (world \<times> int) option" where
  "ict_on_timer_M E I t w = do {
     x \<leftarrow> trs w t;
     w \<leftarrow> (if tr_state x = TR_ACCEPTED then belle_sip_transaction_terminate E I t w else Some w);
     Some (w, BELLE_SIP_STOP) }"

text \<open>The period doubles at each retransmission; a reset of the source of a timer that is not there is a crash.\<close>

definition ict_on_timer_A :: "env \<Rightarrow> chan_iface \<Rightarrow> nat \<Rightarrow> world \<Rightarrow> (world \<times> int) option" where
  "ict_on_timer_A E I t w = do {
     x \<leftarrow> trs w t;
     w \<leftarrow> (if tr_state x = TR_CALLING then do {
              s \<leftarrow> tr_timers x TimerA;
              prev \<leftarrow> belle_sip_source_get_timeout w s;
              w \<leftarrow> belle_sip_source_set_timeout w s (2 * prev);
              queue_on_channel E I t (tr_request x) w }
           else Some w);
     Some (w, BELLE_SIP_CONTINUE) }"

definition ict_on_timer_B :: "env \<Rightarrow> chan_iface \<Rightarrow> nat \<Rightarrow> world \<Rightarrow> (world \<times> int) option" where
  "ict_on_timer_B E I t w = do {
     x \<leftarrow> trs w t;
     w \<leftarrow> (if tr_state x = TR_CALLING then belle_sip_transaction_notify_timeout E I t w else Some w);
     Some (w, BELLE_SIP_STOP) }"

definition belle_sip_ict_new :: "nat \<Rightarrow> world \<Rightarrow> (world \<times> nat) option" where
  "belle_sip_ict_new req w = belle_sip_client_transaction_init ICT req w"

section \<open>Non-INVITE client transaction\<close>

definition nict_send_request :: "env \<Rightarrow> chan_iface \<Rightarrow> nat \<Rightarrow> world \<Rightarrow> world option" where
  "nict_send_request E I t w = do {
     w \<leftarrow> belle_sip_transaction_set_state t TR_TRYING w;
     w \<leftarrow> belle_sip_transaction_start_timer t TimerF (cfg_T1 w * 64) w;
     reliable \<leftarrow> channel_reliable t w;
     w \<leftarrow> (if \<not> reliable then belle_sip_transaction_start_timer t TimerE (cfg_T1 w) w else Some w);
     x \<leftarrow> trs w t;
     queue_on_channel E I t (tr_request x) w }"

definition nict_on_timer_K :: "env \<Rightarrow> chan_iface \<Rightarrow> nat \<Rightarrow> world \<Rightarrow> (world \<times> int) option" where
  "nict_on_timer_K E I t w =
     do { w \<leftarrow> belle_sip_transaction_terminate E I t w; Some (w, BELLE_SIP_STOP) }"

definition nict_on_timer_F :: "env \<Rightarrow> chan_iface \<Rightarrow> nat \<Rightarrow> world \<Rightarrow> (world \<times> int) option" where
  "nict_on_timer_F E I t w = do {
     x \<leftarrow> trs w t;
     w \<leftarrow> (if tr_state x = TR_TRYING \<or> tr_state x = TR_PROCEEDING
           then belle_sip_transaction_notify_timeout E I t w else Some w);
     Some (w, BELLE_SIP_STOP) }"

text \<open>\<^verbatim>\<open>MIN(2*prev_timeout,T2)\<close> on unsigned numbers.\<close>

definition nict_on_timer_E :: "env \<Rightarrow> chan_iface \<Rightarrow> nat \<Rightarrow> world \<Rightarrow> (world \<times> int) option" where
  "nict_on_timer_E E I t w = do {
     x \<leftarrow> trs w t;
     (if tr_state x = TR_TRYING then do {
        s \<leftarrow> tr_timers x TimerE;
        prev \<leftarrow> belle_sip_source_get_timeout w s;
        w \<leftarrow> belle_sip_source_set_timeout w s (min (2 * prev) (cfg_T2 w));
        w \<leftarrow> queue_on_channel E I t (tr_request x) w;
        Some (w, BELLE_SIP_CONTINUE) }
      else if tr_state x = TR_PROCEEDING then do {
        s \<leftarrow> tr_timers x TimerE;
        w \<leftarrow> belle_sip_source_set_timeout w s (cfg_T2 w);
        w \<leftarrow> queue_on_channel E I t (tr_request x) w;
        Some (w, BELLE_SIP_CONTINUE) }
      else Some (w, BELLE_SIP_STOP)) }"

definition belle_sip_nict_new :: "nat \<Rightarrow> world \<Rightarrow> (world \<times> nat) option" where
  "belle_sip_nict_new req w = belle_sip_client_transaction_init NICT req w"

text \<open>The virtual method \<^verbatim>\<open>send_request\<close>; a server transaction has none.\<close>

definition send_request_of_class :: "env \<Rightarrow> chan_iface \<Rightarrow> nat \<Rightarrow> world \<Rightarrow> world option" where
  "send_request_of_class E I t w = do {
     x \<leftarrow> trs w t;
     (case tr_class x of ICT \<Rightarrow> ict_send_request E I t w | NICT \<Rightarrow> nict_send_request E I t w | _ \<Rightarrow> None) }"

end
