(* ===== verification/Client.thy ===== *)
theory Client
  imports Ict
begin

text \<open>
  The client side of \<^verbatim>\<open>src/transaction.c\<close> with what it needs of \<^verbatim>\<open>src/provider.c\<close>: creating a client
  transaction for a request (finding the dialog, and the INVITE transaction of a CANCEL), sending
  the request (to the dialog's queue, or to the channel of the next hop), CANCEL, the responses,
  and the channel events. The responses of the two machines (\<^verbatim>\<open>ict_on_response\<close>,
  \<^verbatim>\<open>nict_on_response\<close>) close the theory.
\<close>

section \<open>Matching\<close>

definition transaction_match :: "world \<Rightarrow> string \<Rightarrow> string \<Rightarrow> bool \<Rightarrow> nat \<Rightarrow> bool" where
  "transaction_match w branchid method is_ack_or_cancel t =
     (case trs w t of None \<Rightarrow> False
      | Some x \<Rightarrow> (case msgs w (tr_request x) of None \<Rightarrow> False
         | Some m \<Rightarrow> branchid = tr_branch_id x
             \<and> (method = rq_method m \<or> is_ack_or_cancel \<and> rq_method m = ''INVITE'')))"

text \<open>The request whose branch is not of RFC 3261 is given a computed one.\<close>

definition belle_sip_provider_find_matching_transaction ::
  "env \<Rightarrow> nat list \<Rightarrow> nat \<Rightarrow> world \<Rightarrow> (world \<times> nat option) option" where
  "belle_sip_provider_find_matching_transaction E transactions req w = do {
     m \<leftarrow> msgs w req;
     via \<leftarrow> belle_sip_message_get_header w req ''via'';
     branch \<leftarrow> (case via of None \<Rightarrow> Some None
        | Some h \<Rightarrow> do { v \<leftarrow> via_of w h; Some (belle_sip_header_via_get_branch v) });
     let special = (rq_method m = ''ACK'' \<or> rq_method m = ''CANCEL'');
     (case branch of
        Some b \<Rightarrow>
          (if has_prefix BELLE_SIP_BRANCH_MAGIC_COOKIE b
           then Some (w, find (transaction_match w b (rq_method m) special) transactions)
           else do {
             c \<leftarrow> compute_rfc2543_branch E req 10 w;
             w \<leftarrow> upd_msg w req (\<lambda>m. m\<lparr>rq_rfc2543_branch := Some c\<rparr>);
             Some (w, find (transaction_match w c (rq_method m) special) transactions) })
      | None \<Rightarrow> do {
             c \<leftarrow> compute_rfc2543_branch E req 10 w;
             w \<leftarrow> upd_msg w req (\<lambda>m. m\<lparr>rq_rfc2543_branch := Some c\<rparr>);
             Some (w, find (transaction_match w c (rq_method m) special) transactions) }) }"

definition client_transaction_match :: "world \<Rightarrow> string \<Rightarrow> string \<Rightarrow> nat \<Rightarrow> bool" where
  "client_transaction_match w branchid method t =
     (case trs w t of None \<Rightarrow> False
      | Some x \<Rightarrow> (case msgs w (tr_request x) of None \<Rightarrow> False
         | Some m \<Rightarrow> branchid = tr_branch_id x \<and> method = rq_method m))"

text \<open>A response without branch is a crash when a client transaction is there to be compared.\<close>

definition belle_sip_provider_find_matching_client_transaction :: "nat \<Rightarrow> world \<Rightarrow> nat option option" where
  "belle_sip_provider_find_matching_client_transaction resp w = do {
     via \<leftarrow> belle_sip_message_get_header w resp ''via'';
     cseq \<leftarrow> belle_sip_message_get_header w resp ''cseq'';
     (case (via, cseq) of
        (Some h, Some c) \<Rightarrow>
          (if prov_client_transactions w = [] then Some None
           else do {
             v \<leftarrow> via_of w h; b \<leftarrow> belle_sip_header_via_get_branch v; me \<leftarrow> cseq_method w c;
             Some (find (client_transaction_match w b me) (prov_client_transactions w)) })
      | _ \<Rightarrow> Some None) }"

section \<open>Creation\<close>

definition belle_sip_provider_create_client_transaction ::
  "env \<Rightarrow> nat \<Rightarrow> world \<Rightarrow> (world \<times> nat option) option" where
  "belle_sip_provider_create_client_transaction E req w = do {
     m \<leftarrow> msgs w req;
     (if rq_method m = ''ACK'' then Some (w, None)
      else do {
        (w, t) \<leftarrow> (if rq_method m = ''INVITE'' then belle_sip_ict_new req w else belle_sip_nict_new req w);
        w \<leftarrow> (if rq_method m = ''CANCEL'' then do {
                (w, inv) \<leftarrow> belle_sip_provider_find_matching_transaction E (prov_client_transactions w) req w;
                (case inv of None \<Rightarrow> Some w
                 | Some i \<Rightarrow> do { y \<leftarrow> trs w i; upd_tr w t (\<lambda>x. x\<lparr>tr_next_hop := tr_next_hop y\<rparr>) }) }
              else Some w);
        d \<leftarrow> belle_sip_provider_find_dialog_from_message req False w;
        w \<leftarrow> belle_sip_transaction_set_dialog t d w;
        w \<leftarrow> belle_sip_request_set_dialog w req None;
        Some (w, Some t) }) }"

section \<open>Sending\<close>

text \<open>
  \<^verbatim>\<open>belle_sip_client_transaction_send_request_to\<close>; the result is the return code. A transaction told
  to come from the dialog's queue, or whose request was made for the queue, without a dialog is a
  crash.
\<close>

definition prepare_dialog_queue :: "nat \<Rightarrow> world \<Rightarrow> (world \<times> bool) option" where
  "prepare_dialog_queue t w = do {
     x \<leftarrow> trs w t;
     m \<leftarrow> msgs w (tr_request x);
     (if tr_sent_by_dialog_queue x then do {
        d \<leftarrow> tr_dialog x;
        w \<leftarrow> belle_sip_dialog_update_request d (tr_request x) w;
        Some (w, False) }
      else if rq_dialog_queued m then do {
        d \<leftarrow> tr_dialog x;
        pending \<leftarrow> belle_sip_dialog_request_pending d w;
        r \<leftarrow> dlgs w d;
        (if pending \<or> dlg_queued_ct r \<noteq> []
         then do { w \<leftarrow> belle_sip_dialog_queue_client_transaction d t w; Some (w, True) }
         else do { w \<leftarrow> belle_sip_dialog_update_request d (tr_request x) w; Some (w, False) }) }
      else Some (w, False)) }"

definition attach_channel :: "env \<Rightarrow> chan_iface \<Rightarrow> nat \<Rightarrow> world \<Rightarrow> (world \<times> int) option" where
  "attach_channel E I t w = do {
     x \<leftarrow> trs w t;
     h \<leftarrow> tr_next_hop x;
     let w = belle_sip_provider_add_client_transaction t w;
     (w, chan) \<leftarrow> belle_sip_provider_get_channel E h w;
     (case chan of
        None \<Rightarrow> do { w \<leftarrow> belle_sip_transaction_terminate E I t w; Some (w, - 1) }
      | Some c \<Rightarrow> do {
          w \<leftarrow> belle_sip_channel_add_listener w c (LTransaction t);
          w \<leftarrow> upd_tr w t (\<lambda>x. x\<lparr>tr_channel := Some c\<rparr>);
          r \<leftarrow> chans w c;
          w \<leftarrow> (if ch_state r = CHANNEL_INIT then belle_sip_channel_prepare E I c w
                else if ch_state r = CHANNEL_READY then send_request_of_class E I t w
                else Some w);
          Some (w, 0) }) }"

definition belle_sip_client_transaction_send_request_to ::
  "env \<Rightarrow> chan_iface \<Rightarrow> nat \<Rightarrow> sip_uri option \<Rightarrow> world \<Rightarrow> (world \<times> int) option" where
  "belle_sip_client_transaction_send_request_to E I t outbound_proxy w = do {
     x \<leftarrow> trs w t;
     (if tr_state x \<noteq> TR_INIT then Some (w, - 1)
      else do {
        ok \<leftarrow> belle_sip_request_check_uris_components w (tr_request x);
        (if \<not> ok then Some (w, - 1)
         else do {
           w \<leftarrow> (if outbound_proxy \<noteq> None
                 then upd_tr w t (\<lambda>x. x\<lparr>tr_preset_route := outbound_proxy\<rparr>) else Some w);
           (w, queued) \<leftarrow> prepare_dialog_queue t w;
           (if queued then Some (w, 0)
            else do {
              w \<leftarrow> (case tr_dialog x of None \<Rightarrow> Some w
                    | Some d \<Rightarrow> map_option fst (belle_sip_dialog_update (belle_sip_transaction_terminate E I)
                         (belle_sip_provider_send_request E I) d t (\<not> is_client (tr_class x)) w));
              x \<leftarrow> trs w t;
              w \<leftarrow> (case tr_next_hop x of
                      Some h \<Rightarrow> Some w
                    | None \<Rightarrow> do {
                        h \<leftarrow> (case tr_preset_route x of
                               Some u \<Rightarrow> Some (belle_sip_hop_new_from_uri u)
                             | None \<Rightarrow> belle_sip_stack_get_next_hop w (tr_request x));
                        upd_tr w t (\<lambda>x. x\<lparr>tr_next_hop := Some h\<rparr>) });
              attach_channel E I t w }) }) }) }"

definition belle_sip_client_transaction_send_request ::
  "env \<Rightarrow> chan_iface \<Rightarrow> nat \<Rightarrow> world \<Rightarrow> (world \<times> int) option" where
  "belle_sip_client_transaction_send_request E I t w = belle_sip_client_transaction_send_request_to E I t None w"

section \<open>CANCEL\<close>

definition belle_sip_client_transaction_create_cancel :: "nat \<Rightarrow> world \<Rightarrow> (world \<times> nat option) option" where
  "belle_sip_client_transaction_create_cancel t w = do {
     x \<leftarrow> trs w t;
     let orig = tr_request x;
     m \<leftarrow> msgs w orig;
     (if rq_method m \<noteq> ''INVITE'' \<or> tr_state x \<noteq> TR_PROCEEDING then Some (w, None)
      else do {
        u \<leftarrow> rq_uri m;
        let (w, req) = belle_sip_request_new w;
        w \<leftarrow> upd_msg w req (\<lambda>m. m\<lparr>rq_method := ''CANCEL''\<rparr>);
        w \<leftarrow> belle_sip_request_set_uri w req (Some (belle_sip_uri_clone u));
        w \<leftarrow> belle_sip_util_copy_headers w orig req ''via'' False;
        w \<leftarrow> belle_sip_util_copy_headers w orig req ''call-id'' False;
        w \<leftarrow> belle_sip_util_copy_headers w orig req ''from'' False;
        w \<leftarrow> belle_sip_util_copy_headers w orig req ''to'' False;
        w \<leftarrow> belle_sip_util_copy_headers w orig req ''route'' True;
        w \<leftarrow> belle_sip_util_copy_headers w orig req ''Max-Forwards'' False;
        h \<leftarrow> belle_sip_message_get_header w orig ''cseq''; h \<leftarrow> h;
        n \<leftarrow> cseq_number w h;
        let (w, c) = new_hdr w (belle_sip_header_cseq_create n ''CANCEL'');
        w \<leftarrow> belle_sip_message_add_header w req c;
        Some (w, Some req) }) }"

section \<open>Responses\<close>

text \<open>A 2xx to an INVITE that the application did not acknowledge ends the dialog with a BYE.\<close>

definition send_internal_bye :: "env \<Rightarrow> chan_iface \<Rightarrow> nat \<Rightarrow> world \<Rightarrow> world option" where
  "send_internal_bye E I d w = do {
     (w, bye) \<leftarrow> belle_sip_dialog_create_request d ''BYE'' w;
     bye \<leftarrow> bye;
     (w, t) \<leftarrow> belle_sip_provider_create_client_transaction E bye w;
     t \<leftarrow> t;
     w \<leftarrow> upd_tr w t (\<lambda>x. x\<lparr>tr_is_internal := True\<rparr>);
     map_option fst (belle_sip_client_transaction_send_request E I t w) }"

definition belle_sip_dialog_check_ack_sent :: "env \<Rightarrow> chan_iface \<Rightarrow> nat \<Rightarrow> world \<Rightarrow> world option" where
  "belle_sip_dialog_check_ack_sent E I d w = do {
     r \<leftarrow> dlgs w d;
     (if dlg_needs_ack r then send_internal_bye E I d w else Some w) }"

definition should_dialog_be_created :: "string \<Rightarrow> int \<Rightarrow> bool" where
  "should_dialog_be_created method status_code \<longleftrightarrow> 101 \<le> status_code \<and> status_code < 300 \<and> is_dialog_method method"

text \<open>The dialog that a response concerns: the transaction's, another one, or a new one.\<close>

definition response_dialog :: "nat \<Rightarrow> nat \<Rightarrow> string \<Rightarrow> int \<Rightarrow> world \<Rightarrow> (world \<times> nat option) option" where
  "response_dialog t resp method status_code w = do {
     x \<leftarrow> trs w t;
     (case tr_dialog x of
        Some d \<Rightarrow> do {
          r \<leftarrow> dlgs w d;
          (if 101 \<le> status_code \<and> status_code < 300 \<and> method = ''INVITE''
              \<and> (dlg_state r = DIALOG_EARLY \<or> dlg_state r = DIALOG_CONFIRMED)
           then do {
             ok \<leftarrow> belle_sip_dialog_match d resp False w;
             (if ok then Some (w, Some d)
              else do {
                e \<leftarrow> belle_sip_provider_find_dialog_from_message resp False w;
                (case e of Some e \<Rightarrow> Some (w, Some e)
                 | None \<Rightarrow> belle_sip_provider_create_dialog_internal t False w) }) }
           else Some (w, Some d)) }
      | None \<Rightarrow>
          (if should_dialog_be_created method status_code
           then belle_sip_provider_create_dialog_internal t False w else Some (w, None))) }"

definition belle_sip_client_transaction_notify_response ::
  "env \<Rightarrow> chan_iface \<Rightarrow> nat \<Rightarrow> nat \<Rightarrow> world \<Rightarrow> world option" where
  "belle_sip_client_transaction_notify_response E I t resp w = do {
     x \<leftarrow> trs w t;
     m \<leftarrow> msgs w (tr_request x);
     p \<leftarrow> msgs w resp;
     w \<leftarrow> upd_tr w t (\<lambda>x. x\<lparr>tr_last_response := Some resp\<rparr>);
     (w, dialog) \<leftarrow> response_dialog t resp (rq_method m) (rs_status_code p) w;
     (w, again) \<leftarrow> (case dialog of None \<Rightarrow> Some (w, False)
        | Some d \<Rightarrow> belle_sip_dialog_update (belle_sip_transaction_terminate E I)
             (belle_sip_provider_send_request E I) d t False w);
     (if again then Some w
      else do {
        w \<leftarrow> invoke_listeners_for_transaction E t (EvResponse (Some t) dialog resp) w;
        (case dialog of
           Some d \<Rightarrow> (if rq_method m = ''INVITE'' then belle_sip_dialog_check_ack_sent E I d w else Some w)
         | None \<Rightarrow> Some w) }) }"

section \<open>The INVITE client machine\<close>

text \<open>In state CALLING any response makes the transaction proceed first.\<close>

definition ict_on_response :: "env \<Rightarrow> chan_iface \<Rightarrow> nat \<Rightarrow> nat \<Rightarrow> world \<Rightarrow> world option" where
  "ict_on_response E I t resp w = do {
     x \<leftarrow> trs w t;
     p \<leftarrow> msgs w resp;
     let code = rs_status_code p;
     (case tr_state x of
        TR_ACCEPTED \<Rightarrow>
          (if 200 \<le> code \<and> code < 300 then belle_sip_client_transaction_notify_response E I t resp w else Some w)
      | TR_COMPLETED \<Rightarrow>
          (case tr_ack x of None \<Rightarrow> Some w
           | Some ack \<Rightarrow> (if 300 \<le> code then queue_on_channel E I t ack w else Some w))
      | s \<Rightarrow>
          (if s = TR_CALLING \<or> s = TR_PROCEEDING then do {
             w \<leftarrow> (if s = TR_CALLING then belle_sip_transaction_set_state t TR_PROCEEDING w else Some w);
             (if 300 \<le> code then do {
                w \<leftarrow> belle_sip_transaction_set_state t TR_COMPLETED w;
                (w, ack) \<leftarrow> make_ack t resp w;
                w \<leftarrow> queue_on_channel E I t ack w;
                w \<leftarrow> belle_sip_client_transaction_notify_response E I t resp w;
                belle_sip_transaction_start_timer t TimerD (cfg_T1 w * 64) w }
              else if 200 \<le> code then do {
                w \<leftarrow> belle_sip_transaction_start_timer t TimerM (cfg_T1 w * 64) w;
                w \<leftarrow> belle_sip_transaction_set_state t TR_ACCEPTED w;
                belle_sip_client_transaction_notify_response E I t resp w }
              else if 100 \<le> code then belle_sip_client_transaction_notify_response E I t resp w
              else Some w) }
           else Some w)) }"

section \<open>The non-INVITE client machine\<close>

definition nict_set_completed :: "env \<Rightarrow> chan_iface \<Rightarrow> nat \<Rightarrow> nat \<Rightarrow> world \<Rightarrow> world option" where
  "nict_set_completed E I t resp w = do {
     w \<leftarrow> belle_sip_transaction_set_state t TR_COMPLETED w;
     x \<leftarrow> trs w t;
     (if tr_timers x TimerK \<noteq> None then None
      else do {
        w \<leftarrow> belle_sip_client_transaction_notify_response E I t resp w;
        reliable \<leftarrow> channel_reliable t w;
        (if \<not> reliable then belle_sip_transaction_start_timer t TimerK (cfg_T4 w) w
         else belle_sip_transaction_terminate E I t w) }) }"

definition nict_on_response :: "env \<Rightarrow> chan_iface \<Rightarrow> nat \<Rightarrow> nat \<Rightarrow> world \<Rightarrow> world option" where
  "nict_on_response E I t resp w = do {
     x \<leftarrow> trs w t;
     p \<leftarrow> msgs w resp;
     let code = rs_status_code p;
     (case tr_state x of
        TR_TRYING \<Rightarrow>
          (if code < 200 then do {
             w \<leftarrow> belle_sip_transaction_set_state t TR_PROCEEDING w;
             belle_sip_client_transaction_notify_response E I t resp w }
           else nict_set_completed E I t resp w)
      | TR_PROCEEDING \<Rightarrow> (if 200 \<le> code then nict_set_completed E I t resp w else Some w)
      | _ \<Rightarrow> Some w) }"

definition belle_sip_client_transaction_add_response ::
  "env \<Rightarrow> chan_iface \<Rightarrow> nat \<Rightarrow> nat \<Rightarrow> world \<Rightarrow> world option" where
  "belle_sip_client_transaction_add_response E I t resp w = do {
     x \<leftarrow> trs w t;
     (case tr_class x of ICT \<Rightarrow> ict_on_response E I t resp w | NICT \<Rightarrow> nict_on_response E I t resp w | _ \<Rightarrow> None) }"

section \<open>Channel events\<close>

definition on_channel_state_changed :: "env \<Rightarrow> chan_iface \<Rightarrow> nat \<Rightarrow> nat \<Rightarrow> channel_state \<Rightarrow> world \<Rightarrow> world option" where
  "on_channel_state_changed E I t c state w = do {
     x \<leftarrow> trs w t;
     (case state of
        CHANNEL_READY \<Rightarrow> (if tr_state x = TR_INIT then send_request_of_class E I t w else Some w)
      | s \<Rightarrow>
          (if s = CHANNEL_DISCONNECTED \<or> s = CHANNEL_ERROR then do {
             w \<leftarrow> (if tr_state x \<notin> {TR_COMPLETED, TR_CONFIRMED, TR_ACCEPTED, TR_TERMINATED}
                   then invoke_listeners_for_transaction E t (EvIoError (Some t) c) w else Some w);
             y \<leftarrow> trs w t;
             w \<leftarrow> (if tr_timed_out y then notify_timeout E t w else Some w);
             belle_sip_transaction_terminate E I t w }
           else Some w)) }"

text \<open>The callback that sends the first transaction waiting in a dialog's queue.\<close>

definition dialog_process_queue_callback :: "env \<Rightarrow> chan_iface \<Rightarrow> nat \<Rightarrow> world \<Rightarrow> world option" where
  "dialog_process_queue_callback E I d w = do {
     r \<leftarrow> dlgs w d;
     pending \<leftarrow> (if dlg_state r = DIALOG_TERMINATED then Some True else belle_sip_dialog_request_pending d w);
     (if pending \<or> dlg_needs_ack r then Some w
      else case dlg_queued_ct r of
        [] \<Rightarrow> Some w
      | t # rest \<Rightarrow> do {
          w \<leftarrow> upd_dlg w d (\<lambda>r. r\<lparr>dlg_queued_ct := rest\<rparr>);
          w \<leftarrow> upd_tr w t (\<lambda>x. x\<lparr>tr_sent_by_dialog_queue := True\<rparr>);
          map_option fst (belle_sip_client_transaction_send_request E I t w) }) }"

definition dialog_on_200Ok_timer :: "env \<Rightarrow> chan_iface \<Rightarrow> nat \<Rightarrow> world \<Rightarrow> (world \<times> int) option" where
  "dialog_on_200Ok_timer E I d w = do {
     r \<leftarrow> dlgs w d;
     s \<leftarrow> dlg_timer_200Ok r;
     prev \<leftarrow> belle_sip_source_get_timeout w s;
     w \<leftarrow> belle_sip_source_set_timeout w s (min (2 * prev) (cfg_T2 w));
     resp \<leftarrow> dlg_last_200Ok r;
     w \<leftarrow> belle_sip_provider_send_response E I resp w;
     Some (w, BELLE_SIP_CONTINUE) }"

definition dialog_on_200Ok_end :: "env \<Rightarrow> chan_iface \<Rightarrow> nat \<Rightarrow> world \<Rightarrow> (world \<times> int) option" where
  "dialog_on_200Ok_end E I d w = do {
     w \<leftarrow> belle_sip_dialog_stop_200Ok_retrans d w;
     w \<leftarrow> upd_dlg w d (\<lambda>r. r\<lparr>dlg_state := DIALOG_CONFIRMED\<rparr>);
     w \<leftarrow> send_internal_bye E I d w;
     Some (w, BELLE_SIP_STOP) }"

end
