(* ===== verification/Server.thy ===== *)
theory Server
  imports Ict
begin

text \<open>
  The server machines: the INVITE server transaction (\<^verbatim>\<open>src/ist.c\<close>), the non-INVITE server transaction
  (\<^verbatim>\<open>src/nist.c\<close>), and the server half of \<^verbatim>\<open>src/transaction.c\<close>: sending a response (the To tag, the
  dialog, the machine) and receiving a request for an existing transaction.
\<close>

section \<open>INVITE server transaction\<close>

text \<open>The interval is a signed number here: \<^verbatim>\<open>MIN(2*interval,T2)\<close>.\<close>

definition ist_on_timer_G :: "env \<Rightarrow> chan_iface \<Rightarrow> nat \<Rightarrow> world \<Rightarrow> (world \<times> int) option" where
  "ist_on_timer_G E I t w = do {
     x \<leftarrow> trs w t;
     (if tr_state x = TR_COMPLETED then do {
        s \<leftarrow> tr_timers x TimerG;
        interval \<leftarrow> belle_sip_source_get_timeout w s;
        resp \<leftarrow> tr_last_response x;
        w \<leftarrow> queue_on_channel E I t resp w;
        w \<leftarrow> belle_sip_source_set_timeout w s
               (if sint (2 * interval) < sint (cfg_T2 w) then 2 * interval else cfg_T2 w);
        Some (w, BELLE_SIP_CONTINUE) }
      else Some (w, BELLE_SIP_STOP)) }"

definition ist_on_timer_H :: "env \<Rightarrow> chan_iface \<Rightarrow> nat \<Rightarrow> world \<Rightarrow> (world \<times> int) option" where
  "ist_on_timer_H E I t w = do {
     x \<leftarrow> trs w t;
     w \<leftarrow> (if tr_state x = TR_COMPLETED then belle_sip_transaction_terminate E I t w else Some w);
     Some (w, BELLE_SIP_STOP) }"

definition ist_on_timer_I :: "env \<Rightarrow> chan_iface \<Rightarrow> nat \<Rightarrow> world \<Rightarrow> (world \<times> int) option" where
  "ist_on_timer_I E I t w =
     do { w \<leftarrow> belle_sip_transaction_terminate E I t w; Some (w, BELLE_SIP_STOP) }"

definition ist_on_timer_L :: "env \<Rightarrow> chan_iface \<Rightarrow> nat \<Rightarrow> world \<Rightarrow> (world \<times> int) option" where
  "ist_on_timer_L E I t w =
     do { w \<leftarrow> belle_sip_transaction_terminate E I t w; Some (w, BELLE_SIP_STOP) }"

text \<open>The Boolean is True when the ACK is to be reported (the source returns 0).\<close>

definition belle_sip_ist_process_ack :: "env \<Rightarrow> chan_iface \<Rightarrow> nat \<Rightarrow> world \<Rightarrow> (world \<times> bool) option" where
  "belle_sip_ist_process_ack E I t w = do {
     x \<leftarrow> trs w t;
     (case tr_state x of
        TR_COMPLETED \<Rightarrow> do {
          w \<leftarrow> belle_sip_transaction_stop_timer t TimerG w;
          w \<leftarrow> belle_sip_transaction_set_state t TR_CONFIRMED w;
          reliable \<leftarrow> channel_reliable t w;
          w \<leftarrow> (if \<not> reliable then belle_sip_transaction_start_timer t TimerI (cfg_T4 w) w
                else map_option fst (ist_on_timer_I E I t w));
          Some (w, False) }
      | TR_ACCEPTED \<Rightarrow> Some (w, True)
      | _ \<Rightarrow> Some (w, False)) }"

text \<open>The Boolean is True when the response becomes the last response (the source returns 0).\<close>

definition ist_send_new_response :: "env \<Rightarrow> chan_iface \<Rightarrow> nat \<Rightarrow> nat \<Rightarrow> world \<Rightarrow> (world \<times> bool) option" where
  "ist_send_new_response E I t resp w = do {
     x \<leftarrow> trs w t;
     p \<leftarrow> msgs w resp;
     let code = rs_status_code p;
     (case tr_state x of
        TR_PROCEEDING \<Rightarrow> do {
          w \<leftarrow> queue_on_channel E I t resp w;
          w \<leftarrow> (if 200 \<le> code \<and> code < 300 then do {
                  w \<leftarrow> belle_sip_transaction_set_state t TR_ACCEPTED w;
                  belle_sip_transaction_start_timer t TimerL (64 * cfg_T1 w) w }
                else if 300 \<le> code then do {
                  w \<leftarrow> belle_sip_transaction_set_state t TR_COMPLETED w;
                  reliable \<leftarrow> channel_reliable t w;
                  w \<leftarrow> (if \<not> reliable then belle_sip_transaction_start_timer t TimerG (cfg_T1 w) w else Some w);
                  belle_sip_transaction_start_timer t TimerH (64 * cfg_T1 w) w }
                else Some w);
          Some (w, True) }
      | TR_ACCEPTED \<Rightarrow> Some (w, 200 \<le> code \<and> code < 300)
      | _ \<Rightarrow> Some (w, False)) }"

definition retransmit_last_response :: "env \<Rightarrow> chan_iface \<Rightarrow> nat \<Rightarrow> world \<Rightarrow> world option" where
  "retransmit_last_response E I t w = do {
     x \<leftarrow> trs w t;
     (if tr_state x = TR_PROCEEDING \<or> tr_state x = TR_COMPLETED
      then do { resp \<leftarrow> tr_last_response x; queue_on_channel E I t resp w } else Some w) }"

definition ist_on_request_retransmission :: "env \<Rightarrow> chan_iface \<Rightarrow> nat \<Rightarrow> world \<Rightarrow> world option" where
  "ist_on_request_retransmission E I t w = retransmit_last_response E I t w"

section \<open>Non-INVITE server transaction\<close>

definition nist_on_timer_J :: "env \<Rightarrow> chan_iface \<Rightarrow> nat \<Rightarrow> world \<Rightarrow> (world \<times> int) option" where
  "nist_on_timer_J E I t w =
     do { w \<leftarrow> belle_sip_transaction_terminate E I t w; Some (w, BELLE_SIP_STOP) }"

definition nist_set_completed :: "nat \<Rightarrow> world \<Rightarrow> world option" where
  "nist_set_completed t w = do {
     reliable \<leftarrow> channel_reliable t w;
     w \<leftarrow> belle_sip_transaction_start_timer t TimerJ (if \<not> reliable then cfg_T1 w * 64 else 0) w;
     belle_sip_transaction_set_state t TR_COMPLETED w }"

definition nist_send_new_response :: "env \<Rightarrow> chan_iface \<Rightarrow> nat \<Rightarrow> nat \<Rightarrow> world \<Rightarrow> (world \<times> bool) option" where
  "nist_send_new_response E I t resp w = do {
     x \<leftarrow> trs w t;
     p \<leftarrow> msgs w resp;
     let code = rs_status_code p;
     (case tr_state x of
        TR_COMPLETED \<Rightarrow> Some (w, False)
      | s \<Rightarrow>
          (if s = TR_TRYING \<and> code < 200 then do {
             w \<leftarrow> belle_sip_transaction_set_state t TR_PROCEEDING w;
             w \<leftarrow> queue_on_channel E I t resp w;
             Some (w, True) }
           else if s = TR_TRYING \<or> s = TR_PROCEEDING then do {
             w \<leftarrow> (if 200 \<le> code then nist_set_completed t w else Some w);
             w \<leftarrow> queue_on_channel E I t resp w;
             Some (w, True) }
           else Some (w, True))) }"

definition nist_on_request_retransmission :: "env \<Rightarrow> chan_iface \<Rightarrow> nat \<Rightarrow> world \<Rightarrow> world option" where
  "nist_on_request_retransmission E I t w = retransmit_last_response E I t w"

section \<open>Responses and requests of any server transaction\<close>

definition send_new_response_of_class :: "env \<Rightarrow> chan_iface \<Rightarrow> nat \<Rightarrow> nat \<Rightarrow> world \<Rightarrow> (world \<times> bool) option" where
  "send_new_response_of_class E I t resp w = do {
     x \<leftarrow> trs w t;
     (case tr_class x of IST \<Rightarrow> ist_send_new_response E I t resp w
      | NIST \<Rightarrow> nist_send_new_response E I t resp w | _ \<Rightarrow> None) }"

text \<open>
  \<^verbatim>\<open>belle_sip_server_transaction_send_response\<close>. The first response finds the channel from its Via;
  a response without a top Via has no hop, which the search for a channel dereferences.
\<close>

definition fill_response :: "nat \<Rightarrow> nat \<Rightarrow> world \<Rightarrow> world option" where
  "fill_response t resp w = do {
     x \<leftarrow> trs w t;
     p \<leftarrow> msgs w resp;
     to \<leftarrow> belle_sip_message_get_header w resp ''to'';
     (if rs_status_code p = 100 then Some w
      else do {
        to \<leftarrow> to;
        g \<leftarrow> tag_of w to;
        w \<leftarrow> (if g = None then set_to_header_tag to (tr_to_tag x) w else Some w);
        (if tr_dialog x \<noteq> None \<and> 100 < rs_status_code p \<and> rs_status_code p < 300
         then belle_sip_response_fill_for_dialog w resp (tr_request x) else Some w) }) }"

definition belle_sip_server_transaction_send_response ::
  "env \<Rightarrow> chan_iface \<Rightarrow> nat \<Rightarrow> nat \<Rightarrow> world \<Rightarrow> world option" where
  "belle_sip_server_transaction_send_response E I t resp w = do {
     x \<leftarrow> trs w t;
     (w, ready) \<leftarrow> (if tr_last_response x \<noteq> None then Some (w, True)
        else do {
          h \<leftarrow> belle_sip_response_get_return_hop w resp; h \<leftarrow> h;
          (w, chan) \<leftarrow> belle_sip_provider_get_channel E h w;
          w \<leftarrow> upd_tr w t (\<lambda>x. x\<lparr>tr_channel := chan\<rparr>);
          Some (w, chan \<noteq> None) });
     (if \<not> ready then Some w
      else do {
        w \<leftarrow> fill_response t resp w;
        (w, sent) \<leftarrow> send_new_response_of_class E I t resp w;
        w \<leftarrow> (if sent then upd_tr w t (\<lambda>x. x\<lparr>tr_last_response := Some resp\<rparr>) else Some w);
        (case tr_dialog x of None \<Rightarrow> Some w
         | Some d \<Rightarrow> map_option fst (belle_sip_dialog_update (belle_sip_transaction_terminate E I)
              (belle_sip_provider_send_request E I) d t True w)) }) }"

definition belle_sip_server_transaction_on_request ::
  "env \<Rightarrow> chan_iface \<Rightarrow> nat \<Rightarrow> nat \<Rightarrow> world \<Rightarrow> world option" where
  "belle_sip_server_transaction_on_request E I t req w = do {
     m \<leftarrow> msgs w req;
     x \<leftarrow> trs w t;
     (if rq_method m = ''ACK'' then
        (if tr_class x = IST then do {
           (w, report) \<leftarrow> belle_sip_ist_process_ack E I t w;
           y \<leftarrow> trs w t;
           (case tr_dialog y of
              Some d \<Rightarrow>
                (if report then do {
                   (w, new) \<leftarrow> belle_sip_dialog_handle_ack d req w;
                   (if new then invoke_listeners_for_transaction E t (EvRequest (Some t) (Some d) req) w
                    else Some w) }
                 else Some w)
            | None \<Rightarrow> Some w) }
         else Some w)
      else if rq_method m = ''CANCEL''
      then invoke_listeners_for_transaction E t (EvRequest (Some t) (tr_dialog x) req) w
      else (case tr_class x of IST \<Rightarrow> ist_on_request_retransmission E I t w
            | NIST \<Rightarrow> nist_on_request_retransmission E I t w | _ \<Rightarrow> None)) }"

definition belle_sip_ist_new :: "env \<Rightarrow> chan_iface \<Rightarrow> nat \<Rightarrow> world \<Rightarrow> (world \<times> nat) option" where
  "belle_sip_ist_new E I req w = do {
     (w, t) \<leftarrow> belle_sip_server_transaction_init IST req w;
     w \<leftarrow> belle_sip_transaction_set_state t TR_PROCEEDING w;
     (w, resp) \<leftarrow> belle_sip_response_create_from_request w req 100;
     w \<leftarrow> belle_sip_server_transaction_send_response E I t resp w;
     Some (w, t) }"

definition belle_sip_nist_new :: "nat \<Rightarrow> world \<Rightarrow> (world \<times> nat) option" where
  "belle_sip_nist_new req w = do {
     (w, t) \<leftarrow> belle_sip_server_transaction_init NIST req w;
     w \<leftarrow> belle_sip_transaction_set_state t TR_TRYING w;
     Some (w, t) }"

definition belle_sip_provider_create_server_transaction ::
  "env \<Rightarrow> chan_iface \<Rightarrow> nat \<Rightarrow> world \<Rightarrow> (world \<times> nat option) option" where
  "belle_sip_provider_create_server_transaction E I req w = do {
     m \<leftarrow> msgs w req;
     (if rq_method m = ''ACK'' then Some (w, None)
      else do {
        (w, t) \<leftarrow> (if rq_method m = ''INVITE'' then belle_sip_ist_new E I req w else belle_sip_nist_new req w);
        d \<leftarrow> belle_sip_provider_find_dialog_from_message req True w;
        w \<leftarrow> belle_sip_transaction_set_dialog t d w;
        Some (belle_sip_provider_add_server_transaction t w, Some t) }) }"

end
