(* ===== verification/KeepAlive.thy ===== *)
theory KeepAlive
  imports ChannelState
begin

text \<open>
  The rest of \<^verbatim>\<open>src/listeningpoint.c\<close>: the keep-alive timer, which sends \<^verbatim>\<open>CRLF CRLF\<close> on every ready channel, and
  the cleaning of the channels; and the public address that a channel learns from the responses it receives
  (\<^verbatim>\<open>src/channel.c\<close>), which the automatic contacts of later messages carry.
\<close>

section \<open>Keep alives\<close>

definition crlfcrlf :: string where
  "crlfcrlf = [CHR 0x0D, CHR 0x0A, CHR 0x0D, CHR 0x0A]"

definition EINTR :: int where "EINTR = 4"

text \<open>The bytes go straight to the socket: neither the output queue nor the simulated error is looked at.\<close>

definition send_keep_alive :: "env \<Rightarrow> nat \<Rightarrow> world \<Rightarrow> (world \<times> int) option" where
  "send_keep_alive E c w = do {
     (w, err) \<leftarrow> belle_sip_channel_send E c crlfcrlf w;
     Some (w, if err \<le> 0 \<and> \<not> belle_sip_error_code_is_would_block (- err) \<and> err \<noteq> - EINTR then - 1 else 0) }"

text \<open>The first loop of \<^verbatim>\<open>keep_alive_timer_func\<close> gathers the channels whose keep alive failed, the second closes them.\<close>

fun keep_alive_loop :: "env \<Rightarrow> nat list \<Rightarrow> world \<Rightarrow> (world \<times> nat list) option" where
  "keep_alive_loop E [] w = Some (w, [])"
| "keep_alive_loop E (c # cs) w = do {
     r \<leftarrow> chans w c;
     (w, failed) \<leftarrow> (if ch_state r = CHANNEL_READY
        then do { (w, res) \<leftarrow> send_keep_alive E c w; Some (w, if res = - 1 then [c] else []) }
        else Some (w, []));
     (w, rest) \<leftarrow> keep_alive_loop E cs w;
     Some (w, failed @ rest) }"

fun close_failed :: "chan_iface \<Rightarrow> nat list \<Rightarrow> world \<Rightarrow> world option" where
  "close_failed I [] w = Some w"
| "close_failed I (c # cs) w = do {
     w \<leftarrow> channel_set_state I c CHANNEL_ERROR w;
     w \<leftarrow> belle_sip_channel_close w c;
     close_failed I cs w }"

definition keep_alive_timer_func :: "env \<Rightarrow> chan_iface \<Rightarrow> nat \<Rightarrow> world \<Rightarrow> (world \<times> int) option" where
  "keep_alive_timer_func E I i w =
     (if length (prov_lps w) \<le> i then None
      else do {
        (w, to_be_closed) \<leftarrow> keep_alive_loop E (lp_channels (prov_lps w ! i)) w;
        w \<leftarrow> close_failed I to_be_closed w;
        Some (w, BELLE_SIP_CONTINUE_WITHOUT_CATCHUP) })"

definition upd_lp :: "world \<Rightarrow> nat \<Rightarrow> (listening_point \<Rightarrow> listening_point) \<Rightarrow> world option" where
  "upd_lp w i f = (if length (prov_lps w) \<le> i then None
     else Some (w\<lparr>prov_lps := (prov_lps w)[i := f (prov_lps w ! i)]\<rparr>))"

definition belle_sip_listening_point_set_keep_alive :: "nat \<Rightarrow> int \<Rightarrow> world \<Rightarrow> world option" where
  "belle_sip_listening_point_set_keep_alive i ms w =
     (if length (prov_lps w) \<le> i then None
      else (case lp_keep_alive_timer (prov_lps w ! i) of
        None \<Rightarrow> (if ms \<le> 0 then Some w
          else do {
            (w, s) \<leftarrow> belle_sip_main_loop_create_timeout w (CbKeepAlive i) (word_of_int ms);
            upd_lp w i (\<lambda>lp. lp\<lparr>lp_keep_alive_timer := Some s\<rparr>) })
      | Some s \<Rightarrow> (if ms \<le> 0
          then do {
            w \<leftarrow> belle_sip_main_loop_remove_source w s;
            upd_lp w i (\<lambda>lp. lp\<lparr>lp_keep_alive_timer := None\<rparr>) }
          else belle_sip_source_set_timeout w s (word_of_int ms))))"

definition belle_sip_listening_point_get_keep_alive :: "nat \<Rightarrow> world \<Rightarrow> int option" where
  "belle_sip_listening_point_get_keep_alive i w =
     (if length (prov_lps w) \<le> i then None
      else (case lp_keep_alive_timer (prov_lps w ! i) of
        None \<Rightarrow> Some (- 1)
      | Some s \<Rightarrow> map_option sint (belle_sip_source_get_timeout w s)))"

section \<open>Cleaning\<close>

definition belle_sip_listening_point_get_channel_count :: "listening_point \<Rightarrow> nat" where
  "belle_sip_listening_point_get_channel_count lp = length (lp_channels lp)"

text \<open>
  The loop of \<^verbatim>\<open>belle_sip_listening_point_clean_channels\<close> walks the list itself, which the listeners that are told of
  the disconnections may change: what comes after a channel is looked up once it is closed, and it is a crash when the
  channel was taken off meanwhile. Listeners that always add a channel keep it walking.
\<close>

partial_function (option) clean_channels_from :: "chan_iface \<Rightarrow> nat \<Rightarrow> nat list \<Rightarrow> world \<Rightarrow> world option" where
  "clean_channels_from I i cs w =
     (case cs of [] \<Rightarrow> Some w
      | c # _ \<Rightarrow> do {
          w \<leftarrow> belle_sip_channel_force_close I c w;
          (if i < length (prov_lps w) \<and> c \<in> set (lp_channels (prov_lps w ! i))
           then clean_channels_from I i (tl (dropWhile (\<lambda>x. x \<noteq> c) (lp_channels (prov_lps w ! i)))) w
           else None) })"

definition belle_sip_listening_point_clean_channels :: "chan_iface \<Rightarrow> nat \<Rightarrow> world \<Rightarrow> world option" where
  "belle_sip_listening_point_clean_channels I i w =
     (if length (prov_lps w) \<le> i then None
      else do {
        w \<leftarrow> clean_channels_from I i (lp_channels (prov_lps w ! i)) w;
        upd_lp w i (\<lambda>lp. lp\<lparr>lp_channels := []\<rparr>) })"

text \<open>The provider cleans its listening points in order; \<open>k\<close> of them remain, from number \<open>i\<close> on.\<close>

fun provider_clean_loop :: "chan_iface \<Rightarrow> nat \<Rightarrow> nat \<Rightarrow> world \<Rightarrow> world option" where
  "provider_clean_loop I 0 i w = Some w"
| "provider_clean_loop I (Suc k) i w = do {
     w \<leftarrow> belle_sip_listening_point_clean_channels I i w;
     provider_clean_loop I k (Suc i) w }"

definition belle_sip_provider_clean_channels :: "chan_iface \<Rightarrow> world \<Rightarrow> world option" where
  "belle_sip_provider_clean_channels I w = provider_clean_loop I (length (prov_lps w)) 0 w"

text \<open>The end of a listening point; the memory of its URI is not modelled.\<close>

definition belle_sip_listening_point_uninit :: "chan_iface \<Rightarrow> nat \<Rightarrow> world \<Rightarrow> world option" where
  "belle_sip_listening_point_uninit I i w = do {
     w \<leftarrow> belle_sip_listening_point_clean_channels I i w;
     belle_sip_listening_point_set_keep_alive i (- 1) w }"

section \<open>The public address\<close>

definition belle_sip_channel_get_public_ip_port :: "channel \<Rightarrow> string option" where
  "belle_sip_channel_get_public_ip_port r =
     map_option (\<lambda>ip. ip @ '':'' @ int_text (ch_public_port r)) (ch_public_ip r)"

definition belle_sip_channel_set_public_ip_port :: "nat \<Rightarrow> string option \<Rightarrow> int \<Rightarrow> world \<Rightarrow> world option" where
  "belle_sip_channel_set_public_ip_port c public_ip port w =
     upd_chan w c (\<lambda>r. r\<lparr>ch_public_ip := public_ip, ch_public_port := port\<rparr>)"

text \<open>What the first Via of a response says: \<^verbatim>\<open>received\<close> or the host, and \<^verbatim>\<open>rport\<close> or the port.\<close>

definition belle_sip_channel_learn_public_ip_port :: "nat \<Rightarrow> nat \<Rightarrow> world \<Rightarrow> world option" where
  "belle_sip_channel_learn_public_ip_port c resp w = do {
     h \<leftarrow> belle_sip_message_get_header_by_type w resp is_HVia;
     (case h of None \<Rightarrow> Some w
      | Some h \<Rightarrow> do {
          x \<leftarrow> hdrs w h;
          (case hbody x of
             HVia v \<Rightarrow> do {
               let received = (case via_received v of Some r \<Rightarrow> Some r | None \<Rightarrow> via_host v);
               rport \<leftarrow> (if belle_sip_header_via_get_rport v \<le> 0 then belle_sip_header_via_get_listening_port v
                         else Some (belle_sip_header_via_get_rport v));
               w \<leftarrow> belle_sip_channel_set_public_ip_port c received rport w;
               upd_chan w c (\<lambda>r. r\<lparr>ch_learnt_ip_port := True\<rparr>) }
           | _ \<Rightarrow> None) }) }"

end
