(* ===== verification/Provider.thy ===== *)
theory Provider
  imports Client Server KeepAlive
begin

text \<open>
  The provider (\<^verbatim>\<open>src/provider.c\<close>): dispatching the messages the channels deliver to the transactions,
  the dialogs and the application, the provider as a listener of its channels, the closing of the
  knot between channels and transactions, and what each source of the main loop runs.
\<close>

section \<open>Dispatch\<close>

text \<open>An error response sent through a new server transaction.\<close>

definition answer :: "env \<Rightarrow> chan_iface \<Rightarrow> nat \<Rightarrow> int \<Rightarrow> world \<Rightarrow> world option" where
  "answer E I req code w = do {
     (w, t) \<leftarrow> belle_sip_provider_create_server_transaction E I req w;
     t \<leftarrow> t;
     (w, resp) \<leftarrow> belle_sip_response_create_from_request w req code;
     belle_sip_server_transaction_send_response E I t resp w }"

definition deliver_request :: "env \<Rightarrow> chan_iface \<Rightarrow> nat \<Rightarrow> nat option \<Rightarrow> string \<Rightarrow> world \<Rightarrow> world option" where
  "deliver_request E I req dialog method w =
     (if prov_unconditional_answer w \<and> method \<noteq> ''ACK'' then answer E I req 480 w
      else invoke_listeners E (prov_listeners w) (EvRequest None dialog req) w)"

definition belle_sip_provider_dispatch_request :: "env \<Rightarrow> chan_iface \<Rightarrow> nat \<Rightarrow> world \<Rightarrow> world option" where
  "belle_sip_provider_dispatch_request E I req w = do {
     (w, t) \<leftarrow> belle_sip_provider_find_matching_transaction E (prov_server_transactions w) req w;
     (case t of
        Some t \<Rightarrow> belle_sip_server_transaction_on_request E I t req w
      | None \<Rightarrow> do {
          m \<leftarrow> msgs w req;
          let method = rq_method m;
          dialog \<leftarrow> belle_sip_provider_find_dialog_from_message req True w;
          (case dialog of
             None \<Rightarrow> deliver_request E I req None method w
           | Some d \<Rightarrow>
               (if method = ''ACK'' then do {
                  (w, new) \<leftarrow> belle_sip_dialog_handle_ack d req w;
                  (if new then deliver_request E I req (Some d) method w else Some w) }
                else do {
                  ok \<leftarrow> belle_sip_dialog_is_authorized_transaction d method w;
                  (if ok then deliver_request E I req (Some d) method w else answer E I req 491 w) })) }) }"

text \<open>
  A 401, 403 or 407 makes the provider forget every authentication context with the nonce that the
  request carried. The source searches the list again after each deletion, comparing nonces with
  \<^verbatim>\<open>strcmp\<close>: a context without a nonce is a crash.
\<close>

fun delete_by_nonce :: "string \<Rightarrow> authorization_context list \<Rightarrow> authorization_context list option" where
  "delete_by_nonce nonce [] = Some []"
| "delete_by_nonce nonce (a # as) = do {
     n \<leftarrow> ac_nonce a;
     rest \<leftarrow> delete_by_nonce nonce as;
     Some (if n = nonce then rest else a # rest) }"

definition request_nonce :: "world \<Rightarrow> nat \<Rightarrow> string option option" where
  "request_nonce w req = do {
     p \<leftarrow> belle_sip_message_get_header_by_type w req is_HProxyAuthorization;
     a \<leftarrow> belle_sip_message_get_header_by_type w req is_HAuthorization;
     (case (if p = None then a else p) of None \<Rightarrow> Some None
      | Some h \<Rightarrow> do {
          x \<leftarrow> hdrs w h;
          Some (case hbody x of HProxyAuthorization c \<Rightarrow> auth_nonce c | HAuthorization c \<Rightarrow> auth_nonce c | _ \<Rightarrow> None) }) }"

definition forget_auth_contexts :: "nat option \<Rightarrow> nat \<Rightarrow> world \<Rightarrow> world option" where
  "forget_auth_contexts t msg w = do {
     m \<leftarrow> msgs w msg;
     (case t of
        Some t \<Rightarrow>
          (if rs_status_code m \<in> {401, 403, 407} then do {
             x \<leftarrow> trs w t;
             nonce \<leftarrow> request_nonce w (tr_request x);
             (case nonce of None \<Rightarrow> Some w
              | Some n \<Rightarrow> do {
                  cs \<leftarrow> delete_by_nonce n (prov_auth_contexts w);
                  Some (w\<lparr>prov_auth_contexts := cs\<rparr>) }) }
           else Some w)
      | None \<Rightarrow> Some w) }"

definition belle_sip_provider_dispatch_response :: "env \<Rightarrow> chan_iface \<Rightarrow> nat \<Rightarrow> world \<Rightarrow> world option" where
  "belle_sip_provider_dispatch_response E I msg w = do {
     t \<leftarrow> belle_sip_provider_find_matching_client_transaction msg w;
     w \<leftarrow> forget_auth_contexts t msg w;
     (case t of
        Some t \<Rightarrow> belle_sip_client_transaction_add_response E I t msg w
      | None \<Rightarrow> invoke_listeners E (prov_listeners w) (EvResponse None None msg) w) }"

definition belle_sip_provider_dispatch_message :: "env \<Rightarrow> chan_iface \<Rightarrow> nat \<Rightarrow> world \<Rightarrow> world option" where
  "belle_sip_provider_dispatch_message E I msg w = do {
     m \<leftarrow> msgs w msg;
     ok \<leftarrow> belle_sip_message_check_headers w msg;
     (if ok then
        (if is_request m then belle_sip_provider_dispatch_request E I msg w
         else belle_sip_provider_dispatch_response E I msg w)
      else if is_request m then do {
        (w, resp) \<leftarrow> belle_sip_response_create_from_request w msg 400;
        belle_sip_provider_send_response E I resp w }
      else Some w) }"

section \<open>The provider as a listener\<close>

definition belle_sip_provider_release_channel :: "nat \<Rightarrow> world \<Rightarrow> world option" where
  "belle_sip_provider_release_channel c w =
     do { r \<leftarrow> chans w c; i \<leftarrow> ch_lp r; belle_sip_listening_point_remove_channel w i c }"

definition channel_state_changed :: "env \<Rightarrow> nat \<Rightarrow> channel_state \<Rightarrow> world \<Rightarrow> world option" where
  "channel_state_changed E c state w =
     (if state = CHANNEL_ERROR \<or> state = CHANNEL_DISCONNECTED then do {
        w \<leftarrow> invoke_listeners E (prov_listeners w) (EvIoError None c) w;
        w \<leftarrow> invoke_listeners E (prov_internal_listeners w) (EvIoError None c) w;
        r \<leftarrow> chans w c;
        (if \<not> ch_force_close r then belle_sip_provider_release_channel c w else Some w) }
      else Some w)"

definition finalize_transaction :: "env \<Rightarrow> chan_iface \<Rightarrow> nat \<Rightarrow> world \<Rightarrow> world option" where
  "finalize_transaction E I t w = do {
     x \<leftarrow> trs w t;
     (if tr_state x \<noteq> TR_TERMINATED then belle_sip_transaction_terminate E I t w else Some w) }"

fun finalize_transactions :: "env \<Rightarrow> chan_iface \<Rightarrow> nat list \<Rightarrow> world \<Rightarrow> world option" where
  "finalize_transactions E I [] w = Some w"
| "finalize_transactions E I (t # ts) w =
     do { w \<leftarrow> finalize_transaction E I t w; finalize_transactions E I ts w }"

definition belle_sip_provider_uninit :: "env \<Rightarrow> chan_iface \<Rightarrow> world \<Rightarrow> world option" where
  "belle_sip_provider_uninit E I w = do {
     w \<leftarrow> finalize_transactions E I (prov_client_transactions w) w;
     let w = w\<lparr>prov_client_transactions := []\<rparr>;
     w \<leftarrow> finalize_transactions E I (prov_server_transactions w) w;
     Some (w\<lparr>prov_server_transactions := [], prov_listeners := [], prov_internal_listeners := [],
             prov_dialogs := [], prov_lps := []\<rparr>) }"

section \<open>Preparing an outgoing message\<close>

definition belle_sip_channel_get_transport_name_lower_case :: "channel \<Rightarrow> string" where
  "belle_sip_channel_get_transport_name_lower_case r =
     (let t = ch_transport r in
      if strcaseeq ''udp'' t then ''udp'' else if strcaseeq ''tcp'' t then ''tcp''
      else if strcaseeq ''tls'' t then ''tls'' else if strcaseeq ''dtls'' t then ''dtls'' else t)"

definition belle_sip_channel_create_routable_uri :: "world \<Rightarrow> channel \<Rightarrow> sip_uri option" where
  "belle_sip_channel_create_routable_uri w r = do {
     natted \<leftarrow> (case ch_public_ip r of None \<Rightarrow> Some False
        | Some p \<Rightarrow> do { l \<leftarrow> ch_local_ip r; Some (p \<noteq> l) });
     let u = (if natted then belle_sip_uri_new\<lparr>uri_host := ch_public_ip r, uri_port := ch_public_port r\<rparr>
              else belle_sip_uri_new\<lparr>uri_host := ch_local_ip r, uri_port := (case ch_lp r of
                     Some i \<Rightarrow> uri_port (lp_uri (prov_lps w ! i)) | None \<Rightarrow> ch_local_port r)\<rparr>);
     let ps = belle_sip_parameters_set_parameter (uri_params u) ''transport''
                (Some (belle_sip_channel_get_transport_name_lower_case r));
     Some (u\<lparr>uri_params := belle_sip_parameters_set_parameter ps ''lr'' None\<rparr>) }"

text \<open>The top Via of a request; a branch is only made for a message sent outside transactions.\<close>

definition fix_outgoing_via :: "env \<Rightarrow> channel \<Rightarrow> nat \<Rightarrow> world \<Rightarrow> world option" where
  "fix_outgoing_via E r msg w = do {
     via \<leftarrow> belle_sip_message_get_header w msg ''via''; via \<leftarrow> via;
     v \<leftarrow> via_of w via;
     let v = v\<lparr>via_params := (if prov_rport_enabled w
                then belle_sip_parameters_set_parameter (via_params v) ''rport'' None else via_params v),
               via_host := ch_local_ip r, via_port := ch_local_port r, via_protocol := Some ''SIP/2.0'',
               via_transport := Some (ch_transport r)\<rparr>;
     w \<leftarrow> upd_hdr w via (\<lambda>x. x\<lparr>hbody := HVia v\<rparr>);
     (if belle_sip_header_via_get_branch v = None
      then do {
        branchid \<leftarrow> compute_hash_from_invariants E msg 10 None w;
        upd_hdr w via (\<lambda>x. x\<lparr>hbody := HVia (belle_sip_header_via_set_branch v
          (BELLE_SIP_BRANCH_MAGIC_COOKIE @ ''.'' @ branchid))\<rparr>) }
      else Some w) }"

fun fix_record_routes :: "channel \<Rightarrow> nat list \<Rightarrow> world \<Rightarrow> world option" where
  "fix_record_routes r [] w = Some w"
| "fix_record_routes r (h # hs) w = do {
     x \<leftarrow> hdrs w h;
     w \<leftarrow> (case hbody x of
             HRecordRoute a True \<Rightarrow> do {
               u \<leftarrow> belle_sip_channel_create_routable_uri w r;
               upd_hdr w h (\<lambda>x. x\<lparr>hbody := HRecordRoute (a\<lparr>addr_uri := Some u\<rparr>) True\<rparr>) }
           | HRecordRoute a False \<Rightarrow> Some w
           | _ \<Rightarrow> None);
     fix_record_routes r hs w }"

text \<open>
  The automatic contacts take the address of the channel. \<open>addr\<close> is the address and port found so
  far; only the contact for which it is computed is marked unknown or not.
\<close>

definition contact_address :: "world \<Rightarrow> channel \<Rightarrow> string option \<times> int" where
  "contact_address w r =
     (if prov_nat_helper w
      then (if ch_public_ip r \<noteq> None then ch_public_ip r else ch_local_ip r,
            if ch_public_port r \<noteq> 0 then ch_public_port r else ch_local_port r)
      else (ch_local_ip r, ch_local_port r))"

definition fixed_contact_uri :: "channel \<Rightarrow> string option \<times> int \<Rightarrow> sip_uri \<Rightarrow> sip_uri" where
  "fixed_contact_uri r addr u =
     (let t = belle_sip_channel_get_transport_name_lower_case r;
          u = u\<lparr>uri_host := fst addr\<rparr>;
          u = (if t = ''udp'' then u\<lparr>uri_params := belle_sip_parameters_remove_parameter (uri_params u) ''transport''\<rparr>
               else if \<not> uri_secure u
               then u\<lparr>uri_params := belle_sip_parameters_set_parameter (uri_params u) ''transport'' (Some t)\<rparr> else u)
      in u\<lparr>uri_port := (if snd addr \<noteq> belle_sip_listening_point_get_well_known_port t then snd addr else 0)\<rparr>)"

fun fix_contacts :: "channel \<Rightarrow> nat list \<Rightarrow> string option \<times> int \<Rightarrow> world \<Rightarrow> world option" where
  "fix_contacts r [] addr w = Some w"
| "fix_contacts r (h # hs) addr w = do {
     x \<leftarrow> hdrs w h;
     (case hbody x of
        HContact a f \<Rightarrow>
          (if ct_wildcard f then fix_contacts r hs addr w
           else let u = (case addr_uri a of None \<Rightarrow> belle_sip_uri_new | Some u \<Rightarrow> u);
                    f = (if uri_host u = None then f\<lparr>ct_automatic := True\<rparr> else f) in
             (if \<not> ct_automatic f then fix_contacts r hs addr w
              else let found = (fst addr = None);
                       addr = (if found then contact_address w r else addr);
                       f = (if found \<and> prov_nat_helper w then f\<lparr>ct_unknown := \<not> ch_learnt_ip_port r\<rparr> else f)
                in do {
                  w \<leftarrow> upd_hdr w h (\<lambda>x. x\<lparr>hbody := HContact (a\<lparr>addr_uri := Some (fixed_contact_uri r addr u)\<rparr>) f\<rparr>);
                  fix_contacts r hs addr w }))
      | _ \<Rightarrow> None) }"

definition channel_on_sending :: "env \<Rightarrow> nat \<Rightarrow> nat \<Rightarrow> world \<Rightarrow> world option" where
  "channel_on_sending E c msg w = do {
     r \<leftarrow> chans w c;
     m \<leftarrow> msgs w msg;
     content_length \<leftarrow> belle_sip_message_get_header w msg ''Content-Length'';
     w \<leftarrow> (if is_request m then do {
             w \<leftarrow> fix_outgoing_via E r msg w;
             rr \<leftarrow> belle_sip_message_get_headers w msg ''Record-Route'';
             fix_record_routes r rr w }
           else Some w);
     contacts \<leftarrow> belle_sip_message_get_headers w msg ''Contact'';
     w \<leftarrow> fix_contacts r contacts (None, 0) w;
     (if content_length = None \<and> \<not> strcaseeq ''udp'' (ch_transport r)
      then let (w, cl) = new_hdr w \<lparr>hname = ''Content-Length'', hbody = HContentLength 0\<rparr>
           in belle_sip_message_add_header w msg cl
      else Some w) }"

section \<open>The knot\<close>

text \<open>
  A channel notifies its listeners, whose reaction may use a channel again. The interface is built
  in levels: the listeners of level \<open>Suc n\<close> use channels of level \<open>n\<close>, and level 0 has none. What a
  transaction does when its channel becomes ready, sending its request, only uses the channel in
  state READY, which does not notify. \<open>marshal\<close> is the text form of a message.
\<close>

fun core_iface :: "env \<Rightarrow> (world \<Rightarrow> nat \<Rightarrow> string option) \<Rightarrow> nat \<Rightarrow> chan_iface" where
  "core_iface E marshal 0 = \<lparr>on_state_changed = (\<lambda>l c s w. None),
     on_sending = (\<lambda>l c m w. (case l of LProvider \<Rightarrow> channel_on_sending E c m w | LTransaction t \<Rightarrow> Some w)),
     marshal_message = marshal\<rparr>"
| "core_iface E marshal (Suc n) = \<lparr>on_state_changed = (\<lambda>l c s w. (case l of
        LProvider \<Rightarrow> channel_state_changed E c s w
      | LTransaction t \<Rightarrow> on_channel_state_changed E (core_iface E marshal n) t c s w)),
     on_sending = (\<lambda>l c m w. (case l of LProvider \<Rightarrow> channel_on_sending E c m w | LTransaction t \<Rightarrow> Some w)),
     marshal_message = marshal\<rparr>"

section \<open>The callbacks of the main loop\<close>

fun timer_callback :: "env \<Rightarrow> chan_iface \<Rightarrow> timer_name \<Rightarrow> nat \<Rightarrow> world \<Rightarrow> (world \<times> int) option" where
  "timer_callback E I TimerA t w = ict_on_timer_A E I t w"
| "timer_callback E I TimerB t w = ict_on_timer_B E I t w"
| "timer_callback E I TimerD t w = ict_on_timer_D E I t w"
| "timer_callback E I TimerM t w = ict_on_timer_M E I t w"
| "timer_callback E I TimerE t w = nict_on_timer_E E I t w"
| "timer_callback E I TimerF t w = nict_on_timer_F E I t w"
| "timer_callback E I TimerK t w = nict_on_timer_K E I t w"
| "timer_callback E I TimerG t w = ist_on_timer_G E I t w"
| "timer_callback E I TimerH t w = ist_on_timer_H E I t w"
| "timer_callback E I TimerI t w = ist_on_timer_I E I t w"
| "timer_callback E I TimerL t w = ist_on_timer_L E I t w"
| "timer_callback E I TimerJ t w = nist_on_timer_J E I t w"

text \<open>The one-shot callbacks of \<^verbatim>\<open>do_later\<close> return nothing; their source stops. The delivery of bytes by the
  source of a channel or of a listening point is in theory \<open>Reception\<close>, over a state that has the input streams; the timer of a refresher runs \<open>timer_cb\<close> of theory \<open>Refresher\<close>, whose
  \<open>main_loop_callback\<close> completes this table.\<close>

definition once :: "world option \<Rightarrow> (world \<times> int) option" where
  "once r = map_option (\<lambda>w. (w, BELLE_SIP_STOP)) r"

fun run_callback :: "env \<Rightarrow> chan_iface \<Rightarrow> callback \<Rightarrow> nat \<Rightarrow> world \<Rightarrow> (world \<times> int) option" where
  "run_callback E I (CbTimer n t) ev w = timer_callback E I n t w"
| "run_callback E I (CbDialog200OkTimer d) ev w = dialog_on_200Ok_timer E I d w"
| "run_callback E I (CbDialog200OkEnd d) ev w = dialog_on_200Ok_end E I d w"
| "run_callback E I (CbDialogProcessQueue d) ev w = once (dialog_process_queue_callback E I d w)"
| "run_callback E I (CbDialogTerminated d) ev w =
     once (invoke_listeners E (prov_listeners w) (EvDialogTerminated d) w)"
| "run_callback E I (CbChannelConnectNext c) ev w = once (belle_sip_channel_connect E I c w)"
| "run_callback E I (CbChannelStateDeferred c) ev w = once (channel_invoke_state_listener I c w)"
| "run_callback E I (CbDelayedSend c m) ev w =
     do { w \<leftarrow> on_delayed_send_do E I c m w; Some (w, BELLE_SIP_STOP) }"
| "run_callback E I (CbChannelInactive c) ev w = channel_inactive_timeout I c w"
| "run_callback E I (CbChannelIO c) ev w = None"
| "run_callback E I (CbRefresher r) ev w = None"
| "run_callback E I (CbKeepAlive i) ev w = keep_alive_timer_func E I i w"
| "run_callback E I (CbListeningPointIO i) ev w = None"

end
