(* ===== verification/InputStream.thy ===== *)
theory InputStream
  imports SipMsg
begin

text \<open>
  The input stream of a channel (\<^verbatim>\<open>src/channel.c\<close>): the bytes received are gathered in a buffer, the start of
  a message is looked for, its headers are parsed once their end is there, and its body is acquired by its length
  or by chunks. The parser of headers, generated from the grammar, and what is read of a parsed
  message are a parameter; bodies go to the memory body handler.
\<close>

section \<open>Scanning\<close>

definition NUL :: char where "NUL = CHR 0x00"
definition CR :: char where "CR = CHR 0x0D"
definition LF :: char where "LF = CHR 0x0A"

text \<open>Directives of \<^verbatim>\<open>sscanf\<close>: white space, \<^verbatim>\<open>%d\<close>, \<^verbatim>\<open>%i\<close> and \<^verbatim>\<open>%Ns\<close>; the text ends at the first NUL.\<close>

definition skip_sign :: "string \<Rightarrow> string" where
  "skip_sign s = (case s of [] \<Rightarrow> [] | c # t \<Rightarrow> if c = CHR ''+'' \<or> c = CHR ''-'' then t else s)"

definition scan_digits :: "(char \<Rightarrow> bool) \<Rightarrow> string \<Rightarrow> string option" where
  "scan_digits P s = (if takeWhile P s = [] then None else Some (dropWhile P s))"

definition scan_d :: "string \<Rightarrow> string option" where
  "scan_d s = scan_digits is_digit (skip_sign (skip_space s))"

definition scan_i :: "string \<Rightarrow> string option" where
  "scan_i s = (let t = skip_sign (skip_space s) in
     if has_prefix ''0x'' t \<or> has_prefix ''0X'' t then scan_digits is_hex_digit (drop 2 t)
     else if has_prefix ''0'' t then Some (dropWhile (\<lambda>c. is_digit c \<and> of_char c < (56 :: nat)) t)
     else scan_digits is_digit t)"

definition scan_word :: "nat \<Rightarrow> string \<Rightarrow> (string \<times> string) option" where
  "scan_word n s = (let t = skip_space s; w = take n (takeWhile (\<lambda>c. \<not> is_space c) t)
     in if w = [] then None else Some (w, drop (length w) t))"

definition scan_literal :: "string \<Rightarrow> string \<Rightarrow> string option" where
  "scan_literal p s = (if has_prefix p s then Some (drop (length p) s) else None)"

definition is_token_char :: "char \<Rightarrow> bool" where
  "is_token_char c \<longleftrightarrow> c \<in> set ''-.!%*_+`~'' \<or> c = CHR 0x27 \<or> is_digit c
     \<or> (let n = of_char (tolower c) :: nat in 97 \<le> n \<and> n \<le> 122)"

definition is_token :: "string \<Rightarrow> bool" where
  "is_token s \<longleftrightarrow> (\<forall>c\<in>set s. is_token_char c)"

text \<open>The three attempts at one place.\<close>

definition starts_response :: "string \<Rightarrow> bool" where
  "starts_response s \<longleftrightarrow> Option.bind (scan_literal ''SIP/2.0'' s) scan_d \<noteq> None"

definition starts_http_response :: "string \<Rightarrow> bool" where
  "starts_http_response s \<longleftrightarrow> Option.bind (Option.bind (scan_literal ''HTTP/1.'' s) scan_i) scan_d \<noteq> None"

definition starts_request :: "string \<Rightarrow> bool" where
  "starts_request s = (case scan_word 16 s of None \<Rightarrow> False
     | Some (method, s) \<Rightarrow> (let t = skip_space s; rest = dropWhile (\<lambda>c. \<not> is_space c) t in
         t \<noteq> rest \<and> (case scan_word 9 rest of None \<Rightarrow> False
           | Some (version, _) \<Rightarrow> is_token method \<and> (version = ''SIP/2.0'' \<or> has_prefix ''HTTP/1.'' version))))"

definition message_starts :: "string \<Rightarrow> bool" where
  "message_starts s \<longleftrightarrow> starts_response s \<or> starts_http_response s \<or> starts_request s"

text \<open>The last byte is masked while the text is scanned; leading white space is skipped.\<close>

fun start_pos_loop :: "string \<Rightarrow> nat \<Rightarrow> nat \<Rightarrow> nat option" where
  "start_pos_loop buff 0 i = None"
| "start_pos_loop buff (Suc k) i =
     (if buff ! i \<notin> {CR, LF, CHR '' '', CHR 0x09} \<and> message_starts (takeWhile (\<lambda>c. c \<noteq> NUL) (drop i (butlast buff)))
      then Some i else start_pos_loop buff k (Suc i))"

definition get_message_start_pos :: "string \<Rightarrow> nat option" where
  "get_message_start_pos buff = start_pos_loop buff (length buff - 12) 0"

section \<open>The stream\<close>

datatype input_stream_state = WAITING_MESSAGE_START | MESSAGE_AQUISITION | BODY_AQUISITION

definition belle_sip_network_buffer_size :: nat where
  "belle_sip_network_buffer_size = 65535"

text \<open>The pointers are offsets in the buffer; a message has a body when it has a body handler.\<close>

record 'm input_stream =
  st_state :: input_stream_state
  st_buff :: "nat \<Rightarrow> char"
  st_read :: nat
  st_write :: nat
  st_msg :: "'m option"
  st_body :: "string option"
  st_content_length :: int
  st_chunked :: bool
  st_chunk_size :: int
  st_chunk_read :: int
  st_incoming :: "('m \<times> string option) list"

text \<open>What is read of messages: the parser gives a message, if the text is one, and the number of bytes it read.\<close>

record 'm grammar =
  parse_raw :: "string \<Rightarrow> 'm option \<times> nat"
  is_sip :: "'m \<Rightarrow> bool"
  content_length_of :: "'m \<Rightarrow> int option"
  has_content_type :: "'m \<Rightarrow> bool"
  is_chunked :: "'m \<Rightarrow> bool"

definition bytes_at :: "(nat \<Rightarrow> char) \<Rightarrow> nat \<Rightarrow> nat \<Rightarrow> string" where
  "bytes_at buff p n = map (\<lambda>i. buff (p + i)) [0..<n]"

definition belle_sip_channel_input_stream_rewind :: "'m input_stream \<Rightarrow> 'm input_stream" where
  "belle_sip_channel_input_stream_rewind st =
     (if st_read st < st_write st
      then (let n = st_write st - st_read st in
        st\<lparr>st_buff := (\<lambda>i. if i < n then st_buff st (st_read st + i) else if i = n then NUL else st_buff st i),
           st_read := 0, st_write := n\<rparr>)
      else st\<lparr>st_read := 0, st_write := 0\<rparr>)"

definition belle_sip_channel_input_stream_reset :: "'m input_stream \<Rightarrow> 'm input_stream" where
  "belle_sip_channel_input_stream_reset st =
     (belle_sip_channel_input_stream_rewind st)\<lparr>st_state := WAITING_MESSAGE_START, st_msg := None,
        st_chunked := False, st_content_length := - 1\<rparr>"

definition belle_sip_channel_input_stream_get_buff_length :: "'m input_stream \<Rightarrow> nat" where
  "belle_sip_channel_input_stream_get_buff_length st = belle_sip_network_buffer_size - st_write st"

definition belle_sip_channel_message_ready :: "'m input_stream \<Rightarrow> 'm input_stream option" where
  "belle_sip_channel_message_ready st = do {
     m \<leftarrow> st_msg st;
     Some (belle_sip_channel_input_stream_reset (st\<lparr>st_incoming := st_incoming st @ [(m, st_body st)], st_body := None\<rparr>)) }"

definition feed_body :: "nat \<Rightarrow> 'm input_stream \<Rightarrow> 'm input_stream option" where
  "feed_body n st = do {
     b \<leftarrow> st_body st;
     Some (belle_sip_channel_input_stream_rewind (st\<lparr>st_body := Some (b @ bytes_at (st_buff st) (st_read st) n),
       st_read := st_read st + n\<rparr>)) }"

definition check_body :: "'m grammar \<Rightarrow> 'm \<Rightarrow> 'm input_stream \<Rightarrow> 'm input_stream \<times> bool" where
  "check_body G m st =
     (let st = st\<lparr>st_content_length := (case content_length_of G m of None \<Rightarrow> 0 | Some n \<Rightarrow> n)\<rparr>;
          expect_body = (if is_sip G m then 0 < st_content_length st else has_content_type G m);
          st = (if \<not> is_sip G m \<and> has_content_type G m \<and> is_chunked G m
                then st\<lparr>st_chunked := True, st_content_length := 0, st_chunk_size := - 1, st_chunk_read := 0\<rparr> else st)
      in (if expect_body then st\<lparr>st_body := Some []\<rparr> else st\<lparr>st_body := None\<rparr>, expect_body))"

text \<open>An \<^verbatim>\<open>int\<close> that meets a \<^verbatim>\<open>size_t\<close> is converted to it.\<close>

definition size_t :: "int \<Rightarrow> nat" where
  "size_t n = nat (n mod 2 ^ 64)"

text \<open>The Boolean results are True for \<^verbatim>\<open>BELLE_SIP_CONTINUE\<close> and False for \<^verbatim>\<open>BELLE_SIP_STOP\<close>.\<close>

definition acquire_body_simple :: "bool \<Rightarrow> 'm input_stream \<Rightarrow> ('m input_stream \<times> bool) option" where
  "acquire_body_simple end_of_stream st = do {
     b \<leftarrow> st_body st;
     let to_read = st_write st - st_read st;
     st \<leftarrow> (if b = [] \<and> to_read = 0 then Some st
            else feed_body (min (size_t (st_content_length st - int (length b))) to_read) st);
     b \<leftarrow> st_body st;
     (if end_of_stream \<or> size_t (st_content_length st) \<le> length b
      then do { st \<leftarrow> belle_sip_channel_message_ready st; Some (st, True) }
      else Some (st, False)) }"

text \<open>The text at a pointer, up to the NUL, and the search in it.\<close>

fun cstr :: "(nat \<Rightarrow> char) \<Rightarrow> nat \<Rightarrow> nat \<Rightarrow> string" where
  "cstr buff p 0 = []"
| "cstr buff p (Suc n) = (if buff p = NUL then [] else buff p # cstr buff (Suc p) n)"

fun strstr :: "string \<Rightarrow> string \<Rightarrow> nat option" where
  "strstr pat [] = (if pat = [] then Some 0 else None)"
| "strstr pat (c # s) = (if has_prefix pat (c # s) then Some 0 else map_option Suc (strstr pat s))"

definition text_at_read :: "'m input_stream \<Rightarrow> string" where
  "text_at_read st = cstr (st_buff st) (st_read st) (belle_sip_network_buffer_size - st_read st)"

text \<open>\<^verbatim>\<open>strtol(s, NULL, 16)\<close>: 0 without digits, bounded by \<^verbatim>\<open>LONG_MAX\<close>.\<close>

definition strtol16 :: "string \<Rightarrow> int" where
  "strtol16 s = (let t = skip_space s; u = skip_sign t;
     u = (if (has_prefix ''0x'' u \<or> has_prefix ''0X'' u) \<and> takeWhile is_hex_digit (drop 2 u) \<noteq> [] then drop 2 u else u);
     n = foldl (\<lambda>n c. 16 * n + hex_value c) 0 (takeWhile is_hex_digit u)
     in if has_prefix ''-'' t then max (- (2 ^ 63)) (- n) else min (2 ^ 63 - 1) n)"

fun skip_crlf :: "nat \<Rightarrow> string \<Rightarrow> nat" where
  "skip_crlf p (a # b # s) = (if a = CR \<and> b = LF then skip_crlf (p + 2) s else p)"
| "skip_crlf p s = p"

text \<open>One indicator of a chunk: the new stream and what to do next.\<close>

datatype chunk_step = ChunkKnown | ChunkNeedMore | ChunkEnd

definition chunk_indicator :: "'m input_stream \<Rightarrow> ('m input_stream \<times> chunk_step) option" where
  "chunk_indicator st =
     (let st = st\<lparr>st_read := skip_crlf (st_read st) (text_at_read st)\<rparr>; text = text_at_read st in
      case strstr [CR, LF] text of
        None \<Rightarrow> Some (st, ChunkNeedMore)
      | Some off \<Rightarrow>
          (let chunksize = strtol16 text in
           if 0 \<le> chunksize \<and> chunksize \<noteq> 2 ^ 63 - 1 then
             (if chunksize = 0 then do {
                st \<leftarrow> belle_sip_channel_message_ready (st\<lparr>st_read := min (st_read st + off + 4) (st_write st)\<rparr>);
                Some (st, ChunkEnd) }
              else Some (st\<lparr>st_chunk_size := sint (word_of_int chunksize :: 32 word), st_chunk_read := 0,
                            st_read := st_read st + off + 2\<rparr>, ChunkKnown))
           else Some (belle_sip_channel_input_stream_reset st, ChunkEnd)))"

partial_function (option) acquire_chuncked_body :: "'m input_stream \<Rightarrow> ('m input_stream \<times> bool) option" where
  "acquire_chuncked_body st = do {
     (st, next) \<leftarrow> (if st_chunk_size st = - 1 then chunk_indicator st else Some (st, ChunkKnown));
     (case next of
        ChunkEnd \<Rightarrow> Some (st, True)
      | ChunkNeedMore \<Rightarrow> Some (st, False)
      | ChunkKnown \<Rightarrow> do {
          let readsize = min (int (st_write st) - int (st_read st)) (st_chunk_size st - st_chunk_read st);
          st \<leftarrow> (if 0 < readsize then do {
                   st \<leftarrow> feed_body (nat readsize) st;
                   Some (st\<lparr>st_chunk_read := st_chunk_read st + readsize\<rparr>) }
                 else Some st);
          (if st_chunk_size st = st_chunk_read st
           then let st = st\<lparr>st_content_length := st_content_length st + st_chunk_size st, st_chunk_size := - 1\<rparr> in
             (if st_read st < st_write st then acquire_chuncked_body st else Some (st, False))
           else Some (st, False)) }) }"

definition acquire_body :: "bool \<Rightarrow> 'm input_stream \<Rightarrow> ('m input_stream \<times> bool) option" where
  "acquire_body end_of_stream st =
     (if st_chunked st then acquire_chuncked_body st else acquire_body_simple end_of_stream st)"

section \<open>Parsing\<close>

text \<open>
  The search for the start of a message, at the positions of the end of a line (or at any, when the buffer is full).
  When no start is found the stream is reset but the loop goes on with the old number of bytes: it then
  reads what the buffer still holds from its beginning.
\<close>

fun waiting_loop :: "nat \<Rightarrow> nat \<Rightarrow> nat \<Rightarrow> 'm input_stream \<Rightarrow> 'm input_stream \<times> bool" where
  "waiting_loop num 0 i st = (st, False)"
| "waiting_loop num (Suc k) i st =
     (if st_buff st (st_read st + i) = CR \<and> st_buff st (st_read st + Suc i) = LF
         \<or> belle_sip_channel_input_stream_get_buff_length st \<le> 1
      then (case get_message_start_pos (bytes_at (st_buff st) (st_read st) num) of
              Some off \<Rightarrow> (st\<lparr>st_read := st_read st + off, st_state := MESSAGE_AQUISITION\<rparr>, True)
            | None \<Rightarrow> waiting_loop num k (Suc i) (belle_sip_channel_input_stream_reset (st\<lparr>st_read := st_write st\<rparr>)))
      else waiting_loop num k (Suc i) st)"

datatype parse_step = StepBody | StepAgain | StepBreak

definition acquire_message :: "'m grammar \<Rightarrow> 'm input_stream \<Rightarrow> ('m input_stream \<times> parse_step) option" where
  "acquire_message G st = (let text = text_at_read st in
     case strstr [CR, LF, CR, LF] text of
       None \<Rightarrow> Some (st, StepBreak)
     | Some off \<Rightarrow>
         (let (msg, read_size) = parse_raw G (take (off + 4) text); end_of_message = st_read st + off + 4 in
          case (msg, 0 < read_size) of
            (Some m, True) \<Rightarrow>
              (let (st, body) = check_body G m (st\<lparr>st_msg := Some m, st_read := st_read st + read_size\<rparr>) in
               if body then Some (st\<lparr>st_state := BODY_AQUISITION\<rparr>, StepBody)
               else do { st \<leftarrow> belle_sip_channel_message_ready st; Some (st, StepAgain) })
          | _ \<Rightarrow> Some (st\<lparr>st_msg := msg, st_read := end_of_message, st_state := WAITING_MESSAGE_START\<rparr>, StepAgain)))"

partial_function (option) belle_sip_channel_parse_stream ::
  "'m grammar \<Rightarrow> bool \<Rightarrow> 'm input_stream \<Rightarrow> 'm input_stream option" where
  "belle_sip_channel_parse_stream G end_of_stream st =
     (if st_write st \<le> st_read st then Some st
      else do {
        let num = st_write st - st_read st;
        let (st, go) = (if st_state st = WAITING_MESSAGE_START then waiting_loop num (num - 1) 0 st else (st, True));
        (if \<not> go then Some st
         else do {
           (st, next) \<leftarrow> (if st_state st = MESSAGE_AQUISITION then acquire_message G st else Some (st, StepBody));
           (case next of
              StepBreak \<Rightarrow> Some st
            | StepAgain \<Rightarrow> belle_sip_channel_parse_stream G end_of_stream st
            | StepBody \<Rightarrow> do {
                (st, continue) \<leftarrow> acquire_body end_of_stream st;
                (if continue then belle_sip_channel_parse_stream G end_of_stream st else Some st) }) }) })"

text \<open>Bytes received: they are written at the write pointer, followed by a NUL, and parsed.\<close>

definition write_bytes :: "string \<Rightarrow> 'm input_stream \<Rightarrow> 'm input_stream" where
  "write_bytes s st = st\<lparr>st_buff := (\<lambda>i. if st_write st \<le> i \<and> i < st_write st + length s then s ! (i - st_write st)
       else if i = st_write st + length s then NUL else st_buff st i), st_write := st_write st + length s\<rparr>"

definition receive :: "'m grammar \<Rightarrow> string \<Rightarrow> 'm input_stream \<Rightarrow> 'm input_stream option" where
  "receive G s st = belle_sip_channel_parse_stream G False (write_bytes s st)"

definition input_stream_new :: "'m input_stream" where
  "input_stream_new = \<lparr>st_state = WAITING_MESSAGE_START, st_buff = (\<lambda>_. NUL), st_read = 0, st_write = 0, st_msg = None,
     st_body = None, st_content_length = - 1, st_chunked = False, st_chunk_size = 0, st_chunk_read = 0, st_incoming = []\<rparr>"

end
