(* ===== verification/Escape.thy ===== *)
theory Escape
  imports Prelude
begin

text \<open>
  The escaping of texts (\<^verbatim>\<open>src/belle_sip_utils.c\<close>): the percent escapes of URI components and the backslash
  escapes of display names. A text is what precedes the terminating NUL. The buffer that \<^verbatim>\<open>belle_sip_escape\<close>
  writes to has its size in the model, and a write beyond it gives None.
\<close>

section \<open>Reading escapes\<close>

text \<open>\<^verbatim>\<open>sscanf(s,"%02x",&tmp)\<close>: None leaves the variable unset.\<close>

definition scan_x2 :: "string \<Rightarrow> int option" where
  "scan_x2 s = (case skip_space s of
       [] \<Rightarrow> None
     | c # r \<Rightarrow>
         (let second = (case r of d # _ \<Rightarrow> if is_hex_digit d then Some (hex_value d) else None | [] \<Rightarrow> None) in
          if c = CHR ''+'' then second
          else if c = CHR ''-'' then map_option uminus second
          else if is_hex_digit c
          then Some (case second of Some d \<Rightarrow> 16 * hex_value c + d | None \<Rightarrow> hex_value c)
          else None))"

definition to_char :: "int \<Rightarrow> char" where
  "to_char n = char_of (nat (n mod 256))"

text \<open>
  The character at a place and the number of bytes it takes. The value of an escape that is not a number is
  the one of an uninitialised variable, and the three bytes of an escape cut by the end of the text pass its NUL: both
  are None.
\<close>

fun belle_sip_get_char :: "string \<Rightarrow> nat \<Rightarrow> (char \<times> nat) option" where
  "belle_sip_get_char [] n = None"
| "belle_sip_get_char (c # s) n =
     (if c = CHR ''%'' \<and> 2 < n
      then if length s < 2 then None else map_option (\<lambda>v. (to_char v, 3)) (scan_x2 s)
      else Some (c, 1))"

fun unescape_loop :: "nat \<Rightarrow> string \<Rightarrow> string option" where
  "unescape_loop k [] = Some []"
| "unescape_loop 0 (c # s) = None"
| "unescape_loop (Suc k) (c # s) = do {
     (x, n) \<leftarrow> belle_sip_get_char (c # s) 3;
     map_option ((#) x) (unescape_loop k (drop n (c # s))) }"

definition belle_sip_to_unescaped_string :: "string \<Rightarrow> string option" where
  "belle_sip_to_unescaped_string s = unescape_loop (length s) s"

section \<open>Writing escapes\<close>

text \<open>The tables of the characters that are not escaped.\<close>

type_synonym noescapes = "nat \<Rightarrow> bool"

definition noescapes_add_list :: "string \<Rightarrow> noescapes \<Rightarrow> noescapes" where
  "noescapes_add_list allowed t = (\<lambda>i. i \<in> of_char ` set allowed \<or> t i)"

definition noescapes_add_range :: "char \<Rightarrow> char \<Rightarrow> noescapes \<Rightarrow> noescapes" where
  "noescapes_add_range a b t = (\<lambda>i. of_char a \<le> i \<and> i \<le> of_char b \<or> t i)"

definition noescapes_add_alfanums :: "noescapes \<Rightarrow> noescapes" where
  "noescapes_add_alfanums t = noescapes_add_range (CHR ''a'') (CHR ''z'') (noescapes_add_range (CHR ''A'') (CHR ''Z'')
     (noescapes_add_range (CHR ''0'') (CHR ''9'') t))"

definition MARK :: string where
  "MARK = ''-_.!~*'' @ [CHR 0x27] @ ''()''"

definition get_sip_uri_username_noescapes :: noescapes where
  "get_sip_uri_username_noescapes =
     noescapes_add_list ''&=+$,;?/'' (noescapes_add_list MARK (noescapes_add_alfanums (\<lambda>_. False)))"

definition get_sip_uri_userpasswd_noescapes :: noescapes where
  "get_sip_uri_userpasswd_noescapes =
     noescapes_add_list ''&=+$,'' (noescapes_add_list MARK (noescapes_add_alfanums (\<lambda>_. False)))"

definition get_sip_uri_parameter_noescapes :: noescapes where
  "get_sip_uri_parameter_noescapes =
     noescapes_add_list MARK (noescapes_add_list (''-.!%*_+`'' @ [CHR 0x27] @ ''~'')
       (noescapes_add_alfanums (noescapes_add_list ''[]/:&+$'' (\<lambda>_. False))))"

definition get_sip_uri_header_noescapes :: noescapes where
  "get_sip_uri_header_noescapes =
     noescapes_add_list ''[]/?:+$'' (noescapes_add_list MARK (noescapes_add_alfanums (\<lambda>_. False)))"

definition get_generic_uri_query_noescapes :: noescapes where
  "get_generic_uri_query_noescapes =
     noescapes_add_list ''=&'' (noescapes_add_list MARK (noescapes_add_alfanums (\<lambda>_. False)))"

definition get_generic_uri_path_noescapes :: noescapes where
  "get_generic_uri_path_noescapes =
     noescapes_add_list ''/'' (noescapes_add_list '';'' (noescapes_add_list '':@&=+$,''
       (noescapes_add_list MARK (noescapes_add_alfanums (\<lambda>_. False)))))"

definition hex_digit :: "nat \<Rightarrow> char" where
  "hex_digit n = ''0123456789abcdef'' ! n"

definition escaped_char :: "char \<Rightarrow> string" where
  "escaped_char c = [CHR ''%'', hex_digit (of_char c div 16), hex_digit (of_char c mod 16)]"

text \<open>
  The output buffer: its bytes, None where they were not written yet. \<open>store_byte\<close> writes one byte of a buffer of \<open>n\<close>
  bytes; \<open>snprintf_at\<close> writes a text with its NUL, cut to the room given, where 0 writes nothing.
\<close>

type_synonym out_buffer = "nat \<Rightarrow> char option"

definition store_byte :: "nat \<Rightarrow> nat \<Rightarrow> char \<Rightarrow> out_buffer \<Rightarrow> out_buffer option" where
  "store_byte n i c b = (if i < n then Some (b(i \<mapsto> c)) else None)"

fun store_text :: "nat \<Rightarrow> nat \<Rightarrow> string \<Rightarrow> out_buffer \<Rightarrow> out_buffer option" where
  "store_text n i [] b = Some b"
| "store_text n i (c # s) b = Option.bind (store_byte n i c b) (store_text n (Suc i) s)"

definition snprintf_at :: "nat \<Rightarrow> nat \<Rightarrow> nat \<Rightarrow> string \<Rightarrow> out_buffer \<Rightarrow> out_buffer option" where
  "snprintf_at n i room s b =
     (if room = 0 then Some b else store_text n i (take (room - 1) s @ [CHR 0x00]) b)"

definition size_of_int :: "int \<Rightarrow> nat" where
  "size_of_int n = nat (n mod 2 ^ 64)"

text \<open>
  The loop: \<open>sz\<close> is \<^verbatim>\<open>outbuf_size\<close>, one less than the bytes allocated, and \<open>i\<close> the output index. The test that makes
  the buffer grow compares a \<^verbatim>\<open>size_t\<close> with the \<^verbatim>\<open>int\<close> \<open>i - 3\<close>, and so does the room given to \<^verbatim>\<open>snprintf\<close>.
\<close>

fun escape_loop :: "noescapes \<Rightarrow> nat \<Rightarrow> string \<Rightarrow> nat \<Rightarrow> nat \<Rightarrow> out_buffer \<Rightarrow> (nat \<times> nat \<times> out_buffer) option" where
  "escape_loop t orig [] sz i b = Some (sz, i, b)"
| "escape_loop t orig (c # s) sz i b =
     (let sz = (if sz < size_of_int (int i - 3) then sz + max (orig div 2) 3 else sz) in
      if t (of_char c)
      then Option.bind (store_byte (sz + 1) i c b) (escape_loop t orig s sz (i + 1))
      else Option.bind (snprintf_at (sz + 1) i (size_of_int (int sz - int i)) (escaped_char c) b)
             (escape_loop t orig s sz (i + 3)))"

text \<open>The text read back from the buffer ends at its first NUL; reading a byte that was not written is None.\<close>

fun read_text :: "nat \<Rightarrow> nat \<Rightarrow> out_buffer \<Rightarrow> string option" where
  "read_text 0 i b = None"
| "read_text (Suc k) i b = (case b i of None \<Rightarrow> None
     | Some c \<Rightarrow> if c = CHR 0x00 then Some [] else map_option ((#) c) (read_text k (Suc i) b))"

definition belle_sip_escape :: "string \<Rightarrow> noescapes \<Rightarrow> string option" where
  "belle_sip_escape s t = do {
     (sz, i, b) \<leftarrow> escape_loop t (length s) s (length s) 0 (\<lambda>_. None);
     b \<leftarrow> store_byte (sz + 1) i (CHR 0x00) b;
     read_text (i + 1) 0 b }"

definition belle_sip_uri_to_escaped_username :: "string \<Rightarrow> string option" where
  "belle_sip_uri_to_escaped_username s = belle_sip_escape s get_sip_uri_username_noescapes"

definition belle_sip_uri_to_escaped_userpasswd :: "string \<Rightarrow> string option" where
  "belle_sip_uri_to_escaped_userpasswd s = belle_sip_escape s get_sip_uri_userpasswd_noescapes"

definition belle_sip_uri_to_escaped_parameter :: "string \<Rightarrow> string option" where
  "belle_sip_uri_to_escaped_parameter s = belle_sip_escape s get_sip_uri_parameter_noescapes"

definition belle_sip_uri_to_escaped_header :: "string \<Rightarrow> string option" where
  "belle_sip_uri_to_escaped_header s = belle_sip_escape s get_sip_uri_header_noescapes"

definition belle_generic_uri_to_escaped_query :: "string \<Rightarrow> string option" where
  "belle_generic_uri_to_escaped_query s = belle_sip_escape s get_generic_uri_query_noescapes"

definition belle_generic_uri_to_escaped_path :: "string \<Rightarrow> string option" where
  "belle_generic_uri_to_escaped_path s = belle_sip_escape s get_generic_uri_path_noescapes"

section \<open>Backslashes and quotes\<close>

text \<open>A backslash that ends the text makes the loop pass its NUL (None).\<close>

fun belle_sip_string_to_backslash_less_unescaped_string :: "string \<Rightarrow> string option" where
  "belle_sip_string_to_backslash_less_unescaped_string [] = Some []"
| "belle_sip_string_to_backslash_less_unescaped_string [c] = (if c = CHR 0x5C then None else Some [c])"
| "belle_sip_string_to_backslash_less_unescaped_string (c # d # s) =
     (if c = CHR 0x5C then map_option ((#) d) (belle_sip_string_to_backslash_less_unescaped_string s)
      else map_option ((#) c) (belle_sip_string_to_backslash_less_unescaped_string (d # s)))"

definition BELLE_SIP_MAX_TO_STRING_SIZE :: nat where
  "BELLE_SIP_MAX_TO_STRING_SIZE = 2048"

text \<open>The buffer is on the stack: what does not fit is left out.\<close>

fun backslash_loop :: "string \<Rightarrow> nat \<Rightarrow> string" where
  "backslash_loop [] i = []"
| "backslash_loop (c # s) i =
     (if i < BELLE_SIP_MAX_TO_STRING_SIZE - 2
      then if c = CHR 0x22 \<or> c = CHR 0x5C then CHR 0x5C # c # backslash_loop s (i + 2)
        else c # backslash_loop s (i + 1)
      else [])"

definition belle_sip_display_name_to_backslashed_escaped_string :: "string \<Rightarrow> string" where
  "belle_sip_display_name_to_backslashed_escaped_string s = backslash_loop s 0"

text \<open>The first and last character are left out; a text of one character copies beyond its end (None).\<close>

definition belle_sip_str_dup_and_unquote_string :: "string \<Rightarrow> string option" where
  "belle_sip_str_dup_and_unquote_string s = (if length s < 2 then None else Some (butlast (tl s)))"

fun unquote_loop :: "string \<Rightarrow> string \<Rightarrow> string option" where
  "unquote_loop str [] = Some str"
| "unquote_loop str (c # p) =
     (if c = CHR '' '' \<or> c = CHR 0x09 then unquote_loop str p
      else if c = CHR 0x22 then belle_sip_str_dup_and_unquote_string (c # p)
      else Some str)"

definition belle_sip_unquote_strdup :: "string \<Rightarrow> string option" where
  "belle_sip_unquote_strdup str = unquote_loop str str"

section \<open>What the escapes give\<close>

definition escape_text :: "noescapes \<Rightarrow> string \<Rightarrow> string" where
  "escape_text t s = concat (map (\<lambda>c. if t (of_char c) then [c] else escaped_char c) s)"

definition escapes :: "noescapes \<Rightarrow> string \<Rightarrow> nat" where
  "escapes t s = length (filter (\<lambda>c. \<not> t (of_char c)) s)"

lemma escape_text_simps [simp]:
  "escape_text t [] = []"
  "escape_text t (c # s) = (if t (of_char c) then [c] else escaped_char c) @ escape_text t s"
  by (simp_all add: escape_text_def)

lemma escapes_simps [simp]:
  "escapes t [] = 0" "escapes t (c # s) = (if t (of_char c) then escapes t s else Suc (escapes t s))"
  by (simp_all add: escapes_def)

lemma length_escape_text: "length (escape_text t s) = length s + 2 * escapes t s"
  by (induction s) (auto simp: escaped_char_def)

lemma hex_digits: "n < 16 \<Longrightarrow> is_hex_digit (hex_digit n) \<and> hex_value (hex_digit n) = int n \<and> \<not> is_space (hex_digit n)
    \<and> hex_digit n \<notin> {CHR ''+'', CHR ''-'', CHR 0x00}"
proof -
  have "list_all (\<lambda>n. is_hex_digit (hex_digit n) \<and> hex_value (hex_digit n) = int n \<and> \<not> is_space (hex_digit n)
      \<and> hex_digit n \<notin> {CHR ''+'', CHR ''-'', CHR 0x00}) [0..<16]"
    by code_simp
  moreover assume "n < 16"
  ultimately show ?thesis
    by (simp only: list_all_iff set_upt atLeastLessThan_iff) simp
qed

lemma char_code_bound: "(of_char c :: nat) < 256"
  by (rule nat_of_char_less_256)

lemma code_halves: "(of_char c :: nat) div 16 < 16" "(of_char c :: nat) mod 16 < 16"
proof -
  have "(of_char c :: nat) < 256"
    by (rule char_code_bound)
  then show "(of_char c :: nat) div 16 < 16" "(of_char c :: nat) mod 16 < 16"
    using less_mult_imp_div_less [of "of_char c" 16 16] by auto
qed

section \<open>Unescaping an escaped text\<close>

lemma scan_x2_digits:
  assumes "a < 16" "b < 16"
  shows "scan_x2 (hex_digit a # hex_digit b # s) = Some (16 * int a + int b)"
  using hex_digits [OF assms(1)] hex_digits [OF assms(2)] by (simp add: scan_x2_def skip_space_def)

lemma get_char_escaped: "belle_sip_get_char (escaped_char c @ s) 3 = Some (c, 3)"
proof -
  have "16 * (int (of_char c div 16)) + int (of_char c mod 16) = int (of_char c)"
    by (metis of_nat_add of_nat_mult of_nat_numeral mult_div_mod_eq)
  then show ?thesis
    using char_code_bound [of c]
    by (simp add: escaped_char_def scan_x2_digits code_halves to_char_def)
qed

lemma unescape_escaped:
  "\<not> t 37 \<Longrightarrow> length s \<le> k \<Longrightarrow> unescape_loop k (escape_text t s) = Some s"
proof (induction s arbitrary: k)
  case (Cons c s)
  then obtain k' where k: "k = Suc k'" "length s \<le> k'"
    by (cases k) auto
  show ?case
  proof (cases "t (of_char c)")
    case True
    then have "c \<noteq> CHR ''%''"
      using Cons.prems(1) by auto
    then show ?thesis
      using True Cons k by simp
  next
    case False
    have "escaped_char c @ escape_text t s \<noteq> []"
      by (simp add: escaped_char_def)
    then obtain x y where xy: "escaped_char c @ escape_text t s = x # y"
      by (cases "escaped_char c @ escape_text t s") auto
    have "drop 3 (x # y) = escape_text t s"
      unfolding xy [symmetric] by (simp add: escaped_char_def)
    then show ?thesis
      using False Cons k get_char_escaped [of c "escape_text t s"] by (simp add: xy del: drop_Suc_Cons)
  qed
qed simp

section \<open>The room for an escaped text\<close>

definition holds :: "out_buffer \<Rightarrow> string \<Rightarrow> bool" where
  "holds b w \<longleftrightarrow> (\<forall>j < length w. b j = Some (w ! j))"

lemma holds_store: "holds b w \<Longrightarrow> holds (b(length w \<mapsto> c)) (w @ [c])"
  by (auto simp: holds_def nth_append less_Suc_eq)

lemma holds_prefix: "holds b (w @ v) \<Longrightarrow> holds b w"
  by (auto simp: holds_def nth_append)

lemma store_text_holds:
  "holds b w \<Longrightarrow> length w + length s \<le> n \<Longrightarrow> \<exists>b'. store_text n (length w) s b = Some b' \<and> holds b' (w @ s)"
proof (induction s arbitrary: w b)
  case (Cons c s)
  have "\<exists>b'. store_text n (length (w @ [c])) s (b(length w \<mapsto> c)) = Some b' \<and> holds b' ((w @ [c]) @ s)"
    by (rule Cons.IH [OF holds_store [OF Cons.prems(1)]]) (use Cons.prems(2) in simp)
  then show ?case
    using Cons.prems(2) by (simp add: store_byte_def fun_upd_def)
qed simp

lemma snprintf_room:
  assumes "holds b w" "length w + length s < sz"
  shows "\<exists>b'. snprintf_at (sz + 1) (length w) (sz - length w) s b = Some b' \<and> holds b' (w @ s)"
proof -
  have "take (sz - length w - 1) s = s"
    using assms(2) by simp
  moreover obtain b' where "store_text (sz + 1) (length w) (s @ [CHR 0x00]) b = Some b'" "holds b' (w @ s @ [CHR 0x00])"
    using store_text_holds [OF assms(1), of "s @ [CHR 0x00]" "sz + 1"] assms(2) by auto
  ultimately show ?thesis
    using assms(2) holds_prefix [of b' "w @ s" "[CHR 0x00]"] by (auto simp: snprintf_at_def)
qed

lemma size_of_int_small: "i \<le> n \<Longrightarrow> n < 2 ^ 64 \<Longrightarrow> size_of_int (int n - int i) = n - i"
  by (simp add: size_of_int_def of_nat_diff [symmetric] del: of_nat_diff)

lemma growth_test: "i \<le> sz \<Longrightarrow> sz < 2 ^ 63 \<Longrightarrow> sz < size_of_int (int i - 3) \<longleftrightarrow> i < 3"
proof (cases "i < 3")
  case True
  then have "i \<in> {0, 1, 2}"
    by auto
  moreover assume "sz < 2 ^ 63"
  ultimately show ?thesis
    by (auto simp: size_of_int_def)
next
  case False
  moreover assume "i \<le> sz" "sz < 2 ^ 63"
  ultimately have "size_of_int (int i - int 3) = i - 3"
    by (intro size_of_int_small) auto
  then show ?thesis
    using False \<open>i \<le> sz\<close> by simp
qed

lemma room_grows: "a < (y :: nat) \<Longrightarrow> a < (if P then y + g else y)"
  by simp

lemma escape_loop_room:
  assumes "g = max (orig div 2) 3"
  shows "holds b w \<Longrightarrow> length w \<le> sz \<Longrightarrow> sz + (3 - length w) * g < 2 ^ 63
    \<Longrightarrow> length w + length (escape_text t s) < (if length w < 3 then sz + g else sz)
    \<Longrightarrow> \<exists>b' sz'. escape_loop t orig s sz (length w) b = Some (sz', length w + length (escape_text t s), b')
      \<and> holds b' (w @ escape_text t s) \<and> length w + length (escape_text t s) \<le> sz'"
proof (induction s arbitrary: w sz b)
  case (Cons c s)
  let ?sz = "if length w < 3 then sz + g else sz"
  let ?v = "if t (of_char c) then [c] else escaped_char c"
  have grow: "(if sz < size_of_int (int (length w) - 3) then sz + max (orig div 2) 3 else sz) = ?sz"
    using growth_test [OF Cons.prems(2)] Cons.prems(3) assms by simp
  have fits: "length w + length ?v + length (escape_text t s) < ?sz"
    using Cons.prems(4) by simp
  have step: "\<exists>b'. (if t (of_char c) then store_byte (?sz + 1) (length w) c b
      else snprintf_at (?sz + 1) (length w) (size_of_int (int ?sz - int (length w))) (escaped_char c) b) = Some b'
      \<and> holds b' (w @ ?v)"
  proof (cases "t (of_char c)")
    case True
    then show ?thesis
      using fits holds_store [OF Cons.prems(1)] by (simp add: store_byte_def)
  next
    case False
    have "size_of_int (int ?sz - int (length w)) = ?sz - length w"
    proof (rule size_of_int_small)
      show "length w \<le> ?sz"
        using fits by simp
      have "?sz \<le> sz + (3 - length w) * g"
        by (cases "3 - length w") auto
      also have "\<dots> < 2 ^ 63"
        by (rule Cons.prems(3))
      also have "(2 :: nat) ^ 63 < 2 ^ 64"
        by simp
      finally show "?sz < 2 ^ 64" .
    qed
    then show ?thesis
      using False fits snprintf_room [OF Cons.prems(1), of "escaped_char c" ?sz] by simp
  qed
  then obtain b' where b': "(if t (of_char c) then store_byte (?sz + 1) (length w) c b
      else snprintf_at (?sz + 1) (length w) (size_of_int (int ?sz - int (length w))) (escaped_char c) b) = Some b'"
      "holds b' (w @ ?v)"
    by blast
  have v: "length ?v = (if t (of_char c) then 1 else 3)"
    by (simp add: escaped_char_def)
  have unfold: "escape_loop t orig (c # s) sz (length w) b = escape_loop t orig s ?sz (length (w @ ?v)) b'"
    using b'(1) v unfolding escape_loop.simps Let_def grow by (cases "t (of_char c)") simp_all
  have "\<exists>b'' sz'. escape_loop t orig s ?sz (length (w @ ?v)) b' = Some (sz', length (w @ ?v) + length (escape_text t s), b'')
      \<and> holds b'' ((w @ ?v) @ escape_text t s) \<and> length (w @ ?v) + length (escape_text t s) \<le> sz'"
  proof (rule Cons.IH [OF b'(2)])
    show "length (w @ ?v) \<le> ?sz"
      using fits by simp
    have "(if length w < 3 then g else 0) + (3 - length (w @ ?v)) * g \<le> (3 - length w) * g"
      by (cases "length w < 3") (auto simp: v add_mult_distrib [symmetric] simp flip: mult_Suc)
    then show "?sz + (3 - length (w @ ?v)) * g < 2 ^ 63"
      using Cons.prems(3) by (simp split: if_splits)
    show "length (w @ ?v) + length (escape_text t s) < (if length (w @ ?v) < 3 then ?sz + g else ?sz)"
      using fits unfolding length_append by (rule room_grows)
  qed
  then show ?case
    unfolding unfold by (simp only: length_append append.assoc escape_text_simps(2) add.assoc)
qed (use holds_def in auto)

lemma read_text_holds:
  "holds b w \<Longrightarrow> b (length w) = Some (CHR 0x00) \<Longrightarrow> CHR 0x00 \<notin> set w \<Longrightarrow> i \<le> length w
    \<Longrightarrow> read_text (length w - i + 1) i b = Some (drop i w)"
proof (induction "length w - i" arbitrary: i)
  case 0
  then show ?case
    by simp
next
  case (Suc k)
  then have i: "i < length w" "length w - i = Suc k" "length w - Suc i = k"
    by auto
  have "w ! i \<noteq> CHR 0x00" "b i = Some (w ! i)"
    using Suc.prems i(1) nth_mem by (fastforce simp: holds_def)+
  moreover have "read_text (length w - Suc i + 1) (Suc i) b = Some (drop (Suc i) w)"
    using Suc i by (intro Suc.hyps(1)) auto
  ultimately show ?case
    using i Cons_nth_drop_Suc [OF i(1)] by simp
qed

lemma escaped_char_no_nul: "CHR 0x00 \<notin> set (escaped_char c)"
  using hex_digits [OF code_halves(1) [of c]] hex_digits [OF code_halves(2) [of c]] by (auto simp: escaped_char_def)

lemma escape_text_no_nul: "CHR 0x00 \<notin> set s \<Longrightarrow> CHR 0x00 \<notin> set (escape_text t s)"
  using escaped_char_no_nul by (induction s) auto

lemma escape_gives_text:
  assumes "CHR 0x00 \<notin> set s" "length s < 2 ^ 29" "2 * escapes t s < max (length s div 2) 3"
  shows "belle_sip_escape s t = Some (escape_text t s)"
proof -
  let ?g = "max (length s div 2) 3"
  have "3 * ?g < 2 ^ 63 - length s"
    using assms(2) by (auto simp: max_def)
  then have "\<exists>b' sz'. escape_loop t (length s) s (length s) 0 (\<lambda>_. None) = Some (sz', length (escape_text t s), b')
      \<and> holds b' (escape_text t s) \<and> length (escape_text t s) \<le> sz'"
    using escape_loop_room [where w = "[]" and b = "\<lambda>_. None" and sz = "length s" and orig = "length s" and s = s and t = t,
        OF refl] assms(3) by (simp add: holds_def length_escape_text)
  then obtain b sz where b: "escape_loop t (length s) s (length s) 0 (\<lambda>_. None) = Some (sz, length (escape_text t s), b)"
      "holds b (escape_text t s)" "length (escape_text t s) \<le> sz"
    by auto
  let ?b = "b(length (escape_text t s) \<mapsto> CHR 0x00)"
  have "holds ?b (escape_text t s)"
    using b(2) by (simp add: holds_def)
  then have "read_text (length (escape_text t s) + 1) 0 ?b = Some (escape_text t s)"
    using read_text_holds [of ?b "escape_text t s" 0] escape_text_no_nul [OF assms(1)] by simp
  then show ?thesis
    using b by (simp add: belle_sip_escape_def store_byte_def)
qed

section \<open>The escapes that pass the end of the buffer\<close>

lemma store_text_beyond: "n \<le> i \<Longrightarrow> s \<noteq> [] \<Longrightarrow> store_text n i s b = None"
  by (cases s) (simp_all add: store_byte_def)

lemma size_of_int_negative:
  assumes "0 < k" "k < 2 ^ 60"
  shows "size_of_int (- int k) \<noteq> 0"
proof
  assume "size_of_int (- int k) = 0"
  moreover have "0 \<le> - int k mod 2 ^ 64"
    by simp
  ultimately have "- int k mod 2 ^ 64 = 0"
    by (simp add: size_of_int_def)
  then have "2 ^ 64 dvd int k"
    by (simp add: dvd_eq_mod_eq_0 [symmetric])
  then have "(2 :: int) ^ 64 \<le> int k"
    using assms(1) by (intro zdvd_imp_le) auto
  then show False
    using assms(2) by simp
qed

lemma escape_loop_all:
  "list_all (\<lambda>c. \<not> t (of_char c)) s \<Longrightarrow> 3 \<le> i \<Longrightarrow> i - 3 \<le> sz \<Longrightarrow> sz < 2 ^ 60
    \<Longrightarrow> i + 3 * length s < 2 ^ 60
    \<Longrightarrow> escape_loop t orig s sz i b = None \<or> (\<exists>b'. escape_loop t orig s sz i b = Some (sz, i + 3 * length s, b'))"
proof (induction s arbitrary: i b)
  case (Cons c s)
  have grow: "\<not> sz < size_of_int (int i - 3)"
    using Cons.prems(2,3,5) size_of_int_small [of 3 i] by simp
  show ?case
  proof (cases "i \<le> sz")
    case True
    have "escape_loop t orig s sz (i + 3) a = None \<or> (\<exists>b'. escape_loop t orig s sz (i + 3) a = Some (sz, i + 3 + 3 * length s, b'))" for a
      by (rule Cons.IH) (use Cons.prems True in auto)
    then show ?thesis
      using Cons.prems(1) grow
      by (cases "snprintf_at (sz + 1) i (size_of_int (int sz - int i)) (escaped_char c) b") (auto simp: Let_def add.assoc)
  next
    case False
    have "size_of_int (- int (i - sz)) \<noteq> 0"
      by (rule size_of_int_negative) (use False Cons.prems(5) in auto)
    then have "size_of_int (int sz - int i) \<noteq> 0"
      using False by (simp add: of_nat_diff)
    then have "snprintf_at (sz + 1) i (size_of_int (int sz - int i)) (escaped_char c) b = None"
      using False by (simp add: snprintf_at_def store_text_beyond)
    then show ?thesis
      using Cons.prems(1) grow by (simp add: Let_def)
  qed
qed simp

lemma escape_overrun:
  assumes "2 \<le> length s" "length s < 2 ^ 29" "list_all (\<lambda>c. \<not> t (of_char c)) s"
  shows "belle_sip_escape s t = None"
proof -
  obtain c s' where s: "s = c # s'" "s' \<noteq> []"
    using assms(1) by (cases s) (auto simp: neq_Nil_conv Suc_le_length_iff)
  let ?sz = "length s + max (length s div 2) 3"
  have size: "?sz < 2 ^ 60" "3 + 3 * length s' < 2 ^ 60" "?sz < 3 + 3 * length s'"
    using assms(2) s by (auto simp: max_def neq_Nil_conv)
  have "length s < size_of_int (- 3)"
    using assms(2) by (simp add: size_of_int_def)
  then have "escape_loop t (length s) s (length s) 0 b
      = Option.bind (snprintf_at (?sz + 1) 0 (size_of_int (int ?sz)) (escaped_char c) b) (escape_loop t (length s) s' ?sz 3)" for b
    using assms(3) by (simp add: s(1) Let_def)
  moreover have "escape_loop t (length s) s' ?sz 3 b = None \<or> (\<exists>b'. escape_loop t (length s) s' ?sz 3 b = Some (?sz, 3 + 3 * length s', b'))" for b
    using assms(3) size s(1) by (intro escape_loop_all) auto
  ultimately have "escape_loop t (length s) s (length s) 0 (\<lambda>_. None) = None
      \<or> (\<exists>b. escape_loop t (length s) s (length s) 0 (\<lambda>_. None) = Some (?sz, 3 + 3 * length s', b))"
    by (cases "snprintf_at (?sz + 1) 0 (size_of_int (int ?sz)) (escaped_char c) (\<lambda>_. None)") simp_all
  then show ?thesis
    using size(3) by (auto simp: belle_sip_escape_def store_byte_def)
qed

text \<open>C21. A text whose characters do not need many escapes is escaped as it should, and unescaping gives it back, whatever
  the table of characters, when it does not let the percent sign through.\<close>

theorem escape_unescape:
  assumes "CHR 0x00 \<notin> set s" "length s < 2 ^ 29" "2 * escapes t s < max (length s div 2) 3" "\<not> t 37"
  shows "belle_sip_escape s t = Some (escape_text t s)
    \<and> Option.bind (belle_sip_escape s t) belle_sip_to_unescaped_string = Some s"
  using escape_gives_text [OF assms(1-3)] unescape_escaped [of t s "length (escape_text t s)"] assms(4)
  by (simp add: belle_sip_to_unescaped_string_def length_escape_text)

text \<open>Two or more characters, all to be escaped, make \<^verbatim>\<open>belle_sip_escape\<close> write beyond the end of its buffer.\<close>

lemma escape_overflows:
  assumes "2 \<le> length s" "length s < 2 ^ 29" "list_all (\<lambda>c. \<not> t (of_char c)) s"
  shows "belle_sip_escape s t = None"
  using assms by (rule escape_overrun)

theorem escape_overflows_witness: "belle_sip_uri_to_escaped_username ''@ '' = None"
proof -
  have "list_all (\<lambda>c. \<not> get_sip_uri_username_noescapes (of_char c)) ''@ ''"
    by code_simp
  then show ?thesis
    unfolding belle_sip_uri_to_escaped_username_def by (intro escape_overflows) simp_all
qed

theorem escape_unescape_witness:
  "belle_sip_uri_to_escaped_username ''bob@home'' = Some ''bob%40home''
   \<and> Option.bind (belle_sip_uri_to_escaped_username ''bob@home'') belle_sip_to_unescaped_string = Some ''bob@home''"
proof -
  have 1: "CHR 0x00 \<notin> set ''bob@home''" "length ''bob@home'' < 2 ^ 29"
    by simp_all
  have 2: "2 * escapes get_sip_uri_username_noescapes ''bob@home'' < max (length ''bob@home'' div 2) 3"
    by code_simp
  have 3: "\<not> get_sip_uri_username_noescapes 37"
    by code_simp
  have 4: "escape_text get_sip_uri_username_noescapes ''bob@home'' = ''bob%40home''"
    by code_simp
  show ?thesis
    unfolding belle_sip_uri_to_escaped_username_def 4 [symmetric] by (rule escape_unescape [OF 1 2 3])
qed

text \<open>The table of parameters lets the percent sign through: a parameter that holds one is not read back.\<close>

lemma parameter_percent:
  "belle_sip_uri_to_escaped_parameter ''%41'' = Some ''%41''" "belle_sip_to_unescaped_string ''%41'' = Some ''A''"
proof -
  have "2 * escapes get_sip_uri_parameter_noescapes ''%41'' < max (length ''%41'' div 2) 3"
    "escape_text get_sip_uri_parameter_noescapes ''%41'' = ''%41''"
    by code_simp+
  then show "belle_sip_uri_to_escaped_parameter ''%41'' = Some ''%41''"
    using escape_gives_text [of "''%41''" get_sip_uri_parameter_noescapes]
    by (simp add: belle_sip_uri_to_escaped_parameter_def)
  show "belle_sip_to_unescaped_string ''%41'' = Some ''A''"
    by code_simp
qed

section \<open>Display names\<close>

lemma backslash_char:
  "c = CHR 0x5C \<Longrightarrow> belle_sip_string_to_backslash_less_unescaped_string (c # d # s)
     = map_option ((#) d) (belle_sip_string_to_backslash_less_unescaped_string s)"
  "c \<noteq> CHR 0x5C \<Longrightarrow> belle_sip_string_to_backslash_less_unescaped_string (c # s)
     = map_option ((#) c) (belle_sip_string_to_backslash_less_unescaped_string s)"
  by (cases s; simp)+

lemma backslash_round:
  "i + 2 * length s \<le> 2046 \<Longrightarrow> belle_sip_string_to_backslash_less_unescaped_string (backslash_loop s i) = Some s"
  by (induction s arbitrary: i)
    (auto simp: BELLE_SIP_MAX_TO_STRING_SIZE_def backslash_char simp del: belle_sip_string_to_backslash_less_unescaped_string.simps(2-))

text \<open>A display name that fits the buffer is given back when the backslashes put in it are taken out.\<close>

lemma display_name_round_trip:
  assumes "length s \<le> 1023"
  shows "belle_sip_string_to_backslash_less_unescaped_string (belle_sip_display_name_to_backslashed_escaped_string s) = Some s"
  unfolding belle_sip_display_name_to_backslashed_escaped_string_def by (rule backslash_round) (use assms in simp)

lemma display_name_sample:
  "belle_sip_string_to_backslash_less_unescaped_string (belle_sip_display_name_to_backslashed_escaped_string [CHR 0x22, CHR ''a'', CHR 0x5C])
   = Some [CHR 0x22, CHR ''a'', CHR 0x5C]"
  by (rule display_name_round_trip) simp

end
