(* ===== verification/Objects.thy ===== *)
theory Objects
  imports Prelude
begin

text \<open>
  The object system (\<^verbatim>\<open>src/belle_sip_object.c\<close>): classes and casts, reference counts, weak references, pools of unowned
  objects, the data store of an object (whose data have the type \<^typ>\<open>'d\<close>), and its text form. The functions that the objects carry (those that
  destroy a class or a datum, and those of weak references) are a parameter that acts on the world.
\<close>

section \<open>Classes\<close>

text \<open>The table of a class, with its parent: there is one table for each class, so tables are compared as pointers are.\<close>

datatype vptr = VPtr (vp_id: nat) (vp_unowned: bool) (vp_interfaces: "nat list") (vp_clonable: bool) (vp_parent: "vptr option")

fun ancestors :: "vptr \<Rightarrow> vptr list" where
  "ancestors (VPtr i u f c p) = VPtr i u f c p # (case p of None \<Rightarrow> [] | Some q \<Rightarrow> ancestors q)"

fun has_type_from :: "vptr \<Rightarrow> nat \<Rightarrow> bool" where
  "has_type_from (VPtr i u f c p) t = (if i = t then True else case p of None \<Rightarrow> False | Some q \<Rightarrow> has_type_from q t)"

fun interface_from :: "vptr \<Rightarrow> nat \<Rightarrow> bool" where
  "interface_from (VPtr i u f c p) ifid = (if ifid \<in> set f then True else case p of None \<Rightarrow> False | Some q \<Rightarrow> interface_from q ifid)"

text \<open>The recursion moves the first class up; when it has no parent, its \<^verbatim>\<open>get_parent\<close> is called on NULL (None).\<close>

fun find_common_floor :: "vptr \<Rightarrow> vptr \<Rightarrow> vptr option" where
  "find_common_floor (VPtr i u f c p) v2 =
     (if v2 \<in> set (ancestors (VPtr i u f c p)) then Some v2
      else if VPtr i u f c p \<in> set (ancestors v2) then Some (VPtr i u f c p)
      else case p of None \<Rightarrow> None | Some q \<Rightarrow> find_common_floor q v2)"

section \<open>Objects\<close>

record 'd data_entry =
  de_name :: string
  de_data :: 'd
  de_destroy :: "nat option"

record 'd obj =
  ob_vptr :: vptr
  ob_ref :: int
  ob_name :: "string option"
  ob_weak_refs :: "(nat \<times> nat) list"
  ob_pool :: "nat option"
  ob_data :: "'d data_entry list"

record pool =
  pool_objects :: "nat list"
  pool_thread :: nat

text \<open>The calls that objects make: a weak reference (function, user pointer, object), the destructor of a class, and
  that of a datum. The world keeps their list.\<close>

datatype 'd obj_call = CbWeak nat nat nat | CbDestroy nat nat | CbData nat 'd

record 'd oworld =
  objs :: "nat \<Rightarrow> 'd obj option"
  pools :: "nat \<Rightarrow> pool option"
  pool_stack :: "nat list"
  self_tid :: nat
  ob_brk :: nat
  ob_log :: "'d obj_call list"

type_synonym 'd obj_calls = "'d obj_call \<Rightarrow> 'd oworld \<Rightarrow> 'd oworld option"

definition upd_obj :: "'d oworld \<Rightarrow> nat \<Rightarrow> ('d obj \<Rightarrow> 'd obj) \<Rightarrow> 'd oworld option" where
  "upd_obj w a f = map_option (\<lambda>r. w\<lparr>objs := (objs w)(a \<mapsto> f r)\<rparr>) (objs w a)"

definition upd_pool :: "'d oworld \<Rightarrow> nat \<Rightarrow> (pool \<Rightarrow> pool) \<Rightarrow> 'd oworld option" where
  "upd_pool w p f = map_option (\<lambda>r. w\<lparr>pools := (pools w)(p \<mapsto> f r)\<rparr>) (pools w p)"

text \<open>A bad cast is fatal (None).\<close>

definition belle_sip_object_cast :: "'d oworld \<Rightarrow> nat option \<Rightarrow> nat \<Rightarrow> nat option option" where
  "belle_sip_object_cast w a t = (case a of None \<Rightarrow> Some None
     | Some a \<Rightarrow> do { r \<leftarrow> objs w a; if has_type_from (ob_vptr r) t then Some (Some a) else None })"

definition belle_sip_object_implements :: "'d oworld \<Rightarrow> nat option \<Rightarrow> nat \<Rightarrow> bool option" where
  "belle_sip_object_implements w a ifid = (case a of None \<Rightarrow> Some False
     | Some a \<Rightarrow> map_option (\<lambda>r. interface_from (ob_vptr r) ifid) (objs w a))"

definition belle_sip_object_interface_cast :: "'d oworld \<Rightarrow> nat option \<Rightarrow> nat \<Rightarrow> nat option option" where
  "belle_sip_object_interface_cast w a ifid = (case a of None \<Rightarrow> Some None
     | Some a \<Rightarrow> do { r \<leftarrow> objs w a; if interface_from (ob_vptr r) ifid then Some (Some a) else None })"

definition belle_sip_object_set_name :: "'d oworld \<Rightarrow> nat \<Rightarrow> string option \<Rightarrow> 'd oworld option" where
  "belle_sip_object_set_name w a n = upd_obj w a (\<lambda>r. r\<lparr>ob_name := n\<rparr>)"

section \<open>Pools\<close>

definition belle_sip_object_pool_get_current :: "'d oworld \<Rightarrow> nat option" where
  "belle_sip_object_pool_get_current w = (case pool_stack w of [] \<Rightarrow> None | p # _ \<Rightarrow> Some p)"

definition belle_sip_object_pool_add :: "nat \<Rightarrow> nat \<Rightarrow> 'd oworld \<Rightarrow> 'd oworld option" where
  "belle_sip_object_pool_add p a w = do {
     r \<leftarrow> objs w a;
     (if ob_pool r \<noteq> None then None
      else do {
        w \<leftarrow> upd_pool w p (\<lambda>q. q\<lparr>pool_objects := a # pool_objects q\<rparr>);
        upd_obj w a (\<lambda>r. r\<lparr>ob_pool := Some p\<rparr>) }) }"

definition belle_sip_object_pool_remove :: "nat \<Rightarrow> nat \<Rightarrow> 'd oworld \<Rightarrow> 'd oworld option" where
  "belle_sip_object_pool_remove p a w = do {
     r \<leftarrow> objs w a;
     q \<leftarrow> pools w p;
     (if ob_pool r \<noteq> Some p then None
      else if self_tid w \<noteq> pool_thread q then None
      else do {
        w \<leftarrow> upd_pool w p (\<lambda>q. q\<lparr>pool_objects := remove1 a (pool_objects q)\<rparr>);
        upd_obj w a (\<lambda>r. r\<lparr>ob_pool := None\<rparr>) }) }"

text \<open>Pools are pushed for the thread that runs.\<close>

definition belle_sip_object_pool_push :: "'d oworld \<Rightarrow> 'd oworld \<times> nat" where
  "belle_sip_object_pool_push w = (let p = ob_brk w in
     (w\<lparr>pools := (pools w)(p \<mapsto> \<lparr>pool_objects = [], pool_thread = self_tid w\<rparr>),
        pool_stack := p # pool_stack w, ob_brk := p + 1\<rparr>, p))"

section \<open>Reference counts\<close>

definition belle_sip_object_new :: "vptr \<Rightarrow> 'd oworld \<Rightarrow> ('d oworld \<times> nat) option" where
  "belle_sip_object_new v w = (let a = ob_brk w;
       w = w\<lparr>objs := (objs w)(a \<mapsto> \<lparr>ob_vptr = v, ob_ref = (if vp_unowned v then 0 else 1), ob_name = None,
              ob_weak_refs = [], ob_pool = None, ob_data = []\<rparr>), ob_brk := a + 1\<rparr> in
     (if vp_unowned v
      then case belle_sip_object_pool_get_current w of
          None \<Rightarrow> Some (w, a)
        | Some p \<Rightarrow> map_option (\<lambda>w. (w, a)) (belle_sip_object_pool_add p a w)
      else Some (w, a)))"

definition belle_sip_object_ref :: "nat \<Rightarrow> 'd oworld \<Rightarrow> 'd oworld option" where
  "belle_sip_object_ref a w = do {
     r \<leftarrow> objs w a;
     w \<leftarrow> (case ob_pool r of Some p \<Rightarrow> if ob_ref r = 0 then belle_sip_object_pool_remove p a w else Some w | None \<Rightarrow> Some w);
     upd_obj w a (\<lambda>r. r\<lparr>ob_ref := ob_ref r + 1\<rparr>) }"

definition belle_sip_object_weak_ref :: "nat \<Rightarrow> nat \<Rightarrow> nat \<Rightarrow> 'd oworld \<Rightarrow> 'd oworld option" where
  "belle_sip_object_weak_ref a notify user w = upd_obj w a (\<lambda>r. r\<lparr>ob_weak_refs := (notify, user) # ob_weak_refs r\<rparr>)"

text \<open>A reference that is not there is fatal, unless the object is being deleted.\<close>

definition belle_sip_object_weak_unref :: "nat \<Rightarrow> nat \<Rightarrow> nat \<Rightarrow> 'd oworld \<Rightarrow> 'd oworld option" where
  "belle_sip_object_weak_unref a notify user w = do {
     r \<leftarrow> objs w a;
     (if ob_ref r = - 1 then Some w
      else if (notify, user) \<notin> set (ob_weak_refs r) then None
      else upd_obj w a (\<lambda>r. r\<lparr>ob_weak_refs := filter (\<lambda>x. x \<noteq> (notify, user)) (ob_weak_refs r)\<rparr>)) }"

fun call_all :: "'d obj_calls \<Rightarrow> 'd obj_call list \<Rightarrow> 'd oworld \<Rightarrow> 'd oworld option" where
  "call_all F [] w = Some w"
| "call_all F (c # cs) w = Option.bind (F c (w\<lparr>ob_log := ob_log w @ [c]\<rparr>)) (call_all F cs)"

definition belle_sip_object_loose_weak_refs :: "'d obj_calls \<Rightarrow> nat \<Rightarrow> 'd oworld \<Rightarrow> 'd oworld option" where
  "belle_sip_object_loose_weak_refs F a w = do {
     r \<leftarrow> objs w a;
     w \<leftarrow> call_all F (map (\<lambda>(n, u). CbWeak n u a) (ob_weak_refs r)) w;
     upd_obj w a (\<lambda>r. r\<lparr>ob_weak_refs := []\<rparr>) }"

definition data_callbacks :: "'d data_entry list \<Rightarrow> 'd obj_call list" where
  "data_callbacks es = concat (map (\<lambda>e. case de_destroy e of None \<Rightarrow> [] | Some f \<Rightarrow> [CbData f (de_data e)]) es)"

definition belle_sip_object_data_clear :: "'d obj_calls \<Rightarrow> nat \<Rightarrow> 'd oworld \<Rightarrow> 'd oworld option" where
  "belle_sip_object_data_clear F a w = do {
     r \<leftarrow> objs w a;
     w \<leftarrow> call_all F (data_callbacks (ob_data r)) w;
     upd_obj w a (\<lambda>r. r\<lparr>ob_data := []\<rparr>) }"

definition belle_sip_object_delete :: "'d obj_calls \<Rightarrow> nat \<Rightarrow> 'd oworld \<Rightarrow> 'd oworld option" where
  "belle_sip_object_delete F a w = do {
     w \<leftarrow> belle_sip_object_loose_weak_refs F a w;
     r \<leftarrow> objs w a;
     w \<leftarrow> call_all F (map (\<lambda>v. CbDestroy (vp_id v) a) (ancestors (ob_vptr r))) w;
     w \<leftarrow> belle_sip_object_data_clear F a w;
     Some (w\<lparr>objs := (objs w)(a := None)\<rparr>) }"

definition belle_sip_object_unref :: "'d obj_calls \<Rightarrow> nat \<Rightarrow> 'd oworld \<Rightarrow> 'd oworld option" where
  "belle_sip_object_unref F a w = do {
     r \<leftarrow> objs w a;
     (if ob_ref r = - 1 then None
      else case (ob_ref r = 0, ob_pool r) of
        (True, Some p) \<Rightarrow> do {
          w \<leftarrow> belle_sip_object_pool_remove p a w;
          w \<leftarrow> upd_obj w a (\<lambda>r. r\<lparr>ob_ref := - 1\<rparr>);
          belle_sip_object_delete F a w }
      | _ \<Rightarrow> (if ob_ref r = 1
          then do { w \<leftarrow> upd_obj w a (\<lambda>r. r\<lparr>ob_ref := - 1\<rparr>); belle_sip_object_delete F a w }
          else upd_obj w a (\<lambda>r. r\<lparr>ob_ref := ob_ref r - 1\<rparr>))) }"

text \<open>
  The loop over a pool takes the next element once the object of this one is deleted, from the list as it is then. An
  object of the pool that has references is fatal.
\<close>

definition following :: "nat \<Rightarrow> nat list \<Rightarrow> nat option" where
  "following a xs = (case dropWhile (\<lambda>x. x \<noteq> a) xs of x # y # ys \<Rightarrow> Some y | _ \<Rightarrow> None)"

partial_function (option) pool_clean_loop :: "'d obj_calls \<Rightarrow> nat \<Rightarrow> nat option \<Rightarrow> 'd oworld \<Rightarrow> 'd oworld option" where
  "pool_clean_loop F p elem w = (case elem of None \<Rightarrow> Some w
     | Some a \<Rightarrow> do {
         r \<leftarrow> objs w a;
         (if ob_ref r = 0
          then do {
            w \<leftarrow> upd_obj w a (\<lambda>r. r\<lparr>ob_ref := - 1\<rparr>);
            w \<leftarrow> belle_sip_object_delete F a w;
            q \<leftarrow> pools w p;
            pool_clean_loop F p (following a (pool_objects q)) w }
          else None) })"

definition belle_sip_object_pool_clean :: "'d obj_calls \<Rightarrow> nat \<Rightarrow> 'd oworld \<Rightarrow> 'd oworld option" where
  "belle_sip_object_pool_clean F p w = do {
     q \<leftarrow> pools w p;
     (if pool_thread q = 0 \<or> self_tid w \<noteq> pool_thread q then Some w
      else do {
        w \<leftarrow> pool_clean_loop F p (case pool_objects q of [] \<Rightarrow> None | a # _ \<Rightarrow> Some a) w;
        upd_pool w p (\<lambda>q. q\<lparr>pool_objects := []\<rparr>) }) }"

definition belle_sip_object_pool_detach_from_thread :: "'d obj_calls \<Rightarrow> nat \<Rightarrow> 'd oworld \<Rightarrow> 'd oworld option" where
  "belle_sip_object_pool_detach_from_thread F p w = do {
     w \<leftarrow> belle_sip_object_pool_clean F p w;
     upd_pool w p (\<lambda>q. q\<lparr>pool_thread := 0\<rparr>) }"

definition belle_sip_object_pool_destroy :: "'d obj_calls \<Rightarrow> nat \<Rightarrow> 'd oworld \<Rightarrow> 'd oworld option" where
  "belle_sip_object_pool_destroy F p w = do {
     w \<leftarrow> belle_sip_object_pool_clean F p w;
     q \<leftarrow> pools w p;
     (if self_tid w \<noteq> pool_thread q then None
      else if pool_stack w = [] then None
      else Some (w\<lparr>pool_stack := remove1 p (pool_stack w), pools := (pools w)(p := None)\<rparr>)) }"

text \<open>
  Copying: the clone functions of the classes from the common floor up to the root, each of which must be there. The
  root duplicates the name of the new object in place of the original's, which is NULL (None).
\<close>

definition copy_base :: "nat \<Rightarrow> nat \<Rightarrow> 'd oworld \<Rightarrow> 'd oworld option" where
  "copy_base new orig w = do {
     o' \<leftarrow> objs w orig;
     n \<leftarrow> objs w new;
     (if ob_name o' = None then Some w
      else do { s \<leftarrow> ob_name n; upd_obj w new (\<lambda>r. r\<lparr>ob_name := Some s\<rparr>) }) }"

fun clone_loop :: "(nat \<Rightarrow> nat \<Rightarrow> nat \<Rightarrow> 'd oworld \<Rightarrow> 'd oworld option) \<Rightarrow> vptr list \<Rightarrow> nat \<Rightarrow> nat \<Rightarrow> 'd oworld \<Rightarrow> 'd oworld option" where
  "clone_loop C [] new orig w = Some w"
| "clone_loop C (v # vs) new orig w =
     (if \<not> vp_clonable v then None
      else do {
        w \<leftarrow> (if vp_parent v = None then copy_base new orig w else C (vp_id v) new orig w);
        clone_loop C vs new orig w })"

definition belle_sip_object_copy ::
  "(nat \<Rightarrow> nat \<Rightarrow> nat \<Rightarrow> 'd oworld \<Rightarrow> 'd oworld option) \<Rightarrow> nat \<Rightarrow> nat \<Rightarrow> 'd oworld \<Rightarrow> 'd oworld option" where
  "belle_sip_object_copy C new orig w = do {
     n \<leftarrow> objs w new;
     o' \<leftarrow> objs w orig;
     v \<leftarrow> find_common_floor (ob_vptr n) (ob_vptr o');
     clone_loop C (ancestors v) new orig w }"

definition belle_sip_object_clone ::
  "(nat \<Rightarrow> nat \<Rightarrow> nat \<Rightarrow> 'd oworld \<Rightarrow> 'd oworld option) \<Rightarrow> nat \<Rightarrow> 'd oworld \<Rightarrow> ('d oworld \<times> nat) option" where
  "belle_sip_object_clone C a w = do {
     r \<leftarrow> objs w a;
     let new = ob_brk w;
     let w = w\<lparr>objs := (objs w)(new \<mapsto> \<lparr>ob_vptr = ob_vptr r, ob_ref = (if vp_unowned (ob_vptr r) then 0 else 1), ob_name = None,
              ob_weak_refs = [], ob_pool = None, ob_data = []\<rparr>), ob_brk := new + 1\<rparr>;
     w \<leftarrow> belle_sip_object_copy C new a w;
     r \<leftarrow> objs w new;
     (case belle_sip_object_pool_get_current w of
        Some p \<Rightarrow> if ob_ref r = 0 then map_option (\<lambda>w. (w, new)) (belle_sip_object_pool_add p new w) else Some (w, new)
      | None \<Rightarrow> Some (w, new)) }"

section \<open>The data store\<close>

definition data_find :: "'d data_entry list \<Rightarrow> string \<Rightarrow> 'd data_entry option" where
  "data_find es n = find (\<lambda>e. de_name e = n) es"

fun data_replace :: "'d data_entry \<Rightarrow> 'd data_entry list \<Rightarrow> 'd data_entry list" where
  "data_replace e [] = []"
| "data_replace e (x # xs) = (if de_name x = de_name e then e # xs else x # data_replace e xs)"

text \<open>The result is 1 when a datum of that name was there: it is destroyed, and its place kept.\<close>

definition belle_sip_object_data_set ::
  "'d obj_calls \<Rightarrow> nat \<Rightarrow> string \<Rightarrow> 'd \<Rightarrow> nat option \<Rightarrow> 'd oworld \<Rightarrow> ('d oworld \<times> int) option" where
  "belle_sip_object_data_set F a name data destroy w = do {
     r \<leftarrow> objs w a;
     let e = \<lparr>de_name = name, de_data = data, de_destroy = destroy\<rparr>;
     (case data_find (ob_data r) name of
        None \<Rightarrow> map_option (\<lambda>w. (w, 0)) (upd_obj w a (\<lambda>r. r\<lparr>ob_data := ob_data r @ [e]\<rparr>))
      | Some old \<Rightarrow> do {
          w \<leftarrow> call_all F (data_callbacks [old]) w;
          map_option (\<lambda>w. (w, 1)) (upd_obj w a (\<lambda>r. r\<lparr>ob_data := data_replace e (ob_data r)\<rparr>)) }) }"

definition belle_sip_object_data_get :: "'d oworld \<Rightarrow> nat \<Rightarrow> string \<Rightarrow> 'd option option" where
  "belle_sip_object_data_get w a name = map_option (\<lambda>r. map_option de_data (data_find (ob_data r) name)) (objs w a)"

definition belle_sip_object_data_exists :: "'d oworld \<Rightarrow> nat \<Rightarrow> string \<Rightarrow> bool option" where
  "belle_sip_object_data_exists w a name = map_option (\<lambda>r. data_find (ob_data r) name \<noteq> None) (objs w a)"

text \<open>The result is 0 when a datum was removed.\<close>

definition belle_sip_object_data_remove :: "'d obj_calls \<Rightarrow> nat \<Rightarrow> string \<Rightarrow> 'd oworld \<Rightarrow> ('d oworld \<times> int) option" where
  "belle_sip_object_data_remove F a name w = do {
     r \<leftarrow> objs w a;
     (case data_find (ob_data r) name of
        None \<Rightarrow> Some (w, 1)
      | Some old \<Rightarrow> do {
          w \<leftarrow> call_all F (data_callbacks [old]) w;
          map_option (\<lambda>w. (w, 0)) (upd_obj w a (\<lambda>r. r\<lparr>ob_data := remove_first (\<lambda>e. de_name e = name) (ob_data r)\<rparr>)) }) }"

text \<open>Without a datum of that name the link removed from the list is NULL, which is dereferenced (None).\<close>

definition belle_sip_object_data_grab :: "nat \<Rightarrow> string \<Rightarrow> 'd oworld \<Rightarrow> ('d oworld \<times> 'd) option" where
  "belle_sip_object_data_grab a name w = do {
     r \<leftarrow> objs w a;
     old \<leftarrow> data_find (ob_data r) name;
     map_option (\<lambda>w. (w, de_data old)) (upd_obj w a (\<lambda>r. r\<lparr>ob_data := remove_first (\<lambda>e. de_name e = name) (ob_data r)\<rparr>)) }"

fun data_merge_loop ::
  "'d obj_calls \<Rightarrow> (string \<Rightarrow> 'd \<Rightarrow> 'd) option \<Rightarrow> 'd data_entry list \<Rightarrow> nat \<Rightarrow> 'd oworld \<Rightarrow> 'd oworld option" where
  "data_merge_loop F K [] dst w = Some w"
| "data_merge_loop F K (e # es) dst w = do {
     (w, _) \<leftarrow> belle_sip_object_data_set F dst (de_name e)
        (case K of None \<Rightarrow> de_data e | Some k \<Rightarrow> k (de_name e) (de_data e)) (de_destroy e) w;
     data_merge_loop F K es dst w }"

definition belle_sip_object_data_merge ::
  "'d obj_calls \<Rightarrow> (string \<Rightarrow> 'd \<Rightarrow> 'd) option \<Rightarrow> nat \<Rightarrow> nat \<Rightarrow> 'd oworld \<Rightarrow> 'd oworld option" where
  "belle_sip_object_data_merge F K src dst w = do { r \<leftarrow> objs w src; data_merge_loop F K (ob_data r) dst w }"

definition belle_sip_object_data_clone ::
  "'d obj_calls \<Rightarrow> (string \<Rightarrow> 'd \<Rightarrow> 'd) option \<Rightarrow> nat \<Rightarrow> nat \<Rightarrow> 'd oworld \<Rightarrow> 'd oworld option" where
  "belle_sip_object_data_clone F K src dst w = do {
     w \<leftarrow> belle_sip_object_data_clear F dst w;
     belle_sip_object_data_merge F K src dst w }"

section \<open>The text form\<close>

datatype marshal_error = BELLE_SIP_OK | BELLE_SIP_BUFFER_OVERFLOW

text \<open>
  \<open>belle_sip_snprintf\<close> on a buffer of \<open>n\<close> bytes whose first \<open>length b\<close> are written: the text is cut, with a NUL, when it
  does not fit. A marshalling function writes its pieces one after the other and returns at the first error.
\<close>

definition belle_sip_snprintf :: "nat \<Rightarrow> string \<times> nat \<Rightarrow> string \<Rightarrow> (string \<times> nat) \<times> marshal_error" where
  "belle_sip_snprintf n s piece = (case s of (b, offset) \<Rightarrow>
     if n - offset \<le> length piece then ((b @ take (n - offset - 1) piece, n), BELLE_SIP_BUFFER_OVERFLOW)
     else ((b @ piece, offset + length piece), BELLE_SIP_OK))"

fun marshal_pieces :: "nat \<Rightarrow> string list \<Rightarrow> string \<times> nat \<Rightarrow> (string \<times> nat) \<times> marshal_error" where
  "marshal_pieces n [] s = (s, BELLE_SIP_OK)"
| "marshal_pieces n (p # ps) s = (case belle_sip_snprintf n s p of
      (s, BELLE_SIP_OK) \<Rightarrow> marshal_pieces n ps s
    | (s, BELLE_SIP_BUFFER_OVERFLOW) \<Rightarrow> (s, BELLE_SIP_BUFFER_OVERFLOW))"

text \<open>The marshalling is retried in a buffer twice as large; a size of 0 makes the limit wrap (None).\<close>

function belle_sip_object_to_alloc_string :: "string list \<Rightarrow> nat \<Rightarrow> (string \<times> nat) option" where
  "belle_sip_object_to_alloc_string ps size_hint =
     (if size_hint = 0 then None
      else if snd (marshal_pieces (size_hint - 1) ps ([], 0)) = BELLE_SIP_BUFFER_OVERFLOW
      then belle_sip_object_to_alloc_string ps (2 * size_hint)
      else Some (fst (fst (marshal_pieces (size_hint - 1) ps ([], 0))), size_hint))"
  by pat_completeness auto

definition get_hint_size :: "nat \<Rightarrow> nat" where
  "get_hint_size n = (if n < 128 then 128 else n)"

lemma marshal_pieces_fits:
  "marshal_pieces n ps (b, k) = (s, BELLE_SIP_OK) \<Longrightarrow> s = (b @ concat ps, k + length (concat ps))"
  by (induction ps arbitrary: b k) (fastforce simp: belle_sip_snprintf_def split: if_splits)+

lemma marshal_pieces_overflow:
  "snd (marshal_pieces n ps (b, k)) = BELLE_SIP_BUFFER_OVERFLOW \<Longrightarrow> n \<le> k + length (concat ps)"
  by (induction ps arbitrary: b k) (fastforce simp: belle_sip_snprintf_def split: if_splits)+

termination belle_sip_object_to_alloc_string
  by (relation "measure (\<lambda>(ps, n). length (concat ps) + 2 - n)") (auto dest!: marshal_pieces_overflow)

declare belle_sip_object_to_alloc_string.simps [simp del]

text \<open>The result is the text, and the hint kept for the class.\<close>

definition belle_sip_object_to_string :: "nat \<Rightarrow> string list \<Rightarrow> (string \<times> nat) option" where
  "belle_sip_object_to_string hint ps =
     (if hint \<noteq> 0 then belle_sip_object_to_alloc_string ps hint
      else case marshal_pieces 2048 ps ([], 0) of
          ((b, offset), BELLE_SIP_BUFFER_OVERFLOW) \<Rightarrow> belle_sip_object_to_alloc_string ps (get_hint_size (2 * offset))
        | ((b, offset), BELLE_SIP_OK) \<Rightarrow> Some (b, get_hint_size (2 * offset)))"

end
