(* ===== verification/UriText.thy ===== *)
theory UriText
  imports Uri Escape Objects "HOL-Library.Sublist"
begin

text \<open>
  The text of a SIP URI and of a generic URI, and the comparison of two SIP URIs
  (\<^verbatim>\<open>src/belle_sip_uri_impl.c\<close>, \<^verbatim>\<open>src/generic-uri.c\<close>). A marshalling function writes a list of pieces, each by one call of
  \<open>belle_sip_snprintf\<close>; a piece is None when the escape it asks for leaves its buffer. The comparison walks over
  both texts as far as the shorter one goes; the lemmas say which URIs are equal for it.
\<close>

section \<open>Writing a URI\<close>

text \<open>The pieces one after the other, until an overflow of the buffer or of an escape (None).\<close>

fun write_pieces :: "nat \<Rightarrow> string option list \<Rightarrow> string \<times> nat \<Rightarrow> ((string \<times> nat) \<times> marshal_error) option" where
  "write_pieces n [] s = Some (s, BELLE_SIP_OK)"
| "write_pieces n (None # ps) s = None"
| "write_pieces n (Some p # ps) s = (case belle_sip_snprintf n s p of
      (s, BELLE_SIP_OK) \<Rightarrow> write_pieces n ps s
    | (s, BELLE_SIP_BUFFER_OVERFLOW) \<Rightarrow> Some (s, BELLE_SIP_BUFFER_OVERFLOW))"

definition host_piece :: "string \<Rightarrow> string" where
  "host_piece h = (if CHR '':'' \<in> set h then ''['' @ h @ '']'' else h)"

definition encode_pair :: "(string \<Rightarrow> string option) \<Rightarrow> param_pair \<Rightarrow> param_pair option" where
  "encode_pair escape p = do {
     name \<leftarrow> escape (pname p);
     case pvalue p of None \<Rightarrow> Some (belle_sip_param_pair_new name None)
     | Some v \<Rightarrow> map_option (\<lambda>v. belle_sip_param_pair_new name (Some v)) (escape v) }"

definition encode_params :: "param_pair \<Rightarrow> param_pair list \<Rightarrow> param_pair list option" where
  "encode_params container newlist =
     map_option (\<lambda>p. newlist @ [p]) (encode_pair belle_sip_uri_to_escaped_parameter container)"

definition encode_headers :: "param_pair \<Rightarrow> param_pair list \<Rightarrow> param_pair list option" where
  "encode_headers container newlist =
     map_option (\<lambda>p. newlist @ [p]) (encode_pair belle_sip_uri_to_escaped_header container)"

fun encode_each :: "(param_pair \<Rightarrow> param_pair list \<Rightarrow> param_pair list option) \<Rightarrow> param_pair list
    \<Rightarrow> param_pair list \<Rightarrow> param_pair list option" where
  "encode_each f [] newlist = Some newlist"
| "encode_each f (p # ps) newlist = do { newlist \<leftarrow> f p newlist; encode_each f ps newlist }"

definition parameters_pieces :: "param_pair list \<Rightarrow> string list" where
  "parameters_pieces ps = map (\<lambda>p. case pvalue p of Some v \<Rightarrow> '';'' @ pname p @ ''='' @ v | None \<Rightarrow> '';'' @ pname p) ps"

definition header_piece :: "string \<Rightarrow> param_pair \<Rightarrow> string" where
  "header_piece mark p = mark @ pname p @ ''='' @ (case pvalue p of Some v \<Rightarrow> v | None \<Rightarrow> [])"

fun uri_headers_pieces :: "param_pair list \<Rightarrow> string list" where
  "uri_headers_pieces [] = []"
| "uri_headers_pieces (p # ps) = header_piece ''?'' p # map (header_piece ''&'') ps"

definition encoded_pieces :: "(param_pair list \<Rightarrow> string list) \<Rightarrow> param_pair list option \<Rightarrow> string option list" where
  "encoded_pieces pieces l = (case l of None \<Rightarrow> [None] | Some ps \<Rightarrow> map Some (pieces ps))"

definition userinfo_pieces :: "string \<Rightarrow> string option \<Rightarrow> string option list" where
  "userinfo_pieces user password =
     [belle_sip_uri_to_escaped_username user]
     @ (case password of None \<Rightarrow> [] | Some p \<Rightarrow> [map_option (\<lambda>p. '':'' @ p) (belle_sip_uri_to_escaped_userpasswd p)])
     @ [Some ''@'']"

definition belle_sip_uri_pieces :: "sip_uri \<Rightarrow> string option list" where
  "belle_sip_uri_pieces u =
     [Some (if uri_secure u then ''sips:'' else ''sip:'')]
     @ (case uri_user u of None \<Rightarrow> [] | Some user \<Rightarrow> if user = [] then [] else userinfo_pieces user (uri_user_password u))
     @ (case uri_host u of None \<Rightarrow> [] | Some h \<Rightarrow> [Some (host_piece h)])
     @ (if uri_port u \<noteq> 0 then [Some ('':'' @ int_text (uri_port u))] else [])
     @ encoded_pieces parameters_pieces (encode_each encode_params (param_list (uri_params u)) [])
     @ encoded_pieces uri_headers_pieces (encode_each encode_headers (param_list (uri_header_list u)) [])"

definition belle_sip_uri_marshal :: "sip_uri \<Rightarrow> nat \<Rightarrow> string \<times> nat \<Rightarrow> ((string \<times> nat) \<times> marshal_error) option" where
  "belle_sip_uri_marshal u buff_size s = write_pieces buff_size (belle_sip_uri_pieces u) s"

section \<open>Generic URIs\<close>

record generic_uri =
  gu_scheme :: "string option"
  gu_user :: "string option"
  gu_user_password :: "string option"
  gu_host :: "string option"
  gu_port :: int
  gu_path :: "string option"
  gu_query :: "string option"
  gu_opaque_part :: "string option"

definition belle_generic_uri_init :: "generic_uri \<Rightarrow> generic_uri" where
  "belle_generic_uri_init u = u\<lparr>gu_port := - 1\<rparr>"

definition belle_generic_uri_new :: generic_uri where
  "belle_generic_uri_new = belle_generic_uri_init \<lparr>gu_scheme = None, gu_user = None, gu_user_password = None,
     gu_host = None, gu_port = 0, gu_path = None, gu_query = None, gu_opaque_part = None\<rparr>"

definition belle_generic_uri_clone :: "generic_uri \<Rightarrow> generic_uri" where
  "belle_generic_uri_clone orig = belle_generic_uri_new\<lparr>
     gu_scheme := gu_scheme orig, gu_user := gu_user orig, gu_user_password := gu_user_password orig,
     gu_host := gu_host orig, gu_port := gu_port orig, gu_path := gu_path orig, gu_query := gu_query orig,
     gu_opaque_part := gu_opaque_part orig\<rparr>"

definition opt_piece :: "('a \<Rightarrow> string option) \<Rightarrow> 'a option \<Rightarrow> string option list" where
  "opt_piece f v = (case v of None \<Rightarrow> [] | Some x \<Rightarrow> [f x])"

definition belle_generic_uri_pieces :: "generic_uri \<Rightarrow> string option list" where
  "belle_generic_uri_pieces u =
     opt_piece (\<lambda>s. Some (s @ '':'')) (gu_scheme u)
     @ (case gu_opaque_part u of
          Some part \<Rightarrow> [Some part]
        | None \<Rightarrow>
            opt_piece (\<lambda>h. Some ''//'') (gu_host u)
            @ (case gu_user u of None \<Rightarrow> [] | Some user \<Rightarrow> userinfo_pieces user (gu_user_password u))
            @ opt_piece (\<lambda>h. Some (host_piece h)) (gu_host u)
            @ (if 0 < gu_port u then [Some ('':'' @ int_text (gu_port u))] else [])
            @ opt_piece belle_generic_uri_to_escaped_path (gu_path u)
            @ opt_piece (\<lambda>q. map_option (\<lambda>q. ''?'' @ q) (belle_generic_uri_to_escaped_query q)) (gu_query u))"

definition belle_generic_uri_marshal ::
  "generic_uri \<Rightarrow> nat \<Rightarrow> string \<times> nat \<Rightarrow> ((string \<times> nat) \<times> marshal_error) option" where
  "belle_generic_uri_marshal u buff_size s = write_pieces buff_size (belle_generic_uri_pieces u) s"

section \<open>Comparing two URIs\<close>

definition to_upper :: "char \<Rightarrow> char" where
  "to_upper c = (if (of_char c :: nat) < 0x7B \<and> 0x60 < (of_char c :: nat) then char_of ((of_char c :: nat) - 0x20) else c)"

text \<open>
  The number of places where the texts differ, on at most \<open>n\<close> bytes of each; None when an escape without a number gives an
  uninitialised character.
\<close>

function uri_strncmp_loop :: "string \<Rightarrow> string \<Rightarrow> nat \<Rightarrow> bool \<Rightarrow> nat \<Rightarrow> nat \<Rightarrow> nat \<Rightarrow> nat option" where
  "uri_strncmp_loop a b n case_sensitive index_a index_b result =
     (if index_a < length a \<and> index_b < length b \<and> index_a < n \<and> index_b < n
      then case belle_sip_get_char (drop index_a a) (n - index_a) of None \<Rightarrow> None
        | Some (char_a, k) \<Rightarrow> (case belle_sip_get_char (drop index_b b) (n - index_b) of None \<Rightarrow> None
            | Some (char_b, m) \<Rightarrow>
                (let char_a = (if case_sensitive then char_a else to_upper char_a);
                     char_b = (if case_sensitive then char_b else to_upper char_b)
                 in uri_strncmp_loop a b n case_sensitive (index_a + k) (index_b + m)
                      (result + (if char_a \<noteq> char_b then 1 else 0))))
      else Some result)"
  by pat_completeness auto

lemma get_char_length: "belle_sip_get_char s n = Some (c, k) \<Longrightarrow> 0 < k"
  by (induction s n rule: belle_sip_get_char.induct) (auto split: if_splits)

termination uri_strncmp_loop
  by (relation "measure (\<lambda>(a, b, n, cs, i, j, r). n - i)") (auto dest!: get_char_length)

declare uri_strncmp_loop.simps [simp del]

definition uri_strncmp_common :: "string \<Rightarrow> string \<Rightarrow> nat \<Rightarrow> bool \<Rightarrow> nat option" where
  "uri_strncmp_common a b n case_sensitive = uri_strncmp_loop a b n case_sensitive 0 0 0"

definition uri_strncmp :: "string \<Rightarrow> string \<Rightarrow> nat \<Rightarrow> nat option" where
  "uri_strncmp a b n = uri_strncmp_common a b n True"

definition uri_strncasecmp :: "string \<Rightarrow> string \<Rightarrow> nat \<Rightarrow> nat option" where
  "uri_strncasecmp a b n = uri_strncmp_common a b n False"

text \<open>Both macros are true when the texts differ.\<close>

definition IS_EQUAL :: "string \<Rightarrow> string \<Rightarrow> bool option" where
  "IS_EQUAL a b = map_option (\<lambda>r. r \<noteq> 0) (uri_strncmp a b (min (length a) (length b)))"

definition IS_EQUAL_CASE :: "string \<Rightarrow> string \<Rightarrow> bool option" where
  "IS_EQUAL_CASE a b = map_option (\<lambda>r. r \<noteq> 0) (uri_strncasecmp a b (min (length a) (length b)))"

text \<open>Whether \<open>PARAM_CASE_CMP\<close> returns 0; two pointers of which one is NULL are equal when both are.\<close>

definition PARAM_CASE_CMP :: "parameters \<Rightarrow> parameters \<Rightarrow> string \<Rightarrow> bool option" where
  "PARAM_CASE_CMP uri_a uri_b param =
     (case (belle_sip_parameters_get_case_parameter uri_a param, belle_sip_parameters_get_case_parameter uri_b param) of
        (Some a_param, Some b_param) \<Rightarrow> IS_EQUAL_CASE a_param b_param
      | (a_param, b_param) \<Rightarrow> Some (a_param \<noteq> b_param))"

text \<open>
  The loop over the parameters of the first URI reads the pair itself as a text: its first bytes are those of
  the field \<open>ref\<close>, which nothing sets after the allocation has cleared it, and so the empty text.
\<close>

definition pair_read_as_text :: "param_pair \<Rightarrow> string" where
  "pair_read_as_text p = []"

fun params_loop :: "param_pair list \<Rightarrow> parameters \<Rightarrow> bool option" where
  "params_loop [] uri_b = Some True"
| "params_loop (p # ps) uri_b =
     (case belle_sip_parameters_get_parameter uri_b (pair_read_as_text p) of
        None \<Rightarrow> params_loop ps uri_b
      | Some b_param \<Rightarrow> do {
          different \<leftarrow> IS_EQUAL_CASE b_param (pair_read_as_text p);
          if different then Some False else params_loop ps uri_b })"

fun none_differs :: "bool option list \<Rightarrow> bool option" where
  "none_differs [] = Some True"
| "none_differs (d # ds) = do { d \<leftarrow> d; if d then Some False else none_differs ds }"

text \<open>The comparisons in the order of the code. A URI without a user is compared with itself: never a difference.\<close>

definition belle_sip_uri_equals :: "sip_uri \<Rightarrow> sip_uri \<Rightarrow> bool option" where
  "belle_sip_uri_equals uri_a uri_b =
     do {
       same \<leftarrow> none_differs (
         [Some (uri_secure uri_a \<noteq> uri_secure uri_b),
          (case (uri_user uri_a, uri_user uri_b) of (Some a, Some b) \<Rightarrow> IS_EQUAL a b | _ \<Rightarrow> Some (uri_user uri_a \<noteq> uri_user uri_a)),
          (case (uri_host uri_a, uri_host uri_b) of (Some a, Some b) \<Rightarrow> IS_EQUAL_CASE a b | _ \<Rightarrow> Some True),
          Some (uri_port uri_a \<noteq> uri_port uri_b)]
         @ map (PARAM_CASE_CMP (uri_params uri_a) (uri_params uri_b)) [''transport'', ''user'', ''ttl'', ''method'', ''maddr'']);
       if same then params_loop (param_list (uri_params uri_a)) (uri_params uri_b) else Some False }"

text \<open>Contacts are compared by their URIs (the address parameters do not count).\<close>

definition belle_sip_header_contact_equals :: "sip_uri option option \<Rightarrow> sip_uri option option \<Rightarrow> bool option" where
  "belle_sip_header_contact_equals a b =
     (case (a, b) of (Some a, Some b) \<Rightarrow> do { a \<leftarrow> a; b \<leftarrow> b; belle_sip_uri_equals a b } | _ \<Rightarrow> Some False)"

section \<open>Which URIs are equal\<close>

text \<open>What the comparison of two texts without escapes comes to: one is a prefix of the other.\<close>

definition one_prefix :: "string \<Rightarrow> string \<Rightarrow> bool" where
  "one_prefix a b \<longleftrightarrow> prefix a b \<or> prefix b a"

definition mismatches :: "(char \<Rightarrow> char) \<Rightarrow> string \<Rightarrow> string \<Rightarrow> nat" where
  "mismatches f a b = length (filter (\<lambda>(x, y). f x \<noteq> f y) (zip a b))"

lemma mismatches_Cons: "mismatches f (x # a) (y # b) = (if f x \<noteq> f y then 1 else 0) + mismatches f a b"
  by (simp add: mismatches_def)

lemma mismatches_none: "mismatches f a b = 0 \<longleftrightarrow> one_prefix (map f a) (map f b)"
proof (induction a arbitrary: b)
  case (Cons x a)
  then show ?case
    by (cases b) (auto simp: mismatches_def one_prefix_def)
qed (simp add: mismatches_def one_prefix_def)

lemma get_char_plain:
  assumes "i < length s" "CHR ''%'' \<notin> set s"
  shows "belle_sip_get_char (drop i s) n = Some (s ! i, 1)"
proof -
  have "s ! i \<noteq> CHR ''%''"
    using assms by (metis nth_mem)
  then show ?thesis
    using assms(1) by (simp flip: Cons_nth_drop_Suc)
qed

lemma strncmp_loop_plain:
  assumes "CHR ''%'' \<notin> set a" "CHR ''%'' \<notin> set b" "n = min (length a) (length b)"
  shows "i \<le> n \<Longrightarrow> uri_strncmp_loop a b n cs i i r
    = Some (r + mismatches (if cs then id else to_upper) (drop i a) (drop i b))"
proof (induction "n - i" arbitrary: i r)
  case 0
  then show ?case
    using assms(3) by (subst uri_strncmp_loop.simps) (auto simp: mismatches_def)
next
  case (Suc k)
  then have i: "i < length a" "i < length b" "i < n"
    using assms(3) by auto
  have plain: "belle_sip_get_char (drop i a) (n - i) = Some (a ! i, 1)" "belle_sip_get_char (drop i b) (n - i) = Some (b ! i, 1)"
    using assms(1,2) i by (blast intro: get_char_plain)+
  have "uri_strncmp_loop a b n cs (i + 1) (i + 1) r'
      = Some (r' + mismatches (if cs then id else to_upper) (drop (i + 1) a) (drop (i + 1) b))" for r'
    using Suc i by (intro Suc.hyps(1)) auto
  then show ?case
    using i plain by (subst uri_strncmp_loop.simps)
      (auto simp: Let_def mismatches_Cons simp flip: Cons_nth_drop_Suc)
qed

lemma equal_plain:
  assumes "CHR ''%'' \<notin> set a" "CHR ''%'' \<notin> set b"
  shows "IS_EQUAL a b = Some (\<not> one_prefix a b)"
    and "IS_EQUAL_CASE a b = Some (\<not> one_prefix (map to_upper a) (map to_upper b))"
  using strncmp_loop_plain [OF assms refl, of 0 True 0] strncmp_loop_plain [OF assms refl, of 0 False 0]
  by (simp_all add: IS_EQUAL_def IS_EQUAL_CASE_def uri_strncmp_def uri_strncasecmp_def uri_strncmp_common_def mismatches_none
      del: neq0_conv)

lemma params_loop_accepts: "params_loop ps uri_b = Some True"
  by (induction ps) (simp_all add: pair_read_as_text_def IS_EQUAL_CASE_def uri_strncasecmp_def uri_strncmp_common_def
      uri_strncmp_loop.simps split: option.split)

definition plain_parameter :: "parameters \<Rightarrow> string \<Rightarrow> bool" where
  "plain_parameter ps k \<longleftrightarrow>
     (case belle_sip_parameters_get_case_parameter ps k of None \<Rightarrow> True | Some v \<Rightarrow> CHR ''%'' \<notin> set v)"

definition compared_parameters :: "string list" where
  "compared_parameters = [''transport'', ''user'', ''ttl'', ''method'', ''maddr'']"

definition plain_uri :: "sip_uri \<Rightarrow> bool" where
  "plain_uri u \<longleftrightarrow> (case uri_user u of None \<Rightarrow> True | Some v \<Rightarrow> CHR ''%'' \<notin> set v)
     \<and> (case uri_host u of None \<Rightarrow> True | Some v \<Rightarrow> CHR ''%'' \<notin> set v)
     \<and> list_all (plain_parameter (uri_params u)) compared_parameters"

text \<open>Two optional texts agree when both are there, one a prefix of the other but for the case, or both are absent.\<close>

definition agree :: "string option \<Rightarrow> string option \<Rightarrow> bool" where
  "agree a b = (case (a, b) of (Some a, Some b) \<Rightarrow> one_prefix (map to_upper a) (map to_upper b) | _ \<Rightarrow> a = b)"

lemma param_case_cmp_plain:
  "plain_parameter a k \<Longrightarrow> plain_parameter b k \<Longrightarrow> PARAM_CASE_CMP a b k
    = Some (\<not> agree (belle_sip_parameters_get_case_parameter a k) (belle_sip_parameters_get_case_parameter b k))"
  by (auto simp: plain_parameter_def PARAM_CASE_CMP_def agree_def equal_plain split: option.splits)

lemma none_differs_all: "none_differs (map Some ds) = Some (True \<notin> set ds)"
  by (induction ds) auto

lemma uri_equals_plain:
  assumes "plain_uri a" "plain_uri b"
  shows "belle_sip_uri_equals a b = Some (uri_secure a = uri_secure b
     \<and> (case (uri_user a, uri_user b) of (Some x, Some y) \<Rightarrow> one_prefix x y | _ \<Rightarrow> True)
     \<and> (case (uri_host a, uri_host b) of (Some x, Some y) \<Rightarrow> one_prefix (map to_upper x) (map to_upper y) | _ \<Rightarrow> False)
     \<and> uri_port a = uri_port b
     \<and> (\<forall>k\<in>set compared_parameters. agree (belle_sip_parameters_get_case_parameter (uri_params a) k)
            (belle_sip_parameters_get_case_parameter (uri_params b) k)))"
proof -
  have params: "map (PARAM_CASE_CMP (uri_params a) (uri_params b)) compared_parameters
      = map (\<lambda>k. Some (\<not> agree (belle_sip_parameters_get_case_parameter (uri_params a) k)
            (belle_sip_parameters_get_case_parameter (uri_params b) k))) compared_parameters"
    using assms by (intro map_cong refl param_case_cmp_plain) (auto simp: plain_uri_def list_all_iff)
  have user: "(case (uri_user a, uri_user b) of (Some x, Some y) \<Rightarrow> IS_EQUAL x y | _ \<Rightarrow> Some (uri_user a \<noteq> uri_user a))
      = Some (\<not> (case (uri_user a, uri_user b) of (Some x, Some y) \<Rightarrow> one_prefix x y | _ \<Rightarrow> True))"
    using assms by (auto simp: plain_uri_def equal_plain split: option.splits)
  have host: "(case (uri_host a, uri_host b) of (Some x, Some y) \<Rightarrow> IS_EQUAL_CASE x y | _ \<Rightarrow> Some True)
      = Some (\<not> (case (uri_host a, uri_host b) of (Some x, Some y) \<Rightarrow> one_prefix (map to_upper x) (map to_upper y) | _ \<Rightarrow> False))"
    using assms by (auto simp: plain_uri_def equal_plain split: option.splits)
  show ?thesis
    unfolding belle_sip_uri_equals_def user host params [unfolded compared_parameters_def] compared_parameters_def
    by (auto simp: params_loop_accepts)
qed

text \<open>C25. Without escapes in the texts it compares, \<open>belle_sip_uri_equals\<close> takes two URIs for equal exactly when both are or are
  not secure, their ports are the same, their users (when both have one) are prefixes one of the other, their
  hosts too but for the case, and each of the five parameters transport, user, ttl, method and maddr is absent from both
  or prefix one of the other but for the case. The password, the headers and the other parameters do not count.\<close>

theorem uri_equals_prefixes:
  assumes "plain_uri a" "plain_uri b"
  shows "belle_sip_uri_equals a b = Some (uri_secure a = uri_secure b
     \<and> (case (uri_user a, uri_user b) of (Some x, Some y) \<Rightarrow> one_prefix x y | _ \<Rightarrow> True)
     \<and> (case (uri_host a, uri_host b) of (Some x, Some y) \<Rightarrow> one_prefix (map to_upper x) (map to_upper y) | _ \<Rightarrow> False)
     \<and> uri_port a = uri_port b
     \<and> (\<forall>k\<in>set compared_parameters. agree (belle_sip_parameters_get_case_parameter (uri_params a) k)
            (belle_sip_parameters_get_case_parameter (uri_params b) k)))"
  using assms by (rule uri_equals_plain)

text \<open>Bob at a.com and bobby at A.COM.evil are one URI; so are a URI without a user and any other of its host.\<close>

lemma uri_equals_prefixes_witness:
  "belle_sip_uri_equals (belle_sip_uri_create (Some ''bob'') (Some ''a.com''))
     (belle_sip_uri_create (Some ''bobby'') (Some ''A.COM.evil'')) = Some True
   \<and> belle_sip_uri_equals (belle_sip_uri_create None (Some ''a.com'')) (belle_sip_uri_create (Some ''bob'') (Some ''a.com'')) = Some True
   \<and> belle_sip_uri_equals (belle_sip_uri_create (Some ''alice'') (Some ''a.com'')) (belle_sip_uri_create (Some ''bob'') (Some ''a.com''))
      = Some False"
proof -
  have plain: "plain_uri (belle_sip_uri_create (Some ''bob'') (Some ''a.com''))"
      "plain_uri (belle_sip_uri_create (Some ''bobby'') (Some ''A.COM.evil''))"
      "plain_uri (belle_sip_uri_create None (Some ''a.com''))" "plain_uri (belle_sip_uri_create (Some ''alice'') (Some ''a.com''))"
    by code_simp+
  show ?thesis
    unfolding uri_equals_prefixes [OF plain(1,2)] uri_equals_prefixes [OF plain(3,1)] uri_equals_prefixes [OF plain(4,1)]
    by code_simp
qed

text \<open>The relation is not transitive, and whether an escape counts as its character depends on how long the other text is.\<close>

lemma uri_equals_not_transitive:
  "\<exists>a b c. belle_sip_uri_equals a b = Some True \<and> belle_sip_uri_equals b c = Some True \<and> belle_sip_uri_equals a c = Some False"
  by (rule exI [of _ "belle_sip_uri_create (Some ''alice'') (Some ''a.com'')"], rule exI [of _ "belle_sip_uri_create None (Some ''a.com'')"],
      rule exI [of _ "belle_sip_uri_create (Some ''bob'') (Some ''a.com'')"]) code_simp

lemma escape_at_end_differs:
  "IS_EQUAL ''%61lice'' ''alice'' = Some False \<and> IS_EQUAL ''bob%41'' ''bobA'' = Some True"
  by code_simp

section \<open>The text written\<close>

lemma write_pieces_some: "write_pieces n (map Some ps) s = Some (marshal_pieces n ps s)"
  by (induction ps arbitrary: s) (auto split: prod.splits marshal_error.split)

lemma marshal_pieces_room:
  "length (concat ps) < n - k \<Longrightarrow> marshal_pieces n ps (b, k) = ((b @ concat ps, k + length (concat ps)), BELLE_SIP_OK)"
  by (induction ps arbitrary: b k) (auto simp: belle_sip_snprintf_def add.assoc)

text \<open>The texts that are escaped without leaving the buffer (\<open>escape_gives_text\<close>), and the text of a URI made of such texts.\<close>

definition escapable :: "noescapes \<Rightarrow> string \<Rightarrow> bool" where
  "escapable t s \<longleftrightarrow> CHR 0x00 \<notin> set s \<and> length s < 2 ^ 29 \<and> 2 * escapes t s < max (length s div 2) 3"

definition escapable_pair :: "noescapes \<Rightarrow> param_pair \<Rightarrow> bool" where
  "escapable_pair t p \<longleftrightarrow> escapable t (pname p) \<and> (case pvalue p of None \<Rightarrow> True | Some v \<Rightarrow> escapable t v)"

definition escaped_pair :: "noescapes \<Rightarrow> param_pair \<Rightarrow> param_pair" where
  "escaped_pair t p = belle_sip_param_pair_new (escape_text t (pname p)) (map_option (escape_text t) (pvalue p))"

definition escapable_uri :: "sip_uri \<Rightarrow> bool" where
  "escapable_uri u \<longleftrightarrow> (case uri_user u of None \<Rightarrow> True | Some s \<Rightarrow> escapable get_sip_uri_username_noescapes s)
     \<and> (case uri_user_password u of None \<Rightarrow> True | Some s \<Rightarrow> escapable get_sip_uri_userpasswd_noescapes s)
     \<and> list_all (escapable_pair get_sip_uri_parameter_noescapes) (param_list (uri_params u))
     \<and> list_all (escapable_pair get_sip_uri_header_noescapes) (param_list (uri_header_list u))"

definition userinfo_text :: "string \<Rightarrow> string option \<Rightarrow> string" where
  "userinfo_text user password = escape_text get_sip_uri_username_noescapes user
     @ (case password of None \<Rightarrow> [] | Some p \<Rightarrow> '':'' @ escape_text get_sip_uri_userpasswd_noescapes p) @ ''@''"

definition uri_written :: "sip_uri \<Rightarrow> string" where
  "uri_written u = (if uri_secure u then ''sips:'' else ''sip:'')
     @ (case uri_user u of None \<Rightarrow> [] | Some user \<Rightarrow> if user = [] then [] else userinfo_text user (uri_user_password u))
     @ (case uri_host u of None \<Rightarrow> [] | Some h \<Rightarrow> host_piece h)
     @ (if uri_port u = 0 then [] else '':'' @ int_text (uri_port u))
     @ marshal_pairs (map (escaped_pair get_sip_uri_parameter_noescapes) (param_list (uri_params u)))
     @ concat (uri_headers_pieces (map (escaped_pair get_sip_uri_header_noescapes) (param_list (uri_header_list u))))"

lemma escapable_escape: "escapable t s \<Longrightarrow> belle_sip_escape s t = Some (escape_text t s)"
  unfolding escapable_def by (intro escape_gives_text) auto

lemma encode_pair_escapable:
  assumes "escapable_pair t p" "\<And>s. escape s = belle_sip_escape s t"
  shows "encode_pair escape p = Some (escaped_pair t p)"
  using assms(1) by (auto simp: encode_pair_def escapable_pair_def escaped_pair_def assms(2) escapable_escape split: option.splits)

lemma encode_each_escapable:
  assumes "\<And>s. escape s = belle_sip_escape s t" "\<And>p l. f p l = map_option (\<lambda>q. l @ [q]) (encode_pair escape p)"
  shows "list_all (escapable_pair t) ps \<Longrightarrow> encode_each f ps l = Some (l @ map (escaped_pair t) ps)"
  by (induction ps arbitrary: l) (simp_all add: assms(2) encode_pair_escapable [OF _ assms(1)])

lemma encode_params_escapable:
  "list_all (escapable_pair get_sip_uri_parameter_noescapes) ps
    \<Longrightarrow> encode_each encode_params ps [] = Some (map (escaped_pair get_sip_uri_parameter_noescapes) ps)"
  using encode_each_escapable [of belle_sip_uri_to_escaped_parameter get_sip_uri_parameter_noescapes encode_params ps "[]"]
  by (simp add: encode_params_def belle_sip_uri_to_escaped_parameter_def)

lemma encode_headers_escapable:
  "list_all (escapable_pair get_sip_uri_header_noescapes) ps
    \<Longrightarrow> encode_each encode_headers ps [] = Some (map (escaped_pair get_sip_uri_header_noescapes) ps)"
  using encode_each_escapable [of belle_sip_uri_to_escaped_header get_sip_uri_header_noescapes encode_headers ps "[]"]
  by (simp add: encode_headers_def belle_sip_uri_to_escaped_header_def)

lemma concat_parameters_pieces: "concat (parameters_pieces ps) = marshal_pairs ps"
  by (induction ps) (auto simp: parameters_pieces_def split: option.splits)

lemma uri_pieces_text:
  assumes "escapable_uri u"
  shows "\<exists>ps. belle_sip_uri_pieces u = map Some ps \<and> concat ps = uri_written u"
proof -
  let ?hd = "[if uri_secure u then ''sips:'' else ''sip:'']"
  let ?us = "case uri_user u of None \<Rightarrow> [] | Some user \<Rightarrow> if user = [] then []
      else [escape_text get_sip_uri_username_noescapes user]
        @ (case uri_user_password u of None \<Rightarrow> [] | Some p \<Rightarrow> ['':'' @ escape_text get_sip_uri_userpasswd_noescapes p]) @ [''@'']"
  let ?ho = "case uri_host u of None \<Rightarrow> [] | Some h \<Rightarrow> [host_piece h]"
  let ?po = "if uri_port u = 0 then [] else ['':'' @ int_text (uri_port u)]"
  let ?pa = "parameters_pieces (map (escaped_pair get_sip_uri_parameter_noescapes) (param_list (uri_params u)))"
  let ?he = "uri_headers_pieces (map (escaped_pair get_sip_uri_header_noescapes) (param_list (uri_header_list u)))"
  have "belle_sip_uri_pieces u = map Some (?hd @ ?us @ ?ho @ ?po @ ?pa @ ?he)"
    using assms unfolding escapable_uri_def belle_sip_uri_pieces_def encoded_pieces_def
    by (auto simp: encode_params_escapable encode_headers_escapable escapable_escape userinfo_pieces_def
        belle_sip_uri_to_escaped_username_def belle_sip_uri_to_escaped_userpasswd_def split: option.splits)
  moreover have "concat (?hd @ ?us @ ?ho @ ?po @ ?pa @ ?he) = uri_written u"
    by (auto simp: uri_written_def userinfo_text_def concat_parameters_pieces split: option.splits)
  ultimately show ?thesis
    by blast
qed

lemma uri_marshal_text:
  assumes "escapable_uri u" "length (uri_written u) < n"
  shows "belle_sip_uri_marshal u n ([], 0) = Some ((uri_written u, length (uri_written u)), BELLE_SIP_OK)"
proof -
  obtain ps where "belle_sip_uri_pieces u = map Some ps" "concat ps = uri_written u"
    using uri_pieces_text [OF assms(1)] by blast
  then show ?thesis
    using assms(2) marshal_pieces_room [of ps n 0 "[]"] by (simp add: belle_sip_uri_marshal_def write_pieces_some)
qed

lemma parameters_clone_same: "wf_params ps \<Longrightarrow> parameters_clone ps = ps"
  unfolding parameters_clone_def belle_sip_parameters_copy_parameters_from_def
  by (subst set_fresh_parameters) (auto simp: wf_params_def parameters_init_def)

text \<open>A clone is the same URI, and so has the same text.\<close>

lemma uri_clone_same: "wf_params (uri_params u) \<Longrightarrow> wf_params (uri_header_list u) \<Longrightarrow> belle_sip_uri_clone u = u"
  by (simp add: belle_sip_uri_clone_def parameters_clone_same)

lemma uri_text_example:
  "uri_written ((belle_sip_uri_create (Some ''a b'') (Some ''::1''))\<lparr>uri_port := 5070,
      uri_params := belle_sip_parameters_set_parameter parameters_init ''lr'' None\<rparr>)
   = ''sip:a%20b@[::1]:5070;lr''"
  by (simp add: uri_written_def belle_sip_uri_create_def belle_sip_uri_new_def userinfo_text_def host_piece_def int_text_def
      decimal.simps escaped_pair_def escape_text_def escaped_char_def hex_digit_def param_defs parameters_init_def
      get_sip_uri_username_noescapes_def get_sip_uri_parameter_noescapes_def noescapes_add_list_def
      noescapes_add_range_def noescapes_add_alfanums_def MARK_def) code_simp

end
