(* ===== verification/Sdp.thy ===== *)
theory Sdp
  imports UriText
begin

text \<open>
  Session descriptions (\<^verbatim>\<open>src/belle_sdp_impl.c\<close>): their objects, what they are copied to and written as, and the mapping
  between the payload types of a media description and its attributes. The objects that a description holds are
  values: the sharing of an object between descriptions is not modelled. A text is written in pieces as in UriText; a
  piece is None where NULL is given to \<^verbatim>\<open>%s\<close>. The fields that no function but their accessors uses (phones, URI, time
  zones) are left out, and the parser is generated from the grammar.
\<close>

section \<open>Attributes\<close>

datatype rtcp_fb_type = RTCP_FB_ACK | RTCP_FB_NACK | RTCP_FB_TRR_INT | RTCP_FB_CCM

datatype rtcp_fb_param = FB_NONE | FB_PLI | FB_SLI | FB_RPSI | FB_APP | FB_FIR | FB_TMMBR

record rtcp_fb =
  fb_type :: rtcp_fb_type
  fb_param :: rtcp_fb_param
  fb_smaxpr :: "32 word"
  fb_trr_int :: "16 word"
  fb_id :: "8 word"

record rtcp_xr =
  xr_rcvr_rtt_mode :: "string option"
  xr_rcvr_rtt_max_size :: int
  xr_stat_summary :: bool
  xr_stat_summary_flags :: "string list"
  xr_voip_metrics :: bool

datatype sdp_value = Raw_value "string option" | Rtcp_fb rtcp_fb | Rtcp_xr rtcp_xr

record sdp_attribute =
  at_name :: string
  at_value :: sdp_value

definition belle_sdp_rtcp_fb_attribute_init :: rtcp_fb where
  "belle_sdp_rtcp_fb_attribute_init =
     \<lparr>fb_type = RTCP_FB_TRR_INT, fb_param = FB_NONE, fb_smaxpr = 0, fb_trr_int = 0, fb_id = - 1\<rparr>"

definition belle_sdp_rtcp_xr_attribute_init :: rtcp_xr where
  "belle_sdp_rtcp_xr_attribute_init = \<lparr>xr_rcvr_rtt_mode = None, xr_rcvr_rtt_max_size = 0, xr_stat_summary = False,
     xr_stat_summary_flags = [], xr_voip_metrics = False\<rparr>"

definition belle_sdp_rtcp_xr_attribute_add_stat_summary_flag :: "rtcp_xr \<Rightarrow> string \<Rightarrow> rtcp_xr" where
  "belle_sdp_rtcp_xr_attribute_add_stat_summary_flag a flag = a\<lparr>xr_stat_summary_flags := xr_stat_summary_flags a @ [flag]\<rparr>"

definition belle_sdp_attribute_marshal :: "string \<Rightarrow> string" where
  "belle_sdp_attribute_marshal name = ''a='' @ name"

definition belle_sdp_raw_attribute_marshal :: "string \<Rightarrow> string option \<Rightarrow> string list" where
  "belle_sdp_raw_attribute_marshal name value =
     belle_sdp_attribute_marshal name # (case value of None \<Rightarrow> [] | Some v \<Rightarrow> ['':'' @ v])"

definition belle_sdp_rtcp_fb_attribute_marshal :: "string \<Rightarrow> rtcp_fb \<Rightarrow> string list" where
  "belle_sdp_rtcp_fb_attribute_marshal name a =
     [belle_sdp_attribute_marshal name,
      if sint (fb_id a) < 0 then '':* '' else '':'' @ int_text (sint (fb_id a)) @ '' '']
     @ (case fb_type a of
          RTCP_FB_ACK \<Rightarrow> [''ack'']
            @ (case fb_param a of FB_RPSI \<Rightarrow> ['' rpsi''] | FB_APP \<Rightarrow> ['' app''] | _ \<Rightarrow> [])
        | RTCP_FB_NACK \<Rightarrow> [''nack'']
            @ (case fb_param a of FB_PLI \<Rightarrow> ['' pli''] | FB_SLI \<Rightarrow> ['' sli''] | FB_RPSI \<Rightarrow> ['' rpsi''] | FB_APP \<Rightarrow> ['' app'']
               | _ \<Rightarrow> [])
        | RTCP_FB_TRR_INT \<Rightarrow> [''trr-int '' @ int_text (uint (fb_trr_int a))]
        | RTCP_FB_CCM \<Rightarrow> [''ccm'']
            @ (case fb_param a of
                 FB_FIR \<Rightarrow> ['' fir'']
               | FB_TMMBR \<Rightarrow> '' tmmbr'' # (if 0 < fb_smaxpr a then ['' smaxpr='' @ int_text (uint (fb_smaxpr a))] else [])
               | _ \<Rightarrow> []))"

text \<open>The formats of the report, the first after a colon and the others after a space; the flags of the summary.\<close>

fun separated :: "string \<Rightarrow> string \<Rightarrow> string list \<Rightarrow> string list" where
  "separated first next [] = []"
| "separated first next (s # l) = (first @ s) # map (\<lambda>s. next @ s) l"

definition belle_sdp_rtcp_xr_attribute_marshal :: "string \<Rightarrow> rtcp_xr \<Rightarrow> string list" where
  "belle_sdp_rtcp_xr_attribute_marshal name a =
     belle_sdp_attribute_marshal name # separated '':'' '' ''
       ((case xr_rcvr_rtt_mode a of
           None \<Rightarrow> []
         | Some mode \<Rightarrow> [''rcvr-rtt='' @ mode
             @ (if 0 < xr_rcvr_rtt_max_size a then '':'' @ int_text (xr_rcvr_rtt_max_size a) else [])])
        @ (if xr_stat_summary a then [''stat-summary'' @ concat (separated ''='' '','' (xr_stat_summary_flags a))] else [])
        @ (if xr_voip_metrics a then [''voip-metrics''] else []))"

definition attribute_pieces :: "sdp_attribute \<Rightarrow> string list" where
  "attribute_pieces a = (case at_value a of
       Raw_value v \<Rightarrow> belle_sdp_raw_attribute_marshal (at_name a) v
     | Rtcp_fb x \<Rightarrow> belle_sdp_rtcp_fb_attribute_marshal (at_name a) x
     | Rtcp_xr x \<Rightarrow> belle_sdp_rtcp_xr_attribute_marshal (at_name a) x)"

text \<open>The value is read from the text of the attribute: never NULL.\<close>

definition belle_sdp_attribute_get_value :: "sdp_attribute \<Rightarrow> string" where
  "belle_sdp_attribute_get_value a =
     (let ret = drop (length (at_name a) + 2) (concat (attribute_pieces a));
          ret = (if ret \<noteq> [] \<and> hd ret = CHR '':'' then tl ret else ret)
      in dropWhile (\<lambda>c. c = CHR '' '') ret)"

definition belle_sdp_attribute_has_value :: "sdp_attribute \<Rightarrow> bool" where
  "belle_sdp_attribute_has_value a = (Some (belle_sdp_attribute_get_value a) \<noteq> None)"

definition belle_sdp_raw_attribute_create :: "string \<Rightarrow> string option \<Rightarrow> sdp_attribute" where
  "belle_sdp_raw_attribute_create name value = \<lparr>at_name = name, at_value = Raw_value value\<rparr>"

text \<open>The attributes with a syntax of their own go through the parser, a parameter.\<close>

definition attribute_table :: "string list" where
  "attribute_table = [''rtcp-fb'', ''rtcp-xr'']"

definition belle_sdp_attribute_create :: "(string \<Rightarrow> sdp_attribute option) \<Rightarrow> string option \<Rightarrow> string option \<Rightarrow> sdp_attribute option" where
  "belle_sdp_attribute_create parse name value =
     (case name of
        None \<Rightarrow> None
      | Some n \<Rightarrow>
          if n = [] then None
          else if find (\<lambda>e. strcaseeq e n) attribute_table \<noteq> None
          then parse (case value of Some v \<Rightarrow> ''a='' @ n @ '':'' @ v | None \<Rightarrow> ''a='' @ n)
          else Some (belle_sdp_raw_attribute_create n value))"

definition belle_sdp_attribute_clone :: "sdp_attribute \<Rightarrow> sdp_attribute" where
  "belle_sdp_attribute_clone orig = \<lparr>at_name = at_name orig, at_value = (case at_value orig of
       Raw_value v \<Rightarrow> Raw_value (Some (belle_sdp_attribute_get_value orig))
     | Rtcp_fb x \<Rightarrow> Rtcp_fb x
     | Rtcp_xr x \<Rightarrow> Rtcp_xr x)\<rparr>"

section \<open>The lines of a description\<close>

record sdp_bandwidth =
  bw_type :: "string option"
  bw_value :: int

record sdp_connection =
  cn_network_type :: "string option"
  cn_address_type :: "string option"
  cn_address :: "string option"
  cn_ttl :: int
  cn_range :: int

record sdp_media =
  me_type :: "string option"
  me_port :: int
  me_formats :: "int list"
  me_port_count :: int
  me_protocol :: "string option"
  me_raw_fmt :: "string option"

record sdp_origin =
  or_address :: "string option"
  or_address_type :: "string option"
  or_network_type :: "string option"
  or_username :: "string option"
  or_session_id :: "32 word"
  or_session_version :: "32 word"

text \<open>A piece with the texts given to \<^verbatim>\<open>%s\<close> between the others, and the end of a line.\<close>

fun format_texts :: "string list \<Rightarrow> string option list \<Rightarrow> string option" where
  "format_texts fs [] = Some (concat fs)"
| "format_texts [] (s # ss) = None"
| "format_texts (f # fs) (s # ss) = do { t \<leftarrow> s; rest \<leftarrow> format_texts fs ss; Some (f @ t @ rest) }"

definition line_end :: string where
  "line_end = [CHR 0x0D, CHR 0x0A]"

definition belle_sdp_bandwidth_marshal :: "sdp_bandwidth \<Rightarrow> string option list" where
  "belle_sdp_bandwidth_marshal b = [format_texts [''b='', '':'' @ int_text (bw_value b)] [bw_type b]]"

definition belle_sdp_connection_create :: "string option \<Rightarrow> string option \<Rightarrow> string option \<Rightarrow> sdp_connection" where
  "belle_sdp_connection_create net_type addr_type addr =
     \<lparr>cn_network_type = net_type, cn_address_type = addr_type, cn_address = addr, cn_ttl = 0, cn_range = 0\<rparr>"

definition belle_sdp_connection_marshal :: "sdp_connection \<Rightarrow> string option list" where
  "belle_sdp_connection_marshal c =
     [format_texts [''c='', '' '', '' ''] [cn_network_type c, cn_address_type c, cn_address c]]
     @ (if 0 < cn_ttl c then [Some (''/'' @ int_text (cn_ttl c))] else [])
     @ (if 0 < cn_range c then [Some (''/'' @ int_text (cn_range c))] else [])"

definition belle_sdp_email_marshal :: "string option \<Rightarrow> string option list" where
  "belle_sdp_email_marshal value = [format_texts [''e=''] [value]]"

definition belle_sdp_info_marshal :: "string option \<Rightarrow> string option list" where
  "belle_sdp_info_marshal value = [format_texts [''i=''] [value]]"

definition belle_sdp_session_name_marshal :: "string option \<Rightarrow> string option list" where
  "belle_sdp_session_name_marshal value = [format_texts [''s=''] [value]]"

definition belle_sdp_version_marshal :: "int \<Rightarrow> string option list" where
  "belle_sdp_version_marshal version = [Some (''v='' @ int_text version)]"

definition belle_sdp_media_create :: "string option \<Rightarrow> int \<Rightarrow> int \<Rightarrow> string option \<Rightarrow> int list \<Rightarrow> sdp_media" where
  "belle_sdp_media_create media_type media_port port_count protocol static_media_formats =
     \<lparr>me_type = media_type, me_port = media_port, me_formats = static_media_formats, me_port_count = port_count,
      me_protocol = protocol, me_raw_fmt = None\<rparr>"

definition belle_sdp_media_clone :: "sdp_media \<Rightarrow> sdp_media" where
  "belle_sdp_media_clone orig = orig\<lparr>me_raw_fmt := None\<rparr>"

definition belle_sdp_media_marshal :: "sdp_media \<Rightarrow> string option list" where
  "belle_sdp_media_marshal m =
     [format_texts [''m='', '' '' @ int_text (me_port m)] [me_type m]]
     @ (if 1 < me_port_count m then [Some (''/'' @ int_text (me_port_count m))] else [])
     @ [format_texts ['' ''] [me_protocol m]]
     @ map (\<lambda>f. Some ('' '' @ int_text f)) (me_formats m)"

text \<open>The numbers of the session are unsigned and written with \<^verbatim>\<open>%i\<close>.\<close>

definition belle_sdp_origin_create ::
  "string option \<Rightarrow> 32 word \<Rightarrow> 32 word \<Rightarrow> string option \<Rightarrow> string option \<Rightarrow> string option \<Rightarrow> sdp_origin" where
  "belle_sdp_origin_create user_name session_id session_version network_type addr_type address =
     \<lparr>or_address = address, or_address_type = addr_type, or_network_type = network_type, or_username = user_name,
      or_session_id = session_id, or_session_version = session_version\<rparr>"

definition belle_sdp_origin_marshal :: "sdp_origin \<Rightarrow> string option list" where
  "belle_sdp_origin_marshal orig =
     [format_texts
        [''o='', '' '' @ int_text (sint (or_session_id orig)) @ '' '' @ int_text (sint (or_session_version orig)) @ '' '', '' '', '' '']
        [or_username orig, or_network_type orig, or_address_type orig, or_address orig]]"

record sdp_time =
  ti_start :: int
  ti_stop :: int

definition belle_sdp_time_marshal :: "sdp_time \<Rightarrow> string option list" where
  "belle_sdp_time_marshal t = [Some (int_text (ti_start t) @ '' '' @ int_text (ti_stop t))]"

text \<open>A description of a time holds a time, which may be NULL.\<close>

definition belle_sdp_time_description_create :: "int \<Rightarrow> int \<Rightarrow> sdp_time option" where
  "belle_sdp_time_description_create start stop = Some \<lparr>ti_start = start, ti_stop = stop\<rparr>"

definition belle_sdp_time_description_marshal :: "sdp_time option \<Rightarrow> string option list" where
  "belle_sdp_time_description_marshal time = (case time of None \<Rightarrow> [None] | Some t \<Rightarrow> belle_sdp_time_marshal t)"

section \<open>Descriptions\<close>

text \<open>What a session and a media description have in common, and what each adds. The text of an info line may be NULL.\<close>

record sdp_base_description =
  bd_info :: "string option option"
  bd_connection :: "sdp_connection option"
  bd_bandwidths :: "sdp_bandwidth list"
  bd_attributes :: "sdp_attribute list"

record sdp_media_description = sdp_base_description +
  md_media :: "sdp_media option"

record sdp_session_description = sdp_base_description +
  sd_version :: "int option"
  sd_emails :: "string option list"
  sd_origin :: "sdp_origin option"
  sd_session_name :: "string option option"
  sd_times :: "sdp_time option list"
  sd_media_descriptions :: "sdp_media_description list"

definition belle_sdp_base_description_clone :: "'a sdp_base_description_scheme \<Rightarrow> 'a sdp_base_description_scheme" where
  "belle_sdp_base_description_clone d = d\<lparr>bd_attributes := map belle_sdp_attribute_clone (bd_attributes d)\<rparr>"

definition belle_sdp_media_description_clone :: "sdp_media_description \<Rightarrow> sdp_media_description" where
  "belle_sdp_media_description_clone d =
     (belle_sdp_base_description_clone d)\<lparr>md_media := map_option belle_sdp_media_clone (md_media d)\<rparr>"

definition belle_sdp_session_description_clone :: "sdp_session_description \<Rightarrow> sdp_session_description" where
  "belle_sdp_session_description_clone d =
     (belle_sdp_base_description_clone d)
       \<lparr>sd_media_descriptions := map belle_sdp_media_description_clone (sd_media_descriptions d)\<rparr>"

text \<open>An object that is NULL is a crash; each line is followed by its end.\<close>

definition line :: "string option list \<Rightarrow> string option list" where
  "line ps = ps @ [Some line_end]"

definition needed :: "('a \<Rightarrow> string option list) \<Rightarrow> 'a option \<Rightarrow> string option list" where
  "needed f v = (case v of None \<Rightarrow> [None] | Some x \<Rightarrow> f x)"

definition opt_line :: "('a \<Rightarrow> string option list) \<Rightarrow> 'a option \<Rightarrow> string option list" where
  "opt_line f v = (case v of None \<Rightarrow> [] | Some x \<Rightarrow> line (f x))"

definition belle_sdp_base_description_marshal :: "'a sdp_base_description_scheme \<Rightarrow> string option list" where
  "belle_sdp_base_description_marshal d =
     opt_line belle_sdp_info_marshal (bd_info d)
     @ opt_line belle_sdp_connection_marshal (bd_connection d)
     @ concat (map (\<lambda>b. line (belle_sdp_bandwidth_marshal b)) (bd_bandwidths d))"

definition attribute_lines :: "sdp_attribute list \<Rightarrow> string option list" where
  "attribute_lines l = concat (map (\<lambda>a. line (map Some (attribute_pieces a))) l)"

definition belle_sdp_media_description_marshal :: "sdp_media_description \<Rightarrow> string option list" where
  "belle_sdp_media_description_marshal d =
     line (needed belle_sdp_media_marshal (md_media d))
     @ belle_sdp_base_description_marshal d
     @ attribute_lines (bd_attributes d)"

definition belle_sdp_session_description_marshal :: "sdp_session_description \<Rightarrow> string option list" where
  "belle_sdp_session_description_marshal d =
     line (needed belle_sdp_version_marshal (sd_version d))
     @ line (needed belle_sdp_origin_marshal (sd_origin d))
     @ line (needed belle_sdp_session_name_marshal (sd_session_name d))
     @ belle_sdp_base_description_marshal d
     @ [Some ''t='']
     @ concat (map (\<lambda>t. line (belle_sdp_time_description_marshal t)) (sd_times d))
     @ attribute_lines (bd_attributes d)
     @ concat (map belle_sdp_media_description_marshal (sd_media_descriptions d))"

section \<open>Attributes and bandwidths of a description\<close>

text \<open>Names are compared as they are; the same operations serve session and media descriptions.\<close>

definition belle_sdp_base_description_get_attribute :: "'a sdp_base_description_scheme \<Rightarrow> string \<Rightarrow> sdp_attribute option" where
  "belle_sdp_base_description_get_attribute d name = find (\<lambda>a. at_name a = name) (bd_attributes d)"

definition belle_sdp_base_description_get_attribute_value :: "'a sdp_base_description_scheme \<Rightarrow> string \<Rightarrow> string option" where
  "belle_sdp_base_description_get_attribute_value d name =
     map_option belle_sdp_attribute_get_value (belle_sdp_base_description_get_attribute d name)"

definition belle_sdp_base_description_remove_attribute ::
  "'a sdp_base_description_scheme \<Rightarrow> string \<Rightarrow> 'a sdp_base_description_scheme" where
  "belle_sdp_base_description_remove_attribute d name =
     d\<lparr>bd_attributes := remove_first (\<lambda>a. at_name a = name) (bd_attributes d)\<rparr>"

definition belle_sdp_base_description_set_attribute_value ::
  "'a sdp_base_description_scheme \<Rightarrow> string \<Rightarrow> string option \<Rightarrow> 'a sdp_base_description_scheme" where
  "belle_sdp_base_description_set_attribute_value d name value =
     d\<lparr>bd_attributes := bd_attributes d @ [\<lparr>at_name = name, at_value = Raw_value value\<rparr>]\<rparr>"

definition belle_sdp_base_description_add_attribute ::
  "'a sdp_base_description_scheme \<Rightarrow> sdp_attribute \<Rightarrow> 'a sdp_base_description_scheme" where
  "belle_sdp_base_description_add_attribute d a = d\<lparr>bd_attributes := bd_attributes d @ [a]\<rparr>"

text \<open>A bandwidth without a type is a crash when it is compared.\<close>

fun find_bandwidth :: "string \<Rightarrow> sdp_bandwidth list \<Rightarrow> nat option option" where
  "find_bandwidth name [] = Some None"
| "find_bandwidth name (b # l) =
     (case bw_type b of None \<Rightarrow> None
      | Some t \<Rightarrow> if t = name then Some (Some 0) else map_option (map_option Suc) (find_bandwidth name l))"

definition belle_sdp_base_description_get_bandwidth_value :: "'a sdp_base_description_scheme \<Rightarrow> string \<Rightarrow> int option" where
  "belle_sdp_base_description_get_bandwidth_value d name =
     map_option (\<lambda>i. case i of None \<Rightarrow> - 1 | Some i \<Rightarrow> bw_value (bd_bandwidths d ! i)) (find_bandwidth name (bd_bandwidths d))"

definition belle_sdp_base_description_remove_bandwidth ::
  "'a sdp_base_description_scheme \<Rightarrow> string \<Rightarrow> 'a sdp_base_description_scheme option" where
  "belle_sdp_base_description_remove_bandwidth d name =
     map_option (\<lambda>i. case i of None \<Rightarrow> d
       | Some i \<Rightarrow> d\<lparr>bd_bandwidths := take i (bd_bandwidths d) @ drop (Suc i) (bd_bandwidths d)\<rparr>)
       (find_bandwidth name (bd_bandwidths d))"

definition belle_sdp_base_description_set_bandwidth ::
  "'a sdp_base_description_scheme \<Rightarrow> string \<Rightarrow> int \<Rightarrow> 'a sdp_base_description_scheme option" where
  "belle_sdp_base_description_set_bandwidth d type value =
     map_option (\<lambda>i. case i of
         None \<Rightarrow> d\<lparr>bd_bandwidths := bd_bandwidths d @ [\<lparr>bw_type = Some type, bw_value = value\<rparr>]\<rparr>
       | Some i \<Rightarrow> d\<lparr>bd_bandwidths := (bd_bandwidths d)[i := (bd_bandwidths d ! i)\<lparr>bw_value := value\<rparr>]\<rparr>)
       (find_bandwidth type (bd_bandwidths d))"

definition belle_sdp_base_description_add_bandwidth ::
  "'a sdp_base_description_scheme \<Rightarrow> sdp_bandwidth \<Rightarrow> 'a sdp_base_description_scheme" where
  "belle_sdp_base_description_add_bandwidth d b = d\<lparr>bd_bandwidths := bd_bandwidths d @ [b]\<rparr>"

definition belle_sdp_media_description_create ::
  "string option \<Rightarrow> int \<Rightarrow> int \<Rightarrow> string option \<Rightarrow> int list \<Rightarrow> sdp_media_description" where
  "belle_sdp_media_description_create media_type media_port port_count protocol static_media_formats =
     \<lparr>bd_info = None, bd_connection = None, bd_bandwidths = [], bd_attributes = [],
      md_media = Some (belle_sdp_media_create media_type media_port port_count protocol static_media_formats)\<rparr>"

definition belle_sdp_session_description_add_media_description ::
  "sdp_session_description \<Rightarrow> sdp_media_description \<Rightarrow> sdp_session_description" where
  "belle_sdp_session_description_add_media_description d m = d\<lparr>sd_media_descriptions := sd_media_descriptions d @ [m]\<rparr>"

section \<open>Payload types\<close>

record sdp_mime_parameter =
  mp_rate :: int
  mp_channel_count :: int
  mp_ptime :: int
  mp_max_ptime :: int
  mp_media_format :: int
  mp_type :: "string option"
  mp_parameters :: "string option"

definition belle_sdp_mime_parameter_new :: sdp_mime_parameter where
  "belle_sdp_mime_parameter_new = \<lparr>mp_rate = 0, mp_channel_count = 0, mp_ptime = - 1, mp_max_ptime = - 1,
     mp_media_format = 0, mp_type = None, mp_parameters = None\<rparr>"

definition belle_sdp_mime_parameter_create :: "string option \<Rightarrow> int \<Rightarrow> int \<Rightarrow> int \<Rightarrow> sdp_mime_parameter" where
  "belle_sdp_mime_parameter_create type media_format rate channel_count =
     belle_sdp_mime_parameter_new\<lparr>mp_type := type, mp_media_format := media_format, mp_rate := rate,
       mp_channel_count := channel_count\<rparr>"

definition belle_sdp_mime_parameter_clone :: "sdp_mime_parameter \<Rightarrow> sdp_mime_parameter" where
  "belle_sdp_mime_parameter_clone orig = orig"

text \<open>The static payload types: number, channels, name, rate.\<close>

definition static_payload_list :: "(int \<times> int \<times> string \<times> int) list" where
  "static_payload_list =
     [(0, 1, ''PCMU'', 8000), (3, 1, ''GSM'', 8000), (4, 1, ''G723'', 8000), (5, 1, ''DVI4'', 8000), (6, 1, ''DVI4'', 16000),
      (7, 1, ''LPC'', 8000), (8, 1, ''PCMA'', 8000), (9, 1, ''G722'', 8000), (10, 2, ''L16'', 44100), (11, 1, ''L16'', 44100),
      (12, 1, ''QCELP'', 8000), (13, 1, ''CN'', 8000), (14, 1, ''MPA'', 90000), (15, 1, ''G728'', 8000), (16, 1, ''DVI4'', 11025),
      (17, 1, ''DVI4'', 22050), (18, 1, ''G729'', 8000), (25, 0, ''CelB'', 90000), (26, 0, ''JPEG'', 90000), (28, 0, ''nv'', 90000),
      (31, 0, ''H261'', 90000), (32, 0, ''MPV'', 90000), (33, 0, ''MP2T'', 90000), (34, 0, ''H263'', 90000)]"

text \<open>The name is compared only when the number is the right one; a NULL name is then a crash.\<close>

fun is_static_loop :: "sdp_mime_parameter \<Rightarrow> (int \<times> int \<times> string \<times> int) list \<Rightarrow> bool option" where
  "is_static_loop p [] = Some False"
| "is_static_loop p ((number, channel_count, type, rate) # l) =
     (if number = mp_media_format p
      then case mp_type p of None \<Rightarrow> None
        | Some t \<Rightarrow>
            if strcaseeq type t \<and> channel_count = mp_channel_count p \<and> rate = mp_rate p then Some True
            else is_static_loop p l
      else is_static_loop p l)"

definition mime_parameter_is_static :: "sdp_mime_parameter \<Rightarrow> bool option" where
  "mime_parameter_is_static p = is_static_loop p static_payload_list"

definition mime_parameter_fill_from_static :: "sdp_mime_parameter \<Rightarrow> int \<Rightarrow> sdp_mime_parameter" where
  "mime_parameter_fill_from_static p format =
     (case find (\<lambda>(number, _). number = format) static_payload_list of
        None \<Rightarrow> p
      | Some (_, channel_count, type, rate) \<Rightarrow> p\<lparr>mp_type := Some type, mp_rate := rate, mp_channel_count := channel_count\<rparr>)"

text \<open>\<open>strchr\<close>: the text before the first slash, and what follows it when there is one.\<close>

definition cut_at_slash :: "string \<Rightarrow> string \<times> string option" where
  "cut_at_slash s = (takeWhile (\<lambda>c. c \<noteq> CHR ''/'') s,
      let b = dropWhile (\<lambda>c. c \<noteq> CHR ''/'') s in if b = [] then None else Some (tl b))"

definition mime_parameter_fill_from_rtpmap :: "sdp_mime_parameter \<Rightarrow> string \<Rightarrow> bool \<Rightarrow> sdp_mime_parameter" where
  "mime_parameter_fill_from_rtpmap p rtpmap is_audio =
     (case cut_at_slash rtpmap of
        (mime, None) \<Rightarrow> p\<lparr>mp_type := Some mime\<rparr>
      | (mime, Some s) \<Rightarrow>
          (case cut_at_slash s of
             (rate, Some chans) \<Rightarrow> p\<lparr>mp_channel_count := atoi chans, mp_rate := atoi rate, mp_type := Some mime\<rparr>
           | (rate, None) \<Rightarrow>
               (if is_audio then p\<lparr>mp_channel_count := 1\<rparr> else p)\<lparr>mp_rate := atoi rate, mp_type := Some mime\<rparr>))"

text \<open>\<^verbatim>\<open>sscanf("%i %n")\<close>: the number in the base of its prefix and what is left after the spaces; None without a number.\<close>

definition number_in_base :: "int \<Rightarrow> string \<Rightarrow> int" where
  "number_in_base base ds = foldl (\<lambda>n c. base * n + hex_value c) 0 ds"

definition is_octal_digit :: "char \<Rightarrow> bool" where
  "is_octal_digit c \<longleftrightarrow> 48 \<le> (of_char c :: nat) \<and> (of_char c :: nat) \<le> 55"

definition scan_in_base :: "int \<Rightarrow> (char \<Rightarrow> bool) \<Rightarrow> string \<Rightarrow> (int \<times> string) option" where
  "scan_in_base base digit s =
     (let ds = takeWhile digit s in if ds = [] then None else Some (number_in_base base ds, dropWhile digit s))"

definition scan_based :: "string \<Rightarrow> (int \<times> string) option" where
  "scan_based s =
     (if take 2 s \<in> {''0x'', ''0X''} then scan_in_base 16 is_hex_digit (drop 2 s)
      else if take 1 s = ''0'' then scan_in_base 8 is_octal_digit s
      else scan_in_base 10 is_digit s)"

definition scan_pt :: "string \<Rightarrow> (int \<times> string) option" where
  "scan_pt s =
     (let s = skip_space s;
          neg = (take 1 s = ''-'');
          s = (if take 1 s \<in> {''-'', ''+''} then drop 1 s else s)
      in map_option (\<lambda>(n, rest). (if neg then - n else n, skip_space rest)) (scan_based s))"

fun attr_with_pt :: "sdp_attribute list \<Rightarrow> int \<Rightarrow> string \<Rightarrow> string option" where
  "attr_with_pt [] pt field = None"
| "attr_with_pt (a # l) pt field =
     (if at_name a = field
      then case scan_pt (belle_sdp_attribute_get_value a) of
          Some (tmppt, tmp) \<Rightarrow> if pt = tmppt \<and> tmp \<noteq> [] then Some tmp else attr_with_pt l pt field
        | None \<Rightarrow> attr_with_pt l pt field
      else attr_with_pt l pt field)"

definition belle_sdp_media_description_a_attr_value_get_with_pt :: "sdp_media_description \<Rightarrow> int \<Rightarrow> string \<Rightarrow> string option" where
  "belle_sdp_media_description_a_attr_value_get_with_pt d pt field = attr_with_pt (bd_attributes d) pt field"

definition mime_of_format :: "sdp_media_description \<Rightarrow> bool \<Rightarrow> int \<Rightarrow> int \<Rightarrow> int \<Rightarrow> sdp_mime_parameter" where
  "mime_of_format d is_audio ptime max_ptime format =
     (let p = belle_sdp_mime_parameter_new\<lparr>mp_ptime := ptime, mp_max_ptime := max_ptime, mp_media_format := format\<rparr>;
          p = (case belle_sdp_media_description_a_attr_value_get_with_pt d format ''rtpmap'' of
                 Some rtpmap \<Rightarrow> mime_parameter_fill_from_rtpmap p rtpmap is_audio
               | None \<Rightarrow> mime_parameter_fill_from_static p format)
      in case belle_sdp_media_description_a_attr_value_get_with_pt d format ''fmtp'' of
           Some fmtp \<Rightarrow> p\<lparr>mp_parameters := Some fmtp\<rparr>
         | None \<Rightarrow> p)"

definition attribute_as_int :: "sdp_media_description \<Rightarrow> string \<Rightarrow> int \<Rightarrow> int" where
  "attribute_as_int d name otherwise =
     (case belle_sdp_base_description_get_attribute_value d name of Some v \<Rightarrow> atoi v | None \<Rightarrow> otherwise)"

text \<open>A media without a type is a crash, a description without a media has no payload types.\<close>

definition belle_sdp_media_description_build_mime_parameters :: "sdp_media_description \<Rightarrow> sdp_mime_parameter list option" where
  "belle_sdp_media_description_build_mime_parameters d =
     (case md_media d of
        None \<Rightarrow> Some []
      | Some media \<Rightarrow> do {
          type \<leftarrow> me_type media;
          Some (map (mime_of_format d (strcaseeq type ''audio'') (attribute_as_int d ''ptime'' (- 1)) (attribute_as_int d ''maxptime'' (- 1)))
            (me_formats media)) })"

text \<open>\<^verbatim>\<open>snprintf\<close> on a local buffer of \<open>n\<close> bytes keeps \<open>n - 1\<close> characters.\<close>

definition MAX_FMTP_LENGTH :: nat where
  "MAX_FMTP_LENGTH = 512"

definition in_buffer :: "nat \<Rightarrow> string \<Rightarrow> string" where
  "in_buffer n s = take (n - 1) s"

definition rtpmap_text :: "sdp_mime_parameter \<Rightarrow> string option" where
  "rtpmap_text p = map_option (in_buffer MAX_FMTP_LENGTH)
     (format_texts
        [int_text (mp_media_format p) @ '' '',
         ''/'' @ int_text (mp_rate p) @ (if 1 < mp_channel_count p then ''/'' @ int_text (mp_channel_count p) else [])]
        [mp_type p])"

definition set_greater :: "sdp_media_description \<Rightarrow> string \<Rightarrow> int \<Rightarrow> int \<Rightarrow> sdp_media_description" where
  "set_greater d name current value =
     (let current = (if current < value then value else current) in
      if 0 < current
      then belle_sdp_base_description_set_attribute_value d name (Some (in_buffer 10 (int_text current)))
      else d)"

definition belle_sdp_media_description_append_values_from_mime_parameter ::
  "sdp_media_description \<Rightarrow> sdp_mime_parameter \<Rightarrow> sdp_media_description option" where
  "belle_sdp_media_description_append_values_from_mime_parameter d p = do {
     media \<leftarrow> md_media d;
     let d = d\<lparr>md_media := Some (media\<lparr>me_formats := me_formats media @ [mp_media_format p]\<rparr>)\<rparr>;
     let current_ptime = attribute_as_int d ''ptime'' 0;
     let d = belle_sdp_base_description_remove_attribute d ''ptime'';
     let current_max_ptime = attribute_as_int d ''maxptime'' 0;
     let d = belle_sdp_base_description_remove_attribute d ''maxptime'';
     static \<leftarrow> mime_parameter_is_static p;
     d \<leftarrow> (if static then Some d
           else map_option (\<lambda>t. belle_sdp_base_description_set_attribute_value d ''rtpmap'' (Some t)) (rtpmap_text p));
     let d = (case mp_parameters p of
         None \<Rightarrow> d
       | Some f \<Rightarrow> belle_sdp_base_description_set_attribute_value d ''fmtp''
           (Some (in_buffer MAX_FMTP_LENGTH (int_text (mp_media_format p) @ '' '' @ f))));
     let d = set_greater d ''ptime'' current_ptime (mp_ptime p);
     Some (set_greater d ''maxptime'' current_max_ptime (mp_max_ptime p)) }"

end
