(* ===== verification/AuthHelper.thy ===== *)
theory AuthHelper
  imports Hash
begin

text \<open>
  Digest authentication (\<^verbatim>\<open>src/auth_helper.c\<close>): the hashes HA1 and HA2, the response with and without
  quality of protection, and the filling of an Authorization header. The header of HTTP, whose URI is a
  generic one, is filled in Http. \<^verbatim>\<open>None\<close> stands for a return code of -1.
\<close>

section \<open>Hexadecimal text\<close>

definition hex_digit :: "nat \<Rightarrow> char" where
  "hex_digit n = ''0123456789abcdef'' ! n"

text \<open>\<^verbatim>\<open>%02x\<close> of each byte and \<^verbatim>\<open>%08x\<close> of a word\<close>

definition hex_bytes :: "8 word list \<Rightarrow> string" where
  "hex_bytes bs = concat (map (\<lambda>b. [hex_digit (unat b div 16), hex_digit (unat b mod 16)]) bs)"

definition hex_word :: "32 word \<Rightarrow> string" where
  "hex_word x = map (\<lambda>i. hex_digit (unat (drop_bit (4 * i) x) mod 16)) [7, 6, 5, 4, 3, 2, 1, 0]"

section \<open>Hashes\<close>

definition belle_sip_auth_helper_compute_ha1 :: "string option \<Rightarrow> string option \<Rightarrow> string option \<Rightarrow> string option" where
  "belle_sip_auth_helper_compute_ha1 userid realm password = do {
     userid \<leftarrow> userid; password \<leftarrow> password; realm \<leftarrow> realm;
     Some (hex_bytes (md5_texts [bytes_of userid, bytes_of '':'', bytes_of realm, bytes_of '':'', bytes_of password])) }"

definition belle_sip_auth_helper_compute_ha2 :: "string \<Rightarrow> string \<Rightarrow> string" where
  "belle_sip_auth_helper_compute_ha2 method uri =
     hex_bytes (md5_texts [bytes_of method, bytes_of '':'', bytes_of uri])"

definition belle_sip_auth_helper_compute_response :: "string \<Rightarrow> string \<Rightarrow> string \<Rightarrow> string" where
  "belle_sip_auth_helper_compute_response ha1 nonce ha2 =
     hex_bytes (md5_texts [bytes_of ha1, bytes_of '':'', bytes_of nonce, bytes_of '':'', bytes_of ha2])"

definition belle_sip_auth_helper_compute_response_qop_auth ::
  "string \<Rightarrow> string \<Rightarrow> 32 word \<Rightarrow> string \<Rightarrow> string \<Rightarrow> string \<Rightarrow> string" where
  "belle_sip_auth_helper_compute_response_qop_auth ha1 nonce nonce_count cnonce qop ha2 =
     hex_bytes (md5_texts [bytes_of ha1, bytes_of '':'', bytes_of nonce, bytes_of '':'', bytes_of (hex_word nonce_count),
       bytes_of '':'', bytes_of cnonce, bytes_of '':'', bytes_of qop, bytes_of '':'', bytes_of ha2])"

section \<open>Headers\<close>

definition authorization_new :: auth_header where
  "authorization_new = \<lparr>auth_scheme = None, auth_realm = None, auth_nonce = None, auth_algorithm = None, auth_opaque = None,
     auth_params = parameters_init, auth_username = None, auth_uri = None, auth_response = None, auth_cnonce = None,
     auth_nonce_count = 0, auth_qop = None\<rparr>"

definition belle_sip_auth_helper_clone_authorization :: "auth_header \<Rightarrow> www_authenticate \<Rightarrow> auth_header" where
  "belle_sip_auth_helper_clone_authorization a c =
     (let keep = (\<lambda>old new. if new = None then old else new) in
      a\<lparr>auth_scheme := keep (auth_scheme a) (auth_scheme c), auth_realm := keep (auth_realm a) (auth_realm c),
        auth_nonce := keep (auth_nonce a) (auth_nonce c), auth_algorithm := keep (auth_algorithm a) (auth_algorithm c),
        auth_opaque := keep (auth_opaque a) (auth_opaque c)\<rparr>)"

definition belle_sip_auth_helper_create_authorization :: "www_authenticate \<Rightarrow> header" where
  "belle_sip_auth_helper_create_authorization c =
     \<lparr>hname = ''Authorization'', hbody = HAuthorization (belle_sip_auth_helper_clone_authorization authorization_new c)\<rparr>"

definition belle_sip_auth_helper_create_proxy_authorization :: "www_authenticate \<Rightarrow> header" where
  "belle_sip_auth_helper_create_proxy_authorization c =
     \<lparr>hname = ''Proxy-Authorization'',
      hbody = HProxyAuthorization (belle_sip_auth_helper_clone_authorization authorization_new c)\<rparr>"

text \<open>
  Filling the header; the result is the header and whether it succeeded. A missing client nonce is made of
  the low bits of the header's memory address, which is a parameter. A method that is missing is noticed
  after the client nonce is set.
\<close>

definition fill_refused :: "auth_header \<Rightarrow> bool" where
  "fill_refused a \<longleftrightarrow> auth_scheme a \<noteq> None \<and> auth_scheme a \<noteq> Some ''Digest''
     \<or> auth_qop a \<noteq> None \<and> auth_qop a \<noteq> Some ''auth''
     \<or> auth_realm a = None \<or> auth_nonce a = None \<or> auth_uri a = None
     \<or> auth_qop a = Some ''auth'' \<and> auth_nonce_count a = 0"

definition with_cnonce :: "16 word \<Rightarrow> auth_header \<Rightarrow> auth_header" where
  "with_cnonce address a = (if auth_qop a = Some ''auth'' \<and> auth_cnonce a = None
     then a\<lparr>auth_cnonce := Some (hex_word (xor (scast address) 0x5555555))\<rparr> else a)"

definition belle_sip_auth_helper_fill_authorization ::
  "(sip_uri \<Rightarrow> string) \<Rightarrow> 16 word \<Rightarrow> auth_header \<Rightarrow> string option \<Rightarrow> string \<Rightarrow> (auth_header \<times> bool) option" where
  "belle_sip_auth_helper_fill_authorization uri_to_string address a method ha1 =
     (if fill_refused a then Some (a, False)
      else let a = with_cnonce address a in
        case method of None \<Rightarrow> Some (a, False)
        | Some method \<Rightarrow> do {
            uri \<leftarrow> auth_uri a; nonce \<leftarrow> auth_nonce a;
            let ha2 = belle_sip_auth_helper_compute_ha2 method (uri_to_string uri);
            response \<leftarrow> (case auth_qop a of
                None \<Rightarrow> Some (belle_sip_auth_helper_compute_response ha1 nonce ha2)
              | Some qop \<Rightarrow> do {
                  cnonce \<leftarrow> auth_cnonce a;
                  Some (belle_sip_auth_helper_compute_response_qop_auth ha1 nonce
                    (word_of_int (auth_nonce_count a)) cnonce qop ha2) });
            Some (a\<lparr>auth_response := Some response\<rparr>, True) })"

definition belle_sip_auth_helper_fill_proxy_authorization ::
  "(sip_uri \<Rightarrow> string) \<Rightarrow> 16 word \<Rightarrow> auth_header \<Rightarrow> string option \<Rightarrow> string \<Rightarrow> (auth_header \<times> bool) option" where
  "belle_sip_auth_helper_fill_proxy_authorization uri_to_string address a method ha1 =
     belle_sip_auth_helper_fill_authorization uri_to_string address a method ha1"

section \<open>The digest of RFC 2617\<close>

text \<open>The functions H and KD of the standard, on whole texts.\<close>

definition rfc_H :: "string \<Rightarrow> string" where
  "rfc_H s = hex_bytes (md5 (bytes_of s))"

definition rfc_KD :: "string \<Rightarrow> string \<Rightarrow> string" where
  "rfc_KD secret data = rfc_H (secret @ '':'' @ data)"

lemma bytes_of_append: "bytes_of (s @ t) = bytes_of s @ bytes_of t"
  by (simp add: bytes_of_def)

lemma md5_texts_whole: "\<forall>t\<in>set texts. length t < 2 ^ 28 \<Longrightarrow> md5_texts texts = md5 (concat texts)"
  unfolding md5_texts_def by (rule digest_in_pieces) simp_all

lemma hash_texts:
  assumes "\<forall>t\<in>set texts. length t < 2 ^ 28"
  shows "hex_bytes (md5_texts (map bytes_of texts)) = rfc_H (concat texts)"
proof -
  have "concat (map bytes_of texts) = bytes_of (concat texts)" by (simp add: bytes_of_def[abs_def] map_concat)
  then show ?thesis
    using md5_texts_whole[of "map bytes_of texts"] assms by (simp add: rfc_H_def bytes_of_def)
qed

lemma hex_bytes_length: "length (hex_bytes bs) = 2 * length bs"
  by (induction bs) (simp_all add: hex_bytes_def)

lemma hex_word_length: "length (hex_word x) = 8"
  by (simp add: hex_word_def)

definition rfc_A1 :: "string \<Rightarrow> string \<Rightarrow> string \<Rightarrow> string" where
  "rfc_A1 user realm password = user @ '':'' @ realm @ '':'' @ password"

definition short :: "string \<Rightarrow> bool" where
  "short s \<longleftrightarrow> length s < 2 ^ 28"

lemma short_simps [simp]: "short '':''" "short (hex_word x)" "short (hex_bytes (md5_texts t))" "short (rfc_H s)"
proof -
  have "length (registers_bytes r) = 16" for r by (cases r) (simp add: word_bytes_def)
  then have "length (md5 m) = 16" "length (belle_sip_md5_finish p) = 16" for m p
    by (simp_all add: md5_def belle_sip_md5_finish_def Let_def)
  then show "short (hex_bytes (md5_texts t))" "short (rfc_H s)"
    by (simp_all add: short_def hex_bytes_length rfc_H_def md5_texts_def)
qed (simp_all add: short_def hex_word_length)

lemma ha1_hash:
  "short user \<Longrightarrow> short realm \<Longrightarrow> short password \<Longrightarrow>
   belle_sip_auth_helper_compute_ha1 (Some user) (Some realm) (Some password) = Some (rfc_H (rfc_A1 user realm password))"
  using hash_texts[of "[user, '':'', realm, '':'', password]"] short_simps(1)
  by (simp add: belle_sip_auth_helper_compute_ha1_def rfc_A1_def short_def)

lemma ha2_hash: "short method \<Longrightarrow> short uri \<Longrightarrow> belle_sip_auth_helper_compute_ha2 method uri = rfc_H (method @ '':'' @ uri)"
  using hash_texts[of "[method, '':'', uri]"] short_simps(1)
  by (simp add: belle_sip_auth_helper_compute_ha2_def short_def)

lemma response_hash:
  "short ha1 \<Longrightarrow> short nonce \<Longrightarrow> short ha2 \<Longrightarrow>
   belle_sip_auth_helper_compute_response ha1 nonce ha2 = rfc_KD ha1 (nonce @ '':'' @ ha2)"
  using hash_texts[of "[ha1, '':'', nonce, '':'', ha2]"] short_simps(1)
  by (simp add: belle_sip_auth_helper_compute_response_def rfc_KD_def short_def)

lemma response_qop_hash:
  "short ha1 \<Longrightarrow> short nonce \<Longrightarrow> short cnonce \<Longrightarrow> short qop \<Longrightarrow> short ha2 \<Longrightarrow>
   belle_sip_auth_helper_compute_response_qop_auth ha1 nonce nc cnonce qop ha2 =
     rfc_KD ha1 (nonce @ '':'' @ hex_word nc @ '':'' @ cnonce @ '':'' @ qop @ '':'' @ ha2)"
  using hash_texts[of "[ha1, '':'', nonce, '':'', hex_word nc, '':'', cnonce, '':'', qop, '':'', ha2]"] short_simps(1) short_simps(2)[of nc]
  by (simp add: belle_sip_auth_helper_compute_response_qop_auth_def rfc_KD_def short_def)

text \<open>C17. Filling an Authorization header that has a realm, a nonce and a URI, and a nonce count when the quality of
  protection is auth, with the hash of the user's credentials, gives the request-digest of RFC 2617: KD(H(A1), nonce:H(A2)),
  or KD(H(A1), nonce:nc:cnonce:auth:H(A2)) with the count on eight hexadecimal digits.\<close>

theorem fill_gives_request_digest:
  assumes s: "auth_scheme a \<in> {None, Some ''Digest''}" and r: "auth_realm a = Some realm" and n: "auth_nonce a = Some nonce"
    and u: "auth_uri a = Some uri" and q: "auth_qop a = None \<or> auth_qop a = Some ''auth'' \<and> auth_nonce_count a \<noteq> 0"
    and h: "belle_sip_auth_helper_compute_ha1 (Some user) (Some realm) (Some password) = Some ha1"
    and sh: "short user" "short realm" "short password" "short nonce" "short method" "short (uri_to_string uri)"
      "\<forall>c. auth_cnonce a = Some c \<longrightarrow> short c"
  shows "\<exists>a'. belle_sip_auth_helper_fill_authorization uri_to_string address a (Some method) ha1 = Some (a', True)
    \<and> a' = a\<lparr>auth_response := auth_response a', auth_cnonce := auth_cnonce a'\<rparr>
    \<and> auth_response a' = Some (rfc_KD (rfc_H (rfc_A1 user realm password))
        (case auth_qop a of None \<Rightarrow> nonce @ '':'' @ rfc_H (method @ '':'' @ uri_to_string uri)
         | Some qop \<Rightarrow> nonce @ '':'' @ hex_word (word_of_int (auth_nonce_count a)) @ '':'' @ the (auth_cnonce a') @ '':'' @ qop
             @ '':'' @ rfc_H (method @ '':'' @ uri_to_string uri)))"
proof -
  have ha1: "ha1 = rfc_H (rfc_A1 user realm password)" using h ha1_hash[OF sh(1-3)] by simp
  have ok: "\<not> fill_refused a" using s r n u q by (auto simp: fill_refused_def)
  show ?thesis
  proof (cases "auth_qop a")
    case None
    then have "with_cnonce address a = a" by (simp add: with_cnonce_def)
    then show ?thesis
      using None ok n u response_hash[of ha1 nonce] ha2_hash sh ha1
      by (simp add: belle_sip_auth_helper_fill_authorization_def)
  next
    case (Some qop)
    then have qop: "qop = ''auth''" and sq: "short qop" using q by (auto simp: short_def)
    obtain b where b: "with_cnonce address a = a\<lparr>auth_cnonce := Some b\<rparr>" and sb: "short b"
    proof (cases "auth_cnonce a")
      case None
      then show ?thesis using that Some qop short_simps(2) by (simp add: with_cnonce_def)
    next
      case (Some c)
      then show ?thesis using that[of c] sh(7) by (simp add: with_cnonce_def)
    qed
    show ?thesis
      using Some ok n u sh ha1 sq sb ha2_hash response_qop_hash[of ha1 nonce b qop]
      by (simp add: belle_sip_auth_helper_fill_authorization_def b)
  qed
qed

definition sample_credentials :: auth_header where
  "sample_credentials = authorization_new\<lparr>auth_scheme := Some ''Digest'', auth_realm := Some ''r'', auth_nonce := Some ''n'',
     auth_uri := Some belle_sip_uri_new, auth_nonce_count := 1, auth_qop := Some ''auth''\<rparr>"

theorem fill_gives_request_digest_witness:
  "\<exists>a' ha1. belle_sip_auth_helper_compute_ha1 (Some ''u'') (Some ''r'') (Some ''p'') = Some ha1
     \<and> belle_sip_auth_helper_fill_authorization (\<lambda>_. ''sip:x'') 0 sample_credentials (Some ''REGISTER'') ha1 = Some (a', True)
     \<and> auth_response a' = Some (rfc_KD (rfc_H ''u:r:p'') (''n:00000001:'' @ the (auth_cnonce a') @ '':auth:'' @ rfc_H ''REGISTER:sip:x''))"
proof -
  have w: "hex_word 1 = ''00000001''" by code_simp
  obtain ha1 where h: "belle_sip_auth_helper_compute_ha1 (Some ''u'') (Some ''r'') (Some ''p'') = Some ha1"
    by (simp add: belle_sip_auth_helper_compute_ha1_def)
  show ?thesis
    using fill_gives_request_digest[of sample_credentials "''r''" "''n''" belle_sip_uri_new "''u''" "''p''" ha1 "''REGISTER''" "\<lambda>_. ''sip:x''" 0] h
    by (auto simp: sample_credentials_def authorization_new_def short_def rfc_A1_def w)
qed

text \<open>The header is refused, and returned as it was, exactly when its scheme or quality of protection is another one,
  when the realm, the nonce or the URI is missing, or when the quality of protection is asked for without a count;
  otherwise, with a method, a response is computed.\<close>

lemma fill_refuses:
  "belle_sip_auth_helper_fill_authorization uri_to_string address a (Some method) ha1 = Some (a, False) \<longleftrightarrow> fill_refused a"
proof (cases "fill_refused a")
  case False
  then have f: "auth_uri a \<noteq> None" "auth_nonce a \<noteq> None" "auth_qop a = None \<or> auth_qop a = Some ''auth''"
    by (auto simp: fill_refused_def)
  then show ?thesis
    using False by (auto simp: belle_sip_auth_helper_fill_authorization_def with_cnonce_def split: option.splits)
qed (simp add: belle_sip_auth_helper_fill_authorization_def)

end
