(* ===== verification/HeaderText.thy ===== *)
theory HeaderText
  imports SipMsg Sdp AuthHelper
begin

text \<open>
  The headers of a message and their text (\<^verbatim>\<open>src/belle_sip_headers_impl.c\<close>), and the text of a message
  (\<^verbatim>\<open>src/message.c\<close>). As in UriText a text is written in pieces; a piece is None where NULL is given to \<^verbatim>\<open>%s\<close> or where
  an escape leaves its buffer. The types of SipMsg are those that the core reads; \<open>header_value\<close> adds the others.
  The parser is generated from the grammar: it is a parameter of the functions that call it. The q value of a contact, a
  \<^verbatim>\<open>float\<close>, is left out.
\<close>

section \<open>Parameters that are numbers or texts\<close>

definition set_string_param :: "parameters \<Rightarrow> string \<Rightarrow> string option \<Rightarrow> parameters" where
  "set_string_param ps name v =
     (if belle_sip_parameters_has_parameter ps name \<and> v = None then belle_sip_parameters_remove_parameter ps name
      else belle_sip_parameters_set_parameter ps name v)"

definition get_int_param :: "parameters \<Rightarrow> string \<Rightarrow> int" where
  "get_int_param ps name = (case belle_sip_parameters_get_parameter ps name of None \<Rightarrow> - 1 | Some v \<Rightarrow> atoi v)"

text \<open>The number is written to a buffer of 16 bytes.\<close>

definition set_int_param :: "parameters \<Rightarrow> string \<Rightarrow> int \<Rightarrow> parameters" where
  "set_int_param ps name v =
     (if v = - 1 then belle_sip_parameters_remove_parameter ps name
      else belle_sip_parameters_set_parameter ps name (Some (take 15 (int_text v))))"

text \<open>The setters that check their value; the boolean is true when it is accepted.\<close>

definition belle_sip_header_via_set_rport :: "via_header \<Rightarrow> int \<Rightarrow> via_header \<times> bool" where
  "belle_sip_header_via_set_rport v n =
     (if n = - 1 then (v\<lparr>via_params := belle_sip_parameters_set_parameter (via_params v) ''rport'' None\<rparr>, True)
      else if 0 < n \<and> n < 65536 then (v\<lparr>via_params := set_int_param (via_params v) ''rport'' n\<rparr>, True)
      else (v, False))"

definition belle_sip_header_via_set_ttl :: "via_header \<Rightarrow> int \<Rightarrow> via_header \<times> bool" where
  "belle_sip_header_via_set_ttl v n =
     (if n = - 1 \<or> 0 < n \<and> n \<le> 255 then (v\<lparr>via_params := set_int_param (via_params v) ''ttl'' n\<rparr>, True) else (v, False))"

definition belle_sip_header_via_set_port :: "via_header \<Rightarrow> int \<Rightarrow> via_header \<times> bool" where
  "belle_sip_header_via_set_port v n =
     (if n = - 1 \<or> 0 < n \<and> n < 65536 then (v\<lparr>via_port := n\<rparr>, True) else (v, False))"

section \<open>Addresses\<close>

text \<open>
  An address has a SIP URI or an absolute one. Setting one where the other is set clears the other; for the
  absolute URI this takes a reference to NULL (None).
\<close>

definition belle_sip_header_address_set_absolute_uri :: "addr_header \<Rightarrow> string option \<Rightarrow> addr_header option" where
  "belle_sip_header_address_set_absolute_uri a u =
     (if u = None then None
      else Some (a\<lparr>addr_absolute_uri := u, addr_uri := None\<rparr>))"

definition belle_sip_header_address_set_uri :: "addr_header \<Rightarrow> sip_uri option \<Rightarrow> addr_header option" where
  "belle_sip_header_address_set_uri a u =
     (let a = a\<lparr>addr_uri := u\<rparr> in
      if addr_absolute_uri a \<noteq> None \<and> u \<noteq> None then belle_sip_header_address_set_absolute_uri a None else Some a)"

definition belle_sip_header_address_create :: "string option \<Rightarrow> sip_uri option \<Rightarrow> addr_header option" where
  "belle_sip_header_address_create display uri = belle_sip_header_address_set_uri (addr_new\<lparr>displayname := display\<rparr>) uri"

definition belle_sip_header_address_create2 :: "string option \<Rightarrow> string option \<Rightarrow> addr_header option" where
  "belle_sip_header_address_create2 display uri =
     belle_sip_header_address_set_absolute_uri (addr_new\<lparr>displayname := display\<rparr>) uri"

text \<open>The quotes are the first and last characters, whatever they are.\<close>

definition belle_sip_header_address_set_quoted_displayname :: "addr_header \<Rightarrow> string \<Rightarrow> addr_header" where
  "belle_sip_header_address_set_quoted_displayname a v =
     a\<lparr>displayname := (if 2 < length v then Some (take (length v - 2) (drop 1 v)) else None)\<rparr>"

definition quoted :: "string \<Rightarrow> string" where
  "quoted s = CHR 0x22 # s @ [CHR 0x22]"

definition params_pieces :: "parameters \<Rightarrow> string option list" where
  "params_pieces ps = map Some (parameters_pieces (param_list ps))"

definition has_brackets :: "addr_header \<Rightarrow> bool \<Rightarrow> bool" where
  "has_brackets a force_angle_quote \<longleftrightarrow>
     force_angle_quote \<or> displayname a \<noteq> None \<or> addr_absolute_uri a \<noteq> None
     \<or> (case addr_uri a of None \<Rightarrow> False
        | Some u \<Rightarrow> belle_sip_parameters_get_parameter_names (uri_params u) \<noteq> [] \<or> belle_sip_uri_get_header_names u \<noteq> [])
     \<or> belle_sip_parameters_get_parameter_names (addr_params a) \<noteq> []"

definition belle_sip_header_address_pieces :: "addr_header \<Rightarrow> bool \<Rightarrow> string option list" where
  "belle_sip_header_address_pieces a force_angle_quote =
     opt_piece (\<lambda>d. Some (quoted (belle_sip_display_name_to_backslashed_escaped_string d) @ '' '')) (displayname a)
     @ (if addr_uri a = None \<and> addr_absolute_uri a = None then []
        else (if has_brackets a force_angle_quote then [Some ''<''] else [])
          @ (case addr_uri a of Some u \<Rightarrow> belle_sip_uri_pieces u | None \<Rightarrow> opt_piece Some (addr_absolute_uri a))
          @ (if has_brackets a force_angle_quote then [Some ''>''] else []))
     @ params_pieces (addr_params a)"

section \<open>Via and the credentials\<close>

definition belle_sip_header_via_pieces :: "via_header \<Rightarrow> string option list" where
  "belle_sip_header_via_pieces v =
     [do { p \<leftarrow> via_protocol v; t \<leftarrow> via_transport v; Some (p @ ''/'' @ t) }]
     @ opt_piece (\<lambda>h. Some ('' '' @ host_piece h)) (via_host v)
     @ (if 0 < via_port v then [Some ('':'' @ int_text (via_port v))] else [])
     @ opt_piece (\<lambda>r. Some ('';received='' @ r)) (via_received v)
     @ params_pieces (via_params v)"

text \<open>The fields of a challenge or of credentials, each in its pieces: a space before the first, a comma before the others.\<close>

fun bordered :: "string \<Rightarrow> string option list list \<Rightarrow> string option list" where
  "bordered border [] = []"
| "bordered border (f # fs) = (case f of [] \<Rightarrow> [] | p # ps \<Rightarrow> map_option ((@) border) p # ps) @ bordered '', '' fs"

definition opt_field :: "('a \<Rightarrow> string) \<Rightarrow> 'a option \<Rightarrow> string option list list" where
  "opt_field f v = (case v of None \<Rightarrow> [] | Some x \<Rightarrow> [[Some (f x)]])"

text \<open>In HTTP the algorithm and the quality of protection are quoted.\<close>

definition auth_base_fields :: "bool \<Rightarrow> 'a auth_base_scheme \<Rightarrow> string option list list" where
  "auth_base_fields http a =
     map (\<lambda>p. [map_option (\<lambda>v. pname p @ ''='' @ v) (pvalue p)]) (param_list (auth_params a))
     @ opt_field (\<lambda>v. ''realm='' @ quoted v) (auth_realm a)
     @ opt_field (\<lambda>v. ''nonce='' @ quoted v) (auth_nonce a)
     @ opt_field (\<lambda>v. ''algorithm='' @ (if http then quoted v else v)) (auth_algorithm a)
     @ opt_field (\<lambda>v. ''opaque='' @ quoted v) (auth_opaque a)"

definition auth_scheme_pieces :: "'a auth_base_scheme \<Rightarrow> string option list" where
  "auth_scheme_pieces a = opt_piece (\<lambda>s. Some ('' '' @ s)) (auth_scheme a)"

definition belle_sip_header_authorization_get_nonce_count_as_string :: "auth_header \<Rightarrow> string \<times> bool" where
  "belle_sip_header_authorization_get_nonce_count_as_string a =
     (if 0 < auth_nonce_count a then (hex_word (word_of_int (auth_nonce_count a)), True) else ([], False))"

definition belle_sip_header_authorization_fields :: "bool \<Rightarrow> auth_header \<Rightarrow> string option list list" where
  "belle_sip_header_authorization_fields http a =
     auth_base_fields http a
     @ opt_field (\<lambda>v. ''username='' @ quoted v) (auth_username a)
     @ (case auth_uri a of None \<Rightarrow> []
        | Some u \<Rightarrow> [[Some ('' uri='' @ [CHR 0x22])] @ belle_sip_uri_pieces u @ [Some [CHR 0x22]]])
     @ opt_field (\<lambda>v. ''response='' @ quoted v) (auth_response a)
     @ opt_field (\<lambda>v. ''cnonce='' @ quoted v) (auth_cnonce a)
     @ (if 0 < auth_nonce_count a
        then [[Some (''nc='' @ fst (belle_sip_header_authorization_get_nonce_count_as_string a))]] else [])
     @ opt_field (\<lambda>v. ''qop='' @ (if http then quoted v else v)) (auth_qop a)"

definition belle_sip_header_authorization_pieces :: "bool \<Rightarrow> auth_header \<Rightarrow> string option list" where
  "belle_sip_header_authorization_pieces http a =
     auth_scheme_pieces a @ bordered '' '' (belle_sip_header_authorization_fields http a)"

text \<open>The border is not changed after \<open>stale\<close>.\<close>

definition belle_sip_header_www_authenticate_pieces :: "www_authenticate \<Rightarrow> string option list" where
  "belle_sip_header_www_authenticate_pieces a =
     (let fields = auth_base_fields False a @ opt_field (\<lambda>v. ''domain='' @ quoted v) (www_domain a);
          border = (if fields = [] then '' '' else '', '')
      in auth_scheme_pieces a @ bordered '' '' fields
         @ (if 0 \<le> www_stale a then [Some (border @ ''stale='' @ (if www_stale a \<noteq> 0 then ''true'' else ''false''))] else [])
         @ (if www_qop a = [] then []
            else [Some (border @ ''qop='' @ [CHR 0x22])] @ map Some (separated [] '','' (www_qop a)) @ [Some [CHR 0x22]]))"

section \<open>The text of a header\<close>

definition belle_sip_header_marshal :: "string \<Rightarrow> string option list" where
  "belle_sip_header_marshal name = [Some (name @ '': '')]"

text \<open>Unsigned numbers are written as signed ones.\<close>

definition unsigned_text :: "32 word \<Rightarrow> string" where
  "unsigned_text n = int_text (sint n)"

text \<open>Each type after its name, which \<open>header_pieces\<close> writes.\<close>

definition belle_sip_header_contact_pieces :: "addr_header \<Rightarrow> contact_flags \<Rightarrow> string option list" where [simp]:
  "belle_sip_header_contact_pieces a f = (if ct_wildcard f then [Some ''*''] else belle_sip_header_address_pieces a False)"

definition belle_sip_header_call_id_pieces :: "string option \<Rightarrow> string option list" where [simp]:
  "belle_sip_header_call_id_pieces c = [c]"

definition belle_sip_header_cseq_pieces :: "string option \<Rightarrow> 32 word \<Rightarrow> string option list" where [simp]:
  "belle_sip_header_cseq_pieces method n = [map_option (\<lambda>m. unsigned_text n @ '' '' @ m) method]"

definition belle_sip_header_max_forwards_pieces :: "int \<Rightarrow> string option list" where [simp]:
  "belle_sip_header_max_forwards_pieces n = [Some (int_text n)]"

definition belle_sip_header_content_length_pieces :: "32 word \<Rightarrow> string option list" where [simp]:
  "belle_sip_header_content_length_pieces n = [Some (unsigned_text n)]"

definition belle_sip_header_privacy_pieces :: "string list \<Rightarrow> string option list" where [simp]:
  "belle_sip_header_privacy_pieces l = map Some (separated [] '';'' l)"

definition belle_sip_header_expires_pieces :: "int \<Rightarrow> string option list" where [simp]:
  "belle_sip_header_expires_pieces n = [Some (int_text n)]"

definition belle_sip_header_date_pieces :: "string option \<Rightarrow> string option list" where [simp]:
  "belle_sip_header_date_pieces d = [d]"

definition belle_sip_header_extension_pieces :: "string option \<Rightarrow> string option list" where [simp]:
  "belle_sip_header_extension_pieces v = opt_piece Some v"

fun hbody_pieces :: "hbody \<Rightarrow> string option list" where
  "hbody_pieces (HVia v) = belle_sip_header_via_pieces v"
| "hbody_pieces (HFrom a) = belle_sip_header_address_pieces a False"
| "hbody_pieces (HTo a) = belle_sip_header_address_pieces a False"
| "hbody_pieces (HContact a f) = belle_sip_header_contact_pieces a f"
| "hbody_pieces (HRoute a) = belle_sip_header_address_pieces a True"
| "hbody_pieces (HRecordRoute a auto) = belle_sip_header_address_pieces a True"
| "hbody_pieces (HCallId c) = belle_sip_header_call_id_pieces c"
| "hbody_pieces (HCSeq method n) = belle_sip_header_cseq_pieces method n"
| "hbody_pieces (HMaxForwards n) = belle_sip_header_max_forwards_pieces n"
| "hbody_pieces (HContentLength n) = belle_sip_header_content_length_pieces (word_of_nat n)"
| "hbody_pieces (HPrivacy l) = belle_sip_header_privacy_pieces l"
| "hbody_pieces (HAuthorization a) = belle_sip_header_authorization_pieces False a"
| "hbody_pieces (HProxyAuthorization a) = belle_sip_header_authorization_pieces False a"
| "hbody_pieces (HWWWAuthenticate a) = belle_sip_header_www_authenticate_pieces a"
| "hbody_pieces (HProxyAuthenticate a) = belle_sip_header_www_authenticate_pieces a"
| "hbody_pieces (HExpires n) = belle_sip_header_expires_pieces n"
| "hbody_pieces (HDate d) = belle_sip_header_date_pieces d"
| "hbody_pieces (HExtension v) = belle_sip_header_extension_pieces v"

text \<open>The types that the core does not read.\<close>

datatype header_value =
    Core_header hbody
  | Allow_header "string option"
  | User_agent "string list"
  | Content_type "string option" "string option" parameters
  | Service_route addr_header
  | Refer_to addr_header
  | Referred_by addr_header
  | P_preferred_identity addr_header
  | Replaces "string option" parameters
  | Subscription_state "string option" parameters
  | Event_header "string option" parameters

definition belle_sip_header_allow_pieces :: "string option \<Rightarrow> string option list" where [simp]:
  "belle_sip_header_allow_pieces m = [m]"

definition belle_sip_header_user_agent_pieces :: "string list \<Rightarrow> string option list" where [simp]:
  "belle_sip_header_user_agent_pieces l = map Some (separated [] '' '' l)"

definition belle_sip_header_content_type_pieces :: "string option \<Rightarrow> string option \<Rightarrow> parameters \<Rightarrow> string option list" where [simp]:
  "belle_sip_header_content_type_pieces t s ps = Option.bind t (\<lambda>t. map_option (\<lambda>s. t @ ''/'' @ s) s) # params_pieces ps"

definition belle_sip_header_replaces_pieces :: "string option \<Rightarrow> parameters \<Rightarrow> string option list" where [simp]:
  "belle_sip_header_replaces_pieces call_id ps = call_id # params_pieces ps"

definition belle_sip_header_subscription_state_pieces :: "string option \<Rightarrow> parameters \<Rightarrow> string option list" where [simp]:
  "belle_sip_header_subscription_state_pieces state ps = state # params_pieces ps"

definition belle_sip_header_event_pieces :: "string option \<Rightarrow> parameters \<Rightarrow> string option list" where [simp]:
  "belle_sip_header_event_pieces package ps = package # params_pieces ps"

definition belle_sip_header_p_preferred_identity_pieces :: "addr_header \<Rightarrow> string option list" where [simp]:
  "belle_sip_header_p_preferred_identity_pieces a = belle_sip_header_address_pieces a False"

fun value_pieces :: "header_value \<Rightarrow> string option list" where
  "value_pieces (Core_header b) = hbody_pieces b"
| "value_pieces (Allow_header m) = belle_sip_header_allow_pieces m"
| "value_pieces (User_agent l) = belle_sip_header_user_agent_pieces l"
| "value_pieces (Content_type t s ps) = belle_sip_header_content_type_pieces t s ps"
| "value_pieces (Service_route a) = belle_sip_header_address_pieces a True"
| "value_pieces (Refer_to a) = belle_sip_header_address_pieces a False"
| "value_pieces (Referred_by a) = belle_sip_header_address_pieces a False"
| "value_pieces (P_preferred_identity a) = belle_sip_header_p_preferred_identity_pieces a"
| "value_pieces (Replaces c ps) = belle_sip_header_replaces_pieces c ps"
| "value_pieces (Subscription_state s ps) = belle_sip_header_subscription_state_pieces s ps"
| "value_pieces (Event_header p ps) = belle_sip_header_event_pieces p ps"

definition header_pieces :: "string \<Rightarrow> header_value \<Rightarrow> string option list" where
  "header_pieces name v = belle_sip_header_marshal name @ value_pieces v"

text \<open>
  The credentials of HTTP: the result is not implemented (None) when a SIP URI is set, and what the credentials of SIP
  return is not looked at.
\<close>

definition belle_http_header_authorization_marshal ::
  "auth_header \<Rightarrow> generic_uri option \<Rightarrow> nat \<Rightarrow> string \<times> nat \<Rightarrow> ((string \<times> nat) \<times> marshal_error option) option" where
  "belle_http_header_authorization_marshal a uri n s =
     (if auth_uri a \<noteq> None then Some (s, None)
      else do {
        (s, ignored) \<leftarrow> write_pieces n (belle_sip_header_marshal ''Authorization'' @ belle_sip_header_authorization_pieces True a) s;
        case uri of None \<Rightarrow> Some (s, Some BELLE_SIP_OK)
        | Some u \<Rightarrow> map_option (\<lambda>(s, error). (s, Some error))
            (write_pieces n ([Some ('', uri='' @ [CHR 0x22])] @ belle_generic_uri_pieces u @ [Some [CHR 0x22]]) s) })"

text \<open>What follows the name, the colon and the spaces; only the value of an extension is kept as it is.\<close>

definition belle_sip_header_get_unparsed_value :: "string \<Rightarrow> header_value \<Rightarrow> string option option" where
  "belle_sip_header_get_unparsed_value name v =
     (case v of Core_header (HExtension e) \<Rightarrow> Some e
      | _ \<Rightarrow> if None \<in> set (header_pieces name v) then None
             else Some (Some (dropWhile ((=) CHR '' '') (drop (length name + 1) (concat (map the (header_pieces name v)))))))"

section \<open>Creating and copying headers\<close>

definition belle_sip_header_contact_create :: "addr_header \<Rightarrow> header" where
  "belle_sip_header_contact_create a =
     \<lparr>hname = ''Contact'', hbody = HContact (addr_clone a) \<lparr>ct_wildcard = False, ct_automatic = False, ct_unknown = False\<rparr>\<rparr>"

definition belle_sip_header_max_forwards_create :: "int \<Rightarrow> header" where
  "belle_sip_header_max_forwards_create n = \<lparr>hname = ''Max-Forwards'', hbody = HMaxForwards n\<rparr>"

text \<open>The value before is returned.\<close>

definition belle_sip_header_max_forwards_decrement_max_forwards :: "int \<Rightarrow> int \<times> int" where
  "belle_sip_header_max_forwards_decrement_max_forwards n = (n - 1, n)"

definition belle_sip_header_content_length_create :: "int \<Rightarrow> header" where
  "belle_sip_header_content_length_create n = \<lparr>hname = ''Content-Length'', hbody = HContentLength (unat (word_of_int n :: 32 word))\<rparr>"

definition belle_sip_header_expires_create :: "int \<Rightarrow> header" where
  "belle_sip_header_expires_create n = \<lparr>hname = ''Expires'', hbody = HExpires n\<rparr>"

definition belle_sip_header_privacy_create :: "string \<Rightarrow> header" where
  "belle_sip_header_privacy_create p = \<lparr>hname = ''Privacy'', hbody = HPrivacy [p]\<rparr>"

definition belle_sip_header_allow_create :: "string \<Rightarrow> header_value" where
  "belle_sip_header_allow_create methods = Allow_header (Some methods)"

definition belle_sip_header_content_type_create :: "string option \<Rightarrow> string option \<Rightarrow> header_value" where
  "belle_sip_header_content_type_create t s = Content_type t s parameters_init"

definition belle_sip_header_refer_to_create :: "addr_header \<Rightarrow> header_value" where
  "belle_sip_header_refer_to_create a = Refer_to (addr_clone a)"

definition belle_sip_header_referred_by_create :: "addr_header \<Rightarrow> header_value" where
  "belle_sip_header_referred_by_create a = Referred_by (addr_clone a)"

definition belle_sip_header_p_preferred_identity_create :: "addr_header \<Rightarrow> header_value" where
  "belle_sip_header_p_preferred_identity_create a = P_preferred_identity (addr_clone a)"

definition belle_sip_header_subscription_state_create :: "string option \<Rightarrow> int \<Rightarrow> header_value" where
  "belle_sip_header_subscription_state_create state expires =
     Subscription_state state (set_int_param parameters_init ''expires'' expires)"

definition belle_sip_header_event_create :: "string option \<Rightarrow> header_value" where
  "belle_sip_header_event_create package = Event_header package parameters_init"

definition belle_sip_header_replaces_create :: "string option \<Rightarrow> string option \<Rightarrow> string option \<Rightarrow> header_value" where
  "belle_sip_header_replaces_create call_id from_tag to_tag =
     Replaces call_id (set_string_param (set_string_param parameters_init ''from-tag'' from_tag) ''to-tag'' to_tag)"

text \<open>Reading percent escapes, with the bytes left at each place.\<close>

fun escaped_to_ascii_loop :: "nat \<Rightarrow> string \<Rightarrow> string option" where
  "escaped_to_ascii_loop k [] = Some []"
| "escaped_to_ascii_loop 0 (c # s) = None"
| "escaped_to_ascii_loop (Suc k) (c # s) = do {
     (x, n) \<leftarrow> belle_sip_get_char (c # s) (length (c # s));
     map_option ((#) x) (escaped_to_ascii_loop k (drop n (c # s))) }"

definition escaped_to_ascii :: "string \<Rightarrow> string option" where
  "escaped_to_ascii s = escaped_to_ascii_loop (length s) s"

text \<open>The parser stops at the first NUL.\<close>

definition belle_sip_header_replaces_create2 :: "(string \<Rightarrow> 'h) \<Rightarrow> string \<Rightarrow> 'h option" where
  "belle_sip_header_replaces_create2 parse escaped_replace =
     map_option (\<lambda>s. parse (''Replaces: '' @ takeWhile (\<lambda>c. c \<noteq> CHR 0x00) s)) (escaped_to_ascii escaped_replace)"

text \<open>The value as it is, in a buffer of 2048 bytes; the result is NULL (None) when it does not fit.\<close>

definition belle_sip_header_replaces_value_to_escaped_string :: "string option \<Rightarrow> parameters \<Rightarrow> string option option" where
  "belle_sip_header_replaces_value_to_escaped_string call_id ps =
     map_option (\<lambda>((b, offset), error). if error = BELLE_SIP_OK then Some b else None)
       (write_pieces 2048 (call_id # params_pieces ps) ([], 0))"

text \<open>The text of the products, each followed by a space, and the size returned.\<close>

definition belle_sip_header_user_agent_get_products_as_string :: "string list \<Rightarrow> nat \<Rightarrow> string \<times> int" where
  "belle_sip_header_user_agent_get_products_as_string products value_size =
     (case marshal_pieces value_size (map (\<lambda>p. p @ '' '') products) ([], 0) of
        ((b, offset), BELLE_SIP_OK) \<Rightarrow> (b, int offset - 1)
      | ((b, offset), BELLE_SIP_BUFFER_OVERFLOW) \<Rightarrow> (b, - 1))"

fun value_clone :: "header_value \<Rightarrow> header_value" where
  "value_clone (Core_header b) = Core_header (hbody_clone b)"
| "value_clone (Allow_header m) = Allow_header m"
| "value_clone (User_agent l) = User_agent l"
| "value_clone (Content_type t s ps) = Content_type t s (parameters_clone ps)"
| "value_clone (Service_route a) = Service_route (addr_clone a)"
| "value_clone (Refer_to a) = Refer_to (addr_clone a)"
| "value_clone (Referred_by a) = Referred_by (addr_clone a)"
| "value_clone (P_preferred_identity a) = P_preferred_identity (addr_clone a)"
| "value_clone (Replaces c ps) = Replaces c (parameters_clone ps)"
| "value_clone (Subscription_state s ps) = Subscription_state s (parameters_clone ps)"
| "value_clone (Event_header p ps) = Event_header p (parameters_clone ps)"

text \<open>The table of the names: whether it is for SIP only, and the type whose parser is called.\<close>

datatype header_type =
    T_contact | T_from | T_to | T_call_id | T_content_length | T_content_type | T_cseq | T_route | T_record_route | T_via
  | T_authorization | T_proxy_authorization | T_www_authenticate | T_proxy_authenticate | T_max_forwards | T_user_agent
  | T_expires | T_allow | T_subscription_state | T_service_route | T_refer_to | T_referred_by | T_replaces | T_date
  | T_p_preferred_identity | T_privacy | T_event

datatype protocol = PROTO_SIP | PROTO_HTTP

definition header_table :: "(bool \<times> string \<times> header_type) list" where
  "header_table =
     [(True, ''m'', T_contact), (True, ''Contact'', T_contact), (True, ''f'', T_from), (True, ''From'', T_from),
      (True, ''t'', T_to), (True, ''To'', T_to), (True, ''i'', T_call_id), (True, ''Call-ID'', T_call_id),
      (True, ''l'', T_content_length), (False, ''Content-Length'', T_content_length), (True, ''c'', T_content_type),
      (False, ''Content-Type'', T_content_type), (True, ''CSeq'', T_cseq), (True, ''Route'', T_route),
      (True, ''Record-Route'', T_record_route), (True, ''v'', T_via), (True, ''Via'', T_via),
      (True, ''Authorization'', T_authorization), (True, ''Proxy-Authorization'', T_proxy_authorization),
      (False, ''WWW-Authenticate'', T_www_authenticate), (False, ''Proxy-Authenticate'', T_proxy_authenticate),
      (True, ''Max-Forwards'', T_max_forwards), (False, ''User-Agent'', T_user_agent), (True, ''Expires'', T_expires),
      (False, ''Allow'', T_allow), (True, ''Subscription-State'', T_subscription_state),
      (True, ''Service-Route'', T_service_route), (True, ''Refer-To'', T_refer_to), (True, ''Referred-By'', T_referred_by),
      (True, ''Replaces'', T_replaces), (True, ''Date'', T_date), (True, ''P-Preferred-Identity'', T_p_preferred_identity),
      (True, ''Privacy'', T_privacy), (True, ''Event'', T_event)]"

text \<open>
  A header of a name and a value: the parser of its type on the text \<open>name:value\<close>, or an extension; NULL
  (None) without a name.
\<close>

definition belle_header_create ::
  "(header_type \<Rightarrow> string \<Rightarrow> 'h option) \<Rightarrow> (string \<Rightarrow> string \<Rightarrow> 'h) \<Rightarrow> protocol \<Rightarrow> string option \<Rightarrow> string \<Rightarrow> 'h option" where
  "belle_header_create parse extension protocol name v =
     (case name of None \<Rightarrow> None
      | Some name \<Rightarrow>
          if name = [] then None
          else case find (\<lambda>(sip_only, n, t). (protocol = PROTO_SIP \<or> \<not> sip_only) \<and> strcaseeq n name) header_table of
              Some (sip_only, n, t) \<Rightarrow> parse t (name @ '':'' @ v)
            | None \<Rightarrow> Some (extension name v))"

definition belle_sip_header_create ::
  "(header_type \<Rightarrow> string \<Rightarrow> 'h option) \<Rightarrow> (string \<Rightarrow> string \<Rightarrow> 'h) \<Rightarrow> string option \<Rightarrow> string \<Rightarrow> 'h option" where
  "belle_sip_header_create parse extension = belle_header_create parse extension PROTO_SIP"

definition belle_http_header_create ::
  "(header_type \<Rightarrow> string \<Rightarrow> 'h option) \<Rightarrow> (string \<Rightarrow> string \<Rightarrow> 'h) \<Rightarrow> string option \<Rightarrow> string \<Rightarrow> 'h option" where
  "belle_http_header_create parse extension = belle_header_create parse extension PROTO_HTTP"

section \<open>The text of a message\<close>

definition crlf :: string where
  "crlf = [CHR 0x0D, CHR 0x0A]"

text \<open>The headers in the order of their containers, each on a line, and an empty line.\<close>

fun header_lines :: "header list \<Rightarrow> string option list" where
  "header_lines [] = [Some crlf]"
| "header_lines (h # hs) = header_pieces (hname h) (Core_header (hbody h)) @ [Some crlf] @ header_lines hs"

definition message_headers :: "('cb, 'a) store_scheme \<Rightarrow> nat \<Rightarrow> header list option" where
  "message_headers w m = do {
     l \<leftarrow> belle_sip_message_get_all_headers w m;
     if None \<in> set (map (hdrs w) l) then None else Some (map (\<lambda>h. the (hdrs w h)) l) }"

definition belle_sip_headers_marshal :: "('cb, 'a) store_scheme \<Rightarrow> nat \<Rightarrow> string option list option" where
  "belle_sip_headers_marshal w m = map_option header_lines (message_headers w m)"

definition belle_sip_request_marshal :: "('cb, 'a) store_scheme \<Rightarrow> nat \<Rightarrow> string option list option" where
  "belle_sip_request_marshal w m = do {
     r \<leftarrow> msgs w m;
     headers \<leftarrow> belle_sip_headers_marshal w m;
     Some ([Some (rq_method r @ '' '')]
       @ (case rq_uri r of Some u \<Rightarrow> belle_sip_uri_pieces u | None \<Rightarrow> opt_piece Some (rq_absolute_uri r))
       @ [Some ('' SIP/2.0'' @ crlf)] @ headers) }"

definition belle_sip_response_marshal :: "('cb, 'a) store_scheme \<Rightarrow> nat \<Rightarrow> string option list option" where
  "belle_sip_response_marshal w m = do {
     r \<leftarrow> msgs w m;
     headers \<leftarrow> belle_sip_headers_marshal w m;
     Some ([Some (''SIP/2.0 '' @ int_text (rs_status_code r) @ '' ''
         @ (case rs_reason_phrase r of Some p \<Rightarrow> p | None \<Rightarrow> []) @ crlf)] @ headers) }"

end
