(* ===== verification/Reception.thy ===== *)
theory Reception
  imports Provider InputStream HeaderText
begin

text \<open>
  The receiving half of a channel on the state of the core (\<^verbatim>\<open>src/channel.c\<close>, \<^verbatim>\<open>src/transports/udp_channel.c\<close>,
  \<^verbatim>\<open>src/transports/stream_channel.c\<close>): bytes go through the input stream, the messages they complete are stored, a
  request gets the address it came from in its Via, a response teaches the channel its public address, and
  the listeners are given the messages. What a system call returns is an input of the operation.
\<close>

section \<open>Parsed messages\<close>

text \<open>
  What the parser gives: a message without its headers, and the headers in order. The parser is generated from
  the grammar, and the textual form of an address is the operating system's: they are parameters. \<open>name_info\<close>
  is \<^verbatim>\<open>getnameinfo\<close> after \<^verbatim>\<open>belle_sip_address_remove_v4_mapping\<close>, \<open>host_text\<close> is \<^verbatim>\<open>getnameinfo\<close> alone, \<open>bind_socket\<close>
  the port of a new server socket, if one is made.
\<close>

record parsed =
  pm_message :: message
  pm_headers :: "header list"

record net_env =
  parser :: "string \<Rightarrow> parsed option \<times> nat"
  name_info :: "nat \<Rightarrow> string option"
  host_text :: "nat \<Rightarrow> string option"
  bind_socket :: "sip_uri \<Rightarrow> world \<Rightarrow> int option"

fun content_length_header :: "header list \<Rightarrow> int option" where
  "content_length_header [] = None"
| "content_length_header (h # hs) =
     (case hbody h of HContentLength n \<Rightarrow> Some (int n) | _ \<Rightarrow> content_length_header hs)"

text \<open>Only SIP messages are considered: what HTTP reads from a message is not used.\<close>

definition sip_grammar :: "net_env \<Rightarrow> parsed grammar" where
  "sip_grammar N = \<lparr>parse_raw = parser N, is_sip = (\<lambda>_. True),
     content_length_of = (\<lambda>p. content_length_header (pm_headers p)), has_content_type = (\<lambda>_. False), is_chunked = (\<lambda>_. False)\<rparr>"

fun store_headers :: "nat \<Rightarrow> header list \<Rightarrow> world \<Rightarrow> world option" where
  "store_headers m [] w = Some w"
| "store_headers m (h # hs) w =
     (let (w, a) = new_hdr w h in do { w \<leftarrow> belle_sip_message_add_header w m a; store_headers m hs w })"

definition store_message :: "parsed \<Rightarrow> string option \<Rightarrow> world \<Rightarrow> (world \<times> nat) option" where
  "store_message p body w =
     (let (w, m) = new_msg w ((pm_message p)\<lparr>m_header_list := Some [], m_body := body\<rparr>) in do {
        w \<leftarrow> store_headers m (pm_headers p) w;
        Some (w, m) })"

section \<open>The address a message came from\<close>

definition fix_incoming_via :: "net_env \<Rightarrow> nat \<Rightarrow> (nat \<times> int) option \<Rightarrow> world \<Rightarrow> world option" where
  "fix_incoming_via N req origin w =
     (case origin of None \<Rightarrow> Some w
      | Some (addr, rport) \<Rightarrow>
          (case name_info N addr of None \<Rightarrow> Some w
           | Some received \<Rightarrow> do {
               via \<leftarrow> belle_sip_message_get_header w req ''via'';
               (case via of None \<Rightarrow> Some w
                | Some via \<Rightarrow> do {
                    v \<leftarrow> via_of w via;
                    host \<leftarrow> via_host v;
                    let v = (if host \<noteq> received then v\<lparr>via_received := Some received\<rparr> else v);
                    v \<leftarrow> (if belle_sip_parameters_has_parameter (via_params v) ''rport''
                          then do {
                            port \<leftarrow> belle_sip_header_via_get_listening_port v;
                            Some (if rport \<noteq> port then fst (belle_sip_header_via_set_rport v rport) else v) }
                          else Some v);
                    upd_hdr w via (\<lambda>x. x\<lparr>hbody := HVia v\<rparr>) }) }))"

section \<open>Messages to the listeners\<close>

text \<open>\<^verbatim>\<open>channel_on_message\<close> of the provider; a transaction listens to the states of its channel only.\<close>

fun channel_on_message :: "env \<Rightarrow> chan_iface \<Rightarrow> channel_listener \<Rightarrow> nat \<Rightarrow> world \<Rightarrow> world option" where
  "channel_on_message E I LProvider msg w = belle_sip_provider_dispatch_message E I msg w"
| "channel_on_message E I (LTransaction t) msg w = Some w"

fun notify_messages :: "env \<Rightarrow> chan_iface \<Rightarrow> channel_listener \<Rightarrow> nat list \<Rightarrow> world \<Rightarrow> world option" where
  "notify_messages E I l [] w = Some w"
| "notify_messages E I l (m # ms) w = do { w \<leftarrow> channel_on_message E I l m w; notify_messages E I l ms w }"

fun notify_incoming_messages :: "env \<Rightarrow> chan_iface \<Rightarrow> channel_listener list \<Rightarrow> nat list \<Rightarrow> world \<Rightarrow> world option" where
  "notify_incoming_messages E I [] ms w = Some w"
| "notify_incoming_messages E I (l # ls) ms w =
     do { w \<leftarrow> notify_messages E I l ms w; notify_incoming_messages E I ls ms w }"

text \<open>
  The messages that the stream has completed. The code stores a message and fixes its Via when its headers are
  read, and learns the address when it is complete; nothing reads the state of the core meanwhile.
\<close>

fun store_messages :: "net_env \<Rightarrow> nat \<Rightarrow> (parsed \<times> string option) list \<Rightarrow> world \<Rightarrow> (world \<times> nat list) option" where
  "store_messages N c [] w = Some (w, [])"
| "store_messages N c ((p, body) # ps) w = do {
     r \<leftarrow> chans w c;
     (w, m) \<leftarrow> store_message p body w;
     w \<leftarrow> (if is_request (pm_message p)
           then fix_incoming_via N m (case ch_peers r of [] \<Rightarrow> None | a # _ \<Rightarrow> Some a) w
           else belle_sip_channel_learn_public_ip_port c m w);
     (w, ms) \<leftarrow> store_messages N c ps w;
     Some (w, m # ms) }"

type_synonym stream = "parsed input_stream"

definition belle_sip_channel_process_stream ::
  "env \<Rightarrow> chan_iface \<Rightarrow> net_env \<Rightarrow> nat \<Rightarrow> bool \<Rightarrow> stream \<Rightarrow> world \<Rightarrow> (world \<times> stream) option" where
  "belle_sip_channel_process_stream E I N c eos st w = do {
     st \<leftarrow> belle_sip_channel_parse_stream (sip_grammar N) eos st;
     (w, ms) \<leftarrow> store_messages N c (st_incoming st) w;
     w \<leftarrow> (if ms = [] then Some w
           else do { r \<leftarrow> chans w c; notify_incoming_messages E I (ch_listeners r) ms w });
     Some (w, st\<lparr>st_incoming := []\<rparr>) }"

section \<open>Reading\<close>

text \<open>What \<^verbatim>\<open>recvfrom\<close> or \<^verbatim>\<open>recv\<close> does: bytes, or an error number. A datagram that is too long is cut.\<close>

datatype recv_outcome = Received string | RecvErrno int

definition EWOULDBLOCK :: int where "EWOULDBLOCK = 11"

fun udp_channel_recv :: "nat \<Rightarrow> recv_outcome \<Rightarrow> int \<times> string" where
  "udp_channel_recv buflen (Received s) = (int (length (take buflen s)), take buflen s)"
| "udp_channel_recv buflen (RecvErrno errnum) = (if errnum \<noteq> EWOULDBLOCK then - errnum else - 1, [])"

fun stream_channel_recv :: "nat \<Rightarrow> recv_outcome \<Rightarrow> int \<times> string" where
  "stream_channel_recv buflen (Received s) = (int (length (take buflen s)), take buflen s)"
| "stream_channel_recv buflen (RecvErrno errnum) = (- errnum, [])"

definition belle_sip_channel_recv :: "nat \<Rightarrow> nat \<Rightarrow> recv_outcome \<Rightarrow> world \<Rightarrow> (world \<times> int \<times> string) option" where
  "belle_sip_channel_recv c buflen out w = do {
     w \<leftarrow> update_inactivity_timer c True w;
     r \<leftarrow> chans w c;
     Some (w, if ch_reliable r then stream_channel_recv buflen out else udp_channel_recv buflen out) }"

text \<open>\<open>simulated\<close> is \<^verbatim>\<open>simulated_recv_return\<close>, 1 unless the application sets it: a result that replaces the socket's when it is not positive.\<close>

definition belle_sip_channel_process_read_data ::
  "env \<Rightarrow> chan_iface \<Rightarrow> net_env \<Rightarrow> int \<Rightarrow> nat \<Rightarrow> recv_outcome \<Rightarrow> stream \<Rightarrow> world \<Rightarrow> (world \<times> stream \<times> int) option" where
  "belle_sip_channel_process_read_data E I N simulated c out st w = do {
     (w, num, bytes) \<leftarrow> (if 0 < simulated
        then belle_sip_channel_recv c (belle_sip_channel_input_stream_get_buff_length st - 1) out w
        else Some (w, simulated, []));
     (if 0 < num then do {
        (w, st) \<leftarrow> belle_sip_channel_process_stream E I N c False (write_bytes bytes st) w;
        Some (w, st, BELLE_SIP_CONTINUE) }
      else if num = 0 then do {
        (w, st) \<leftarrow> belle_sip_channel_process_stream E I N c True st w;
        w \<leftarrow> channel_set_state I c CHANNEL_DISCONNECTED w;
        Some (w, st, BELLE_SIP_STOP) }
      else if belle_sip_error_code_is_would_block (- num) then Some (w, st, BELLE_SIP_CONTINUE)
      else do {
        w \<leftarrow> channel_set_state I c CHANNEL_ERROR w;
        Some (w, st, BELLE_SIP_STOP) }) }"

definition BELLE_SIP_EVENT_WRITE :: nat where "BELLE_SIP_EVENT_WRITE = 2"

definition has_event :: "nat \<Rightarrow> nat \<Rightarrow> bool" where
  "has_event revents ev \<longleftrightarrow> odd (revents div ev)"

definition belle_sip_channel_process_data ::
  "env \<Rightarrow> chan_iface \<Rightarrow> net_env \<Rightarrow> int \<Rightarrow> nat \<Rightarrow> nat \<Rightarrow> recv_outcome \<Rightarrow> stream \<Rightarrow> world \<Rightarrow> (world \<times> stream \<times> int) option" where
  "belle_sip_channel_process_data E I N simulated c revents out st w = do {
     (w, st, ret) \<leftarrow> (if has_event revents BELLE_SIP_EVENT_READ
        then do {
          (w, st, rret) \<leftarrow> belle_sip_channel_process_read_data E I N simulated c out st w;
          Some (w, st, if rret = BELLE_SIP_STOP then BELLE_SIP_STOP else BELLE_SIP_CONTINUE) }
        else Some (w, st, BELLE_SIP_CONTINUE));
     w \<leftarrow> (if has_event revents BELLE_SIP_EVENT_WRITE
           then do {
             r \<leftarrow> chans w c;
             (if ch_state r = CHANNEL_READY then channel_process_queue E I c w else Some w) }
           else Some w);
     Some (w, st, ret) }"

section \<open>Stream channels\<close>

text \<open>\<open>sock_ok\<close>: the socket reports no error and its address is known.\<close>

definition finalize_stream_connection :: "nat \<Rightarrow> bool \<Rightarrow> bool" where
  "finalize_stream_connection revents sock_ok \<longleftrightarrow>
     revents \<noteq> BELLE_SIP_EVENT_TIMEOUT
     \<and> (has_event revents BELLE_SIP_EVENT_WRITE \<or> has_event revents BELLE_SIP_EVENT_READ) \<and> sock_ok"

definition stream_channel_process_data ::
  "env \<Rightarrow> chan_iface \<Rightarrow> net_env \<Rightarrow> int \<Rightarrow> nat \<Rightarrow> nat \<Rightarrow> bool \<Rightarrow> recv_outcome \<Rightarrow> stream \<Rightarrow> world \<Rightarrow> (world \<times> stream \<times> int) option" where
  "stream_channel_process_data E I N simulated c revents sock_ok out st w = do {
     r \<leftarrow> chans w c;
     (if ch_state r = CHANNEL_CONNECTING then
        (if \<not> finalize_stream_connection revents sock_ok
         then do { w \<leftarrow> channel_set_state I c CHANNEL_ERROR w; Some (w, st, BELLE_SIP_STOP) }
         else do {
           w \<leftarrow> belle_sip_source_set_timeout w (ch_source r) (- 1);
           w \<leftarrow> belle_sip_channel_set_ready E I c w;
           Some (w, st, BELLE_SIP_CONTINUE) })
      else if ch_state r = CHANNEL_READY
      then belle_sip_channel_process_data E I N simulated c revents out st w
      else Some (w, st, BELLE_SIP_STOP)) }"

section \<open>Channels of incoming connections and datagrams\<close>

text \<open>
  \<^verbatim>\<open>belle_sip_channel_init_with_addr\<close>: the peer's name is the text of its address, whose numeric lookup gives the address
  of the peer. When the address has no text the code goes on with an unwritten port: \<^term>\<open>None\<close>.
\<close>

definition belle_sip_channel_init_with_addr ::
  "env \<Rightarrow> net_env \<Rightarrow> listening_point \<Rightarrow> nat \<times> int \<Rightarrow> world \<Rightarrow> (world \<times> nat) option" where
  "belle_sip_channel_init_with_addr E N lp addr w = do {
     remoteip \<leftarrow> host_text N (fst addr);
     let h = belle_sip_hop_new None None (Some remoteip) (snd addr);
     (w, c) \<leftarrow> new_channel E w lp h;
     w \<leftarrow> upd_chan w c (\<lambda>r. r\<lparr>ch_peers := (case numeric_address E h of None \<Rightarrow> [] | Some a \<Rightarrow> [a])\<rparr>);
     Some (w, c) }"

definition belle_sip_channel_new_udp_with_addr ::
  "env \<Rightarrow> chan_iface \<Rightarrow> net_env \<Rightarrow> listening_point \<Rightarrow> nat \<times> int \<Rightarrow> world \<Rightarrow> (world \<times> nat) option" where
  "belle_sip_channel_new_udp_with_addr E I N lp addr w = do {
     (w, c) \<leftarrow> belle_sip_channel_init_with_addr E N lp addr w;
     w \<leftarrow> belle_sip_channel_set_ready E I c w;
     Some (w, c) }"

text \<open>\<open>named\<close>: \<^verbatim>\<open>getsockname\<close> succeeds. The channel is bound to no address, has a socket, and is read at once.\<close>

definition belle_sip_stream_channel_new_child ::
  "env \<Rightarrow> chan_iface \<Rightarrow> net_env \<Rightarrow> bool \<Rightarrow> listening_point \<Rightarrow> nat \<times> int \<Rightarrow> world \<Rightarrow> (world \<times> nat option) option" where
  "belle_sip_stream_channel_new_child E I N named lp addr w =
     (if \<not> named then Some (w, None)
      else do {
        (w, c) \<leftarrow> belle_sip_channel_init_with_addr E N (lp\<lparr>lp_uri := (lp_uri lp)\<lparr>uri_host := None, uri_port := 0\<rparr>\<rparr>) addr w;
        r \<leftarrow> chans w c;
        w \<leftarrow> upd_src w (ch_source r) (\<lambda>s. s\<lparr>src_has_fd := True\<rparr>);
        w \<leftarrow> belle_sip_channel_set_ready E I c w;
        w \<leftarrow> belle_sip_main_loop_add_source w (ch_source r);
        Some (w, Some c) })"

end
