(* ===== verification/Listening.thy ===== *)
theory Listening
  imports Reception
begin

text \<open>
  The listening points of the transports (\<^verbatim>\<open>src/transports/udp_listeningpoint.c\<close>,
  \<^verbatim>\<open>src/transports/stream_listeningpoint.c\<close>) on the state of the core: a UDP listening point looks at the origin
  of each datagram and gives it to the channel of that address, which is created when there is none, and reopens its
  socket when it cannot read; a TCP listening point makes a channel of each connection.
\<close>

section \<open>The state\<close>

text \<open>The core with the input streams of its channels.\<close>

record net =
  nt_world :: world
  nt_streams :: "nat \<Rightarrow> stream"

text \<open>
  What a listening point of a transport adds to its record: whether its socket is open, its pointer to its source, and
  the references left to this source, which is freed when there is none (a further release of it is a crash).
\<close>

record server_socket =
  sv_open :: bool
  sv_source :: "nat option"
  sv_refs :: nat

definition server_socket_new :: server_socket where
  "server_socket_new = \<lparr>sv_open = False, sv_source = None, sv_refs = 0\<rparr>"

section \<open>UDP\<close>

text \<open>\<^verbatim>\<open>belle_sip_udp_listening_point_uninit\<close> leaves the pointers to the socket and to the source as they are.\<close>

definition belle_sip_udp_listening_point_uninit :: "server_socket \<Rightarrow> world \<Rightarrow> (world \<times> server_socket) option" where
  "belle_sip_udp_listening_point_uninit s w =
     (case sv_source s of
        None \<Rightarrow> Some (w, s)
      | Some src \<Rightarrow>
          (if sv_refs s = 0 then None
           else do {
             w \<leftarrow> belle_sip_main_loop_remove_source w src;
             Some (w, s\<lparr>sv_refs := sv_refs s - 1\<rparr>) }))"

text \<open>The result is True for 0 and False for -1. The random port of a listening point that asks for one is written in its URI.\<close>

definition belle_sip_udp_listening_point_init_socket ::
  "net_env \<Rightarrow> nat \<Rightarrow> server_socket \<Rightarrow> world \<Rightarrow> (world \<times> server_socket \<times> bool) option" where
  "belle_sip_udp_listening_point_init_socket N i s w =
     (if length (prov_lps w) \<le> i then None
      else (case bind_socket N (lp_uri (prov_lps w ! i)) w of
        None \<Rightarrow> Some (w, s\<lparr>sv_open := False\<rparr>, False)
      | Some port \<Rightarrow> do {
          w \<leftarrow> upd_lp w i (\<lambda>lp. lp\<lparr>lp_uri := (lp_uri lp)\<lparr>uri_port := port\<rparr>\<rparr>);
          let (w, src) = belle_sip_source_new w (CbListeningPointIO i) True (- 1);
          w \<leftarrow> belle_sip_main_loop_add_source w src;
          Some (w, s\<lparr>sv_open := True, sv_source := Some src, sv_refs := 1\<rparr>, True) }))"

text \<open>The search by address alone.\<close>

definition listening_point_get_channel_by_address :: "nat list \<Rightarrow> nat \<times> int \<Rightarrow> world \<Rightarrow> nat option" where
  "listening_point_get_channel_by_address l addr w =
     find (\<lambda>c. case chans w c of None \<Rightarrow> False
        | Some r \<Rightarrow> \<not> ch_about_to_be_closed r \<and> (case ch_peers r of [] \<Rightarrow> False | p # _ \<Rightarrow> addr = p)) l"

text \<open>The channel of an address, made when there is none.\<close>

definition udp_channel_of ::
  "env \<Rightarrow> chan_iface \<Rightarrow> net_env \<Rightarrow> nat \<Rightarrow> nat \<times> int \<Rightarrow> net \<Rightarrow> (net \<times> nat) option" where
  "udp_channel_of E I N i addr n = (let w = nt_world n in
     if length (prov_lps w) \<le> i then None
     else (case listening_point_get_channel_by_address (lp_channels (prov_lps w ! i)) addr w of
        Some c \<Rightarrow> Some (n, c)
      | None \<Rightarrow> do {
          (w, c) \<leftarrow> belle_sip_channel_new_udp_with_addr E I N (prov_lps w ! i) addr w;
          w \<leftarrow> belle_sip_listening_point_add_channel w i c;
          Some (\<lparr>nt_world = w, nt_streams = (nt_streams n)(c := input_stream_new)\<rparr>, c) }))"

text \<open>
  \<open>peek\<close> is the origin of the first datagram of the socket, or \<^term>\<open>None\<close> when \<^verbatim>\<open>recvfrom\<close> fails; \<open>out\<close> is what
  the channel that is chosen then reads from the socket.
\<close>

definition on_udp_data ::
  "env \<Rightarrow> chan_iface \<Rightarrow> net_env \<Rightarrow> int \<Rightarrow> nat \<Rightarrow> nat \<Rightarrow> (nat \<times> int) option \<Rightarrow> recv_outcome
    \<Rightarrow> net \<times> server_socket \<Rightarrow> ((net \<times> server_socket) \<times> int) option" where
  "on_udp_data E I N simulated i events peek out x = (case x of (n, s) \<Rightarrow>
     (if \<not> has_event events BELLE_SIP_EVENT_READ then Some ((n, s), BELLE_SIP_CONTINUE)
      else (case peek of
        None \<Rightarrow> do {
          (w, s) \<leftarrow> belle_sip_udp_listening_point_uninit s (nt_world n);
          w \<leftarrow> belle_sip_listening_point_clean_channels I i w;
          (w, s, ok) \<leftarrow> belle_sip_udp_listening_point_init_socket N i s w;
          Some ((n\<lparr>nt_world := w\<rparr>, s), BELLE_SIP_CONTINUE) }
      | Some addr \<Rightarrow> do {
          (n, c) \<leftarrow> udp_channel_of E I N i addr n;
          (w, st, ret) \<leftarrow> belle_sip_channel_process_data E I N simulated c events out (nt_streams n c) (nt_world n);
          Some ((\<lparr>nt_world = w, nt_streams = (nt_streams n)(c := st)\<rparr>, s), BELLE_SIP_CONTINUE) })))"

text \<open>The destruction of a UDP listening point: its own part first, then that of its class.\<close>

definition udp_listening_point_destroy :: "chan_iface \<Rightarrow> nat \<Rightarrow> server_socket \<Rightarrow> world \<Rightarrow> world option" where
  "udp_listening_point_destroy I i s w = do {
     (w, s) \<leftarrow> belle_sip_udp_listening_point_uninit s w;
     belle_sip_listening_point_uninit I i w }"

section \<open>TCP\<close>

definition belle_sip_stream_listening_point_destroy_server_socket ::
  "server_socket \<Rightarrow> world \<Rightarrow> (world \<times> server_socket) option" where
  "belle_sip_stream_listening_point_destroy_server_socket s w = (let s = s\<lparr>sv_open := False\<rparr> in
     case sv_source s of
        None \<Rightarrow> Some (w, s)
      | Some src \<Rightarrow>
          (if sv_refs s = 0 then None
           else do {
             w \<leftarrow> belle_sip_main_loop_remove_source w src;
             Some (w, s\<lparr>sv_source := None, sv_refs := sv_refs s - 1\<rparr>) }))"

definition belle_sip_stream_listening_point_setup_server_socket ::
  "net_env \<Rightarrow> nat \<Rightarrow> server_socket \<Rightarrow> world \<Rightarrow> (world \<times> server_socket) option" where
  "belle_sip_stream_listening_point_setup_server_socket N i s w =
     (if length (prov_lps w) \<le> i then None
      else (case bind_socket N (lp_uri (prov_lps w ! i)) w of
        None \<Rightarrow> Some (w, s\<lparr>sv_open := False\<rparr>)
      | Some port \<Rightarrow> do {
          w \<leftarrow> upd_lp w i (\<lambda>lp. lp\<lparr>lp_uri := (lp_uri lp)\<lparr>uri_port := port\<rparr>\<rparr>);
          let (w, src) = belle_sip_source_new w (CbListeningPointIO i) True (- 1);
          w \<leftarrow> belle_sip_main_loop_add_source w src;
          Some (w, s\<lparr>sv_open := True, sv_source := Some src, sv_refs := 1\<rparr>) }))"

text \<open>\<open>accepted\<close> is the address of the peer of the new connection, or \<^term>\<open>None\<close> when \<^verbatim>\<open>accept\<close> fails.\<close>

definition on_new_connection ::
  "env \<Rightarrow> chan_iface \<Rightarrow> net_env \<Rightarrow> nat \<Rightarrow> (nat \<times> int) option \<Rightarrow> bool
    \<Rightarrow> net \<times> server_socket \<Rightarrow> ((net \<times> server_socket) \<times> int) option" where
  "on_new_connection E I N i accepted named x = (case x of (n, s) \<Rightarrow>
     (if length (prov_lps (nt_world n)) \<le> i then None
      else (case accepted of
        None \<Rightarrow> do {
          (w, s) \<leftarrow> belle_sip_stream_listening_point_destroy_server_socket s (nt_world n);
          (w, s) \<leftarrow> belle_sip_stream_listening_point_setup_server_socket N i s w;
          Some ((n\<lparr>nt_world := w\<rparr>, s), BELLE_SIP_STOP) }
      | Some addr \<Rightarrow> do {
          (w, chan) \<leftarrow> belle_sip_stream_channel_new_child E I N named (prov_lps (nt_world n) ! i) addr (nt_world n);
          (case chan of
             None \<Rightarrow> Some ((n\<lparr>nt_world := w\<rparr>, s), BELLE_SIP_CONTINUE)
           | Some c \<Rightarrow> do {
               w \<leftarrow> belle_sip_listening_point_add_channel w i c;
               Some ((\<lparr>nt_world = w, nt_streams = (nt_streams n)(c := input_stream_new)\<rparr>, s), BELLE_SIP_CONTINUE) }) })))"

section \<open>The listening points of a provider\<close>

text \<open>\<^verbatim>\<open>belle_sip_provider_get_listening_point\<close>; a transport that is NULL is given to \<^verbatim>\<open>strcasecmp\<close>, unless there is no listening point.\<close>

fun get_listening_point_loop :: "listening_point list \<Rightarrow> string option \<Rightarrow> nat \<Rightarrow> nat option option" where
  "get_listening_point_loop [] transport i = Some None"
| "get_listening_point_loop (lp # lps) transport i =
     (case transport of None \<Rightarrow> None
      | Some t \<Rightarrow> if strcaseeq (lp_transport lp) t then Some (Some i) else get_listening_point_loop lps transport (Suc i))"

definition belle_sip_provider_get_listening_point :: "string option \<Rightarrow> world \<Rightarrow> nat option option" where
  "belle_sip_provider_get_listening_point transport w = get_listening_point_loop (prov_lps w) transport 0"

definition belle_sip_provider_add_listening_point :: "listening_point \<Rightarrow> world \<Rightarrow> world" where
  "belle_sip_provider_add_listening_point lp w = w\<lparr>prov_lps := prov_lps w @ [lp]\<rparr>"

text \<open>The first channel whose routable URI has the host and port of the one that is given.\<close>

fun find_routable :: "world \<Rightarrow> sip_uri \<Rightarrow> nat list \<Rightarrow> nat option option" where
  "find_routable w u [] = Some None"
| "find_routable w u (c # cs) = do {
     r \<leftarrow> chans w c;
     chan_uri \<leftarrow> belle_sip_channel_create_routable_uri w r;
     (if uri_port u \<noteq> uri_port chan_uri then find_routable w u cs
      else do {
        host \<leftarrow> uri_host u;
        chan_host \<leftarrow> uri_host chan_uri;
        (if host = chan_host then Some (Some c) else find_routable w u cs) }) }"

definition provider_find_channel_using_routable :: "sip_uri option \<Rightarrow> world \<Rightarrow> nat option option" where
  "provider_find_channel_using_routable routable_uri w =
     (case routable_uri of None \<Rightarrow> Some None
      | Some u \<Rightarrow> do {
          lp \<leftarrow> belle_sip_provider_get_listening_point (if uri_secure u then Some ''TLS'' else belle_sip_uri_get_transport_param u) w;
          (case lp of None \<Rightarrow> Some None
           | Some i \<Rightarrow> find_routable w u (lp_channels (prov_lps w ! i))) })"

definition belle_sip_provider_is_us :: "sip_uri option \<Rightarrow> world \<Rightarrow> bool option" where
  "belle_sip_provider_is_us u w = map_option (\<lambda>c. c \<noteq> None) (provider_find_channel_using_routable u w)"

end
