(* ===== verification/Keeps.thy ===== *)
theory Keeps
  imports Provider
begin

text \<open>
  A small logic for the operations of the core. \<open>keeps R w m\<close>: if the step \<open>m\<close>, run in the world
  \<open>w\<close>, returns, the world it returns is related to \<open>w\<close> by \<open>R\<close>. For a relation that is reflexive and
  transitive (the locale \<open>frame_rel\<close>) there is a rule for every construct the operations are
  written with, and a proof about an operation follows its text.
\<close>

named_theorems keeps_rules \<open>rules for the constructs\<close>
named_theorems keeps_leaf \<open>facts about single operations\<close>
named_theorems keeps_read \<open>a step that only reads\<close>

definition keeps :: "(world \<Rightarrow> world \<Rightarrow> bool) \<Rightarrow> world \<Rightarrow> world option \<Rightarrow> bool" where
  "keeps R w m \<longleftrightarrow> (\<forall>w'. m = Some w' \<longrightarrow> R w w')"

definition keeps_fst :: "(world \<Rightarrow> world \<Rightarrow> bool) \<Rightarrow> world \<Rightarrow> (world \<times> 'a) option \<Rightarrow> bool" where
  "keeps_fst R w m \<longleftrightarrow> (\<forall>w' a. m = Some (w', a) \<longrightarrow> R w w')"

lemma keepsD: "keeps R w m \<Longrightarrow> m = Some w' \<Longrightarrow> R w w'"
  by (simp add: keeps_def)

lemma keeps_fstD: "keeps_fst R w m \<Longrightarrow> m = Some (w', a) \<Longrightarrow> R w w'"
  by (simp add: keeps_fst_def)

lemma keeps_None [keeps_rules]: "keeps R w None"
  by (simp add: keeps_def)

lemma keeps_fst_None [keeps_rules]: "keeps_fst R w None"
  by (simp add: keeps_fst_def)

lemma keeps_mono: "(\<And>w'. R w w' \<Longrightarrow> S w w') \<Longrightarrow> keeps R w m \<Longrightarrow> keeps S w m"
  by (simp add: keeps_def)

lemma keeps_fst_mono: "(\<And>w'. R w w' \<Longrightarrow> S w w') \<Longrightarrow> keeps_fst R w m \<Longrightarrow> keeps_fst S w m"
  by (simp add: keeps_fst_def)

lemma keeps_if [keeps_rules]:
  "(b \<Longrightarrow> keeps R w x) \<Longrightarrow> (\<not> b \<Longrightarrow> keeps R w y) \<Longrightarrow> keeps R w (if b then x else y)"
  by simp

lemma keeps_fst_if [keeps_rules]:
  "(b \<Longrightarrow> keeps_fst R w x) \<Longrightarrow> (\<not> b \<Longrightarrow> keeps_fst R w y) \<Longrightarrow> keeps_fst R w (if b then x else y)"
  by simp

lemma keeps_case_option [keeps_rules]:
  "(x = None \<Longrightarrow> keeps R w n) \<Longrightarrow> (\<And>a. x = Some a \<Longrightarrow> keeps R w (f a)) \<Longrightarrow>
   keeps R w (case x of None \<Rightarrow> n | Some a \<Rightarrow> f a)"
  by (simp split: option.split)

lemma keeps_fst_case_option [keeps_rules]:
  "(x = None \<Longrightarrow> keeps_fst R w n) \<Longrightarrow> (\<And>a. x = Some a \<Longrightarrow> keeps_fst R w (f a)) \<Longrightarrow>
   keeps_fst R w (case x of None \<Rightarrow> n | Some a \<Rightarrow> f a)"
  by (simp split: option.split)

lemma keeps_case_list [keeps_rules]:
  "(x = [] \<Longrightarrow> keeps R w n) \<Longrightarrow> (\<And>a l. x = a # l \<Longrightarrow> keeps R w (f a l)) \<Longrightarrow>
   keeps R w (case x of [] \<Rightarrow> n | a # l \<Rightarrow> f a l)"
  by (simp split: list.split)

lemma keeps_fst_case_list [keeps_rules]:
  "(x = [] \<Longrightarrow> keeps_fst R w n) \<Longrightarrow> (\<And>a l. x = a # l \<Longrightarrow> keeps_fst R w (f a l)) \<Longrightarrow>
   keeps_fst R w (case x of [] \<Rightarrow> n | a # l \<Rightarrow> f a l)"
  by (simp split: list.split)

lemma keeps_case_prod [keeps_rules]:
  "(\<And>a b. x = (a, b) \<Longrightarrow> keeps R w (f a b)) \<Longrightarrow> keeps R w (case x of (a, b) \<Rightarrow> f a b)"
  by (simp split: prod.split)

lemma keeps_fst_case_prod [keeps_rules]:
  "(\<And>a b. x = (a, b) \<Longrightarrow> keeps_fst R w (f a b)) \<Longrightarrow> keeps_fst R w (case x of (a, b) \<Rightarrow> f a b)"
  by (simp split: prod.split)

lemma keeps_case_hbody [keeps_rules]:
  "(\<And>a. x = HVia a \<Longrightarrow> keeps R w (f0 a)) \<Longrightarrow>
   (\<And>a. x = HFrom a \<Longrightarrow> keeps R w (f1 a)) \<Longrightarrow>
   (\<And>a. x = HTo a \<Longrightarrow> keeps R w (f2 a)) \<Longrightarrow>
   (\<And>a b. x = HContact a b \<Longrightarrow> keeps R w (f3 a b)) \<Longrightarrow>
   (\<And>a. x = HRoute a \<Longrightarrow> keeps R w (f4 a)) \<Longrightarrow>
   (\<And>a b. x = HRecordRoute a b \<Longrightarrow> keeps R w (f5 a b)) \<Longrightarrow>
   (\<And>a. x = HCallId a \<Longrightarrow> keeps R w (f6 a)) \<Longrightarrow>
   (\<And>a b. x = HCSeq a b \<Longrightarrow> keeps R w (f7 a b)) \<Longrightarrow>
   (\<And>a. x = HMaxForwards a \<Longrightarrow> keeps R w (f8 a)) \<Longrightarrow>
   (\<And>a. x = HContentLength a \<Longrightarrow> keeps R w (f9 a)) \<Longrightarrow>
   (\<And>a. x = HPrivacy a \<Longrightarrow> keeps R w (f10 a)) \<Longrightarrow>
   (\<And>a. x = HAuthorization a \<Longrightarrow> keeps R w (f11 a)) \<Longrightarrow>
   (\<And>a. x = HProxyAuthorization a \<Longrightarrow> keeps R w (f12 a)) \<Longrightarrow>
   (\<And>a. x = HWWWAuthenticate a \<Longrightarrow> keeps R w (f13 a)) \<Longrightarrow>
   (\<And>a. x = HProxyAuthenticate a \<Longrightarrow> keeps R w (f14 a)) \<Longrightarrow>
   (\<And>a. x = HExpires a \<Longrightarrow> keeps R w (f15 a)) \<Longrightarrow>
   (\<And>a. x = HDate a \<Longrightarrow> keeps R w (f16 a)) \<Longrightarrow>
   (\<And>a. x = HExtension a \<Longrightarrow> keeps R w (f17 a)) \<Longrightarrow>
   keeps R w (case_hbody f0 f1 f2 f3 f4 f5 f6 f7 f8 f9 f10 f11 f12 f13 f14 f15 f16 f17 x)"
  by (cases x) simp_all

lemma keeps_case_bool [keeps_rules]:
  "(b \<Longrightarrow> keeps R w x) \<Longrightarrow> (\<not> b \<Longrightarrow> keeps R w y) \<Longrightarrow> keeps R w (case b of True \<Rightarrow> x | False \<Rightarrow> y)"
  by (simp split: bool.split)

lemma keeps_fst_case_hbody [keeps_rules]:
  "(\<And>a. x = HVia a \<Longrightarrow> keeps_fst R w (f0 a)) \<Longrightarrow>
   (\<And>a. x = HFrom a \<Longrightarrow> keeps_fst R w (f1 a)) \<Longrightarrow>
   (\<And>a. x = HTo a \<Longrightarrow> keeps_fst R w (f2 a)) \<Longrightarrow>
   (\<And>a b. x = HContact a b \<Longrightarrow> keeps_fst R w (f3 a b)) \<Longrightarrow>
   (\<And>a. x = HRoute a \<Longrightarrow> keeps_fst R w (f4 a)) \<Longrightarrow>
   (\<And>a b. x = HRecordRoute a b \<Longrightarrow> keeps_fst R w (f5 a b)) \<Longrightarrow>
   (\<And>a. x = HCallId a \<Longrightarrow> keeps_fst R w (f6 a)) \<Longrightarrow>
   (\<And>a b. x = HCSeq a b \<Longrightarrow> keeps_fst R w (f7 a b)) \<Longrightarrow>
   (\<And>a. x = HMaxForwards a \<Longrightarrow> keeps_fst R w (f8 a)) \<Longrightarrow>
   (\<And>a. x = HContentLength a \<Longrightarrow> keeps_fst R w (f9 a)) \<Longrightarrow>
   (\<And>a. x = HPrivacy a \<Longrightarrow> keeps_fst R w (f10 a)) \<Longrightarrow>
   (\<And>a. x = HAuthorization a \<Longrightarrow> keeps_fst R w (f11 a)) \<Longrightarrow>
   (\<And>a. x = HProxyAuthorization a \<Longrightarrow> keeps_fst R w (f12 a)) \<Longrightarrow>
   (\<And>a. x = HWWWAuthenticate a \<Longrightarrow> keeps_fst R w (f13 a)) \<Longrightarrow>
   (\<And>a. x = HProxyAuthenticate a \<Longrightarrow> keeps_fst R w (f14 a)) \<Longrightarrow>
   (\<And>a. x = HExpires a \<Longrightarrow> keeps_fst R w (f15 a)) \<Longrightarrow>
   (\<And>a. x = HDate a \<Longrightarrow> keeps_fst R w (f16 a)) \<Longrightarrow>
   (\<And>a. x = HExtension a \<Longrightarrow> keeps_fst R w (f17 a)) \<Longrightarrow>
   keeps_fst R w (case_hbody f0 f1 f2 f3 f4 f5 f6 f7 f8 f9 f10 f11 f12 f13 f14 f15 f16 f17 x)"
  by (cases x) simp_all

lemma keeps_fst_case_bool [keeps_rules]:
  "(b \<Longrightarrow> keeps_fst R w x) \<Longrightarrow> (\<not> b \<Longrightarrow> keeps_fst R w y) \<Longrightarrow> keeps_fst R w (case b of True \<Rightarrow> x | False \<Rightarrow> y)"
  by (simp split: bool.split)

lemma keeps_map_fst [keeps_rules]: "keeps_fst R w m \<Longrightarrow> keeps R w (map_option fst m)"
  by (auto simp: keeps_def keeps_fst_def)

lemma keeps_Let_read [keeps_read]: "(\<And>a. a = x \<Longrightarrow> keeps R w (f a)) \<Longrightarrow> keeps R w (Let x f)"
  by (simp add: Let_def)

lemma keeps_fst_Let_read [keeps_read]: "(\<And>a. a = x \<Longrightarrow> keeps_fst R w (f a)) \<Longrightarrow> keeps_fst R w (Let x f)"
  by (simp add: Let_def)

lemma keeps_bind_read [keeps_read]: "(\<And>a. m = Some a \<Longrightarrow> keeps R w (f a)) \<Longrightarrow> keeps R w (m \<bind> f)"
  by (cases m) (simp_all add: keeps_def)

lemma keeps_fst_bind_read [keeps_read]: "(\<And>a. m = Some a \<Longrightarrow> keeps_fst R w (f a)) \<Longrightarrow> keeps_fst R w (m \<bind> f)"
  by (cases m) (simp_all add: keeps_fst_def)

locale frame_rel =
  fixes R :: "world \<Rightarrow> world \<Rightarrow> bool"
  assumes refl: "R w w"
    and trans: "R w w' \<Longrightarrow> R w' w'' \<Longrightarrow> R w w''"
begin

lemma keeps_Some [keeps_rules]: "keeps R w (Some w)"
  by (simp add: keeps_def refl)

lemma keeps_fst_Some [keeps_rules]: "keeps_fst R w (Some (w, a))"
  by (simp add: keeps_fst_def refl)

lemma keeps_bind [keeps_rules]:
  "keeps R w m \<Longrightarrow> (\<And>w1. m = Some w1 \<Longrightarrow> keeps R w1 (f w1)) \<Longrightarrow> keeps R w (m \<bind> f)"
  by (cases m) (auto simp: keeps_def intro: trans)

lemma keeps_fst_bind [keeps_rules]:
  "keeps R w m \<Longrightarrow> (\<And>w1. m = Some w1 \<Longrightarrow> keeps_fst R w1 (f w1)) \<Longrightarrow> keeps_fst R w (m \<bind> f)"
  by (cases m) (auto simp: keeps_def keeps_fst_def intro: trans)

lemma keeps_bind_pair [keeps_rules]:
  "keeps_fst R w m \<Longrightarrow> (\<And>w1 a. m = Some (w1, a) \<Longrightarrow> keeps R w1 (f w1 a)) \<Longrightarrow>
   keeps R w (m \<bind> (\<lambda>(w, a). f w a))"
  by (cases m) (auto simp: keeps_def keeps_fst_def intro: trans)

lemma keeps_fst_bind_pair [keeps_rules]:
  "keeps_fst R w m \<Longrightarrow> (\<And>w1 a. m = Some (w1, a) \<Longrightarrow> keeps_fst R w1 (f w1 a)) \<Longrightarrow>
   keeps_fst R w (m \<bind> (\<lambda>(w, a). f w a))"
  by (cases m) (auto simp: keeps_fst_def intro: trans)

lemma keeps_Let_pair [keeps_rules]:
  "R w (fst p) \<Longrightarrow> (\<And>w1 a. p = (w1, a) \<Longrightarrow> keeps R w1 (f w1 a)) \<Longrightarrow> keeps R w (let (w, a) = p in f w a)"
  by (cases p) (auto simp: keeps_def intro: trans)

lemma keeps_fst_Let_pair [keeps_rules]:
  "R w (fst p) \<Longrightarrow> (\<And>w1 a. p = (w1, a) \<Longrightarrow> keeps_fst R w1 (f w1 a)) \<Longrightarrow>
   keeps_fst R w (let (w, a) = p in f w a)"
  by (cases p) (auto simp: keeps_fst_def intro: trans)

lemma keeps_Let_world [keeps_rules]:
  "R w x \<Longrightarrow> (\<And>w1. w1 = x \<Longrightarrow> keeps R w1 (f w1)) \<Longrightarrow> keeps R w (let w = x in f w)"
  by (auto simp: keeps_def intro: trans)

lemma keeps_fst_Let_world [keeps_rules]:
  "R w x \<Longrightarrow> (\<And>w1. w1 = x \<Longrightarrow> keeps_fst R w1 (f w1)) \<Longrightarrow> keeps_fst R w (let w = x in f w)"
  by (auto simp: keeps_fst_def intro: trans)

lemma keeps_step: "R w w1 \<Longrightarrow> keeps R w1 m \<Longrightarrow> keeps R w m"
  by (auto simp: keeps_def intro: trans)

lemma keeps_fst_step: "R w w1 \<Longrightarrow> keeps_fst R w1 m \<Longrightarrow> keeps_fst R w m"
  by (auto simp: keeps_fst_def intro: trans)

end

section \<open>Operations that only change headers and messages\<close>

definition store_only :: "world \<Rightarrow> world \<Rightarrow> bool" where
  "store_only w w' \<longleftrightarrow> (\<exists>h m b. w' = w\<lparr>hdrs := h, msgs := m, st_brk := b\<rparr>)"

lemma store_onlyI: "w' = w\<lparr>hdrs := h, msgs := m, st_brk := b\<rparr> \<Longrightarrow> store_only w w'"
  by (auto simp: store_only_def)

lemma store_only_refl: "store_only w w"
  by (rule store_onlyI[where h="hdrs w" and m="msgs w" and b="st_brk w"]) simp

lemma store_only_trans: "store_only w w' \<Longrightarrow> store_only w' w'' \<Longrightarrow> store_only w w''"
  unfolding store_only_def
proof (elim exE)
  fix h m b h' m' b'
  assume "w' = w\<lparr>hdrs := h, msgs := m, st_brk := b\<rparr>" "w'' = w'\<lparr>hdrs := h', msgs := m', st_brk := b'\<rparr>"
  then have "w'' = w\<lparr>hdrs := h', msgs := m', st_brk := b'\<rparr>" by simp
  then show "\<exists>h m b. w'' = w\<lparr>hdrs := h, msgs := m, st_brk := b\<rparr>" by blast
qed

interpretation st: frame_rel store_only
  by unfold_locales (rule store_only_refl, rule store_only_trans)

lemma store_only_same:
  assumes "store_only w w'"
  shows "trs w' = trs w" "dlgs w' = dlgs w" "chans w' = chans w" "ml_sources w' = ml_sources w"
    "ml_src w' = ml_src w" "ml_brk w' = ml_brk w" "obj_brk w' = obj_brk w" "cfg_T1 w' = cfg_T1 w"
    "prov_dialogs w' = prov_dialogs w" "prov_client_transactions w' = prov_client_transactions w"
    "prov_server_transactions w' = prov_server_transactions w" "wire w' = wire w"
  using assms by (auto simp: store_only_def)

lemma store_new [keeps_leaf]:
  "store_only w (fst (new_hdr w h))" "store_only w (fst (new_msg w m))"
  "store_only w (fst (belle_sip_request_new w))" "store_only w (fst (belle_sip_response_new w))"
  by (auto simp: new_hdr_def new_msg_def belle_sip_request_new_def belle_sip_response_new_def
      intro: store_onlyI[where h="(hdrs w)(st_brk w \<mapsto> h)" and m="msgs w" and b="Suc (st_brk w)"]
        store_onlyI[where h="hdrs w" and b="Suc (st_brk w)"])

lemma store_upd_hdr [keeps_leaf]: "keeps store_only w (upd_hdr w a f)"
  by (auto simp: keeps_def upd_hdr_def split: option.splits
      intro: store_onlyI[where h="(hdrs w)(a \<mapsto> f (the (hdrs w a)))" and m="msgs w" and b="st_brk w"])

lemma store_upd_msg [keeps_leaf]: "keeps store_only w (upd_msg w a f)"
  by (auto simp: keeps_def upd_msg_def split: option.splits
      intro: store_onlyI[where h="hdrs w" and m="(msgs w)(a \<mapsto> f (the (msgs w a)))" and b="st_brk w"])

lemma store_get_or_create [keeps_leaf]: "keeps store_only w (get_or_create_container w m n f)"
  unfolding get_or_create_container_def by (rule keeps_leaf keeps_read)+

lemma store_add_header [keeps_leaf]: "keeps store_only w (belle_sip_message_add_header w m h)"
  unfolding belle_sip_message_add_header_def by (rule keeps_leaf keeps_read)+

lemma store_add_headers [keeps_leaf]: "keeps store_only w (belle_sip_message_add_headers w m hs)"
  unfolding belle_sip_message_add_headers_def by (rule keeps_rules keeps_leaf keeps_read)+

lemma store_set_header [keeps_leaf]: "keeps store_only w (belle_sip_message_set_header w m h)"
  unfolding belle_sip_message_set_header_def by (rule keeps_leaf keeps_read)+

lemma store_remove_header [keeps_leaf]: "keeps store_only w (belle_sip_message_remove_header w m n)"
  unfolding belle_sip_message_remove_header_def
  by (auto simp: keeps_def Option.bind_eq_Some_conv split: option.split_asm nat.split_asm
      intro: keepsD[OF store_upd_msg] store_only_refl)

lemma store_copy_all [keeps_leaf]: "keeps store_only w (copy_all_headers w m hs)"
proof (induction hs arbitrary: w)
  case Nil
  show ?case by (simp add: st.keeps_Some)
next
  case (Cons h hs)
  show ?case unfolding copy_all_headers.simps by (rule keeps_rules keeps_leaf Cons.IH keeps_read)+
qed

lemma store_util_copy [keeps_leaf]: "keeps store_only w (belle_sip_util_copy_headers w o' d n mult)"
  unfolding belle_sip_util_copy_headers_def by (rule keeps_rules keeps_leaf keeps_read)+

lemma store_set_dialog [keeps_leaf]: "keeps store_only w (belle_sip_request_set_dialog w m d)"
  unfolding belle_sip_request_set_dialog_def by (rule keeps_leaf)

lemma store_set_uri [keeps_leaf]: "keeps store_only w (belle_sip_request_set_uri w m u)"
  unfolding belle_sip_request_set_uri_def by (rule keeps_leaf)

lemma store_add_opt [keeps_leaf]: "keeps store_only w (add_opt_header w m h)"
  unfolding add_opt_header_def by (rule keeps_rules keeps_leaf keeps_read)+

lemma store_add_uri [keeps_leaf]: "keeps store_only w (add_uri_headers w m u ns)"
proof (induction ns arbitrary: w)
  case Nil
  show ?case by (simp add: st.keeps_Some)
next
  case (Cons n ns)
  show ?case unfolding add_uri_headers.simps by (rule keeps_rules keeps_leaf Cons.IH keeps_read)+
qed

lemma store_request_create [keeps_leaf]: "keeps_fst store_only w (belle_sip_request_create w u me ci cs f to v mf)"
  unfolding belle_sip_request_create_def by (rule keeps_rules keeps_leaf keeps_read)+

lemma store_response_create [keeps_leaf]: "keeps_fst store_only w (belle_sip_response_create_from_request w req code)"
  unfolding belle_sip_response_create_from_request_def by (rule keeps_rules keeps_leaf keeps_read)+

lemma store_fill [keeps_leaf]: "keeps store_only w (belle_sip_response_fill_for_dialog w o' req)"
  unfolding belle_sip_response_fill_for_dialog_def by (rule keeps_rules keeps_leaf keeps_read)+

lemma store_make_routes [keeps_leaf]: "keeps_fst store_only w (make_routes w hs)"
proof (induction hs arbitrary: w)
  case Nil
  show ?case by (simp add: st.keeps_fst_Some)
next
  case (Cons h hs)
  show ?case unfolding make_routes.simps by (rule keeps_rules keeps_leaf Cons.IH keeps_read)+
qed

lemma store_set_to_tag [keeps_leaf]: "keeps store_only w (set_to_header_tag to tag w)"
  unfolding set_to_header_tag_def by (rule keeps_rules keeps_leaf keeps_read)+

lemma store_copy_non_system [keeps_leaf]: "keeps store_only w (copy_non_system_headers req hs w)"
proof (induction hs arbitrary: w)
  case Nil
  show ?case by (simp add: st.keeps_Some)
next
  case (Cons h hs)
  show ?case unfolding copy_non_system_headers.simps by (rule keeps_rules keeps_leaf Cons.IH keeps_read)+
qed

lemma store_copy_body [keeps_leaf]: "keeps store_only w (copy_body ir req cl w)"
  unfolding copy_body_def by (rule keeps_rules keeps_leaf keeps_read)+

lemma store_check_content_length [keeps_leaf]: "keeps store_only w (check_content_length w m n)"
  unfolding check_content_length_def by (rule keeps_rules keeps_leaf keeps_read)+

lemma store_fix_via [keeps_leaf]: "keeps store_only w (fix_outgoing_via E r m w)"
  unfolding fix_outgoing_via_def by (rule keeps_rules keeps_leaf keeps_read)+

lemma store_fix_record_routes [keeps_leaf]: "keeps store_only w (fix_record_routes r hs w)"
proof (induction hs arbitrary: w)
  case Nil
  show ?case by (simp add: st.keeps_Some)
next
  case (Cons h hs)
  show ?case unfolding fix_record_routes.simps
    by (rule keeps_rules keeps_leaf Cons.IH keeps_read)+
qed

lemma store_fix_contacts [keeps_leaf]: "keeps store_only w (fix_contacts r hs addr w)"
proof (induction hs arbitrary: w addr)
  case Nil
  show ?case by (simp add: st.keeps_Some)
next
  case (Cons h hs)
  show ?case unfolding fix_contacts.simps
    by (rule keeps_rules keeps_leaf Cons.IH keeps_read)+
qed

lemma store_on_sending [keeps_leaf]: "keeps store_only w (channel_on_sending E c m w)"
  unfolding channel_on_sending_def by (rule keeps_rules keeps_leaf keeps_read)+

lemma store_find_matching [keeps_leaf]:
  "keeps_fst store_only w (belle_sip_provider_find_matching_transaction E ts req w)"
  unfolding belle_sip_provider_find_matching_transaction_def by (rule keeps_rules keeps_leaf keeps_read)+

lemma store_create_request [keeps_leaf]: "keeps_fst store_only w (create_request d me full w)"
  unfolding create_request_def by (rule keeps_rules keeps_leaf keeps_read)+

end
