(* ===== verification/Frame.thy ===== *)
theory Frame
  imports Keeps
begin

text \<open>
  Worlds that are well formed, and two relations: \<open>quiet\<close>, a step that leaves every transaction and
  dialog as it was, and \<open>sends\<close>, a step that may besides send the request of client transactions
  that were waiting for their channel. The operations of a channel are \<open>sends\<close> for any interface
  whose listeners are, which the interface of the core is proved to be.
\<close>

named_theorems keeps_lift \<open>from a smaller relation\<close>

text \<open>
  The loop's invariant, addresses below the break, and a client transaction that was not sent yet
  has no response.
\<close>

definition wf_world :: "world \<Rightarrow> bool" where
  "wf_world w \<longleftrightarrow> ml_inv w \<and> (\<forall>t. trs w t \<noteq> None \<longrightarrow> t < obj_brk w) \<and> (\<forall>d. dlgs w d \<noteq> None \<longrightarrow> d < obj_brk w)
     \<and> (\<forall>t x. trs w t = Some x \<longrightarrow> is_client (tr_class x) \<longrightarrow> tr_state x = TR_INIT \<longrightarrow> tr_last_response x = None)"

section \<open>Quiet steps\<close>

definition quiet :: "world \<Rightarrow> world \<Rightarrow> bool" where
  "quiet w w' \<longleftrightarrow> (wf_world w \<longrightarrow> wf_world w' \<and> trs w' = trs w \<and> dlgs w' = dlgs w)"

interpretation qu: frame_rel quiet
  by unfold_locales (simp_all add: quiet_def)

lemma quiet_fields:
  assumes "ml_inv w \<Longrightarrow> ml_inv w'" and "trs w' = trs w" and "dlgs w' = dlgs w" and "obj_brk w \<le> obj_brk w'"
  shows "quiet w w'"
  using assms by (auto simp: quiet_def wf_world_def less_le_trans)

lemma ml_inv_same:
  "ml_sources w' = ml_sources (w :: world) \<Longrightarrow> ml_src w' = ml_src w \<Longrightarrow> ml_brk w' = ml_brk w \<Longrightarrow> ml_inv w \<Longrightarrow> ml_inv w'"
  by (simp add: ml_inv_def)

lemma quiet_same:
  assumes "ml_sources w' = ml_sources w" and "ml_src w' = ml_src w" and "ml_brk w' = ml_brk w"
    and "trs w' = trs w" and "dlgs w' = dlgs w" and "obj_brk w \<le> obj_brk w'"
  shows "quiet w w'"
  by (rule quiet_fields) (use assms ml_inv_same in auto)

lemma store_quiet: "store_only w w' \<Longrightarrow> quiet w w'"
  by (rule quiet_same) (simp_all add: store_only_same)

lemma quiet_store [keeps_lift]:
  "keeps store_only w m \<Longrightarrow> keeps quiet w m" "keeps_fst store_only w p \<Longrightarrow> keeps_fst quiet w p"
  by (auto simp: keeps_def keeps_fst_def store_quiet)

lemma quiet_new [keeps_leaf]:
  "quiet w (fst (new_hdr w h))" "quiet w (fst (new_msg w m))"
  "quiet w (fst (belle_sip_request_new w))" "quiet w (fst (belle_sip_response_new w))"
  using store_new store_quiet by blast+

lemma loop_only_quiet: "ml_inv w' \<Longrightarrow> loop_only w w' \<Longrightarrow> quiet w w'"
  by (rule quiet_fields) (auto simp: loop_only_def)

lemma quiet_create_timeout [keeps_leaf]: "keeps_fst quiet w (belle_sip_main_loop_create_timeout w cb v)"
proof (cases "ml_inv w")
  case True
  then show ?thesis using create_timeout_frame[of w cb v] loop_only_quiet by (auto simp: keeps_fst_def)
qed (simp add: keeps_fst_def quiet_def wf_world_def)

lemma quiet_remove_source [keeps_leaf]: "keeps quiet w (belle_sip_main_loop_remove_source w s)"
proof (cases "ml_inv w")
  case True
  then show ?thesis using remove_source_frame[of w s] loop_only_quiet by (auto simp: keeps_def)
qed (simp add: keeps_def quiet_def wf_world_def)

lemma quiet_upd_src [keeps_leaf]: "keeps quiet w (upd_src w s f)"
  unfolding keeps_def
proof (intro allI impI)
  fix w' assume "upd_src w s f = Some w'"
  then show "quiet w w'" using ml_inv_upd[of w s f w']
    by (intro quiet_fields) (auto simp: upd_src_def split: option.splits)
qed

lemma quiet_set_timeout [keeps_leaf]: "keeps quiet w (belle_sip_source_set_timeout w s v)"
  unfolding belle_sip_source_set_timeout_def by (rule quiet_upd_src)

lemma quiet_do_later [keeps_leaf]: "keeps quiet w (belle_sip_main_loop_do_later w cb)"
  unfolding belle_sip_main_loop_do_later_def by (rule keeps_rules keeps_leaf)+

lemma quiet_upd_chan [keeps_leaf]: "keeps quiet w (upd_chan w c f)"
  by (auto simp: keeps_def upd_chan_def split: option.splits intro!: quiet_same)

lemma quiet_random_loop: "quiet w (fst (random_token_loop w n i v))"
proof (induction n arbitrary: w i v)
  case 0
  show ?case by (simp add: qu.refl)
next
  case (Suc n)
  have r: "quiet w (fst (belle_sip_random w))"
    by (rule quiet_same) (simp_all add: belle_sip_random_def)
  show ?case
    using Suc.IH[of w] qu.trans[OF r Suc.IH]
    by (auto simp: Let_def case_prod_unfold)
qed

lemma quiet_random_token [keeps_leaf]: "quiet w (fst (belle_sip_random_token w n))"
  by (simp add: belle_sip_random_token_def quiet_random_loop)

text \<open>Channels, as far as no listener is told.\<close>

lemma quiet_add_listener [keeps_leaf]: "keeps quiet w (belle_sip_channel_add_listener w c l)"
  unfolding belle_sip_channel_add_listener_def by (rule keeps_leaf)

lemma quiet_remove_listener [keeps_leaf]: "keeps quiet w (belle_sip_channel_remove_listener w c l)"
  unfolding belle_sip_channel_remove_listener_def by (rule keeps_leaf)

lemma quiet_close [keeps_leaf]: "keeps quiet w (belle_sip_channel_close w c)"
  unfolding belle_sip_channel_close_def by (rule keeps_leaf keeps_read)+

lemma quiet_inactivity [keeps_leaf]: "keeps quiet w (update_inactivity_timer c b w)"
  unfolding update_inactivity_timer_def by (rule keeps_rules keeps_leaf keeps_read)+

lemma quiet_lps [keeps_leaf]: "keeps quiet w (Some (w\<lparr>prov_lps := l\<rparr>))"
  by (auto simp: keeps_def intro: quiet_same)

lemma quiet_lp_add [keeps_leaf]: "keeps quiet w (belle_sip_listening_point_add_channel w i c)"
  unfolding belle_sip_listening_point_add_channel_def by (rule keeps_rules keeps_leaf keeps_read)+

lemma quiet_lp_remove [keeps_leaf]: "keeps quiet w (belle_sip_listening_point_remove_channel w i c)"
  unfolding belle_sip_listening_point_remove_channel_def by (rule keeps_rules keeps_leaf keeps_read)+

lemma quiet_source_new [keeps_leaf]: "quiet w (fst (belle_sip_source_new w cb b v))"
  by (rule quiet_fields) (auto simp: belle_sip_source_new_def Let_def ml_inv_def less_Suc_eq)

lemma quiet_new_chan: "obj_brk w \<le> b \<Longrightarrow> quiet w (w\<lparr>chans := x, obj_brk := b\<rparr>)"
  by (rule quiet_same) simp_all

lemma quiet_new_channel [keeps_leaf]: "keeps_fst quiet w (new_channel E w lp h)"
  unfolding new_channel_def
  by (rule keeps_rules keeps_leaf quiet_new_chan keeps_read
      | (simp add: belle_sip_source_new_def Let_def; fail)
      | (auto simp: belle_sip_source_new_def Let_def; fail))+

lemma quiet_create_channel [keeps_leaf]: "keeps_fst quiet w (belle_sip_listening_point_create_channel E w i h)"
  unfolding belle_sip_listening_point_create_channel_def by (rule keeps_rules keeps_leaf keeps_read)+

lemma quiet_get_channel [keeps_leaf]: "keeps_fst quiet w (belle_sip_provider_get_channel E h w)"
  unfolding belle_sip_provider_get_channel_def by (rule keeps_rules keeps_leaf keeps_read)+

section \<open>Steps that may send waiting requests\<close>

definition sent :: "transaction \<Rightarrow> transaction \<Rightarrow> bool" where
  "sent x x' \<longleftrightarrow> tr_class x' = tr_class x \<and> tr_request x' = tr_request x \<and> tr_branch_id x' = tr_branch_id x
     \<and> tr_last_response x' = tr_last_response x \<and> tr_dialog x' = tr_dialog x
     \<and> (tr_state x' = tr_state x \<or> tr_state x = TR_INIT
          \<and> (tr_class x = ICT \<and> tr_state x' = TR_CALLING \<or> tr_class x = NICT \<and> tr_state x' = TR_TRYING))"

definition sends :: "world \<Rightarrow> world \<Rightarrow> bool" where
  "sends w w' \<longleftrightarrow> (wf_world w \<longrightarrow> wf_world w' \<and> dlgs w' = dlgs w \<and> (\<forall>t. rel_option sent (trs w t) (trs w' t)))"

lemma sent_refl [simp]: "sent x x"
  by (simp add: sent_def)

lemma sent_trans: "sent x y \<Longrightarrow> sent y z \<Longrightarrow> sent x z"
  by (auto simp: sent_def)

interpretation se: frame_rel sends
proof
  show "sends w w" for w by (simp add: sends_def option.rel_refl)
next
  fix w w' w'' assume a: "sends w w'" and b: "sends w' w''"
  show "sends w w''"
    unfolding sends_def
  proof (intro impI conjI allI)
    assume wf: "wf_world w"
    have 1: "wf_world w'" "dlgs w' = dlgs w" "\<And>t. rel_option sent (trs w t) (trs w' t)"
      using a wf by (simp_all add: sends_def)
    have 2: "wf_world w''" "dlgs w'' = dlgs w'" "\<And>t. rel_option sent (trs w' t) (trs w'' t)"
      using b 1(1) by (simp_all add: sends_def)
    show "wf_world w''" "dlgs w'' = dlgs w" using 1 2 by simp_all
    show "rel_option sent (trs w t) (trs w'' t)" for t
      using 1(3)[of t] 2(3)[of t] sent_trans
      by (cases "trs w t"; cases "trs w' t"; cases "trs w'' t") auto
  qed
qed

lemma quiet_sends: "quiet w w' \<Longrightarrow> sends w w'"
  by (simp add: quiet_def sends_def option.rel_refl)

lemma sends_quiet [keeps_lift]:
  "keeps quiet w m \<Longrightarrow> keeps sends w m" "keeps_fst quiet w p \<Longrightarrow> keeps_fst sends w p"
  by (auto simp: keeps_def keeps_fst_def quiet_sends)

lemma sends_new [keeps_leaf]:
  "sends w (fst (new_hdr w h))" "sends w (fst (new_msg w m))"
  "sends w (fst (belle_sip_request_new w))" "sends w (fst (belle_sip_response_new w))"
  using quiet_new quiet_sends by blast+

text \<open>A field of a transaction other than those of \<open>sent\<close>.\<close>

lemma sends_upd_tr:
  assumes "\<And>x. trs w t = Some x \<Longrightarrow> sent x (f x)"
  shows "keeps sends w (upd_tr w t f)"
  unfolding keeps_def
proof (intro allI impI)
  fix w' assume u: "upd_tr w t f = Some w'"
  then obtain x where x: "trs w t = Some x" "w' = w\<lparr>trs := (trs w)(t \<mapsto> f x)\<rparr>"
    by (auto simp: upd_tr_def split: option.splits)
  have s: "sent x (f x)" using assms x(1) by simp
  show "sends w w'"
    unfolding sends_def
  proof (intro impI conjI allI)
    assume wf: "wf_world w"
    have "is_client (tr_class (f x)) \<longrightarrow> tr_state (f x) = TR_INIT \<longrightarrow> tr_last_response (f x) = None"
      using wf x(1) s by (auto simp: wf_world_def sent_def)
    then show "wf_world w'" using wf x by (auto simp: wf_world_def ml_inv_def)
    show "dlgs w' = dlgs w" using x(2) by simp
    show "rel_option sent (trs w t') (trs w' t')" for t'
      using x s by (cases "t' = t") (simp_all add: option.rel_refl)
  qed
qed

lemma sends_start_timer [keeps_leaf]: "keeps sends w (belle_sip_transaction_start_timer t n v w)"
  unfolding belle_sip_transaction_start_timer_def
  by (rule keeps_rules keeps_leaf keeps_lift sends_upd_tr keeps_read | (simp add: sent_def; fail))+

end
