(* ===== verification/ChannelFrame.thy ===== *)
theory ChannelFrame
  imports Frame
begin

text \<open>
  The contract between a channel and its listeners, as a locale: told of a state that is not an end
  of the channel, or that a message is about to go out, a listener does no more than send the
  requests that waited for the channel. Under it every operation that queues a message or
  connects a channel keeps the transactions and dialogs as \<open>sends\<close> says; in particular no listener
  of the application is called and no transaction ends inside such an operation. The contract is
  discharged for the core's own interface at the end.
\<close>

definition benign :: "channel_state \<Rightarrow> bool" where
  "benign s \<longleftrightarrow> s \<noteq> CHANNEL_DISCONNECTED \<and> s \<noteq> CHANNEL_ERROR"

lemma quiet_channel_send [keeps_leaf]: "keeps_fst quiet w (belle_sip_channel_send E c buf w)"
  unfolding belle_sip_channel_send_def
  by (rule qu.keeps_fst_bind keeps_leaf | (auto simp: keeps_fst_def Let_def intro!: quiet_same; fail))+

locale channel_client =
  fixes I :: chan_iface
  assumes told: "benign s \<Longrightarrow> keeps sends w (on_state_changed I l c s w)"
    and preparing: "keeps sends w (on_sending I l c m w)"
begin

lemma invoke_listeners_sends:
  "(\<And>l w. keeps sends w (f l w)) \<Longrightarrow> keeps sends w (invoke_channel_listeners f ls w)"
proof (induction ls arbitrary: w)
  case Nil
  show ?case by (simp add: se.keeps_Some)
next
  case (Cons l ls)
  show ?case unfolding invoke_channel_listeners.simps by (rule se.keeps_bind Cons)+
qed

lemma state_listener_sends:
  assumes "\<And>r. chans w c = Some r \<Longrightarrow> benign (ch_state r)"
  shows "keeps sends w (channel_invoke_state_listener I c w)"
proof (cases "chans w c")
  case (Some r)
  then have "benign (ch_state r)" using assms by blast
  then show ?thesis
    using Some invoke_listeners_sends[of "\<lambda>l. on_state_changed I l c (ch_state r)"] told
    by (simp add: channel_invoke_state_listener_def benign_def)
qed (simp add: channel_invoke_state_listener_def keeps_None)

lemma handle_error_sends: "keeps sends w (belle_sip_channel_handle_error I c w)"
proof -
  have 1: "keeps sends w1 (channel_invoke_state_listener I c w1)"
    if "upd_chan w c (\<lambda>r. r\<lparr>ch_peers := tl (ch_peers r), ch_state := CHANNEL_RETRY\<rparr>) = Some w1" for w w1
    by (rule state_listener_sends) (use that in \<open>auto simp: upd_chan_def benign_def split: option.splits\<close>)
  show ?thesis
    unfolding belle_sip_channel_handle_error_def
    by (rule keeps_rules 1 keeps_leaf keeps_lift keeps_read | assumption)+
qed

lemma set_state_sends:
  assumes "s \<noteq> CHANNEL_DISCONNECTED"
  shows "keeps sends w (channel_set_state I c s w)"
proof -
  have 1: "keeps sends w1 (channel_invoke_state_listener I c w1)"
    if "upd_chan w c (ch_state_update (\<lambda>_. s)) = Some w1" "s \<noteq> CHANNEL_ERROR" for w w1
    by (rule state_listener_sends) (use that assms in \<open>auto simp: upd_chan_def benign_def split: option.splits\<close>)
  show ?thesis
    unfolding channel_set_state_def
    by (rule keeps_rules handle_error_sends 1 keeps_leaf keeps_lift | assumption)+
qed

lemma send_buffer_sends: "keeps_fst sends w (send_buffer E I c buf w)"
proof -
  have 1: "keeps_fst sends w (belle_sip_channel_send E c buf w)" for w
    by (rule keeps_lift keeps_leaf)+
  show ?thesis
    unfolding send_buffer_def
    by (rule keeps_rules 1 set_state_sends | (simp; fail))+
qed

lemma push_out_sends: "keeps_fst sends w (push_out E I c buf w)"
proof (induction "length buf" arbitrary: buf w rule: less_induct)
  case less
  show ?case
  proof (subst push_out.simps, rule keeps_fst_case_option, rule keeps_fst_None, rule keeps_fst_case_prod)
    fix p w1 r assume p: "send_buffer E I c buf w = Some p" and e: "p = (w1, r)"
    have "sends w w1" using p e keeps_fstD[OF send_buffer_sends] by blast
    moreover have "keeps_fst sends w1 (push_out E I c (drop (nat r) buf) w1)"
      if "0 < r" "\<not> int (length buf) < r" by (rule less) (use that in auto)
    then have "keeps_fst sends w1 (if 0 < r then
             (if int (length buf) < r then None
              else if nat r = length buf then Some (w1, SentAll)
              else push_out E I c (drop (nat r) buf) w1)
           else if belle_sip_error_code_is_would_block (- r) then Some (w1, Blocked buf)
           else Some (w1, Broken))"
      by (auto intro: keeps_rules)
    ultimately show "keeps_fst sends w (if 0 < r then
             (if int (length buf) < r then None
              else if nat r = length buf then Some (w1, SentAll)
              else push_out E I c (drop (nat r) buf) w1)
           else if belle_sip_error_code_is_would_block (- r) then Some (w1, Blocked buf)
           else Some (w1, Broken))"
      by (rule se.keeps_fst_step)
  qed
qed

lemma keeps_fst_push_result [keeps_rules]:
  "(x = SentAll \<Longrightarrow> keeps_fst R w a) \<Longrightarrow> (\<And>b. x = Blocked b \<Longrightarrow> keeps_fst R w (f b)) \<Longrightarrow> (x = Broken \<Longrightarrow> keeps_fst R w d) \<Longrightarrow>
   keeps_fst R w (case x of SentAll \<Rightarrow> a | Blocked b \<Rightarrow> f b | Broken \<Rightarrow> d)"
  by (cases x) simp_all

lemma ewouldblock_sends [keeps_leaf]: "keeps quiet w (handle_ewouldblock c b w)"
  unfolding handle_ewouldblock_def by (rule keeps_leaf)

lemma send_done_sends [keeps_leaf]: "keeps quiet w (send_done c w)"
  unfolding send_done_def by (rule keeps_leaf)

lemma send_body_loop_sends: "keeps_fst sends w (send_body_loop E I c left w)"
proof (induction "length left" arbitrary: left w rule: less_induct)
  case less
  define n where "n = belle_sip_send_network_buffer_size - 1"
  have ih: "keeps_fst sends v (send_body_loop E I c (drop n left) v)" if "drop n left \<noteq> []" for v
    by (rule less) (use that in \<open>auto simp: n_def belle_sip_send_network_buffer_size_def\<close>)
  show ?case
    unfolding send_body_loop.simps[of E I c left w] n_def[symmetric] Let_def
    apply (rule keeps_fst_case_option, rule keeps_fst_None)
    apply (erule se.keeps_fst_step[OF keepsD[OF sends_quiet(1)[OF quiet_upd_chan]]])
    apply (rule keeps_fst_case_option, rule keeps_fst_None)
    apply (rule keeps_fst_case_prod)
    subgoal premises prems for v p v2 res
    proof -
      have "sends v v2"
        using prems keeps_fstD[OF push_out_sends] se.refl by (auto split: if_splits)
      moreover have "keeps_fst sends v2 (case res of SentAll \<Rightarrow> if drop n left = [] then Some (v2, True)
               else send_body_loop E I c (drop n left) v2
            | Blocked b \<Rightarrow> (case handle_ewouldblock c b v2 of None \<Rightarrow> None | Some w \<Rightarrow> Some (w, False))
            | Broken \<Rightarrow> Some (v2, True))"
        using ih keepsD[OF sends_quiet(1)[OF ewouldblock_sends]]
        by (auto split: push_result.split option.split intro: keeps_rules simp: keeps_fst_def se.refl)
      ultimately show ?thesis using se.keeps_fst_step by blast
    qed
    done
qed

lemma on_sending_all: "keeps sends w (invoke_channel_listeners (\<lambda>l. on_sending I l c m) ls w)"
  by (rule invoke_listeners_sends) (rule preparing)

lemma headers_step_sends: "keeps_fst sends w (send_headers_step E I c msg w)"
  unfolding send_headers_step_def
  by (rule keeps_rules on_sending_all push_out_sends keeps_leaf | rule keeps_read | rule keeps_lift)+

lemma body_step_sends: "keeps_fst sends w (send_body_step E I c w)"
  unfolding send_body_step_def
  by (rule keeps_rules send_body_loop_sends keeps_leaf keeps_read)+

lemma channel_send_message_sends: "keeps sends w (channel_send_message E I c w)"
  unfolding channel_send_message_def
  by (rule keeps_rules headers_step_sends body_step_sends push_out_sends keeps_leaf keeps_read keeps_lift)+

lemma send_message_sends: "keeps sends w (send_message E I c m w)"
  unfolding send_message_def
  by (rule keeps_rules channel_send_message_sends keeps_leaf keeps_read keeps_lift)+

lemma process_queue_loop_sends: "keeps sends w (process_queue_loop E I n c w)"
proof (induction n arbitrary: w)
  case 0
  show ?case by (simp add: keeps_None)
next
  case (Suc n)
  show ?case unfolding process_queue_loop.simps
    by (rule keeps_rules send_message_sends Suc keeps_leaf keeps_read keeps_lift)+
qed

lemma process_queue_sends: "keeps sends w (channel_process_queue E I c w)"
  unfolding channel_process_queue_def
  by (rule keeps_rules channel_send_message_sends process_queue_loop_sends keeps_leaf keeps_read keeps_lift)+

lemma set_ready_sends: "keeps sends w (belle_sip_channel_set_ready E I c w)"
  unfolding belle_sip_channel_set_ready_def
  by (rule keeps_rules process_queue_sends keeps_leaf
      | (rule set_state_sends, simp; fail) | rule keeps_read | rule keeps_lift)+

lemma keeps_case_connect [keeps_rules]:
  "(x = ConnectReady \<Longrightarrow> keeps R w a) \<Longrightarrow> (x = ConnectPending \<Longrightarrow> keeps R w b) \<Longrightarrow> (x = ConnectFailed \<Longrightarrow> keeps R w d) \<Longrightarrow>
   keeps R w (case x of ConnectReady \<Rightarrow> a | ConnectPending \<Rightarrow> b | ConnectFailed \<Rightarrow> d)"
  by (cases x) simp_all

lemma connect_sends: "keeps sends w (belle_sip_channel_connect E I c w)"
  unfolding belle_sip_channel_connect_def
  by (rule keeps_rules set_ready_sends keeps_leaf | (rule set_state_sends, simp; fail) | rule keeps_read | rule keeps_lift)+

lemma prepare_resolved_sends: "keeps sends w (prepare_continue_resolved E I c w)"
  unfolding prepare_continue_resolved_def
  by (rule keeps_read) (auto split: channel_state.split intro: connect_sends process_queue_sends keeps_rules)

lemma res_done_sends: "keeps sends w (channel_res_done E I c l w)"
  unfolding channel_res_done_def
  by (rule keeps_rules prepare_resolved_sends keeps_leaf | (rule set_state_sends, simp; fail) | rule keeps_read | rule keeps_lift)+

lemma resolve_sends: "keeps sends w (belle_sip_channel_resolve E I c w)"
  unfolding belle_sip_channel_resolve_def
  by (rule keeps_rules res_done_sends keeps_leaf | (rule set_state_sends, simp; fail) | rule keeps_read | rule keeps_lift)+

lemma prepare_sends: "keeps sends w (belle_sip_channel_prepare E I c w)"
  unfolding belle_sip_channel_prepare_def
  by (rule keeps_rules resolve_sends prepare_resolved_sends keeps_read)+

lemma queue_message_sends: "keeps sends w (queue_message E I c m w)"
  unfolding queue_message_def
  by (rule keeps_rules prepare_sends process_queue_sends keeps_leaf | rule keeps_read | rule keeps_lift)+

lemma queue_delayed_sends: "keeps sends w (queue_message_delayed c m w)"
  unfolding queue_message_delayed_def
  by (rule keeps_rules keeps_leaf | rule keeps_read | rule keeps_lift)+

lemma channel_queue_message_sends: "keeps sends w (belle_sip_channel_queue_message E I c m w)"
  unfolding belle_sip_channel_queue_message_def
  by (rule keeps_rules queue_delayed_sends queue_message_sends)+

lemma delayed_send_sends: "keeps sends w (on_delayed_send_do E I c m w)"
  unfolding on_delayed_send_do_def
  by (rule keeps_rules queue_message_sends keeps_read)+

lemma notify_timeout_sends: "keeps_fst sends w (belle_sip_channel_notify_timeout I c w)"
  unfolding belle_sip_channel_notify_timeout_def
  by (rule keeps_rules | (rule set_state_sends, simp; fail) | rule keeps_read)+

text \<open>What a transaction does on its channel.\<close>

lemma queue_on_channel_sends: "keeps sends w (queue_on_channel E I t m w)"
  unfolding queue_on_channel_def
  by (rule channel_queue_message_sends keeps_read)+

lemma send_request_sends:
  assumes x: "trs w t = Some x" and i: "tr_state x = TR_INIT"
  shows "keeps sends w (send_request_of_class E I t w)"
proof -
  have 1: "keeps sends w (belle_sip_transaction_set_state t TR_CALLING w)" if "tr_class x = ICT"
    unfolding belle_sip_transaction_set_state_def
    by (rule sends_upd_tr) (use x i that in \<open>simp add: sent_def\<close>)
  have 2: "keeps sends w (belle_sip_transaction_set_state t TR_TRYING w)" if "tr_class x = NICT"
    unfolding belle_sip_transaction_set_state_def
    by (rule sends_upd_tr) (use x i that in \<open>simp add: sent_def\<close>)
  have "keeps sends w (ict_send_request E I t w)" if "tr_class x = ICT"
    unfolding ict_send_request_def
    by (rule keeps_rules 1 that queue_on_channel_sends keeps_leaf keeps_read)+
  moreover have "keeps sends w (nict_send_request E I t w)" if "tr_class x = NICT"
    unfolding nict_send_request_def
    by (rule keeps_rules 2 that queue_on_channel_sends keeps_leaf keeps_read)+
  ultimately show ?thesis
    using x by (auto simp: send_request_of_class_def keeps_None split: transaction_class.split)
qed

lemma provider_send_request_sends: "keeps sends w (belle_sip_provider_send_request E I req w)"
  unfolding belle_sip_provider_send_request_def
  by (rule keeps_rules channel_queue_message_sends keeps_leaf | rule keeps_lift keeps_read)+

lemma provider_send_response_sends: "keeps sends w (belle_sip_provider_send_response E I resp w)"
  unfolding belle_sip_provider_send_response_def
  by (rule keeps_rules channel_queue_message_sends keeps_leaf | rule keeps_read | rule keeps_lift)+

end

text \<open>The interface of the core fulfils the contract.\<close>

lemma on_sending_core: "keeps sends w (case l of LProvider \<Rightarrow> channel_on_sending E c m w | LTransaction t \<Rightarrow> Some w)"
  by (cases l) (simp_all add: se.keeps_Some sends_quiet quiet_store store_on_sending)

lemma core_iface_client: "channel_client (core_iface E marshal n)"
proof (induction n)
  case 0
  show ?case by unfold_locales (simp_all add: keeps_None on_sending_core)
next
  case (Suc n)
  show ?case
  proof
    fix s w l c assume s: "benign s"
    have p: "keeps sends w (channel_state_changed E c s w)"
      using s by (simp add: channel_state_changed_def benign_def se.keeps_Some)
    have t: "keeps sends w (on_channel_state_changed E (core_iface E marshal n) t c s w)" for t
      unfolding on_channel_state_changed_def
    proof (rule keeps_bind_read)
      fix x assume x: "trs w t = Some x"
      show "keeps sends w (case s of
        CHANNEL_READY \<Rightarrow> (if tr_state x = TR_INIT then send_request_of_class E (core_iface E marshal n) t w else Some w)
      | s \<Rightarrow>
          (if s = CHANNEL_DISCONNECTED \<or> s = CHANNEL_ERROR then do {
             w \<leftarrow> (if tr_state x \<notin> {TR_COMPLETED, TR_CONFIRMED, TR_ACCEPTED, TR_TERMINATED}
                   then invoke_listeners_for_transaction E t (EvIoError (Some t) c) w else Some w);
             y \<leftarrow> trs w t;
             w \<leftarrow> (if tr_timed_out y then notify_timeout E t w else Some w);
             belle_sip_transaction_terminate E (core_iface E marshal n) t w }
           else Some w))"
        using s channel_client.send_request_sends[OF Suc x]
        by (cases s) (simp_all add: benign_def se.keeps_Some)
    qed
    show "keeps sends w (on_state_changed (core_iface E marshal (Suc n)) l c s w)"
      using p t by (cases l) simp_all
  next
    show "keeps sends w (on_sending (core_iface E marshal (Suc n)) l c m w)" for w l c m
      by (simp add: on_sending_core)
  qed
qed

interpretation core: channel_client "core_iface E marshal n" for E marshal n
  by (rule core_iface_client)

end
