(* ===== verification/Evolve.thy ===== *)
theory Evolve
  imports ChannelFrame
begin

text \<open>
  The life of transactions and dialogs. \<open>tr_step\<close> has the edges of the four machines of RFC 3261 as
  the source draws them, and \<open>evolves\<close> relates two worlds when every transaction has only moved
  along its machine and no dialog has gone back. The application's listeners are assumed to respect
  it (\<open>respectful\<close>): they act on transactions and dialogs through the stack.
\<close>

section \<open>The machines\<close>

inductive tr_step :: "transaction_class \<Rightarrow> transaction_state \<Rightarrow> transaction_state \<Rightarrow> bool" where
  ict_send: "tr_step ICT TR_INIT TR_CALLING"
| ict_proceed: "tr_step ICT TR_CALLING TR_PROCEEDING"
| ict_accept: "tr_step ICT TR_PROCEEDING TR_ACCEPTED"
| ict_complete: "tr_step ICT TR_PROCEEDING TR_COMPLETED"
| nict_send: "tr_step NICT TR_INIT TR_TRYING"
| nict_proceed: "tr_step NICT TR_TRYING TR_PROCEEDING"
| nict_complete: "s = TR_TRYING \<or> s = TR_PROCEEDING \<Longrightarrow> tr_step NICT s TR_COMPLETED"
| ist_start: "tr_step IST TR_INIT TR_PROCEEDING"
| ist_accept: "tr_step IST TR_PROCEEDING TR_ACCEPTED"
| ist_complete: "tr_step IST TR_PROCEEDING TR_COMPLETED"
| ist_confirm: "tr_step IST TR_COMPLETED TR_CONFIRMED"
| nist_start: "tr_step NIST TR_INIT TR_TRYING"
| nist_proceed: "tr_step NIST TR_TRYING TR_PROCEEDING"
| nist_complete: "s = TR_TRYING \<or> s = TR_PROCEEDING \<Longrightarrow> tr_step NIST s TR_COMPLETED"
| terminate: "s \<noteq> TR_TERMINATED \<Longrightarrow> tr_step cls s TR_TERMINATED"

inductive_cases tr_step_fromE: "tr_step cls TR_TERMINATED s"

definition tr_reach :: "transaction_class \<Rightarrow> transaction_state \<Rightarrow> transaction_state \<Rightarrow> bool" where
  "tr_reach cls = (tr_step cls)\<^sup>*\<^sup>*"

lemma tr_reach_refl [simp]: "tr_reach cls s s"
  by (simp add: tr_reach_def)

lemma tr_reach_step: "tr_step cls s s' \<Longrightarrow> tr_reach cls s s'"
  by (simp add: tr_reach_def)

lemma tr_reach_trans: "tr_reach cls s s' \<Longrightarrow> tr_reach cls s' s'' \<Longrightarrow> tr_reach cls s s''"
  by (simp add: tr_reach_def)

lemma tr_reach_terminated: "tr_reach cls s TR_TERMINATED"
  by (cases "s = TR_TERMINATED") (simp_all add: tr_reach_step terminate)

text \<open>TERMINATED is final.\<close>

lemma tr_reach_from_terminated: "tr_reach cls TR_TERMINATED s \<Longrightarrow> s = TR_TERMINATED"
  unfolding tr_reach_def by (induction rule: rtranclp_induct) (auto elim: tr_step_fromE)

fun dlg_rank :: "dialog_state \<Rightarrow> nat" where
  "dlg_rank DIALOG_NULL = 0" | "dlg_rank DIALOG_EARLY = 1" | "dlg_rank DIALOG_CONFIRMED = 2"
| "dlg_rank DIALOG_TERMINATED = 3"

section \<open>The relations\<close>

definition tr_le :: "transaction \<Rightarrow> transaction \<Rightarrow> bool" where
  "tr_le x x' \<longleftrightarrow> tr_class x' = tr_class x \<and> tr_request x' = tr_request x \<and> tr_branch_id x' = tr_branch_id x
     \<and> tr_reach (tr_class x) (tr_state x) (tr_state x')"

definition dlg_le :: "dialog \<Rightarrow> dialog \<Rightarrow> bool" where
  "dlg_le r r' \<longleftrightarrow> dlg_is_server r' = dlg_is_server r \<and> dlg_rank (dlg_state r) \<le> dlg_rank (dlg_state r')"

definition evolves :: "world \<Rightarrow> world \<Rightarrow> bool" where
  "evolves w w' \<longleftrightarrow> (wf_world w \<longrightarrow> wf_world w'
     \<and> (\<forall>t x. trs w t = Some x \<longrightarrow> (\<exists>x'. trs w' t = Some x' \<and> tr_le x x'))
     \<and> (\<forall>d r. dlgs w d = Some r \<longrightarrow> (\<exists>r'. dlgs w' d = Some r' \<and> dlg_le r r')))"

text \<open>Transactions untouched, and dialogs in the state they were in.\<close>

definition same_dlg :: "dialog \<Rightarrow> dialog \<Rightarrow> bool" where
  "same_dlg r r' \<longleftrightarrow> dlg_is_server r' = dlg_is_server r \<and> dlg_state r' = dlg_state r"

definition calm :: "world \<Rightarrow> world \<Rightarrow> bool" where
  "calm w w' \<longleftrightarrow> (wf_world w \<longrightarrow> wf_world w' \<and> trs w' = trs w \<and> (\<forall>d. rel_option same_dlg (dlgs w d) (dlgs w' d)))"

lemma tr_le_refl [simp]: "tr_le x x"
  by (simp add: tr_le_def)

lemma tr_le_trans: "tr_le x y \<Longrightarrow> tr_le y z \<Longrightarrow> tr_le x z"
  by (auto simp: tr_le_def intro: tr_reach_trans)

lemma dlg_le_refl [simp]: "dlg_le r r"
  by (simp add: dlg_le_def)

lemma dlg_le_trans: "dlg_le r s \<Longrightarrow> dlg_le s u \<Longrightarrow> dlg_le r u"
  by (auto simp: dlg_le_def)

interpretation ev: frame_rel evolves
proof
  show "evolves w w" for w by (auto simp: evolves_def)
next
  fix w w' w'' assume a: "evolves w w'" and b: "evolves w' w''"
  show "evolves w w''"
    unfolding evolves_def
  proof (intro impI conjI allI)
    assume wf: "wf_world w"
    then have wf': "wf_world w'" using a by (simp add: evolves_def)
    then show "wf_world w''" using b by (simp add: evolves_def)
    show "\<exists>x'. trs w'' t = Some x' \<and> tr_le x x'" if x: "trs w t = Some x" for t x
    proof -
      obtain y where y: "trs w' t = Some y" "tr_le x y" using a wf x unfolding evolves_def by blast
      obtain z where "trs w'' t = Some z" "tr_le y z" using b wf' y(1) unfolding evolves_def by blast
      then show ?thesis using y(2) tr_le_trans by blast
    qed
    show "\<exists>r'. dlgs w'' d = Some r' \<and> dlg_le r r'" if r: "dlgs w d = Some r" for d r
    proof -
      obtain y where y: "dlgs w' d = Some y" "dlg_le r y" using a wf r unfolding evolves_def by blast
      obtain z where "dlgs w'' d = Some z" "dlg_le y z" using b wf' y(1) unfolding evolves_def by blast
      then show ?thesis using y(2) dlg_le_trans by blast
    qed
  qed
qed

interpretation ca: frame_rel calm
proof
  show "calm w w" for w by (auto simp: calm_def same_dlg_def intro: option.rel_refl)
next
  fix w w' w'' assume a: "calm w w'" and b: "calm w' w''"
  have "rel_option same_dlg (dlgs w d) (dlgs w'' d)" if "wf_world w" for d
  proof -
    have "rel_option same_dlg (dlgs w d) (dlgs w' d)" "rel_option same_dlg (dlgs w' d) (dlgs w'' d)"
      using a b that by (simp_all add: calm_def)
    then show ?thesis by (cases "dlgs w d"; cases "dlgs w' d"; cases "dlgs w'' d") (auto simp: same_dlg_def)
  qed
  then show "calm w w''" using a b by (simp add: calm_def)
qed

lemma quiet_calm: "quiet w w' \<Longrightarrow> calm w w'"
  by (auto simp: quiet_def calm_def same_dlg_def intro: option.rel_refl)

lemma calm_evolves: "calm w w' \<Longrightarrow> evolves w w'"
  unfolding calm_def evolves_def
proof (intro impI conjI allI)
  assume a: "wf_world w \<longrightarrow> wf_world w' \<and> trs w' = trs w \<and> (\<forall>d. rel_option same_dlg (dlgs w d) (dlgs w' d))"
    and wf: "wf_world w"
  show "wf_world w'" using a wf by simp
  show "\<exists>x'. trs w' t = Some x' \<and> tr_le x x'" if "trs w t = Some x" for t x using a wf that by simp
  show "\<exists>r'. dlgs w' d = Some r' \<and> dlg_le r r'" if "dlgs w d = Some r" for d r
  proof -
    have "rel_option same_dlg (dlgs w d) (dlgs w' d)" using a wf by blast
    then show ?thesis using that by (auto simp: option_rel_Some1 same_dlg_def dlg_le_def)
  qed
qed

lemma sent_tr_le: "sent x x' \<Longrightarrow> tr_le x x'"
  using tr_reach_step[OF ict_send] tr_reach_step[OF nict_send] by (auto simp: sent_def tr_le_def)

lemma sends_evolves: "sends w w' \<Longrightarrow> evolves w w'"
  unfolding sends_def evolves_def
proof (intro impI conjI allI)
  assume a: "wf_world w \<longrightarrow> wf_world w' \<and> dlgs w' = dlgs w \<and> (\<forall>t. rel_option sent (trs w t) (trs w' t))"
    and wf: "wf_world w"
  show "wf_world w'" using a wf by simp
  show "\<exists>x'. trs w' t = Some x' \<and> tr_le x x'" if "trs w t = Some x" for t x
  proof -
    have "rel_option sent (trs w t) (trs w' t)" using a wf by blast
    then show ?thesis using that sent_tr_le by (auto simp: option_rel_Some1)
  qed
  show "\<exists>r'. dlgs w' d = Some r' \<and> dlg_le r r'" if "dlgs w d = Some r" for d r using a wf that by simp
qed

text \<open>A step of \<open>evolves\<close> is looked for among the smaller relations last.\<close>

lemma keeps_calm [keeps_lift]:
  "keeps quiet w m \<Longrightarrow> keeps calm w m" "keeps_fst quiet w p \<Longrightarrow> keeps_fst calm w p"
  by (auto simp: keeps_def keeps_fst_def quiet_calm)

lemma keeps_evolves:
  "keeps calm w m \<Longrightarrow> keeps evolves w m" "keeps_fst calm w p \<Longrightarrow> keeps_fst evolves w p"
  "keeps sends w m \<Longrightarrow> keeps evolves w m" "keeps_fst sends w p \<Longrightarrow> keeps_fst evolves w p"
  by (auto simp: keeps_def keeps_fst_def calm_evolves sends_evolves)

lemma calm_new [keeps_leaf]:
  "calm w (fst (new_hdr w h))" "calm w (fst (new_msg w m))"
  "calm w (fst (belle_sip_request_new w))" "calm w (fst (belle_sip_response_new w))"
  "calm w (fst (belle_sip_random_token w n))"
  using quiet_new quiet_random_token quiet_calm by blast+

lemma evolves_new [keeps_leaf]:
  "evolves w (fst (new_hdr w h))" "evolves w (fst (new_msg w m))"
  "evolves w (fst (belle_sip_request_new w))" "evolves w (fst (belle_sip_response_new w))"
  "evolves w (fst (belle_sip_random_token w n))"
  using calm_new calm_evolves by blast+

lemma keeps_wf: "(wf_world w \<Longrightarrow> keeps evolves w m) \<Longrightarrow> keeps evolves w m"
  by (auto simp: keeps_def evolves_def)

lemma keeps_fst_wf: "(wf_world w \<Longrightarrow> keeps_fst evolves w m) \<Longrightarrow> keeps_fst evolves w m"
  by (auto simp: keeps_fst_def evolves_def)

section \<open>Updates\<close>

lemma evolves_upd_tr:
  assumes "\<And>x. trs w t = Some x \<Longrightarrow> tr_le x (f x)
      \<and> (is_client (tr_class x) \<longrightarrow> tr_state (f x) = TR_INIT \<longrightarrow> tr_last_response x = None \<longrightarrow> tr_last_response (f x) = None)"
    and "\<And>x. trs w t = Some x \<Longrightarrow> tr_state (f x) = TR_INIT \<Longrightarrow> tr_state x = TR_INIT"
  shows "keeps evolves w (upd_tr w t f)"
  unfolding keeps_def
proof (intro allI impI)
  fix w' assume "upd_tr w t f = Some w'"
  then obtain x where x: "trs w t = Some x" "w' = w\<lparr>trs := (trs w)(t \<mapsto> f x)\<rparr>"
    by (auto simp: upd_tr_def split: option.splits)
  have l: "tr_le x (f x)" using assms(1) x(1) by blast
  have c: "wf_world w \<Longrightarrow> is_client (tr_class (f x)) \<longrightarrow> tr_state (f x) = TR_INIT \<longrightarrow> tr_last_response (f x) = None"
    using assms(1)[OF x(1)] assms(2)[OF x(1)] x(1) by (auto simp: wf_world_def tr_le_def)
  show "evolves w w'"
    unfolding evolves_def
  proof (intro impI conjI allI)
    assume wf: "wf_world w"
    show "wf_world w'" using wf x c[OF wf] by (auto simp: wf_world_def ml_inv_def)
    show "\<exists>y'. trs w' u = Some y' \<and> tr_le y y'" if "trs w u = Some y" for u y
      using that x l by (cases "u = t") auto
    show "\<exists>r'. dlgs w' d = Some r' \<and> dlg_le r r'" if "dlgs w d = Some r" for d r
      using that x by simp
  qed
qed

text \<open>The fields that no machine is about.\<close>

lemma evolves_upd_tr_field:
  "(\<And>x. tr_class (f x) = tr_class x \<and> tr_request (f x) = tr_request x \<and> tr_branch_id (f x) = tr_branch_id x
     \<and> tr_state (f x) = tr_state x \<and> tr_last_response (f x) = tr_last_response x) \<Longrightarrow> keeps evolves w (upd_tr w t f)"
  by (rule evolves_upd_tr) (auto simp: tr_le_def)

lemma evolves_set_state:
  assumes "\<And>x. trs w t = Some x \<Longrightarrow> tr_reach (tr_class x) (tr_state x) s" and "s \<noteq> TR_INIT"
  shows "keeps evolves w (belle_sip_transaction_set_state t s w)"
  unfolding belle_sip_transaction_set_state_def
  by (rule evolves_upd_tr) (use assms in \<open>auto simp: tr_le_def\<close>)

lemma evolves_upd_dlg:
  assumes "\<And>r. dlgs w d = Some r \<Longrightarrow> dlg_le r (f r)"
  shows "keeps evolves w (upd_dlg w d f)"
  unfolding keeps_def
proof (intro allI impI)
  fix w' assume "upd_dlg w d f = Some w'"
  then obtain r where r: "dlgs w d = Some r" "w' = w\<lparr>dlgs := (dlgs w)(d \<mapsto> f r)\<rparr>"
    by (auto simp: upd_dlg_def split: option.splits)
  show "evolves w w'"
    unfolding evolves_def
  proof (intro impI conjI allI)
    assume wf: "wf_world w"
    show "wf_world w'" using wf r by (auto simp: wf_world_def ml_inv_def)
    show "\<exists>x'. trs w' t = Some x' \<and> tr_le x x'" if "trs w t = Some x" for t x using that r by simp
    show "\<exists>s'. dlgs w' e = Some s' \<and> dlg_le s s'" if "dlgs w e = Some s" for e s
      using that r assms[OF r(1)] by (cases "e = d") auto
  qed
qed

lemma calm_upd_dlg:
  assumes "\<And>r. same_dlg r (f r)"
  shows "keeps calm w (upd_dlg w d f)"
  unfolding keeps_def
proof (intro allI impI)
  fix w' assume "upd_dlg w d f = Some w'"
  then obtain r where r: "dlgs w d = Some r" "w' = w\<lparr>dlgs := (dlgs w)(d \<mapsto> f r)\<rparr>"
    by (auto simp: upd_dlg_def split: option.splits)
  have "rel_option same_dlg (dlgs w e) (dlgs w' e)" for e
    using r assms[of r] by (cases "e = d") (auto simp: same_dlg_def intro: option.rel_refl)
  moreover have "wf_world w \<Longrightarrow> wf_world w'" using r by (auto simp: wf_world_def ml_inv_def)
  ultimately show "calm w w'" using r by (simp add: calm_def)
qed

lemma calm_state:
  "calm w w' \<Longrightarrow> wf_world w \<Longrightarrow> dlgs w d = Some r \<Longrightarrow> \<exists>r'. dlgs w' d = Some r' \<and> dlg_state r' = dlg_state r
     \<and> dlg_is_server r' = dlg_is_server r"
  unfolding calm_def by (metis option_rel_Some1 same_dlg_def)

section \<open>Relations from a state\<close>

text \<open>
  \<open>evolves_in P\<close> is a step that keeps the condition \<open>P\<close>; \<open>evolves_from P\<close> is one that only needs it
  at the start. An operation that depends on the state of a transaction or dialog is cut where it
  changes that state.
\<close>

definition evolves_in :: "(world \<Rightarrow> bool) \<Rightarrow> world \<Rightarrow> world \<Rightarrow> bool" where
  "evolves_in P w w' \<longleftrightarrow> (wf_world w \<and> P w \<longrightarrow> evolves w w' \<and> P w')"

definition evolves_from :: "(world \<Rightarrow> bool) \<Rightarrow> world \<Rightarrow> world \<Rightarrow> bool" where
  "evolves_from P w w' \<longleftrightarrow> (wf_world w \<and> P w \<longrightarrow> evolves w w')"

lemma evolves_wf: "evolves w w' \<Longrightarrow> wf_world w \<Longrightarrow> wf_world w'"
  by (simp add: evolves_def)

interpretation ei: frame_rel "evolves_in P" for P
proof
  show "evolves_in P w w" for w by (simp add: evolves_in_def ev.refl)
  show "evolves_in P w w'" if "evolves_in P w v" "evolves_in P v w'" for w v w'
    using that evolves_wf ev.trans unfolding evolves_in_def by blast
qed

lemma evolves_from_refl: "evolves_from P w w"
  by (simp add: evolves_from_def ev.refl)

lemma evolves_in_from: "evolves_in P w w' \<Longrightarrow> evolves_from P w' w'' \<Longrightarrow> evolves_from P w w''"
  unfolding evolves_in_def evolves_from_def using ev.trans evolves_wf by blast

lemma keeps_fromI: "keeps evolves w m \<Longrightarrow> keeps (evolves_from P) w m"
    "keeps_fst evolves w p \<Longrightarrow> keeps_fst (evolves_from P) w p"
  by (auto simp: keeps_def keeps_fst_def evolves_from_def)

lemma keeps_in_from: "keeps (evolves_in P) w m \<Longrightarrow> keeps (evolves_from P) w m"
    "keeps_fst (evolves_in P) w p \<Longrightarrow> keeps_fst (evolves_from P) w p"
  by (auto simp: keeps_def keeps_fst_def evolves_from_def evolves_in_def)

lemma keeps_fromD: "keeps (evolves_from P) w m \<Longrightarrow> P w \<Longrightarrow> keeps evolves w m"
  by (rule keeps_wf) (auto simp: keeps_def evolves_from_def)

lemma keeps_fst_fromD: "keeps_fst (evolves_from P) w m \<Longrightarrow> P w \<Longrightarrow> keeps_fst evolves w m"
  by (rule keeps_fst_wf) (auto simp: keeps_fst_def evolves_from_def)

named_theorems from_rules \<open>rules for steps that need a condition at the start\<close>

lemma from_Some [from_rules]: "keeps (evolves_from P) w (Some w)"
  by (simp add: keeps_def evolves_from_refl)

lemma from_fst_Some [from_rules]: "keeps_fst (evolves_from P) w (Some (w, a))"
  by (simp add: keeps_fst_def evolves_from_refl)

lemma from_bind:
  "keeps (evolves_in P) w m \<Longrightarrow> (\<And>w1. m = Some w1 \<Longrightarrow> keeps (evolves_from P) w1 (f w1)) \<Longrightarrow> keeps (evolves_from P) w (m \<bind> f)"
  by (cases m) (auto simp: keeps_def intro: evolves_in_from)

lemma from_fst_bind:
  "keeps (evolves_in P) w m \<Longrightarrow> (\<And>w1. m = Some w1 \<Longrightarrow> keeps_fst (evolves_from P) w1 (f w1)) \<Longrightarrow>
   keeps_fst (evolves_from P) w (m \<bind> f)"
  by (cases m) (auto simp: keeps_def keeps_fst_def intro: evolves_in_from)

lemma from_bind_pair:
  "keeps_fst (evolves_in P) w m \<Longrightarrow> (\<And>w1 a. m = Some (w1, a) \<Longrightarrow> keeps (evolves_from P) w1 (f w1 a)) \<Longrightarrow>
   keeps (evolves_from P) w (m \<bind> (\<lambda>(w, a). f w a))"
  by (cases m) (auto simp: keeps_def keeps_fst_def intro: evolves_in_from)

lemma from_fst_bind_pair:
  "keeps_fst (evolves_in P) w m \<Longrightarrow> (\<And>w1 a. m = Some (w1, a) \<Longrightarrow> keeps_fst (evolves_from P) w1 (f w1 a)) \<Longrightarrow>
   keeps_fst (evolves_from P) w (m \<bind> (\<lambda>(w, a). f w a))"
  by (cases m) (auto simp: keeps_fst_def intro: evolves_in_from)

text \<open>The last step of an operation is followed by steps that keep everything.\<close>

lemma from_bind_last:
  "keeps (evolves_from P) w m \<Longrightarrow> (\<And>w1. m = Some w1 \<Longrightarrow> keeps evolves w1 (f w1)) \<Longrightarrow> keeps (evolves_from P) w (m \<bind> f)"
  by (cases m) (auto simp: keeps_def evolves_from_def intro: ev.trans)

lemma from_fst_bind_last:
  "keeps (evolves_from P) w m \<Longrightarrow> (\<And>w1. m = Some w1 \<Longrightarrow> keeps_fst evolves w1 (f w1)) \<Longrightarrow>
   keeps_fst (evolves_from P) w (m \<bind> f)"
  by (cases m) (auto simp: keeps_def keeps_fst_def evolves_from_def intro: ev.trans)

text \<open>A transaction of a class in a state, and a dialog that is not terminated.\<close>

definition in_state :: "nat \<Rightarrow> transaction_class \<Rightarrow> transaction_state \<Rightarrow> world \<Rightarrow> bool" where
  "in_state t cls s w \<longleftrightarrow> (\<exists>x. trs w t = Some x \<and> tr_class x = cls \<and> tr_state x = s)"

definition dlg_live :: "nat \<Rightarrow> world \<Rightarrow> bool" where
  "dlg_live d w \<longleftrightarrow> (\<exists>r. dlgs w d = Some r \<and> dlg_state r \<noteq> DIALOG_TERMINATED)"

lemma calm_in_state: "calm w w' \<Longrightarrow> evolves_in (in_state t cls s) w w'"
  using calm_evolves[of w w'] by (simp add: evolves_in_def in_state_def calm_def)

lemma calm_dlg_live: "calm w w' \<Longrightarrow> evolves_in (dlg_live d) w w'"
  using calm_evolves[of w w'] calm_state[of w w'] unfolding evolves_in_def dlg_live_def by metis

lemma sends_in_state: "sends w w' \<Longrightarrow> s \<noteq> TR_INIT \<Longrightarrow> evolves_in (in_state t cls s) w w'"
proof -
  assume s: "sends w w'" "s \<noteq> TR_INIT"
  have "in_state t cls s w'" if "wf_world w" "in_state t cls s w"
  proof -
    obtain x where x: "trs w t = Some x" "tr_class x = cls" "tr_state x = s" using \<open>in_state t cls s w\<close> by (auto simp: in_state_def)
    have "rel_option sent (trs w t) (trs w' t)" using s \<open>wf_world w\<close> by (simp add: sends_def)
    then show ?thesis using x s(2) by (auto simp: option_rel_Some1 sent_def in_state_def)
  qed
  then show ?thesis using sends_evolves[OF s(1)] by (simp add: evolves_in_def)
qed

lemma keeps_in_calm:
  "keeps calm w m \<Longrightarrow> keeps (evolves_in (in_state t cls s)) w m"
  "keeps_fst calm w p \<Longrightarrow> keeps_fst (evolves_in (in_state t cls s)) w p"
  "keeps calm w m \<Longrightarrow> keeps (evolves_in (dlg_live d)) w m"
  "keeps_fst calm w p \<Longrightarrow> keeps_fst (evolves_in (dlg_live d)) w p"
  by (auto simp: keeps_def keeps_fst_def calm_in_state calm_dlg_live)

lemma keeps_in_sends:
  "s \<noteq> TR_INIT \<Longrightarrow> keeps sends w m \<Longrightarrow> keeps (evolves_in (in_state t cls s)) w m"
  "s \<noteq> TR_INIT \<Longrightarrow> keeps_fst sends w p \<Longrightarrow> keeps_fst (evolves_in (in_state t cls s)) w p"
  by (auto simp: keeps_def keeps_fst_def sends_in_state)

lemma in_upd_tr_field:
  assumes "\<And>x. tr_class (f x) = tr_class x \<and> tr_request (f x) = tr_request x \<and> tr_branch_id (f x) = tr_branch_id x
     \<and> tr_state (f x) = tr_state x \<and> tr_last_response (f x) = tr_last_response x"
  shows "keeps (evolves_in (in_state t cls s)) w (upd_tr w u f)"
proof -
  have "keeps evolves w (upd_tr w u f)" by (rule evolves_upd_tr_field) (rule assms)
  moreover have "in_state t cls s w'" if "upd_tr w u f = Some w'" "in_state t cls s w" for w'
    using that assms by (auto simp: upd_tr_def in_state_def split: option.splits)
  ultimately show ?thesis by (auto simp: keeps_def evolves_in_def)
qed

text \<open>A change of state along the machine.\<close>

lemma from_set_state:
  assumes "tr_reach cls s s'" and "s' \<noteq> TR_INIT"
  shows "keeps (evolves_from (in_state t cls s)) w (belle_sip_transaction_set_state t s' w)"
proof (cases "in_state t cls s w")
  case True
  then have "keeps evolves w (belle_sip_transaction_set_state t s' w)"
    by (intro evolves_set_state) (use assms in \<open>auto simp: in_state_def\<close>)
  then show ?thesis by (rule keeps_fromI)
qed (simp add: keeps_def evolves_from_def)

lemma from_set_state_bind:
  assumes "tr_reach cls s s'" and "s' \<noteq> TR_INIT"
    and "\<And>w1. keeps (evolves_from (in_state t cls s')) w1 (f w1)"
  shows "keeps (evolves_from (in_state t cls s)) w (belle_sip_transaction_set_state t s' w \<bind> f)"
  unfolding keeps_def evolves_from_def
proof (intro allI impI)
  fix w' assume m: "belle_sip_transaction_set_state t s' w \<bind> f = Some w'" and p: "wf_world w \<and> in_state t cls s w"
  then obtain w1 where w1: "belle_sip_transaction_set_state t s' w = Some w1" "f w1 = Some w'"
    by (auto simp: Option.bind_eq_Some_conv)
  have e: "evolves w w1"
    using keepsD[OF from_set_state[OF assms(1,2)] w1(1)] p by (simp add: evolves_from_def)
  moreover have "in_state t cls s' w1"
    using p w1(1) by (auto simp: belle_sip_transaction_set_state_def upd_tr_def in_state_def split: option.splits)
  ultimately have "evolves w1 w'"
    using keepsD[OF assms(3) w1(2)] p evolves_wf by (auto simp: evolves_from_def)
  then show "evolves w w'" using e ev.trans by blast
qed

end
