(* ===== verification/EvolveDialog.thy ===== *)
theory EvolveDialog
  imports Evolve
begin

text \<open>
  The operations of the dialog and the termination of a transaction, in the relations of
  \<open>Evolve\<close>. Most are \<open>calm\<close>; the update of a dialog by a transaction moves its state forward, and
  the termination of a transaction, which may delete the dialog and terminate the transactions in
  its queue, is an induction on the depth of that recursion.
\<close>

section \<open>What is inherited from the smaller relations\<close>

lemmas store_ops = store_add_headers store_add_header store_set_header store_upd_hdr store_upd_msg store_set_dialog
  store_set_uri store_add_opt store_util_copy store_fill store_set_to_tag store_copy_non_system store_copy_body
  store_check_content_length

lemmas store_fst_ops = store_request_create store_response_create store_make_routes store_create_request store_find_matching

lemmas quiet_ops = quiet_create_timeout quiet_get_channel

lemmas quiet_plain_ops = quiet_remove_source quiet_set_timeout quiet_do_later quiet_upd_chan
  quiet_add_listener quiet_remove_listener quiet_upd_src quiet_lp_remove

lemmas calm_ops [keeps_leaf] =
  store_ops[THEN quiet_store(1), THEN keeps_calm(1)] store_fst_ops[THEN quiet_store(2), THEN keeps_calm(2)]
  quiet_ops[THEN keeps_calm(2)] quiet_plain_ops[THEN keeps_calm(1)]

lemmas evolves_ops [keeps_leaf] =
  store_ops[THEN quiet_store(1), THEN keeps_calm(1), THEN keeps_evolves(1)]
  store_fst_ops[THEN quiet_store(2), THEN keeps_calm(2), THEN keeps_evolves(2)]
  quiet_ops[THEN keeps_calm(2), THEN keeps_evolves(2)] quiet_plain_ops[THEN keeps_calm(1), THEN keeps_evolves(1)]

section \<open>Operations of a dialog that keep its state\<close>

lemma calm_init_as_uas [keeps_leaf]: "keeps_fst calm w (belle_sip_dialog_init_as_uas d req resp w)"
  unfolding belle_sip_dialog_init_as_uas_def
  by (rule keeps_rules keeps_leaf keeps_read | (rule calm_upd_dlg, simp add: same_dlg_def; fail))+

lemma calm_set_last_out_invite [keeps_leaf]: "keeps calm w (set_last_out_invite d req w)"
  unfolding set_last_out_invite_def by (rule calm_upd_dlg) (simp add: same_dlg_def)

lemma calm_init_as_uac [keeps_leaf]: "keeps_fst calm w (belle_sip_dialog_init_as_uac d req resp w)"
  unfolding belle_sip_dialog_init_as_uac_def
  by (rule keeps_rules keeps_leaf keeps_read | (rule calm_upd_dlg, simp add: same_dlg_def; fail))+

lemma calm_init_200Ok [keeps_leaf]: "keeps calm w (belle_sip_dialog_init_200Ok_retrans d resp w)"
  unfolding belle_sip_dialog_init_200Ok_retrans_def
  by (rule keeps_rules keeps_leaf keeps_read | (rule calm_upd_dlg, simp add: same_dlg_def; fail))+

lemma calm_stop_opt [keeps_leaf]: "keeps calm w (stop_opt s w)"
  unfolding stop_opt_def by (rule keeps_rules keeps_leaf)+

lemma calm_stop_200Ok [keeps_leaf]: "keeps calm w (belle_sip_dialog_stop_200Ok_retrans d w)"
  unfolding belle_sip_dialog_stop_200Ok_retrans_def
  by (rule keeps_rules keeps_leaf keeps_read | (rule calm_upd_dlg, simp add: same_dlg_def; fail))+

lemma same_dlg_set_to_tag: "same_dlg r (set_to_tag r tag)"
  by (simp add: set_to_tag_def same_dlg_def)

lemma calm_establish [keeps_leaf]: "keeps_fst calm w (belle_sip_dialog_establish d req resp w)"
  unfolding belle_sip_dialog_establish_def
  by (rule keeps_rules keeps_leaf keeps_read
      | (rule calm_upd_dlg, simp add: same_dlg_def set_to_tag_def; fail))+

lemma calm_check_ordering [keeps_leaf]: "keeps_fst calm w (belle_sip_dialog_check_incoming_request_ordering d req w)"
  unfolding belle_sip_dialog_check_incoming_request_ordering_def
  by (rule keeps_rules keeps_leaf keeps_read | (rule calm_upd_dlg, simp add: same_dlg_def; fail))+

lemma calm_process_queue [keeps_leaf]: "keeps calm w (belle_sip_dialog_process_queue d w)"
  unfolding belle_sip_dialog_process_queue_def by (rule keeps_leaf)

lemma calm_queue_ct [keeps_leaf]: "keeps calm w (belle_sip_dialog_queue_client_transaction d t w)"
  unfolding belle_sip_dialog_queue_client_transaction_def by (rule calm_upd_dlg) (simp add: same_dlg_def)

lemma same_dlg_cseq: "same_dlg r (belle_sip_dialog_update_local_cseq r m)"
  by (simp add: belle_sip_dialog_update_local_cseq_def same_dlg_def Let_def)

lemma calm_update_request [keeps_leaf]: "keeps calm w (belle_sip_dialog_update_request d req w)"
  unfolding belle_sip_dialog_update_request_def
  by (rule keeps_rules keeps_leaf keeps_read | (rule calm_upd_dlg, rule same_dlg_cseq))+

lemma calm_dialog_create_request [keeps_leaf]: "keeps_fst calm w (belle_sip_dialog_create_request d m w)"
  unfolding belle_sip_dialog_create_request_def
  by (rule keeps_rules keeps_leaf keeps_read | (rule calm_upd_dlg, rule same_dlg_cseq))+

lemma calm_create_queued_request [keeps_leaf]: "keeps_fst calm w (belle_sip_dialog_create_queued_request d m w)"
  unfolding belle_sip_dialog_create_queued_request_def by (rule keeps_rules keeps_leaf keeps_read)+

lemma calm_create_ack [keeps_leaf]: "keeps_fst calm w (belle_sip_dialog_create_ack d n w)"
  unfolding belle_sip_dialog_create_ack_def by (rule keeps_rules keeps_leaf keeps_read)+

lemma calm_create_request_from [keeps_leaf]: "keeps_fst calm w (belle_sip_dialog_create_request_from_generic d req q w)"
  unfolding belle_sip_dialog_create_request_from_generic_def by (rule keeps_rules keeps_leaf keeps_read)+

lemma calm_handle_ack [keeps_leaf]: "keeps_fst calm w (belle_sip_dialog_handle_ack d ack w)"
  unfolding belle_sip_dialog_handle_ack_def
  by (rule keeps_rules keeps_leaf keeps_read | (rule calm_upd_dlg, simp add: same_dlg_def; fail))+

lemma calm_remove_dialog [keeps_leaf]: "keeps calm w (belle_sip_provider_remove_dialog d w)"
proof -
  have "calm w (w\<lparr>prov_dialogs := l\<rparr>)" for l by (rule quiet_calm, rule quiet_same) simp_all
  then show ?thesis
    unfolding belle_sip_provider_remove_dialog_def by (rule ca.keeps_step) (rule keeps_leaf)
qed

lemmas dialog_calm = calm_set_last_out_invite calm_init_200Ok calm_stop_200Ok calm_process_queue calm_queue_ct
  calm_update_request calm_remove_dialog

lemmas dialog_calm_fst = calm_establish calm_dialog_create_request calm_create_queued_request
  calm_create_ack calm_create_request_from calm_handle_ack

lemmas evolves_dialog [keeps_leaf] = dialog_calm[THEN keeps_evolves(1)] dialog_calm_fst[THEN keeps_evolves(2)]

lemma evolves_upd_dlg_same: "(\<And>r. same_dlg r (f r)) \<Longrightarrow> keeps evolves w (upd_dlg w d f)"
  by (rule keeps_evolves(1), rule calm_upd_dlg)

section \<open>The update\<close>

lemma live_confirm: "keeps (evolves_in (dlg_live d)) w (upd_dlg w d (\<lambda>r. dialog_set_state (set_to_tag r tag) DIALOG_CONFIRMED))"
proof -
  have "keeps evolves w (upd_dlg w d (\<lambda>r. dialog_set_state (set_to_tag r tag) DIALOG_CONFIRMED))" if "dlg_live d w"
  proof (rule evolves_upd_dlg)
    fix r assume "dlgs w d = Some r"
    then have "dlg_state r \<noteq> DIALOG_TERMINATED" using that by (simp add: dlg_live_def)
    then show "dlg_le r (dialog_set_state (set_to_tag r tag) DIALOG_CONFIRMED)"
      by (cases "dlg_state r") (simp_all add: dlg_le_def dialog_set_state_def set_to_tag_def)
  qed
  then show ?thesis
    by (auto simp: keeps_def evolves_in_def dlg_live_def upd_dlg_def dialog_set_state_def split: option.splits)
qed

lemma live_establish_full: "keeps_fst (evolves_in (dlg_live d)) w (belle_sip_dialog_establish_full d req resp w)"
  unfolding belle_sip_dialog_establish_full_def
  by (rule keeps_rules live_confirm
      | (rule keeps_in_calm(3), rule calm_upd_dlg, simp add: same_dlg_def; fail)
      | (rule keeps_in_calm(3), rule calm_init_200Ok)
      | rule keeps_read)+

lemma live_update_early: "keeps_fst (evolves_in (dlg_live d)) w (update_early d req resp code me w)"
  unfolding update_early_def
  by (rule keeps_rules live_establish_full keeps_read)+

lemma evolves_update_early: "dlg_live d w \<Longrightarrow> keeps_fst evolves w (update_early d req resp code me w)"
  by (rule keeps_fst_wf) (use live_update_early in \<open>auto simp: keeps_fst_def evolves_in_def\<close>)

lemma evolves_update_null:
  assumes r: "dlgs w d = Some r" and n: "dlg_state r = DIALOG_NULL"
  shows "keeps_fst evolves w (update_null d req resp code me w)"
proof (rule keeps_fst_wf)
  assume wf: "wf_world w"
  have live: "dlg_live d w" using r n by (simp add: dlg_live_def)
  have step: "keeps_fst evolves w1 (if code < 200
         then do { w \<leftarrow> upd_dlg w1 d (\<lambda>r. dialog_set_state r DIALOG_EARLY); Some (w, False) }
         else update_early d req resp code me w1)"
    if e: "belle_sip_dialog_establish d req resp' w = Some (w1, b)" for resp' w1 b
  proof -
    have c: "calm w w1" using keeps_fstD[OF calm_establish e] .
    then obtain r' where r': "dlgs w1 d = Some r'" "dlg_state r' = DIALOG_NULL" using calm_state wf r n by metis
    then have "dlg_live d w1" by (simp add: dlg_live_def)
    moreover have "keeps evolves w1 (upd_dlg w1 d (\<lambda>r. dialog_set_state r DIALOG_EARLY))"
      by (rule evolves_upd_dlg) (use r' in \<open>simp add: dlg_le_def dialog_set_state_def\<close>)
    ultimately show ?thesis by (intro keeps_rules evolves_update_early)
  qed
  show "keeps_fst evolves w (update_null d req resp code me w)"
    unfolding update_null_def
    by (rule keeps_fst_if, rule keeps_read, rule ev.keeps_fst_bind_pair, rule keeps_leaf, erule step,
        rule evolves_update_early, rule live)
qed

lemma evolves_handle_200Ok:
  assumes "\<And>m w. keeps sends w (send m w)"
  shows "keeps_fst evolves w (belle_sip_dialog_handle_200Ok send d m w)"
  unfolding belle_sip_dialog_handle_200Ok_def
  by (rule keeps_rules keeps_evolves(3)[OF assms] keeps_read)+

lemma evolves_update_confirmed:
  assumes "\<And>m w. keeps sends w (send m w)"
  shows "keeps_fst evolves w (update_confirmed send d req resp code me t uas w)"
  unfolding update_confirmed_def
  by (rule keeps_rules evolves_handle_200Ok[OF assms] keeps_leaf
      | (rule evolves_upd_dlg_same, simp add: same_dlg_def; fail) | rule keeps_read)+

section \<open>Deletion\<close>

lemma evolves_terminate_all:
  assumes "\<And>t w. keeps evolves w (term t w)"
  shows "keeps evolves w (terminate_all term ts w)"
  by (induction ts arbitrary: w) (auto intro!: ev.keeps_Some ev.keeps_bind assms)

lemma evolves_dialog_delete:
  assumes "\<And>t w. keeps evolves w (term t w)"
  shows "keeps evolves w (belle_sip_dialog_delete term d w)"
  unfolding belle_sip_dialog_delete_def
  by (rule keeps_rules keeps_leaf evolves_terminate_all[OF assms]
      | (rule evolves_upd_dlg_same, simp add: same_dlg_def; fail)
      | (rule evolves_upd_dlg, simp add: dlg_le_def dialog_set_state_def; case_tac "dlg_state r"; simp; fail)
      | rule keeps_read)+

lemma evolves_dialog_update:
  assumes "\<And>t w. keeps evolves w (term t w)" and "\<And>m w. keeps sends w (send m w)"
  shows "keeps_fst evolves w (belle_sip_dialog_update term send d t uas w)"
proof -
  have 1: "keeps_fst evolves w (case dlg_state r of
          DIALOG_NULL \<Rightarrow> do { (w, del) \<leftarrow> update_null d req resp code me w; Some (w, del, False) }
        | DIALOG_EARLY \<Rightarrow> do { (w, del) \<leftarrow> update_early d req resp code me w; Some (w, del, False) }
        | DIALOG_CONFIRMED \<Rightarrow> update_confirmed send d req resp code me t uas w
        | DIALOG_TERMINATED \<Rightarrow> Some (w, False, False))" if r: "dlgs w d = Some r" for w req resp code me r
  proof (cases "dlg_state r")
    case DIALOG_EARLY
    then have "dlg_live d w" using r by (simp add: dlg_live_def)
    then show ?thesis using DIALOG_EARLY
      by (auto intro!: ev.keeps_fst_bind_pair evolves_update_early ev.keeps_fst_Some)
  qed (auto intro!: ev.keeps_fst_bind_pair evolves_update_null r ev.keeps_fst_Some evolves_update_confirmed assms)
  show ?thesis
    unfolding belle_sip_dialog_update_def
    by (rule 1 keeps_rules keeps_leaf evolves_dialog_delete[OF assms(1)]
        | (rule evolves_upd_dlg_same, simp add: same_dlg_def; fail)
        | rule keeps_read | assumption)+
qed

text \<open>A transaction that has no response and did not end leaves the state of its dialog alone.\<close>

lemma calm_update_early_none: "keeps_fst calm w (update_early d req resp 0 me w)"
  by (simp add: update_early_def ca.keeps_fst_Some)

lemma calm_update_null_none: "keeps_fst calm w (update_null d req resp 0 me w)"
  by (simp add: update_null_def calm_update_early_none)

lemma calm_switch_none:
  assumes x: "trs w t = Some x" "tr_state x \<noteq> TR_TERMINATED"
  shows "keeps_fst calm w (do {
     (w, delete, again) \<leftarrow> (case dlg_state r of
          DIALOG_NULL \<Rightarrow> do { (w, del) \<leftarrow> update_null d req resp 0 me w; Some (w, del, False) }
        | DIALOG_EARLY \<Rightarrow> do { (w, del) \<leftarrow> update_early d req resp 0 me w; Some (w, del, False) }
        | DIALOG_CONFIRMED \<Rightarrow> update_confirmed send d req resp 0 me t uas w
        | DIALOG_TERMINATED \<Rightarrow> Some (w, False, False));
     (if again then Some (w, True)
      else do {
        w \<leftarrow> (if delete then belle_sip_dialog_delete term d w else belle_sip_dialog_process_queue d w);
        Some (w, False) }) })"
  using x calm_process_queue[of w d]
  by (cases "dlg_state r")
    (auto simp: update_null_def update_early_def update_confirmed_def keeps_fst_def keeps_def Option.bind_eq_Some_conv
      split: if_splits)

lemma upd_dlg_trs: "upd_dlg w d f = Some w' \<Longrightarrow> trs w' = trs w"
  by (auto simp: upd_dlg_def split: option.splits)

lemma calm_dialog_update_none:
  assumes x: "trs w t = Some x" "tr_last_response x = None" "tr_state x \<noteq> TR_TERMINATED"
  shows "keeps_fst calm w (belle_sip_dialog_update term send d t uas w)"
  unfolding belle_sip_dialog_update_def x(1) option.simps Let_def x(2)
  by (simp only: Option.bind.bind_lunit x(2) response_code_def option.simps)
    ((rule calm_switch_none; (insert x; auto simp: Option.bind_eq_Some_conv dest!: upd_dlg_trs split: if_splits; fail))
     | rule keeps_rules | (rule calm_upd_dlg, simp add: same_dlg_def; fail) | rule keeps_fst_bind_read keeps_bind_read)+

section \<open>Termination of a transaction\<close>

text \<open>What the development assumes of the application's listeners.\<close>

definition respectful :: "env \<Rightarrow> bool" where
  "respectful E \<longleftrightarrow> (\<forall>l ev w. keeps evolves w (app E l ev w))"

lemma evolves_invoke_listeners: "respectful E \<Longrightarrow> keeps evolves w (invoke_listeners E ls ev w)"
  by (induction ls arbitrary: w) (auto intro!: ev.keeps_Some ev.keeps_bind simp: respectful_def)

lemma evolves_invoke_for_transaction:
  "respectful E \<Longrightarrow> keeps evolves w (invoke_listeners_for_transaction E t ev w)"
  unfolding invoke_listeners_for_transaction_def by (rule keeps_bind_read) (rule evolves_invoke_listeners)

lemma evolves_lists:
  "evolves w (w\<lparr>prov_client_transactions := c\<rparr>)" "evolves w (w\<lparr>prov_server_transactions := s\<rparr>)"
  "evolves w (w\<lparr>prov_dialogs := d\<rparr>)" "evolves w (w\<lparr>prov_auth_contexts := a\<rparr>)"
  by (rule calm_evolves, rule quiet_calm, rule quiet_same; simp)+

lemma evolves_stop_timer [keeps_leaf]: "keeps evolves w (belle_sip_transaction_stop_timer t n w)"
  unfolding belle_sip_transaction_stop_timer_def
  by (rule keeps_rules keeps_leaf | (rule evolves_upd_tr_field, simp; fail) | rule keeps_read)+

lemma evolves_stop_timers [keeps_leaf]: "keeps evolves w (stop_timers t ns w)"
  by (induction ns arbitrary: w) (auto intro!: ev.keeps_Some ev.keeps_bind evolves_stop_timer)

lemma evolves_on_terminate [keeps_leaf]: "keeps evolves w (on_terminate t w)"
  unfolding on_terminate_def
  by (rule keeps_rules keeps_leaf | (rule evolves_upd_tr_field, simp; fail) | rule keeps_read)+

lemma evolves_set_terminated:
  assumes "respectful E"
  shows "keeps evolves w (belle_sip_provider_set_transaction_terminated E t w)"
proof -
  have last: "keeps evolves w (Some (if b then belle_sip_provider_remove_server_transaction t w
           else belle_sip_provider_remove_client_transaction t w))" for w b
    by (auto simp: keeps_def belle_sip_provider_remove_server_transaction_def
        belle_sip_provider_remove_client_transaction_def evolves_lists)
  show ?thesis
    unfolding belle_sip_provider_set_transaction_terminated_def
    by (rule keeps_rules keeps_leaf evolves_invoke_for_transaction[OF assms] last | rule keeps_read)+
qed

lemma evolves_set_terminated_state: "keeps evolves w (belle_sip_transaction_set_state t TR_TERMINATED w)"
  by (rule evolves_set_state) (simp_all add: tr_reach_terminated)

text \<open>The channel interface is any that fulfils the contract of the channels.\<close>

lemma evolves_terminate_n:
  assumes E: "respectful E" and I: "channel_client I"
  shows "keeps evolves w (terminate_n E I n t w)"
proof (induction n arbitrary: t w)
  case 0
  show ?case by (auto simp: keeps_def Option.bind_eq_Some_conv ev.refl split: if_splits)
next
  case (Suc n)
  show ?case
    unfolding terminate_n.simps
    by (rule keeps_rules keeps_leaf evolves_set_terminated[OF E] evolves_set_terminated_state
        evolves_dialog_update[OF Suc channel_client.provider_send_request_sends[OF I]] | rule keeps_read)+
qed

lemma evolves_terminate:
  "respectful E \<Longrightarrow> channel_client I \<Longrightarrow> keeps evolves w (belle_sip_transaction_terminate E I t w)"
  unfolding belle_sip_transaction_terminate_def by (rule evolves_terminate_n)

end
