(* ===== verification/EvolveCore.thy ===== *)
theory EvolveCore
  imports EvolveDialog
begin

text \<open>
  The operations of the transactions and of the provider, and at the end everything the main loop
  runs and every message a channel delivers: the transactions move along their machines and the
  dialogs forward, for any listeners that respect it. The channel interface is fixed as one that
  fulfils the contract of the channels.
\<close>

lemma from_fst_step: "evolves_in P w w1 \<Longrightarrow> keeps_fst (evolves_from P) w1 m \<Longrightarrow> keeps_fst (evolves_from P) w m"
  by (auto simp: keeps_fst_def intro: evolves_in_from)

section \<open>Creation\<close>

lemma evolves_new_transaction: "evolves w (fst (new_transaction cls req b tag w))"
  by (auto simp: evolves_def new_transaction_def Let_def wf_world_def ml_inv_def less_Suc_eq)

lemma evolves_new_transaction_Some: "keeps_fst evolves w (Some (new_transaction cls req b tag w))"
  using evolves_new_transaction[of w cls req b tag] by (auto simp: keeps_fst_def)

lemma evolves_client_init [keeps_leaf]: "keeps_fst evolves w (belle_sip_client_transaction_init cls req w)"
  unfolding belle_sip_client_transaction_init_def
  by (rule keeps_rules keeps_leaf evolves_new_transaction_Some | rule keeps_read)+

lemma evolves_server_init [keeps_leaf]: "keeps_fst evolves w (belle_sip_server_transaction_init cls req w)"
  unfolding belle_sip_server_transaction_init_def
  by (rule keeps_rules keeps_leaf evolves_new_transaction_Some | rule keeps_read)+

lemma evolves_dialog_new [keeps_leaf]: "keeps_fst evolves w (belle_sip_dialog_new t w)"
proof -
  have "evolves w (w\<lparr>dlgs := (dlgs w)(obj_brk w \<mapsto> r), obj_brk := Suc (obj_brk w)\<rparr>)" for w r
    by (auto simp: evolves_def wf_world_def ml_inv_def less_Suc_eq)
  then have 1: "keeps_fst evolves w (Some (w\<lparr>dlgs := (dlgs w)(obj_brk w \<mapsto> r), obj_brk := Suc (obj_brk w)\<rparr>, a))" for w r and a :: "nat option"
    by (simp add: keeps_fst_def)
  then have 2: "b = obj_brk w \<Longrightarrow> keeps_fst evolves w (Some (w\<lparr>dlgs := (dlgs w)(b \<mapsto> r), obj_brk := Suc b\<rparr>, a))" for w b r and a :: "nat option"
    by simp
  show ?thesis
    unfolding belle_sip_dialog_new_def
    by (rule keeps_rules 2 keeps_read | assumption)+
qed

lemma evolves_create_dialog [keeps_leaf]: "keeps_fst evolves w (belle_sip_provider_create_dialog_internal t b w)"
proof -
  have 1: "keeps_fst evolves w (Some (belle_sip_provider_add_dialog d w, a))" for w d and a :: "nat option"
    by (simp add: keeps_fst_def belle_sip_provider_add_dialog_def evolves_lists)
  show ?thesis
    unfolding belle_sip_provider_create_dialog_internal_def
    by (rule keeps_rules keeps_leaf 1 | (rule evolves_upd_tr_field, simp; fail) | rule keeps_read)+
qed

lemma evolves_set_dialog [keeps_leaf]: "keeps evolves w (belle_sip_transaction_set_dialog t d w)"
  unfolding belle_sip_transaction_set_dialog_def by (rule evolves_upd_tr_field) simp

lemma evolves_create_client [keeps_leaf]: "keeps_fst evolves w (belle_sip_provider_create_client_transaction E req w)"
  unfolding belle_sip_provider_create_client_transaction_def belle_sip_ict_new_def belle_sip_nict_new_def
  by (rule keeps_rules keeps_leaf | (rule evolves_upd_tr_field, simp; fail) | rule keeps_read)+

section \<open>The client side\<close>

text \<open>A client transaction whose request did not leave; a server transaction has none to send.\<close>

definition unsent :: "nat \<Rightarrow> world \<Rightarrow> bool" where
  "unsent t w \<longleftrightarrow> (\<exists>x. trs w t = Some x \<and> (is_client (tr_class x) \<longrightarrow> tr_state x = TR_INIT))"

lemma calm_unsent: "calm w w' \<Longrightarrow> evolves_in (unsent t) w w'"
  using calm_evolves[of w w'] by (simp add: evolves_in_def unsent_def calm_def)

lemma keeps_unsent_calm:
  "keeps calm w m \<Longrightarrow> keeps (evolves_in (unsent t)) w m"
  "keeps_fst calm w p \<Longrightarrow> keeps_fst (evolves_in (unsent t)) w p"
  by (auto simp: keeps_def keeps_fst_def calm_unsent)

lemma unsent_upd_tr_field:
  assumes "\<And>x. tr_class (f x) = tr_class x \<and> tr_request (f x) = tr_request x \<and> tr_branch_id (f x) = tr_branch_id x
     \<and> tr_state (f x) = tr_state x \<and> tr_last_response (f x) = tr_last_response x"
  shows "keeps (evolves_in (unsent t)) w (upd_tr w u f)"
proof -
  have "keeps evolves w (upd_tr w u f)" by (rule evolves_upd_tr_field) (rule assms)
  moreover have "unsent t w'" if "upd_tr w u f = Some w'" "unsent t w" for w'
    using that assms by (auto simp: upd_tr_def unsent_def split: option.splits if_splits)
  ultimately show ?thesis by (auto simp: keeps_def evolves_in_def)
qed

lemma unsent_fields:
  "keeps (evolves_in (unsent t)) w (upd_tr w u (\<lambda>x. x\<lparr>tr_channel := c\<rparr>))"
  "keeps (evolves_in (unsent t)) w (upd_tr w u (\<lambda>x. x\<lparr>tr_preset_route := p\<rparr>))"
  "keeps (evolves_in (unsent t)) w (upd_tr w u (\<lambda>x. x\<lparr>tr_next_hop := h\<rparr>))"
  by (rule unsent_upd_tr_field, simp)+

lemma unsent_server:
  assumes "evolves w w'" and "wf_world w" and "trs w t = Some x" and "\<not> is_client (tr_class x)"
  shows "unsent t w'"
  using assms unfolding evolves_def unsent_def tr_le_def by metis

lemma unsent_dialog_update:
  assumes E: "respectful E" and I: "channel_client I"
  shows "keeps (evolves_in (unsent t)) w (map_option fst (belle_sip_dialog_update (belle_sip_transaction_terminate E I)
      (belle_sip_provider_send_request E I) d t uas w))"
  (is "keeps _ w ?m")
  unfolding keeps_def evolves_in_def
proof (intro allI impI)
  fix w' assume m: "?m = Some w'" and p: "wf_world w \<and> unsent t w"
  have e: "evolves w w'"
    using keepsD[OF keeps_map_fst[OF evolves_dialog_update] m] evolves_terminate[OF E I]
      channel_client.provider_send_request_sends[OF I] by blast
  obtain x where x: "trs w t = Some x" "is_client (tr_class x) \<longrightarrow> tr_state x = TR_INIT" using p by (auto simp: unsent_def)
  show "evolves w w' \<and> unsent t w'"
  proof (cases "is_client (tr_class x)")
    case True
    then have "tr_last_response x = None" "tr_state x = TR_INIT" using p x by (auto simp: wf_world_def)
    then have "calm w w'" using keepsD[OF keeps_map_fst[OF calm_dialog_update_none[OF x(1)]] m] by simp
    then show ?thesis using calm_unsent p unfolding evolves_in_def by blast
  next
    case False
    then show ?thesis using e unsent_server p x(1) by blast
  qed
qed

lemma from_send_request_of_class:
  assumes I: "channel_client I"
  shows "keeps (evolves_from (unsent t)) w (send_request_of_class E I t w)"
proof (cases "unsent t w")
  case True
  then obtain x where x: "trs w t = Some x" "is_client (tr_class x) \<longrightarrow> tr_state x = TR_INIT" by (auto simp: unsent_def)
  show ?thesis
  proof (cases "is_client (tr_class x)")
    case True
    then show ?thesis
      using x channel_client.send_request_sends[OF I x(1)] keeps_evolves(3) keeps_fromI(1) by blast
  next
    case False
    then show ?thesis using x(1) by (cases "tr_class x") (simp_all add: send_request_of_class_def keeps_None)
  qed
qed (simp add: keeps_def evolves_from_def)

lemma from_attach_channel:
  assumes E: "respectful E" and I: "channel_client I"
  shows "keeps_fst (evolves_from (unsent t)) w (attach_channel E I t w)"
proof -
  have 1: "evolves_in (unsent t) w (belle_sip_provider_add_client_transaction t w)" for w
    by (rule calm_unsent, rule quiet_calm, rule quiet_same) (simp_all add: belle_sip_provider_add_client_transaction_def)
  have 2: "keeps (evolves_from (unsent t)) w (if ch_state r = CHANNEL_INIT then belle_sip_channel_prepare E I c w
                else if ch_state r = CHANNEL_READY then send_request_of_class E I t w
                else Some w)" for w r c
    by (rule keeps_rules from_Some from_send_request_of_class[OF I]
        | (rule keeps_fromI(1), rule keeps_evolves(3), rule channel_client.prepare_sends[OF I]))+
  have 3: "keeps_fst (evolves_from (unsent t)) w (do { w \<leftarrow> belle_sip_transaction_terminate E I t w; Some (w, r :: int) })" for w r
    by (rule keeps_fromI(2)) (rule keeps_rules evolves_terminate[OF E I])+
  show ?thesis
    unfolding attach_channel_def Let_def
    by (rule keeps_fst_bind_read, rule keeps_fst_bind_read, rule from_fst_step[OF 1], rule from_fst_bind_pair, rule keeps_unsent_calm(2), rule keeps_leaf,
       rule keeps_fst_case_option, rule 3, rule from_fst_bind, rule keeps_unsent_calm(1), rule keeps_leaf,
       rule from_fst_bind, rule unsent_fields(1), rule keeps_fst_bind_read, rule from_fst_bind_last,
       rule 2, rule ev.keeps_fst_Some)
qed

lemma calm_prepare_dialog_queue: "keeps_fst calm w (prepare_dialog_queue t w)"
  unfolding prepare_dialog_queue_def
  by (rule keeps_rules keeps_leaf | rule keeps_read)+

lemma evolves_send_request_to:
  assumes E: "respectful E" and I: "channel_client I"
  shows "keeps_fst evolves w (belle_sip_client_transaction_send_request_to E I t p w)"
proof (cases "unsent t w")
  case True
  have "keeps_fst (evolves_from (unsent t)) w (belle_sip_client_transaction_send_request_to E I t p w)"
    unfolding belle_sip_client_transaction_send_request_to_def
    by (rule from_rules keeps_fst_if keeps_if keeps_case_option unsent_fields ei.keeps_Some from_fst_bind
        unsent_dialog_update[OF E I] from_attach_channel[OF E I]
        | (rule from_fst_bind_pair, rule keeps_unsent_calm(2), rule calm_prepare_dialog_queue)
        | rule keeps_fst_bind_read keeps_bind_read)+
  then show ?thesis using True by (rule keeps_fst_fromD)
next
  case False
  then have "tr_state x \<noteq> TR_INIT" if "trs w t = Some x" for x using that by (simp add: unsent_def)
  then show ?thesis
    unfolding belle_sip_client_transaction_send_request_to_def
    by (auto intro!: keeps_fst_bind_read ev.keeps_fst_Some simp: if_not_P)
qed

lemma evolves_send_request:
  "respectful E \<Longrightarrow> channel_client I \<Longrightarrow> keeps_fst evolves w (belle_sip_client_transaction_send_request E I t w)"
  unfolding belle_sip_client_transaction_send_request_def by (rule evolves_send_request_to)

lemma evolves_internal_bye:
  assumes E: "respectful E" and I: "channel_client I"
  shows "keeps evolves w (send_internal_bye E I d w)"
  unfolding send_internal_bye_def
  by (rule keeps_rules keeps_leaf evolves_send_request[OF E I] | (rule evolves_upd_tr_field, simp; fail) | rule keeps_read)+

lemma evolves_check_ack_sent:
  assumes E: "respectful E" and I: "channel_client I"
  shows "keeps evolves w (belle_sip_dialog_check_ack_sent E I d w)"
  unfolding belle_sip_dialog_check_ack_sent_def
  by (rule keeps_rules evolves_internal_bye[OF E I] keeps_read)+

lemma evolves_response_dialog [keeps_leaf]: "keeps_fst evolves w (response_dialog t resp m code w)"
  unfolding response_dialog_def
  by (rule keeps_rules keeps_leaf keeps_read)+

text \<open>The response is recorded in a transaction whose request was sent.\<close>

lemma evolves_notify_response:
  assumes E: "respectful E" and I: "channel_client I"
    and x: "\<And>x. trs w t = Some x \<Longrightarrow> tr_state x \<noteq> TR_INIT"
  shows "keeps evolves w (belle_sip_client_transaction_notify_response E I t resp w)"
proof -
  have 1: "keeps evolves w (upd_tr w t (\<lambda>x. x\<lparr>tr_last_response := Some resp\<rparr>))"
    by (rule evolves_upd_tr) (use x in \<open>auto simp: tr_le_def\<close>)
  show ?thesis
    unfolding belle_sip_client_transaction_notify_response_def
    by (rule keeps_rules keeps_leaf evolves_check_ack_sent[OF E I] evolves_invoke_for_transaction[OF E] 1
        evolves_dialog_update[OF evolves_terminate[OF E I] channel_client.provider_send_request_sends[OF I]]
        | rule keeps_read)+
qed

lemma from_notify_response:
  assumes E: "respectful E" and I: "channel_client I" and s: "s \<noteq> TR_INIT"
  shows "keeps (evolves_from (in_state t cls s)) w (belle_sip_client_transaction_notify_response E I t resp w)"
proof (cases "in_state t cls s w")
  case True
  then show ?thesis
    using s by (intro keeps_fromI(1) evolves_notify_response[OF E I]) (auto simp: in_state_def)
qed (simp add: keeps_def evolves_from_def)

lemma evolves_start_timer [keeps_leaf]: "keeps evolves w (belle_sip_transaction_start_timer t n v w)"
  by (rule keeps_evolves(3), rule sends_start_timer)

lemma evolves_queue_on_channel: "channel_client I \<Longrightarrow> keeps evolves w (queue_on_channel E I t m w)"
  by (rule keeps_evolves(3), rule channel_client.queue_on_channel_sends)

lemma in_make_ack: "keeps_fst (evolves_in (in_state t cls s)) w (make_ack u resp w)"
  unfolding make_ack_def
  by (rule ei.keeps_fst_Let_pair ei.keeps_fst_bind keeps_fst_case_option ei.keeps_fst_Some
      | (rule keeps_in_calm(1), rule keeps_leaf) | (rule calm_in_state, rule keeps_leaf)
      | (rule in_upd_tr_field, simp; fail) | rule keeps_read)+

section \<open>The INVITE client machine\<close>

lemma reach_steps:
  "tr_reach ICT TR_CALLING TR_PROCEEDING" "tr_reach ICT TR_PROCEEDING TR_COMPLETED" "tr_reach ICT TR_PROCEEDING TR_ACCEPTED"
  "tr_reach NICT TR_TRYING TR_PROCEEDING" "tr_reach NICT TR_TRYING TR_COMPLETED" "tr_reach NICT TR_PROCEEDING TR_COMPLETED"
  "tr_reach IST TR_PROCEEDING TR_COMPLETED" "tr_reach IST TR_PROCEEDING TR_ACCEPTED" "tr_reach IST TR_COMPLETED TR_CONFIRMED"
  "tr_reach NIST TR_TRYING TR_PROCEEDING" "tr_reach NIST TR_TRYING TR_COMPLETED" "tr_reach NIST TR_PROCEEDING TR_COMPLETED"
  "tr_reach IST TR_INIT TR_PROCEEDING" "tr_reach NIST TR_INIT TR_TRYING"
  by (rule tr_reach_step, simp add: tr_step.intros)+

lemma from_ict_respond:
  assumes E: "respectful E" and I: "channel_client I"
  shows "keeps (evolves_from (in_state t ICT TR_PROCEEDING)) w (if 300 \<le> code then do {
                w \<leftarrow> belle_sip_transaction_set_state t TR_COMPLETED w;
                (w, ack) \<leftarrow> make_ack t resp w;
                w \<leftarrow> queue_on_channel E I t ack w;
                w \<leftarrow> belle_sip_client_transaction_notify_response E I t resp w;
                belle_sip_transaction_start_timer t TimerD (cfg_T1 w * 64) w }
              else if 200 \<le> code then do {
                w \<leftarrow> belle_sip_transaction_start_timer t TimerM (cfg_T1 w * 64) w;
                w \<leftarrow> belle_sip_transaction_set_state t TR_ACCEPTED w;
                belle_sip_client_transaction_notify_response E I t resp w }
              else if 100 \<le> (code :: int) then belle_sip_client_transaction_notify_response E I t resp w
              else Some w)"
  by (rule keeps_if from_Some
      | (rule from_set_state_bind, rule reach_steps, simp)
      | (rule from_bind_pair, rule in_make_ack)
      | (rule from_bind, rule keeps_in_sends(1), simp, rule channel_client.queue_on_channel_sends[OF I] sends_start_timer)
      | (rule from_bind_last, rule from_notify_response[OF E I], simp)
      | (rule from_notify_response[OF E I], simp)
      | rule keeps_leaf)+

lemma evolves_from_state:
  "trs w t = Some x \<Longrightarrow> keeps (evolves_from (in_state t (tr_class x) (tr_state x))) w m \<Longrightarrow> keeps evolves w m"
  by (rule keeps_fromD[of "in_state t (tr_class x) (tr_state x)"]) (auto simp: in_state_def)

lemma evolves_fst_from_state:
  "trs w t = Some x \<Longrightarrow> keeps_fst (evolves_from (in_state t (tr_class x) (tr_state x))) w m \<Longrightarrow> keeps_fst evolves w m"
  by (rule keeps_fst_fromD[of "in_state t (tr_class x) (tr_state x)"]) (auto simp: in_state_def)

lemma evolves_ict_on_response:
  assumes E: "respectful E" and I: "channel_client I"
    and c: "\<And>x. trs w t = Some x \<Longrightarrow> tr_class x = ICT"
  shows "keeps evolves w (ict_on_response E I t resp w)"
  unfolding ict_on_response_def
proof (rule keeps_bind_read, rule keeps_bind_read)
  fix x p assume x: "trs w t = Some x"
  note n = from_notify_response[OF E I] evolves_queue_on_channel[OF I] from_ict_respond[OF E I]
  have 1: "keeps (evolves_from (in_state t ICT TR_CALLING)) w (belle_sip_transaction_set_state t TR_PROCEEDING w \<bind> f)"
    if "\<And>w. keeps (evolves_from (in_state t ICT TR_PROCEEDING)) w (f w)" for f
    by (rule from_set_state_bind, rule reach_steps, simp, rule that)
  show "keeps evolves w (let code = rs_status_code p in (case tr_state x of
        TR_ACCEPTED \<Rightarrow>
          (if 200 \<le> code \<and> code < 300 then belle_sip_client_transaction_notify_response E I t resp w else Some w)
      | TR_COMPLETED \<Rightarrow>
          (case tr_ack x of None \<Rightarrow> Some w
           | Some ack \<Rightarrow> (if 300 \<le> code then queue_on_channel E I t ack w else Some w))
      | s \<Rightarrow>
          (if s = TR_CALLING \<or> s = TR_PROCEEDING then do {
             w \<leftarrow> (if s = TR_CALLING then belle_sip_transaction_set_state t TR_PROCEEDING w else Some w);
             (if 300 \<le> code then do {
                w \<leftarrow> belle_sip_transaction_set_state t TR_COMPLETED w;
                (w, ack) \<leftarrow> make_ack t resp w;
                w \<leftarrow> queue_on_channel E I t ack w;
                w \<leftarrow> belle_sip_client_transaction_notify_response E I t resp w;
                belle_sip_transaction_start_timer t TimerD (cfg_T1 w * 64) w }
              else if 200 \<le> code then do {
                w \<leftarrow> belle_sip_transaction_start_timer t TimerM (cfg_T1 w * 64) w;
                w \<leftarrow> belle_sip_transaction_set_state t TR_ACCEPTED w;
                belle_sip_client_transaction_notify_response E I t resp w }
              else if 100 \<le> code then belle_sip_client_transaction_notify_response E I t resp w
              else Some w) }
           else Some w)))"
    using n c[OF x]
    by (intro evolves_from_state[OF x])
      (cases "tr_state x"; simp add: Let_def keeps_fromI from_Some 1 split: option.split)
qed

text \<open>The other machines, each from the state its transaction is in.\<close>

lemma from_nict_set_completed:
  assumes E: "respectful E" and I: "channel_client I" and s: "s = TR_TRYING \<or> s = TR_PROCEEDING"
  shows "keeps (evolves_from (in_state t NICT s)) w (nict_set_completed E I t resp w)"
proof -
  have r: "tr_reach NICT s TR_COMPLETED" using s reach_steps by blast
  show ?thesis
    unfolding nict_set_completed_def
    by (rule from_set_state_bind[OF r], simp)
      ((rule from_bind_last, rule from_notify_response[OF E I], simp)
        | rule keeps_if keeps_None keeps_bind_read keeps_leaf evolves_terminate[OF E I])+
qed

lemma evolves_nict_on_response:
  assumes E: "respectful E" and I: "channel_client I"
    and c: "\<And>x. trs w t = Some x \<Longrightarrow> tr_class x = NICT"
  shows "keeps evolves w (nict_on_response E I t resp w)"
  unfolding nict_on_response_def
proof (rule keeps_bind_read, rule keeps_bind_read)
  fix x p assume x: "trs w t = Some x"
  have 1: "keeps (evolves_from (in_state t NICT TR_TRYING)) w (belle_sip_transaction_set_state t TR_PROCEEDING w \<bind>
      belle_sip_client_transaction_notify_response E I t resp)"
    by (rule from_set_state_bind, rule reach_steps, simp, rule from_notify_response[OF E I], simp)
  show "keeps evolves w (let code = rs_status_code p in (case tr_state x of
        TR_TRYING \<Rightarrow>
          (if code < 200 then do {
             w \<leftarrow> belle_sip_transaction_set_state t TR_PROCEEDING w;
             belle_sip_client_transaction_notify_response E I t resp w }
           else nict_set_completed E I t resp w)
      | TR_PROCEEDING \<Rightarrow> (if 200 \<le> code then nict_set_completed E I t resp w else Some w)
      | _ \<Rightarrow> Some w))"
    using c[OF x] from_nict_set_completed[OF E I]
    by (intro evolves_from_state[OF x]) (cases "tr_state x"; simp add: Let_def from_Some 1)
qed

lemma evolves_add_response:
  assumes "respectful E" and "channel_client I"
  shows "keeps evolves w (belle_sip_client_transaction_add_response E I t resp w)"
  unfolding belle_sip_client_transaction_add_response_def
proof (rule keeps_bind_read)
  fix x assume "trs w t = Some x"
  then show "keeps evolves w (case tr_class x of ICT \<Rightarrow> ict_on_response E I t resp w
      | NICT \<Rightarrow> nict_on_response E I t resp w | _ \<Rightarrow> None)"
    using evolves_ict_on_response[OF assms, of w t resp] evolves_nict_on_response[OF assms, of w t resp]
    by (cases "tr_class x") (simp_all add: keeps_None)
qed

section \<open>Timers\<close>

lemma evolves_notify_timeout:
  assumes E: "respectful E" and I: "channel_client I"
  shows "keeps evolves w (belle_sip_transaction_notify_timeout E I t w)"
  unfolding belle_sip_transaction_notify_timeout_def notify_timeout_def
  by (rule keeps_rules evolves_terminate[OF E I] evolves_invoke_for_transaction[OF E]
        keeps_evolves(4)[OF channel_client.notify_timeout_sends[OF I]]
      | (rule evolves_upd_tr_field, simp; fail) | rule keeps_read)+

lemma evolves_timer:
  assumes E: "respectful E" and I: "channel_client I"
  shows "keeps_fst evolves w (timer_callback E I n t w)"
  by (cases n; simp only: timer_callback.simps ict_on_timer_A_def ict_on_timer_B_def ict_on_timer_D_def ict_on_timer_M_def
      nict_on_timer_E_def nict_on_timer_F_def nict_on_timer_K_def ist_on_timer_G_def ist_on_timer_H_def ist_on_timer_I_def
      ist_on_timer_L_def nist_on_timer_J_def)
    (rule keeps_rules keeps_leaf evolves_terminate[OF E I] evolves_notify_timeout[OF E I] evolves_queue_on_channel[OF I]
      | rule keeps_read)+

section \<open>The server side\<close>

lemma evolves_process_ack:
  assumes E: "respectful E" and I: "channel_client I"
    and c: "\<And>x. trs w t = Some x \<Longrightarrow> tr_class x = IST"
  shows "keeps_fst evolves w (belle_sip_ist_process_ack E I t w)"
  unfolding belle_sip_ist_process_ack_def
proof (rule keeps_fst_bind_read)
  fix x assume x: "trs w t = Some x"
  have stop: "keeps (evolves_in (in_state t IST s)) w (belle_sip_transaction_stop_timer t n w)" for s n w
    unfolding belle_sip_transaction_stop_timer_def
    by (rule keeps_bind_read, rule keeps_case_option, rule ei.keeps_Some, rule ei.keeps_bind, rule keeps_in_calm(1),
        rule keeps_leaf, rule in_upd_tr_field, simp)
  have last: "keeps (evolves_from P) w (if \<not> b then belle_sip_transaction_start_timer t TimerI (cfg_T4 w) w
                else map_option fst (ist_on_timer_I E I t w))" for P w b
    by (rule keeps_fromI(1)) (use evolves_timer[OF E I, of w TimerI t] in \<open>auto intro!: keeps_if keeps_map_fst evolves_start_timer\<close>)
  have set: "keeps (evolves_from (in_state t IST TR_COMPLETED)) w (belle_sip_transaction_set_state t TR_CONFIRMED w \<bind> f)"
    if "\<And>w. keeps (evolves_from (in_state t IST TR_CONFIRMED)) w (f w)" for w f
    by (rule from_set_state_bind, rule reach_steps, simp, rule that)
  have set': "keeps_fst (evolves_from (in_state t IST TR_COMPLETED)) w (do {
       w \<leftarrow> belle_sip_transaction_set_state t TR_CONFIRMED w; reliable \<leftarrow> channel_reliable t w;
       w \<leftarrow> (if \<not> reliable then belle_sip_transaction_start_timer t TimerI (cfg_T4 w) w
                else map_option fst (ist_on_timer_I E I t w)); Some (w, False) })" for w
  proof -
    have "keeps (evolves_from (in_state t IST TR_COMPLETED)) w (do {
       w \<leftarrow> belle_sip_transaction_set_state t TR_CONFIRMED w; reliable \<leftarrow> channel_reliable t w;
       (if \<not> reliable then belle_sip_transaction_start_timer t TimerI (cfg_T4 w) w
                else map_option fst (ist_on_timer_I E I t w)) })"
      by (rule set, rule keeps_bind_read, rule last)
    then show ?thesis
      by (auto simp: keeps_def keeps_fst_def Option.bind_eq_Some_conv split: if_splits)
  qed
  show "keeps_fst evolves w (case tr_state x of
        TR_COMPLETED \<Rightarrow> do {
          w \<leftarrow> belle_sip_transaction_stop_timer t TimerG w;
          w \<leftarrow> belle_sip_transaction_set_state t TR_CONFIRMED w;
          reliable \<leftarrow> channel_reliable t w;
          w \<leftarrow> (if \<not> reliable then belle_sip_transaction_start_timer t TimerI (cfg_T4 w) w
                else map_option fst (ist_on_timer_I E I t w));
          Some (w, False) }
      | TR_ACCEPTED \<Rightarrow> Some (w, True)
      | _ \<Rightarrow> Some (w, False))"
  proof (cases "tr_state x = TR_COMPLETED")
    case True
    show ?thesis
      by (rule evolves_fst_from_state[OF x]) (simp only: c[OF x] True transaction_state.simps, rule from_fst_bind, rule stop, rule set')
  next
    case False
    then show ?thesis by (cases "tr_state x") (simp_all add: ev.keeps_fst_Some)
  qed
qed

lemma from_ist_send_new_response:
  assumes I: "channel_client I"
  shows "keeps (evolves_from (in_state t IST TR_PROCEEDING)) w (do {
          w \<leftarrow> queue_on_channel E I t resp w;
          (if 200 \<le> code \<and> code < 300 then do {
                  w \<leftarrow> belle_sip_transaction_set_state t TR_ACCEPTED w;
                  belle_sip_transaction_start_timer t TimerL (64 * cfg_T1 w) w }
                else if 300 \<le> code then do {
                  w \<leftarrow> belle_sip_transaction_set_state t TR_COMPLETED w;
                  reliable \<leftarrow> channel_reliable t w;
                  w \<leftarrow> (if \<not> reliable then belle_sip_transaction_start_timer t TimerG (cfg_T1 w) w else Some w);
                  belle_sip_transaction_start_timer t TimerH (64 * cfg_T1 w) w }
                else Some w) })"
proof (rule from_bind, rule keeps_in_sends(1), simp, rule channel_client.queue_on_channel_sends[OF I])
  have r: "keeps (evolves_from P) w (do { reliable \<leftarrow> channel_reliable t w;
        w \<leftarrow> (if \<not> reliable then belle_sip_transaction_start_timer t TimerG (cfg_T1 w) w else Some w);
        belle_sip_transaction_start_timer t TimerH (64 * cfg_T1 w) w })" for P w
    by (rule keeps_fromI(1)) (rule keeps_rules keeps_leaf keeps_read)+
  show "keeps (evolves_from (in_state t IST TR_PROCEEDING)) w (if 200 \<le> code \<and> code < 300 then do {
                  w \<leftarrow> belle_sip_transaction_set_state t TR_ACCEPTED w;
                  belle_sip_transaction_start_timer t TimerL (64 * cfg_T1 w) w }
                else if 300 \<le> code then do {
                  w \<leftarrow> belle_sip_transaction_set_state t TR_COMPLETED w;
                  reliable \<leftarrow> channel_reliable t w;
                  w \<leftarrow> (if \<not> reliable then belle_sip_transaction_start_timer t TimerG (cfg_T1 w) w else Some w);
                  belle_sip_transaction_start_timer t TimerH (64 * cfg_T1 w) w }
                else Some w)" for w
    by (rule keeps_if from_Some r | (rule from_set_state_bind, rule reach_steps, simp)
        | rule keeps_fromI(1)[OF evolves_start_timer])+
qed

lemma keeps_fst_tail:
  "keeps R w (m \<bind> f) \<Longrightarrow> keeps_fst R w (m \<bind> (\<lambda>w. f w \<bind> (\<lambda>w. Some (w, b))))"
  by (auto simp: keeps_def keeps_fst_def Option.bind_eq_Some_conv)

lemma evolves_ist_send:
  assumes I: "channel_client I" and c: "\<And>x. trs w t = Some x \<Longrightarrow> tr_class x = IST"
  shows "keeps_fst evolves w (ist_send_new_response E I t resp w)"
  unfolding ist_send_new_response_def
proof (rule keeps_fst_bind_read, rule keeps_fst_bind_read)
  fix x p assume x: "trs w t = Some x"
  show "keeps_fst evolves w (let code = rs_status_code p in (case tr_state x of
        TR_PROCEEDING \<Rightarrow> do {
          w \<leftarrow> queue_on_channel E I t resp w;
          w \<leftarrow> (if 200 \<le> code \<and> code < 300 then do {
                  w \<leftarrow> belle_sip_transaction_set_state t TR_ACCEPTED w;
                  belle_sip_transaction_start_timer t TimerL (64 * cfg_T1 w) w }
                else if 300 \<le> code then do {
                  w \<leftarrow> belle_sip_transaction_set_state t TR_COMPLETED w;
                  reliable \<leftarrow> channel_reliable t w;
                  w \<leftarrow> (if \<not> reliable then belle_sip_transaction_start_timer t TimerG (cfg_T1 w) w else Some w);
                  belle_sip_transaction_start_timer t TimerH (64 * cfg_T1 w) w }
                else Some w);
          Some (w, True) }
      | TR_ACCEPTED \<Rightarrow> Some (w, 200 \<le> code \<and> code < 300)
      | _ \<Rightarrow> Some (w, False)))"
    using keeps_fst_tail[OF from_ist_send_new_response[OF I]] c[OF x]
    by (intro evolves_fst_from_state[OF x]) (cases "tr_state x"; simp add: Let_def from_fst_Some)
qed

lemma from_nist_set_completed:
  assumes s: "s = TR_TRYING \<or> s = TR_PROCEEDING"
  shows "keeps (evolves_from (in_state t NIST s)) w (nist_set_completed t w)"
proof -
  have r: "tr_reach NIST s TR_COMPLETED" using s reach_steps by blast
  show ?thesis
    unfolding nist_set_completed_def
    by (rule keeps_bind_read, rule from_bind, rule keeps_in_sends(1), use s in blast, rule sends_start_timer)
      (rule from_set_state[OF r], simp)
qed

lemma evolves_nist_send:
  assumes I: "channel_client I" and c: "\<And>x. trs w t = Some x \<Longrightarrow> tr_class x = NIST"
  shows "keeps_fst evolves w (nist_send_new_response E I t resp w)"
  unfolding nist_send_new_response_def
proof (rule keeps_fst_bind_read, rule keeps_fst_bind_read)
  fix x p assume x: "trs w t = Some x"
  have 1: "keeps_fst (evolves_from (in_state t NIST TR_TRYING)) w (do {
             w \<leftarrow> belle_sip_transaction_set_state t TR_PROCEEDING w; w \<leftarrow> queue_on_channel E I t resp w; Some (w, True) })"
    by (rule keeps_fst_tail, rule from_set_state_bind, rule reach_steps, simp, rule keeps_fromI(1), rule evolves_queue_on_channel[OF I])
  have 2: "keeps_fst (evolves_from (in_state t NIST s)) w (do {
             w \<leftarrow> (if 200 \<le> code then nist_set_completed t w else Some w);
             w \<leftarrow> queue_on_channel E I t resp w;
             Some (w, True) })" if "s = TR_TRYING \<or> s = TR_PROCEEDING" for s and code :: int
    by (rule keeps_fst_tail, rule from_bind_last)
      (use from_nist_set_completed[OF that] evolves_queue_on_channel[OF I] in \<open>auto intro: from_Some\<close>)
  show "keeps_fst evolves w (let code = rs_status_code p in (case tr_state x of
        TR_COMPLETED \<Rightarrow> Some (w, False)
      | s \<Rightarrow>
          (if s = TR_TRYING \<and> code < 200 then do {
             w \<leftarrow> belle_sip_transaction_set_state t TR_PROCEEDING w;
             w \<leftarrow> queue_on_channel E I t resp w;
             Some (w, True) }
           else if s = TR_TRYING \<or> s = TR_PROCEEDING then do {
             w \<leftarrow> (if 200 \<le> code then nist_set_completed t w else Some w);
             w \<leftarrow> queue_on_channel E I t resp w;
             Some (w, True) }
           else Some (w, True))))"
    using 1 2[of TR_TRYING "rs_status_code p"] 2[of TR_PROCEEDING "rs_status_code p"] c[OF x]
    by (intro evolves_fst_from_state[OF x])
      (cases "200 \<le> rs_status_code p"; cases "tr_state x"; simp add: Let_def from_fst_Some)
qed

lemma evolves_send_new_response:
  assumes "channel_client I"
  shows "keeps_fst evolves w (send_new_response_of_class E I t resp w)"
  unfolding send_new_response_of_class_def
proof (rule keeps_fst_bind_read)
  fix x assume "trs w t = Some x"
  then show "keeps_fst evolves w (case tr_class x of IST \<Rightarrow> ist_send_new_response E I t resp w
      | NIST \<Rightarrow> nist_send_new_response E I t resp w | _ \<Rightarrow> None)"
    using evolves_ist_send[OF assms, of w t E resp] evolves_nist_send[OF assms, of w t E resp]
    by (cases "tr_class x") (simp_all add: keeps_fst_None)
qed

lemma evolves_fill_response [keeps_leaf]: "keeps evolves w (fill_response t resp w)"
  unfolding fill_response_def by (rule keeps_rules keeps_leaf keeps_read)+

text \<open>A response is only recorded in a server transaction: its machine accepted it.\<close>

lemma evolves_class: "evolves w w' \<Longrightarrow> wf_world w \<Longrightarrow> trs w t = Some x \<Longrightarrow> \<exists>x'. trs w' t = Some x' \<and> tr_class x' = tr_class x"
  unfolding evolves_def tr_le_def by metis

lemma evolves_record_response:
  assumes "\<And>x. trs w t = Some x \<Longrightarrow> \<not> is_client (tr_class x)"
  shows "keeps evolves w (upd_tr w t (\<lambda>x. x\<lparr>tr_last_response := Some resp\<rparr>))"
  by (rule evolves_upd_tr) (use assms in \<open>auto simp: tr_le_def\<close>)

lemma evolves_send_recorded:
  assumes I: "channel_client I"
  shows "keeps_fst evolves w (do { (w, sent) \<leftarrow> send_new_response_of_class E I t resp w;
        w \<leftarrow> (if sent then upd_tr w t (\<lambda>x. x\<lparr>tr_last_response := Some resp\<rparr>) else Some w); Some (w, sent) })"
  (is "keeps_fst _ _ ?m")
proof (rule keeps_fst_wf)
  assume wf: "wf_world w"
  show "keeps_fst evolves w ?m"
    unfolding keeps_fst_def
  proof (intro allI impI)
    fix w' b assume m: "?m = Some (w', b)"
    then obtain w1 where w1: "send_new_response_of_class E I t resp w = Some (w1, b)"
      "(if b then upd_tr w1 t (\<lambda>x. x\<lparr>tr_last_response := Some resp\<rparr>) else Some w1) = Some w'"
      by (auto simp: Option.bind_eq_Some_conv split: if_splits)
    obtain x where x: "trs w t = Some x"
      using w1(1) by (auto simp: send_new_response_of_class_def Option.bind_eq_Some_conv)
    then have c: "\<not> is_client (tr_class x)"
      using w1(1) by (cases "tr_class x") (simp_all add: send_new_response_of_class_def)
    have e: "evolves w w1" using keeps_fstD[OF evolves_send_new_response[OF I] w1(1)] .
    obtain y where "trs w1 t = Some y" "tr_class y = tr_class x" using evolves_class[OF e wf x] by blast
    then have "keeps evolves w1 (upd_tr w1 t (\<lambda>x. x\<lparr>tr_last_response := Some resp\<rparr>))"
      using c by (intro evolves_record_response) auto
    then have "evolves w1 w'" using w1(2) ev.refl by (auto simp: keeps_def split: if_splits)
    then show "evolves w w'" using e ev.trans by blast
  qed
qed

lemma keeps_pair_assoc:
  "keeps_fst evolves w (do { (w, a) \<leftarrow> m; w \<leftarrow> g a w; Some (w, a) }) \<Longrightarrow> (\<And>w. keeps evolves w (h w)) \<Longrightarrow>
   keeps evolves w (do { (w, a) \<leftarrow> m; w \<leftarrow> g a w; h w })"
  unfolding keeps_def keeps_fst_def by (fastforce simp: Option.bind_eq_Some_conv intro: ev.trans)

lemma evolves_send_response:
  assumes E: "respectful E" and I: "channel_client I"
  shows "keeps evolves w (belle_sip_server_transaction_send_response E I t resp w)"
  unfolding belle_sip_server_transaction_send_response_def
  by (rule keeps_pair_assoc[OF evolves_send_recorded[OF I]] keeps_rules keeps_leaf
      evolves_dialog_update[OF evolves_terminate[OF E I] channel_client.provider_send_request_sends[OF I]]
      | (rule evolves_upd_tr_field, simp; fail) | rule keeps_read)+

lemma evolves_retransmit: "channel_client I \<Longrightarrow> keeps evolves w (retransmit_last_response E I t w)"
  unfolding retransmit_last_response_def
  by (rule keeps_bind_read, rule keeps_if, rule keeps_bind_read, erule evolves_queue_on_channel, rule ev.keeps_Some)

lemma evolves_server_on_request:
  assumes E: "respectful E" and I: "channel_client I"
  shows "keeps evolves w (belle_sip_server_transaction_on_request E I t req w)"
proof -
  have 1: "keeps evolves w (do { (w, report) \<leftarrow> belle_sip_ist_process_ack E I t w; y \<leftarrow> trs w t;
           (case tr_dialog y of
              Some d \<Rightarrow>
                (if report then do {
                   (w, new) \<leftarrow> belle_sip_dialog_handle_ack d req w;
                   (if new then invoke_listeners_for_transaction E t (EvRequest (Some t) (Some d) req) w
                    else Some w) }
                 else Some w)
            | None \<Rightarrow> Some w) })" if "trs w t = Some x" "tr_class x = IST" for x
    by (rule ev.keeps_bind_pair, rule evolves_process_ack[OF E I], use that in simp)
      (rule keeps_rules keeps_leaf evolves_invoke_for_transaction[OF E] keeps_read)+
  show ?thesis
    unfolding belle_sip_server_transaction_on_request_def
  proof (rule keeps_bind_read, rule keeps_bind_read)
    fix m x assume x: "trs w t = Some x"
    show "keeps evolves w (if rq_method m = ''ACK'' then
        (if tr_class x = IST then do {
           (w, report) \<leftarrow> belle_sip_ist_process_ack E I t w;
           y \<leftarrow> trs w t;
           (case tr_dialog y of
              Some d \<Rightarrow>
                (if report then do {
                   (w, new) \<leftarrow> belle_sip_dialog_handle_ack d req w;
                   (if new then invoke_listeners_for_transaction E t (EvRequest (Some t) (Some d) req) w
                    else Some w) }
                 else Some w)
            | None \<Rightarrow> Some w) }
         else Some w)
      else if rq_method m = ''CANCEL''
      then invoke_listeners_for_transaction E t (EvRequest (Some t) (tr_dialog x) req) w
      else (case tr_class x of IST \<Rightarrow> ist_on_request_retransmission E I t w
            | NIST \<Rightarrow> nist_on_request_retransmission E I t w | _ \<Rightarrow> None))"
      using evolves_retransmit[OF I] evolves_invoke_for_transaction[OF E] 1[OF x]
      by (cases "tr_class x")
        (simp_all add: ist_on_request_retransmission_def nist_on_request_retransmission_def keeps_None ev.keeps_Some)
  qed
qed

text \<open>A new server transaction leaves its first state at once.\<close>

lemma server_init_state:
  "belle_sip_server_transaction_init cls req w = Some (w', t) \<Longrightarrow> in_state t cls TR_INIT w'"
  by (cases "belle_sip_random_token w 8")
    (auto simp: belle_sip_server_transaction_init_def Option.bind_eq_Some_conv new_transaction_def in_state_def Let_def)

lemma evolves_start_server:
  assumes "belle_sip_server_transaction_init cls req w = Some (w', t)" and "tr_reach cls TR_INIT s" and "s \<noteq> TR_INIT"
  shows "keeps evolves w' (belle_sip_transaction_set_state t s w')"
  by (rule keeps_fromD[OF from_set_state[OF assms(2,3)]]) (rule server_init_state[OF assms(1)])

lemma evolves_ist_new:
  assumes E: "respectful E" and I: "channel_client I"
  shows "keeps_fst evolves w (belle_sip_ist_new E I req w)"
  unfolding belle_sip_ist_new_def
  by (rule ev.keeps_fst_bind_pair, rule keeps_leaf, rule ev.keeps_fst_bind, erule evolves_start_server, rule reach_steps, simp)
    (rule keeps_rules keeps_leaf evolves_send_response[OF E I] keeps_read)+

lemma evolves_nist_new: "keeps_fst evolves w (belle_sip_nist_new req w)"
  unfolding belle_sip_nist_new_def
  by (rule ev.keeps_fst_bind_pair, rule keeps_leaf, rule ev.keeps_fst_bind, erule evolves_start_server, rule reach_steps, simp)
    (rule ev.keeps_fst_Some)

lemma evolves_create_server:
  assumes E: "respectful E" and I: "channel_client I"
  shows "keeps_fst evolves w (belle_sip_provider_create_server_transaction E I req w)"
proof -
  have 1: "keeps_fst evolves w (Some (belle_sip_provider_add_server_transaction t w, a))" for w t and a :: "nat option"
    by (simp add: keeps_fst_def belle_sip_provider_add_server_transaction_def evolves_lists)
  show ?thesis
    unfolding belle_sip_provider_create_server_transaction_def
    by (rule keeps_rules 1 keeps_leaf evolves_ist_new[OF E I] evolves_nist_new keeps_read)+
qed

section \<open>The provider\<close>

lemma evolves_answer:
  assumes E: "respectful E" and I: "channel_client I"
  shows "keeps evolves w (answer E I req code w)"
  unfolding answer_def
  by (rule keeps_rules keeps_leaf evolves_create_server[OF E I] evolves_send_response[OF E I] keeps_read)+

lemma evolves_deliver_request:
  assumes E: "respectful E" and I: "channel_client I"
  shows "keeps evolves w (deliver_request E I req d me w)"
  unfolding deliver_request_def
  by (rule keeps_rules evolves_answer[OF E I] evolves_invoke_listeners[OF E])+

lemma evolves_dispatch_request:
  assumes E: "respectful E" and I: "channel_client I"
  shows "keeps evolves w (belle_sip_provider_dispatch_request E I req w)"
  unfolding belle_sip_provider_dispatch_request_def
  by (rule keeps_rules keeps_leaf evolves_server_on_request[OF E I] evolves_deliver_request[OF E I]
      evolves_answer[OF E I] | rule keeps_read)+

lemma evolves_forget_auth [keeps_leaf]: "keeps evolves w (forget_auth_contexts t msg w)"
  unfolding forget_auth_contexts_def
  by (rule keeps_rules | (simp add: keeps_def evolves_lists ev.refl; fail) | rule keeps_read)+

lemma evolves_dispatch_response:
  assumes E: "respectful E" and I: "channel_client I"
  shows "keeps evolves w (belle_sip_provider_dispatch_response E I msg w)"
  unfolding belle_sip_provider_dispatch_response_def
  by (rule keeps_rules keeps_leaf evolves_add_response[OF E I] evolves_invoke_listeners[OF E] keeps_read)+

lemma evolves_dispatch_message:
  assumes E: "respectful E" and I: "channel_client I"
  shows "keeps evolves w (belle_sip_provider_dispatch_message E I msg w)"
  unfolding belle_sip_provider_dispatch_message_def
  by (rule keeps_rules keeps_leaf evolves_dispatch_request[OF E I] evolves_dispatch_response[OF E I]
      keeps_evolves(3)[OF channel_client.provider_send_response_sends[OF I]] keeps_read)+

section \<open>The ends of a channel and the callbacks\<close>

lemma evolves_channel_state_changed:
  assumes E: "respectful E"
  shows "keeps evolves w (channel_state_changed E c s w)"
  unfolding channel_state_changed_def belle_sip_provider_release_channel_def
  by (rule keeps_rules keeps_leaf evolves_invoke_listeners[OF E] keeps_read)+

lemma evolves_on_channel_state_changed:
  assumes E: "respectful E" and I: "channel_client I"
  shows "keeps evolves w (on_channel_state_changed E I t c s w)"
proof -
  have 1: "keeps evolves w (do {
             w \<leftarrow> (if b then invoke_listeners_for_transaction E t (EvIoError (Some t) c) w else Some w);
             y \<leftarrow> trs w t;
             w \<leftarrow> (if tr_timed_out y then notify_timeout E t w else Some w);
             belle_sip_transaction_terminate E I t w })" for b
    unfolding notify_timeout_def
    by (rule keeps_rules evolves_terminate[OF E I] evolves_invoke_for_transaction[OF E] | rule keeps_read)+
  show ?thesis
    unfolding on_channel_state_changed_def
  proof (rule keeps_bind_read)
    fix x assume x: "trs w t = Some x"
    have 2: "keeps evolves w (if tr_state x = TR_INIT then send_request_of_class E I t w else Some w)"
      using keeps_evolves(3)[OF channel_client.send_request_sends[OF I x]] by (simp add: ev.keeps_Some)
    show "keeps evolves w (case s of
        CHANNEL_READY \<Rightarrow> (if tr_state x = TR_INIT then send_request_of_class E I t w else Some w)
      | s \<Rightarrow>
          (if s = CHANNEL_DISCONNECTED \<or> s = CHANNEL_ERROR then do {
             w \<leftarrow> (if tr_state x \<notin> {TR_COMPLETED, TR_CONFIRMED, TR_ACCEPTED, TR_TERMINATED}
                   then invoke_listeners_for_transaction E t (EvIoError (Some t) c) w else Some w);
             y \<leftarrow> trs w t;
             w \<leftarrow> (if tr_timed_out y then notify_timeout E t w else Some w);
             belle_sip_transaction_terminate E I t w }
           else Some w))"
      using 1 2 ev.keeps_Some by (cases s) (simp_all del: insert_iff)
  qed
qed

lemma evolves_told:
  assumes E: "respectful E"
  shows "keeps evolves w (on_state_changed (core_iface E marshal n) l c s w)"
  using evolves_channel_state_changed[OF E] evolves_on_channel_state_changed[OF E core_iface_client]
  by (cases n; cases l) (simp_all add: keeps_None)

lemma evolves_state_listener:
  assumes E: "respectful E"
  shows "keeps evolves w (channel_invoke_state_listener (core_iface E marshal n) c w)"
proof -
  have 1: "keeps evolves w (invoke_channel_listeners (\<lambda>l. on_state_changed (core_iface E marshal n) l c s) ls w)" for s ls w
    by (induction ls arbitrary: w) (auto intro!: ev.keeps_Some ev.keeps_bind evolves_told[OF E])
  show ?thesis
    unfolding channel_invoke_state_listener_def
    by (rule keeps_rules keeps_evolves(1)[OF keeps_calm(1)[OF quiet_close]] 1 keeps_read)+
qed

lemma evolves_process_queue_callback:
  assumes E: "respectful E" and I: "channel_client I"
  shows "keeps evolves w (dialog_process_queue_callback E I d w)"
  unfolding dialog_process_queue_callback_def
  by (rule keeps_rules evolves_send_request[OF E I] | (rule evolves_upd_tr_field, simp; fail)
      | (rule evolves_upd_dlg_same, simp add: same_dlg_def; fail) | rule keeps_read)+

lemma evolves_200Ok_timer:
  assumes I: "channel_client I"
  shows "keeps_fst evolves w (dialog_on_200Ok_timer E I d w)"
  unfolding dialog_on_200Ok_timer_def
  by (rule keeps_rules keeps_leaf keeps_evolves(3)[OF channel_client.provider_send_response_sends[OF I]] | rule keeps_read)+

text \<open>The end of the retransmissions confirms the dialog: it is not to run for a terminated one.\<close>

lemma evolves_200Ok_end:
  assumes E: "respectful E" and I: "channel_client I" and d: "dlg_live d w"
  shows "keeps_fst evolves w (dialog_on_200Ok_end E I d w)"
proof -
  have c: "keeps (evolves_in (dlg_live d)) w (upd_dlg w d (\<lambda>r. r\<lparr>dlg_state := DIALOG_CONFIRMED\<rparr>))" for w
  proof -
    have "keeps evolves w (upd_dlg w d (\<lambda>r. r\<lparr>dlg_state := DIALOG_CONFIRMED\<rparr>))" if "dlg_live d w"
    proof (rule evolves_upd_dlg)
      fix r assume "dlgs w d = Some r"
      then show "dlg_le r (r\<lparr>dlg_state := DIALOG_CONFIRMED\<rparr>)"
        using that by (cases "dlg_state r") (auto simp: dlg_live_def dlg_le_def)
    qed
    then show ?thesis by (auto simp: keeps_def evolves_in_def dlg_live_def upd_dlg_def split: option.splits)
  qed
  have "keeps_fst (evolves_from (dlg_live d)) w (dialog_on_200Ok_end E I d w)"
    unfolding dialog_on_200Ok_end_def
    by (rule from_fst_bind, rule keeps_in_calm(3), rule calm_stop_200Ok, rule from_fst_bind, rule c, rule keeps_fromI(2))
      (rule keeps_rules evolves_internal_bye[OF E I])+
  then show ?thesis using d by (rule keeps_fst_fromD)
qed

definition runnable :: "callback \<Rightarrow> world \<Rightarrow> bool" where
  "runnable cb w \<longleftrightarrow> (case cb of CbDialog200OkEnd d \<Rightarrow> dlg_live d w | _ \<Rightarrow> True)"

lemma keeps_once: "keeps R w m \<Longrightarrow> keeps_fst R w (once m)"
  by (auto simp: once_def keeps_def keeps_fst_def)

lemma quiet_send_keep_alive: "keeps_fst quiet w (send_keep_alive E c w)"
  unfolding send_keep_alive_def by (rule qu.keeps_fst_bind_pair qu.keeps_fst_Some quiet_channel_send)+

lemma quiet_keep_alive_loop: "keeps_fst quiet w (keep_alive_loop E cs w)"
proof (induction cs arbitrary: w)
  case (Cons c cs)
  show ?case
    unfolding keep_alive_loop.simps
    by (rule keeps_fst_bind_read, rule qu.keeps_fst_bind_pair,
        (rule keeps_fst_if qu.keeps_fst_bind_pair quiet_send_keep_alive qu.keeps_fst_Some Cons.IH)+)
qed (simp add: qu.keeps_fst_Some)

lemma evolves_close_failed:
  assumes I: "channel_client I"
  shows "keeps evolves w (close_failed I cs w)"
proof (induction cs arbitrary: w)
  case (Cons c cs)
  have "keeps evolves w (channel_set_state I c CHANNEL_ERROR w)" for w
    unfolding channel_set_state_def
    by (rule keeps_rules keeps_evolves(3)[OF channel_client.handle_error_sends[OF I]] | simp)+
  then show ?case
    unfolding close_failed.simps
    by (rule ev.keeps_bind) (assumption | rule ev.keeps_bind Cons.IH keeps_evolves(1)[OF keeps_calm(1)[OF quiet_close]])+
qed (simp add: ev.keeps_Some)

lemma evolves_keep_alive:
  assumes I: "channel_client I"
  shows "keeps_fst evolves w (keep_alive_timer_func E I i w)"
  unfolding keep_alive_timer_func_def
  by (rule keeps_rules keeps_evolves(2)[OF keeps_calm(2)[OF quiet_keep_alive_loop]] evolves_close_failed[OF I])+

lemma evolves_run_callback:
  assumes E: "respectful E" and r: "runnable cb w"
  shows "keeps_fst evolves w (run_callback E (core_iface E marshal n) cb ev w)"
proof -
  note I = core_iface_client[of E marshal n]
  have inactive: "keeps_fst evolves w (channel_inactive_timeout (core_iface E marshal n) c w)" for c
  proof -
    have 1: "keeps evolves w (channel_set_state (core_iface E marshal n) c CHANNEL_DISCONNECTED w)" for w
      unfolding channel_set_state_def
      by (rule keeps_rules evolves_state_listener[OF E] keeps_leaf keeps_evolves(3)[OF channel_client.handle_error_sends[OF I]])+
    show ?thesis
      unfolding channel_inactive_timeout_def
      by (rule keeps_rules 1 keeps_leaf keeps_evolves(1)[OF keeps_calm(1)[OF quiet_close]] keeps_read)+
  qed
  show ?thesis
    using r evolves_timer[OF E I] evolves_200Ok_timer[OF I] evolves_200Ok_end[OF E I]
      evolves_process_queue_callback[OF E I] evolves_invoke_listeners[OF E] evolves_state_listener[OF E]
      channel_client.connect_sends[OF I, THEN keeps_evolves(3)] inactive evolves_keep_alive[OF I]
      channel_client.delayed_send_sends[OF I, THEN keeps_evolves(3)]
    by (cases cb) (auto simp: runnable_def intro!: keeps_once keeps_fst_None ev.keeps_fst_bind ev.keeps_fst_Some)
qed

end
