(* ===== verification/NetEvolve.thy ===== *)
theory NetEvolve
  imports Listening EvolveCore
begin

text \<open>
  Whatever comes from the network, and however it is cut, the receiving half of the channels and the listening points
  only moves the transactions and the dialogs along their machines: every operation of Reception and Listening
  is \<open>evolves\<close>.
\<close>

section \<open>Storing messages\<close>

lemma store_headers_only [keeps_leaf]: "keeps store_only w (store_headers m hs w)"
proof (induction hs arbitrary: w)
  case (Cons h hs)
  show ?case
    unfolding store_headers.simps by (rule keeps_rules keeps_leaf Cons.IH)+
qed (simp add: keeps_rules)

lemma store_message_only [keeps_leaf]: "keeps_fst store_only w (store_message p body w)"
  unfolding store_message_def by (rule keeps_rules keeps_leaf)+

lemma fix_incoming_via_only [keeps_leaf]: "keeps store_only w (fix_incoming_via N req origin w)"
  unfolding fix_incoming_via_def by (rule keeps_rules keeps_leaf | rule keeps_read)+

lemma quiet_learn [keeps_leaf]: "keeps quiet w (belle_sip_channel_learn_public_ip_port c resp w)"
  unfolding belle_sip_channel_learn_public_ip_port_def belle_sip_channel_set_public_ip_port_def
  by (rule keeps_rules keeps_leaf | rule keeps_read)+

lemma quiet_store_messages [keeps_leaf]: "keeps_fst quiet w (store_messages N c ps w)"
proof (induction ps arbitrary: w)
  case (Cons p ps)
  show ?case
    by (cases p; simp only: store_messages.simps) (rule keeps_fst_bind_read qu.keeps_fst_bind_pair qu.keeps_fst_bind keeps_if
        qu.keeps_fst_Some keeps_leaf Cons.IH keeps_lift)+
qed (simp add: qu.keeps_fst_Some)

section \<open>Delivering messages\<close>

lemma evolves_quiet: "keeps quiet w m \<Longrightarrow> keeps evolves w m" "keeps_fst quiet w p \<Longrightarrow> keeps_fst evolves w p"
  by (simp_all add: keeps_calm keeps_evolves)

lemma evolves_disconnect:
  assumes E: "respectful E"
  shows "keeps evolves w (channel_set_state (core_iface E marshal n) c CHANNEL_DISCONNECTED w)"
  unfolding channel_set_state_def
  by (rule keeps_rules evolves_state_listener[OF E] keeps_leaf
      keeps_evolves(3)[OF channel_client.handle_error_sends[OF core_iface_client]])+

lemma evolves_channel_error:
  "keeps evolves w (channel_set_state (core_iface E marshal n) c CHANNEL_ERROR w)"
  by (rule keeps_evolves(3), rule channel_client.set_state_sends[OF core_iface_client]) simp

lemma evolves_set_ready: "keeps evolves w (belle_sip_channel_set_ready E' (core_iface E marshal n) c w)"
  by (rule keeps_evolves(3), rule channel_client.set_ready_sends[OF core_iface_client])

lemma evolves_process_queue: "keeps evolves w (channel_process_queue E' (core_iface E marshal n) c w)"
  by (rule keeps_evolves(3), rule channel_client.process_queue_sends[OF core_iface_client])

lemma evolves_notify_messages:
  assumes E: "respectful E"
  shows "keeps evolves w (notify_messages E (core_iface E marshal n) l ms w)"
proof (induction ms arbitrary: w)
  case (Cons m ms)
  have "keeps evolves w (channel_on_message E (core_iface E marshal n) l m w)" for w
    using evolves_dispatch_message[OF E core_iface_client] by (cases l) (simp_all add: ev.keeps_Some)
  then show ?case
    unfolding notify_messages.simps by (rule ev.keeps_bind) (rule Cons.IH)
qed (simp add: ev.keeps_Some)

lemma evolves_notify_incoming:
  assumes E: "respectful E"
  shows "keeps evolves w (notify_incoming_messages E (core_iface E marshal n) ls ms w)"
proof (induction ls arbitrary: w)
  case (Cons l ls)
  show ?case
    unfolding notify_incoming_messages.simps by (rule ev.keeps_bind evolves_notify_messages[OF E] Cons.IH)+
qed (simp add: ev.keeps_Some)

lemma evolves_process_stream:
  assumes E: "respectful E"
  shows "keeps_fst evolves w (belle_sip_channel_process_stream E (core_iface E marshal n) N c eos st w)"
  unfolding belle_sip_channel_process_stream_def
  by (rule keeps_fst_bind_read, rule ev.keeps_fst_bind_pair, rule evolves_quiet(2), rule quiet_store_messages,
      rule ev.keeps_fst_bind, rule keeps_if, rule ev.keeps_Some, rule keeps_bind_read, rule evolves_notify_incoming[OF E],
      rule ev.keeps_fst_Some)

lemma quiet_recv: "keeps_fst quiet w (belle_sip_channel_recv c k out w)"
  unfolding belle_sip_channel_recv_def
  by (rule qu.keeps_fst_bind, rule quiet_inactivity, rule keeps_fst_bind_read, rule qu.keeps_fst_Some)

lemma evolves_read_data:
  assumes E: "respectful E"
  shows "keeps_fst evolves w (belle_sip_channel_process_read_data E (core_iface E marshal n) N simulated c out st w)"
  unfolding belle_sip_channel_process_read_data_def
  by (rule ev.keeps_fst_bind_pair keeps_fst_if keeps_fst_case_prod ev.keeps_fst_Some evolves_quiet(2)[OF quiet_recv]
      evolves_process_stream[OF E] ev.keeps_fst_bind evolves_disconnect[OF E] evolves_channel_error)+

lemma evolves_process_data:
  assumes E: "respectful E"
  shows "keeps_fst evolves w (belle_sip_channel_process_data E (core_iface E marshal n) N simulated c revents out st w)"
  unfolding belle_sip_channel_process_data_def
  by (rule ev.keeps_fst_bind_pair keeps_fst_if keeps_fst_case_prod ev.keeps_fst_Some evolves_read_data[OF E]
      ev.keeps_fst_bind keeps_if ev.keeps_Some evolves_process_queue | rule keeps_bind_read)+

lemma evolves_stream_process_data:
  assumes E: "respectful E"
  shows "keeps_fst evolves w (stream_channel_process_data E (core_iface E marshal n) N simulated c revents ok out st w)"
  unfolding stream_channel_process_data_def
  by (rule keeps_fst_bind_read, (rule keeps_fst_if ev.keeps_fst_bind ev.keeps_fst_Some evolves_channel_error evolves_set_ready
      evolves_process_data[OF E] evolves_quiet(1)[OF quiet_set_timeout])+)

section \<open>New channels\<close>

lemma quiet_init_with_addr: "keeps_fst quiet w (belle_sip_channel_init_with_addr E N lp addr w)"
  unfolding belle_sip_channel_init_with_addr_def
  by (rule keeps_fst_bind_read, rule keeps_fst_Let_read, (rule qu.keeps_fst_bind_pair quiet_new_channel qu.keeps_fst_bind
      quiet_upd_chan qu.keeps_fst_Some)+)

lemma evolves_new_udp: "keeps_fst evolves w (belle_sip_channel_new_udp_with_addr E' (core_iface E marshal n) N lp addr w)"
  unfolding belle_sip_channel_new_udp_with_addr_def
  by (rule ev.keeps_fst_bind_pair evolves_quiet(2)[OF quiet_init_with_addr] ev.keeps_fst_bind evolves_set_ready ev.keeps_fst_Some)+

lemma quiet_add_source: "keeps quiet w (belle_sip_main_loop_add_source w s)"
  unfolding keeps_def
proof (intro allI impI)
  fix w' assume "belle_sip_main_loop_add_source w s = Some w'"
  then show "quiet w w'"
    by (intro quiet_fields) (auto simp: belle_sip_main_loop_add_source_def upd_src_def ml_inv_def split: option.splits if_splits)
qed

lemma evolves_new_child:
  "keeps_fst evolves w (belle_sip_stream_channel_new_child E' (core_iface E marshal n) N named lp addr w)"
  unfolding belle_sip_stream_channel_new_child_def
  by (rule keeps_fst_if ev.keeps_fst_Some ev.keeps_fst_bind_pair evolves_quiet(2)[OF quiet_init_with_addr] ev.keeps_fst_bind
      evolves_quiet(1)[OF quiet_upd_src] evolves_set_ready evolves_quiet(1)[OF quiet_add_source] | rule keeps_fst_bind_read)+

section \<open>Cleaning\<close>

lemma evolves_force_close:
  assumes E: "respectful E"
  shows "keeps evolves w (belle_sip_channel_force_close (core_iface E marshal n) c w)"
  unfolding belle_sip_channel_force_close_def
  by (rule ev.keeps_bind evolves_quiet(1)[OF quiet_upd_chan] evolves_disconnect[OF E])+

context frame_rel
begin

lemma keeps_clean_from:
  assumes "\<And>c w. keeps R w (belle_sip_channel_force_close I c w)"
  shows "keeps R w (clean_channels_from I i cs w)"
proof -
  have "(\<forall>c w. keeps R w (belle_sip_channel_force_close I c w)) \<longrightarrow> R w w'" if "clean_channels_from I i cs w = Some w'" for w'
    using _ that
  proof (rule clean_channels_from.raw_induct[where P = "\<lambda>I i cs w w'. (\<forall>c w. keeps R w (belle_sip_channel_force_close I c w)) \<longrightarrow> R w w'"])
    fix clean I i cs w w'
    assume IH: "\<And>I i cs w w'. clean I i cs w = Some w' \<Longrightarrow> (\<forall>c w. keeps R w (belle_sip_channel_force_close I c w)) \<longrightarrow> R w w'"
      and run: "(case cs of [] \<Rightarrow> Some w
         | c # _ \<Rightarrow> belle_sip_channel_force_close I c w \<bind>
             (\<lambda>w. if i < length (prov_lps w) \<and> c \<in> set (lp_channels (prov_lps w ! i))
              then clean I i (tl (dropWhile (\<lambda>x. x \<noteq> c) (lp_channels (prov_lps w ! i)))) w else None)) = Some w'"
    show "(\<forall>c w. keeps R w (belle_sip_channel_force_close I c w)) \<longrightarrow> R w w'"
    proof (cases cs)
      case Nil
      then show ?thesis using run by (simp add: refl)
    next
      case (Cons c l)
      then obtain w1 where "belle_sip_channel_force_close I c w = Some w1"
          "clean I i (tl (dropWhile (\<lambda>x. x \<noteq> c) (lp_channels (prov_lps w1 ! i)))) w1 = Some w'"
        using run by (auto split: bind_splits if_splits)
      then show ?thesis
        using IH keepsD trans by metis
    qed
  qed
  then show ?thesis using assms by (simp add: keeps_def)
qed

end

lemma quiet_upd_lp: "keeps quiet w (upd_lp w i f)"
  unfolding upd_lp_def by (rule keeps_if keeps_None quiet_lps)+

lemma evolves_clean_channels:
  assumes E: "respectful E"
  shows "keeps evolves w (belle_sip_listening_point_clean_channels (core_iface E marshal n) i w)"
  unfolding belle_sip_listening_point_clean_channels_def
  by (rule keeps_if keeps_None ev.keeps_bind ev.keeps_clean_from evolves_force_close[OF E] evolves_quiet(1)[OF quiet_upd_lp])+

lemma evolves_provider_clean:
  assumes E: "respectful E"
  shows "keeps evolves w (belle_sip_provider_clean_channels (core_iface E marshal n) w)"
proof -
  have "keeps evolves w (provider_clean_loop (core_iface E marshal n) k i w)" for k i w
  proof (induction k arbitrary: i w)
    case (Suc k)
    show ?case
      unfolding provider_clean_loop.simps by (rule ev.keeps_bind evolves_clean_channels[OF E] Suc.IH)+
  qed (simp add: ev.keeps_Some)
  then show ?thesis by (simp add: belle_sip_provider_clean_channels_def)
qed

lemma quiet_set_keep_alive: "keeps quiet w (belle_sip_listening_point_set_keep_alive i ms w)"
  unfolding belle_sip_listening_point_set_keep_alive_def
  by (rule keeps_if keeps_None keeps_case_option qu.keeps_Some qu.keeps_bind_pair quiet_create_timeout qu.keeps_bind quiet_upd_lp
      quiet_remove_source quiet_set_timeout)+

section \<open>Listening points\<close>

lemma quiet_udp_uninit: "keeps_fst quiet w (belle_sip_udp_listening_point_uninit s w)"
  unfolding belle_sip_udp_listening_point_uninit_def
  by (rule keeps_fst_case_option qu.keeps_fst_Some keeps_fst_if keeps_fst_None qu.keeps_fst_bind quiet_remove_source)+

lemma quiet_udp_init: "keeps_fst quiet w (belle_sip_udp_listening_point_init_socket N i s w)"
  unfolding belle_sip_udp_listening_point_init_socket_def
  by (rule keeps_fst_if keeps_fst_None keeps_fst_case_option qu.keeps_fst_Some qu.keeps_fst_bind quiet_upd_lp
      qu.keeps_fst_Let_pair quiet_source_new quiet_add_source)+

lemma quiet_stream_destroy: "keeps_fst quiet w (belle_sip_stream_listening_point_destroy_server_socket s w)"
  unfolding belle_sip_stream_listening_point_destroy_server_socket_def
  by (rule keeps_fst_Let_read, (rule keeps_fst_case_option qu.keeps_fst_Some keeps_fst_if keeps_fst_None qu.keeps_fst_bind quiet_remove_source)+)

lemma quiet_stream_setup: "keeps_fst quiet w (belle_sip_stream_listening_point_setup_server_socket N i s w)"
  unfolding belle_sip_stream_listening_point_setup_server_socket_def
  by (rule keeps_fst_if keeps_fst_None keeps_fst_case_option qu.keeps_fst_Some qu.keeps_fst_bind quiet_upd_lp
      qu.keeps_fst_Let_pair quiet_source_new quiet_add_source)+

lemma evolves_udp_channel_of:
  assumes "udp_channel_of E' (core_iface E marshal k) N i addr n = Some (n', c)"
  shows "evolves (nt_world n) (nt_world n')"
proof -
  note steps = keeps_fstD[OF evolves_new_udp] keepsD[OF evolves_quiet(1)[OF quiet_lp_add]]
  show ?thesis
    using assms by (auto simp: udp_channel_of_def Let_def ev.refl split: if_splits option.splits bind_splits
        dest!: steps) (metis ev.trans)+
qed

lemma evolves_on_udp_data:
  assumes E: "respectful E"
    and run: "on_udp_data E (core_iface E marshal k) N simulated i events peek out (n, s) = Some ((n', s'), r)"
  shows "evolves (nt_world n) (nt_world n')"
proof -
  note steps = keeps_fstD[OF evolves_quiet(2)[OF quiet_udp_uninit]] keepsD[OF evolves_clean_channels[OF E]]
    keeps_fstD[OF evolves_quiet(2)[OF quiet_udp_init]]
  note data = evolves_udp_channel_of keeps_fstD[OF evolves_process_data[OF E]]
  show ?thesis
  proof (cases "has_event events BELLE_SIP_EVENT_READ")
    case True
    show ?thesis
    proof (cases peek)
      case None
      then show ?thesis
        using run True by (auto simp: on_udp_data_def split: bind_splits prod.splits dest!: steps) (metis ev.trans)+
    next
      case (Some addr)
      then show ?thesis
        using run True by (auto simp: on_udp_data_def split: bind_splits prod.splits dest!: data) (metis ev.trans)+
    qed
  next
    case False
    then show ?thesis
      using run by (simp add: on_udp_data_def ev.refl)
  qed
qed

lemma evolves_on_new_connection:
  assumes E: "respectful E"
    and run: "on_new_connection E (core_iface E marshal k) N i accepted named (n, s) = Some ((n', s'), r)"
  shows "evolves (nt_world n) (nt_world n')"
proof -
  note steps = keeps_fstD[OF evolves_quiet(2)[OF quiet_stream_destroy]] keeps_fstD[OF evolves_quiet(2)[OF quiet_stream_setup]]
    keeps_fstD[OF evolves_new_child] keepsD[OF evolves_quiet(1)[OF quiet_lp_add]]
  show ?thesis
    using run by (cases accepted; auto simp: on_new_connection_def split: if_splits bind_splits prod.splits option.splits dest!: steps)
      (metis ev.trans)+
qed

end
