(* ===== verification/Reachable.thy ===== *)
theory Reachable
  imports NetEvolve
begin

text \<open>
  The core as a transition system. \<open>core_step\<close> is one thing the world outside makes the core do:
  a channel delivers a message, the main loop runs a callback, a channel changes state, the network has a datagram,
  a connection or bytes (which may be anything, cut anyhow), or the application calls an operation. In every world reachable from a well
  formed one, transactions have moved along their machines and dialogs have not gone back.
\<close>

section \<open>Steps\<close>

inductive core_step :: "env \<Rightarrow> (world \<Rightarrow> nat \<Rightarrow> string option) \<Rightarrow> nat \<Rightarrow> world \<Rightarrow> world \<Rightarrow> bool" for E marshal n where
  deliver: "belle_sip_provider_dispatch_message E (core_iface E marshal n) msg w = Some w' \<Longrightarrow> core_step E marshal n w w'"
| callback: "run_callback E (core_iface E marshal n) cb ev w = Some (w', r) \<Longrightarrow> runnable cb w \<Longrightarrow> core_step E marshal n w w'"
| channel_told: "channel_invoke_state_listener (core_iface E marshal n) c w = Some w' \<Longrightarrow> core_step E marshal n w w'"
| resolved: "channel_res_done E (core_iface E marshal n) c l w = Some w' \<Longrightarrow> core_step E marshal n w w'"
| send_queue: "channel_process_queue E (core_iface E marshal n) c w = Some w' \<Longrightarrow> core_step E marshal n w w'"
| new_client: "belle_sip_provider_create_client_transaction E req w = Some (w', t) \<Longrightarrow> core_step E marshal n w w'"
| new_server: "belle_sip_provider_create_server_transaction E (core_iface E marshal n) req w = Some (w', t) \<Longrightarrow> core_step E marshal n w w'"
| new_dialog: "belle_sip_provider_create_dialog t w = Some (w', d) \<Longrightarrow> core_step E marshal n w w'"
| send_request: "belle_sip_client_transaction_send_request_to E (core_iface E marshal n) t p w = Some (w', r) \<Longrightarrow> core_step E marshal n w w'"
| send_response: "belle_sip_server_transaction_send_response E (core_iface E marshal n) t resp w = Some w' \<Longrightarrow> core_step E marshal n w w'"
| send_stateless: "belle_sip_provider_send_request E (core_iface E marshal n) req w = Some w' \<Longrightarrow> core_step E marshal n w w'"
| respond_stateless: "belle_sip_provider_send_response E (core_iface E marshal n) resp w = Some w' \<Longrightarrow> core_step E marshal n w w'"
| terminate_transaction: "belle_sip_transaction_terminate E (core_iface E marshal n) t w = Some w' \<Longrightarrow> core_step E marshal n w w'"
| delete_dialog: "belle_sip_dialog_delete (belle_sip_transaction_terminate E (core_iface E marshal n)) d w = Some w' \<Longrightarrow> core_step E marshal n w w'"
| dialog_request: "belle_sip_dialog_create_request_from_generic d req q w = Some (w', m) \<Longrightarrow> core_step E marshal n w w'"
| dialog_plain_request: "belle_sip_dialog_create_request d method w = Some (w', m) \<Longrightarrow> core_step E marshal n w w'"
| dialog_ack: "belle_sip_dialog_create_ack d cseq w = Some (w', m) \<Longrightarrow> core_step E marshal n w w'"
| dialog_send_ack: "belle_sip_dialog_send_ack (belle_sip_provider_send_request E (core_iface E marshal n)) d req w = Some w' \<Longrightarrow> core_step E marshal n w w'"
| datagram: "on_udp_data E (core_iface E marshal n) N sim i ev peek out (\<lparr>nt_world = w, nt_streams = S\<rparr>, s) = Some ((w', s'), r) \<Longrightarrow>
    core_step E marshal n w (nt_world w')"
| connection: "on_new_connection E (core_iface E marshal n) N i peer named (\<lparr>nt_world = w, nt_streams = S\<rparr>, s) = Some ((w', s'), r) \<Longrightarrow>
    core_step E marshal n w (nt_world w')"
| stream_data: "stream_channel_process_data E (core_iface E marshal n) N sim c ev ok out st w = Some (w', st', r) \<Longrightarrow> core_step E marshal n w w'"
| keep_alive: "belle_sip_listening_point_set_keep_alive i ms w = Some w' \<Longrightarrow> core_step E marshal n w w'"
| clean_channels: "belle_sip_provider_clean_channels (core_iface E marshal n) w = Some w' \<Longrightarrow> core_step E marshal n w w'"

inductive_cases core_stepE: "core_step E marshal n w w'"

lemma evolves_create_dialog_op: "keeps_fst evolves w (belle_sip_provider_create_dialog t w)"
  unfolding belle_sip_provider_create_dialog_def by (rule keeps_leaf)

lemma evolves_send_ack:
  assumes "channel_client I"
  shows "keeps evolves w (belle_sip_dialog_send_ack (belle_sip_provider_send_request E I) d req w)"
  unfolding belle_sip_dialog_send_ack_def
  by (rule keeps_rules keeps_leaf channel_client.provider_send_request_sends[OF assms, THEN keeps_evolves(3)]
      | (rule evolves_upd_dlg_same, simp add: same_dlg_def; fail) | rule keeps_read)+

lemma core_step_evolves:
  assumes E: "respectful E" and s: "core_step E marshal n w w'"
  shows "evolves w w'"
proof -
  note I = core_iface_client[of E marshal n]
  note plain = keepsD[OF evolves_dispatch_message[OF E I]] keepsD[OF evolves_state_listener[OF E]]
    keepsD[OF channel_client.res_done_sends[OF I, THEN keeps_evolves(3)]]
    keepsD[OF channel_client.process_queue_sends[OF I, THEN keeps_evolves(3)]]
    keepsD[OF evolves_send_response[OF E I]] keepsD[OF evolves_terminate[OF E I]]
    keepsD[OF channel_client.provider_send_request_sends[OF I, THEN keeps_evolves(3)]]
    keepsD[OF channel_client.provider_send_response_sends[OF I, THEN keeps_evolves(3)]]
    keepsD[OF evolves_dialog_delete[OF evolves_terminate[OF E I]]] keepsD[OF evolves_send_ack[OF I]]
    keepsD[OF evolves_provider_clean[OF E]] keepsD[OF evolves_quiet(1)[OF quiet_set_keep_alive]]
  note pairs = keeps_fstD[OF evolves_run_callback[OF E]] keeps_fstD[OF evolves_create_client]
    keeps_fstD[OF evolves_create_server[OF E I]] keeps_fstD[OF evolves_create_dialog_op]
    keeps_fstD[OF evolves_send_request_to[OF E I]] keeps_fstD[OF calm_create_request_from[THEN keeps_evolves(2)]]
    keeps_fstD[OF calm_dialog_create_request[THEN keeps_evolves(2)]] keeps_fstD[OF calm_create_ack[THEN keeps_evolves(2)]]
  note network = evolves_on_udp_data[OF E] evolves_on_new_connection[OF E]
  show ?thesis using s
    by cases (erule plain pairs(2-) keeps_fstD[OF evolves_stream_process_data[OF E]] | (rule pairs(1), assumption, assumption)
      | (drule network, simp))+
qed

abbreviation core_steps :: "env \<Rightarrow> (world \<Rightarrow> nat \<Rightarrow> string option) \<Rightarrow> nat \<Rightarrow> world \<Rightarrow> world \<Rightarrow> bool" where
  "core_steps E marshal n \<equiv> (core_step E marshal n)\<^sup>*\<^sup>*"

lemma core_steps_evolves: "core_steps E marshal n w w' \<Longrightarrow> respectful E \<Longrightarrow> evolves w w'"
  by (induction rule: rtranclp_induct) (auto intro: ev.refl ev.trans core_step_evolves)

section \<open>Reachable worlds\<close>

text \<open>An application that only watches, and a world with a completed INVITE transaction.\<close>

definition watching_env :: env where
  "watching_env = \<lparr>app = (\<lambda>l ev w. Some w), socket_send = (\<lambda>c b w. int (length b)),
     socket_connect = (\<lambda>c a w. ConnectReady), resolver_answer = (\<lambda>c w. None), local_address = (\<lambda>c w. None),
     numeric_address = (\<lambda>h. None), header_text = (\<lambda>h. []), uri_text = (\<lambda>u. []), auth_requested = (\<lambda>l ev w. ev),
     address_bits = (\<lambda>a. 0)\<rparr>"

lemma watching_respectful: "respectful watching_env"
  by (simp add: respectful_def watching_env_def ev.keeps_Some)

definition sample_transaction :: "transaction_class \<Rightarrow> transaction_state \<Rightarrow> transaction" where
  "sample_transaction cls s = \<lparr>tr_class = cls, tr_request = 0, tr_last_response = None, tr_channel = None,
     tr_dialog = None, tr_branch_id = ''z9hG4bK.a'', tr_state = s, tr_is_internal = False, tr_timed_out = False,
     tr_sent_by_dialog_queue = False, tr_preset_route = None, tr_next_hop = None, tr_to_tag = [],
     tr_timers = (\<lambda>_. None), tr_ack = None\<rparr>"

definition transaction_world :: "transaction_class \<Rightarrow> transaction_state \<Rightarrow> world" where
  "transaction_world cls s = (empty_world (\<lambda>_. 0))\<lparr>trs := [0 \<mapsto> sample_transaction cls s], obj_brk := 1,
     prov_client_transactions := [0]\<rparr>"

lemma transaction_world_wf: "wf_world (transaction_world cls s)"
  by (simp add: wf_world_def transaction_world_def empty_world_def ml_inv_def sample_transaction_def)

lemma timer_D_fires:
  "\<exists>w'. core_step watching_env marshal n (transaction_world ICT TR_COMPLETED) w'
     \<and> (\<exists>x. trs w' 0 = Some x \<and> tr_state x = TR_TERMINATED)"
proof -
  have "\<exists>w'. run_callback watching_env (core_iface watching_env marshal n) (CbTimer TimerD 0) 0
      (transaction_world ICT TR_COMPLETED) = Some (w', BELLE_SIP_STOP) \<and> (\<exists>x. trs w' 0 = Some x \<and> tr_state x = TR_TERMINATED)"
    by (simp add: ict_on_timer_D_def transaction_world_def sample_transaction_def belle_sip_transaction_terminate_def live_count_def
        live_def empty_world_def belle_sip_transaction_set_state_def upd_tr_def response_code_def on_terminate_def
        belle_sip_transaction_stop_timer_def belle_sip_provider_set_transaction_terminated_def
        invoke_listeners_for_transaction_def belle_sip_provider_remove_client_transaction_def)
  then show ?thesis using callback[of watching_env marshal n "CbTimer TimerD 0"] unfolding runnable_def by fastforce
qed

text \<open>C8. Whatever messages, timers, channel events and application calls follow one another, every transaction
  keeps its class, its request and its branch, and has only moved along the edges of its machine.\<close>

theorem machine_followed:
  assumes "core_steps E marshal n w w'" and "respectful E" and "wf_world w" and "trs w t = Some x"
  shows "\<exists>x'. trs w' t = Some x' \<and> tr_class x' = tr_class x \<and> tr_request x' = tr_request x
    \<and> tr_branch_id x' = tr_branch_id x \<and> tr_reach (tr_class x) (tr_state x) (tr_state x')"
  using core_steps_evolves[OF assms(1,2)] assms(3,4) unfolding evolves_def tr_le_def by blast

theorem machine_followed_witness:
  "\<exists>w'. core_step watching_env (\<lambda>_ _. None) 1 (transaction_world ICT TR_COMPLETED) w'
     \<and> (\<exists>x'. trs w' 0 = Some x' \<and> tr_class x' = ICT \<and> tr_reach ICT TR_COMPLETED (tr_state x') \<and> tr_state x' = TR_TERMINATED)"
proof -
  obtain w' x where s: "core_step watching_env (\<lambda>_ _. None) 1 (transaction_world ICT TR_COMPLETED) w'"
    "trs w' 0 = Some x" "tr_state x = TR_TERMINATED" using timer_D_fires by blast
  have "trs (transaction_world ICT TR_COMPLETED) 0 = Some (sample_transaction ICT TR_COMPLETED)"
    by (simp add: transaction_world_def)
  from machine_followed[OF r_into_rtranclp[of "core_step watching_env (\<lambda>_ _. None) 1", OF s(1)] watching_respectful transaction_world_wf this]
  show ?thesis using s by (auto simp: sample_transaction_def)
qed


lemma timer_K_late:
  "core_step watching_env marshal n (transaction_world NICT TR_TERMINATED) (transaction_world NICT TR_TERMINATED)"
proof -
  have "run_callback watching_env (core_iface watching_env marshal n) (CbTimer TimerK 0) 0
      (transaction_world NICT TR_TERMINATED) = Some (transaction_world NICT TR_TERMINATED, BELLE_SIP_STOP)"
    by (simp add: nict_on_timer_K_def transaction_world_def sample_transaction_def belle_sip_transaction_terminate_def
        live_count_def live_def empty_world_def)
  then show ?thesis using callback[of watching_env marshal n "CbTimer TimerK 0"] unfolding runnable_def by fastforce
qed



definition sample_dialog :: "dialog_state \<Rightarrow> dialog" where
  "sample_dialog s = \<lparr>dlg_last_out_invite = None, dlg_last_out_ack = None, dlg_last_200Ok = None, dlg_timer_200Ok = None,
     dlg_timer_200Ok_end = None, dlg_state = s, dlg_previous_state = DIALOG_NULL, dlg_call_id = None, dlg_local_party = None,
     dlg_remote_party = None, dlg_route_set = [], dlg_remote_target = None, dlg_local_tag = Some ''l'',
     dlg_remote_tag = Some ''r'', dlg_local_cseq = 0, dlg_remote_cseq = 0, dlg_last_transaction = None,
     dlg_privacy = None, dlg_queued_ct = [], dlg_is_server = False, dlg_is_secure = False,
     dlg_terminate_on_bye = True, dlg_needs_ack = False\<rparr>"

definition dialog_world :: "dialog_state \<Rightarrow> world" where
  "dialog_world s = (empty_world (\<lambda>_. 0))\<lparr>dlgs := [0 \<mapsto> sample_dialog s], obj_brk := 1, prov_dialogs := [0]\<rparr>"

lemma dialog_world_wf: "wf_world (dialog_world s)"
  by (simp add: wf_world_def dialog_world_def empty_world_def ml_inv_def)

lemma delete_early_dialog:
  "\<exists>w'. core_step watching_env marshal n (dialog_world DIALOG_EARLY) w'
     \<and> (\<exists>r. dlgs w' 0 = Some r \<and> dlg_state r = DIALOG_TERMINATED)"
proof -
  have "\<exists>w'. belle_sip_dialog_delete (belle_sip_transaction_terminate watching_env (core_iface watching_env marshal n)) 0
      (dialog_world DIALOG_EARLY) = Some w' \<and> (\<exists>r. dlgs w' 0 = Some r \<and> dlg_state r = DIALOG_TERMINATED)"
    by (simp add: belle_sip_dialog_delete_def belle_sip_dialog_stop_200Ok_retrans_def stop_opt_def dialog_world_def
        sample_dialog_def empty_world_def upd_dlg_def dialog_set_state_def belle_sip_provider_remove_dialog_def
        belle_sip_main_loop_do_later_def belle_sip_main_loop_create_timeout_def belle_sip_source_new_def
        belle_sip_timeout_source_new_def belle_sip_main_loop_add_source_def upd_src_def timeout_set_def Let_def)
  then show ?thesis using delete_dialog by blast
qed


text \<open>C11. In every reachable world the main loop's lists are consistent, and a client transaction whose request has
  not been sent has no response.\<close>

theorem core_invariant:
  assumes "core_steps E marshal n w w'" and "respectful E" and "wf_world w"
  shows "wf_world w' \<and> (\<forall>t x. trs w' t = Some x \<longrightarrow> is_client (tr_class x) \<longrightarrow> tr_state x = TR_INIT \<longrightarrow> tr_last_response x = None)"
  using evolves_wf[OF core_steps_evolves[OF assms(1,2)] assms(3)] unfolding wf_world_def by blast

theorem core_invariant_witness:
  "\<exists>w'. core_step watching_env (\<lambda>_ _. None) 1 (transaction_world ICT TR_COMPLETED) w' \<and> wf_world w'"
  using timer_D_fires core_invariant[OF r_into_rtranclp watching_respectful transaction_world_wf] by blast

end
