(* ===== verification/Terminate.thy ===== *)
theory Terminate
  imports Reachable
begin

text \<open>
  The termination of a transaction: the depth given to its recursion is enough, it ends in
  state TERMINATED, and a transaction without a dialog is cleaned up. \<open>shrinks\<close> is a step that
  brings no transaction to life.
\<close>

section \<open>Steps that bring nothing to life\<close>

definition shrinks :: "world \<Rightarrow> world \<Rightarrow> bool" where
  "shrinks w w' \<longleftrightarrow> (wf_world w \<longrightarrow> wf_world w' \<and> (\<forall>t. live w' t \<longrightarrow> live w t))"

interpretation sh: frame_rel shrinks
  by unfold_locales (simp_all add: shrinks_def)

lemma evolves_shrinks:
  assumes "evolves w w'" and "\<And>t. trs w' t \<noteq> None \<Longrightarrow> trs w t \<noteq> None"
  shows "shrinks w w'"
proof -
  have "live w t" if wf: "wf_world w" and l: "live w' t" for t
  proof -
    obtain x' where x': "trs w' t = Some x'" "tr_state x' \<noteq> TR_TERMINATED" using l by (auto simp: live_def split: option.splits)
    then obtain x where x: "trs w t = Some x" using assms(2) by fastforce
    then have "tr_reach (tr_class x) (tr_state x) (tr_state x')" using assms(1) wf x' unfolding evolves_def tr_le_def by fastforce
    then have "tr_state x \<noteq> TR_TERMINATED" using tr_reach_from_terminated x'(2) by metis
    then show ?thesis using x by (simp add: live_def)
  qed
  then show ?thesis using evolves_wf[OF assms(1)] by (simp add: shrinks_def)
qed

lemma calm_shrinks: "calm w w' \<Longrightarrow> shrinks w w'"
  by (auto simp: calm_def shrinks_def live_def)

lemma sends_shrinks: "sends w w' \<Longrightarrow> shrinks w w'"
  unfolding shrinks_def
proof (intro impI conjI allI)
  assume s: "sends w w'" and wf: "wf_world w"
  then show "wf_world w'" by (simp add: sends_def)
  fix t assume "live w' t"
  moreover have "rel_option sent (trs w t) (trs w' t)" using s wf by (simp add: sends_def)
  ultimately show "live w t" by (cases "trs w t"; cases "trs w' t") (auto simp: live_def sent_def)
qed

lemma keeps_shrinks:
  "keeps calm w m \<Longrightarrow> keeps shrinks w m" "keeps_fst calm w p \<Longrightarrow> keeps_fst shrinks w p" "keeps sends w m \<Longrightarrow> keeps shrinks w m"
  by (auto simp: keeps_def keeps_fst_def calm_shrinks sends_shrinks)

lemma shrinks_upd_dlg [keeps_leaf]: "keeps shrinks w (upd_dlg w d f)"
  by (auto simp: keeps_def shrinks_def live_def wf_world_def ml_inv_def upd_dlg_def split: option.splits)

lemma shrinks_upd_tr: "keeps evolves w (upd_tr w t f) \<Longrightarrow> keeps shrinks w (upd_tr w t f)"
  unfolding keeps_def by (intro allI impI, rule evolves_shrinks) (auto simp: upd_tr_def split: option.splits if_splits)

lemma shrinks_set_terminated: "keeps shrinks w (belle_sip_transaction_set_state t TR_TERMINATED w)"
  unfolding belle_sip_transaction_set_state_def
  by (rule shrinks_upd_tr, rule evolves_set_terminated_state[unfolded belle_sip_transaction_set_state_def])

lemmas shrinks_ops [keeps_leaf] =
  store_ops[THEN quiet_store(1), THEN keeps_calm(1), THEN keeps_shrinks(1)]
  store_fst_ops[THEN quiet_store(2), THEN keeps_calm(2), THEN keeps_shrinks(2)]
  quiet_ops[THEN keeps_calm(2), THEN keeps_shrinks(2)] quiet_plain_ops[THEN keeps_calm(1), THEN keeps_shrinks(1)]
  dialog_calm[THEN keeps_shrinks(1)] dialog_calm_fst[THEN keeps_shrinks(2)]

lemma shrinks_stop_timers [keeps_leaf]: "keeps shrinks w (stop_timers t ns w)"
proof (induction ns arbitrary: w)
  case (Cons n ns)
  show ?case unfolding stop_timers.simps belle_sip_transaction_stop_timer_def
    by (rule keeps_rules Cons.IH keeps_leaf
        | (rule shrinks_upd_tr, rule evolves_upd_tr_field, simp; fail) | rule keeps_read)+
qed (simp add: sh.keeps_Some)

lemma shrinks_on_terminate [keeps_leaf]: "keeps shrinks w (on_terminate t w)"
  unfolding on_terminate_def
  by (rule keeps_rules keeps_leaf | (rule shrinks_upd_tr, rule evolves_upd_tr_field, simp; fail) | rule keeps_read)+

section \<open>The update of a dialog with a terminating recursion\<close>

lemma shrinks_update_early [keeps_leaf]: "keeps_fst shrinks w (update_early d req resp code me w)"
  unfolding update_early_def belle_sip_dialog_establish_full_def by (rule keeps_rules keeps_leaf keeps_read)+

lemma shrinks_update_null [keeps_leaf]: "keeps_fst shrinks w (update_null d req resp code me w)"
  unfolding update_null_def by (rule keeps_rules keeps_leaf keeps_read)+

lemma shrinks_update_confirmed:
  assumes "\<And>m w. keeps sends w (send m w)"
  shows "keeps_fst shrinks w (update_confirmed send d req resp code me t uas w)"
  unfolding update_confirmed_def belle_sip_dialog_handle_200Ok_def
  by (rule keeps_rules keeps_shrinks(3)[OF assms] keeps_leaf keeps_read)+

text \<open>
  Two ways to terminate that agree on the worlds reached give the same update. The rules follow
  the operation as those of \<open>keeps\<close> do.
\<close>

definition agree :: "nat \<Rightarrow> (nat \<Rightarrow> world \<Rightarrow> world option) \<Rightarrow> (nat \<Rightarrow> world \<Rightarrow> world option) \<Rightarrow> bool" where
  "agree n f g \<longleftrightarrow> (\<forall>t w. wf_world w \<and> live_count w \<le> n \<longrightarrow> f t w = g t w)"

lemma live_below: "wf_world w \<Longrightarrow> live w t \<Longrightarrow> t < obj_brk w"
  by (auto simp: wf_world_def live_def split: option.splits)

lemma live_count_card: "wf_world w \<Longrightarrow> live_count w = card {t. live w t}"
proof -
  assume wf: "wf_world w"
  have "{t. live w t} = set (filter (live w) [0..<obj_brk w])" using live_below[OF wf] by auto
  then show ?thesis by (metis distinct_card distinct_filter distinct_upt live_count_def)
qed

lemma live_finite: "wf_world w \<Longrightarrow> finite {t. live w t}"
  by (rule finite_subset[of _ "{..<obj_brk w}"]) (auto dest: live_below)

lemma shrinks_count: "shrinks w w' \<Longrightarrow> wf_world w \<Longrightarrow> live_count w' \<le> live_count w"
  using live_finite[of w] by (auto simp: shrinks_def live_count_card intro!: card_mono)

lemma agree_terminate_all:
  assumes a: "agree n f g" and f: "\<And>t w. keeps shrinks w (f t w)" and wf: "wf_world w" and c: "live_count w \<le> n"
  shows "terminate_all f ts w = terminate_all g ts w"
  using wf c
proof (induction ts arbitrary: w)
  case (Cons t ts)
  have eq: "f t w = g t w" using a Cons.prems by (simp add: agree_def)
  show ?case
  proof (cases "f t w")
    case (Some w1)
    then have s: "shrinks w w1" using f keepsD by blast
    then have "wf_world w1" "live_count w1 \<le> n" using Cons.prems shrinks_count[OF s] by (auto simp: shrinks_def)
    then show ?thesis using Cons.IH Some eq by simp
  qed (use eq in simp)
qed simp

lemma bind_agree:
  assumes "wf_world w" and "live_count w \<le> n" and "keeps shrinks w m"
    and "\<And>w'. wf_world w' \<Longrightarrow> live_count w' \<le> n \<Longrightarrow> f w' = g w'"
  shows "m \<bind> f = m \<bind> g"
proof (cases m)
  case (Some w')
  then have "shrinks w w'" using assms(3) by (simp add: keeps_def)
  then show ?thesis using assms(1,2,4) shrinks_count[of w w'] Some by (auto simp: shrinks_def)
qed simp

lemma bind_agree_pair:
  assumes "wf_world w" and "live_count w \<le> n" and "keeps_fst shrinks w m"
    and "\<And>w' a. wf_world w' \<Longrightarrow> live_count w' \<le> n \<Longrightarrow> f (w', a) = g (w', a)"
  shows "m \<bind> f = m \<bind> g"
proof (cases m)
  case (Some p)
  then have "shrinks w (fst p)" using assms(3) by (cases p) (simp add: keeps_fst_def)
  then show ?thesis using assms(1,2) assms(4)[of "fst p" "snd p"] shrinks_count[of w "fst p"] Some by (auto simp: shrinks_def)
qed simp

lemma agree_dialog_delete:
  assumes a: "agree n f g" and f: "\<And>t w. keeps shrinks w (f t w)" and wf: "wf_world w" and c: "live_count w \<le> n"
  shows "belle_sip_dialog_delete f d w = belle_sip_dialog_delete g d w"
proof -
  have 1: "do { r \<leftarrow> dlgs w d; w \<leftarrow> terminate_all f (dlg_queued_ct r) w; h w }
      = do { r \<leftarrow> dlgs w d; w \<leftarrow> terminate_all g (dlg_queued_ct r) w; h w }"
    if "wf_world w" "live_count w \<le> n" for w and h :: "world \<Rightarrow> world option"
    using agree_terminate_all[OF a f that] by simp
  show ?thesis
    unfolding belle_sip_dialog_delete_def
    by (rule bind_agree[OF wf c], rule keeps_leaf, rule bind_agree, assumption, assumption, rule keeps_leaf, rule 1)
qed

lemma agree_dialog_update:
  assumes a: "agree n f g" and f: "\<And>t w. keeps shrinks w (f t w)" and s: "\<And>m w. keeps sends w (send m w)"
    and wf: "wf_world w" and c: "live_count w \<le> n"
  shows "belle_sip_dialog_update f send d t uas w = belle_sip_dialog_update g send d t uas w"
proof -
  have last: "(\<lambda>(w, delete, again). if again then Some (w, True)
      else do { w \<leftarrow> (if delete then belle_sip_dialog_delete f d w else belle_sip_dialog_process_queue d w); Some (w, False) }) (w, da)
     = (\<lambda>(w, delete, again). if again then Some (w, True)
      else do { w \<leftarrow> (if delete then belle_sip_dialog_delete g d w else belle_sip_dialog_process_queue d w); Some (w, False) }) (w, da)"
    if "wf_world w" "live_count w \<le> n" for w da
    using agree_dialog_delete[OF a f that] by (cases da) simp
  have switch: "keeps_fst shrinks w (case dlg_state r of
          DIALOG_NULL \<Rightarrow> do { (w, del) \<leftarrow> update_null d req resp code me w; Some (w, del, False) }
        | DIALOG_EARLY \<Rightarrow> do { (w, del) \<leftarrow> update_early d req resp code me w; Some (w, del, False) }
        | DIALOG_CONFIRMED \<Rightarrow> update_confirmed send d req resp code me t uas w
        | DIALOG_TERMINATED \<Rightarrow> Some (w, False, False))" for w req resp code me r
    by (cases "dlg_state r") (auto intro!: sh.keeps_fst_bind_pair sh.keeps_fst_Some shrinks_update_null shrinks_update_early
        shrinks_update_confirmed s)
  have priv: "keeps shrinks w (if b then do { p \<leftarrow> belle_sip_message_get_header_by_type w req is_HPrivacy;
                     upd_dlg w d (\<lambda>r. r\<lparr>dlg_privacy := p\<rparr>) } else Some w)" for b w req
    by (rule keeps_rules keeps_leaf keeps_read)+
  have cseq: "keeps shrinks w (if b then do { h \<leftarrow> belle_sip_message_get_header_by_type w req is_HCSeq; h \<leftarrow> h; n \<leftarrow> cseq_number w h;
                     upd_dlg w d (\<lambda>r. r\<lparr>dlg_remote_cseq := n\<rparr>) } else Some w)" for b w req
    by (rule keeps_rules keeps_leaf keeps_read)+
  show ?thesis
    unfolding belle_sip_dialog_update_def Let_def
    by (rule Option.bind_cong[OF refl], rule bind_agree[OF wf c], rule keeps_leaf, rule bind_agree, assumption, assumption, rule priv,
        rule Option.bind_cong[OF refl], rule bind_agree, assumption, assumption, rule cseq, rule Option.bind_cong[OF refl],
        rule Option.bind_cong[OF refl], rule bind_agree_pair, assumption, assumption, rule switch, rule last)
qed

section \<open>The depth is enough\<close>

text \<open>Listeners that start no new transaction while they are told of an end.\<close>

definition shrinking :: "env \<Rightarrow> bool" where
  "shrinking E \<longleftrightarrow> (\<forall>l ev w. keeps shrinks w (app E l ev w))"

lemma shrinks_set_transaction_terminated:
  assumes E: "shrinking E"
  shows "keeps shrinks w (belle_sip_provider_set_transaction_terminated E t w)"
proof -
  have 1: "keeps shrinks w (invoke_listeners E ls ev w)" for ls ev w
    using E by (induction ls arbitrary: w) (auto intro!: sh.keeps_Some sh.keeps_bind simp: shrinking_def)
  have last: "keeps shrinks w (Some (if b then belle_sip_provider_remove_server_transaction t w
           else belle_sip_provider_remove_client_transaction t w))" for w b
    by (auto simp: keeps_def belle_sip_provider_remove_server_transaction_def shrinks_def live_def wf_world_def ml_inv_def
        belle_sip_provider_remove_client_transaction_def)
  show ?thesis
    unfolding belle_sip_provider_set_transaction_terminated_def invoke_listeners_for_transaction_def
    by (rule keeps_rules keeps_leaf 1 last | rule keeps_read)+
qed

lemma shrinks_dialog_update:
  assumes f: "\<And>t w. keeps shrinks w (f t w)" and s: "\<And>m w. keeps sends w (send m w)"
  shows "keeps_fst shrinks w (belle_sip_dialog_update f send d t uas w)"
proof -
  have all: "keeps shrinks w (terminate_all f ts w)" for ts w
    by (induction ts arbitrary: w) (auto intro!: sh.keeps_Some sh.keeps_bind f)
  have switch: "keeps_fst shrinks w (case s of DIALOG_NULL \<Rightarrow> a | DIALOG_EARLY \<Rightarrow> b | DIALOG_CONFIRMED \<Rightarrow> c | DIALOG_TERMINATED \<Rightarrow> e)"
    if "keeps_fst shrinks w a" "keeps_fst shrinks w b" "keeps_fst shrinks w c" "keeps_fst shrinks w e"
    for s w and a b c e :: "(world \<times> bool \<times> bool) option"
    using that by (cases s) simp_all
  show ?thesis
    unfolding belle_sip_dialog_update_def belle_sip_dialog_delete_def
    by (rule switch keeps_rules keeps_leaf shrinks_update_confirmed[OF s] all | rule keeps_read)+
qed

lemma shrinks_terminate_n:
  assumes E: "shrinking E" and I: "channel_client I"
  shows "keeps shrinks w (terminate_n E I n t w)"
proof (induction n arbitrary: t w)
  case 0
  show ?case by (auto simp: keeps_def Option.bind_eq_Some_conv sh.refl split: if_splits)
next
  case (Suc n)
  show ?case
    unfolding terminate_n.simps
    by (rule keeps_rules keeps_leaf shrinks_set_transaction_terminated[OF E] shrinks_set_terminated
        shrinks_dialog_update[OF Suc channel_client.provider_send_request_sends[OF I]] | rule keeps_read)+
qed

lemma live_count_less:
  assumes wf: "wf_world w" and x: "trs w t = Some x" "tr_state x \<noteq> TR_TERMINATED"
    and w1: "belle_sip_transaction_set_state t TR_TERMINATED w = Some w1"
  shows "wf_world w1 \<and> live_count w1 < live_count w"
proof -
  have s: "shrinks w w1" using keepsD[OF shrinks_set_terminated w1] .
  then have wf1: "wf_world w1" using wf by (simp add: shrinks_def)
  have "live w t" using x by (simp add: live_def)
  moreover have "\<not> live w1 t" using w1 x by (auto simp: belle_sip_transaction_set_state_def upd_tr_def live_def)
  moreover have "{t. live w1 t} \<subseteq> {t. live w t}" using s wf by (auto simp: shrinks_def)
  ultimately have "{t. live w1 t} \<subset> {t. live w t}" by blast
  then show ?thesis using wf1 live_finite[OF wf] by (simp add: live_count_card wf psubset_card_mono)
qed

lemma terminate_n_Suc:
  assumes E: "shrinking E" and I: "channel_client I"
  shows "wf_world w \<Longrightarrow> live_count w \<le> n \<Longrightarrow> terminate_n E I n t w = terminate_n E I (Suc n) t w"
proof (induction n arbitrary: t w)
  case 0
  then have "\<not> live w t" using live_finite[of w] by (auto simp: live_count_card)
  then show ?case by (cases "trs w t") (auto simp: live_def)
next
  case (Suc n)
  show ?case
  proof (cases "live w t")
    case False
    then show ?thesis by (cases "trs w t") (auto simp: live_def)
  next
    case True
    then obtain x where x: "trs w t = Some x" "tr_state x \<noteq> TR_TERMINATED" by (auto simp: live_def split: option.splits)
    have agree: "agree n (terminate_n E I n) (terminate_n E I (Suc n))"
      unfolding agree_def using Suc.IH by blast
    define rest where "rest f w1 = do { code \<leftarrow> response_code w1 (tr_last_response x);
            w \<leftarrow> (case tr_dialog x of None \<Rightarrow> Some w1
              | Some d \<Rightarrow> (if tr_last_response x = None \<or> code < 200
                   then map_option fst (belle_sip_dialog_update f
                          (belle_sip_provider_send_request E I) d t (\<not> is_client (tr_class x)) w1)
                   else Some w1));
            w \<leftarrow> on_terminate t w; belle_sip_provider_set_transaction_terminated E t w }" for f w1
    have step: "terminate_n E I (Suc k) t w = belle_sip_transaction_set_state t TR_TERMINATED w \<bind> rest (terminate_n E I k)" for k
      unfolding rest_def using x by (simp cong: if_cong option.case_cong)
    have "rest (terminate_n E I n) w1 = rest (terminate_n E I (Suc n)) w1"
      if w1: "belle_sip_transaction_set_state t TR_TERMINATED w = Some w1" for w1
    proof -
      have l: "wf_world w1" "live_count w1 \<le> n" using live_count_less[OF Suc.prems(1) x w1] Suc.prems(2) by simp_all
      show ?thesis
        using agree_dialog_update[OF agree shrinks_terminate_n[OF E I] channel_client.provider_send_request_sends[OF I] l]
        by (simp add: rest_def cong: option.case_cong if_cong)
    qed
    then show ?thesis unfolding step by (rule Option.bind_cong[OF refl])
  qed
qed


lemma watching_shrinking: "shrinking watching_env"
  by (simp add: shrinking_def watching_env_def sh.keeps_Some)


section \<open>What it does\<close>

lemma terminate_state:
  assumes E: "respectful E" and I: "channel_client I" and wf: "wf_world w" and x: "trs w t = Some x"
    and r: "terminate_n E I n t w = Some w'"
  shows "\<exists>x'. trs w' t = Some x' \<and> tr_state x' = TR_TERMINATED"
proof (cases "tr_state x = TR_TERMINATED")
  case True
  then show ?thesis using x r by (cases n) auto
next
  case False
  then obtain k where n: "n = Suc k" using x r by (cases n) auto
  obtain w1 where w1: "belle_sip_transaction_set_state t TR_TERMINATED w = Some w1"
    using r x False by (auto simp: n Option.bind_eq_Some_conv)
  have e: "evolves w w1" using keepsD[OF evolves_set_terminated_state w1] .
  have "keeps evolves w1 (do { code \<leftarrow> response_code w1 (tr_last_response x);
            w \<leftarrow> (case tr_dialog x of None \<Rightarrow> Some w1
              | Some d \<Rightarrow> (if tr_last_response x = None \<or> code < 200
                   then map_option fst (belle_sip_dialog_update (terminate_n E I k)
                          (belle_sip_provider_send_request E I) d t (\<not> is_client (tr_class x)) w1)
                   else Some w1));
            w \<leftarrow> on_terminate t w; belle_sip_provider_set_transaction_terminated E t w })"
    by (rule keeps_rules keeps_leaf evolves_set_terminated[OF E]
        evolves_dialog_update[OF evolves_terminate_n[OF E I] channel_client.provider_send_request_sends[OF I]] | rule keeps_read)+
  then have "evolves w1 w'" using r x False w1 by (simp add: n keeps_def)
  moreover have "wf_world w1" using e wf evolves_wf by blast
  moreover have "trs w1 t = Some (x\<lparr>tr_state := TR_TERMINATED\<rparr>)"
    using w1 x by (auto simp: belle_sip_transaction_set_state_def upd_tr_def)
  ultimately obtain x' where "trs w' t = Some x'" "tr_reach (tr_class x) TR_TERMINATED (tr_state x')"
    unfolding evolves_def tr_le_def by fastforce
  then show ?thesis using tr_reach_from_terminated by blast
qed

text \<open>An application that only watches: its listeners change nothing.\<close>

definition watching :: "env \<Rightarrow> bool" where
  "watching E \<longleftrightarrow> (\<forall>l ev w. app E l ev w = Some w)"

lemma watching_listeners: "watching E \<Longrightarrow> invoke_listeners E ls ev w = Some w"
  by (induction ls) (simp_all add: watching_def)

text \<open>The timers of a class are all stopped.\<close>

lemma stop_timer_returns:
  assumes wf: "wf_world w" and x: "trs w t = Some x"
  shows "\<exists>w'. belle_sip_transaction_stop_timer t n w = Some w' \<and> wf_world w'
     \<and> trs w' t = Some (x\<lparr>tr_timers := (tr_timers x)(n := None)\<rparr>)
     \<and> prov_client_transactions w' = prov_client_transactions w \<and> prov_server_transactions w' = prov_server_transactions w"
proof (cases "tr_timers x n")
  case None
  then show ?thesis using assms by (auto simp: belle_sip_transaction_stop_timer_def fun_upd_idem)
next
  case (Some s)
  obtain v where v: "belle_sip_main_loop_remove_source w s = Some v" "loop_only w v"
    using remove_source_frame[of w s] wf by (auto simp: wf_world_def)
  then have "trs v t = Some x" "prov_client_transactions v = prov_client_transactions w"
    "prov_server_transactions v = prov_server_transactions w" using x by (auto simp: loop_only_def)
  moreover have "wf_world w'" if "belle_sip_transaction_stop_timer t n w = Some w'" for w'
    using keepsD[OF evolves_stop_timer that] wf evolves_wf by blast
  ultimately show ?thesis using x Some v by (auto simp: belle_sip_transaction_stop_timer_def upd_tr_def)
qed

lemma stop_timers_returns:
  assumes "wf_world w" and "trs w t = Some x"
  shows "\<exists>w'. stop_timers t ns w = Some w' \<and> wf_world w'
     \<and> trs w' t = Some (x\<lparr>tr_timers := (\<lambda>n. if n \<in> set ns then None else tr_timers x n)\<rparr>)
     \<and> prov_client_transactions w' = prov_client_transactions w \<and> prov_server_transactions w' = prov_server_transactions w"
  using assms
proof (induction ns arbitrary: w x)
  case (Cons n ns)
  obtain v where v: "belle_sip_transaction_stop_timer t n w = Some v" "wf_world v"
     "trs v t = Some (x\<lparr>tr_timers := (tr_timers x)(n := None)\<rparr>)"
     "prov_client_transactions v = prov_client_transactions w" "prov_server_transactions v = prov_server_transactions w"
    using stop_timer_returns[OF Cons.prems] by blast
  have eq: "(\<lambda>k. if k \<in> set ns then None else tr_timers (x\<lparr>tr_timers := (tr_timers x)(n := None)\<rparr>) k)
      = (\<lambda>k. if k \<in> set (n # ns) then None else tr_timers x k)"
    by auto
  show ?case using Cons.IH[OF v(2,3), unfolded eq] v by simp
qed simp

lemma on_terminate_returns:
  assumes wf: "wf_world w" and x: "trs w t = Some x"
  shows "\<exists>w' x'. on_terminate t w = Some w' \<and> wf_world w' \<and> trs w' t = Some x' \<and> tr_class x' = tr_class x
     \<and> tr_state x' = tr_state x \<and> (\<forall>n\<in>set (class_timers (tr_class x)). tr_timers x' n = None)
     \<and> prov_client_transactions w' = prov_client_transactions w \<and> prov_server_transactions w' = prov_server_transactions w"
proof -
  obtain v where v: "stop_timers t (class_timers (tr_class x)) w = Some v"
     "trs v t = Some (x\<lparr>tr_timers := (\<lambda>n. if n \<in> set (class_timers (tr_class x)) then None else tr_timers x n)\<rparr>)"
     "prov_client_transactions v = prov_client_transactions w" "prov_server_transactions v = prov_server_transactions w"
    using stop_timers_returns[OF assms] by blast
  have wf': "wf_world w'" if "on_terminate t w = Some w'" for w'
    using keepsD[OF evolves_on_terminate that] wf evolves_wf by blast
  show ?thesis
    using x v wf' by (cases "tr_class x = ICT") (auto simp: on_terminate_def upd_tr_def)
qed

lemma terminate_returns:
  assumes E: "watching E" and wf: "wf_world w" and x: "trs w t = Some x" and d: "tr_dialog x = None"
    and s: "tr_state x \<noteq> TR_TERMINATED" and r: "response_code w (tr_last_response x) \<noteq> None"
  shows "\<exists>w' x'. belle_sip_transaction_terminate E I t w = Some w' \<and> trs w' t = Some x' \<and> tr_state x' = TR_TERMINATED
    \<and> (\<forall>n\<in>set (class_timers (tr_class x)). tr_timers x' n = None)
    \<and> (if is_client (tr_class x) then prov_client_transactions w' = remove1 t (prov_client_transactions w)
       else prov_server_transactions w' = remove1 t (prov_server_transactions w))"
proof -
  have "live w t" using x s by (simp add: live_def)
  then have "0 < live_count w" using live_finite[OF wf] by (auto simp: live_count_card[OF wf] card_gt_0_iff)
  then obtain n where n: "live_count w = Suc n" by (cases "live_count w") auto
  obtain w1 where w1: "belle_sip_transaction_set_state t TR_TERMINATED w = Some w1"
    "w1 = w\<lparr>trs := (trs w)(t \<mapsto> x\<lparr>tr_state := TR_TERMINATED\<rparr>)\<rparr>"
    using x by (simp add: belle_sip_transaction_set_state_def upd_tr_def)
  have wf1: "wf_world w1" using keepsD[OF evolves_set_terminated_state w1(1)] wf evolves_wf by blast
  have x1: "trs w1 t = Some (x\<lparr>tr_state := TR_TERMINATED\<rparr>)" using w1(2) by simp
  obtain v x2 where v: "on_terminate t w1 = Some v" "wf_world v" "trs v t = Some x2" "tr_class x2 = tr_class x"
     "tr_state x2 = TR_TERMINATED" "prov_client_transactions v = prov_client_transactions w1"
     "prov_server_transactions v = prov_server_transactions w1"
    using on_terminate_returns[OF wf1 x1] by auto
  obtain u x3 where u: "on_terminate t v = Some u" "trs u t = Some x3" "tr_class x3 = tr_class x"
     "tr_state x3 = TR_TERMINATED" "\<forall>n\<in>set (class_timers (tr_class x)). tr_timers x3 n = None"
     "prov_client_transactions u = prov_client_transactions v" "prov_server_transactions u = prov_server_transactions v"
    using on_terminate_returns[OF v(2,3)] v by auto
  obtain code where "response_code w (tr_last_response x) = Some code" using r by auto
  then have code: "response_code w1 (tr_last_response x) = Some code"
    using w1(2) by (simp add: response_code_def split: option.splits)
  show ?thesis
    using x s d w1 v u code
    by (simp add: belle_sip_transaction_terminate_def n belle_sip_provider_set_transaction_terminated_def
        invoke_listeners_for_transaction_def watching_listeners[OF E] belle_sip_provider_remove_server_transaction_def
        belle_sip_provider_remove_client_transaction_def)
qed



end
