(* ===== verification/Outbox.thy ===== *)
theory Outbox
  imports ChannelSend Terminate
begin

text \<open>
  What the handlers of the four machines do exactly, when the channel of the transaction is ready, idle
  and accepts what it is given: the bytes they write, the timers they arm, the state they leave.
\<close>

section \<open>Ready transactions\<close>

text \<open>A transaction on channel \<open>c\<close>, ready to send.\<close>

definition ready_on :: "world \<Rightarrow> nat \<Rightarrow> transaction \<Rightarrow> nat \<Rightarrow> bool" where
  "ready_on w t x c \<longleftrightarrow> trs w t = Some x \<and> tr_channel x = Some c \<and> idle_channel w c [] \<and> \<not> 0 < sint (cfg_tx_delay w)"

lemma queue_on_ready:
  assumes a: "accepting E I c txt" and r: "ready_on w t x c" and m: "sendable w m"
  shows "\<exists>w'. queue_on_channel E I t m w = Some w' \<and> idle_channel w' c [] \<and> wire w' = wire w @ [(c, txt m)]
     \<and> io_only c w w'"
proof -
  obtain q where q: "chans w c = Some q" "ch_state q = CHANNEL_READY" "ch_out_state q = OUTPUT_STREAM_IDLE"
      "ch_ewouldblock_buffer q = None" "ch_outgoing_messages q = []" and k: "timer_known w c" and e: "cfg_send_error w = 0"
    using r unfolding ready_on_def idle_channel_def by blast
  define w0 where "w0 = w\<lparr>chans := (chans w)(c \<mapsto> q\<lparr>ch_outgoing_messages := [m]\<rparr>)\<rparr>"
  have "timer_known w0 c" unfolding w0_def by (rule timer_known_upd[OF k q(1)]) simp
  then have i: "idle_channel w0 c [m]" using q e by (simp add: idle_channel_def w0_def)
  have m0: "\<forall>m\<in>set [m]. sendable w0 m" using m sendable_mono[of w0 w m] by (simp add: w0_def)
  obtain w' where w': "channel_process_queue E I c w0 = Some w'" "idle_channel w' c []"
    "wire w' = wire w0 @ [(c, txt m)]" "io_only c w0 w'"
    using process_queue_accepting[OF a i m0] by auto
  have "io_only c w w0" unfolding w0_def by (rule io_only_chan[OF q(1)]) simp_all
  then have "io_only c w w'" using w'(4) io_only_trans by blast
  moreover have "queue_on_channel E I t m w = Some w'"
    using r q w'(1) by (simp add: queue_on_channel_def ready_on_def belle_sip_channel_queue_message_def queue_message_def w0_def)
  ultimately show ?thesis using w' by (auto simp: w0_def)
qed

text \<open>A timer of a transaction that runs with a period.\<close>

definition armed :: "world \<Rightarrow> nat \<Rightarrow> timer_name \<Rightarrow> 32 word \<Rightarrow> bool" where
  "armed w t n v \<longleftrightarrow> (\<exists>x s r. trs w t = Some x \<and> tr_timers x n = Some s \<and> ml_src w s = Some r \<and> s \<in> set (ml_sources w)
     \<and> src_cb r = CbTimer n t \<and> src_timeout r = v \<and> \<not> src_cancelled r \<and> src_expire_ms r = ml_time w + ucast v)"

lemma start_timer_arms:
  assumes inv: "ml_inv w" and x: "trs w t = Some x" and v: "0 \<le> sint v"
  shows "\<exists>w' s. belle_sip_transaction_start_timer t n v w = Some w' \<and> armed w' t n v \<and> ml_inv w'
     \<and> trs w' = (trs w)(t \<mapsto> x\<lparr>tr_timers := (tr_timers x)(n \<mapsto> s)\<rparr>) \<and> chans w' = chans w \<and> wire w' = wire w
     \<and> msgs w' = msgs w \<and> hdrs w' = hdrs w \<and> cfg_T1 w' = cfg_T1 w \<and> cfg_T4 w' = cfg_T4 w \<and> cfg_send_error w' = cfg_send_error w
     \<and> cfg_tx_delay w' = cfg_tx_delay w \<and> (\<forall>s'. ml_src w s' \<noteq> None \<longrightarrow> ml_src w' s' = ml_src w s')
     \<and> (\<forall>s'. ml_src w s' \<noteq> None \<longrightarrow> (s' \<in> set (ml_sources w') \<longleftrightarrow> s' \<in> set (ml_sources w))) \<and> ml_time w' = ml_time w
     \<and> ml_src w s = None"
proof -
  have f: "ml_brk w \<notin> set (ml_sources w)" "ml_src w (ml_brk w) = None" using inv by (auto simp: ml_inv_def)
  define r where "r = \<lparr>src_cb = CbTimer n t, src_id = ml_global_id w, src_has_fd = False, src_timeout = v,
     src_expire_ms = ml_time w + ucast v, src_revents = 0, src_cancelled = False, src_expired = False,
     src_oneshot = False, src_notify_required = False\<rparr>"
  define w' where "w' = w\<lparr>ml_src := (ml_src w)(ml_brk w \<mapsto> r), ml_sources := ml_sources w @ [ml_brk w],
     ml_brk := Suc (ml_brk w), ml_global_id := Suc (ml_global_id w), trs := (trs w)(t \<mapsto> x\<lparr>tr_timers := (tr_timers x)(n \<mapsto> ml_brk w)\<rparr>)\<rparr>"
  have "belle_sip_transaction_start_timer t n v w = Some w'"
    using f x v by (simp add: belle_sip_transaction_start_timer_def belle_sip_main_loop_create_timeout_def
        belle_sip_timeout_source_new_def belle_sip_source_new_def belle_sip_main_loop_add_source_def upd_src_def
        upd_tr_def Let_def timeout_set_def w'_def r_def)
  moreover have "armed w' t n v" by (simp add: armed_def w'_def r_def)
  moreover have "ml_inv w'" using inv f by (auto simp: ml_inv_def w'_def less_Suc_eq)
  ultimately show ?thesis using f by (intro exI[of _ w'] exI[of _ "ml_brk w"]) (auto simp: w'_def)
qed

text \<open>What a channel writes disturbs no armed timer, except its own inactivity timer.\<close>

lemma armed_io:
  assumes "armed w t n v" and "io_only c w w'" and "\<And>x. trs w t = Some x \<Longrightarrow> tr_timers x n \<noteq> inactivity_of w c"
  shows "armed w' t n v"
proof -
  obtain x s r where a: "trs w t = Some x" "tr_timers x n = Some s" "ml_src w s = Some r" "s \<in> set (ml_sources w)"
     "src_cb r = CbTimer n t \<and> src_timeout r = v \<and> \<not> src_cancelled r \<and> src_expire_ms r = ml_time w + ucast v"
    using assms(1) unfolding armed_def by blast
  have "inactivity_of w c \<noteq> Some s" using assms(3)[OF a(1)] a(2) by auto
  then have "ml_src w' s = Some r" "s \<in> set (ml_sources w')"
    using assms(2) a(3,4) unfolding io_only_def by (metis option.distinct(1))+
  moreover have "trs w' t = Some x" "ml_time w' = ml_time w" using io_only_same[OF assms(2)] a(1) by simp_all
  ultimately show ?thesis using a unfolding armed_def by auto
qed

lemma idle_channel_frame:
  assumes "idle_channel w c q" and "chans w' = chans w" and "cfg_send_error w' = cfg_send_error w" and "ml_inv w'"
    and "\<And>s. ml_src w s \<noteq> None \<Longrightarrow> ml_src w' s \<noteq> None"
  shows "idle_channel w' c q"
  using assms by (auto simp: idle_channel_def timer_known_def split: option.splits)

lemma idle_inv: "idle_channel w c q \<Longrightarrow> ml_inv w"
  by (simp add: idle_channel_def timer_known_def)

end
