(* ===== verification/Machines.thy ===== *)
theory Machines
  imports Outbox
begin

text \<open>
  The steps of the server machines on a ready channel: retransmissions, final responses and the ACK.
  Each statement gives the bytes written, the state reached and the timers armed.
\<close>

section \<open>Requests that come again\<close>

lemma retransmit_ready:
  assumes a: "accepting E I c txt" and r: "ready_on w t x c" and l: "tr_last_response x = Some resp" and m: "sendable w resp"
  shows "if tr_state x = TR_PROCEEDING \<or> tr_state x = TR_COMPLETED
     then \<exists>w'. retransmit_last_response E I t w = Some w' \<and> wire w' = wire w @ [(c, txt resp)] \<and> io_only c w w'
     else retransmit_last_response E I t w = Some w"
  using queue_on_ready[OF a r m] r l by (auto simp: retransmit_last_response_def ready_on_def)


text \<open>A world with one transaction on a ready channel; messages 1 and 2 can be sent.\<close>

definition on_channel :: "transaction \<Rightarrow> world" where
  "on_channel x = (sample_world (sample_channel\<lparr>ch_outgoing_messages := []\<rparr>))\<lparr>trs := [0 \<mapsto> x\<lparr>tr_channel := Some 0\<rparr>], obj_brk := 1\<rparr>"

lemma on_channel_ready: "ready_on (on_channel x) 0 (x\<lparr>tr_channel := Some 0\<rparr>) 0"
  by (simp add: ready_on_def on_channel_def idle_channel_def timer_known_def sample_world_def sample_channel_def
      empty_world_def ml_inv_def)

lemma on_channel_sendable: "m \<in> {1, 2} \<Longrightarrow> sendable (on_channel x) m"
  using sendable_sample[of m "sample_channel\<lparr>ch_outgoing_messages := []\<rparr>"]
  by (simp add: on_channel_def sendable_def belle_sip_message_get_header_by_type_def belle_sip_message_get_all_headers_def)

lemma on_channel_msgs: "msgs (on_channel x) 1 = Some sample_msg"
  by (simp add: on_channel_def sample_world_def)


section \<open>Responses of the INVITE server transaction\<close>

lemma armed_start:
  assumes "armed w t n v" and "n \<noteq> n'" and "trs w t = Some x"
    and "trs w' = (trs w)(t \<mapsto> x\<lparr>tr_timers := (tr_timers x)(n' \<mapsto> s)\<rparr>)"
    and "\<forall>s'. ml_src w s' \<noteq> None \<longrightarrow> ml_src w' s' = ml_src w s'"
    and "\<forall>s'. ml_src w s' \<noteq> None \<longrightarrow> (s' \<in> set (ml_sources w') \<longleftrightarrow> s' \<in> set (ml_sources w))" and "ml_time w' = ml_time w"
  shows "armed w' t n v"
  using assms unfolding armed_def by fastforce

definition set_tr_state :: "transaction_state \<Rightarrow> transaction \<Rightarrow> transaction" where
  "set_tr_state s x = x\<lparr>tr_state := s\<rparr>"

lemma set_state_eq:
  "trs w t = Some x \<Longrightarrow> belle_sip_transaction_set_state t s w = Some (w\<lparr>trs := (trs w)(t \<mapsto> set_tr_state s x)\<rparr>)"
  by (simp add: belle_sip_transaction_set_state_def upd_tr_def set_tr_state_def)

lemma ml_inv_trs [simp]: "ml_inv (w\<lparr>trs := f\<rparr>) = ml_inv (w :: world)"
  by (simp add: ml_inv_def)

text \<open>The timers that follow a final response.\<close>

lemma ist_accepted_step:
  assumes inv: "ml_inv w" and x: "trs w t = Some x" and T: "0 \<le> sint (64 * cfg_T1 w)"
  shows "\<exists>w' x'. (do { w \<leftarrow> belle_sip_transaction_set_state t TR_ACCEPTED w;
        belle_sip_transaction_start_timer t TimerL (64 * cfg_T1 w) w }) = Some w'
     \<and> trs w' t = Some x' \<and> tr_state x' = TR_ACCEPTED \<and> armed w' t TimerL (64 * cfg_T1 w) \<and> wire w' = wire w"
proof -
  let ?w = "w\<lparr>trs := (trs w)(t \<mapsto> set_tr_state TR_ACCEPTED x)\<rparr>"
  have "ml_inv ?w" "trs ?w t = Some (set_tr_state TR_ACCEPTED x)" "0 \<le> sint (64 * cfg_T1 ?w)" using inv T by simp_all
  from start_timer_arms[OF this, of TimerL] show ?thesis
    by (auto simp: set_state_eq[OF x]) (auto simp: set_tr_state_def)
qed

lemma ist_completed_step:
  assumes inv: "ml_inv w" and x: "trs w t = Some x" and T: "0 \<le> sint (64 * cfg_T1 w)" "0 \<le> sint (cfg_T1 w)"
    and c: "tr_channel x = Some c" "chans w c = Some q"
  shows "\<exists>w' x'. (do { w \<leftarrow> belle_sip_transaction_set_state t TR_COMPLETED w; reliable \<leftarrow> channel_reliable t w;
        w \<leftarrow> (if \<not> reliable then belle_sip_transaction_start_timer t TimerG (cfg_T1 w) w else Some w);
        belle_sip_transaction_start_timer t TimerH (64 * cfg_T1 w) w }) = Some w'
     \<and> trs w' t = Some x' \<and> tr_state x' = TR_COMPLETED \<and> armed w' t TimerH (64 * cfg_T1 w)
     \<and> (if ch_reliable q then tr_timers x' TimerG = tr_timers x TimerG else armed w' t TimerG (cfg_T1 w)) \<and> wire w' = wire w"
proof -
  let ?x = "set_tr_state TR_COMPLETED x" and ?w = "w\<lparr>trs := (trs w)(t \<mapsto> set_tr_state TR_COMPLETED x)\<rparr>"
  have w: "ml_inv ?w" "trs ?w t = Some ?x" "0 \<le> sint (64 * cfg_T1 ?w)" "0 \<le> sint (cfg_T1 ?w)" using inv T by simp_all
  have rel: "channel_reliable t ?w = Some (ch_reliable q)"
    using c by (simp add: channel_reliable_def belle_sip_channel_is_reliable_def set_tr_state_def)
  obtain w2 s2 where w2: "belle_sip_transaction_start_timer t TimerG (cfg_T1 w) ?w = Some w2" "armed w2 t TimerG (cfg_T1 w)" "ml_inv w2"
      "trs w2 = (trs ?w)(t \<mapsto> ?x\<lparr>tr_timers := (tr_timers ?x)(TimerG \<mapsto> s2)\<rparr>)" "wire w2 = wire w" "cfg_T1 w2 = cfg_T1 w"
    using start_timer_arms[OF w(1,2,4), of TimerG] by auto
  show ?thesis
  proof (cases "ch_reliable q")
    case True
    from start_timer_arms[OF w(1-3), of TimerH] show ?thesis
      using True rel by (auto simp: set_state_eq[OF x]) (auto simp: set_tr_state_def)
  next
    case False
    define y where "y = ?x\<lparr>tr_timers := (tr_timers ?x)(TimerG \<mapsto> s2)\<rparr>"
    have y: "trs w2 t = Some y" "tr_state y = TR_COMPLETED" using w2(4) by (simp_all add: y_def set_tr_state_def)
    have T2: "0 \<le> sint (64 * cfg_T1 w2)" using T w2(6) by simp
    obtain w3 s3 where w3: "belle_sip_transaction_start_timer t TimerH (64 * cfg_T1 w2) w2 = Some w3" "armed w3 t TimerH (64 * cfg_T1 w2)"
        "trs w3 = (trs w2)(t \<mapsto> y\<lparr>tr_timers := (tr_timers y)(TimerH \<mapsto> s3)\<rparr>)" "wire w3 = wire w2"
        "\<forall>s'. ml_src w2 s' \<noteq> None \<longrightarrow> ml_src w3 s' = ml_src w2 s'"
        "\<forall>s'. ml_src w2 s' \<noteq> None \<longrightarrow> (s' \<in> set (ml_sources w3) \<longleftrightarrow> s' \<in> set (ml_sources w2))" "ml_time w3 = ml_time w2"
      using start_timer_arms[OF w2(3) y(1) T2, of TimerH] by blast
    have "armed w3 t TimerG (cfg_T1 w)"
      by (rule armed_start[OF w2(2) _ y(1) w3(3,5-7)]) simp
    then show ?thesis
      using False rel w2 w3 y by (auto simp: set_state_eq[OF x])
  qed
qed

text \<open>The INVITE server transaction in PROCEEDING, on a ready channel, sends the response it is given and moves as
  RFC 6026 says: a provisional response leaves it where it is, a 2xx takes it to ACCEPTED with timer L at 64*T1,
  any other final response to COMPLETED with timer H at 64*T1 and, on an unreliable transport, timer G at T1.\<close>

lemma ist_sends_response:
  assumes a: "accepting E I c txt" and r: "ready_on w t x c" and s: "tr_state x = TR_PROCEEDING"
    and p: "msgs w resp = Some p" and m: "sendable w resp" and q: "chans w c = Some q"
    and T: "0 \<le> sint (64 * cfg_T1 w)" "0 \<le> sint (cfg_T1 w)"
  shows "\<exists>w' x'. ist_send_new_response E I t resp w = Some (w', True) \<and> wire w' = wire w @ [(c, txt resp)] \<and> trs w' t = Some x'
    \<and> (if 200 \<le> rs_status_code p \<and> rs_status_code p < 300
       then tr_state x' = TR_ACCEPTED \<and> armed w' t TimerL (64 * cfg_T1 w)
       else if 300 \<le> rs_status_code p
       then tr_state x' = TR_COMPLETED \<and> armed w' t TimerH (64 * cfg_T1 w) \<and> (\<not> ch_reliable q \<longrightarrow> armed w' t TimerG (cfg_T1 w))
       else x' = x)"
proof -
  obtain w1 where w1: "queue_on_channel E I t resp w = Some w1" "idle_channel w1 c []" "wire w1 = wire w @ [(c, txt resp)]" "io_only c w w1"
    using queue_on_ready[OF a r m] by blast
  have x: "trs w t = Some x" "tr_channel x = Some c" using r by (simp_all add: ready_on_def)
  have x1: "trs w1 t = Some x" and T1: "cfg_T1 w1 = cfg_T1 w" using io_only_same[OF w1(4)] x(1) by simp_all
  obtain q1 where q1: "chans w1 c = Some q1" "ch_reliable q1 = ch_reliable q"
    using w1(4) q by (auto simp: io_only_def)
  let ?code = "rs_status_code p"
  have inv: "ml_inv w1" and T': "0 \<le> sint (64 * cfg_T1 w1)" "0 \<le> sint (cfg_T1 w1)" using idle_inv[OF w1(2)] T T1 by simp_all
  consider "200 \<le> ?code \<and> ?code < 300" | "300 \<le> ?code" | "?code < 200" by linarith
  then show ?thesis
  proof cases
    case 1
    obtain w' x' where w': "(do { w \<leftarrow> belle_sip_transaction_set_state t TR_ACCEPTED w1;
        belle_sip_transaction_start_timer t TimerL (64 * cfg_T1 w) w }) = Some w'"
      "trs w' t = Some x'" "tr_state x' = TR_ACCEPTED" "armed w' t TimerL (64 * cfg_T1 w1)" "wire w' = wire w1"
      using ist_accepted_step[OF inv x1 T'(1)] by blast
    have "ist_send_new_response E I t resp w = Some (w', True)"
      using 1 x(1) s p w1(1) w'(1) by (simp add: ist_send_new_response_def Let_def set_state_eq[OF x1])
    then show ?thesis using 1 w' w1(3) T1 by auto
  next
    case 2
    obtain w' x' where w': "(do { w \<leftarrow> belle_sip_transaction_set_state t TR_COMPLETED w1; reliable \<leftarrow> channel_reliable t w;
        w \<leftarrow> (if \<not> reliable then belle_sip_transaction_start_timer t TimerG (cfg_T1 w) w else Some w);
        belle_sip_transaction_start_timer t TimerH (64 * cfg_T1 w) w }) = Some w'"
      "trs w' t = Some x'" "tr_state x' = TR_COMPLETED" "armed w' t TimerH (64 * cfg_T1 w1)"
      "\<not> ch_reliable q \<longrightarrow> armed w' t TimerG (cfg_T1 w1)" "wire w' = wire w1"
      using ist_completed_step[OF inv x1 T' x(2) q1(1)] q1(2) by auto
    have "ist_send_new_response E I t resp w = Some (w', True)"
      using 2 x(1) s p w1(1) arg_cong[OF w'(1), of "\<lambda>m. Option.bind m (\<lambda>w. Some (w, True))"]
      by (simp add: ist_send_new_response_def Let_def)
    then show ?thesis using 2 w' w1(3) T1 by auto
  next
    case 3
    then show ?thesis using x(1) x1 s p w1(1,3) by (auto simp: ist_send_new_response_def Let_def)
  qed
qed

lemma on_channel_chan: "chans (on_channel x) 0 = Some (sample_channel\<lparr>ch_outgoing_messages := []\<rparr>)"
  by (simp add: on_channel_def sample_world_def)

lemma on_channel_cfg: "cfg_T1 (on_channel x) = 500" "cfg_T2 (on_channel x) = 4000" "cfg_T4 (on_channel x) = 5000" "wire (on_channel x) = []"
  by (simp_all add: on_channel_def sample_world_def empty_world_def)

text \<open>Message 1 as a response with a status code.\<close>

definition with_status :: "int \<Rightarrow> world \<Rightarrow> world" where
  "with_status code w = w\<lparr>msgs := (msgs w)(1 \<mapsto> sample_msg\<lparr>rs_status_code := code\<rparr>)\<rparr>"

lemma with_status_ready: "ready_on (with_status code (on_channel x)) 0 (x\<lparr>tr_channel := Some 0\<rparr>) 0"
  by (simp add: ready_on_def on_channel_def with_status_def idle_channel_def timer_known_def sample_world_def sample_channel_def
      empty_world_def ml_inv_def)

lemma with_status_sendable: "sendable (with_status code (on_channel x)) 1"
  by (simp add: with_status_def sendable_def belle_sip_message_get_header_by_type_def
      belle_sip_message_get_all_headers_def sample_msg_def empty_message_def)

theorem ist_sends_response_witness:
  "\<exists>w'. ist_send_new_response accept_env plain_iface 0 1 (with_status 486 (on_channel (sample_transaction IST TR_PROCEEDING))) = Some (w', True)
     \<and> wire w' = [(0, ''m1'')] \<and> armed w' 0 TimerH 32000 \<and> armed w' 0 TimerG 500"
proof -
  let ?w = "with_status 486 (on_channel (sample_transaction IST TR_PROCEEDING))"
  have w: "msgs ?w 1 = Some (sample_msg\<lparr>rs_status_code := 486\<rparr>)" "chans ?w 0 = Some (sample_channel\<lparr>ch_outgoing_messages := []\<rparr>)"
    "0 \<le> sint (64 * cfg_T1 ?w)" "0 \<le> sint (cfg_T1 ?w)" "wire ?w = []" "cfg_T1 ?w = 500"
    using on_channel_chan on_channel_cfg by (simp_all add: with_status_def)
  show ?thesis
    using ist_sends_response[OF accepting_sample with_status_ready _ w(1) with_status_sendable w(2-4)] w(5,6)
    by (auto simp: sample_transaction_def sample_text_def sample_channel_def)
qed



section \<open>The ACK\<close>

lemma remove_source_eq:
  "ml_inv w \<Longrightarrow> belle_sip_main_loop_remove_source w s =
     Some (if s \<in> set (ml_sources w) then w\<lparr>ml_src := (ml_src w)(s \<mapsto> the (ml_src w s)\<lparr>src_cancelled := True\<rparr>),
        ml_sources := remove1 s (ml_sources w)\<rparr> else w)"
  by (auto simp: belle_sip_main_loop_remove_source_def upd_src_def ml_inv_def split: option.splits)

lemma stop_timer_eq:
  assumes inv: "ml_inv w" and x: "trs w t = Some x"
  shows "\<exists>w'. belle_sip_transaction_stop_timer t n w = Some w' \<and> trs w' t = Some (x\<lparr>tr_timers := (tr_timers x)(n := None)\<rparr>)
     \<and> ml_inv w' \<and> chans w' = chans w \<and> wire w' = wire w \<and> cfg_T4 w' = cfg_T4 w
     \<and> (\<forall>s. tr_timers x n = Some s \<longrightarrow> s \<notin> set (ml_sources w'))"
proof (cases "tr_timers x n")
  case None
  then show ?thesis using assms by (auto simp: belle_sip_transaction_stop_timer_def fun_upd_idem)
next
  case (Some s)
  obtain v where v: "belle_sip_main_loop_remove_source w s = Some v" "loop_only w v" "ml_inv v" "ml_sources v = remove1 s (ml_sources w)"
    using remove_source_frame[OF inv] by blast
  have f: "trs v = trs w" "chans v = chans w" "wire v = wire w" "cfg_T4 v = cfg_T4 w" using v(2) by (auto simp: loop_only_def)
  have "s \<notin> set (ml_sources v)" using inv v(4) by (auto simp: ml_inv_def)
  then show ?thesis using x Some v f by (simp add: belle_sip_transaction_stop_timer_def upd_tr_def)
qed

text \<open>The ACK for a final response other than 2xx, on an unreliable channel: retransmission stops (timer G is
  off the loop), the transaction is CONFIRMED and timer I runs for T4; the ACK is not reported.\<close>

lemma ack_confirms:
  assumes inv: "ml_inv w" and x: "trs w t = Some x" and s: "tr_state x = TR_COMPLETED"
    and c: "tr_channel x = Some c" "chans w c = Some q" and rel: "\<not> ch_reliable q" and T: "0 \<le> sint (cfg_T4 w)"
  shows "\<exists>w' x'. belle_sip_ist_process_ack E I t w = Some (w', False) \<and> trs w' t = Some x' \<and> tr_state x' = TR_CONFIRMED
    \<and> tr_timers x' TimerG = None \<and> armed w' t TimerI (cfg_T4 w) \<and> wire w' = wire w"
proof -
  obtain v where v: "belle_sip_transaction_stop_timer t TimerG w = Some v" "trs v t = Some (x\<lparr>tr_timers := (tr_timers x)(TimerG := None)\<rparr>)"
     "ml_inv v" "chans v = chans w" "wire v = wire w" "cfg_T4 v = cfg_T4 w"
    using stop_timer_eq[OF inv x] by blast
  define y where "y = set_tr_state TR_CONFIRMED (x\<lparr>tr_timers := (tr_timers x)(TimerG := None)\<rparr>)"
  let ?u = "v\<lparr>trs := (trs v)(t \<mapsto> y)\<rparr>"
  have u: "ml_inv ?u" "trs ?u t = Some y" "0 \<le> sint (cfg_T4 ?u)" using v T by simp_all
  have r: "channel_reliable t ?u = Some False"
    using c rel v(4) by (simp add: channel_reliable_def belle_sip_channel_is_reliable_def y_def set_tr_state_def)
  obtain w' k where w': "belle_sip_transaction_start_timer t TimerI (cfg_T4 v) ?u = Some w'" "armed w' t TimerI (cfg_T4 v)"
      "trs w' = (trs ?u)(t \<mapsto> y\<lparr>tr_timers := (tr_timers y)(TimerI \<mapsto> k)\<rparr>)" "wire w' = wire ?u"
    using start_timer_arms[OF u, of TimerI] by auto
  show ?thesis
    using x s v w' r set_state_eq[OF v(2), of TR_CONFIRMED]
    by (auto simp: belle_sip_ist_process_ack_def y_def[symmetric]) (auto simp: y_def set_tr_state_def)
qed

lemma on_channel_inv: "ml_inv (on_channel x)"
  by (simp add: on_channel_def sample_world_def empty_world_def ml_inv_def)

theorem ack_confirms_witness:
  "\<exists>w' x'. belle_sip_ist_process_ack accept_env plain_iface 0 (on_channel (sample_transaction IST TR_COMPLETED)) = Some (w', False)
     \<and> trs w' 0 = Some x' \<and> tr_state x' = TR_CONFIRMED \<and> armed w' 0 TimerI 5000"
proof -
  let ?x = "(sample_transaction IST TR_COMPLETED)\<lparr>tr_channel := Some 0\<rparr>"
  have w: "trs (on_channel (sample_transaction IST TR_COMPLETED)) 0 = Some ?x" "tr_state ?x = TR_COMPLETED" "tr_channel ?x = Some 0"
    "\<not> ch_reliable (sample_channel\<lparr>ch_outgoing_messages := []\<rparr>)"
    by (simp_all add: on_channel_def sample_transaction_def sample_channel_def)
  show ?thesis
    using ack_confirms[OF on_channel_inv w(1-3) on_channel_chan w(4)] on_channel_cfg by fastforce
qed

section \<open>Responses of the non-INVITE server transaction\<close>

lemma ready_sources:
  "ready_on w t x c \<Longrightarrow> inactivity_of w c = Some s \<Longrightarrow> ml_src w s \<noteq> None"
  by (auto simp: ready_on_def idle_channel_def timer_known_def inactivity_of_def)

lemma ready_frame:
  assumes "ready_on w t x c" and "trs w' t = Some x'" and "tr_channel x' = Some c" and "chans w' = chans w"
    and "cfg_send_error w' = cfg_send_error w" and "cfg_tx_delay w' = cfg_tx_delay w" and "ml_inv w'"
    and "\<And>s. ml_src w s \<noteq> None \<Longrightarrow> ml_src w' s \<noteq> None"
  shows "ready_on w' t x' c"
  using assms idle_channel_frame[of w c "[]" w'] by (simp add: ready_on_def)

lemma nist_completed_step:
  assumes r: "ready_on w t x c" and q: "chans w c = Some q" and T: "0 \<le> sint (cfg_T1 w * 64)"
  shows "\<exists>w' x'. nist_set_completed t w = Some w' \<and> ready_on w' t x' c \<and> tr_state x' = TR_COMPLETED
     \<and> armed w' t TimerJ (if ch_reliable q then 0 else cfg_T1 w * 64) \<and> tr_timers x' TimerJ \<noteq> inactivity_of w' c
     \<and> wire w' = wire w \<and> msgs w' = msgs w \<and> hdrs w' = hdrs w"
proof -
  have x: "trs w t = Some x" "tr_channel x = Some c" using r by (simp_all add: ready_on_def)
  have inv: "ml_inv w" using r idle_inv by (auto simp: ready_on_def)
  have rel: "channel_reliable t w = Some (ch_reliable q)"
    using x q by (simp add: channel_reliable_def belle_sip_channel_is_reliable_def)
  let ?v = "if ch_reliable q then 0 else cfg_T1 w * 64"
  have "0 \<le> sint ?v" using T by simp
  from start_timer_arms[OF inv x(1) this, of TimerJ]
  obtain w1 s where w1: "belle_sip_transaction_start_timer t TimerJ ?v w = Some w1" "armed w1 t TimerJ ?v" "ml_inv w1"
     "trs w1 = (trs w)(t \<mapsto> x\<lparr>tr_timers := (tr_timers x)(TimerJ \<mapsto> s)\<rparr>)" "chans w1 = chans w" "wire w1 = wire w"
     "msgs w1 = msgs w" "hdrs w1 = hdrs w" "cfg_send_error w1 = cfg_send_error w" "cfg_tx_delay w1 = cfg_tx_delay w"
     "\<forall>s'. ml_src w s' \<noteq> None \<longrightarrow> ml_src w1 s' = ml_src w s'" "ml_src w s = None"
    by blast
  define x' where "x' = set_tr_state TR_COMPLETED (x\<lparr>tr_timers := (tr_timers x)(TimerJ \<mapsto> s)\<rparr>)"
  let ?w = "w1\<lparr>trs := (trs w1)(t \<mapsto> x')\<rparr>"
  have "nist_set_completed t w = Some ?w"
    using rel w1(1,4) set_state_eq[of w1 t "x\<lparr>tr_timers := (tr_timers x)(TimerJ \<mapsto> s)\<rparr>"]
    by (cases "ch_reliable q") (simp_all add: nist_set_completed_def x'_def)
  moreover have "ready_on ?w t x' c"
    by (rule ready_frame[OF r]) (use w1 x in \<open>simp_all add: x'_def set_tr_state_def\<close>)
  moreover have "armed ?w t TimerJ ?v" using w1(2,4) by (simp add: armed_def x'_def set_tr_state_def)
  moreover have "inactivity_of ?w c = inactivity_of w c" using w1(5) by (simp add: inactivity_of_def)
  then have "tr_timers x' TimerJ \<noteq> inactivity_of ?w c"
    using ready_sources[OF r, of s] w1(12) by (auto simp: x'_def set_tr_state_def)
  ultimately show ?thesis
    using w1 by (intro exI[of _ ?w] exI[of _ x']) (simp add: x'_def set_tr_state_def)
qed

text \<open>The non-INVITE server transaction on a ready channel sends the first provisional response and proceeds, sends
  further ones where it is, and with a final response is COMPLETED, timer J running for 64*T1, or for no time on a
  reliable transport; once COMPLETED it refuses any further response.\<close>

lemma nist_sends_response:
  assumes a: "accepting E I c txt" and r: "ready_on w t x c" and s: "tr_state x \<in> {TR_TRYING, TR_PROCEEDING, TR_COMPLETED}"
    and p: "msgs w resp = Some p" and m: "sendable w resp" and q: "chans w c = Some q" and T: "0 \<le> sint (cfg_T1 w * 64)"
  shows "if tr_state x = TR_COMPLETED then nist_send_new_response E I t resp w = Some (w, False)
     else \<exists>w' x'. nist_send_new_response E I t resp w = Some (w', True) \<and> wire w' = wire w @ [(c, txt resp)] \<and> trs w' t = Some x'
       \<and> (if 200 \<le> rs_status_code p
          then tr_state x' = TR_COMPLETED \<and> armed w' t TimerJ (if ch_reliable q then 0 else cfg_T1 w * 64)
          else tr_state x' = TR_PROCEEDING \<and> tr_timers x' = tr_timers x)"
proof -
  have x: "trs w t = Some x" "tr_channel x = Some c" using r by (simp_all add: ready_on_def)
  consider "tr_state x = TR_COMPLETED" | "tr_state x \<noteq> TR_COMPLETED" "200 \<le> rs_status_code p"
    | "tr_state x = TR_TRYING" "rs_status_code p < 200" | "tr_state x = TR_PROCEEDING" "rs_status_code p < 200"
    using s by fastforce
  then show ?thesis
  proof cases
    case 1
    then show ?thesis using x p by (simp add: nist_send_new_response_def Let_def)
  next
    case 2
    obtain w1 x1 where 1: "nist_set_completed t w = Some w1" "ready_on w1 t x1 c" "tr_state x1 = TR_COMPLETED"
       "armed w1 t TimerJ (if ch_reliable q then 0 else cfg_T1 w * 64)" "tr_timers x1 TimerJ \<noteq> inactivity_of w1 c"
       "wire w1 = wire w" "msgs w1 = msgs w" "hdrs w1 = hdrs w"
      using nist_completed_step[OF r q T] by blast
    obtain w2 where w2: "queue_on_channel E I t resp w1 = Some w2" "wire w2 = wire w1 @ [(c, txt resp)]" "io_only c w1 w2"
      using queue_on_ready[OF a 1(2)] m sendable_mono[OF 1(7,8)] by blast
    have "armed w2 t TimerJ (if ch_reliable q then 0 else cfg_T1 w * 64)"
      by (rule armed_io[OF 1(4) w2(3)]) (use 1 in \<open>simp add: ready_on_def\<close>)
    moreover have "trs w2 t = Some x1" using io_only_same[OF w2(3)] 1(2) by (simp add: ready_on_def)
    moreover have "nist_send_new_response E I t resp w = Some (w2, True)"
      using 2 s x p 1(1) w2(1) by (auto simp: nist_send_new_response_def Let_def)
    ultimately show ?thesis using 1 2 w2 by auto
  next
    case 3
    let ?w = "w\<lparr>trs := (trs w)(t \<mapsto> set_tr_state TR_PROCEEDING x)\<rparr>"
    have r1: "ready_on ?w t (set_tr_state TR_PROCEEDING x) c"
      by (rule ready_frame[OF r]) (use x r idle_inv in \<open>auto simp: set_tr_state_def ready_on_def\<close>)
    have m1: "sendable ?w resp" using m sendable_mono[of ?w w] by simp
    obtain w2 where "queue_on_channel E I t resp ?w = Some w2" "wire w2 = wire w @ [(c, txt resp)]" "io_only c ?w w2"
      using queue_on_ready[OF a r1 m1] by auto
    then show ?thesis
      using 3 x p io_only_same[of c ?w w2] set_state_eq[OF x(1), of TR_PROCEEDING]
      by (auto simp: nist_send_new_response_def Let_def set_tr_state_def)
  next
    case 4
    then show ?thesis
      using queue_on_ready[OF a r m] x p io_only_same by (auto simp: nist_send_new_response_def Let_def)
  qed
qed

theorem nist_sends_response_witness:
  "\<exists>w' x'. nist_send_new_response accept_env plain_iface 0 1 (with_status 200 (on_channel (sample_transaction NIST TR_TRYING))) = Some (w', True)
     \<and> wire w' = [(0, ''m1'')] \<and> trs w' 0 = Some x' \<and> tr_state x' = TR_COMPLETED \<and> armed w' 0 TimerJ 32000"
proof -
  let ?w = "with_status 200 (on_channel (sample_transaction NIST TR_TRYING))"
  have w: "msgs ?w 1 = Some (sample_msg\<lparr>rs_status_code := 200\<rparr>)" "chans ?w 0 = Some (sample_channel\<lparr>ch_outgoing_messages := []\<rparr>)"
    "0 \<le> sint (cfg_T1 ?w * 64)" "wire ?w = []" "cfg_T1 ?w = 500"
    using on_channel_chan on_channel_cfg by (simp_all add: with_status_def)
  show ?thesis
    using nist_sends_response[OF accepting_sample with_status_ready _ w(1) with_status_sendable w(2,3)] w(4,5)
    by (simp add: sample_transaction_def sample_text_def sample_channel_def)
qed

section \<open>Retransmission timers\<close>

text \<open>The source of a timer, its period set, and a message sent; the period is set before or after.\<close>

definition with_period :: "world \<Rightarrow> 32 word \<Rightarrow> callback source \<Rightarrow> callback source" where
  "with_period w v r = (if src_expired r then r else r\<lparr>src_expire_ms := ml_time w + ucast v\<rparr>)\<lparr>src_timeout := v\<rparr>"

lemma reset_and_send:
  assumes a: "accepting E I c txt" and r: "ready_on w t x c" and m: "sendable w m"
    and s: "ml_src w s = Some k" and i: "inactivity_of w c \<noteq> Some s"
  shows "\<exists>w1 w'. belle_sip_source_set_timeout w s v = Some w1 \<and> queue_on_channel E I t m w1 = Some w'
     \<and> wire w' = wire w @ [(c, txt m)] \<and> trs w' = trs w \<and> ml_src w' s = Some (with_period w v k)"
proof -
  define w1 where "w1 = w\<lparr>ml_src := (ml_src w)(s \<mapsto> with_period w v k)\<rparr>"
  have x: "trs w t = Some x" "tr_channel x = Some c" "ml_inv w" using r idle_inv by (auto simp: ready_on_def)
  have "ml_inv w1" using x(3) s by (auto simp: w1_def ml_inv_def)
  then have r1: "ready_on w1 t x c" by (intro ready_frame[OF r]) (use x in \<open>simp_all add: w1_def\<close>)
  have m1: "sendable w1 m" using m sendable_mono[of w1 w] by (simp add: w1_def)
  obtain w' where w': "queue_on_channel E I t m w1 = Some w'" "wire w' = wire w1 @ [(c, txt m)]" "io_only c w1 w'"
    using queue_on_ready[OF a r1 m1] by blast
  have "ml_src w1 s = Some (with_period w v k)" "inactivity_of w1 c \<noteq> Some s" using i by (simp_all add: w1_def inactivity_of_def)
  then have "ml_src w' s = Some (with_period w v k)" using w'(3) unfolding io_only_def by (metis option.distinct(1))
  moreover have "belle_sip_source_set_timeout w s v = Some w1"
    using s by (simp add: belle_sip_source_set_timeout_def upd_src_def w1_def with_period_def)
  ultimately show ?thesis using w' io_only_same[OF w'(3)] by (auto simp: w1_def)
qed

text \<open>Timer A of an INVITE client transaction in CALLING, on a ready channel: the request goes out again and the
  period of the timer is doubled, modulo \<open>2 ^ 32\<close>; the transaction keeps its state.\<close>

lemma timer_A_doubles:
  assumes a: "accepting E I c txt" and r: "ready_on w t x c" and st: "tr_state x = TR_CALLING" and m: "sendable w (tr_request x)"
    and s: "tr_timers x TimerA = Some s" "ml_src w s = Some k" and i: "inactivity_of w c \<noteq> Some s"
  shows "\<exists>w'. ict_on_timer_A E I t w = Some (w', BELLE_SIP_CONTINUE) \<and> wire w' = wire w @ [(c, txt (tr_request x))]
    \<and> trs w' = trs w \<and> map_option src_timeout (ml_src w' s) = Some (2 * src_timeout k)"
proof -
  obtain w1 w' where "belle_sip_source_set_timeout w s (2 * src_timeout k) = Some w1" "queue_on_channel E I t (tr_request x) w1 = Some w'"
     "wire w' = wire w @ [(c, txt (tr_request x))]" "trs w' = trs w" "ml_src w' s = Some (with_period w (2 * src_timeout k) k)"
    using reset_and_send[OF a r m s(2) i] by blast
  then show ?thesis
    using r st s by (simp add: ict_on_timer_A_def ready_on_def belle_sip_source_get_timeout_def with_period_def)
qed

text \<open>Timer E of a non-INVITE client transaction never waits longer than T2: in TRYING the period doubles up to T2,
  in PROCEEDING it is T2, and each time the request goes out again.\<close>

lemma timer_E_bounded:
  assumes a: "accepting E I c txt" and r: "ready_on w t x c" and st: "tr_state x \<in> {TR_TRYING, TR_PROCEEDING}"
    and m: "sendable w (tr_request x)" and s: "tr_timers x TimerE = Some s" "ml_src w s = Some k" and i: "inactivity_of w c \<noteq> Some s"
  shows "\<exists>w' v. nict_on_timer_E E I t w = Some (w', BELLE_SIP_CONTINUE) \<and> wire w' = wire w @ [(c, txt (tr_request x))]
    \<and> map_option src_timeout (ml_src w' s) = Some v \<and> v \<le> cfg_T2 w
    \<and> (tr_state x = TR_TRYING \<longrightarrow> 2 * src_timeout k \<le> cfg_T2 w \<longrightarrow> v = 2 * src_timeout k)
    \<and> (tr_state x = TR_PROCEEDING \<longrightarrow> v = cfg_T2 w)"
proof -
  define v where "v = (if tr_state x = TR_TRYING then min (2 * src_timeout k) (cfg_T2 w) else cfg_T2 w)"
  obtain w1 w' where "belle_sip_source_set_timeout w s v = Some w1" "queue_on_channel E I t (tr_request x) w1 = Some w'"
     "wire w' = wire w @ [(c, txt (tr_request x))]" "ml_src w' s = Some (with_period w v k)"
    using reset_and_send[OF a r m s(2) i] by blast
  moreover have "v \<le> cfg_T2 w" by (simp add: v_def)
  ultimately show ?thesis
    using r st s by (intro exI[of _ w'] exI[of _ v])
      (auto simp: nict_on_timer_E_def ready_on_def belle_sip_source_get_timeout_def with_period_def v_def)
qed

text \<open>A client transaction on the channel with one timer of 500 ms that has just expired.\<close>

definition with_timer :: "timer_name \<Rightarrow> transaction \<Rightarrow> world" where
  "with_timer n x = (let w = on_channel (x\<lparr>tr_timers := [n \<mapsto> 0]\<rparr>) in
     w\<lparr>ml_src := [0 \<mapsto> \<lparr>src_cb = CbTimer n 0, src_id = 0, src_has_fd = False, src_timeout = 500, src_expire_ms = 0, src_revents = 0,
        src_cancelled = False, src_expired = True, src_oneshot = False, src_notify_required = True\<rparr>],
       ml_sources := [0], ml_brk := 1, ml_global_id := 1\<rparr>)"

lemma with_timer_facts:
  shows "ready_on (with_timer n x) 0 (x\<lparr>tr_timers := [n \<mapsto> 0], tr_channel := Some 0\<rparr>) 0"
    and "m \<in> {1, 2} \<Longrightarrow> sendable (with_timer n x) m" and "inactivity_of (with_timer n x) 0 \<noteq> Some 0"
    and "wire (with_timer n x) = []" and "cfg_T2 (with_timer n x) = 4000"
    and "\<exists>k. ml_src (with_timer n x) 0 = Some k \<and> src_timeout k = 500"
  using on_channel_sendable[of m "x\<lparr>tr_timers := [n \<mapsto> 0]\<rparr>"] on_channel_cfg
  by (auto simp: ready_on_def on_channel_def with_timer_def idle_channel_def timer_known_def sample_world_def sample_channel_def
      empty_world_def ml_inv_def Let_def inactivity_of_def sendable_def belle_sip_message_get_header_by_type_def
      belle_sip_message_get_all_headers_def)

theorem timer_A_doubles_witness:
  "\<exists>w'. ict_on_timer_A accept_env plain_iface 0 (with_timer TimerA ((sample_transaction ICT TR_CALLING)\<lparr>tr_request := 1\<rparr>)) = Some (w', BELLE_SIP_CONTINUE)
     \<and> wire w' = [(0, ''m1'')] \<and> map_option src_timeout (ml_src w' 0) = Some 1000"
proof -
  let ?x = "(sample_transaction ICT TR_CALLING)\<lparr>tr_request := 1\<rparr>"
  obtain k where k: "ml_src (with_timer TimerA ?x) 0 = Some k" "src_timeout k = 500" using with_timer_facts(6) by blast
  show ?thesis
    using timer_A_doubles[OF accepting_sample with_timer_facts(1) _ _ _ k(1) with_timer_facts(3)] with_timer_facts(2)[of 1] k(2)
      with_timer_facts(4)
    by (auto simp: sample_transaction_def sample_text_def)
qed

theorem timer_E_bounded_witness:
  "\<exists>w'. nict_on_timer_E accept_env plain_iface 0 (with_timer TimerE ((sample_transaction NICT TR_PROCEEDING)\<lparr>tr_request := 1\<rparr>)) = Some (w', BELLE_SIP_CONTINUE)
     \<and> wire w' = [(0, ''m1'')] \<and> map_option src_timeout (ml_src w' 0) = Some 4000"
proof -
  let ?x = "(sample_transaction NICT TR_PROCEEDING)\<lparr>tr_request := 1\<rparr>"
  obtain k where k: "ml_src (with_timer TimerE ?x) 0 = Some k" "src_timeout k = 500" using with_timer_facts(6) by blast
  show ?thesis
    using timer_E_bounded[OF accepting_sample with_timer_facts(1) _ _ _ k(1) with_timer_facts(3)] with_timer_facts(2)[of 1] k(2)
      with_timer_facts(4,5)
    by (auto simp: sample_transaction_def sample_text_def)
qed

end
