(* ===== verification/Authorization.thy ===== *)
theory Authorization
  imports AuthHelper Provider ChannelSend
begin

text \<open>
  The credentials of requests: the contexts that the provider keeps for the challenges it received
  (\<^verbatim>\<open>src/provider.c\<close>), the event given to the application (\<^verbatim>\<open>src/auth_event.c\<close>), the Authorization headers put
  in a request, and the request sent again after a challenge (\<^verbatim>\<open>src/transaction.c\<close>).
\<close>

section \<open>Contexts\<close>

definition belle_sip_authorization_create :: "nat \<Rightarrow> authorization_context" where
  "belle_sip_authorization_create call_id = \<lparr>ac_callid = call_id, ac_scheme = None, ac_realm = None, ac_nonce = None,
     ac_qop = None, ac_opaque = None, ac_user_id = None, ac_algorithm = None, ac_nonce_count = 0, ac_is_proxy = False\<rparr>"

text \<open>A context with a nonce compares it with the challenge's, which must be there.\<close>

definition authorization_context_fill_from_auth ::
  "authorization_context \<Rightarrow> www_authenticate \<Rightarrow> bool \<Rightarrow> sip_uri option \<Rightarrow> authorization_context option" where
  "authorization_context_fill_from_auth c a is_proxy from_uri = do {
     fresh \<leftarrow> (case ac_nonce c of None \<Rightarrow> Some False
        | Some old \<Rightarrow> (case auth_nonce a of None \<Rightarrow> None | Some new \<Rightarrow> Some (new \<noteq> old)));
     Some (c\<lparr>ac_realm := auth_realm a, ac_nonce_count := (if fresh then 0 else ac_nonce_count c), ac_nonce := auth_nonce a,
        ac_algorithm := auth_algorithm a, ac_qop := (case www_qop a of [] \<Rightarrow> None | q # _ \<Rightarrow> Some q), ac_scheme := auth_scheme a,
        ac_opaque := auth_opaque a, ac_user_id := Option.bind from_uri uri_user,
        ac_is_proxy := (ac_is_proxy c \<or> is_proxy)\<rparr>) }"

text \<open>The contexts selected, by their place in the list.\<close>

fun select_contexts :: "(authorization_context \<Rightarrow> bool option) \<Rightarrow> authorization_context list \<Rightarrow> nat \<Rightarrow> nat list option" where
  "select_contexts P [] i = Some []"
| "select_contexts P (c # cs) i = do {
     b \<leftarrow> P c;
     rest \<leftarrow> select_contexts P cs (Suc i);
     Some (if b then i # rest else rest) }"

definition belle_sip_header_call_id_equals :: "world \<Rightarrow> nat \<Rightarrow> nat option \<Rightarrow> bool option" where
  "belle_sip_header_call_id_equals w a b = do {
     b \<leftarrow> b; s \<leftarrow> call_id_value w a; s' \<leftarrow> call_id_value w b; Some (strcaseeq s s') }"

definition context_of_realm :: "string option \<Rightarrow> sip_uri option \<Rightarrow> authorization_context \<Rightarrow> bool option" where
  "context_of_realm realm from_uri c = (case realm of None \<Rightarrow> Some False
     | Some r \<Rightarrow> do {
         r' \<leftarrow> ac_realm c;
         Some (r' = r \<and> (case (Option.bind from_uri uri_user, ac_user_id c) of
            (Some u, Some u') \<Rightarrow> u' = u | _ \<Rightarrow> False)) })"

definition belle_sip_provider_get_auth_context_by_realm_or_call_id ::
  "world \<Rightarrow> nat option \<Rightarrow> sip_uri option \<Rightarrow> string option \<Rightarrow> nat list option" where
  "belle_sip_provider_get_auth_context_by_realm_or_call_id w call_id from_uri realm = do {
     result \<leftarrow> select_contexts (\<lambda>c. belle_sip_header_call_id_equals w (ac_callid c) call_id) (prov_auth_contexts w) 0;
     (if result = [] then select_contexts (context_of_realm realm from_uri) (prov_auth_contexts w) 0 else Some result) }"

text \<open>The first selected context of the challenge's realm, compared with \<^verbatim>\<open>strcmp\<close>.\<close>

fun context_to_update :: "authorization_context list \<Rightarrow> string option \<Rightarrow> nat list \<Rightarrow> nat option option" where
  "context_to_update cs realm [] = Some None"
| "context_to_update cs realm (i # is) = do {
     r \<leftarrow> ac_realm (cs ! i); r' \<leftarrow> realm;
     (if r = r' then Some (Some i) else context_to_update cs realm is) }"

definition belle_sip_provider_update_or_create_auth_context ::
  "nat option \<Rightarrow> www_authenticate \<Rightarrow> bool \<Rightarrow> sip_uri option \<Rightarrow> string option \<Rightarrow> world \<Rightarrow> world option" where
  "belle_sip_provider_update_or_create_auth_context call_id a is_proxy from_uri realm w = do {
     found \<leftarrow> belle_sip_provider_get_auth_context_by_realm_or_call_id w call_id from_uri realm;
     i \<leftarrow> context_to_update (prov_auth_contexts w) (auth_realm a) found;
     (case i of
        Some i \<Rightarrow> do {
          c \<leftarrow> authorization_context_fill_from_auth (prov_auth_contexts w ! i) a is_proxy from_uri;
          Some (w\<lparr>prov_auth_contexts := (prov_auth_contexts w)[i := c]\<rparr>) }
      | None \<Rightarrow> do {
          call_id \<leftarrow> call_id;
          c \<leftarrow> authorization_context_fill_from_auth (belle_sip_authorization_create call_id) a is_proxy from_uri;
          Some (w\<lparr>prov_auth_contexts := prov_auth_contexts w @ [c]\<rparr>) }) }"

fun update_contexts :: "nat option \<Rightarrow> sip_uri option \<Rightarrow> string option \<Rightarrow> nat list \<Rightarrow> world \<Rightarrow> world option" where
  "update_contexts call_id from_uri realm [] w = Some w"
| "update_contexts call_id from_uri realm (h # hs) w = do {
     x \<leftarrow> hdrs w h;
     w \<leftarrow> (case hbody x of
        HWWWAuthenticate a \<Rightarrow> belle_sip_provider_update_or_create_auth_context call_id a False from_uri realm w
      | HProxyAuthenticate a \<Rightarrow> belle_sip_provider_update_or_create_auth_context call_id a True from_uri realm w
      | _ \<Rightarrow> None);
     update_contexts call_id from_uri realm hs w }"

section \<open>Asking the application\<close>

definition belle_sip_auth_event_create :: "string option \<Rightarrow> sip_uri option \<Rightarrow> auth_event" where
  "belle_sip_auth_event_create realm from_uri = \<lparr>ae_username = Option.bind from_uri uri_user, ae_userid = None,
     ae_realm = realm, ae_passwd = None, ae_ha1 = None, ae_domain = Option.bind from_uri uri_host\<rparr>"

fun ask_listeners :: "env \<Rightarrow> nat list \<Rightarrow> world \<Rightarrow> auth_event \<Rightarrow> auth_event" where
  "ask_listeners E [] w ev = ev"
| "ask_listeners E (l # ls) w ev = ask_listeners E ls w (auth_requested E l ev w)"

section \<open>Putting credentials in a request\<close>

text \<open>Whether the credentials go into a Proxy-Authorization header.\<close>

definition for_proxy :: "authorization_context \<Rightarrow> auth_event \<Rightarrow> nat option \<Rightarrow> sip_uri option \<Rightarrow> string option \<Rightarrow> string
    \<Rightarrow> world \<Rightarrow> bool option" where
  "for_proxy c ev call_id from_uri realm method w =
     (if ac_is_proxy c then Some True
      else do {
        same \<leftarrow> belle_sip_header_call_id_equals w (ac_callid c) call_id;
        (case (realm, from_uri) of
           (Some r, Some u) \<Rightarrow>
             (if same then Some False
              else do {
                r' \<leftarrow> ac_realm c;
                (if r \<noteq> r' then Some False
                 else do { n \<leftarrow> ae_username ev; user \<leftarrow> uri_user u; Some (n = user \<and> method \<noteq> ''REGISTER'') }) })
         | (Some r, None) \<Rightarrow> (if same then Some False else do { r' \<leftarrow> ac_realm c; Some False })
         | _ \<Rightarrow> Some False) })"

text \<open>Without user identifier or realm HA1 is not computed and the hash is taken of an uninitialised variable.\<close>

definition event_ha1 :: "auth_event \<Rightarrow> authorization_context \<Rightarrow> string option" where
  "event_ha1 ev c = (case ae_ha1 ev of Some h \<Rightarrow> Some h
     | None \<Rightarrow> belle_sip_auth_helper_compute_ha1 (ae_userid ev) (ac_realm c) (ae_passwd ev))"

definition credentials_of :: "authorization_context \<Rightarrow> auth_event \<Rightarrow> sip_uri option \<Rightarrow> auth_header" where
  "credentials_of c ev uri = authorization_new\<lparr>auth_scheme := ac_scheme c, auth_realm := ac_realm c, auth_username := ae_userid ev,
     auth_nonce := ac_nonce c, auth_qop := ac_qop c, auth_opaque := ac_opaque c, auth_algorithm := ac_algorithm c,
     auth_uri := uri, auth_nonce_count := (if ac_qop c = None then 0 else ac_nonce_count c)\<rparr>"

definition put_credentials :: "env \<Rightarrow> nat \<Rightarrow> bool \<Rightarrow> authorization_context \<Rightarrow> auth_event \<Rightarrow> world \<Rightarrow> world option" where
  "put_credentials E request proxy c ev w = do {
     m \<leftarrow> msgs w request;
     ha1 \<leftarrow> event_ha1 ev c;
     (a, filled) \<leftarrow> belle_sip_auth_helper_fill_authorization (uri_text E) (address_bits E (st_brk w))
        (credentials_of c ev (rq_uri m)) (Some (rq_method m)) ha1;
     (if filled
      then let (w, h) = new_hdr w (if proxy then \<lparr>hname = ''Proxy-Authorization'', hbody = HProxyAuthorization a\<rparr>
                                   else \<lparr>hname = ''Authorization'', hbody = HAuthorization a\<rparr>)
           in belle_sip_message_add_header w request h
      else Some w) }"

text \<open>One context: the result says whether credentials were given.\<close>

definition counted :: "authorization_context \<Rightarrow> authorization_context" where
  "counted c = (if ac_qop c = None then c else c\<lparr>ac_nonce_count := ac_nonce_count c + 1\<rparr>)"

definition authorize_with :: "env \<Rightarrow> nat \<Rightarrow> nat option \<Rightarrow> sip_uri option \<Rightarrow> string option \<Rightarrow> nat \<Rightarrow> world
    \<Rightarrow> (world \<times> auth_event \<times> bool) option" where
  "authorize_with E request call_id from_uri realm i w = do {
     m \<leftarrow> msgs w request;
     let c = prov_auth_contexts w ! i;
     let ev = ask_listeners E (prov_listeners w) w (belle_sip_auth_event_create (ac_realm c) from_uri);
     (if ae_passwd ev = None \<and> ae_ha1 ev = None then Some (w, ev, False)
      else do {
        let ev = (if ae_userid ev = None then ev\<lparr>ae_userid := ae_username ev\<rparr> else ev);
        proxy \<leftarrow> for_proxy c ev call_id from_uri realm (rq_method m) w;
        w \<leftarrow> put_credentials E request proxy (counted c) ev (w\<lparr>prov_auth_contexts := (prov_auth_contexts w)[i := counted c]\<rparr>);
        Some (w, ev, True) }) }"

fun authorize_all :: "env \<Rightarrow> nat \<Rightarrow> nat option \<Rightarrow> sip_uri option \<Rightarrow> string option \<Rightarrow> nat list \<Rightarrow> world
    \<Rightarrow> (world \<times> auth_event list \<times> bool) option" where
  "authorize_all E request call_id from_uri realm [] w = Some (w, [], False)"
| "authorize_all E request call_id from_uri realm (i # is) w = do {
     (w, ev, given) \<leftarrow> authorize_with E request call_id from_uri realm i w;
     (w, evs, rest) \<leftarrow> authorize_all E request call_id from_uri realm is w;
     Some (w, ev # evs, given \<or> rest) }"

text \<open>The result is the events for the caller and whether some credentials were given; a request without From is a crash.\<close>

definition belle_sip_provider_add_authorization ::
  "env \<Rightarrow> nat \<Rightarrow> nat option \<Rightarrow> sip_uri option \<Rightarrow> string option \<Rightarrow> world \<Rightarrow> (world \<times> auth_event list \<times> bool) option" where
  "belle_sip_provider_add_authorization E request resp from_uri realm w = do {
     m \<leftarrow> msgs w request;
     (if rq_method m = ''CANCEL'' \<or> rq_method m = ''ACK'' then Some (w, [], False)
      else do {
        from_uri \<leftarrow> (case from_uri of Some u \<Rightarrow> Some (Some u)
           | None \<Rightarrow> do {
               f \<leftarrow> belle_sip_message_get_header_by_type w request is_HFrom; f \<leftarrow> f;
               a \<leftarrow> address_of w f; Some (addr_uri a) });
        w \<leftarrow> (case resp of None \<Rightarrow> Some w
           | Some resp \<Rightarrow> do {
               call_id \<leftarrow> belle_sip_message_get_header_by_type w resp is_HCallId;
               www \<leftarrow> belle_sip_message_get_headers w resp ''WWW-Authenticate'';
               proxy \<leftarrow> belle_sip_message_get_headers w resp ''Proxy-Authenticate'';
               update_contexts call_id from_uri realm (www @ proxy) w });
        call_id \<leftarrow> belle_sip_message_get_header_by_type w request is_HCallId;
        head \<leftarrow> belle_sip_provider_get_auth_context_by_realm_or_call_id w call_id from_uri realm;
        authorize_all E request call_id from_uri realm head w }) }"

section \<open>Sending a request again\<close>

definition belle_sip_client_transaction_create_authenticated_request ::
  "env \<Rightarrow> nat \<Rightarrow> string option \<Rightarrow> world \<Rightarrow> (world \<times> (nat \<times> auth_event list) option) option" where
  "belle_sip_client_transaction_create_authenticated_request E t realm w = do {
     x \<leftarrow> trs w t;
     (w, req) \<leftarrow> belle_sip_request_clone_with_body w (tr_request x);
     c \<leftarrow> belle_sip_message_get_header_by_type w req is_HCSeq; c \<leftarrow> c;
     n \<leftarrow> cseq_number w c;
     w \<leftarrow> upd_hdr w c (\<lambda>h. h\<lparr>hbody := (case hbody h of HCSeq me _ \<Rightarrow> HCSeq me (n + 1) | b \<Rightarrow> b)\<rparr>);
     (if tr_state x \<noteq> TR_COMPLETED \<and> tr_state x \<noteq> TR_TERMINATED then Some (w, None)
      else do {
        w \<leftarrow> belle_sip_message_remove_header w req ''Authorization'';
        w \<leftarrow> belle_sip_message_remove_header w req ''Proxy-Authorization'';
        (w, evs, given) \<leftarrow> belle_sip_provider_add_authorization E req (tr_last_response x) None realm w;
        Some (w, Some (req, evs)) }) }"

section \<open>Nonce counts\<close>

lemma add_header_frame:
  "belle_sip_message_add_header w m h = Some w' \<Longrightarrow> hdrs w' = hdrs w \<and> prov_auth_contexts w' = prov_auth_contexts w"
  for w :: world
  by (auto simp: belle_sip_message_add_header_def get_or_create_container_def upd_msg_def bind_eq_Some_conv split: option.splits)

definition credentials_at :: "world \<Rightarrow> nat \<Rightarrow> auth_header \<Rightarrow> bool" where
  "credentials_at w h a \<longleftrightarrow> hdrs w h \<in> {Some \<lparr>hname = ''Authorization'', hbody = HAuthorization a\<rparr>,
     Some \<lparr>hname = ''Proxy-Authorization'', hbody = HProxyAuthorization a\<rparr>}"

lemma fill_keeps:
  "belle_sip_auth_helper_fill_authorization u ad a (Some me) ha1 = Some (a', True) \<Longrightarrow>
   auth_nonce a' = auth_nonce a \<and> auth_nonce_count a' = auth_nonce_count a \<and> \<not> fill_refused a"
  by (auto simp: belle_sip_auth_helper_fill_authorization_def with_cnonce_def Let_def bind_eq_Some_conv split: if_splits)

text \<open>A context that can be answered with the digest of RFC 2617.\<close>

definition answerable :: "authorization_context \<Rightarrow> bool" where
  "answerable c \<longleftrightarrow> ac_scheme c \<in> {None, Some ''Digest''} \<and> ac_qop c = Some ''auth'' \<and> ac_realm c \<noteq> None
     \<and> ac_nonce c \<noteq> None \<and> 0 \<le> ac_nonce_count c"

lemma put_credentials_at:
  assumes p: "put_credentials E request proxy c ev w = Some w'" and c: "answerable c" "ac_nonce_count c \<noteq> 0"
    and m: "msgs w request = Some m" "rq_uri m \<noteq> None"
  shows "\<exists>a. credentials_at w' (st_brk w) a \<and> auth_nonce a = ac_nonce c \<and> auth_nonce_count a = ac_nonce_count c
    \<and> prov_auth_contexts w' = prov_auth_contexts w"
proof -
  let ?a = "credentials_of c ev (rq_uri m)"
  obtain ha1 b filled where
    b: "belle_sip_auth_helper_fill_authorization (uri_text E) (address_bits E (st_brk w)) ?a (Some (rq_method m)) ha1 = Some (b, filled)"
    and w': "(if filled then (let (w, h) = new_hdr w
          (if proxy then \<lparr>hname = ''Proxy-Authorization'', hbody = HProxyAuthorization b\<rparr>
           else \<lparr>hname = ''Authorization'', hbody = HAuthorization b\<rparr>) in belle_sip_message_add_header w request h)
        else Some w) = Some w'"
    using p m(1) unfolding put_credentials_def by (auto simp only: bind_eq_Some_conv split_paired_all prod.case option.inject)
  have "\<not> fill_refused ?a" using c m(2) by (auto simp: fill_refused_def credentials_of_def answerable_def authorization_new_def)
  then have f: filled
    using b by (auto simp: belle_sip_auth_helper_fill_authorization_def Let_def bind_eq_Some_conv)
  have n: "auth_nonce b = ac_nonce c" "auth_nonce_count b = ac_nonce_count c"
    using fill_keeps[OF b[unfolded f[THEN eqTrueI]]] c by (auto simp: credentials_of_def answerable_def)
  have "credentials_at w' (st_brk w) b" "prov_auth_contexts w' = prov_auth_contexts w"
    using w' f by (auto simp: new_hdr_def credentials_at_def Let_def dest!: add_header_frame split: if_splits)
  then show ?thesis using n by auto
qed

lemma authorize_counts:
  assumes a: "authorize_with E request call_id from_uri realm i w = Some (w', ev, True)" and i: "i < length (prov_auth_contexts w)"
    and c: "answerable (prov_auth_contexts w ! i)" and m: "msgs w request = Some m" "rq_uri m \<noteq> None"
  shows "\<exists>a. credentials_at w' (st_brk w) a \<and> auth_nonce a = ac_nonce (prov_auth_contexts w ! i)
    \<and> auth_nonce_count a = ac_nonce_count (prov_auth_contexts w ! i) + 1
    \<and> ac_nonce_count (prov_auth_contexts w' ! i) = auth_nonce_count a \<and> ac_nonce (prov_auth_contexts w' ! i) = auth_nonce a"
proof -
  let ?c = "counted (prov_auth_contexts w ! i)"
  let ?w = "w\<lparr>prov_auth_contexts := (prov_auth_contexts w)[i := ?c]\<rparr>"
  obtain proxy ev' where p: "put_credentials E request proxy ?c ev' ?w = Some w'"
    using a m(1) by (auto simp: authorize_with_def Let_def bind_eq_Some_conv split: if_splits)
  have "answerable ?c" "ac_nonce_count ?c \<noteq> 0" "ac_nonce_count ?c = ac_nonce_count (prov_auth_contexts w ! i) + 1"
     "ac_nonce ?c = ac_nonce (prov_auth_contexts w ! i)"
    using c by (auto simp: counted_def answerable_def)
  then show ?thesis using put_credentials_at[OF p] i m by auto
qed

text \<open>C18. After a challenge for a realm that the provider knows, the credentials put in the next request carry the nonce of
  the challenge, and the count 1 when the nonce is new, otherwise one more than the count used last with it: under one nonce
  no count is used twice.\<close>

theorem nonce_count_follows_nonce:
  assumes u: "belle_sip_provider_update_or_create_auth_context call_id ch proxy from_uri realm w = Some w1"
    and s: "belle_sip_provider_get_auth_context_by_realm_or_call_id w call_id from_uri realm = Some (i # is)"
    and i: "i < length (prov_auth_contexts w)" and r: "ac_realm (prov_auth_contexts w ! i) = auth_realm ch"
    and n: "0 \<le> ac_nonce_count (prov_auth_contexts w ! i)" "ac_nonce (prov_auth_contexts w ! i) \<noteq> None"
    and ch: "auth_scheme ch = Some ''Digest''" "hd (www_qop ch) = ''auth''" "www_qop ch \<noteq> []"
    and a: "authorize_with E request call_id' from_uri realm i w1 = Some (w2, ev, True)"
    and m: "msgs w request = Some m" "rq_uri m \<noteq> None"
  shows "\<exists>a. credentials_at w2 (st_brk w) a \<and> auth_nonce a = auth_nonce ch
    \<and> auth_nonce_count a = (if auth_nonce ch = ac_nonce (prov_auth_contexts w ! i)
         then ac_nonce_count (prov_auth_contexts w ! i) + 1 else 1)
    \<and> ac_nonce_count (prov_auth_contexts w2 ! i) = auth_nonce_count a \<and> ac_nonce (prov_auth_contexts w2 ! i) = auth_nonce a"
proof -
  let ?c = "prov_auth_contexts w ! i"
  obtain c1 where c1: "authorization_context_fill_from_auth ?c ch proxy from_uri = Some c1"
      and w1: "w1 = w\<lparr>prov_auth_contexts := (prov_auth_contexts w)[i := c1]\<rparr>"
    using u s r by (auto simp: belle_sip_provider_update_or_create_auth_context_def bind_eq_Some_conv split: if_splits)
  have "answerable c1" "ac_nonce c1 = auth_nonce ch"
     "ac_nonce_count c1 = (if auth_nonce ch = ac_nonce ?c then ac_nonce_count ?c else 0)"
    using c1 n ch u s r by (auto simp: authorization_context_fill_from_auth_def answerable_def bind_eq_Some_conv
        belle_sip_provider_update_or_create_auth_context_def neq_Nil_conv split: option.splits)
  then show ?thesis
    using authorize_counts[OF a] i m by (auto simp: w1)
qed

text \<open>A challenge without a realm is a crash, and so is any challenge for a request whose context was made from one:
  the realms are compared with \<^verbatim>\<open>strcmp\<close>.\<close>

lemma challenge_without_realm_crashes:
  assumes "belle_sip_provider_get_auth_context_by_realm_or_call_id w call_id from_uri realm = Some (i # is)"
    and "auth_realm ch = None \<or> ac_realm (prov_auth_contexts w ! i) = None"
  shows "belle_sip_provider_update_or_create_auth_context call_id ch proxy from_uri realm w = None"
  using assms by (auto simp: belle_sip_provider_update_or_create_auth_context_def bind_eq_None_conv)

text \<open>A provider with one context, and a request with its Call-ID.\<close>

definition sample_context :: authorization_context where
  "sample_context = (belle_sip_authorization_create 0)\<lparr>ac_realm := Some ''r'', ac_nonce := Some ''old'', ac_nonce_count := 5\<rparr>"

definition sample_challenge :: www_authenticate where
  "sample_challenge = \<lparr>auth_scheme = Some ''Digest'', auth_realm = Some ''r'', auth_nonce = Some ''new'', auth_algorithm = None,
     auth_opaque = None, auth_params = parameters_init, www_domain = None, www_stale = 0, www_qop = [''auth'']\<rparr>"

definition auth_world :: "authorization_context \<Rightarrow> world" where
  "auth_world c = (empty_world (\<lambda>_. 0))\<lparr>prov_auth_contexts := [c], prov_listeners := [0], st_brk := 2,
     hdrs := [0 \<mapsto> \<lparr>hname = ''Call-ID'', hbody = HCallId (Some ''id'')\<rparr>],
     msgs := [1 \<mapsto> empty_message\<lparr>rq_method := ''REGISTER'', rq_uri := Some belle_sip_uri_new\<rparr>]\<rparr>"

definition answering_env :: env where
  "answering_env = accept_env\<lparr>auth_requested := (\<lambda>l ev w. ev\<lparr>ae_userid := Some ''u'', ae_passwd := Some ''p''\<rparr>)\<rparr>"

theorem challenge_without_realm_crashes_witness:
  "belle_sip_provider_update_or_create_auth_context (Some 0) (sample_challenge\<lparr>auth_realm := None\<rparr>) False None None
     (auth_world sample_context) = None"
  by (rule challenge_without_realm_crashes[of _ _ _ _ 0 "[]"])
    (simp_all add: belle_sip_provider_get_auth_context_by_realm_or_call_id_def auth_world_def sample_context_def
      belle_sip_authorization_create_def belle_sip_header_call_id_equals_def call_id_value_def sample_challenge_def)

theorem nonce_count_follows_nonce_witness:
  "\<exists>w1 w2 ev a. belle_sip_provider_update_or_create_auth_context (Some 0) sample_challenge False None None (auth_world sample_context) = Some w1
     \<and> authorize_with answering_env 1 (Some 0) None None 0 w1 = Some (w2, ev, True)
     \<and> credentials_at w2 2 a \<and> auth_nonce a = Some ''new'' \<and> auth_nonce_count a = 1"
proof -
  let ?w = "auth_world sample_context"
  have s: "belle_sip_provider_get_auth_context_by_realm_or_call_id ?w (Some 0) None None = Some [0]"
    by (simp add: belle_sip_provider_get_auth_context_by_realm_or_call_id_def auth_world_def sample_context_def
      belle_sip_authorization_create_def belle_sip_header_call_id_equals_def call_id_value_def)
  obtain w1 where w1: "belle_sip_provider_update_or_create_auth_context (Some 0) sample_challenge False None None ?w = Some w1"
     "w1 = ?w\<lparr>prov_auth_contexts := [the (authorization_context_fill_from_auth sample_context sample_challenge False None)]\<rparr>"
    using s by (simp add: belle_sip_provider_update_or_create_auth_context_def auth_world_def sample_context_def
      sample_challenge_def authorization_context_fill_from_auth_def)
  obtain w2 ev where w2: "authorize_with answering_env 1 (Some 0) None None 0 w1 = Some (w2, ev, True)"
    unfolding w1(2)
    by (simp add: authorize_with_def counted_def put_credentials_def auth_world_def answering_env_def sample_context_def sample_challenge_def
      authorization_context_fill_from_auth_def belle_sip_auth_event_create_def for_proxy_def belle_sip_authorization_create_def
      belle_sip_header_call_id_equals_def call_id_value_def event_ha1_def belle_sip_auth_helper_compute_ha1_def
      belle_sip_auth_helper_fill_authorization_def fill_refused_def credentials_of_def authorization_new_def with_cnonce_def
      new_hdr_def belle_sip_message_add_header_def get_or_create_container_def upd_msg_def empty_message_def Let_def)
  show ?thesis
    using nonce_count_follows_nonce[OF w1(1) s _ _ _ _ _ _ _ w2] w1(1) w2
    by (fastforce simp: auth_world_def sample_context_def sample_challenge_def empty_message_def)
qed

end
