(* ===== verification/Refresher.thy ===== *)
theory Refresher
  imports Authorization UriText
begin

text \<open>
  Refreshers (\<^verbatim>\<open>src/refresher.c\<close>): what keeps a registration, subscription or publication alive, by
  sending its request again before it expires, answering challenges, and trying later after a failure. A refresher
  is an internal listener of the provider: the handlers of the events are the functions \<open>process_\<dots>\<close>. The parameter \<open>L\<close>
  is the application's listener of the refresher (its code and reason), and \<open>date\<close> the text of the current date.
\<close>

type_synonym refresher_listener = "nat \<Rightarrow> int \<Rightarrow> string option \<Rightarrow> world \<Rightarrow> world option"

definition DEFAULT_RETRY_AFTER :: int where
  "DEFAULT_RETRY_AFTER = 60000"

definition DEFAULT_INITIAL_RETRY_AFTER_ON_IO_ERROR :: int where
  "DEFAULT_INITIAL_RETRY_AFTER_ON_IO_ERROR = 500"

definition tell :: "refresher_listener \<Rightarrow> nat \<Rightarrow> int \<Rightarrow> string option \<Rightarrow> world \<Rightarrow> world option" where
  "tell L r code reason w = do {
     x \<leftarrow> refreshers w r;
     (if rf_listener x then L r code reason w else Some w) }"

definition refresher_transaction :: "nat \<Rightarrow> world \<Rightarrow> (refresher \<times> transaction) option" where
  "refresher_transaction r w = do { x \<leftarrow> refreshers w r; t \<leftarrow> trs w (rf_transaction x); Some (x, t) }"

section \<open>The timer\<close>

text \<open>The main loop is reached through the transaction.\<close>

definition cancel_retry :: "nat \<Rightarrow> world \<Rightarrow> world option" where
  "cancel_retry r w = do {
     x \<leftarrow> refreshers w r;
     (case rf_timer x of None \<Rightarrow> Some w
      | Some s \<Rightarrow> do {
          t \<leftarrow> trs w (rf_transaction x);
          w \<leftarrow> belle_sip_main_loop_remove_source w s;
          upd_rf w r (\<lambda>x. x\<lparr>rf_timer := None\<rparr>) }) }"

definition schedule_timer_at :: "nat \<Rightarrow> int \<Rightarrow> timer_purpose \<Rightarrow> world \<Rightarrow> world option" where
  "schedule_timer_at r delay purpose w = do {
     w \<leftarrow> upd_rf w r (\<lambda>x. x\<lparr>rf_timer_purpose := purpose\<rparr>);
     w \<leftarrow> cancel_retry r w;
     let (w, s) = belle_sip_timeout_source_new w (CbRefresher r) (word_of_int delay);
     w \<leftarrow> upd_rf w r (\<lambda>x. x\<lparr>rf_timer := Some s\<rparr>);
     (x, t) \<leftarrow> refresher_transaction r w;
     belle_sip_main_loop_add_source w s }"

definition retry_later :: "nat \<Rightarrow> world \<Rightarrow> world option" where
  "retry_later r w = do {
     w \<leftarrow> upd_rf w r (\<lambda>x. x\<lparr>rf_number_of_retry := rf_number_of_retry x + 1\<rparr>);
     x \<leftarrow> refreshers w r;
     schedule_timer_at r (rf_retry_after x) RETRY w }"

definition retry_later_on_io_error :: "nat \<Rightarrow> world \<Rightarrow> world option" where
  "retry_later_on_io_error r w = do {
     x \<leftarrow> refreshers w r;
     (if rf_number_of_retry x < 1
      then do {
        w \<leftarrow> schedule_timer_at r DEFAULT_INITIAL_RETRY_AFTER_ON_IO_ERROR RETRY w;
        upd_rf w r (\<lambda>x. x\<lparr>rf_number_of_retry := rf_number_of_retry x + 1\<rparr>) }
      else retry_later r w) }"

text \<open>The product is one of two \<^verbatim>\<open>int\<close>: it wraps when the delay becomes a word of the timer.\<close>

definition schedule_timer :: "nat \<Rightarrow> world \<Rightarrow> world option" where
  "schedule_timer r w = do {
     x \<leftarrow> refreshers w r;
     schedule_timer_at r (rf_obtained_expires x * 900) NORMAL_REFRESH w }"

section \<open>Errors of the transport\<close>

text \<open>The object an error is about: a client transaction, the provider, or another one.\<close>

datatype io_source = IoClientTransaction nat | IoProvider | IoOther

definition early_state :: "transaction_state \<Rightarrow> bool" where
  "early_state s \<longleftrightarrow> s = TR_TRYING \<or> s = TR_INIT"

fun process_io_error :: "refresher_listener \<Rightarrow> nat \<Rightarrow> io_source \<Rightarrow> world \<Rightarrow> world option" where
  "process_io_error L r (IoClientTransaction t) w = do {
     (x, tr) \<leftarrow> refresher_transaction r w;
     (if rf_on_io_error x then Some w
      else if rf_state x = RF_STOPPED \<and> \<not> early_state (tr_state tr) \<or> t \<noteq> rf_transaction x then Some w
      else if rf_target_expires x = 0 \<and> \<not> early_state (tr_state tr) then Some w
      else do {
        w \<leftarrow> (if rf_state x = RF_STARTED then retry_later_on_io_error r w else Some w);
        tell L r 503 (Some ''io error'') w }) }"
| "process_io_error L r IoProvider w = do {
     (x, tr) \<leftarrow> refresher_transaction r w;
     (if rf_on_io_error x then Some w
      else do {
        down \<leftarrow> (case tr_channel tr of None \<Rightarrow> Some False
           | Some c \<Rightarrow> do { ch \<leftarrow> chans w c; Some (ch_state ch = CHANNEL_DISCONNECTED \<or> ch_state ch = CHANNEL_ERROR) });
        (if rf_state x = RF_STARTED \<and> tr_state tr = TR_TERMINATED \<and> down
         then do {
           w \<leftarrow> retry_later_on_io_error r w;
           w \<leftarrow> tell L r 503 (Some ''io error'') w;
           upd_rf w r (\<lambda>x. x\<lparr>rf_on_io_error := True\<rparr>) }
         else Some w) }) }"
| "process_io_error L r IoOther w = Some w"

section \<open>Contacts\<close>

fun first_unknown :: "nat list \<Rightarrow> world \<Rightarrow> nat option option" where
  "first_unknown [] w = Some None"
| "first_unknown (h # hs) w = do {
     x \<leftarrow> hdrs w h;
     (case hbody x of HContact a f \<Rightarrow> (if ct_unknown f then Some (Some h) else first_unknown hs w) | _ \<Rightarrow> None) }"

definition get_first_contact_in_unknown_state :: "nat \<Rightarrow> world \<Rightarrow> nat option option" where
  "get_first_contact_in_unknown_state req w = do {
     l \<leftarrow> belle_sip_message_get_headers w req ''Contact'';
     first_unknown l w }"

definition contact_set_unknown :: "nat \<Rightarrow> bool \<Rightarrow> world \<Rightarrow> world option" where
  "contact_set_unknown h v w = upd_hdr w h (\<lambda>x. x\<lparr>hbody := (case hbody x of
     HContact a f \<Rightarrow> HContact a (f\<lparr>ct_unknown := v\<rparr>) | b \<Rightarrow> b)\<rparr>)"

text \<open>A transaction without a channel, or a contact without a URI, is a crash.\<close>

definition is_contact_address_acurate :: "nat \<Rightarrow> nat \<Rightarrow> world \<Rightarrow> (world \<times> bool) option" where
  "is_contact_address_acurate r request w = do {
     contact \<leftarrow> get_first_contact_in_unknown_state request w;
     (case contact of None \<Rightarrow> Some (w, True)
      | Some contact \<Rightarrow> do {
          (x, tr) \<leftarrow> refresher_transaction r w;
          c \<leftarrow> tr_channel tr; ch \<leftarrow> chans w c;
          a \<leftarrow> address_of w contact; u \<leftarrow> addr_uri a;
          (if ch_public_port ch = belle_sip_uri_get_listening_port u \<and> ch_public_ip ch \<noteq> None \<and> ch_public_ip ch = uri_host u
           then do { w \<leftarrow> contact_set_unknown contact False w; Some (w, True) }
           else Some (w, False)) }) }"

definition belle_sip_header_contact_get_expires :: "addr_header \<Rightarrow> int" where
  "belle_sip_header_contact_get_expires a =
     (case belle_sip_parameters_get_parameter (addr_params a) ''expires'' of None \<Rightarrow> - 1 | Some v \<Rightarrow> atoi v)"

definition belle_sip_header_contact_set_expires :: "addr_header \<Rightarrow> int \<Rightarrow> addr_header" where
  "belle_sip_header_contact_set_expires a expires =
     (if expires < 0 then a
      else a\<lparr>addr_params := belle_sip_parameters_set_parameter (addr_params a) ''expires'' (Some (int_text expires))\<rparr>)"

text \<open>The first contact of the list equal to the one given.\<close>

fun find_contact :: "nat list \<Rightarrow> nat \<Rightarrow> world \<Rightarrow> nat option option" where
  "find_contact [] contact w = Some None"
| "find_contact (h # hs) contact w = do {
     a \<leftarrow> address_of w h; b \<leftarrow> address_of w contact;
     same \<leftarrow> belle_sip_header_contact_equals (Some (addr_uri a)) (Some (addr_uri b));
     (if same then Some (Some h) else find_contact hs contact w) }"

text \<open>A request without Contact is a crash once there is a response: the contact to fix is a clone of NULL.\<close>

definition get_matching_contact :: "nat \<Rightarrow> world \<Rightarrow> (world \<times> nat option) option" where
  "get_matching_contact t w = do {
     tr \<leftarrow> trs w t;
     (case tr_last_response tr of None \<Rightarrow> Some (w, None)
      | Some response \<Rightarrow> do {
          unfixed \<leftarrow> belle_sip_message_get_header_by_type w (tr_request tr) is_HContact; unfixed \<leftarrow> unfixed;
          x \<leftarrow> hdrs w unfixed;
          let (w, fixed) = new_hdr w (header_clone x);
          w \<leftarrow> belle_sip_response_fix_contact w response fixed;
          l \<leftarrow> belle_sip_message_get_headers w response ''Contact'';
          (if l = [] then Some (w, None)
           else do {
             found \<leftarrow> find_contact l fixed w;
             (case found of Some h \<Rightarrow> Some (w, Some h)
              | None \<Rightarrow> do { found \<leftarrow> find_contact l unfixed w; Some (w, found) }) }) }) }"

section \<open>The time granted\<close>

definition expires_of :: "world \<Rightarrow> nat \<Rightarrow> int option" where
  "expires_of w h = do { x \<leftarrow> hdrs w h; (case hbody x of HExpires e \<Rightarrow> Some e | _ \<Rightarrow> None) }"

text \<open>What the request asks for: its Expires header, or the parameter of the Contact of a REGISTER.\<close>

definition update_target :: "nat \<Rightarrow> nat \<Rightarrow> bool \<Rightarrow> nat option \<Rightarrow> world \<Rightarrow> world option" where
  "update_target r request is_register expires_header w =
     (case expires_header of
        Some h \<Rightarrow> do { e \<leftarrow> expires_of w h; upd_rf w r (\<lambda>x. x\<lparr>rf_target_expires := e\<rparr>) }
      | None \<Rightarrow>
          if \<not> is_register then Some w
          else do {
            c \<leftarrow> belle_sip_message_get_header_by_type w request is_HContact;
            (case c of None \<Rightarrow> Some w
             | Some c \<Rightarrow> do {
                 a \<leftarrow> address_of w c;
                 let e = belle_sip_header_contact_get_expires a;
                 (if e \<noteq> - 1 then upd_rf w r (\<lambda>x. x\<lparr>rf_target_expires := e\<rparr>) else Some w) }) })"

text \<open>What the response grants: the parameter of the matching Contact, else its Expires header; -1 when there is none.\<close>

definition granted :: "nat \<Rightarrow> bool \<Rightarrow> world \<Rightarrow> (world \<times> int) option" where
  "granted t is_register w = do {
     (w, contact) \<leftarrow> (if is_register then get_matching_contact t w else Some (w, None));
     e \<leftarrow> (case contact of None \<Rightarrow> Some (- 1)
           | Some c \<Rightarrow> do { a \<leftarrow> address_of w c; Some (belle_sip_header_contact_get_expires a) });
     tr \<leftarrow> trs w t;
     e \<leftarrow> (if e \<noteq> - 1 then Some e
           else case tr_last_response tr of None \<Rightarrow> Some (- 1)
           | Some response \<Rightarrow> do {
               h \<leftarrow> belle_sip_message_get_header w response ''Expires'';
               (case h of None \<Rightarrow> Some (- 1) | Some h \<Rightarrow> expires_of w h) });
     Some (w, e) }"

text \<open>No answer, or an answer of 0 to a positive request, counts as what was asked.\<close>

definition obtained_from :: "int \<Rightarrow> int \<Rightarrow> int" where
  "obtained_from target e = (if e = - 1 then target else if 0 < target \<and> e = 0 then target else e)"

definition set_expires_from_trans :: "nat \<Rightarrow> world \<Rightarrow> (world \<times> int) option" where
  "set_expires_from_trans r w = do {
     (x, tr) \<leftarrow> refresher_transaction r w;
     m \<leftarrow> msgs w (tr_request tr);
     expires_header \<leftarrow> belle_sip_message_get_header_by_type w (tr_request tr) is_HExpires;
     w \<leftarrow> upd_rf w r (\<lambda>x. x\<lparr>rf_obtained_expires := - 1\<rparr>);
     let is_register = (rq_method m = ''REGISTER'');
     (if \<not> is_register \<and> expires_header = None then Some (w, - 1)
      else do {
        w \<leftarrow> update_target r (tr_request tr) is_register expires_header w;
        (w, e) \<leftarrow> granted (rf_transaction x) is_register w;
        w \<leftarrow> upd_rf w r (\<lambda>x. x\<lparr>rf_obtained_expires := obtained_from (rf_target_expires x) e\<rparr>);
        Some (w, 0) }) }"

section \<open>Stopping\<close>

definition belle_sip_refresher_stop_internal :: "env \<Rightarrow> chan_iface \<Rightarrow> nat \<Rightarrow> bool \<Rightarrow> world \<Rightarrow> world option" where
  "belle_sip_refresher_stop_internal E I r cancel_pending_transaction w = do {
     w \<leftarrow> cancel_retry r w;
     (x, tr) \<leftarrow> refresher_transaction r w;
     w \<leftarrow> (if cancel_pending_transaction \<and> belle_sip_transaction_state_is_transient (tr_state tr)
           then belle_sip_transaction_terminate E I (rf_transaction x) w else Some w);
     upd_rf w r (\<lambda>x. x\<lparr>rf_state := RF_STOPPED\<rparr>) }"

definition belle_sip_refresher_stop :: "env \<Rightarrow> chan_iface \<Rightarrow> nat \<Rightarrow> world \<Rightarrow> world option" where
  "belle_sip_refresher_stop E I r w = belle_sip_refresher_stop_internal E I r True w"

section \<open>Sending the request again\<close>

definition unfilled_auth_info :: "auth_event \<Rightarrow> bool" where
  "unfilled_auth_info info \<longleftrightarrow> ae_passwd info = None \<and> ae_ha1 info = None"

definition add_auth_events :: "nat \<Rightarrow> bool \<Rightarrow> auth_event list \<Rightarrow> world \<Rightarrow> world option" where
  "add_auth_events r keep evs w = (if keep then upd_rf w r (\<lambda>x. x\<lparr>rf_auth_events := rf_auth_events x @ evs\<rparr>) else Some w)"

text \<open>The request outside a dialog: a clone with the next CSeq while the last one is pending, else one with credentials.\<close>

definition refresh_request :: "env \<Rightarrow> nat \<Rightarrow> bool \<Rightarrow> sip_uri option \<Rightarrow> world \<Rightarrow> (world \<times> nat) option" where
  "refresh_request E r auth_infos requri w = do {
     (x, tr) \<leftarrow> refresher_transaction r w;
     (w, request) \<leftarrow> (if belle_sip_transaction_state_is_transient (tr_state tr)
        then do {
          (w, request) \<leftarrow> belle_sip_request_clone_with_body w (tr_request tr);
          c \<leftarrow> belle_sip_message_get_header_by_type w request is_HCSeq; c \<leftarrow> c;
          n \<leftarrow> cseq_number w c;
          w \<leftarrow> upd_hdr w c (\<lambda>h. h\<lparr>hbody := (case hbody h of HCSeq me _ \<Rightarrow> HCSeq me (n + 1) | b \<Rightarrow> b)\<rparr>);
          Some (w, request) }
        else do {
          (w, made) \<leftarrow> belle_sip_client_transaction_create_authenticated_request E (rf_transaction x) (rf_realm x) w;
          (request, evs) \<leftarrow> made;
          w \<leftarrow> add_auth_events r auth_infos evs w;
          Some (w, request) });
     (case requri of None \<Rightarrow> Some (w, request)
      | Some u \<Rightarrow> do {
          w \<leftarrow> belle_sip_request_set_uri w request (Some u);
          w \<leftarrow> belle_sip_message_remove_header w request ''Authorization'';
          w \<leftarrow> belle_sip_message_remove_header w request ''Proxy-Authorization'';
          Some (w, request) }) }"

text \<open>The request inside a dialog.\<close>

definition refresh_dialog_request :: "env \<Rightarrow> nat \<Rightarrow> bool \<Rightarrow> nat \<Rightarrow> world \<Rightarrow> (world \<times> nat) option" where
  "refresh_dialog_request E r auth_infos d w = do {
     (x, tr) \<leftarrow> refresher_transaction r w;
     (w, request) \<leftarrow> belle_sip_dialog_create_request_from d (tr_request tr) w; request \<leftarrow> request;
     m \<leftarrow> msgs w request;
     h \<leftarrow> belle_sip_message_get_header_by_type w request is_HExpires;
     w \<leftarrow> (if rq_method m = ''SUBSCRIBE'' \<and> h = None
           then (let (w, h) = new_hdr w \<lparr>hname = ''Expires'', hbody = HExpires 0\<rparr> in belle_sip_message_add_header w request h)
           else Some w);
     (w, evs, given) \<leftarrow> belle_sip_provider_add_authorization E request (tr_last_response tr) None (rf_realm x) w;
     w \<leftarrow> add_auth_events r auth_infos evs w;
     Some (w, request) }"

text \<open>The headers of the request that tell the time asked for, where it has them, and its date.\<close>

definition set_expires_headers :: "string \<Rightarrow> int \<Rightarrow> nat \<Rightarrow> world \<Rightarrow> world option" where
  "set_expires_headers date target request w = do {
     h \<leftarrow> belle_sip_message_get_header_by_type w request is_HExpires;
     w \<leftarrow> (case h of None \<Rightarrow> Some w | Some h \<Rightarrow> upd_hdr w h (\<lambda>x. x\<lparr>hbody := HExpires target\<rparr>));
     c \<leftarrow> belle_sip_message_get_header_by_type w request is_HContact;
     w \<leftarrow> (case c of None \<Rightarrow> Some w
           | Some c \<Rightarrow> do {
               a \<leftarrow> address_of w c;
               (if 0 \<le> belle_sip_header_contact_get_expires a
                then upd_hdr w c (\<lambda>x. x\<lparr>hbody := set_addr (hbody x) (belle_sip_header_contact_set_expires a target)\<rparr>)
                else Some w) });
     d \<leftarrow> belle_sip_message_get_header_by_type w request is_HDate;
     (case d of None \<Rightarrow> Some w | Some d \<Rightarrow> upd_hdr w d (\<lambda>x. x\<lparr>hbody := HDate (Some date)\<rparr>)) }"

text \<open>The new transaction takes the place of the old one, which is terminated when nobody answered it yet.\<close>

definition replace_transaction :: "env \<Rightarrow> chan_iface \<Rightarrow> nat \<Rightarrow> nat \<Rightarrow> world \<Rightarrow> (world \<times> nat) option" where
  "replace_transaction E I r request w = do {
     (w, t) \<leftarrow> belle_sip_provider_create_client_transaction E request w; t \<leftarrow> t;
     w \<leftarrow> upd_tr w t (\<lambda>x. x\<lparr>tr_is_internal := True\<rparr>);
     (x, old) \<leftarrow> refresher_transaction r w;
     w \<leftarrow> (if tr_state old \<in> {TR_INIT, TR_CALLING, TR_TRYING}
           then belle_sip_transaction_terminate E I (rf_transaction x) w else Some w);
     w \<leftarrow> upd_rf w r (\<lambda>x. x\<lparr>rf_transaction := t\<rparr>);
     Some (w, t) }"

definition send_refresh :: "env \<Rightarrow> chan_iface \<Rightarrow> string \<Rightarrow> nat \<Rightarrow> int \<Rightarrow> sip_uri option \<Rightarrow> sip_uri option \<Rightarrow> nat \<Rightarrow> world
    \<Rightarrow> (world \<times> int) option" where
  "send_refresh E I date r expires requri preset_route request w = do {
     w \<leftarrow> upd_rf w r (\<lambda>x. x\<lparr>rf_on_io_error := False\<rparr>);
     x \<leftarrow> refreshers w r;
     w \<leftarrow> set_expires_headers date (rf_target_expires x) request w;
     (w, t) \<leftarrow> replace_transaction E I r request w;
     (w, ret) \<leftarrow> belle_sip_client_transaction_send_request_to E I t (if requri \<noteq> None then requri else preset_route) w;
     (if ret \<noteq> 0 then Some (w, - 1)
      else do {
        w \<leftarrow> (if expires = 0 then belle_sip_refresher_stop_internal E I r False w else Some w);
        Some (w, 0) }) }"

text \<open>\<open>auth_infos\<close> tells whether the list of events of the refresher is given to be filled.\<close>

definition belle_sip_refresher_refresh_internal ::
  "env \<Rightarrow> chan_iface \<Rightarrow> string \<Rightarrow> nat \<Rightarrow> int \<Rightarrow> bool \<Rightarrow> bool \<Rightarrow> sip_uri option \<Rightarrow> world \<Rightarrow> (world \<times> int) option" where
  "belle_sip_refresher_refresh_internal E I date r expires auth_mandatory auth_infos requri w = do {
     (x, tr) \<leftarrow> refresher_transaction r w;
     w \<leftarrow> (if 0 \<le> expires then upd_rf w r (\<lambda>x. x\<lparr>rf_target_expires := expires\<rparr>) else Some w);
     (w, request) \<leftarrow> (case tr_dialog tr of
         None \<Rightarrow> map_option (\<lambda>(w, request). (w, Some request)) (refresh_request E r auth_infos requri w)
       | Some d \<Rightarrow> do {
           dl \<leftarrow> dlgs w d;
           pending \<leftarrow> (if dlg_state dl = DIALOG_CONFIRMED then belle_sip_dialog_request_pending d w else Some True);
           (if pending then Some (w, None)
            else map_option (\<lambda>(w, request). (w, Some request)) (refresh_dialog_request E r auth_infos d w)) });
     (case request of None \<Rightarrow> Some (w, - 1)
      | Some request \<Rightarrow> do {
          x \<leftarrow> refreshers w r;
          (if auth_mandatory \<and> auth_infos \<and> list_ex unfilled_auth_info (rf_auth_events x) then Some (w, - 1)
           else send_refresh E I date r expires requri (tr_preset_route tr) request w) }) }"

definition belle_sip_refresher_refresh :: "env \<Rightarrow> chan_iface \<Rightarrow> string \<Rightarrow> nat \<Rightarrow> int \<Rightarrow> world \<Rightarrow> (world \<times> int) option" where
  "belle_sip_refresher_refresh E I date r expires w = do {
     w \<leftarrow> cancel_retry r w;
     w \<leftarrow> upd_rf w r (\<lambda>x. x\<lparr>rf_auth_failures := 0\<rparr>);
     belle_sip_refresher_refresh_internal E I date r expires False False None w }"

definition timer_cb :: "refresher_listener \<Rightarrow> env \<Rightarrow> chan_iface \<Rightarrow> string \<Rightarrow> nat \<Rightarrow> world \<Rightarrow> (world \<times> int) option" where
  "timer_cb L E I date r w = do {
     x \<leftarrow> refreshers w r;
     (if rf_timer_purpose x = NORMAL_REFRESH \<and> rf_manual x
      then do { w \<leftarrow> tell L r 0 (Some ''about to expire'') w; Some (w, BELLE_SIP_STOP) }
      else do {
        (w, ret) \<leftarrow> belle_sip_refresher_refresh E I date r (rf_target_expires x) w;
        w \<leftarrow> (if ret = - 1 then retry_later r w else Some w);
        Some (w, BELLE_SIP_STOP) }) }"

text \<open>What every source of the main loop runs, the timer of a refresher included.\<close>

fun main_loop_callback :: "refresher_listener \<Rightarrow> env \<Rightarrow> chan_iface \<Rightarrow> string \<Rightarrow> callback \<Rightarrow> nat \<Rightarrow> world \<Rightarrow> (world \<times> int) option" where
  "main_loop_callback L E I date (CbRefresher r) ev w = timer_cb L E I date r w"
| "main_loop_callback L E I date cb ev w = run_callback E I cb ev w"

section \<open>Responses and timeouts\<close>

text \<open>The entity tag of a published state goes to the next request.\<close>

definition keep_etag :: "nat \<Rightarrow> nat \<Rightarrow> world \<Rightarrow> world option" where
  "keep_etag request response w = do {
     h \<leftarrow> belle_sip_message_get_header w response ''SIP-ETag'';
     (case h of None \<Rightarrow> Some w
      | Some h \<Rightarrow> do {
          x \<leftarrow> hdrs w h;
          (case hbody x of
             HExtension v \<Rightarrow> do {
               let (w, h) = new_hdr w (belle_sip_header_extension_create ''SIP-If-Match'' v);
               w \<leftarrow> belle_sip_message_remove_header w request ''SIP-If-Match'';
               belle_sip_message_add_header w request h }
           | _ \<Rightarrow> None) }) }"

definition process_success :: "env \<Rightarrow> chan_iface \<Rightarrow> string \<Rightarrow> nat \<Rightarrow> nat \<Rightarrow> nat \<Rightarrow> world \<Rightarrow> (world \<times> bool) option" where
  "process_success E I date r request response w = do {
     w \<leftarrow> upd_rf w r (\<lambda>x. x\<lparr>rf_auth_failures := 0, rf_number_of_retry := 0\<rparr>);
     m \<leftarrow> msgs w request;
     w \<leftarrow> (if rq_method m = ''PUBLISH'' then keep_etag request response w else Some w);
     (w, ret) \<leftarrow> set_expires_from_trans r w;
     x \<leftarrow> refreshers w r;
     w \<leftarrow> (if rf_target_expires x \<le> 0 then belle_sip_refresher_stop E I r w else Some w);
     x \<leftarrow> refreshers w r;
     (if rf_state x = RF_STOPPED then Some (w, True)
      else do {
        (w, accurate) \<leftarrow> is_contact_address_acurate r request w;
        (if accurate then do { w \<leftarrow> schedule_timer r w; Some (w, True) }
         else do { (w, ret) \<leftarrow> belle_sip_refresher_refresh E I date r (rf_target_expires x) w; Some (w, False) }) }) }"

definition retry_if_wanted :: "nat \<Rightarrow> world \<Rightarrow> world option" where
  "retry_if_wanted r w = do {
     x \<leftarrow> refreshers w r;
     (if 0 < rf_target_expires x then retry_later r w else Some w) }"

definition process_redirect :: "env \<Rightarrow> chan_iface \<Rightarrow> string \<Rightarrow> nat \<Rightarrow> nat \<Rightarrow> world \<Rightarrow> (world \<times> bool) option" where
  "process_redirect E I date r response w = do {
     c \<leftarrow> belle_sip_message_get_header_by_type w response is_HContact;
     (case c of None \<Rightarrow> Some (w, True)
      | Some c \<Rightarrow> do {
          a \<leftarrow> address_of w c;
          x \<leftarrow> refreshers w r;
          (case addr_uri a of None \<Rightarrow> Some (w, True)
           | Some u \<Rightarrow> do {
               (w, ret) \<leftarrow> belle_sip_refresher_refresh_internal E I date r (rf_target_expires x) True True (Some u) w;
               Some (w, ret \<noteq> 0) }) }) }"

definition process_challenge :: "env \<Rightarrow> chan_iface \<Rightarrow> string \<Rightarrow> nat \<Rightarrow> world \<Rightarrow> (world \<times> bool) option" where
  "process_challenge E I date r w = do {
     w \<leftarrow> upd_rf w r (\<lambda>x. x\<lparr>rf_auth_failures := rf_auth_failures x + 1\<rparr>);
     x \<leftarrow> refreshers w r;
     (if 1 < rf_auth_failures x
      then do {
        w \<leftarrow> retry_if_wanted r w;
        w \<leftarrow> upd_rf w r (\<lambda>x. x\<lparr>rf_auth_failures := 0\<rparr>);
        Some (w, True) }
      else do {
        w \<leftarrow> upd_rf w r (\<lambda>x. x\<lparr>rf_auth_events := []\<rparr>);
        (w, ret) \<leftarrow> belle_sip_refresher_refresh_internal E I date r (rf_target_expires x) True True None w;
        Some (w, ret \<noteq> 0) }) }"

definition process_too_brief :: "env \<Rightarrow> chan_iface \<Rightarrow> string \<Rightarrow> nat \<Rightarrow> nat \<Rightarrow> world \<Rightarrow> (world \<times> bool) option" where
  "process_too_brief E I date r response w = do {
     h \<leftarrow> belle_sip_message_get_header w response ''Min-Expires'';
     x \<leftarrow> refreshers w r;
     (case h of None \<Rightarrow> Some (w, True)
      | Some h \<Rightarrow> do {
          y \<leftarrow> hdrs w h;
          (case hbody y of
             HExtension v \<Rightarrow>
               (case v of None \<Rightarrow> Some (w, True)
                | Some v \<Rightarrow>
                    if 0 < atoi v \<and> rf_state x = RF_STARTED
                    then do {
                      w \<leftarrow> upd_rf w r (\<lambda>x. x\<lparr>rf_target_expires := atoi v\<rparr>);
                      (w, ret) \<leftarrow> belle_sip_refresher_refresh E I date r (atoi v) w;
                      Some (w, False) }
                    else Some (w, True))
           | _ \<Rightarrow> None) }) }"

text \<open>
  The result of each case says whether the application is told. The event may come without a transaction when the
  provider found none: its request is read before anything else.
\<close>

definition process_response_event ::
  "refresher_listener \<Rightarrow> env \<Rightarrow> chan_iface \<Rightarrow> string \<Rightarrow> nat \<Rightarrow> nat option \<Rightarrow> nat \<Rightarrow> world \<Rightarrow> world option" where
  "process_response_event L E I date r client_transaction response w = do {
     t \<leftarrow> client_transaction; tr \<leftarrow> trs w t;
     m \<leftarrow> msgs w response;
     x \<leftarrow> refreshers w r;
     let code = rs_status_code m;
     (if t \<noteq> rf_transaction x then Some w
      else do {
        (w, told) \<leftarrow> (if 200 \<le> code \<and> code < 300 then process_success E I date r (tr_request tr) response w
           else if code \<in> {301, 302} then process_redirect E I date r response w
           else if code \<in> {401, 407} then process_challenge E I date r w
           else if code = 423 then process_too_brief E I date r response w
           else if code \<in> {505, 501} then Some (w, True)
           else do { w \<leftarrow> retry_if_wanted r w; Some (w, True) });
        (if told then tell L r code (rs_reason_phrase m) w else Some w) }) }"

definition process_timeout :: "refresher_listener \<Rightarrow> nat \<Rightarrow> nat option \<Rightarrow> world \<Rightarrow> world option" where
  "process_timeout L r client_transaction w = do {
     x \<leftarrow> refreshers w r;
     (if client_transaction \<noteq> Some (rf_transaction x) then Some w
      else do {
        w \<leftarrow> (if rf_state x = RF_STARTED then schedule_timer_at r 2000 RETRY w else Some w);
        tell L r 408 (Some ''timeout'') w }) }"

section \<open>Starting, and the life of a refresher\<close>

definition belle_sip_refresher_start :: "env \<Rightarrow> chan_iface \<Rightarrow> string \<Rightarrow> nat \<Rightarrow> world \<Rightarrow> world option" where
  "belle_sip_refresher_start E I date r w = do {
     (x, tr) \<leftarrow> refresher_transaction r w;
     (if rf_state x = RF_STARTED then Some w
      else if 0 < rf_target_expires x
      then do {
        w \<leftarrow> upd_rf w r (\<lambda>x. x\<lparr>rf_state := RF_STARTED\<rparr>);
        (w, accurate) \<leftarrow> is_contact_address_acurate r (tr_request tr) w;
        (if accurate then schedule_timer r w
         else map_option fst (belle_sip_refresher_refresh E I date r (rf_target_expires x) w)) }
      else upd_rf w r (\<lambda>x. x\<lparr>rf_state := RF_STOPPED\<rparr>)) }"

definition belle_sip_provider_add_internal_sip_listener :: "nat \<Rightarrow> bool \<Rightarrow> world \<Rightarrow> world" where
  "belle_sip_provider_add_internal_sip_listener l prepend w = w\<lparr>prov_internal_listeners :=
     (if prepend then l # prov_internal_listeners w else prov_internal_listeners w @ [l])\<rparr>"

definition belle_sip_provider_remove_internal_sip_listener :: "nat \<Rightarrow> world \<Rightarrow> world" where
  "belle_sip_provider_remove_internal_sip_listener l w = w\<lparr>prov_internal_listeners := remove1 l (prov_internal_listeners w)\<rparr>"

definition belle_sip_refresher_new :: "env \<Rightarrow> chan_iface \<Rightarrow> string \<Rightarrow> nat \<Rightarrow> world \<Rightarrow> (world \<times> nat) option" where
  "belle_sip_refresher_new E I date t w = do {
     tr \<leftarrow> trs w t; m \<leftarrow> msgs w (tr_request tr);
     let r = obj_brk w;
     let w = w\<lparr>obj_brk := Suc r, refreshers := (refreshers w)(r \<mapsto> \<lparr>rf_listener = False, rf_timer = None, rf_transaction = t,
        rf_realm = None, rf_target_expires = 0, rf_obtained_expires = 0, rf_state = RF_STOPPED,
        rf_retry_after = DEFAULT_RETRY_AFTER, rf_auth_events = [], rf_auth_failures = 0, rf_on_io_error = False,
        rf_number_of_retry = 0, rf_timer_purpose = NORMAL_REFRESH, rf_manual = False\<rparr>)\<rparr>;
     let w = belle_sip_provider_add_internal_sip_listener r (rq_method m = ''REGISTER'') w;
     (w, ret) \<leftarrow> set_expires_from_trans r w;
     w \<leftarrow> (if belle_sip_transaction_state_is_transient (tr_state tr)
           then do {
             w \<leftarrow> upd_tr w t (\<lambda>x. x\<lparr>tr_is_internal := True\<rparr>);
             upd_rf w r (\<lambda>x. x\<lparr>rf_state := RF_STARTED\<rparr>) }
           else belle_sip_refresher_start E I date r w);
     Some (w, r) }"

text \<open>The object goes at the end of its last reference.\<close>

definition refresher_destroy :: "env \<Rightarrow> chan_iface \<Rightarrow> nat \<Rightarrow> world \<Rightarrow> world option" where
  "refresher_destroy E I r w = do {
     w \<leftarrow> belle_sip_refresher_stop E I r w;
     (x, tr) \<leftarrow> refresher_transaction r w;
     let w = belle_sip_provider_remove_internal_sip_listener r w;
     Some (w\<lparr>refreshers := (refreshers w)(r := None)\<rparr>) }"

end
