(* ===== verification/RefresherProps.thy ===== *)
theory RefresherProps
  imports Refresher
begin

text \<open>
  What a refresher does with the answers to its request: it comes back before the time granted is over, unless that
  time is too long for its timer; it stops insisting after a second challenge; a registration without Contact crashes.
\<close>

section \<open>The timer\<close>

text \<open>A refresher whose transaction exists and whose timer, if any, is a source of the main loop.\<close>

definition refresher_at :: "nat \<Rightarrow> world \<Rightarrow> refresher \<Rightarrow> transaction \<Rightarrow> bool" where
  "refresher_at r w x tr \<longleftrightarrow> refreshers w r = Some x \<and> trs w (rf_transaction x) = Some tr
     \<and> (case rf_timer x of None \<Rightarrow> True | Some s \<Rightarrow> ml_src w s \<noteq> None) \<and> ml_inv w"

text \<open>The timer \<open>s\<close> of the refresher is in the main loop, with this delay.\<close>

definition timer_armed :: "nat \<Rightarrow> world \<Rightarrow> nat \<Rightarrow> int \<Rightarrow> bool" where
  "timer_armed r w s delay \<longleftrightarrow> s \<in> set (ml_sources w) \<and>
     (\<exists>src. ml_src w s = Some src \<and> src_cb src = CbRefresher r \<and> src_timeout src = word_of_int delay \<and> \<not> src_cancelled src
        \<and> \<not> src_has_fd src \<and> (timeout_set src \<longrightarrow> src_expire_ms src = ml_time w + ucast (src_timeout src)))"

text \<open>Only the main loop and the refresher change.\<close>

definition same_core :: "world \<Rightarrow> world \<Rightarrow> bool" where
  "same_core w w' \<longleftrightarrow> trs w' = trs w \<and> msgs w' = msgs w \<and> hdrs w' = hdrs w \<and> chans w' = chans w \<and> wire w' = wire w
     \<and> ml_time w' = ml_time w \<and> prov_client_transactions w' = prov_client_transactions w"

lemma same_core_trans: "same_core a b \<Longrightarrow> same_core b c \<Longrightarrow> same_core a c"
  by (simp add: same_core_def)

lemma cancel_retry_effect:
  assumes "refresher_at r w x tr"
  shows "\<exists>w'. cancel_retry r w = Some w' \<and> refresher_at r w' (x\<lparr>rf_timer := None\<rparr>) tr \<and> same_core w w'
    \<and> ml_brk w' = ml_brk w \<and> (\<forall>s. rf_timer x = Some s \<longrightarrow> s \<notin> set (ml_sources w') \<and> s < ml_brk w)"
proof (cases "rf_timer x")
  case None
  then have "x\<lparr>rf_timer := None\<rparr> = x"
    by simp
  then show ?thesis
    using None assms by (intro exI [of _ w]) (auto simp: cancel_retry_def refresher_at_def same_core_def)
next
  case (Some s)
  then have s: "ml_inv w" "ml_src w s \<noteq> None"
    using assms by (auto simp: refresher_at_def)
  then have "s \<notin> set (ml_sources (w :: world)) \<or> s \<in> set (ml_sources w)" "s < ml_brk w" "distinct (ml_sources w)"
    by (auto simp: ml_inv_def)
  then show ?thesis
    using Some s assms
    by (auto simp: cancel_retry_def refresher_at_def same_core_def belle_sip_main_loop_remove_source_def upd_rf_def
        ml_inv_def set_remove1_eq)
qed

lemma schedule_timer_at_effect:
  assumes "refresher_at r w x tr"
  shows "\<exists>w' s. schedule_timer_at r delay purpose w = Some w'
    \<and> refresher_at r w' (x\<lparr>rf_timer_purpose := purpose, rf_timer := Some s\<rparr>) tr \<and> timer_armed r w' s delay \<and> same_core w w'
    \<and> (\<forall>old. rf_timer x = Some old \<longrightarrow> old \<notin> set (ml_sources w'))"
proof -
  let ?x = "x\<lparr>rf_timer_purpose := purpose\<rparr>"
  let ?w = "w\<lparr>refreshers := (refreshers w)(r \<mapsto> ?x)\<rparr>"
  have "refresher_at r ?w ?x tr"
    using assms by (auto simp: refresher_at_def ml_inv_def split: option.splits)
  then obtain w1 where w1: "cancel_retry r ?w = Some w1" "refresher_at r w1 (?x\<lparr>rf_timer := None\<rparr>) tr" "same_core ?w w1"
      "\<forall>s. rf_timer x = Some s \<longrightarrow> s \<notin> set (ml_sources w1) \<and> s < ml_brk w1"
    using cancel_retry_effect [of r ?w ?x tr] by auto
  let ?src = "\<lparr>src_cb = CbRefresher r, src_id = ml_global_id w1, src_has_fd = False, src_timeout = word_of_int delay,
      src_expire_ms = 0, src_revents = 0, src_cancelled = False, src_expired = False, src_oneshot = False,
      src_notify_required = False\<rparr>"
  have fresh: "ml_brk w1 \<notin> set (ml_sources w1)" "ml_src w1 (ml_brk w1) = None"
    using w1(2) by (auto simp: refresher_at_def ml_inv_def)
  have "upd_rf w r (\<lambda>x. x\<lparr>rf_timer_purpose := purpose\<rparr>) = Some ?w"
    using assms by (simp add: upd_rf_def refresher_at_def)
  then show ?thesis
    using w1 fresh
    by (auto simp: schedule_timer_at_def belle_sip_timeout_source_new_def belle_sip_source_new_def Let_def upd_rf_def
        refresher_at_def refresher_transaction_def belle_sip_main_loop_add_source_def timer_armed_def same_core_def timeout_set_def
        ml_inv_def less_Suc_eq)
qed

section \<open>A request that was accepted\<close>

lemma lookups_refreshers [simp]:
  fixes w :: world
  shows "belle_sip_message_get_header_by_type (w\<lparr>refreshers := f\<rparr>) m P = belle_sip_message_get_header_by_type w m P"
    and "belle_sip_message_get_headers (w\<lparr>refreshers := f\<rparr>) m n = belle_sip_message_get_headers w m n"
    and "belle_sip_message_get_header (w\<lparr>refreshers := f\<rparr>) m n = belle_sip_message_get_header w m n"
    and "expires_of (w\<lparr>refreshers := f\<rparr>) h = expires_of w h"
    and "first_unknown l (w\<lparr>refreshers := f\<rparr>) = first_unknown l w"
proof -
  show "belle_sip_message_get_header_by_type (w\<lparr>refreshers := f\<rparr>) m P = belle_sip_message_get_header_by_type w m P"
    by (simp add: belle_sip_message_get_header_by_type_def)
  show *: "belle_sip_message_get_headers (w\<lparr>refreshers := f\<rparr>) m n = belle_sip_message_get_headers w m n" for m n
    by (simp add: belle_sip_message_get_headers_def belle_sip_headers_container_get_def)
  then show "belle_sip_message_get_header (w\<lparr>refreshers := f\<rparr>) m n = belle_sip_message_get_header w m n"
    by (simp add: belle_sip_message_get_header_def)
  show "expires_of (w\<lparr>refreshers := f\<rparr>) h = expires_of w h"
    by (simp add: expires_of_def)
  show "first_unknown l (w\<lparr>refreshers := f\<rparr>) = first_unknown l w"
    by (induction l) (auto split: hbody.split Option.bind_splits)
qed

text \<open>
  The refresher \<open>r\<close> waits for the answer to its transaction, whose request, of another method than REGISTER and PUBLISH, asks
  for \<open>target\<close> seconds and has no contact to be learnt; the response accepts it and grants \<open>e\<close> seconds (-1 when it does
  not say).
\<close>

definition accepted :: "nat \<Rightarrow> world \<Rightarrow> refresher \<Rightarrow> transaction \<Rightarrow> nat \<Rightarrow> message \<Rightarrow> int \<Rightarrow> int \<Rightarrow> bool" where
  "accepted r w x tr response m target e \<longleftrightarrow> refresher_at r w x tr \<and> rf_state x = RF_STARTED
     \<and> tr_last_response tr = Some response \<and> msgs w response = Some m \<and> 200 \<le> rs_status_code m \<and> rs_status_code m < 300
     \<and> (\<exists>rq. msgs w (tr_request tr) = Some rq \<and> rq_method rq \<notin> {''REGISTER'', ''PUBLISH''})
     \<and> (\<exists>h. belle_sip_message_get_header_by_type w (tr_request tr) is_HExpires = Some (Some h) \<and> expires_of w h = Some target)
     \<and> (\<exists>he. belle_sip_message_get_header w response ''Expires'' = Some he
          \<and> (case he of None \<Rightarrow> Some (- 1) | Some h \<Rightarrow> expires_of w h) = Some e)
     \<and> get_first_contact_in_unknown_state (tr_request tr) w = Some None"

lemma set_expires_effect:
  assumes "accepted r w x tr response m target e"
  shows "set_expires_from_trans r w = Some (w\<lparr>refreshers := (refreshers w)(r \<mapsto>
    x\<lparr>rf_target_expires := target, rf_obtained_expires := obtained_from target e\<rparr>)\<rparr>, 0)"
proof -
  obtain rq h he where a: "refreshers w r = Some x" "trs w (rf_transaction x) = Some tr" "tr_last_response tr = Some response"
      "msgs w (tr_request tr) = Some rq" "rq_method rq \<noteq> ''REGISTER''"
      "belle_sip_message_get_header_by_type w (tr_request tr) is_HExpires = Some (Some h)" "expires_of w h = Some target"
      "belle_sip_message_get_header w response ''Expires'' = Some he"
      "(case he of None \<Rightarrow> Some (- 1) | Some h \<Rightarrow> expires_of w h) = Some e"
    using assms by (auto simp: accepted_def refresher_at_def)
  show ?thesis
    using a by (auto simp: set_expires_from_trans_def refresher_transaction_def upd_rf_def update_target_def granted_def Let_def
        split: option.splits)
qed

lemma accepted_reset:
  assumes "accepted r w x tr response m target e"
  shows "accepted r (w\<lparr>refreshers := (refreshers w)(r \<mapsto> x\<lparr>rf_auth_failures := 0, rf_number_of_retry := 0\<rparr>)\<rparr>)
    (x\<lparr>rf_auth_failures := 0, rf_number_of_retry := 0\<rparr>) tr response m target e"
  using assms by (simp add: accepted_def refresher_at_def get_first_contact_in_unknown_state_def ml_inv_def cong: option.case_cong)

text \<open>The refresher is armed with the delay that follows from the answer.\<close>

lemma success_arms_timer:
  assumes a: "accepted r w x tr response m target e" and "0 < target"
  shows "\<exists>w' s. process_response_event L E I date r (Some (rf_transaction x)) response w = tell L r (rs_status_code m) (rs_reason_phrase m) w'
    \<and> refresher_at r w' (x\<lparr>rf_auth_failures := 0, rf_number_of_retry := 0, rf_target_expires := target,
        rf_obtained_expires := obtained_from target e, rf_timer_purpose := NORMAL_REFRESH, rf_timer := Some s\<rparr>) tr
    \<and> timer_armed r w' s (obtained_from target e * 900) \<and> same_core w w'
    \<and> (\<forall>old. rf_timer x = Some old \<longrightarrow> old \<notin> set (ml_sources w'))"
proof -
  let ?x = "x\<lparr>rf_auth_failures := 0, rf_number_of_retry := 0\<rparr>"
  let ?w = "w\<lparr>refreshers := (refreshers w)(r \<mapsto> ?x)\<rparr>"
  let ?x' = "?x\<lparr>rf_target_expires := target, rf_obtained_expires := obtained_from target e\<rparr>"
  let ?w' = "?w\<lparr>refreshers := (refreshers ?w)(r \<mapsto> ?x')\<rparr>"
  have r: "refreshers w r = Some x" "trs w (rf_transaction x) = Some tr" "msgs w response = Some m" "rf_state x = RF_STARTED"
      "200 \<le> rs_status_code m" "rs_status_code m < 300" "get_first_contact_in_unknown_state (tr_request tr) w = Some None"
    using a by (auto simp: accepted_def refresher_at_def)
  obtain rq where rq: "msgs w (tr_request tr) = Some rq" "rq_method rq \<noteq> ''PUBLISH''"
    using a by (auto simp: accepted_def)
  have exp: "set_expires_from_trans r ?w = Some (?w', 0)"
    by (rule set_expires_effect [OF accepted_reset [OF a]])
  have "refresher_at r ?w' ?x' tr"
    using a by (simp add: accepted_def refresher_at_def ml_inv_def cong: option.case_cong)
  then obtain w' s where w': "schedule_timer_at r (obtained_from target e * 900) NORMAL_REFRESH ?w' = Some w'"
      "refresher_at r w' (?x'\<lparr>rf_timer_purpose := NORMAL_REFRESH, rf_timer := Some s\<rparr>) tr"
      "timer_armed r w' s (obtained_from target e * 900)" "same_core ?w' w'"
      "\<forall>old. rf_timer ?x' = Some old \<longrightarrow> old \<notin> set (ml_sources w')"
    using schedule_timer_at_effect by blast
  have "process_success E I date r (tr_request tr) response w = Some (w', True)"
    using r rq exp w'(1) assms(2)
    by (simp add: process_success_def upd_rf_def is_contact_address_acurate_def get_first_contact_in_unknown_state_def
        schedule_timer_def)
  then have "process_response_event L E I date r (Some (rf_transaction x)) response w = tell L r (rs_status_code m) (rs_reason_phrase m) w'"
    using r by (simp add: process_response_event_def Let_def)
  then show ?thesis
    using w'(2-) by (intro exI [of _ w'] exI [of _ s]) (auto simp: same_core_def)
qed

lemma delay_word:
  assumes "0 \<le> d" "d < 2 ^ 32"
  shows "uint (word_of_int d :: 32 word) = d" and "0 \<le> sint (word_of_int d :: 32 word) \<longleftrightarrow> d < 2 ^ 31"
proof -
  show "uint (word_of_int d :: 32 word) = d"
    using assms by (simp add: uint_word_of_int)
  have "sint (word_of_int d :: 32 word) = (d + 2 ^ 31) mod 2 ^ 32 - 2 ^ 31"
    by (simp add: int_word_sint)
  moreover have "(d + 2 ^ 31) mod 2 ^ 32 = (if d < 2 ^ 31 then d + 2 ^ 31 else d + 2 ^ 31 - 2 ^ 32)"
    using assms minus_mod_self2 [of "d + 2 ^ 31" "2 ^ 32"] mod_pos_pos_trivial [of "d + 2 ^ 31 - 2 ^ 32" "2 ^ 32"]
    by (auto intro: mod_pos_pos_trivial)
  ultimately show "0 \<le> sint (word_of_int d :: 32 word) \<longleftrightarrow> d < 2 ^ 31"
    using assms by simp
qed

lemma timer_armed_due:
  assumes "timer_armed r w s d" "0 \<le> d" "d < 2 ^ 31"
  shows "\<exists>src. ml_src w s = Some src \<and> src_cb src = CbRefresher r \<and> timeout_set src \<and> src_expire_ms src = ml_time w + word_of_int d"
proof -
  obtain src where src: "ml_src w s = Some src" "src_cb src = CbRefresher r" "src_timeout src = word_of_int d"
      "timeout_set src \<longrightarrow> src_expire_ms src = ml_time w + ucast (src_timeout src)"
    using assms(1) by (auto simp: timer_armed_def)
  have "ucast (word_of_int d :: 32 word) = (word_of_int d :: 64 word)"
    using delay_word(1) [of d] assms(2,3) by (simp add: unsigned_ucast_eq [symmetric] ucast_eq)
  then show ?thesis
    using src delay_word(2) [of d] assms(2,3) by (auto simp: timeout_set_def)
qed

lemma timer_armed_never:
  assumes "timer_armed r w s d" "2 ^ 31 \<le> d" "d < 2 ^ 32"
  shows "\<exists>src. ml_src w s = Some src \<and> src_cb src = CbRefresher r \<and> (\<forall>revents now. \<not> snd (examine_source src revents now))"
proof -
  obtain src where src: "ml_src w s = Some src" "src_cb src = CbRefresher r" "src_timeout src = word_of_int d" "\<not> src_has_fd src"
    using assms(1) by (auto simp: timer_armed_def)
  then have "\<not> timeout_set src"
    using delay_word(2) [of d] assms(2,3) by (simp add: timeout_set_def)
  then show ?thesis
    using src by (auto simp: examine_source_def Let_def)
qed


text \<open>C29. When the time obtained is from 2386093 to 4772185 seconds (27 to 55 days) the delay of the timer is negative as an \<^verbatim>\<open>int\<close>:
  the answer arms a timer that is never due, so the request is not refreshed.\<close>

theorem long_expiry_never_refreshed:
  assumes "accepted r w x tr response m target e" "0 < target" "2386093 \<le> obtained_from target e" "obtained_from target e \<le> 4772185"
  shows "\<exists>w' s x'. process_response_event L E I date r (Some (rf_transaction x)) response w
      = tell L r (rs_status_code m) (rs_reason_phrase m) w'
    \<and> refreshers w' r = Some x' \<and> rf_timer x' = Some s \<and> rf_state x' = RF_STARTED
    \<and> (\<exists>src. ml_src w' s = Some src \<and> src_cb src = CbRefresher r \<and> (\<forall>revents now. \<not> snd (examine_source src revents now)))"
proof -
  have "2 ^ 31 \<le> obtained_from target e * 900" "obtained_from target e * 900 < 2 ^ 32"
    using assms(3,4) by auto
  moreover have "rf_state x = RF_STARTED"
    using assms(1) by (simp add: accepted_def)
  moreover obtain w' s where w': "process_response_event L E I date r (Some (rf_transaction x)) response w
      = tell L r (rs_status_code m) (rs_reason_phrase m) w'"
      "refresher_at r w' (x\<lparr>rf_auth_failures := 0, rf_number_of_retry := 0, rf_target_expires := target,
        rf_obtained_expires := obtained_from target e, rf_timer_purpose := NORMAL_REFRESH, rf_timer := Some s\<rparr>) tr"
      "timer_armed r w' s (obtained_from target e * 900)"
    using success_arms_timer [OF assms(1,2), of L E I date] by blast
  ultimately show ?thesis
    using timer_armed_never [OF w'(3)] by (intro exI [of _ w'] exI [of _ s] exI) (auto simp: refresher_at_def)
qed

text \<open>A subscription that asked for an hour; the answer grants \<open>e\<close> seconds.\<close>

definition sample_refresher :: refresher where
  "sample_refresher = \<lparr>rf_listener = False, rf_timer = None, rf_transaction = 0, rf_realm = None, rf_target_expires = 3600,
     rf_obtained_expires = 3600, rf_state = RF_STARTED, rf_retry_after = DEFAULT_RETRY_AFTER, rf_auth_events = [],
     rf_auth_failures = 0, rf_on_io_error = False, rf_number_of_retry = 0, rf_timer_purpose = NORMAL_REFRESH, rf_manual = False\<rparr>"

definition sample_nict :: transaction where
  "sample_nict = \<lparr>tr_class = NICT, tr_request = 0, tr_last_response = Some 1, tr_channel = None, tr_dialog = None,
     tr_branch_id = ''z9hG4bK.a'', tr_state = TR_COMPLETED, tr_is_internal = True, tr_timed_out = False,
     tr_sent_by_dialog_queue = False, tr_preset_route = None, tr_next_hop = None, tr_to_tag = [], tr_timers = (\<lambda>_. None),
     tr_ack = None\<rparr>"

definition subscription_world :: "int \<Rightarrow> world" where
  "subscription_world e = (empty_world (\<lambda>_. 0))\<lparr>
     hdrs := [0 \<mapsto> \<lparr>hname = ''Expires'', hbody = HExpires 3600\<rparr>, 1 \<mapsto> \<lparr>hname = ''Expires'', hbody = HExpires e\<rparr>],
     msgs := [0 \<mapsto> empty_message\<lparr>rq_method := ''SUBSCRIBE'', m_header_list := Some [(''Expires'', [0])]\<rparr>,
       1 \<mapsto> empty_message\<lparr>is_request := False, rs_status_code := 200, m_header_list := Some [(''Expires'', [1])]\<rparr>],
     st_brk := 2, trs := [0 \<mapsto> sample_nict], refreshers := [0 \<mapsto> sample_refresher]\<rparr>"

lemma subscription_accepted:
  "accepted 0 (subscription_world e) sample_refresher sample_nict 1
     (empty_message\<lparr>is_request := False, rs_status_code := 200, m_header_list := Some [(''Expires'', [1])]\<rparr>) 3600 e"
  by (simp add: accepted_def refresher_at_def subscription_world_def sample_refresher_def sample_nict_def empty_world_def ml_inv_def
      empty_message_def belle_sip_message_get_header_by_type_def belle_sip_message_get_header_def belle_sip_message_get_headers_def
      belle_sip_headers_container_get_def container_get_def headers_container_comp_func_def expires_of_def
      get_first_contact_in_unknown_state_def strcaseeq_def tolower_def)


lemma long_expiry_never_refreshed_witness:
  "\<forall>E I date. \<exists>w' s src. process_response_event (\<lambda>r c p w. Some w) E I date 0 (Some 0) 1 (subscription_world 3000000) = Some w'
     \<and> ml_src w' s = Some src \<and> src_cb src = CbRefresher 0 \<and> (\<forall>now. \<not> snd (examine_source src 0 now))"
proof (intro allI)
  fix E I date
  have "rf_transaction sample_refresher = 0"
    by (simp add: sample_refresher_def)
  moreover obtain w' s x' src where
    "process_response_event (\<lambda>r c p w. Some w) E I date 0 (Some (rf_transaction sample_refresher)) 1 (subscription_world 3000000)
      = tell (\<lambda>r c p w. Some w) 0 200 None w'"
    "refreshers w' 0 = Some x'" "ml_src w' s = Some src" "src_cb src = CbRefresher 0"
    "\<forall>revents now. \<not> snd (examine_source src revents now)"
    using long_expiry_never_refreshed [OF subscription_accepted [of 3000000], of "\<lambda>r c p w. Some w" E I date]
    by (auto simp: obtained_from_def empty_message_def)
  ultimately show "\<exists>w' s src. process_response_event (\<lambda>r c p w. Some w) E I date 0 (Some 0) 1 (subscription_world 3000000) = Some w'
     \<and> ml_src w' s = Some src \<and> src_cb src = CbRefresher 0 \<and> (\<forall>now. \<not> snd (examine_source src 0 now))"
    by (intro exI [of _ w'] exI [of _ s] exI [of _ src]) (simp add: tell_def)
qed

section \<open>Challenges\<close>

lemma refresher_at_upd:
  assumes "refresher_at r w x tr" "rf_timer x' = rf_timer x" "rf_transaction x' = rf_transaction x"
  shows "refresher_at r (w\<lparr>refreshers := (refreshers w)(r \<mapsto> x')\<rparr>) x' tr"
  using assms by (simp add: refresher_at_def ml_inv_def cong: option.case_cong)

lemma retry_later_effect:
  assumes "refresher_at r w x tr"
  shows "\<exists>w' s. retry_later r w = Some w'
    \<and> refresher_at r w' (x\<lparr>rf_number_of_retry := rf_number_of_retry x + 1, rf_timer_purpose := RETRY, rf_timer := Some s\<rparr>) tr
    \<and> timer_armed r w' s (rf_retry_after x) \<and> same_core w w'"
proof -
  let ?x = "x\<lparr>rf_number_of_retry := rf_number_of_retry x + 1\<rparr>"
  have "refresher_at r (w\<lparr>refreshers := (refreshers w)(r \<mapsto> ?x)\<rparr>) ?x tr"
    by (rule refresher_at_upd [OF assms]) simp_all
  then obtain w' s where "schedule_timer_at r (rf_retry_after ?x) RETRY (w\<lparr>refreshers := (refreshers w)(r \<mapsto> ?x)\<rparr>) = Some w'"
      "refresher_at r w' (?x\<lparr>rf_timer_purpose := RETRY, rf_timer := Some s\<rparr>) tr" "timer_armed r w' s (rf_retry_after ?x)"
      "same_core (w\<lparr>refreshers := (refreshers w)(r \<mapsto> ?x)\<rparr>) w'"
    using schedule_timer_at_effect by blast
  then show ?thesis
    using assms by (intro exI [of _ w'] exI [of _ s]) (simp add: retry_later_def upd_rf_def refresher_at_def same_core_def)
qed

text \<open>C30. A second challenge in a row is not answered: no message is sent and no transaction is made, the refresher waits for its
  retry delay, forgets the failures, and tells the application.\<close>

theorem second_challenge_waits:
  assumes "refresher_at r w x tr" "msgs w response = Some m" "rs_status_code m \<in> {401, 407}" "1 \<le> rf_auth_failures x"
    "0 < rf_target_expires x"
  shows "\<exists>w' s x'. process_response_event L E I date r (Some (rf_transaction x)) response w
      = tell L r (rs_status_code m) (rs_reason_phrase m) w'
    \<and> same_core w w' \<and> refreshers w' r = Some x' \<and> rf_transaction x' = rf_transaction x \<and> rf_auth_failures x' = 0
    \<and> rf_timer x' = Some s \<and> rf_timer_purpose x' = RETRY \<and> timer_armed r w' s (rf_retry_after x)"
proof -
  let ?x = "x\<lparr>rf_auth_failures := rf_auth_failures x + 1\<rparr>"
  let ?w = "w\<lparr>refreshers := (refreshers w)(r \<mapsto> ?x)\<rparr>"
  have x: "refreshers w r = Some x" "trs w (rf_transaction x) = Some tr"
    using assms(1) by (simp_all add: refresher_at_def)
  have "refresher_at r ?w ?x tr"
    by (rule refresher_at_upd [OF assms(1)]) simp_all
  then obtain w' s where w': "retry_later r ?w = Some w'"
      "refresher_at r w' (?x\<lparr>rf_number_of_retry := rf_number_of_retry ?x + 1, rf_timer_purpose := RETRY, rf_timer := Some s\<rparr>) tr"
      "timer_armed r w' s (rf_retry_after ?x)" "same_core ?w w'"
    using retry_later_effect by blast
  let ?x' = "?x\<lparr>rf_number_of_retry := rf_number_of_retry ?x + 1, rf_timer_purpose := RETRY, rf_timer := Some s, rf_auth_failures := 0\<rparr>"
  have "process_challenge E I date r w = Some (w'\<lparr>refreshers := (refreshers w')(r \<mapsto> ?x')\<rparr>, True)"
    using x assms(4,5) w'(1,2) by (simp add: process_challenge_def upd_rf_def retry_if_wanted_def refresher_at_def)
  then have "process_response_event L E I date r (Some (rf_transaction x)) response w
      = tell L r (rs_status_code m) (rs_reason_phrase m) (w'\<lparr>refreshers := (refreshers w')(r \<mapsto> ?x')\<rparr>)"
    using x assms(2,3) by (auto simp: process_response_event_def Let_def)
  then show ?thesis
    using w'(3,4) by (intro exI [of _ "w'\<lparr>refreshers := (refreshers w')(r \<mapsto> ?x')\<rparr>"] exI [of _ s] exI [of _ ?x'])
      (auto simp: same_core_def timer_armed_def)
qed

definition challenged_world :: world where
  "challenged_world = (subscription_world 0)\<lparr>
     refreshers := [0 \<mapsto> sample_refresher\<lparr>rf_auth_failures := 1\<rparr>],
     msgs := [1 \<mapsto> empty_message\<lparr>is_request := False, rs_status_code := 401\<rparr>]\<rparr>"

lemma second_challenge_waits_witness:
  "\<forall>E I date. \<exists>w' s x'. process_response_event (\<lambda>r c p w. Some w) E I date 0 (Some 0) 1 challenged_world = Some w'
     \<and> refreshers w' 0 = Some x' \<and> rf_auth_failures x' = 0 \<and> timer_armed 0 w' s 60000 \<and> wire w' = []"
proof (intro allI)
  fix E I date
  have at: "refresher_at 0 challenged_world (sample_refresher\<lparr>rf_auth_failures := 1\<rparr>) sample_nict"
    by (simp add: refresher_at_def challenged_world_def subscription_world_def sample_refresher_def empty_world_def ml_inv_def)
  have msg: "msgs challenged_world 1 = Some (empty_message\<lparr>is_request := False, rs_status_code := 401\<rparr>)" "wire challenged_world = []"
      "rf_retry_after (sample_refresher\<lparr>rf_auth_failures := 1\<rparr>) = 60000" "rf_transaction (sample_refresher\<lparr>rf_auth_failures := 1\<rparr>) = 0"
    by (simp_all add: challenged_world_def subscription_world_def empty_world_def sample_refresher_def DEFAULT_RETRY_AFTER_def)
  obtain w' s x' where "process_response_event (\<lambda>r c p w. Some w) E I date 0 (Some 0) 1 challenged_world
      = tell (\<lambda>r c p w. Some w) 0 401 None w'" "same_core challenged_world w'" "refreshers w' 0 = Some x'"
      "rf_auth_failures x' = 0" "timer_armed 0 w' s 60000"
    using second_challenge_waits [OF at msg(1), of "\<lambda>r c p w. Some w" E I date] msg(3,4)
    by (auto simp: sample_refresher_def empty_message_def)
  then show "\<exists>w' s x'. process_response_event (\<lambda>r c p w. Some w) E I date 0 (Some 0) 1 challenged_world = Some w'
     \<and> refreshers w' 0 = Some x' \<and> rf_auth_failures x' = 0 \<and> timer_armed 0 w' s 60000 \<and> wire w' = []"
    using msg(2) by (intro exI [of _ w'] exI [of _ s] exI [of _ x']) (simp add: tell_def same_core_def)
qed

section \<open>Registrations\<close>

text \<open>
  The answer to a REGISTER without Contact, which asks for the bindings of the registrar, crashes: the contact whose address is to be fixed is a
  clone of NULL.
\<close>

lemma register_without_contact_crashes:
  assumes "refresher_at r w x tr" "msgs w response = Some m" "200 \<le> rs_status_code m" "rs_status_code m < 300"
    "tr_last_response tr = Some response" "msgs w (tr_request tr) = Some rq" "rq_method rq = ''REGISTER''"
    "belle_sip_message_get_header_by_type w (tr_request tr) is_HContact = Some None"
  shows "process_response_event L E I date r (Some (rf_transaction x)) response w = None"
proof -
  have "set_expires_from_trans r (w\<lparr>refreshers := (refreshers w)(r \<mapsto> x')\<rparr>) = None" if "rf_transaction x' = rf_transaction x" for x'
    using assms(1,5-8) that
    by (auto simp: set_expires_from_trans_def refresher_transaction_def refresher_at_def upd_rf_def update_target_def granted_def
        get_matching_contact_def Let_def bind_eq_None_conv split: option.splits)
  then have "process_success E I date r (tr_request tr) response w = None"
    using assms(1,6,7) by (simp add: process_success_def upd_rf_def refresher_at_def)
  then show ?thesis
    using assms(1-4) by (simp add: process_response_event_def refresher_at_def Let_def)
qed

text \<open>
  Which binding of the response is this user agent's: the first whose URI is \<open>equal\<close>, and so one of another host whose
  address starts with the address of this one.
\<close>

lemma other_binding_found:
  assumes "address_of w c = Some (addr_new\<lparr>addr_uri := Some (belle_sip_uri_create (Some ''bob'') (Some ''10.0.0.12''))\<rparr>)"
    and "address_of w own = Some (addr_new\<lparr>addr_uri := Some (belle_sip_uri_create (Some ''bob'') (Some ''10.0.0.1''))\<rparr>)"
  shows "find_contact (c # cs) own w = Some (Some c)"
proof -
  have "belle_sip_uri_equals (belle_sip_uri_create (Some ''bob'') (Some ''10.0.0.12'')) (belle_sip_uri_create (Some ''bob'') (Some ''10.0.0.1''))
      = Some True"
    by code_simp
  then show ?thesis
    using assms by (simp add: belle_sip_header_contact_equals_def)
qed

end
