(* ===== verification/StreamProps.thy ===== *)
theory StreamProps
  imports InputStream
begin

text \<open>
  The input stream gives the messages that were sent, however the network cuts them: messages sent one after the
  other, received in pieces that fit the buffer.
\<close>

section \<open>Well formed messages\<close>

datatype start_line = Request_Line string string | Status_Line string string

fun start_text :: "start_line \<Rightarrow> string" where
  "start_text (Request_Line method uri) = method @ '' '' @ uri @ '' SIP/2.0''"
| "start_text (Status_Line code reason) = ''SIP/2.0 '' @ code @ '' '' @ reason"

text \<open>The text of a start line holds no NUL and no end of line.\<close>

fun start_ok :: "start_line \<Rightarrow> bool" where
  "start_ok (Request_Line method uri) \<longleftrightarrow> method \<noteq> [] \<and> length method \<le> 16 \<and> list_all is_token_char method
     \<and> uri \<noteq> [] \<and> list_all (\<lambda>c. \<not> is_space c \<and> c \<noteq> NUL) uri"
| "start_ok (Status_Line code reason) \<longleftrightarrow> length code = 3 \<and> list_all is_digit code
     \<and> list_all (\<lambda>c. c \<noteq> CR \<and> c \<noteq> LF \<and> c \<noteq> NUL) reason"

lemma space_chars: "is_space c \<Longrightarrow> c \<in> {CHR '' '', CHR 0x09, LF, CHR 0x0B, CHR 0x0C, CR}"
proof -
  assume "is_space c"
  then have "(of_char c :: nat) \<in> {32, 9, 10, 11, 12, 13}"
    by (auto simp: is_space_def)
  moreover have "c = char_of (of_char c :: nat)"
    by simp
  ultimately have "c \<in> char_of ` {32 :: nat, 9, 10, 11, 12, 13}"
    by blast
  then show ?thesis
    by (simp add: char_of_def LF_def CR_def bit_Suc bit_0)
qed

lemma token_not_space [simp]: "is_token_char c \<Longrightarrow> \<not> is_space c"
  using space_chars [of c] by (auto simp: is_token_char_def is_digit_def tolower_def CR_def LF_def)

lemma space_simps [simp]: "is_space CR" "is_space LF" "is_space (CHR '' '')" "\<not> is_space NUL" "is_space (CHR 0x09)"
  "CR \<noteq> NUL" "LF \<noteq> NUL" "CR \<noteq> LF" "NUL \<noteq> CR" "NUL \<noteq> LF" "LF \<noteq> CR"
  by (simp_all add: is_space_def CR_def LF_def NUL_def)

lemma not_token [simp]: "\<not> is_token_char NUL" "\<not> is_token_char CR" "\<not> is_token_char LF"
  by (simp_all add: is_token_char_def is_digit_def tolower_def NUL_def CR_def LF_def)

lemma not_digit [simp]: "\<not> is_digit NUL" "\<not> is_digit CR" "\<not> is_digit LF" "\<not> is_digit (CHR ''+'')" "\<not> is_digit (CHR ''-'')"
  by (simp_all add: is_digit_def NUL_def CR_def LF_def)

lemma digit_not_space [simp]: "is_digit c \<Longrightarrow> \<not> is_space c"
  by (auto simp: is_digit_def is_space_def)

section \<open>The start of a message is seen\<close>

lemma takeWhile_list_all: "list_all P xs \<Longrightarrow> takeWhile P (xs @ ys) = xs @ takeWhile P ys"
  by (induction xs) auto

lemma dropWhile_list_all: "list_all P xs \<Longrightarrow> dropWhile P (xs @ ys) = dropWhile P ys"
  by (induction xs) auto

lemma skip_space_cons [simp]: "is_space c \<Longrightarrow> skip_space (c # s) = skip_space s"
  "\<not> is_space c \<Longrightarrow> skip_space (c # s) = c # s"
  by (simp_all add: skip_space_def)

lemma skip_space_word: "xs \<noteq> [] \<Longrightarrow> list_all (\<lambda>c. \<not> is_space c) xs \<Longrightarrow> skip_space (xs @ s) = xs @ s"
  by (cases xs) simp_all

lemma scan_word_hit:
  assumes "xs \<noteq> []" "length xs \<le> n" "list_all (\<lambda>c. \<not> is_space c) xs" "is_space c"
  shows "scan_word n (xs @ c # s) = Some (xs, c # s)"
proof -
  have "n \<noteq> 0"
    using assms(1,2) by (cases n) auto
  then show ?thesis
    using assms by (simp add: scan_word_def skip_space_word takeWhile_list_all Let_def)
qed

lemma scan_word_space: "is_space c \<Longrightarrow> scan_word n (c # s) = scan_word n s"
  by (simp add: scan_word_def)

lemma request_line_seen:
  assumes "start_ok (Request_Line method uri)"
  shows "starts_request (start_text (Request_Line method uri) @ CR # s)"
proof -
  have ns: "list_all (\<lambda>c. \<not> is_space c) method" "list_all (\<lambda>c. \<not> is_space c) uri"
    using assms by (auto simp: list_all_iff)
  let ?rest = "CHR '' '' # ''SIP/2.0'' @ CR # s"
  have 1: "scan_word 16 (method @ CHR '' '' # uri @ ?rest) = Some (method, CHR '' '' # uri @ ?rest)"
    by (rule scan_word_hit) (use assms ns in auto)
  have 2: "dropWhile (\<lambda>c. \<not> is_space c) (uri @ ?rest) = ?rest"
    using ns by (simp add: dropWhile_list_all)
  have 3: "skip_space (CHR '' '' # uri @ ?rest) = uri @ ?rest"
    using ns assms by (simp add: skip_space_word)
  have 4: "scan_word 9 ?rest = Some (''SIP/2.0'', CR # s)"
    unfolding scan_word_space [OF space_simps(3)] by (rule scan_word_hit) (simp_all add: is_space_def CR_def)
  show ?thesis
    using assms 1 2 3 4 by (auto simp: starts_request_def is_token_def list_all_iff)
qed

lemma status_line_seen:
  assumes "start_ok (Status_Line code reason)"
  shows "starts_response (start_text (Status_Line code reason) @ s)"
proof -
  obtain a b c where code: "code = [a, b, c]"
    using assms by (auto simp: length_Suc_conv numeral_3_eq_3)
  then have "is_digit a"
    using assms by simp
  then have "a \<noteq> CHR ''+''" "a \<noteq> CHR ''-''"
    by auto
  then show ?thesis
    using \<open>is_digit a\<close> by (simp add: starts_response_def scan_literal_def has_prefix_def scan_d_def code skip_sign_def scan_digits_def)
qed

lemma start_text_seen: "start_ok l \<Longrightarrow> message_starts (start_text l @ CR # s)"
  by (cases l) (simp_all add: message_starts_def request_line_seen status_line_seen del: start_text.simps start_ok.simps)

lemma literal_chars: "x \<in> {NUL, CR, LF} \<Longrightarrow> x \<notin> set ''SIP/2.0'' \<and> x \<noteq> CHR '' ''"
  by (auto simp: NUL_def CR_def LF_def)

lemma start_text_chars: "start_ok l \<Longrightarrow> x \<in> {NUL, CR, LF} \<Longrightarrow> x \<notin> set (start_text l)"
  using literal_chars [of x] by (cases l) (auto simp: list_all_iff)

section \<open>Searching\<close>

definition CRLF :: string where "CRLF = [CR, LF]"

lemma has_prefix_Nil [simp]: "has_prefix [] s"
  by (simp add: has_prefix_def)

lemma has_prefix_append: "length p \<le> length s \<Longrightarrow> has_prefix p (s @ t) = has_prefix p s"
  by (simp add: has_prefix_def)

lemma strstr_bound: "strstr p s = Some i \<Longrightarrow> i + length p \<le> length s"
proof (induction s arbitrary: i)
  case (Cons c s)
  show ?case
  proof (cases "has_prefix p (c # s)")
    case True
    then have "length p \<le> length (c # s)"
      unfolding has_prefix_def by (metis length_take min.cobounded1)
    then show ?thesis
      using Cons True by simp
  next
    case False
    then show ?thesis
      using Cons by fastforce
  qed
qed (simp split: if_splits)

lemma strstr_Some: "strstr p s = Some i \<Longrightarrow> has_prefix p (drop i s)"
  by (induction s arbitrary: i) (auto split: if_splits)

lemma strstr_append: "strstr p s = Some i \<Longrightarrow> strstr p (s @ t) = Some i"
proof (induction s arbitrary: i)
  case Nil
  then show ?case
    by (cases t) (auto split: if_splits simp: has_prefix_def)
next
  case (Cons c s)
  then have "length p \<le> length (c # s)"
    using strstr_bound by fastforce
  then have "has_prefix p (c # s @ t) = has_prefix p (c # s)"
    using has_prefix_append [of p "c # s" t] by simp
  then show ?case
    using Cons by (auto split: if_splits)
qed

lemma strstr_prefix: "strstr p (s @ t) = Some i \<Longrightarrow> length s < i + length p \<Longrightarrow> strstr p s = None"
proof (induction s arbitrary: i)
  case Nil
  then show ?case
    by (cases t) (auto split: if_splits)
next
  case (Cons c s)
  show ?case
  proof (cases "has_prefix p (c # s)")
    case True
    then have "length p \<le> length (c # s)"
      unfolding has_prefix_def by (metis length_take min.cobounded1)
    then show ?thesis
      using Cons.prems True has_prefix_append [of p "c # s" t] by simp
  next
    case False
    show ?thesis
    proof (cases i)
      case 0
      then show ?thesis
        using Cons.prems(2) strstr_bound [of p "c # s"] by (cases "strstr p (c # s)") auto
    next
      case (Suc j)
      then have "strstr p (s @ t) = Some j"
        using Cons.prems(1) by (auto split: if_splits)
      then show ?thesis
        using Cons.prems(2) Cons.IH False Suc by simp
    qed
  qed
qed

section \<open>The bytes held\<close>

definition held :: "'m input_stream \<Rightarrow> string" where
  "held st = bytes_at (st_buff st) (st_read st) (st_write st - st_read st)"

lemma length_bytes_at [simp]: "length (bytes_at b p n) = n"
  by (simp add: bytes_at_def)

lemma bytes_at_nth [simp]: "i < n \<Longrightarrow> bytes_at b p n ! i = b (p + i)"
  by (simp add: bytes_at_def)

lemma bytes_at_0 [simp]: "bytes_at b p 0 = []"
  by (simp add: bytes_at_def)

lemma bytes_at_split: "m \<le> n \<Longrightarrow> bytes_at b p n = bytes_at b p m @ bytes_at b (p + m) (n - m)"
  by (rule nth_equalityI) (auto simp: nth_append)

lemma bytes_at_cong: "(\<And>i. i < n \<Longrightarrow> b (p + i) = b' (p' + i)) \<Longrightarrow> bytes_at b p n = bytes_at b' p' n"
  by (simp add: bytes_at_def)

lemma bytes_at_take: "m \<le> n \<Longrightarrow> bytes_at b p m = take m (bytes_at b p n)"
  by (simp add: bytes_at_split [of m n])

lemma bytes_at_drop: "bytes_at b (p + m) (n - m) = drop m (bytes_at b p n)"
  by (cases "m \<le> n") (simp_all add: bytes_at_split [of m n])

lemma length_held [simp]: "length (held st) = st_write st - st_read st"
  by (simp add: held_def)

lemma held_Nil: "held st = [] \<longleftrightarrow> st_write st \<le> st_read st"
  using length_held [of st] by (metis diff_is_0_eq length_0_conv)

lemma cstr_takeWhile: "cstr b p n = takeWhile (\<lambda>c. c \<noteq> NUL) (bytes_at b p n)"
proof (induction n arbitrary: p)
  case (Suc n)
  have "bytes_at b p (Suc n) = b p # bytes_at b (Suc p) n"
    using bytes_at_split [of 1 "Suc n" b p] by (simp add: bytes_at_def)
  then show ?case
    using Suc by simp
qed simp

lemma text_at_read_held:
  assumes "st_read st \<le> st_write st" "st_write st < 65535"
  shows "text_at_read st = takeWhile (\<lambda>c. c \<noteq> NUL) (held st @ bytes_at (st_buff st) (st_write st) (65535 - st_write st))"
  using assms bytes_at_split [of "st_write st - st_read st" "65535 - st_read st" "st_buff st" "st_read st"]
  by (simp add: text_at_read_def cstr_takeWhile held_def belle_sip_network_buffer_size_def)

lemma text_at_read_complete:
  assumes "st_read st \<le> st_write st" "st_write st < 65535" "held st = s @ t" "NUL \<notin> set s"
  obtains u where "text_at_read st = s @ u"
proof -
  have "takeWhile (\<lambda>c. c \<noteq> NUL) (s @ x) = s @ takeWhile (\<lambda>c. c \<noteq> NUL) x" for x
    using assms(4) by (intro takeWhile_append2) auto
  then show ?thesis
    using that assms by (simp add: text_at_read_held)
qed

lemma text_at_read_all:
  assumes "st_read st \<le> st_write st" "st_write st < 65535" "NUL \<notin> set (held st)" "st_buff st (st_write st) = NUL"
  shows "text_at_read st = held st"
proof -
  have "bytes_at (st_buff st) (st_write st) (65535 - st_write st) = NUL # bytes_at (st_buff st) (st_write st + 1) (65535 - st_write st - 1)"
    using assms(2,4) bytes_at_split [of 1 "65535 - st_write st" "st_buff st" "st_write st"] by (simp add: bytes_at_def)
  moreover have "takeWhile (\<lambda>c. c \<noteq> NUL) (held st @ x) = held st @ takeWhile (\<lambda>c. c \<noteq> NUL) x" for x
    using assms(3) by (intro takeWhile_append2) auto
  ultimately show ?thesis
    using assms by (simp add: text_at_read_held)
qed

lemma held_rewind [simp]: "held (belle_sip_channel_input_stream_rewind st) = held st"
  by (auto simp: belle_sip_channel_input_stream_rewind_def held_def Let_def intro!: bytes_at_cong)

lemma rewind_pointers [simp]:
  "st_read (belle_sip_channel_input_stream_rewind st) = 0"
  "st_write (belle_sip_channel_input_stream_rewind st) = length (held st)"
  by (auto simp: belle_sip_channel_input_stream_rewind_def Let_def)

lemma rewind_simps [simp]:
  "st_state (belle_sip_channel_input_stream_rewind st) = st_state st"
  "st_msg (belle_sip_channel_input_stream_rewind st) = st_msg st"
  "st_body (belle_sip_channel_input_stream_rewind st) = st_body st"
  "st_content_length (belle_sip_channel_input_stream_rewind st) = st_content_length st"
  "st_chunked (belle_sip_channel_input_stream_rewind st) = st_chunked st"
  "st_incoming (belle_sip_channel_input_stream_rewind st) = st_incoming st"
  by (auto simp: belle_sip_channel_input_stream_rewind_def Let_def)

lemma rewind_nul: "held st \<noteq> [] \<Longrightarrow> st_buff (belle_sip_channel_input_stream_rewind st) (length (held st)) = NUL"
proof -
  assume "held st \<noteq> []"
  then have "st_read st < st_write st"
    using length_held [of st] by (metis length_0_conv linorder_not_less diff_is_0_eq')
  then show ?thesis
    by (simp add: belle_sip_channel_input_stream_rewind_def Let_def)
qed

lemma held_update [simp]:
  "held (st\<lparr>st_state := a\<rparr>) = held st" "held (st\<lparr>st_msg := b\<rparr>) = held st" "held (st\<lparr>st_body := c\<rparr>) = held st"
  "held (st\<lparr>st_content_length := d\<rparr>) = held st" "held (st\<lparr>st_chunked := e\<rparr>) = held st" "held (st\<lparr>st_incoming := f\<rparr>) = held st"
  by (simp_all add: held_def)

lemma held_read: "n \<le> length (held st) \<Longrightarrow> held (st\<lparr>st_read := st_read st + n\<rparr>) = drop n (held st)"
  using bytes_at_drop [of "st_buff st" "st_read st" n "st_write st - st_read st"] by (simp add: held_def diff_diff_left)

lemma held_write_bytes:
  "st_read st \<le> st_write st \<Longrightarrow> held (write_bytes s st) = held st @ s"
  unfolding held_def write_bytes_def
  by (rule nth_equalityI) (auto simp: nth_append add.commute)

section \<open>Messages on the wire\<close>

record 'm wire =
  wire_start :: start_line
  wire_headers :: string
  wire_body :: string
  wire_message :: 'm

definition wire_head :: "'m wire \<Rightarrow> string" where
  "wire_head w = start_text (wire_start w) @ CRLF @ wire_headers w"

definition wire_text :: "'m wire \<Rightarrow> string" where
  "wire_text w = wire_head w @ wire_body w"

definition wire_result :: "'m wire \<Rightarrow> 'm \<times> string option" where
  "wire_result w = (wire_message w, if wire_body w = [] then None else Some (wire_body w))"

definition wires_text :: "'m wire list \<Rightarrow> string" where
  "wires_text ws = concat (map wire_text ws)"

lemma wires_text_simps [simp]: "wires_text [] = []" "wires_text (w # ws) = wire_head w @ wire_body w @ wires_text ws"
  by (simp_all add: wires_text_def wire_text_def)

text \<open>
  A well formed SIP message: a start line, headers that end at the first empty line and hold no NUL, which
  the parser takes for the message, and a body of the length that the headers give.
\<close>

definition wire_ok :: "'m grammar \<Rightarrow> 'm wire \<Rightarrow> bool" where
  "wire_ok G w \<longleftrightarrow> start_ok (wire_start w) \<and> NUL \<notin> set (wire_headers w)
     \<and> strstr [CR, LF, CR, LF] (wire_head w) = Some (length (wire_head w) - 4)
     \<and> parse_raw G (wire_head w) = (Some (wire_message w), length (wire_head w))
     \<and> is_sip G (wire_message w) \<and> int (length (wire_body w)) < 2 ^ 31
     \<and> (case content_length_of G (wire_message w) of None \<Rightarrow> 0 | Some n \<Rightarrow> n) = int (length (wire_body w))"

lemma wire_head_no_nul: "wire_ok G w \<Longrightarrow> NUL \<notin> set (wire_head w)"
  by (simp add: wire_ok_def wire_head_def start_text_chars CRLF_def)

lemma wire_head_length: "wire_ok G w \<Longrightarrow> 4 \<le> length (wire_head w)"
  using strstr_bound [of "[CR, LF, CR, LF]" "wire_head w"] by (auto simp: wire_ok_def)

lemma start_text_length: "start_ok l \<Longrightarrow> 11 \<le> length (start_text l)"
  by (cases l) (auto simp: neq_Nil_conv)

lemma start_first: "start_ok l \<Longrightarrow> hd (start_text l) \<notin> {CR, LF, CHR '' '', CHR 0x09}"
proof (cases l)
  case (Request_Line name uri)
  moreover assume "start_ok l"
  ultimately have "\<not> is_space (hd (start_text l))"
    by (cases name) auto
  then show ?thesis
    by auto
qed (simp add: CR_def LF_def)

text \<open>What a stream still expects, with the bytes to come.\<close>

definition expects :: "'m grammar \<Rightarrow> 'm wire list \<Rightarrow> string \<Rightarrow> 'm input_stream \<Rightarrow> bool" where
  "expects G ws fut st \<longleftrightarrow> list_all (wire_ok G) ws \<and> st_read st \<le> st_write st \<and> st_write st < 65534
     \<and> (held st \<noteq> [] \<longrightarrow> st_buff st (st_write st) = NUL) \<and> \<not> st_chunked st
     \<and> (case st_state st of
          BODY_AQUISITION \<Rightarrow> (case ws of [] \<Rightarrow> False | w # ws' \<Rightarrow> (\<exists>b. st_msg st = Some (wire_message w) \<and> st_body st = Some b
            \<and> st_read st \<le> length (wire_head w) \<and> st_content_length st = int (length (wire_body w))
            \<and> length b < length (wire_body w) \<and> wire_body w @ wires_text ws' = b @ held st @ fut))
        | _ \<Rightarrow> st_read st = 0 \<and> wires_text ws = held st @ fut)"

definition crlf_at :: "'m input_stream \<Rightarrow> nat \<Rightarrow> bool" where
  "crlf_at st i \<longleftrightarrow> st_buff st (st_read st + i) = CR \<and> st_buff st (st_read st + Suc i) = LF"

lemma waiting_loop_found:
  assumes "1 < belle_sip_channel_input_stream_get_buff_length st"
    and "get_message_start_pos (bytes_at (st_buff st) (st_read st) num) = Some 0"
  shows "i \<le> j \<Longrightarrow> j < i + k \<Longrightarrow> crlf_at st j \<Longrightarrow> waiting_loop num k i st = (st\<lparr>st_state := MESSAGE_AQUISITION\<rparr>, True)"
proof (induction k arbitrary: i)
  case (Suc k)
  then have "crlf_at st i \<or> Suc i \<le> j"
    by (metis Suc_leI le_neq_implies_less)
  then show ?case
    using Suc assms by (auto simp: crlf_at_def)
qed simp

lemma waiting_loop_none:
  assumes "1 < belle_sip_channel_input_stream_get_buff_length st"
  shows "(\<And>j. i \<le> j \<Longrightarrow> j < i + k \<Longrightarrow> \<not> crlf_at st j) \<Longrightarrow> waiting_loop num k i st = (st, False)"
proof (induction k arbitrary: i)
  case (Suc k)
  have "\<not> crlf_at st i" "waiting_loop num k (Suc i) st = (st, False)"
    using Suc.prems [of i] Suc.IH [of "Suc i"] Suc.prems by auto
  then show ?case
    using assms by (auto simp: crlf_at_def)
qed simp

text \<open>At the front of the bytes held, the start of a message is found as soon as its first line is there.\<close>

lemma start_pos_zero:
  assumes "start_ok l" "s = start_text l @ CRLF @ t"
  shows "get_message_start_pos s = Some 0"
proof -
  have len: "length s - 12 \<noteq> 0"
    using assms start_text_length [of l] by (simp add: CRLF_def)
  have but: "butlast s = start_text l @ CR # butlast (LF # t)"
    using assms by (simp add: CRLF_def butlast_append)
  have "takeWhile (\<lambda>c. c \<noteq> NUL) (butlast s) = start_text l @ CR # takeWhile (\<lambda>c. c \<noteq> NUL) (butlast (LF # t))"
    unfolding but using start_text_chars [OF assms(1), of NUL] by (subst takeWhile_append2) auto
  then have seen: "message_starts (takeWhile (\<lambda>c. c \<noteq> NUL) (butlast s))"
    using start_text_seen [OF assms(1)] by simp
  have "start_text l \<noteq> []" "hd (start_text l) \<notin> {CR, LF, CHR '' '', CHR 0x09}"
    using assms(1) start_text_length [of l] start_first [of l] by auto
  then have "s ! 0 \<notin> {CR, LF, CHR '' '', CHR 0x09}"
    using assms(2) by (simp add: nth_append hd_conv_nth)
  then show ?thesis
    using seen len by (cases "length s - 12") (simp_all add: get_message_start_pos_def)
qed

text \<open>An end of line in the bytes held is after the first start line.\<close>

lemma first_line_held:
  assumes "start_ok l" "start_text l @ CRLF @ t = s @ fut" "Suc j < length s" "s ! j = CR"
  obtains u where "s = start_text l @ CRLF @ u"
proof -
  have "length (start_text l) \<le> j"
  proof (rule ccontr)
    assume "\<not> length (start_text l) \<le> j"
    then have "(start_text l @ CRLF @ t) ! j \<in> set (start_text l)"
      by (simp add: nth_append)
    moreover have "(start_text l @ CRLF @ t) ! j = CR"
      unfolding assms(2) using assms(3,4) by (simp add: nth_append)
    ultimately show False
      using start_text_chars [OF assms(1)] by auto
  qed
  then have n: "length (start_text l @ CRLF) \<le> length s"
    using assms(3) by (simp add: CRLF_def)
  have "take (length (start_text l @ CRLF)) s = take (length (start_text l @ CRLF)) ((start_text l @ CRLF) @ t)"
    using n assms(2) by (metis append.assoc take_append diff_is_0_eq take_0 append_Nil2)
  then have "take (length (start_text l @ CRLF)) s = start_text l @ CRLF"
    by simp
  then show thesis
    using that [of "drop (length (start_text l @ CRLF)) s"] append_take_drop_id by (metis append.assoc)
qed

section \<open>The three states\<close>

lemma held_nth: "j < length (held st) \<Longrightarrow> held st ! j = st_buff st (st_read st + j)"
  by (simp add: held_def)

lemma crlf_at_held:
  "Suc j < length (held st) \<Longrightarrow> crlf_at st j \<longleftrightarrow> held st ! j = CR \<and> held st ! Suc j = LF"
  by (simp add: crlf_at_def held_def)

lemma head_prefix:
  assumes "wire_head w @ t = s @ fut" "length (wire_head w) \<le> length s"
  obtains u where "s = wire_head w @ u" "t = u @ fut"
  using assms by (metis append_eq_append_conv_if append_take_drop_id)

lemma head_crlf:
  assumes "wire_ok G w" "wire_head w @ t = s @ fut" "length (wire_head w) \<le> length s"
  shows "\<exists>j. Suc j < length s \<and> s ! j = CR \<and> s ! Suc j = LF"
proof -
  let ?j = "length (wire_head w) - 4"
  have "has_prefix [CR, LF, CR, LF] (drop ?j (wire_head w))"
    using assms(1) strstr_Some by (auto simp: wire_ok_def)
  then have "drop ?j (wire_head w) = [CR, LF, CR, LF]"
    using wire_head_length [OF assms(1)] by (simp add: has_prefix_def)
  then have "drop ?j (wire_head w) ! 0 = CR" "drop ?j (wire_head w) ! Suc 0 = LF"
    by simp_all
  then have "wire_head w ! ?j = CR" "wire_head w ! Suc ?j = LF"
    using wire_head_length [OF assms(1)] by simp_all
  moreover obtain u where "s = wire_head w @ u"
    using assms(2,3) by (rule head_prefix)
  ultimately show ?thesis
    using wire_head_length [OF assms(1)] by (intro exI [of _ ?j]) (auto simp: nth_append)
qed

lemma waiting_step:
  assumes "expects G (w # ws) fut st" "st_state st = WAITING_MESSAGE_START" "held st \<noteq> []"
  shows "waiting_loop (length (held st)) (length (held st) - 1) 0 st = (st\<lparr>st_state := MESSAGE_AQUISITION\<rparr>, True)
      \<or> waiting_loop (length (held st)) (length (held st) - 1) 0 st = (st, False) \<and> length (held st) < length (wire_head w)"
proof -
  have ok: "wire_ok G w" and eq: "wire_head w @ wire_body w @ wires_text ws = held st @ fut"
    and room: "1 < belle_sip_channel_input_stream_get_buff_length st"
    using assms by (auto simp: expects_def belle_sip_channel_input_stream_get_buff_length_def belle_sip_network_buffer_size_def)
  show ?thesis
  proof (cases "\<exists>j. Suc j < length (held st) \<and> crlf_at st j")
    case True
    then obtain j where j: "Suc j < length (held st)" "crlf_at st j"
      by auto
    have "start_text (wire_start w) @ CRLF @ wire_headers w @ wire_body w @ wires_text ws = held st @ fut"
      using eq by (simp add: wire_head_def)
    then obtain u where "held st = start_text (wire_start w) @ CRLF @ u"
      by (rule first_line_held [rotated]) (use ok j crlf_at_held [OF j(1)] in \<open>auto simp: wire_ok_def\<close>)
    then have "get_message_start_pos (held st) = Some 0"
      by (rule start_pos_zero [rotated]) (use ok in \<open>simp add: wire_ok_def\<close>)
    then show ?thesis
      using waiting_loop_found [OF room, of "length (held st)" 0 j] j by (simp add: held_def)
  next
    case False
    have "waiting_loop (length (held st)) (length (held st) - 1) 0 st = (st, False)"
      by (rule waiting_loop_none [OF room]) (use False in auto)
    moreover have "length (held st) < length (wire_head w)"
      using head_crlf [OF ok eq] False crlf_at_held by (meson not_less)
    ultimately show ?thesis
      by simp
  qed
qed

lemma reset_simps [simp]:
  "st_state (belle_sip_channel_input_stream_reset st) = WAITING_MESSAGE_START"
  "st_msg (belle_sip_channel_input_stream_reset st) = None"
  "st_chunked (belle_sip_channel_input_stream_reset st) = False"
  "st_incoming (belle_sip_channel_input_stream_reset st) = st_incoming st"
  "st_read (belle_sip_channel_input_stream_reset st) = 0"
  "st_write (belle_sip_channel_input_stream_reset st) = length (held st)"
  "held (belle_sip_channel_input_stream_reset st) = held st"
  by (simp_all add: belle_sip_channel_input_stream_reset_def)

lemma reset_nul: "held st \<noteq> [] \<Longrightarrow> st_buff (belle_sip_channel_input_stream_reset st) (length (held st)) = NUL"
  using rewind_nul [of st] by (simp add: belle_sip_channel_input_stream_reset_def)

text \<open>A completed message is queued and the stream expects the next one.\<close>

lemma message_ready_step:
  assumes "st_msg st = Some m" "list_all (wire_ok G) ws" "st_write st < 65534" "wires_text ws = held st @ fut"
  shows "\<exists>st'. belle_sip_channel_message_ready st = Some st' \<and> expects G ws fut st'
      \<and> st_state st' = WAITING_MESSAGE_START \<and> st_incoming st' = st_incoming st @ [(m, st_body st)]"
proof -
  have "held st \<noteq> [] \<longrightarrow> st_buff (belle_sip_channel_input_stream_reset (st\<lparr>st_incoming := i, st_body := b\<rparr>)) (length (held st)) = NUL" for i b
    using reset_nul [of "st\<lparr>st_incoming := i, st_body := b\<rparr>"] by simp
  then show ?thesis
    using assms by (auto simp: belle_sip_channel_message_ready_def expects_def)
qed

lemma size_t_small: "0 \<le> n \<Longrightarrow> n < 2 ^ 64 \<Longrightarrow> size_t n = nat n"
  by (simp add: size_t_def)

lemma bytes_at_held: "n \<le> length (held st) \<Longrightarrow> bytes_at (st_buff st) (st_read st) n = take n (held st)"
  unfolding held_def by (rule bytes_at_take) simp

lemma feed_body_step:
  assumes "st_body st = Some b" "n \<le> length (held st)"
  obtains st' where "feed_body n st = Some st'" "st_body st' = Some (b @ take n (held st))" "held st' = drop n (held st)"
    "st_read st' = 0" "st_write st' = length (held st) - n" "held st' \<noteq> [] \<Longrightarrow> st_buff st' (st_write st') = NUL"
    "st_state st' = st_state st" "st_msg st' = st_msg st" "st_content_length st' = st_content_length st"
    "st_chunked st' = st_chunked st" "st_incoming st' = st_incoming st"
proof -
  let ?s = "st\<lparr>st_body := Some (b @ take n (held st)), st_read := st_read st + n\<rparr>"
  have h: "held ?s = drop n (held st)"
    using held_read [of n "st\<lparr>st_body := Some (b @ take n (held st))\<rparr>"] assms(2) by simp
  have "feed_body n st = Some (belle_sip_channel_input_stream_rewind ?s)"
    using assms by (simp add: feed_body_def bytes_at_held)
  then show thesis
    using rewind_nul [of ?s] by (intro that [of "belle_sip_channel_input_stream_rewind ?s"]) (simp_all add: h)
qed

lemma body_step:
  assumes ex: "expects G (w # ws) fut st" and state: "st_state st = BODY_AQUISITION"
  shows "(\<exists>st'. acquire_body False st = Some (st', True) \<and> expects G ws fut st' \<and> st_state st' = WAITING_MESSAGE_START
            \<and> st_incoming st' = st_incoming st @ [wire_result w])
       \<or> (\<exists>st'. acquire_body False st = Some (st', False) \<and> expects G (w # ws) fut st' \<and> st_state st' = BODY_AQUISITION
            \<and> st_incoming st' = st_incoming st \<and> held st' = [])"
proof -
  obtain b where b: "st_body st = Some b" "length b < length (wire_body w)"
      "wire_body w @ wires_text ws = b @ held st @ fut"
    and msg: "st_msg st = Some (wire_message w)" and cl: "st_content_length st = int (length (wire_body w))"
    and ok: "wire_ok G w" "list_all (wire_ok G) ws" and w: "st_write st < 65534" "\<not> st_chunked st"
    using ex state by (auto simp: expects_def)
  have small: "int (length (wire_body w)) < 2 ^ 64"
    using ok(1) by (simp add: wire_ok_def)
  show ?thesis
  proof (cases "b = [] \<and> held st = []")
    case True
    then have "st_write st - st_read st = 0"
      by (metis length_held list.size(3))
    then have "acquire_body False st = Some (st, False)"
      using True b cl w small by (simp add: acquire_body_def acquire_body_simple_def size_t_small)
    then show ?thesis
      using ex state True by auto
  next
    case False
    let ?n = "min (length (wire_body w) - length b) (length (held st))"
    have n: "min (size_t (st_content_length st - int (length b))) (st_write st - st_read st) = ?n"
      using cl b(2) small by (simp add: size_t_small nat_diff_distrib)
    obtain st' where st': "feed_body ?n st = Some st'" "st_body st' = Some (b @ take ?n (held st))" "held st' = drop ?n (held st)"
      "st_read st' = 0" "st_write st' = length (held st) - ?n" "held st' \<noteq> [] \<Longrightarrow> st_buff st' (st_write st') = NUL"
      "st_state st' = st_state st" "st_msg st' = st_msg st" "st_content_length st' = st_content_length st"
      "st_chunked st' = st_chunked st" "st_incoming st' = st_incoming st"
      using b(1) by (rule feed_body_step [where n = ?n]) auto
    have run: "acquire_body False st = (if length (wire_body w) \<le> length (b @ take ?n (held st))
        then Option.bind (belle_sip_channel_message_ready st') (\<lambda>st. Some (st, True)) else Some (st', False))"
      using False b(1) w(2) st' cl small n
      by (auto simp: acquire_body_def acquire_body_simple_def Let_def size_t_small held_Nil)
    show ?thesis
    proof (cases "length (wire_body w) - length b \<le> length (held st)")
      case True
      have "take (length (wire_body w)) (wire_body w @ wires_text ws) = take (length (wire_body w)) (b @ held st @ fut)"
        using b(3) by simp
      then have body: "wire_body w = b @ take ?n (held st)"
        using True b(2) by (simp add: min_absorb1)
      have "drop (length (wire_body w)) (wire_body w @ wires_text ws) = drop (length (wire_body w)) (b @ held st @ fut)"
        using b(3) by simp
      then have rest: "wires_text ws = held st' @ fut"
        using True b(2) st'(3) by (simp add: min_absorb1)
      have "st_write st' < 65534"
        using st'(5) w(1) by simp
      then have "\<exists>st''. belle_sip_channel_message_ready st' = Some st'' \<and> expects G ws fut st''
          \<and> st_state st'' = WAITING_MESSAGE_START \<and> st_incoming st'' = st_incoming st' @ [(wire_message w, st_body st')]"
        using st'(8) msg ok(2) rest by (intro message_ready_step) auto
      moreover have "(wire_message w, st_body st') = wire_result w"
        using st'(2) body b(2) by (auto simp: wire_result_def)
      ultimately show ?thesis
        using run body st'(11) by (auto simp del: length_append)
    next
      case False
      then have "?n = length (held st)"
        by simp
      then have "held st' = []" "b @ take ?n (held st) = b @ held st"
        using st'(3) by auto
      moreover have "length (b @ held st) < length (wire_body w)"
        using False by simp
      ultimately have "acquire_body False st = Some (st', False)" "expects G (w # ws) fut st'"
        using run st' b msg cl ok w state by (auto simp: expects_def)
      then show ?thesis
        using st' state \<open>held st' = []\<close> by auto
    qed
  qed
qed

lemma head_text:
  assumes "wire_ok G w" "st_read st \<le> st_write st" "st_write st < 65534" "held st = wire_head w @ u"
  obtains t where "text_at_read st = wire_head w @ t" "strstr [CR, LF, CR, LF] (text_at_read st) = Some (length (wire_head w) - 4)"
proof -
  obtain t where t: "text_at_read st = wire_head w @ t"
    by (rule text_at_read_complete [OF assms(2) _ assms(4) wire_head_no_nul [OF assms(1)]]) (use assms(3) in auto)
  moreover have "strstr [CR, LF, CR, LF] (wire_head w) = Some (length (wire_head w) - 4)"
    using assms(1) by (simp add: wire_ok_def)
  ultimately show thesis
    using that strstr_append by metis
qed

lemma head_missing:
  assumes "wire_ok G w" "st_read st \<le> st_write st" "st_write st < 65534" "st_buff st (st_write st) = NUL"
    "wire_head w @ t = held st @ fut" "length (held st) < length (wire_head w)"
  shows "acquire_message G st = Some (st, StepBreak)"
proof -
  obtain v where v: "wire_head w = held st @ v"
    using assms(5,6) by (metis append_eq_append_conv2 length_append not_add_less1)
  then have "NUL \<notin> set (held st)"
    using wire_head_no_nul [OF assms(1)] by auto
  then have whole: "text_at_read st = held st"
    using assms(2,3,4) by (intro text_at_read_all) auto
  have "strstr [CR, LF, CR, LF] (held st @ v) = Some (length (wire_head w) - 4)"
    using assms(1) v by (simp add: wire_ok_def)
  then have "strstr [CR, LF, CR, LF] (held st) = None"
    by (rule strstr_prefix) (use assms(6) wire_head_length [OF assms(1)] in simp)
  then show ?thesis
    using whole by (simp add: acquire_message_def)
qed

lemma message_step:
  assumes ex: "expects G (w # ws) fut st" and state: "st_state st = MESSAGE_AQUISITION"
    and len: "length (wire_head w) \<le> length (held st)"
  shows "(\<exists>st'. acquire_message G st = Some (st', StepAgain) \<and> expects G ws fut st' \<and> st_state st' = WAITING_MESSAGE_START
            \<and> st_incoming st' = st_incoming st @ [wire_result w])
       \<or> (\<exists>st'. acquire_message G st = Some (st', StepBody) \<and> expects G (w # ws) fut st' \<and> st_state st' = BODY_AQUISITION
            \<and> st_incoming st' = st_incoming st)"
proof -
  have ok: "wire_ok G w" "list_all (wire_ok G) ws" and w: "st_read st = 0" "st_write st < 65534" "\<not> st_chunked st"
    and eq: "wire_head w @ wire_body w @ wires_text ws = held st @ fut"
    and nul: "held st \<noteq> [] \<Longrightarrow> st_buff st (st_write st) = NUL"
    using ex state by (auto simp: expects_def)
  obtain u where u: "held st = wire_head w @ u" "wire_body w @ wires_text ws = u @ fut"
    using eq len by (rule head_prefix)
  obtain t where t: "text_at_read st = wire_head w @ t"
      "strstr [CR, LF, CR, LF] (text_at_read st) = Some (length (wire_head w) - 4)"
    using head_text [OF ok(1) _ w(2) u(1)] w(1) by auto
  have cut: "take (length (wire_head w) - 4 + 4) (text_at_read st) = wire_head w"
    using t(1) wire_head_length [OF ok(1)] by simp
  let ?s = "st\<lparr>st_msg := Some (wire_message w), st_read := st_read st + length (wire_head w),
      st_content_length := int (length (wire_body w))\<rparr>"
  have room: "length (wire_head w) \<le> st_write st - st_read st"
    using len by simp
  have held_s: "held (?s\<lparr>st_body := b\<rparr>) = u" for b
    using held_read [of "length (wire_head w)" "st\<lparr>st_msg := Some (wire_message w), st_body := b\<rparr>"] u(1) room
    by (simp add: held_def)
  have body: "check_body G (wire_message w) (st\<lparr>st_msg := Some (wire_message w), st_read := st_read st + length (wire_head w)\<rparr>)
      = (if wire_body w = [] then (?s\<lparr>st_body := None\<rparr>, False) else (?s\<lparr>st_body := Some []\<rparr>, True))"
    using ok(1) by (auto simp: check_body_def wire_ok_def)
  have filled: "wire_head w \<noteq> []"
    using wire_head_length [OF ok(1)] by auto
  have run: "acquire_message G st = (if wire_body w = []
      then Option.bind (belle_sip_channel_message_ready (?s\<lparr>st_body := None\<rparr>)) (\<lambda>st. Some (st, StepAgain))
      else Some (?s\<lparr>st_body := Some [], st_state := BODY_AQUISITION\<rparr>, StepBody))"
    using ok(1) t(2) cut body filled
    by (simp add: acquire_message_def wire_ok_def Let_def)
  show ?thesis
  proof (cases "wire_body w = []")
    case True
    have "\<exists>st''. belle_sip_channel_message_ready (?s\<lparr>st_body := None\<rparr>) = Some st'' \<and> expects G ws fut st''
        \<and> st_state st'' = WAITING_MESSAGE_START \<and> st_incoming st'' = st_incoming (?s\<lparr>st_body := None\<rparr>) @ [(wire_message w, st_body (?s\<lparr>st_body := None\<rparr>))]"
      by (rule message_ready_step) (use ok(2) w(2) held_s u(2) True in auto)
    then show ?thesis
      using run True by (auto simp: wire_result_def)
  next
    case False
    have "held (?s\<lparr>st_body := Some [], st_state := BODY_AQUISITION\<rparr>) = u"
      using held_s [of "Some []"] by (simp add: held_def)
    moreover have "length (wire_head w) \<le> st_write st"
      using len w(1) by simp
    moreover have "held st \<noteq> []"
      using u(1) wire_head_length [OF ok(1)] by auto
    ultimately have "expects G (w # ws) fut (?s\<lparr>st_body := Some [], st_state := BODY_AQUISITION\<rparr>)"
      using ok w nul u(2) False by (auto simp: expects_def)
    then show ?thesis
      using run False by auto
  qed
qed

section \<open>Parsing\<close>

text \<open>The stream after a run: what it holds is less than a head, or the beginning of a body.\<close>

definition settled :: "'m wire list \<Rightarrow> 'm input_stream \<Rightarrow> bool" where
  "settled ws st \<longleftrightarrow> (if st_state st = BODY_AQUISITION then held st = []
     else case ws of [] \<Rightarrow> held st = [] | w # _ \<Rightarrow> length (held st) < length (wire_head w))"

lemma parse_run:
  "expects G ws fut st \<Longrightarrow> \<exists>st' k. belle_sip_channel_parse_stream G False st = Some st' \<and> expects G (drop k ws) fut st'
     \<and> settled (drop k ws) st' \<and> st_incoming st' = st_incoming st @ map wire_result (take k ws)"
proof (induction ws arbitrary: st)
  case Nil
  then have "held st = []"
    by (auto simp: expects_def split: input_stream_state.splits)
  then show ?case
    using Nil by (subst belle_sip_channel_parse_stream.simps) (auto simp: held_Nil settled_def)
next
  case (Cons w ws)
  let ?done = "\<lambda>r. \<exists>st' k. r = Some st' \<and> expects G (drop k (w # ws)) fut st'
     \<and> settled (drop k (w # ws)) st' \<and> st_incoming st' = st_incoming st @ map wire_result (take k (w # ws))"
  have stop: "?done (Some st')" if "expects G (w # ws) fut st'" "settled (w # ws) st'" "st_incoming st' = st_incoming st" for st'
    using that by (intro exI [of _ st'] exI [of _ 0]) auto
  have again: "?done (belle_sip_channel_parse_stream G False st')"
    if next_expected: "expects G ws fut st'" "st_incoming st' = st_incoming st @ [wire_result w]" for st'
  proof -
    obtain st'' k where "belle_sip_channel_parse_stream G False st' = Some st''" "expects G (drop k ws) fut st''"
        "settled (drop k ws) st''" "st_incoming st'' = st_incoming st' @ map wire_result (take k ws)"
      using Cons.IH [OF next_expected(1)] by auto
    then show ?thesis
      using next_expected(2) by (intro exI [of _ st''] exI [of _ "Suc k"]) auto
  qed
  have body: "?done (Option.bind (acquire_body False st') (\<lambda>(st, continue).
      if continue then belle_sip_channel_parse_stream G False st else Some st))"
    if "expects G (w # ws) fut st'" "st_state st' = BODY_AQUISITION" "st_incoming st' = st_incoming st" for st'
    using body_step [OF that(1,2)] that(3) again stop by (fastforce simp: settled_def)
  have message: "?done (Option.bind (acquire_message G st') (\<lambda>(st, next). case next of
      StepBreak \<Rightarrow> Some st | StepAgain \<Rightarrow> belle_sip_channel_parse_stream G False st
      | StepBody \<Rightarrow> Option.bind (acquire_body False st) (\<lambda>(st, continue).
          if continue then belle_sip_channel_parse_stream G False st else Some st)))"
    if ex: "expects G (w # ws) fut st'" "st_state st' = MESSAGE_AQUISITION" "st_incoming st' = st_incoming st" "held st' \<noteq> []" for st'
  proof (cases "length (wire_head w) \<le> length (held st')")
    case True
    show ?thesis
      using message_step [OF ex(1,2) True] ex(3) again body by fastforce
  next
    case False
    then have "acquire_message G st' = Some (st', StepBreak)"
      using ex by (intro head_missing [where t = "wire_body w @ wires_text ws" and fut = fut]) (auto simp: expects_def)
    then show ?thesis
      using stop ex False by (auto simp: settled_def)
  qed
  show ?case
  proof (cases "held st = []")
    case True
    have "settled (w # ws) st"
      using True Cons.prems wire_head_length [of G w]
      by (auto simp: settled_def expects_def)
    then have "?done (Some st)"
      using stop Cons.prems by blast
    then show ?thesis
      using True by (subst belle_sip_channel_parse_stream.simps) (simp add: held_Nil)
  next
    case False
    then have num: "\<not> st_write st \<le> st_read st"
      by (simp add: held_Nil)
    show ?thesis
    proof (cases "st_state st")
      case WAITING_MESSAGE_START
      consider (found) "waiting_loop (st_write st - st_read st) (st_write st - st_read st - 1) 0 st = (st\<lparr>st_state := MESSAGE_AQUISITION\<rparr>, True)"
        | (missing) "waiting_loop (st_write st - st_read st) (st_write st - st_read st - 1) 0 st = (st, False)"
            "length (held st) < length (wire_head w)"
        using waiting_step [OF Cons.prems WAITING_MESSAGE_START False] by auto
      then show ?thesis
      proof cases
        case found
        have "expects G (w # ws) fut (st\<lparr>st_state := MESSAGE_AQUISITION\<rparr>)"
          using Cons.prems WAITING_MESSAGE_START by (simp add: expects_def)
        then show ?thesis
          using message [of "st\<lparr>st_state := MESSAGE_AQUISITION\<rparr>"] False found num WAITING_MESSAGE_START
          by (subst belle_sip_channel_parse_stream.simps) (simp cong: parse_step.case_cong)
      next
        case missing
        have "settled (w # ws) st"
          using missing WAITING_MESSAGE_START by (simp add: settled_def)
        then show ?thesis
          using stop [of st] Cons.prems missing num WAITING_MESSAGE_START
          by (subst belle_sip_channel_parse_stream.simps) simp
      qed
    next
      case MESSAGE_AQUISITION
      then show ?thesis
        using message [of st] Cons.prems False num
        by (subst belle_sip_channel_parse_stream.simps) (simp cong: parse_step.case_cong)
    next
      case BODY_AQUISITION
      then show ?thesis
        using body [of st] Cons.prems num
        by (subst belle_sip_channel_parse_stream.simps) simp
    qed
  qed
qed

section \<open>Receiving\<close>

fun receive_all :: "'m grammar \<Rightarrow> string list \<Rightarrow> 'm input_stream \<Rightarrow> 'm input_stream option" where
  "receive_all G [] st = Some st"
| "receive_all G (c # cs) st = Option.bind (receive G c st) (receive_all G cs)"

lemma write_bytes_simps [simp]:
  "st_state (write_bytes s st) = st_state st" "st_msg (write_bytes s st) = st_msg st"
  "st_body (write_bytes s st) = st_body st" "st_content_length (write_bytes s st) = st_content_length st"
  "st_chunked (write_bytes s st) = st_chunked st" "st_incoming (write_bytes s st) = st_incoming st"
  "st_read (write_bytes s st) = st_read st" "st_write (write_bytes s st) = st_write st + length s"
  "st_buff (write_bytes s st) (st_write st + length s) = NUL"
  by (simp_all add: write_bytes_def)

lemma expects_write:
  assumes "expects G ws (s @ fut) st" "st_write st + length s < 65534"
  shows "expects G ws fut (write_bytes s st)"
  using assms by (auto simp: expects_def held_write_bytes split: input_stream_state.splits list.splits)

lemma settled_room:
  assumes "expects G ws fut st" "settled ws st" "list_all (\<lambda>w. length (wire_head w) \<le> h) ws"
  shows "st_write st \<le> h"
  using assms
  by (auto simp: expects_def settled_def held_Nil split: input_stream_state.splits list.splits if_splits)

lemma receive_run:
  assumes "\<And>c. c \<in> set cs \<Longrightarrow> h + length c < 65534"
  shows "expects G ws (concat cs @ fut) st \<Longrightarrow> settled ws st \<Longrightarrow> list_all (\<lambda>w. length (wire_head w) \<le> h) ws \<Longrightarrow>
    \<exists>st' k. receive_all G cs st = Some st' \<and> expects G (drop k ws) fut st' \<and> settled (drop k ws) st'
      \<and> st_incoming st' = st_incoming st @ map wire_result (take k ws)"
  using assms
proof (induction cs arbitrary: ws st)
  case Nil
  then show ?case
    by (intro exI [of _ st] exI [of _ 0]) auto
next
  case (Cons c cs)
  have "st_write st + length c < 65534"
    using settled_room [OF Cons.prems(1-3)] Cons.prems(4) [of c] by simp
  then have "expects G ws (concat cs @ fut) (write_bytes c st)"
    using Cons.prems(1) by (intro expects_write) auto
  then obtain st1 k1 where 1: "receive G c st = Some st1" "expects G (drop k1 ws) (concat cs @ fut) st1"
      "settled (drop k1 ws) st1" "st_incoming st1 = st_incoming st @ map wire_result (take k1 ws)"
    using parse_run [of G ws "concat cs @ fut" "write_bytes c st"] by (auto simp: receive_def)
  have "list_all (\<lambda>w. length (wire_head w) \<le> h) (drop k1 ws)"
    using Cons.prems(3) by (auto simp: list_all_iff dest: in_set_dropD)
  then obtain st2 k2 where 2: "receive_all G cs st1 = Some st2" "expects G (drop k2 (drop k1 ws)) fut st2"
      "settled (drop k2 (drop k1 ws)) st2" "st_incoming st2 = st_incoming st1 @ map wire_result (take k2 (drop k1 ws))"
    using Cons.IH [OF 1(2,3)] Cons.prems(4) by auto
  have "take k1 ws @ take k2 (drop k1 ws) = take (k1 + k2) ws"
    by (simp add: take_add)
  then have "st_incoming st2 = st_incoming st @ map wire_result (take (k1 + k2) ws)"
    using 1(4) 2(4) by (metis append.assoc map_append)
  then show ?case
    using 1(1) 2 by (intro exI [of _ st2] exI [of _ "k1 + k2"]) (auto simp: add.commute)
qed

lemma expects_new:
  "list_all (wire_ok G) ws \<Longrightarrow> expects G ws (wires_text ws) input_stream_new"
  by (simp add: expects_def input_stream_new_def held_def)

lemma settled_new: "list_all (wire_ok G) ws \<Longrightarrow> settled ws input_stream_new"
  using wire_head_length by (cases ws) (fastforce simp: settled_def input_stream_new_def held_def)+

lemma nothing_to_come:
  assumes "expects G ws [] st" "settled ws st"
  shows "ws = []"
proof (cases ws)
  case (Cons w ws')
  then show ?thesis
    using assms by (fastforce simp: expects_def settled_def dest: arg_cong [of _ _ length]
        split: input_stream_state.splits if_splits)
qed

lemma common_room:
  assumes "concat cs = wires_text ws" "\<forall>w\<in>set ws. \<forall>c\<in>set cs. length (wire_head w) + length c < 65534"
  obtains h where "list_all (\<lambda>w. length (wire_head w) \<le> h) ws" "\<And>c. c \<in> set cs \<Longrightarrow> h + length c < 65534"
proof (cases "ws = []")
  case True
  then have "\<And>c. c \<in> set cs \<Longrightarrow> c = []"
    using assms(1) by auto
  then show thesis
    using that [of 0] True by fastforce
next
  case False
  let ?hs = "(\<lambda>w. length (wire_head w)) ` set ws"
  have "Max ?hs \<in> ?hs"
    using False by (intro Max_in) auto
  then show thesis
    using that [of "Max ?hs"] assms(2) by (auto simp: list_all_iff)
qed

lemma pieces_delivered:
  assumes "list_all (wire_ok G) ws" "concat cs = wires_text ws"
    and "\<forall>w\<in>set ws. \<forall>c\<in>set cs. length (wire_head w) + length c < 65534"
  shows "map_option st_incoming (receive_all G cs input_stream_new) = Some (map wire_result ws)"
proof -
  obtain h where h: "list_all (\<lambda>w. length (wire_head w) \<le> h) ws" "\<And>c. c \<in> set cs \<Longrightarrow> h + length c < 65534"
    using assms(2,3) by (rule common_room) blast
  have "expects G ws (concat cs @ []) input_stream_new"
    using expects_new assms(1,2) by simp
  then obtain st k where st: "receive_all G cs input_stream_new = Some st" "expects G (drop k ws) [] st"
      "settled (drop k ws) st" "st_incoming st = st_incoming (input_stream_new :: 'a input_stream) @ map wire_result (take k ws)"
    using receive_run [OF h(2)] settled_new [OF assms(1)] h(1) by blast
  then have "drop k ws = []"
    using nothing_to_come by blast
  then show ?thesis
    using st by (simp add: input_stream_new_def)
qed

text \<open>C19. Messages sent one after the other over a connection are received as they were sent, whatever the
  segments the network gives: if well formed SIP messages arrive in pieces that leave room for a head in
  the buffer, the channel queues exactly these messages, in order, each with its body.\<close>

theorem stream_delivers_messages:
  assumes "list_all (wire_ok G) ws" "concat cs = wires_text ws"
    and "\<forall>w\<in>set ws. \<forall>c\<in>set cs. length (wire_head w) + length c < 65534"
  shows "map_option st_incoming (receive_all G cs input_stream_new) = Some (map wire_result ws)"
  using assms by (rule pieces_delivered)

definition sample_head :: string where
  "sample_head = ''MESSAGE sip:bob SIP/2.0'' @ CRLF @ ''l: 4'' @ CRLF @ CRLF"

definition sample_grammar :: "string grammar" where
  "sample_grammar = \<lparr>parse_raw = (\<lambda>s. (Some s, length s)), is_sip = (\<lambda>_. True),
     content_length_of = (\<lambda>m. if m = sample_head then Some 4 else None), has_content_type = (\<lambda>_. False), is_chunked = (\<lambda>_. False)\<rparr>"

definition sample_wire :: "string wire" where
  "sample_wire = \<lparr>wire_start = Request_Line ''MESSAGE'' ''sip:bob'', wire_headers = ''l: 4'' @ CRLF @ CRLF,
     wire_body = ''ping'', wire_message = sample_head\<rparr>"

definition sample_answer :: "string wire" where
  "sample_answer = \<lparr>wire_start = Status_Line ''200'' ''OK'', wire_headers = CRLF,
     wire_body = [], wire_message = ''SIP/2.0 200 OK'' @ CRLF @ CRLF\<rparr>"

theorem stream_delivers_messages_witness:
  "map_option st_incoming (receive_all sample_grammar
     [take 20 sample_head, drop 20 sample_head @ ''pi'', ''ngSIP/2.0 200 OK'' @ CRLF @ CRLF] input_stream_new)
   = Some [(sample_head, Some ''ping''), (''SIP/2.0 200 OK'' @ CRLF @ CRLF, None)]"
proof -
  have 1: "list_all (wire_ok sample_grammar) [sample_wire, sample_answer]"
    by code_simp
  have 2: "concat [take 20 sample_head, drop 20 sample_head @ ''pi'', ''ngSIP/2.0 200 OK'' @ CRLF @ CRLF]
      = wires_text [sample_wire, sample_answer]"
    by code_simp
  have 3: "\<forall>w\<in>set [sample_wire, sample_answer]. \<forall>c\<in>set [take 20 sample_head, drop 20 sample_head @ ''pi'', ''ngSIP/2.0 200 OK'' @ CRLF @ CRLF].
      length (wire_head w) + length c < 65534"
    by (simp add: sample_wire_def sample_answer_def sample_head_def wire_head_def CRLF_def)
  show ?thesis
    using stream_delivers_messages [OF 1 2 3] by (simp add: wire_result_def sample_wire_def sample_answer_def)
qed

section \<open>The end of the stream\<close>

text \<open>
  When the connection ends, the channel parses what it holds with \<open>end_of_stream\<close>, which should finish a message
  whose body is incomplete. All the bytes of the body were taken as they came, and the loop is not entered.
\<close>

lemma truncated_body:
  assumes "wire_ok G w" "concat cs @ fut = wire_text w" "fut \<noteq> []" "length fut \<le> length (wire_body w)"
    and "\<forall>c\<in>set cs. length (wire_head w) + length c < 65534"
  obtains st where "receive_all G cs input_stream_new = Some st" "st_incoming st = []" "st_state st = BODY_AQUISITION"
    "st_msg st = Some (wire_message w)" "held st = []"
proof -
  have ok: "list_all (wire_ok G) [w]"
    using assms(1) by simp
  have "expects G [w] (concat cs @ fut) input_stream_new"
    using expects_new [OF ok] assms(2) by (simp add: wires_text_def)
  then obtain st k where st: "receive_all G cs input_stream_new = Some st" "expects G (drop k [w]) fut st"
      "settled (drop k [w]) st" "st_incoming st = st_incoming (input_stream_new :: 'a input_stream) @ map wire_result (take k [w])"
    using receive_run [of cs "length (wire_head w)"] settled_new [OF ok] assms(5) by force
  have "k = 0"
    using st(2) assms(3) by (cases k) (auto simp: expects_def split: input_stream_state.splits)
  then have ex: "expects G [w] fut st" "settled [w] st" "st_incoming st = []"
    using st by (auto simp: input_stream_new_def)
  have "st_state st = BODY_AQUISITION"
  proof (rule ccontr)
    assume "st_state st \<noteq> BODY_AQUISITION"
    then have "wire_head w @ wire_body w = held st @ fut" "length (held st) < length (wire_head w)"
      using ex by (auto simp: expects_def settled_def split: input_stream_state.splits)
    then show False
      using assms(4) by (auto dest!: arg_cong [of _ _ length])
  qed
  then show thesis
    using that [OF st(1)] ex by (auto simp: expects_def settled_def)
qed

text \<open>C20. A message whose body is cut by the end of the connection is never delivered: the parse for the end of the
  stream returns at once, although the code that calls it means to finish the acquisition of the body.\<close>

theorem end_of_stream_drops_body:
  assumes "wire_ok G w" "concat cs @ fut = wire_text w" "fut \<noteq> []" "length fut \<le> length (wire_body w)"
    and "\<forall>c\<in>set cs. length (wire_head w) + length c < 65534"
  shows "\<exists>st. receive_all G cs input_stream_new = Some st \<and> st_msg st = Some (wire_message w)
     \<and> belle_sip_channel_parse_stream G True st = Some st \<and> st_incoming st = []"
  using assms by (rule truncated_body)
    (subst (asm) held_Nil, intro exI conjI, assumption+, subst belle_sip_channel_parse_stream.simps, simp_all)

theorem end_of_stream_drops_body_witness:
  "\<exists>st. receive_all sample_grammar [sample_head, ''pin''] input_stream_new = Some st \<and> st_msg st = Some sample_head
     \<and> belle_sip_channel_parse_stream sample_grammar True st = Some st \<and> st_incoming st = []"
proof -
  have 1: "wire_ok sample_grammar sample_wire"
    by code_simp
  have 2: "concat [sample_head, ''pin''] @ ''g'' = wire_text sample_wire"
    by code_simp
  have 3: "\<forall>c\<in>set [sample_head, ''pin'']. length (wire_head sample_wire) + length c < 65534"
    by (simp add: sample_wire_def sample_head_def wire_head_def CRLF_def)
  show ?thesis
    using end_of_stream_drops_body [OF 1 2 _ _ 3] by (simp add: sample_wire_def)
qed

section \<open>Keep alives\<close>

text \<open>An end of line that comes before the first piece of a start line.\<close>

lemma trashed:
  assumes "get_message_start_pos (CRLF @ p) = None" "CR \<notin> set p" "length p < 65000"
  shows "\<exists>st. receive G (CRLF @ p) input_stream_new = Some st \<and> held st = [] \<and> st_state st = WAITING_MESSAGE_START
     \<and> st_incoming st = []"
proof -
  let ?s = "write_bytes (CRLF @ p) (input_stream_new :: 'a input_stream)"
  let ?r = "belle_sip_channel_input_stream_reset (?s\<lparr>st_read := st_write ?s\<rparr>)"
  have buff: "st_buff ?s i = (CRLF @ p) ! i" if "i < length p + 2" for i
    using that by (simp add: write_bytes_def input_stream_new_def CRLF_def)
  have size: "st_read ?s = 0" "st_write ?s = length p + 2"
    by (simp_all add: input_stream_new_def CRLF_def)
  have "bytes_at (st_buff ?s) 0 (length p + 2) = CRLF @ p"
    by (rule nth_equalityI) (use buff in \<open>simp_all add: CRLF_def\<close>)
  then have none: "get_message_start_pos (bytes_at (st_buff ?s) (st_read ?s) (length p + 2)) = None"
    using assms(1) size by simp
  have same: "st_buff ?r = st_buff ?s"
    by (simp add: belle_sip_channel_input_stream_reset_def belle_sip_channel_input_stream_rewind_def)
  have empty: "held (?s\<lparr>st_read := st_write ?s\<rparr>) = []"
    by (simp add: held_Nil)
  have rest: "waiting_loop (length p + 2) (length p) 1 ?r = (?r, False)"
  proof (rule waiting_loop_none)
    show "1 < belle_sip_channel_input_stream_get_buff_length ?r"
      using empty by (simp add: belle_sip_channel_input_stream_get_buff_length_def belle_sip_network_buffer_size_def)
    fix j assume j: "1 \<le> j" "j < 1 + length p"
    have "(LF # p) ! (j - 1) \<in> set (LF # p)"
      by (rule nth_mem) (use j in simp)
    then have "(CRLF @ p) ! j \<noteq> CR"
      using j(1) assms(2) by (auto simp: CRLF_def nth_Cons')
    then show "\<not> crlf_at ?r j"
      using j buff [of j] same by (simp add: crlf_at_def)
  qed
  have first: "st_buff ?s 0 = CR" "st_buff ?s 1 = LF"
    using buff [of 0] buff [of 1] by (simp_all add: CRLF_def)
  have "waiting_loop (length p + 2) (Suc (length p)) 0 ?s = (?r, False)"
    using first none rest size by simp
  then have "receive G (CRLF @ p) input_stream_new = Some ?r"
    using size unfolding receive_def
    by (subst belle_sip_channel_parse_stream.simps) (simp add: input_stream_new_def)
  then show ?thesis
    using empty by (auto simp: input_stream_new_def)
qed

text \<open>A keep-alive end of line received in the same segment as the beginning of a start line makes the
  channel throw that beginning away: nothing is held and no message is being acquired, so the message that
  follows is not seen whole.\<close>

lemma keepalive_trashes_start:
  assumes "get_message_start_pos (CRLF @ p) = None" "CR \<notin> set p" "length p < 65000"
  shows "\<exists>st. receive G (CRLF @ p) input_stream_new = Some st \<and> held st = [] \<and> st_state st = WAITING_MESSAGE_START
     \<and> st_incoming st = []"
  using assms by (rule trashed)

theorem keepalive_trashes_start_witness:
  "\<exists>st. receive sample_grammar (CRLF @ ''MESSAGE sip:bob SIP'') input_stream_new = Some st \<and> held st = []
     \<and> st_state st = WAITING_MESSAGE_START \<and> st_incoming st = []"
proof -
  have "get_message_start_pos (CRLF @ ''MESSAGE sip:bob SIP'') = None"
    by code_simp
  then show ?thesis
    by (rule keepalive_trashes_start) (simp_all add: CR_def)
qed

end
