(* ===== verification/BodyHandler.thy ===== *)
theory BodyHandler
  imports Objects
begin

text \<open>
  Body handlers (\<^verbatim>\<open>src/bodyhandler.c\<close>): the base class that counts the bytes transferred, and the handlers that keep a body
  in memory, give it to the callbacks of the application, read it from a file, or send several handlers as the parts
  of a multipart body. The loop that sends a body is the one of \<^verbatim>\<open>_send_message\<close> (\<^verbatim>\<open>src/channel.c\<close>).

  A buffer is the list of its bytes, None for a byte that was not written. The result None is a
  crash: an access beyond a buffer, or through NULL. Sizes are \<^verbatim>\<open>size_t\<close>, whose subtraction wraps.
\<close>

section \<open>State\<close>

type_synonym byte_seq = "char option list"

datatype chunk_result = chunk_stop | chunk_continue | chunk_error int

text \<open>The files, and the state of the application that the callbacks read and change.\<close>

record 'u body_world =
  bw_files :: "string \<Rightarrow> string option"
  bw_writable :: "string \<Rightarrow> bool"
  bw_app :: 'u

type_synonym 'u progress_callback = "'u \<Rightarrow> nat \<Rightarrow> nat \<Rightarrow> 'u"
type_synonym 'u recv_callback = "'u \<Rightarrow> nat \<Rightarrow> byte_seq \<Rightarrow> 'u"
type_synonym 'u send_callback = "'u \<Rightarrow> nat \<Rightarrow> nat \<Rightarrow> 'u \<times> byte_seq \<times> chunk_result"

datatype 'u body_handler =
    Body_handler (bh_progress_cb: "'u progress_callback option") (bh_expected_size: nat) (bh_transfered_size: nat)
      (bh_headers: "string list list") (bh_headerStringBuffer: "string option") (bh_impl: "'u body_impl")
and 'u body_impl =
    Memory_body "byte_seq option"
  | User_body "'u recv_callback option" "'u send_callback option"
  | File_body "string option"
  | Multipart_body "'u body_handler list"

definition size_sub :: "nat \<Rightarrow> nat \<Rightarrow> nat" where
  "size_sub a b = (if b \<le> a then a - b else 2 ^ 64 + a - b)"

section \<open>The base class\<close>

definition belle_sip_body_handler_init :: "'u progress_callback option \<Rightarrow> 'u body_impl \<Rightarrow> 'u body_handler" where
  "belle_sip_body_handler_init cb impl = Body_handler cb 0 0 [] None impl"

text \<open>A header is the pieces of its text (\<open>belle_sip_object_marshal\<close>).\<close>

fun belle_sip_body_handler_add_header :: "'u body_handler \<Rightarrow> string list option \<Rightarrow> 'u body_handler" where
  "belle_sip_body_handler_add_header (Body_handler cb e t hs hb i) header =
     Body_handler cb e t (case header of None \<Rightarrow> hs | Some h \<Rightarrow> hs @ [h]) hb i"

fun belle_sip_body_handler_set_size :: "'u body_handler \<Rightarrow> nat \<Rightarrow> 'u body_handler" where
  "belle_sip_body_handler_set_size (Body_handler cb e t hs hb i) size' = Body_handler cb size' t hs hb i"

fun belle_sip_body_handler_begin_transfer :: "'u body_handler \<Rightarrow> 'u body_handler" where
  "belle_sip_body_handler_begin_transfer (Body_handler cb e t hs hb i) = Body_handler cb e 0 hs hb i"

fun belle_sip_body_handler_end_transfer :: "'u body_handler \<Rightarrow> 'u body_handler" where
  "belle_sip_body_handler_end_transfer (Body_handler cb e t hs hb i) =
     Body_handler cb (if e = 0 then t else e) t hs hb i"

fun update_progress :: "'u body_handler \<Rightarrow> 'u body_world \<Rightarrow> 'u body_world" where
  "update_progress (Body_handler cb e t hs hb i) w =
     (case cb of None \<Rightarrow> w | Some f \<Rightarrow> w\<lparr>bw_app := f (bw_app w) t e\<rparr>)"

section \<open>Receiving\<close>

definition unwritten :: "nat \<Rightarrow> byte_seq" where
  "unwritten n = replicate n None"

definition belle_sip_memory_body_handler_recv_chunk :: "byte_seq option \<Rightarrow> nat \<Rightarrow> byte_seq \<Rightarrow> byte_seq" where
  "belle_sip_memory_body_handler_recv_chunk buffer offset buf =
     (let b = (case buffer of None \<Rightarrow> [] | Some b \<Rightarrow> b) in
      take offset (b @ unwritten (offset - length b)) @ buf)"

text \<open>A chunk for a file is appended to it, wherever it comes from in the body; no error is told.\<close>

definition belle_sip_file_body_handler_recv_chunk :: "string option \<Rightarrow> string \<Rightarrow> 'u body_world \<Rightarrow> 'u body_world" where
  "belle_sip_file_body_handler_recv_chunk filepath buf w =
     (case filepath of None \<Rightarrow> w
      | Some p \<Rightarrow> if bw_writable w p
          then w\<lparr>bw_files := (bw_files w)(p \<mapsto> (case bw_files w p of None \<Rightarrow> [] | Some s \<Rightarrow> s) @ buf)\<rparr> else w)"

fun chunk_recv :: "'u body_impl \<Rightarrow> nat \<Rightarrow> string \<Rightarrow> 'u body_world \<Rightarrow> 'u body_impl \<times> 'u body_world" where
  "chunk_recv (Memory_body buffer) offset buf w =
     (Memory_body (Some (belle_sip_memory_body_handler_recv_chunk buffer offset (map Some buf))), w)"
| "chunk_recv (User_body recv_cb send_cb) offset buf w =
     (User_body recv_cb send_cb,
      case recv_cb of None \<Rightarrow> w | Some f \<Rightarrow> w\<lparr>bw_app := f (bw_app w) offset (map Some buf)\<rparr>)"
| "chunk_recv (File_body filepath) offset buf w =
     (File_body filepath, belle_sip_file_body_handler_recv_chunk filepath buf w)"
| "chunk_recv (Multipart_body parts) offset buf w = (Multipart_body parts, w)"

fun belle_sip_body_handler_recv_chunk :: "'u body_handler \<Rightarrow> string \<Rightarrow> 'u body_world \<Rightarrow> 'u body_handler \<times> 'u body_world" where
  "belle_sip_body_handler_recv_chunk (Body_handler cb e t hs hb i) buf w =
     (let (i, w) = chunk_recv i t buf w;
          h = Body_handler cb e (t + length buf) hs hb i
      in (h, update_progress h w))"

section \<open>Sending\<close>

text \<open>
  A chunk is written to a buffer with room for \<open>room\<close> bytes; \<open>n\<close> is the size asked for. The result has the
  bytes of the buffer up to the size told to the caller: what the handler left unwritten is None.
\<close>

type_synonym 'u chunk = "byte_seq \<times> chunk_result \<times> 'u body_world"

definition belle_sip_memory_body_handler_send_chunk ::
  "byte_seq option \<Rightarrow> nat \<Rightarrow> nat \<Rightarrow> nat \<Rightarrow> nat \<Rightarrow> (byte_seq \<times> chunk_result) option" where
  "belle_sip_memory_body_handler_send_chunk buffer expected offset room n =
     (let to_send = min n (size_sub expected offset);
          b = (case buffer of None \<Rightarrow> [] | Some b \<Rightarrow> b) in
      if to_send \<noteq> 0 \<and> (room < to_send \<or> length b < offset + to_send) then None
      else Some (take to_send (drop offset b), if size_sub expected offset = to_send then chunk_stop else chunk_continue))"

definition belle_sip_user_body_handler_send_chunk ::
  "'u send_callback option \<Rightarrow> nat \<Rightarrow> nat \<Rightarrow> nat \<Rightarrow> 'u body_world \<Rightarrow> 'u chunk option" where
  "belle_sip_user_body_handler_send_chunk send_cb offset room n w =
     (case send_cb of None \<Rightarrow> Some ([], chunk_stop, w)
      | Some f \<Rightarrow> (case f (bw_app w) offset n of (u, buf, ret) \<Rightarrow>
          if room < length buf then None else Some (buf, ret, w\<lparr>bw_app := u\<rparr>)))"

text \<open>The size asked for is left as it was when the file cannot be opened.\<close>

definition belle_sip_file_body_handler_send_chunk ::
  "string option \<Rightarrow> nat \<Rightarrow> nat \<Rightarrow> nat \<Rightarrow> nat \<Rightarrow> 'u body_world \<Rightarrow> (byte_seq \<times> chunk_result) option" where
  "belle_sip_file_body_handler_send_chunk filepath expected offset room n w =
     (let to_send = min n (size_sub expected offset) in
      case Option.bind filepath (bw_files w) of
        None \<Rightarrow> Some (unwritten n, chunk_stop)
      | Some content \<Rightarrow>
          (let buf = take to_send (drop offset content) in
           if room < length buf then None
           else Some (map Some buf, if size_sub expected offset = length buf \<or> length buf = 0 then chunk_stop else chunk_continue)))"

definition BELLESIP_MULTIPART_BOUNDARY :: string where
  "BELLESIP_MULTIPART_BOUNDARY = ''---------------------------14737809831466499882746641449''"

definition CRLF_text :: string where
  "CRLF_text = [CHR 0x0D, CHR 0x0A]"

definition MULTIPART_SEPARATOR :: string where
  "MULTIPART_SEPARATOR = ''--'' @ BELLESIP_MULTIPART_BOUNDARY @ CRLF_text"

definition MULTIPART_END :: string where
  "MULTIPART_END = CRLF_text @ ''--'' @ BELLESIP_MULTIPART_BOUNDARY @ ''--'' @ CRLF_text"

text \<open>What a part starts with: the separator and its headers, before its first byte.\<close>

definition part_start :: "'u body_handler \<Rightarrow> string" where
  "part_start p = MULTIPART_SEPARATOR @ (case bh_headerStringBuffer p of None \<Rightarrow> [] | Some h \<Rightarrow> h)"

text \<open>
  \<open>chunk_send\<close> is the method of the class, \<open>belle_sip_body_handler_send_chunk\<close> the one of the base class that calls it.
  The multipart handler asks for less than it may write, to have room for the end; when the start of a part does not
  fit, the size it leaves to its caller is the one it asked for.
\<close>

fun chunk_send :: "'u body_impl \<Rightarrow> nat \<Rightarrow> nat \<Rightarrow> nat \<Rightarrow> nat \<Rightarrow> 'u body_world \<Rightarrow> ('u body_impl \<times> 'u chunk) option"
and belle_sip_body_handler_send_chunk :: "'u body_handler \<Rightarrow> nat \<Rightarrow> nat \<Rightarrow> 'u body_world \<Rightarrow> ('u body_handler \<times> 'u chunk) option"
where
  "chunk_send (Memory_body buffer) expected offset room n w =
     map_option (\<lambda>(buf, ret). (Memory_body buffer, buf, ret, w))
       (belle_sip_memory_body_handler_send_chunk buffer expected offset room n)"
| "chunk_send (User_body recv_cb send_cb) expected offset room n w =
     map_option (\<lambda>c. (User_body recv_cb send_cb, c)) (belle_sip_user_body_handler_send_chunk send_cb offset room n w)"
| "chunk_send (File_body filepath) expected offset room n w =
     map_option (\<lambda>(buf, ret). (File_body filepath, buf, ret, w))
       (belle_sip_file_body_handler_send_chunk filepath expected offset room n w)"
| "chunk_send (Multipart_body []) expected offset room n w = None"
| "chunk_send (Multipart_body (p # ps)) expected offset room n w =
     (let n = size_sub n (length MULTIPART_END);
          start = (if bh_transfered_size p = 0 then part_start p else []) in
      if start \<noteq> [] \<and> n < length start + 1
      then Some (Multipart_body (p # ps), unwritten n, chunk_error (- 1), w)
      else if room < length start then None
      else (case belle_sip_body_handler_send_chunk p (room - length start) (n - length start) w of
          None \<Rightarrow> None
        | Some (p, buf, ret, w) \<Rightarrow>
            (let buf = map Some start @ buf in
             if ret = chunk_continue then Some (Multipart_body (p # ps), buf, chunk_continue, w)
             else if ps \<noteq> [] then Some (Multipart_body ps, buf, chunk_continue, w)
             else if room < length buf + length MULTIPART_END then None
             else Some (Multipart_body (p # ps), buf @ map Some MULTIPART_END, chunk_stop, w))))"
| "belle_sip_body_handler_send_chunk (Body_handler cb e t hs hb i) room n w =
     (let n = (if e \<noteq> 0 then min n (size_sub e t) else n) in
      case chunk_send i e t room n w of None \<Rightarrow> None
      | Some (i, buf, ret, w) \<Rightarrow>
          (let h = Body_handler cb e (t + length buf) hs hb i;
               w = update_progress h w
           in Some (h, buf, if e \<noteq> 0 \<and> t + length buf = e then chunk_stop else ret, w)))"

text \<open>The loop of \<open>_send_message\<close> over the chunks of a body, on a socket that takes them, at most \<open>k\<close> times.\<close>

fun send_chunks_loop :: "nat \<Rightarrow> 'u body_handler \<Rightarrow> nat \<Rightarrow> 'u body_world \<Rightarrow> ('u body_handler \<times> byte_seq \<times> 'u body_world) option" where
  "send_chunks_loop 0 h n w = None"
| "send_chunks_loop (Suc k) h n w =
     (case belle_sip_body_handler_send_chunk h n n w of None \<Rightarrow> None
      | Some (h, buf, ret, w) \<Rightarrow>
          if ret = chunk_continue
          then map_option (\<lambda>(h, rest, w). (h, buf @ rest, w)) (send_chunks_loop k h n w)
          else Some (h, buf, w))"

definition send_chunks :: "nat \<Rightarrow> 'u body_handler \<Rightarrow> nat \<Rightarrow> 'u body_world \<Rightarrow> ('u body_handler \<times> byte_seq \<times> 'u body_world) option" where
  "send_chunks k h n w =
     map_option (\<lambda>(h, sent, w). (belle_sip_body_handler_end_transfer h, sent, w))
       (send_chunks_loop k (belle_sip_body_handler_begin_transfer h) n w)"

section \<open>Making handlers\<close>

definition belle_sip_memory_body_handler_new :: "'u progress_callback option \<Rightarrow> 'u body_handler" where
  "belle_sip_memory_body_handler_new cb = belle_sip_body_handler_init cb (Memory_body None)"

text \<open>Also \<open>belle_sip_memory_body_handler_new_from_buffer\<close>, which keeps the buffer in place of a copy.\<close>

definition belle_sip_memory_body_handler_new_copy_from_buffer :: "string \<Rightarrow> 'u progress_callback option \<Rightarrow> 'u body_handler" where
  "belle_sip_memory_body_handler_new_copy_from_buffer buffer cb =
     belle_sip_body_handler_set_size (belle_sip_body_handler_init cb (Memory_body (Some (map Some buffer)))) (length buffer)"

definition belle_sip_user_body_handler_new ::
  "nat \<Rightarrow> 'u progress_callback option \<Rightarrow> 'u recv_callback option \<Rightarrow> 'u send_callback option \<Rightarrow> 'u body_handler" where
  "belle_sip_user_body_handler_new total_size cb recv_cb send_cb =
     belle_sip_body_handler_set_size (belle_sip_body_handler_init cb (User_body recv_cb send_cb)) total_size"

definition belle_sip_file_body_handler_new :: "string \<Rightarrow> 'u progress_callback option \<Rightarrow> 'u body_world \<Rightarrow> 'u body_handler" where
  "belle_sip_file_body_handler_new filepath cb w =
     (let h = belle_sip_body_handler_init cb (File_body (Some filepath)) in
      case bw_files w filepath of None \<Rightarrow> h | Some s \<Rightarrow> belle_sip_body_handler_set_size h (length s))"

text \<open>
  The headers of a part, each with its end of line. A header that does not fit is written again in a larger
  buffer, of which five bytes are kept for the ends of lines.
\<close>

function part_headers_loop :: "string list list \<Rightarrow> nat \<Rightarrow> string \<Rightarrow> string" where
  "part_headers_loop [] bufsize written = written"
| "part_headers_loop (h # hs) bufsize written =
     (case marshal_pieces (bufsize - 5) h (written, length written) of
        (s, BELLE_SIP_OK) \<Rightarrow> part_headers_loop hs bufsize (fst s @ CRLF_text)
      | (s, BELLE_SIP_BUFFER_OVERFLOW) \<Rightarrow> part_headers_loop (h # hs) (bufsize + 512) written)"
  by pat_completeness auto

termination part_headers_loop
proof (relation "measures [\<lambda>(hs, n, s). length hs, \<lambda>(hs, n, s). length s + length (concat (hd hs)) + 6 - n]", goal_cases)
  case (3 h hs bufsize written x y)
  then have "bufsize - 5 \<le> length written + length (concat h)"
    by (intro marshal_pieces_overflow [of _ h written]) (metis snd_conv)
  then show ?case
    by simp
qed auto

declare part_headers_loop.simps [simp del]

definition DEFAULT_HEADER_STRING_SIZE :: nat where
  "DEFAULT_HEADER_STRING_SIZE = 512"

definition part_header_text :: "string list list \<Rightarrow> string" where
  "part_header_text hs = part_headers_loop hs DEFAULT_HEADER_STRING_SIZE [] @ CRLF_text"

text \<open>The part is the one whose headers are written out, which the multipart handler keeps a reference to.\<close>

fun with_header_buffer :: "'u body_handler \<Rightarrow> 'u body_handler" where
  "with_header_buffer (Body_handler cb e t hs hb i) =
     Body_handler cb e t hs (if hs = [] then hb else Some (part_header_text hs)) i"

fun belle_sip_multipart_body_handler_add_part :: "'u body_handler \<Rightarrow> 'u body_handler \<Rightarrow> 'u body_handler option" where
  "belle_sip_multipart_body_handler_add_part (Body_handler cb e t hs hb (Multipart_body parts)) part =
     (let part' = with_header_buffer part;
          headers = (if bh_headers part = [] then 0 else length (part_header_text (bh_headers part))) in
      Some (Body_handler cb (e + bh_expected_size part + length MULTIPART_SEPARATOR + headers) t hs hb
        (Multipart_body (parts @ [part']))))"
| "belle_sip_multipart_body_handler_add_part h part = None"

definition belle_sip_multipart_body_handler_new :: "'u progress_callback option \<Rightarrow> 'u body_handler option \<Rightarrow> 'u body_handler option" where
  "belle_sip_multipart_body_handler_new cb first_part =
     (let h = belle_sip_body_handler_set_size (belle_sip_body_handler_init cb (Multipart_body [])) (length MULTIPART_END) in
      case first_part of None \<Rightarrow> Some h | Some p \<Rightarrow> belle_sip_multipart_body_handler_add_part h p)"

section \<open>Cloning\<close>

text \<open>
  The clone of a memory handler copies as many bytes as it expects. The clone function of the multipart class takes one
  argument, the new object: it copies the parts of that one, which has none.
\<close>

fun clone_impl :: "nat \<Rightarrow> 'u body_impl \<Rightarrow> 'u body_impl option" where
  "clone_impl expected (Memory_body None) = Some (Memory_body None)"
| "clone_impl expected (Memory_body (Some b)) =
     (if length b < expected then None else Some (Memory_body (Some (take expected b))))"
| "clone_impl expected (User_body recv_cb send_cb) = Some (User_body recv_cb send_cb)"
| "clone_impl expected (File_body filepath) = map_option (\<lambda>p. File_body (Some p)) filepath"
| "clone_impl expected (Multipart_body parts) = Some (Multipart_body [])"

fun belle_sip_body_handler_clone :: "'u body_handler \<Rightarrow> 'u body_handler option" where
  "belle_sip_body_handler_clone (Body_handler cb e t hs hb i) =
     map_option (Body_handler cb e t hs hb) (clone_impl e i)"

end
