(* ===== verification/BodyProps.thy ===== *)
theory BodyProps
  imports BodyHandler
begin

text \<open>
  What body handlers send: a body received in memory is sent as it came, in chunks of any size; a multipart handler sends
  its parts with their starts, and the end, as many bytes as it announced, but only once.
\<close>

section \<open>A body in memory\<close>

lemma size_sub_le [simp]: "b \<le> a \<Longrightarrow> size_sub a b = a - b"
  by (simp add: size_sub_def)

lemma memory_chunk:
  assumes "t \<le> length b" "n \<le> room"
  shows "belle_sip_memory_body_handler_send_chunk (Some b) (length b) t room n
    = Some (take n (drop t b), if length b - t \<le> n then chunk_stop else chunk_continue)"
  using assms by (auto simp: belle_sip_memory_body_handler_send_chunk_def Let_def min_def)

text \<open>One chunk of a handler that keeps \<open>b\<close> in memory, of which \<open>t\<close> bytes were transferred.\<close>

lemma memory_step:
  assumes "t \<le> length b" "n \<le> room"
  shows "\<exists>w'. belle_sip_body_handler_send_chunk (Body_handler cb (length b) t hs hb (Memory_body (Some b))) room n w
    = Some (Body_handler cb (length b) (t + min n (length b - t)) hs hb (Memory_body (Some b)), take n (drop t b),
        if length b - t \<le> n then chunk_stop else chunk_continue, w')"
proof -
  have "min n (length b - t) \<le> room"
    using assms(2) by simp
  from memory_chunk [OF assms(1) this] memory_chunk [OF assms] show ?thesis
    using assms(1) by (cases "b = []") (auto simp: Let_def min_def)
qed

lemma memory_sends_rest:
  assumes "0 < n"
  shows "t \<le> length b \<Longrightarrow> length b - t < k \<Longrightarrow> \<exists>w'. send_chunks_loop k (Body_handler cb (length b) t hs hb (Memory_body (Some b))) n w
    = Some (Body_handler cb (length b) (length b) hs hb (Memory_body (Some b)), drop t b, w')"
proof (induction k arbitrary: t w)
  case (Suc k)
  obtain w' where step: "belle_sip_body_handler_send_chunk (Body_handler cb (length b) t hs hb (Memory_body (Some b))) n n w
      = Some (Body_handler cb (length b) (t + min n (length b - t)) hs hb (Memory_body (Some b)), take n (drop t b),
        if length b - t \<le> n then chunk_stop else chunk_continue, w')"
    using memory_step [OF Suc.prems(1) order.refl] by blast
  show ?case
  proof (cases "length b - t \<le> n")
    case True
    then show ?thesis
      using step Suc.prems(1) by (simp add: min_absorb2)
  next
    case False
    then have "\<exists>w''. send_chunks_loop k (Body_handler cb (length b) (t + n) hs hb (Memory_body (Some b))) n w'
        = Some (Body_handler cb (length b) (length b) hs hb (Memory_body (Some b)), drop (t + n) b, w'')"
      using Suc.prems assms by (intro Suc.IH) auto
    moreover have "take n (drop t b) @ drop (t + n) b = drop t b"
      by (metis add.commute append_take_drop_id drop_drop)
    ultimately show ?thesis
      using step False by (auto simp: min_absorb1)
  qed
qed simp

text \<open>The chunks of a body received one after the other.\<close>

fun recv_all :: "'u body_handler \<Rightarrow> string list \<Rightarrow> 'u body_world \<Rightarrow> 'u body_handler \<times> 'u body_world" where
  "recv_all h [] w = (h, w)"
| "recv_all h (c # cs) w = (case belle_sip_body_handler_recv_chunk h c w of (h, w) \<Rightarrow> recv_all h cs w)"

definition stored :: "byte_seq option \<Rightarrow> byte_seq" where
  "stored buffer = (case buffer of None \<Rightarrow> [] | Some b \<Rightarrow> b)"

lemma memory_recv:
  "length (stored buffer) = t \<Longrightarrow> \<exists>w' buffer'. recv_all (Body_handler cb e t hs hb (Memory_body buffer)) cs w
    = (Body_handler cb e (t + length (concat cs)) hs hb (Memory_body buffer'), w')
    \<and> stored buffer' = stored buffer @ map Some (concat cs) \<and> (buffer' = None \<longrightarrow> cs = [] \<and> buffer = None)"
proof (induction cs arbitrary: t buffer w)
  case (Cons c cs)
  have one: "belle_sip_memory_body_handler_recv_chunk buffer t (map Some c) = stored buffer @ map Some c"
    using Cons.prems by (simp add: belle_sip_memory_body_handler_recv_chunk_def stored_def)
  show ?case
    using Cons.IH [of "Some (stored buffer @ map Some c)" "t + length c"
        "update_progress (Body_handler cb e (t + length c) hs hb (Memory_body (Some (stored buffer @ map Some c)))) w"] Cons.prems
    by (auto simp: Let_def one stored_def add.assoc)
qed auto

text \<open>C26. A body received in memory, whatever the chunks it comes in, is sent as it was received, in chunks of any size:
  as many iterations as it has bytes, and one, are enough.\<close>

theorem memory_body_roundtrip:
  assumes "0 < n" "recv_all (belle_sip_body_handler_begin_transfer (belle_sip_memory_body_handler_new cb)) chunks w = (h, w')"
  shows "\<exists>h' w''. send_chunks (length (concat chunks) + 1) (belle_sip_body_handler_end_transfer h) n w'
    = Some (h', map Some (concat chunks), w'')"
proof -
  obtain buffer where h: "h = Body_handler cb 0 (length (concat chunks)) [] None (Memory_body buffer)"
      "stored buffer = map Some (concat chunks)" "buffer = None \<Longrightarrow> chunks = []"
    using memory_recv [of None 0 cb 0 "[]" None chunks w] assms(2)
    by (auto simp: belle_sip_memory_body_handler_new_def belle_sip_body_handler_init_def stored_def)
  show ?thesis
  proof (cases buffer)
    case None
    then show ?thesis
      using h by (auto simp: send_chunks_def belle_sip_memory_body_handler_send_chunk_def Let_def)
  next
    case (Some b)
    then have b: "b = map Some (concat chunks)" "length b = length (concat chunks)"
      using h(2) by (auto simp: stored_def)
    obtain w'' where "send_chunks_loop (length b + 1) (Body_handler cb (length b) 0 [] None (Memory_body (Some b))) n w'
        = Some (Body_handler cb (length b) (length b) [] None (Memory_body (Some b)), drop 0 b, w'')"
      using memory_sends_rest [OF assms(1), of 0 b "length b + 1" cb "[]" None w'] by auto
    then show ?thesis
      using h(1) Some b by (auto simp: send_chunks_def)
  qed
qed

lemma memory_body_roundtrip_witness:
  "\<exists>h' w''. send_chunks 8 (belle_sip_body_handler_end_transfer (fst (recv_all
      (belle_sip_body_handler_begin_transfer (belle_sip_memory_body_handler_new None)) [''v=0'', ''o=-x'']
      \<lparr>bw_files = (\<lambda>_. None), bw_writable = (\<lambda>_. True), bw_app = ()\<rparr>))) 3 \<lparr>bw_files = (\<lambda>_. None), bw_writable = (\<lambda>_. True), bw_app = ()\<rparr>
    = Some (h', map Some ''v=0o=-x'', w'')"
  using memory_body_roundtrip [of 3 None "[''v=0'', ''o=-x'']"
      "\<lparr>bw_files = (\<lambda>_. None), bw_writable = (\<lambda>_. True), bw_app = ()\<rparr>" "Body_handler None 0 7 [] None (Memory_body (Some (map Some ''v=0o=-x'')))"
      "\<lparr>bw_files = (\<lambda>_. None), bw_writable = (\<lambda>_. True), bw_app = ()\<rparr>"]
  by (simp add: belle_sip_memory_body_handler_new_def belle_sip_body_handler_init_def belle_sip_memory_body_handler_recv_chunk_def
      unwritten_def eval_nat_numeral)

section \<open>Multipart bodies\<close>

text \<open>A part that was not sent: its bytes are in memory, not empty. What a multipart handler is to send.\<close>

definition part_bytes :: "'u body_handler \<Rightarrow> byte_seq" where
  "part_bytes p = (case bh_impl p of Memory_body (Some b) \<Rightarrow> b | _ \<Rightarrow> [])"

definition memory_part :: "nat \<Rightarrow> 'u body_handler \<Rightarrow> bool" where
  "memory_part t p \<longleftrightarrow> (\<exists>b. bh_impl p = Memory_body (Some b) \<and> bh_expected_size p = length b \<and> bh_transfered_size p = t
     \<and> t < length b)"

definition part_text :: "'u body_handler \<Rightarrow> byte_seq" where
  "part_text p = map Some (part_start p) @ part_bytes p"

definition multipart_text :: "'u body_handler list \<Rightarrow> byte_seq" where
  "multipart_text ps = concat (map part_text ps) @ map Some MULTIPART_END"

text \<open>What is left of the first part when \<open>t\<close> of its bytes were transferred.\<close>

definition part_rest :: "'u body_handler \<Rightarrow> byte_seq" where
  "part_rest p = (if bh_transfered_size p = 0 then part_text p else drop (bh_transfered_size p) (part_bytes p))"

definition part_start_now :: "'u body_handler \<Rightarrow> string" where
  "part_start_now p = (if bh_transfered_size p = 0 then part_start p else [])"

lemma part_rest_start: "part_rest p = map Some (part_start_now p) @ drop (bh_transfered_size p) (part_bytes p)"
  by (simp add: part_rest_def part_text_def part_start_now_def)

lemma part_start_not_Nil: "part_start p \<noteq> []"
  by (simp add: part_start_def MULTIPART_SEPARATOR_def)

lemma part_step:
  assumes "memory_part t p" "n \<le> room"
  shows "\<exists>p' w'. belle_sip_body_handler_send_chunk p room n w
    = Some (p', take n (drop t (part_bytes p)), if length (part_bytes p) - t \<le> n then chunk_stop else chunk_continue, w')
    \<and> part_bytes p' = part_bytes p \<and> (n < length (part_bytes p) - t \<longrightarrow> memory_part (t + n) p')
    \<and> (length (part_bytes p) - t \<le> n \<longrightarrow> bh_transfered_size p' = length (part_bytes p) \<and> bh_expected_size p' = length (part_bytes p)
        \<and> bh_impl p' = Memory_body (Some (part_bytes p)))"
proof -
  obtain b where b: "bh_impl p = Memory_body (Some b)" "bh_expected_size p = length b" "bh_transfered_size p = t" "t < length b"
    using assms(1) by (auto simp: memory_part_def)
  then have p: "p = Body_handler (bh_progress_cb p) (length b) t (bh_headers p) (bh_headerStringBuffer p) (Memory_body (Some b))"
    by (cases p) simp
  have bytes: "part_bytes p = b"
    using b(1) by (simp add: part_bytes_def)
  obtain w' where step: "belle_sip_body_handler_send_chunk p room n w
      = Some (Body_handler (bh_progress_cb p) (length b) (t + min n (length b - t)) (bh_headers p) (bh_headerStringBuffer p)
          (Memory_body (Some b)), take n (drop t b), if length b - t \<le> n then chunk_stop else chunk_continue, w')"
    using memory_step [OF less_imp_le [OF b(4)] assms(2)] p by metis
  show ?thesis
    unfolding step bytes using b(4) by (auto simp: part_bytes_def memory_part_def)
qed

lemma multipart_text_Cons: "multipart_text (q # qs) = part_text q @ multipart_text qs"
  by (simp add: multipart_text_def)

lemma multipart_text_end: "length MULTIPART_END \<le> length (multipart_text ps)" "multipart_text [] = map Some MULTIPART_END"
  by (simp_all add: multipart_text_def)

lemma memory_part_rest: "memory_part 0 p \<Longrightarrow> part_rest p = part_text p"
  by (auto simp: memory_part_def part_rest_def)

text \<open>A chunk of a multipart handler stays in its first part, passes to the next one, or ends the body.\<close>

definition room_for :: "nat \<Rightarrow> string \<Rightarrow> bool" where
  "room_for n s \<longleftrightarrow> length s + length MULTIPART_END < n"

lemma multipart_chunk:
  assumes p: "memory_part tp p" and room: "room_for n (part_start_now p)"
    and N: "N = min n (length (part_rest p @ multipart_text ps))"
  shows "\<exists>p' buf w'. buf \<noteq> [] \<and>
      ((\<exists>t'. chunk_send (Multipart_body (p # ps)) e t n N w = Some (Multipart_body (p' # ps), buf, chunk_continue, w')
          \<and> memory_part t' p' \<and> 0 < t' \<and> part_rest p = buf @ part_rest p')
     \<or> (chunk_send (Multipart_body (p # ps)) e t n N w = Some (Multipart_body ps, buf, chunk_continue, w') \<and> ps \<noteq> []
          \<and> part_rest p = buf)
     \<or> (chunk_send (Multipart_body (p # ps)) e t n N w = Some (Multipart_body [p'], buf, chunk_stop, w') \<and> ps = []
          \<and> part_rest p @ map Some MULTIPART_END = buf
          \<and> bh_transfered_size p' = length (part_bytes p) \<and> bh_expected_size p' = length (part_bytes p)
          \<and> bh_impl p' = Memory_body (Some (part_bytes p))))"
proof -
  let ?s = "part_start_now p" and ?d = "drop tp (part_bytes p)"
  let ?k = "N - length MULTIPART_END - length ?s"
  have tp: "bh_transfered_size p = tp" "tp < length (part_bytes p)"
    using p by (auto simp: memory_part_def part_bytes_def)
  have rest: "part_rest p = map Some ?s @ ?d"
    by (simp add: part_rest_start tp)
  have N_end: "length MULTIPART_END \<le> N" "N \<le> n"
    using N room multipart_text_end(1) [of ps] by (auto simp: room_for_def)
  have k: "0 < ?k" "?k \<le> n - length ?s"
    using N room multipart_text_end(1) [of ps] tp(2) by (auto simp: room_for_def rest)
  obtain p' w' where step: "belle_sip_body_handler_send_chunk p (n - length ?s) ?k w
      = Some (p', take ?k ?d, if length (part_bytes p) - tp \<le> ?k then chunk_stop else chunk_continue, w')"
      "part_bytes p' = part_bytes p" "?k < length (part_bytes p) - tp \<Longrightarrow> memory_part (tp + ?k) p'"
      "length (part_bytes p) - tp \<le> ?k \<Longrightarrow> bh_transfered_size p' = length (part_bytes p)
        \<and> bh_expected_size p' = length (part_bytes p) \<and> bh_impl p' = Memory_body (Some (part_bytes p))"
    using part_step [OF p k(2)] by blast
  have start: "(if bh_transfered_size p = 0 then part_start p else []) = ?s"
    by (simp add: part_start_now_def)
  have chunk: "chunk_send (Multipart_body (p # ps)) e t n N w =
      (let buf = map Some ?s @ take ?k ?d in
       if ?k < length (part_bytes p) - tp then Some (Multipart_body (p' # ps), buf, chunk_continue, w')
       else if ps \<noteq> [] then Some (Multipart_body ps, buf, chunk_continue, w')
       else if n < length buf + length MULTIPART_END then None
       else Some (Multipart_body (p' # ps), buf @ map Some MULTIPART_END, chunk_stop, w'))"
  proof -
    have sub: "size_sub N (length MULTIPART_END) = N - length MULTIPART_END"
      using N_end(1) by simp
    have guards: "\<not> (?s \<noteq> [] \<and> N - length MULTIPART_END < length ?s + 1)" "\<not> n < length ?s"
      using N_end(2) k(1) by auto
    show ?thesis
      unfolding chunk_send.simps Let_def start sub if_not_P [OF guards(1)] if_not_P [OF guards(2)] step(1) option.case prod.case
      by (auto split: if_splits)
  qed
  have nonempty: "map Some ?s @ take ?k ?d \<noteq> []"
    using k(1) tp(2) by simp
  consider (inside) "?k < length (part_bytes p) - tp" | (past) "length (part_bytes p) - tp \<le> ?k" "ps \<noteq> []"
    | (final) "length (part_bytes p) - tp \<le> ?k" "ps = []"
    by linarith
  then show ?thesis
  proof cases
    case inside
    then have p': "memory_part (tp + ?k) p'"
      by (rule step(3))
    then have "part_rest p' = drop (tp + ?k) (part_bytes p)"
      using k(1) step(2) by (auto simp: part_rest_def memory_part_def)
    also have "\<dots> = drop ?k ?d"
      by (simp add: add.commute)
    finally have "part_rest p = (map Some ?s @ take ?k ?d) @ part_rest p'"
      by (simp only: rest append.assoc append_take_drop_id)
    then show ?thesis
      using chunk inside nonempty p' k(1) by (intro exI [of _ p'] exI [of _ "map Some ?s @ take ?k ?d"] exI [of _ w']) (auto simp: Let_def)
  next
    case past
    then show ?thesis
      using chunk nonempty rest by (intro exI [of _ p'] exI [of _ "map Some ?s @ take ?k ?d"] exI [of _ w']) (auto simp: Let_def)
  next
    case final
    have "\<not> n < length (map Some ?s @ take ?k ?d) + length MULTIPART_END"
      using k N_end by auto
    then show ?thesis
      using chunk final rest step(4)
      by (intro exI [of _ p'] exI [of _ "(map Some ?s @ take ?k ?d) @ map Some MULTIPART_END"] exI [of _ w'])
        (auto simp: Let_def MULTIPART_END_def CRLF_text_def)
  qed
qed

lemma base_step:
  assumes "t < e" "chunk_send i e t n (min n (e - t)) w = Some (i', buf, ret, w')"
  shows "\<exists>w''. belle_sip_body_handler_send_chunk (Body_handler cb e t hs hb i) n n w
    = Some (Body_handler cb e (t + length buf) hs hb i', buf, if t + length buf = e then chunk_stop else ret, w'')"
  using assms by (auto simp: Let_def)

declare chunk_send.simps(5) [simp del] belle_sip_body_handler_send_chunk.simps [simp del]

lemma multipart_text_not_Nil [simp]: "multipart_text ps \<noteq> []"
  by (simp add: multipart_text_def MULTIPART_END_def CRLF_text_def)

definition sent_part :: "'u body_handler \<Rightarrow> bool" where
  "sent_part p \<longleftrightarrow> (\<exists>b. bh_impl p = Memory_body (Some b) \<and> b \<noteq> [] \<and> bh_expected_size p = length b \<and> bh_transfered_size p = length b)"

lemma multipart_sends_rest:
  "memory_part tp p \<Longrightarrow> \<forall>q\<in>set ps. memory_part 0 q \<Longrightarrow> room_for n (part_start_now p) \<Longrightarrow> \<forall>q\<in>set ps. room_for n (part_start q)
    \<Longrightarrow> e = t + length (part_rest p @ multipart_text ps) \<Longrightarrow> length (part_rest p @ multipart_text ps) \<le> k
    \<Longrightarrow> \<exists>p' w'. send_chunks_loop k (Body_handler cb e t hs hb (Multipart_body (p # ps))) n w
      = Some (Body_handler cb e e hs hb (Multipart_body [p']), part_rest p @ multipart_text ps, w') \<and> sent_part p'"
proof (induction k arbitrary: tp p ps t w)
  case 0
  then show ?case
    by simp
next
  case (Suc k)
  let ?R = "part_rest p @ multipart_text ps"
  let ?H = "\<lambda>t i. Body_handler cb e t hs hb i"
  have bytes: "part_bytes p \<noteq> []"
    using Suc.prems(1) by (auto simp: memory_part_def part_bytes_def)
  have t: "t < e" "e - t = length ?R"
    using Suc.prems(5) by auto
  have N: "min n (e - t) = min n (length ?R)"
    by (simp only: t(2))
  obtain p' buf w' where buf: "buf \<noteq> []" and step:
     "(\<exists>t'. chunk_send (Multipart_body (p # ps)) e t n (min n (e - t)) w = Some (Multipart_body (p' # ps), buf, chunk_continue, w')
          \<and> memory_part t' p' \<and> 0 < t' \<and> part_rest p = buf @ part_rest p')
     \<or> (chunk_send (Multipart_body (p # ps)) e t n (min n (e - t)) w = Some (Multipart_body ps, buf, chunk_continue, w') \<and> ps \<noteq> []
          \<and> part_rest p = buf)
     \<or> (chunk_send (Multipart_body (p # ps)) e t n (min n (e - t)) w = Some (Multipart_body [p'], buf, chunk_stop, w') \<and> ps = []
          \<and> part_rest p @ map Some MULTIPART_END = buf
          \<and> bh_transfered_size p' = length (part_bytes p) \<and> bh_expected_size p' = length (part_bytes p)
          \<and> bh_impl p' = Memory_body (Some (part_bytes p)))"
    using multipart_chunk [OF Suc.prems(1,3) N, of e t w] by (elim exE conjE) (rule that)
  from step show ?case
  proof (elim disjE exE conjE)
    fix t'
    assume a: "chunk_send (Multipart_body (p # ps)) e t n (min n (e - t)) w = Some (Multipart_body (p' # ps), buf, chunk_continue, w')"
      "memory_part t' p'" "0 < t'" "part_rest p = buf @ part_rest p'"
    obtain w1 where one: "belle_sip_body_handler_send_chunk (?H t (Multipart_body (p # ps))) n n w
        = Some (?H (t + length buf) (Multipart_body (p' # ps)), buf, chunk_continue, w1)"
      using base_step [OF t(1) a(1), of cb hs hb] Suc.prems(5) a(4)
      by auto
    have "room_for n (part_start_now p')"
      using a(2,3) Suc.prems(3) by (auto simp: room_for_def part_start_now_def memory_part_def)
    then have "\<exists>p'' w''. send_chunks_loop k (?H (t + length buf) (Multipart_body (p' # ps))) n w1
        = Some (?H e (Multipart_body [p'']), part_rest p' @ multipart_text ps, w'') \<and> sent_part p''"
      using Suc.prems a buf by (intro Suc.IH [of t']) (auto simp: Suc_le_eq neq_Nil_conv)
    then show ?thesis
      using one a(4) by auto
  next
    assume a: "chunk_send (Multipart_body (p # ps)) e t n (min n (e - t)) w = Some (Multipart_body ps, buf, chunk_continue, w')"
      "ps \<noteq> []" "part_rest p = buf"
    obtain q qs where q: "ps = q # qs"
      using a(2) by (cases ps) auto
    have q0: "memory_part 0 q" "part_rest q = part_text q" "room_for n (part_start_now q)"
      using Suc.prems(2,4) q by (auto simp: memory_part_rest part_start_now_def room_for_def)
    obtain w1 where one: "belle_sip_body_handler_send_chunk (?H t (Multipart_body (p # ps))) n n w
        = Some (?H (t + length buf) (Multipart_body (q # qs)), buf, chunk_continue, w1)"
      using base_step [OF t(1) a(1), of cb hs hb] Suc.prems(5) a(3) q
      by auto
    have "\<exists>p'' w''. send_chunks_loop k (?H (t + length buf) (Multipart_body (q # qs))) n w1
        = Some (?H e (Multipart_body [p'']), part_rest q @ multipart_text qs, w'') \<and> sent_part p''"
      using Suc.prems a q q0 buf by (intro Suc.IH [of 0]) (auto simp: multipart_text_Cons Suc_le_eq neq_Nil_conv)
    then show ?thesis
      using one a(3) q q0(2) by (auto simp: multipart_text_Cons)
  next
    assume a: "chunk_send (Multipart_body (p # ps)) e t n (min n (e - t)) w = Some (Multipart_body [p'], buf, chunk_stop, w')" "ps = []"
      "part_rest p @ map Some MULTIPART_END = buf"
      "bh_transfered_size p' = length (part_bytes p)" "bh_expected_size p' = length (part_bytes p)"
      "bh_impl p' = Memory_body (Some (part_bytes p))"
    have len: "t + length buf = e" "buf = ?R"
      using Suc.prems(5) a(2,3) by (auto simp: multipart_text_end(2))
    obtain w1 where one: "belle_sip_body_handler_send_chunk (?H t (Multipart_body (p # ps))) n n w
        = Some (?H e (Multipart_body [p']), buf, chunk_stop, w1)"
      using base_step [OF t(1) a(1), of cb hs hb] len(1) by auto
    have "sent_part p'"
      using a(4-6) bytes by (auto simp: sent_part_def)
    then show ?thesis
      using one len(2) by auto
  qed
qed

text \<open>The handler sent again: the list of its parts is at the last one, which was transferred.\<close>

lemma sent_part_again:
  assumes "sent_part p" "n \<le> room"
  shows "\<exists>p' w'. belle_sip_body_handler_send_chunk p room n w = Some (p', [], chunk_stop, w')"
proof -
  obtain b where b: "bh_impl p = Memory_body (Some b)" "bh_expected_size p = length b" "bh_transfered_size p = length b"
    using assms(1) by (auto simp: sent_part_def)
  then have p: "p = Body_handler (bh_progress_cb p) (length b) (length b) (bh_headers p) (bh_headerStringBuffer p) (Memory_body (Some b))"
    by (cases p) simp
  show ?thesis
    using memory_step [OF order.refl [of "length b"] assms(2), of "bh_progress_cb p" "bh_headers p" "bh_headerStringBuffer p" w]
    unfolding p [symmetric] by auto
qed

lemma multipart_again:
  assumes "sent_part p" "length MULTIPART_END \<le> n" "length MULTIPART_END \<le> e"
  shows "\<exists>h' w'. send_chunks_loop (Suc k) (Body_handler cb e 0 hs hb (Multipart_body [p])) n w
    = Some (h', map Some MULTIPART_END, w')"
proof -
  have "bh_transfered_size p \<noteq> 0"
    using assms(1) by (auto simp: sent_part_def)
  moreover obtain p' w' where "belle_sip_body_handler_send_chunk p n (min n e - length MULTIPART_END) w = Some (p', [], chunk_stop, w')"
    using sent_part_again [OF assms(1), of "min n e - length MULTIPART_END" n w] by fastforce
  ultimately have chunk: "chunk_send (Multipart_body [p]) e 0 n (min n (e - 0)) w
      = Some (Multipart_body [p'], map Some MULTIPART_END, chunk_stop, w')"
    using assms(2,3) by (simp add: chunk_send.simps(5))
  have "0 < e"
    using assms(3) by (auto simp: MULTIPART_END_def CRLF_text_def)
  from base_step [OF this chunk, of cb hs hb] show ?thesis
    by auto
qed

section \<open>Multipart handlers as they are made\<close>

fun add_parts :: "'u body_handler \<Rightarrow> 'u body_handler list \<Rightarrow> 'u body_handler option" where
  "add_parts h [] = Some h"
| "add_parts h (p # ps) = Option.bind (belle_sip_multipart_body_handler_add_part h p) (\<lambda>h. add_parts h ps)"

definition multipart_of :: "'u progress_callback option \<Rightarrow> 'u body_handler list \<Rightarrow> 'u body_handler option" where
  "multipart_of cb ps = Option.bind (belle_sip_multipart_body_handler_new cb None) (\<lambda>h. add_parts h ps)"

text \<open>A part to be added: in memory, not empty, not sent, its headers not written out.\<close>

definition new_part :: "'u body_handler \<Rightarrow> bool" where
  "new_part p \<longleftrightarrow> memory_part 0 p \<and> bh_headerStringBuffer p = None"

lemma with_header_buffer_part:
  assumes "new_part p"
  shows "memory_part 0 (with_header_buffer p)"
    and "length (part_text (with_header_buffer p)) = bh_expected_size p + length MULTIPART_SEPARATOR
      + (if bh_headers p = [] then 0 else length (part_header_text (bh_headers p)))"
  using assms by (cases p; auto simp: new_part_def memory_part_def part_text_def part_start_def part_bytes_def)+

lemma add_parts_size:
  "list_all new_part ps \<Longrightarrow> add_parts (Body_handler cb e t hs hb (Multipart_body qs)) ps
    = Some (Body_handler cb (e + length (concat (map part_text (map with_header_buffer ps)))) t hs hb
        (Multipart_body (qs @ map with_header_buffer ps)))"
  by (induction ps arbitrary: e qs) (auto simp: Let_def with_header_buffer_part(2))

lemma multipart_of_parts:
  "list_all new_part ps \<Longrightarrow> multipart_of cb ps = Some (Body_handler cb (length (multipart_text (map with_header_buffer ps))) 0 [] None
    (Multipart_body (map with_header_buffer ps)))"
  by (simp add: multipart_of_def belle_sip_multipart_body_handler_new_def belle_sip_body_handler_init_def add_parts_size
      multipart_text_def add.commute)

lemma multipart_first_send:
  assumes "list_all new_part ps" "ps \<noteq> []" "\<forall>p\<in>set ps. room_for n (part_start (with_header_buffer p))"
    "multipart_of cb ps = Some h" "bh_expected_size h \<le> k"
  shows "\<exists>p' w'. send_chunks k h n w
    = Some (Body_handler cb (bh_expected_size h) (bh_expected_size h) [] None (Multipart_body [p']),
        multipart_text (map with_header_buffer ps), w') \<and> sent_part p' \<and> bh_expected_size h = length (multipart_text (map with_header_buffer ps))"
proof -
  let ?ps = "map with_header_buffer ps" and ?e = "length (multipart_text (map with_header_buffer ps))"
  obtain p qs where ps: "?ps = p # qs"
    using assms(2) by (cases ps) auto
  have h: "h = Body_handler cb ?e 0 [] None (Multipart_body ?ps)"
    using assms(1,4) by (simp add: multipart_of_parts)
  have parts: "\<forall>q\<in>set (p # qs). memory_part 0 q \<and> room_for n (part_start q)"
    using assms(1,3) unfolding ps [symmetric] by (auto simp: list_all_iff with_header_buffer_part(1))
  then have rest: "part_rest p @ multipart_text qs = multipart_text ?ps"
    by (simp add: ps multipart_text_Cons memory_part_rest)
  have "room_for n (part_start_now p)"
    using parts by (auto simp: part_start_now_def room_for_def)
  then have "\<exists>p' w'. send_chunks_loop k (Body_handler cb ?e 0 [] None (Multipart_body (p # qs))) n w
      = Some (Body_handler cb ?e ?e [] None (Multipart_body [p']), part_rest p @ multipart_text qs, w') \<and> sent_part p'"
    using parts assms(5) h rest by (intro multipart_sends_rest [of 0]) auto
  then show ?thesis
    using h rest ps by (auto simp: send_chunks_def)
qed

text \<open>C27. A multipart handler made of parts in memory sends, in chunks of any size that has room for the start of a part and for
  the end, each part after its separator and headers, then the end: exactly the bytes its size, which is
  the Content-Length, announces.\<close>

theorem multipart_body_sent:
  assumes "list_all new_part ps" "ps \<noteq> []" "\<forall>p\<in>set ps. room_for n (part_start (with_header_buffer p))"
    "multipart_of cb ps = Some h" "bh_expected_size h \<le> k"
  shows "\<exists>h' w'. send_chunks k h n w = Some (h', multipart_text (map with_header_buffer ps), w')
    \<and> bh_expected_size h = length (multipart_text (map with_header_buffer ps))"
  using multipart_first_send [OF assms] by blast

definition example_parts :: "unit body_handler list" where
  "example_parts = map (\<lambda>s. belle_sip_memory_body_handler_new_copy_from_buffer s None) [''hello'', ''x'']"

definition example_world :: "unit body_world" where
  "example_world = \<lparr>bw_files = (\<lambda>_. None), bw_writable = (\<lambda>_. True), bw_app = ()\<rparr>"

lemma multipart_lengths: "length MULTIPART_SEPARATOR = 60" "length MULTIPART_END = 64" "MULTIPART_SEPARATOR \<noteq> []"
  by code_simp+

lemma example_parts_new:
  "list_all new_part example_parts" "example_parts \<noteq> []" "\<forall>p\<in>set example_parts. room_for 150 (part_start (with_header_buffer p))"
  by (auto simp: example_parts_def belle_sip_memory_body_handler_new_copy_from_buffer_def belle_sip_body_handler_init_def
      new_part_def memory_part_def room_for_def part_start_def multipart_lengths)

lemma example_parts_handler:
  "\<exists>h. multipart_of None example_parts = Some h \<and> bh_expected_size h \<le> 1000"
  using multipart_of_parts [OF example_parts_new(1), of None]
  by (auto simp: multipart_text_def part_text_def part_bytes_def part_start_def multipart_lengths example_parts_def
      belle_sip_memory_body_handler_new_copy_from_buffer_def belle_sip_body_handler_init_def)

lemma multipart_body_sent_witness:
  "\<exists>h h' w'. multipart_of None example_parts = Some h
    \<and> send_chunks 1000 h 150 example_world = Some (h', multipart_text (map with_header_buffer example_parts), w')"
  using example_parts_handler multipart_body_sent [OF example_parts_new, where cb = None and w = example_world] by blast

text \<open>A multipart handler is sent once: the same message sent again, as a retransmission does, has the end as its whole body,
  although the size it announces is the one of all its parts.\<close>

lemma multipart_sent_once:
  assumes "list_all new_part ps" "ps \<noteq> []" "\<forall>p\<in>set ps. room_for n (part_start (with_header_buffer p))"
    "multipart_of cb ps = Some h" "bh_expected_size h \<le> k" "send_chunks k h n w = Some (h', sent, w')"
  shows "\<exists>h'' w''. send_chunks k h' n w' = Some (h'', map Some MULTIPART_END, w'')
    \<and> bh_expected_size h' = length sent \<and> length MULTIPART_END < length sent"
proof -
  obtain p' where first: "h' = Body_handler cb (bh_expected_size h) (bh_expected_size h) [] None (Multipart_body [p'])"
      "sent = multipart_text (map with_header_buffer ps)" "sent_part p'" "bh_expected_size h = length sent"
    using multipart_first_send [OF assms(1-5), of w] assms(6) by auto
  obtain p qs where p: "ps = p # qs"
    using assms(2) by (cases ps) auto
  then have longer: "length MULTIPART_END < length sent"
    using part_start_not_Nil [of "with_header_buffer p"] by (auto simp: first(2) multipart_text_def part_text_def)
  then obtain k' where k: "k = Suc k'"
    using assms(5) first(4) by (cases k) auto
  have "length MULTIPART_END \<le> n"
    using assms(3) p by (auto simp: room_for_def)
  then have "\<exists>h'' w''. send_chunks_loop k (Body_handler cb (bh_expected_size h) 0 [] None (Multipart_body [p'])) n w'
      = Some (h'', map Some MULTIPART_END, w'')"
    unfolding k using first(3,4) longer by (intro multipart_again) auto
  then show ?thesis
    using first longer by (auto simp: send_chunks_def)
qed

lemma multipart_sent_once_witness:
  "\<exists>h h' sent w' h'' w''. multipart_of None example_parts = Some h \<and> send_chunks 1000 h 150 example_world = Some (h', sent, w')
    \<and> send_chunks 1000 h' 150 w' = Some (h'', map Some MULTIPART_END, w'') \<and> length MULTIPART_END < length sent"
proof -
  obtain h where h: "multipart_of None example_parts = Some h" "bh_expected_size h \<le> 1000"
    using example_parts_handler by blast
  then obtain h' w' where sent: "send_chunks 1000 h 150 example_world = Some (h', multipart_text (map with_header_buffer example_parts), w')"
    using multipart_first_send [OF example_parts_new h] by blast
  from multipart_sent_once [OF example_parts_new h sent] h(1) sent show ?thesis
    by blast
qed

section \<open>Other defects\<close>

text \<open>The clone of a multipart handler, as a request answered by a challenge makes of its body, has no part: sending it crashes.\<close>

lemma multipart_clone_crashes:
  "bh_impl h = Multipart_body ps \<Longrightarrow> \<exists>c. belle_sip_body_handler_clone h = Some c \<and> send_chunks k c n w = None"
  by (cases h; cases k) (auto simp: send_chunks_def belle_sip_body_handler_send_chunk.simps Let_def)

text \<open>When the file of a body is gone, bytes that were never written are sent in its place.\<close>

lemma missing_file_sends_unwritten:
  assumes "bw_files w f = Some (c # s)" "bw_files w' f = None" "0 < n"
  shows "\<exists>h' w''. send_chunks 1 (belle_sip_file_body_handler_new f cb w) n w'
    = Some (h', unwritten (min n (length (c # s))), w'')"
  using assms by (simp add: send_chunks_def belle_sip_file_body_handler_new_def belle_sip_body_handler_init_def
      belle_sip_body_handler_send_chunk.simps belle_sip_file_body_handler_send_chunk_def Let_def)

text \<open>A last part without content does not fit, and its place is sent unwritten.\<close>

lemma empty_last_part:
  "map_option (\<lambda>(h, sent, w). sent) (Option.bind (multipart_of None [belle_sip_memory_body_handler_new_copy_from_buffer [] None])
    (\<lambda>h. send_chunks 1 h 1000 example_world)) = Some (unwritten (length MULTIPART_SEPARATOR))"
  by (simp add: multipart_of_def belle_sip_multipart_body_handler_new_def belle_sip_memory_body_handler_new_copy_from_buffer_def
      belle_sip_body_handler_init_def send_chunks_def belle_sip_body_handler_send_chunk.simps chunk_send.simps(5) Let_def
      part_start_def multipart_lengths unwritten_def)

end
