(* ===== verification/Resolver.thy ===== *)
theory Resolver
  imports Fifo
begin

text \<open>
  The resolver (\<^verbatim>\<open>src/belle_sip_resolver.c\<close>): the order in which the servers of an SRV answer are tried, the
  answer to one query, and the contexts that wait for several queries, A and AAAA (dual) or those of all servers of an SRV
  answer (combined). The DNS library under \<^verbatim>\<open>src/dns.c\<close> is a parameter: the state of a query and the records
  of its answer. Addresses are values of a type \<^typ>\<open>'a\<close>, and a list of \<^verbatim>\<open>struct addrinfo\<close> is a list. The build
  without \<^verbatim>\<open>USE_GETADDRINFO_FALLBACK\<close> is modelled.
\<close>

section \<open>Servers of an SRV answer\<close>

record dns_srv =
  sv_priority :: "16 word"
  sv_weight :: "16 word"
  sv_port :: "16 word"
  sv_target :: string

definition srv_compare_prio :: "dns_srv \<Rightarrow> dns_srv \<Rightarrow> int" where
  "srv_compare_prio srv1 srv2 =
     (if sv_priority srv1 < sv_priority srv2 then - 1 else if sv_priority srv1 = sv_priority srv2 then 0 else 1)"

definition srv_sort_weight :: "dns_srv \<Rightarrow> dns_srv \<Rightarrow> int" where
  "srv_sort_weight srv1 srv2 = (if sv_weight srv1 = 0 then - 1 else 1)"

text \<open>The cumulative weights, in the order of the list.\<close>

fun cumulative_weights :: "nat \<Rightarrow> dns_srv list \<Rightarrow> (dns_srv \<times> nat) list" where
  "cumulative_weights acc [] = []"
| "cumulative_weights acc (srv # l) =
     (srv, acc + unat (sv_weight srv)) # cumulative_weights (acc + unat (sv_weight srv)) l"

definition weight_sum :: "dns_srv list \<Rightarrow> nat" where
  "weight_sum l = sum_list (map (\<lambda>srv. unat (sv_weight srv)) l)"

text \<open>The generator is read only when there are weights. An empty list is a crash.\<close>

definition srv_elect_one :: "(nat \<Rightarrow> 32 word) \<Rightarrow> nat \<Rightarrow> dns_srv list \<Rightarrow> (dns_srv \<times> nat) option" where
  "srv_elect_one rnd pos l =
     (case l of [] \<Rightarrow> None
      | srv # _ \<Rightarrow>
          if weight_sum l = 0 then Some (srv, pos)
          else let rand_number = unat (rnd pos) mod weight_sum l in
            Some (case find (\<lambda>(s, c). c \<le> rand_number) (cumulative_weights 0 l) of
                Some (s, c) \<Rightarrow> s
              | None \<Rightarrow> srv, Suc pos))"

fun srv_elect :: "nat \<Rightarrow> (nat \<Rightarrow> 32 word) \<Rightarrow> nat \<Rightarrow> dns_srv list \<Rightarrow> (dns_srv list \<times> nat) option" where
  "srv_elect k rnd pos [] = Some ([], pos)"
| "srv_elect 0 rnd pos (srv # l) = None"
| "srv_elect (Suc k) rnd pos (srv # l) = do {
     (entry, pos) \<leftarrow> srv_elect_one rnd pos (srv # l);
     (result, pos) \<leftarrow> srv_elect k rnd pos (remove1 entry (srv # l));
     Some (entry # result, pos) }"

text \<open>The loop over the servers, with the one before, those of its priority when there are several, and the result.\<close>

fun select_loop :: "(nat \<Rightarrow> 32 word) \<Rightarrow> nat \<Rightarrow> dns_srv option \<Rightarrow> dns_srv list \<Rightarrow> dns_srv list \<Rightarrow> dns_srv list
    \<Rightarrow> (dns_srv list \<times> nat) option" where
  "select_loop rnd pos prev_srv same_prio result [] =
     (if same_prio = [] then Some (result, pos)
      else do { (l, pos) \<leftarrow> srv_elect (length same_prio) rnd pos same_prio; Some (result @ l, pos) })"
| "select_loop rnd pos prev_srv same_prio result (srv # elem) =
     (case prev_srv of
        None \<Rightarrow> select_loop rnd pos (Some srv) same_prio result elem
      | Some prev \<Rightarrow>
          if sv_priority prev = sv_priority srv
          then select_loop rnd pos (Some srv)
                 (insert_pos srv_sort_weight srv (if same_prio = [] then [prev] else same_prio)) result elem
          else if same_prio \<noteq> []
          then do {
            (l, pos) \<leftarrow> srv_elect (length same_prio) rnd pos same_prio;
            select_loop rnd pos (Some srv) [] (result @ l) elem }
          else select_loop rnd pos (Some srv) [] result elem)"

definition srv_select_by_weight :: "(nat \<Rightarrow> 32 word) \<Rightarrow> nat \<Rightarrow> dns_srv list \<Rightarrow> (dns_srv list \<times> nat) option" where
  "srv_select_by_weight rnd pos srv_list = do {
     (result, pos) \<leftarrow> select_loop rnd pos None [] [] srv_list;
     Some (if result \<noteq> [] then result else srv_list, pos) }"

definition srv_prefix_from_transport :: "string \<Rightarrow> string" where
  "srv_prefix_from_transport transport =
     (if strcaseeq transport ''udp'' then ''_sip._udp.'' else if strcaseeq transport ''tcp'' then ''_sip._tcp.''
      else if strcaseeq transport ''tls'' then ''_sips._tcp.'' else ''_sip._udp.'')"

section \<open>One query\<close>

datatype dns_type = DNS_T_A | DNS_T_AAAA | DNS_T_SRV

text \<open>What \<open>dns_res_check\<close> tells of a query; a record of its answer, of which an unreadable one ends the reading.\<close>

datatype dns_check = dns_ready | dns_again | dns_failed

datatype 'a dns_record = Record_A 'a | Record_AAAA 'a | Record_SRV dns_srv | Record_other | Record_unreadable

record 'a simple_resolver =
  sr_type :: dns_type
  sr_ai_list :: "'a list"
  sr_srv_list :: "dns_srv list"
  sr_done :: bool
  sr_start_time :: "64 word"

text \<open>What the caller of the query is told.\<close>

datatype 'a query_answer = Addresses "'a list" | Servers "dns_srv list"

definition notify_results :: "(nat \<Rightarrow> 32 word) \<Rightarrow> nat \<Rightarrow> 'a simple_resolver \<Rightarrow> ('a simple_resolver \<times> 'a query_answer \<times> nat) option" where
  "notify_results rnd pos ctx =
     (let ctx = ctx\<lparr>sr_done := True\<rparr> in
      if sr_type ctx = DNS_T_SRV
      then do {
        (l, pos) \<leftarrow> srv_select_by_weight rnd pos (sr_srv_list ctx);
        Some (ctx\<lparr>sr_srv_list := l\<rparr>, Servers l, pos) }
      else Some (ctx, Addresses (sr_ai_list ctx), pos))"

text \<open>\<open>append_dns_result\<close>: the address in the form asked for, or none when it cannot be made.\<close>

fun read_records :: "('a \<Rightarrow> 'a list) \<Rightarrow> 'a dns_record list \<Rightarrow> 'a simple_resolver \<Rightarrow> 'a simple_resolver" where
  "read_records addrinfo [] ctx = ctx"
| "read_records addrinfo (rr # rrs) ctx =
     (case rr of
        Record_unreadable \<Rightarrow> ctx
      | Record_AAAA a \<Rightarrow> read_records addrinfo rrs
          (if sr_type ctx = DNS_T_AAAA then ctx\<lparr>sr_ai_list := sr_ai_list ctx @ addrinfo a\<rparr> else ctx)
      | Record_A a \<Rightarrow> read_records addrinfo rrs
          (if sr_type ctx = DNS_T_A then ctx\<lparr>sr_ai_list := sr_ai_list ctx @ addrinfo a\<rparr> else ctx)
      | Record_SRV srv \<Rightarrow> read_records addrinfo rrs
          (if sr_type ctx = DNS_T_SRV then ctx\<lparr>sr_srv_list := insert_pos srv_compare_prio srv (sr_srv_list ctx)\<rparr> else ctx)
      | Record_other \<Rightarrow> read_records addrinfo rrs ctx)"

text \<open>
  An event of the query: whether it timed out is told by the event and the time since its start (a timeout of 0 simulates
  one at the first event). The answer is None while the query goes on.
\<close>

definition resolver_process_data ::
  "(nat \<Rightarrow> 32 word) \<Rightarrow> ('a \<Rightarrow> 'a list) \<Rightarrow> int \<Rightarrow> bool \<Rightarrow> bool \<Rightarrow> 64 word \<Rightarrow> dns_check \<Rightarrow> 'a dns_record list
    \<Rightarrow> nat \<Rightarrow> 'a simple_resolver \<Rightarrow> ('a simple_resolver \<times> 'a query_answer option \<times> nat) option" where
  "resolver_process_data rnd addrinfo timeout has_event timeout_event now check records pos ctx =
     (if has_event \<and> timeout = 0 \<or> timeout_event \<and> uint (now - sr_start_time ctx) \<ge> timeout mod 2 ^ 64
      then map_option (\<lambda>(ctx, a, pos). (ctx, Some a, pos)) (notify_results rnd pos ctx)
      else case check of
          dns_ready \<Rightarrow> map_option (\<lambda>(ctx, a, pos). (ctx, Some a, pos)) (notify_results rnd pos (read_records addrinfo records ctx))
        | dns_failed \<Rightarrow> map_option (\<lambda>(ctx, a, pos). (ctx, Some a, pos)) (notify_results rnd pos ctx)
        | dns_again \<Rightarrow> Some (ctx, None, pos))"

section \<open>The A and AAAA queries of a name\<close>

record 'a dual_resolver =
  du_a_results :: "'a list"
  du_aaaa_results :: "'a list"
  du_a_done :: bool
  du_aaaa_done :: bool
  du_done :: bool

definition dual_new :: "'a dual_resolver" where
  "dual_new = \<lparr>du_a_results = [], du_aaaa_results = [], du_a_done = False, du_aaaa_done = False, du_done = False\<rparr>"

definition notify_dual_results :: "'a dual_resolver \<Rightarrow> 'a dual_resolver \<times> 'a list option" where
  "notify_dual_results ctx =
     (if du_a_done ctx \<and> du_aaaa_done ctx
      then (ctx\<lparr>du_a_results := [], du_aaaa_results := [], du_done := True\<rparr>, Some (du_aaaa_results ctx @ du_a_results ctx))
      else (ctx, None))"

definition on_ipv4_results :: "'a list \<Rightarrow> 'a dual_resolver \<Rightarrow> 'a dual_resolver \<times> 'a list option" where
  "on_ipv4_results ai_list ctx = notify_dual_results (ctx\<lparr>du_a_done := True, du_a_results := ai_list\<rparr>)"

definition on_ipv6_results :: "'a list \<Rightarrow> 'a dual_resolver \<Rightarrow> 'a dual_resolver \<times> 'a list option" where
  "on_ipv6_results ai_list ctx = notify_dual_results (ctx\<lparr>du_aaaa_done := True, du_aaaa_results := ai_list\<rparr>)"

text \<open>
  What the resolution of a name starts: nothing when it is an address, both queries or the A query alone. Other families
  are refused, with no word to the caller.
\<close>

datatype 'a resolve_start = Resolved "'a list" | Resolve_dual | Resolve_single dns_type | Resolve_nothing

definition AF_UNSPEC :: int where "AF_UNSPEC = 0"
definition AF_INET :: int where "AF_INET = 2"
definition AF_INET6 :: int where "AF_INET6 = 10"

definition single_type :: "int \<Rightarrow> dns_type" where
  "single_type family = (if family = AF_INET6 then DNS_T_AAAA else DNS_T_A)"

definition belle_sip_stack_resolve_a :: "'a list option \<Rightarrow> int \<Rightarrow> 'a resolve_start" where
  "belle_sip_stack_resolve_a res family =
     (case res of
        Some l \<Rightarrow> Resolved l
      | None \<Rightarrow>
          if family = AF_UNSPEC \<or> family = AF_INET6 then Resolve_dual
          else if family = AF_INET then Resolve_single (single_type AF_INET)
          else Resolve_nothing)"

section \<open>The addresses of the servers of an SRV answer\<close>

text \<open>A server with the answer of its query; the servers are in the order in which they are to be tried.\<close>

record 'a srv_query =
  sq_srv :: dns_srv
  sq_done :: bool
  sq_results :: "'a list"

record 'a combined_resolver =
  co_srv_results :: "'a srv_query list"
  co_done :: bool

text \<open>What there is to do when the SRV answer came: a query by server, or one for the name itself.\<close>

datatype 'a srv_step = Query_servers "'a combined_resolver" | Query_name

definition process_srv_results :: "dns_srv list \<Rightarrow> 'a srv_step" where
  "process_srv_results srv_results =
     (if srv_results = [] then Query_name
      else Query_servers \<lparr>co_srv_results = map (\<lambda>s. \<lparr>sq_srv = s, sq_done = False, sq_results = []\<rparr>) srv_results, co_done = False\<rparr>)"

definition combined_resolver_context_check_finished :: "'a combined_resolver \<Rightarrow> 'a combined_resolver \<times> 'a list option" where
  "combined_resolver_context_check_finished obj =
     (if list_all sq_done (co_srv_results obj)
      then (obj\<lparr>co_srv_results := [], co_done := True\<rparr>, Some (concat (map sq_results (co_srv_results obj))))
      else (obj, None))"

text \<open>The answer of the query of the server at place \<open>i\<close>.\<close>

definition process_a_from_srv :: "nat \<Rightarrow> 'a list \<Rightarrow> 'a combined_resolver \<Rightarrow> 'a combined_resolver \<times> 'a list option" where
  "process_a_from_srv i ai_list obj =
     combined_resolver_context_check_finished
       (obj\<lparr>co_srv_results := (co_srv_results obj)[i := (co_srv_results obj ! i)\<lparr>sq_results := ai_list, sq_done := True\<rparr>]\<rparr>)"


section \<open>The order of the servers\<close>

lemma cumulative_at_least: "(s, c) \<in> set (cumulative_weights acc l) \<Longrightarrow> acc \<le> c"
proof (induction l arbitrary: acc)
  case Nil
  then show ?case by simp
next
  case (Cons a l)
  from Cons.prems consider "c = acc + unat (sv_weight a)" | "(s, c) \<in> set (cumulative_weights (acc + unat (sv_weight a)) l)"
    by auto
  then show ?case
    by cases (use Cons.IH in fastforce)+
qed

text \<open>A weight above the number is never reached by the test of the code, a first one below is taken at once.\<close>

lemma srv_elect_one_first: "\<exists>pos'. srv_elect_one rnd pos (srv # l) = Some (srv, pos')"
proof -
  have first: "(case find (\<lambda>(s, c). c \<le> n) (cumulative_weights 0 (srv # l)) of Some (s, c) \<Rightarrow> s | None \<Rightarrow> srv) = srv" for n
  proof (cases "unat (sv_weight srv) \<le> n")
    case False
    have "find (\<lambda>(s, c). c \<le> n) (cumulative_weights (unat (sv_weight srv)) l) = None"
      unfolding find_None_iff using cumulative_at_least False by fastforce
    with False show ?thesis by simp
  qed simp
  show ?thesis
    unfolding srv_elect_one_def Let_def list.case first by simp
qed

lemma srv_elect_same: "\<exists>pos'. srv_elect (length l) rnd pos l = Some (l, pos')"
proof (induction l arbitrary: pos)
  case (Cons a l)
  obtain p where p: "srv_elect_one rnd pos (a # l) = Some (a, p)" using srv_elect_one_first by blast
  obtain q where "srv_elect (length l) rnd p l = Some (l, q)" using Cons.IH by blast
  with p show ?case by simp
qed simp

lemma insert_pos_not_Nil [simp]: "insert_pos cmp d xs \<noteq> []"
  unfolding insert_pos_def by simp

text \<open>Whatever the numbers drawn, the loop goes on with the same lists.\<close>

fun select_plain :: "dns_srv option \<Rightarrow> dns_srv list \<Rightarrow> dns_srv list \<Rightarrow> dns_srv list \<Rightarrow> dns_srv list" where
  "select_plain prev_srv same_prio result [] = result @ same_prio"
| "select_plain prev_srv same_prio result (srv # elem) =
     (case prev_srv of
        None \<Rightarrow> select_plain (Some srv) same_prio result elem
      | Some prev \<Rightarrow>
          if sv_priority prev = sv_priority srv
          then select_plain (Some srv) (insert_pos srv_sort_weight srv (if same_prio = [] then [prev] else same_prio)) result elem
          else select_plain (Some srv) [] (result @ same_prio) elem)"

lemma select_loop_plain:
  "\<exists>pos'. select_loop rnd pos prev same result l = Some (select_plain prev same result l, pos')"
proof (induction prev same result l arbitrary: pos rule: select_plain.induct)
  case (1 prev same result)
  show ?case using srv_elect_same[of same rnd pos] by auto
next
  case (2 prev same result srv elem)
  show ?case
  proof (cases prev)
    case None
    then show ?thesis using "2.IH"(1)[OF None] by simp
  next
    case (Some p)
    show ?thesis
    proof (cases "sv_priority p = sv_priority srv")
      case True
      then show ?thesis using "2.IH"(2)[OF Some True] Some by simp
    next
      case False
      obtain q where q: "srv_elect (length same) rnd pos same = Some (same, q)" using srv_elect_same by blast
      show ?thesis using "2.IH"(3)[OF Some False] Some False q by (cases "same = []") auto
    qed
  qed
qed

definition servers_in_order :: "dns_srv list \<Rightarrow> dns_srv list" where
  "servers_in_order l = (let r = select_plain None [] [] l in if r \<noteq> [] then r else l)"

lemma srv_select_plain: "\<exists>pos'. srv_select_by_weight rnd pos l = Some (servers_in_order l, pos')"
  using select_loop_plain[of rnd pos None "[]" "[]" l]
  unfolding srv_select_by_weight_def servers_in_order_def Let_def by auto

text \<open>The servers that share their priority with another one of the list.\<close>

definition shares_priority :: "dns_srv list \<Rightarrow> dns_srv \<Rightarrow> bool" where
  "shares_priority l srv = (2 \<le> length (filter (\<lambda>s. sv_priority s = sv_priority srv) l))"

definition by_priority :: "dns_srv list \<Rightarrow> bool" where
  "by_priority l = sorted_wrt (\<lambda>s t. sv_priority s \<le> sv_priority t) l"


lemma shares_priority_append [simp]:
  "sv_priority s \<noteq> sv_priority srv \<Longrightarrow> shares_priority (xs @ [srv]) s = shares_priority xs s"
  unfolding shares_priority_def by auto

text \<open>The servers whose priority is shared: those of the current priority and those of the priorities before.\<close>

lemma shared_split:
  assumes "mset same = (if shares_priority xs prev then {#s \<in># mset xs. sv_priority s = sv_priority prev#} else {#})"
    and "mset result = {#s \<in># mset xs. sv_priority s \<noteq> sv_priority prev \<and> shares_priority xs s#}"
  shows "mset (result @ same) = {#s \<in># mset xs. shares_priority xs s#}"
proof -
  have eq: "sv_priority s = sv_priority prev \<and> shares_priority xs s
      \<longleftrightarrow> sv_priority s = sv_priority prev \<and> shares_priority xs prev" for s
    unfolding shares_priority_def by auto
  have "mset same = {#s \<in># mset xs. sv_priority s = sv_priority prev \<and> shares_priority xs s#}"
    unfolding assms(1) eq by simp
  with assms(2) show ?thesis by (auto simp: multiset_eq_iff)
qed

lemma same_priority_added:
  assumes "mset same = (if shares_priority xs prev then {#s \<in># mset xs. sv_priority s = sv_priority prev#} else {#})"
    and "prev \<in> set xs" "sv_priority srv = sv_priority prev"
  shows "mset (if same = [] then [prev] else same) = {#s \<in># mset xs. sv_priority s = sv_priority srv#}"
proof -
  let ?f = "filter (\<lambda>s. sv_priority s = sv_priority prev) xs"
  have prev: "prev \<in> set ?f" using assms(2) by simp
  show ?thesis
  proof (cases "shares_priority xs prev")
    case True
    then have "mset same = mset ?f" using assms(1) by simp
    with prev have "same \<noteq> []" by auto
    with \<open>mset same = mset ?f\<close> assms(3) show ?thesis by simp
  next
    case False
    then have "length ?f < 2" unfolding shares_priority_def by simp
    with prev have "?f = [prev]" by (cases ?f) auto
    then have "mset ?f = {#prev#}" by simp
    with False assms(1,3) show ?thesis by simp
  qed
qed

lemma select_plain_mset:
  assumes "by_priority (xs @ l)" "xs \<noteq> []" "prev = last xs"
    and "mset same = (if shares_priority xs prev then {#s \<in># mset xs. sv_priority s = sv_priority prev#} else {#})"
    and "mset result = {#s \<in># mset xs. sv_priority s \<noteq> sv_priority prev \<and> shares_priority xs s#}"
  shows "mset (select_plain (Some prev) same result l) = {#s \<in># mset (xs @ l). shares_priority (xs @ l) s#}"
  using assms
proof (induction l arbitrary: xs prev same result)
  case Nil
  then show ?case using shared_split[OF Nil.prems(4,5)] by simp
next
  case (Cons srv l)
  have prev: "prev \<in> set xs" using Cons.prems(2,3) by simp
  show ?case
  proof (cases "sv_priority prev = sv_priority srv")
    case True
    have "2 \<le> length (filter (\<lambda>s. sv_priority s = sv_priority srv) (xs @ [srv]))"
      using prev True by (auto simp: filter_empty_conv Suc_le_eq)
    then have shared: "shares_priority (xs @ [srv]) srv" unfolding shares_priority_def .
    let ?same = "insert_pos srv_sort_weight srv (if same = [] then [prev] else same)"
    have "mset (select_plain (Some srv) ?same result l)
        = {#s \<in># mset ((xs @ [srv]) @ l). shares_priority ((xs @ [srv]) @ l) s#}"
    proof (rule Cons.IH)
      show "mset ?same = (if shares_priority (xs @ [srv]) srv
          then {#s \<in># mset (xs @ [srv]). sv_priority s = sv_priority srv#} else {#})"
        using same_priority_added[OF Cons.prems(4) prev True[symmetric]] shared by (simp add: mset_insert_pos)
      show "mset result = {#s \<in># mset (xs @ [srv]). sv_priority s \<noteq> sv_priority srv \<and> shares_priority (xs @ [srv]) s#}"
        using Cons.prems(5) True by (auto intro!: filter_mset_cong)
    qed (use Cons.prems(1) in simp_all)
    then show ?thesis using True by simp
  next
    case False
    have below: "sv_priority s \<noteq> sv_priority srv" if "s \<in> set xs" for s
    proof -
      have "sv_priority s \<le> sv_priority prev"
        using Cons.prems(1-3) that unfolding by_priority_def
        by (cases xs rule: rev_cases) (auto simp: sorted_wrt_append)
      moreover have "sv_priority prev \<le> sv_priority srv"
        using Cons.prems(1) prev unfolding by_priority_def by (auto simp: sorted_wrt_append)
      ultimately show ?thesis using False by auto
    qed
    then have alone: "\<not> shares_priority (xs @ [srv]) srv" unfolding shares_priority_def by (simp add: filter_False)
    have "mset (select_plain (Some srv) [] (result @ same) l)
        = {#s \<in># mset ((xs @ [srv]) @ l). shares_priority ((xs @ [srv]) @ l) s#}"
    proof (rule Cons.IH)
      show "mset (result @ same)
          = {#s \<in># mset (xs @ [srv]). sv_priority s \<noteq> sv_priority srv \<and> shares_priority (xs @ [srv]) s#}"
        unfolding shared_split[OF Cons.prems(4,5)] using below by (auto intro!: filter_mset_cong)
    qed (use Cons.prems(1) alone in simp_all)
    then show ?thesis using False by simp
  qed
qed

lemma servers_in_order_mset:
  assumes "by_priority l"
  shows "mset (servers_in_order l)
    = (if \<exists>s \<in> set l. shares_priority l s then {#s \<in># mset l. shares_priority l s#} else mset l)"
proof (cases l)
  case (Cons a l')
  have "mset (select_plain None [] [] l) = {#s \<in># mset l. shares_priority l s#}"
    using select_plain_mset[of "[a]" l' a "[]" "[]"] assms Cons by (auto simp: shares_priority_def)
  then show ?thesis
    unfolding servers_in_order_def Let_def
    by (auto simp: filter_mset_eq_conv filter_empty_conv simp flip: mset_filter)
qed (simp add: servers_in_order_def)


text \<open>C31. The servers of an SRV answer, in the order of their priorities: the result depends neither on the numbers drawn nor,
  but for the place of the weights of zero, on the weights. When two servers or more share a priority, the result holds
  exactly the servers that share theirs with another one: a server alone at its priority, like a backup, is lost.\<close>

theorem lone_servers_dropped:
  assumes "by_priority l"
  shows "\<exists>r. (\<forall>rnd pos. \<exists>pos'. srv_select_by_weight rnd pos l = Some (r, pos'))
    \<and> mset r = (if \<exists>s \<in> set l. shares_priority l s then {#s \<in># mset l. shares_priority l s#} else mset l)"
  using srv_select_plain servers_in_order_mset[OF assms] by blast

theorem lone_servers_dropped_witness:
  "let a = \<lparr>sv_priority = 10, sv_weight = 90, sv_port = 5060, sv_target = ''a''\<rparr>;
       b = \<lparr>sv_priority = 10, sv_weight = 10, sv_port = 5060, sv_target = ''b''\<rparr>;
       c = \<lparr>sv_priority = 20, sv_weight = 0, sv_port = 5060, sv_target = ''backup''\<rparr>
   in \<exists>r. (\<forall>rnd pos. \<exists>pos'. srv_select_by_weight rnd pos [a, b, c] = Some (r, pos')) \<and> mset r = {#a, b#}"
proof -
  let ?a = "\<lparr>sv_priority = 10, sv_weight = 90, sv_port = 5060, sv_target = ''a''\<rparr>"
  let ?b = "\<lparr>sv_priority = 10, sv_weight = 10, sv_port = 5060, sv_target = ''b''\<rparr>"
  let ?c = "\<lparr>sv_priority = 20, sv_weight = 0, sv_port = 5060, sv_target = ''backup''\<rparr>"
  have "by_priority [?a, ?b, ?c]" by (simp add: by_priority_def)
  from lone_servers_dropped[OF this] show ?thesis
    by (simp add: shares_priority_def Let_def)
qed

section \<open>The answers of several queries\<close>

text \<open>Both queries of a name are answered once; the caller is told at the second answer, the IPv6 addresses first.\<close>

lemma dual_answers_in_any_order:
  "(let (ctx, o1) = on_ipv4_results a dual_new; (ctx, o2) = on_ipv6_results b ctx in (o1, o2)) = (None, Some (b @ a))"
  "(let (ctx, o1) = on_ipv6_results b dual_new; (ctx, o2) = on_ipv4_results a ctx in (o1, o2)) = (None, Some (b @ a))"
  by (simp_all add: on_ipv4_results_def on_ipv6_results_def notify_dual_results_def dual_new_def)

text \<open>The queries of the servers at the places of a list are answered in turn, with what the caller is told at each.\<close>

fun answer_servers :: "(nat \<Rightarrow> 'a list) \<Rightarrow> nat list \<Rightarrow> 'a combined_resolver \<Rightarrow> 'a combined_resolver \<times> 'a list option list" where
  "answer_servers f [] c = (c, [])"
| "answer_servers f (i # ks) c =
     (let (c, told) = process_a_from_srv i (f i) c; (c, rest) = answer_servers f ks c in (c, told # rest))"

definition half_answered :: "(nat \<Rightarrow> 'a list) \<Rightarrow> nat set \<Rightarrow> dns_srv list \<Rightarrow> 'a combined_resolver" where
  "half_answered f D srvs =
     \<lparr>co_srv_results = map (\<lambda>i. if i \<in> D then \<lparr>sq_srv = srvs ! i, sq_done = True, sq_results = f i\<rparr>
                            else \<lparr>sq_srv = srvs ! i, sq_done = False, sq_results = []\<rparr>) [0..<length srvs],
      co_done = False\<rparr>"

lemma process_half_answered:
  assumes "i < length srvs"
  shows "process_a_from_srv i (f i) (half_answered f D srvs)
    = (if {0..<length srvs} \<subseteq> insert i D
       then (\<lparr>co_srv_results = [], co_done = True\<rparr>, Some (concat (map f [0..<length srvs])))
       else (half_answered f (insert i D) srvs, None))"
proof -
  have upd: "(co_srv_results (half_answered f D srvs))
        [i := (co_srv_results (half_answered f D srvs) ! i)\<lparr>sq_results := f i, sq_done := True\<rparr>]
      = co_srv_results (half_answered f (insert i D) srvs)"
    using assms by (auto simp: half_answered_def intro!: nth_equalityI simp: nth_list_update)
  have obj: "(half_answered f D srvs)\<lparr>co_srv_results := co_srv_results (half_answered f (insert i D) srvs)\<rparr>
      = half_answered f (insert i D) srvs"
    by (simp add: half_answered_def)
  have co_clear: "(half_answered f D' srvs)\<lparr>co_srv_results := [], co_done := True\<rparr> = \<lparr>co_srv_results = [], co_done = True\<rparr>" for D'
    by (simp add: half_answered_def)
  have "list_all sq_done (co_srv_results (half_answered f (insert i D) srvs)) \<longleftrightarrow> {0..<length srvs} \<subseteq> insert i D"
    unfolding list_all_length by (auto simp: half_answered_def)
  moreover have "map sq_results (co_srv_results (half_answered f D' srvs)) = map f [0..<length srvs]"
    if "{0..<length srvs} \<subseteq> D'" for D'
    using that by (auto simp: half_answered_def)
  ultimately show ?thesis
    unfolding process_a_from_srv_def upd obj combined_resolver_context_check_finished_def
    by (simp add: co_clear)
qed

lemma answer_servers_rest:
  assumes "distinct ks" "ks \<noteq> []" "set ks \<inter> D = {}" "set ks \<union> D = {0..<length srvs}"
  shows "answer_servers f ks (half_answered f D srvs)
    = (\<lparr>co_srv_results = [], co_done = True\<rparr>, replicate (length ks - 1) None @ [Some (concat (map f [0..<length srvs]))])"
  using assms
proof (induction ks arbitrary: D)
  case (Cons i ks)
  have i: "i < length srvs" using Cons.prems(4) by auto
  show ?case
  proof (cases "ks = []")
    case True
    then show ?thesis using process_half_answered[OF i, of f D] Cons.prems(4) by auto
  next
    case False
    then obtain j where "j \<in> set ks" by (cases ks) auto
    then have "\<not> {0..<length srvs} \<subseteq> insert i D" using Cons.prems(1,3,4) by auto
    moreover have "answer_servers f ks (half_answered f (insert i D) srvs)
        = (\<lparr>co_srv_results = [], co_done = True\<rparr>,
           replicate (length ks - 1) None @ [Some (concat (map f [0..<length srvs]))])"
      using Cons.prems False by (intro Cons.IH) auto
    moreover have "length ks = Suc (length ks - 1)" using False by (cases ks) auto
    ultimately show ?thesis using process_half_answered[OF i, of f D] by simp (metis replicate_Suc append_Cons)
  qed
qed simp

text \<open>C32. The queries started for the servers of an SRV answer may be answered in any order: nothing is told before the last
  answer, which gives the caller the addresses of all servers, in the order of the servers.\<close>

theorem all_servers_answered:
  assumes "process_srv_results srvs = Query_servers c" "mset ks = mset [0..<length srvs]"
  shows "answer_servers f ks c
    = (\<lparr>co_srv_results = [], co_done = True\<rparr>,
       replicate (length srvs - 1) None @ [Some (concat (map f [0..<length srvs]))])"
proof -
  have ne: "srvs \<noteq> []" and c: "c = half_answered f {} srvs"
    using assms(1) unfolding process_srv_results_def half_answered_def
    by (auto split: if_splits intro!: nth_equalityI)
  have "distinct ks" "set ks = {0..<length srvs}" "length ks = length srvs"
    using assms(2) by (metis distinct_upt mset_eq_imp_distinct_iff, metis mset_eq_setD set_upt, metis mset_eq_length length_upt diff_zero)
  moreover then have "ks \<noteq> []" using ne by auto
  ultimately show ?thesis using answer_servers_rest[of ks "{}" srvs f] c by simp
qed

theorem all_servers_answered_witness:
  "\<forall>s t. \<exists>c. process_srv_results [s, t] = Query_servers c
    \<and> snd (answer_servers (\<lambda>i. [i + 10]) [1, 0] c) = [None, Some [10, 11 :: nat]]"
proof (intro allI exI conjI)
  fix s t :: dns_srv
  let ?c = "\<lparr>co_srv_results = [\<lparr>sq_srv = s, sq_done = False, sq_results = []\<rparr>,
    \<lparr>sq_srv = t, sq_done = False, sq_results = []\<rparr>], co_done = False\<rparr> :: nat combined_resolver"
  show c: "process_srv_results [s, t] = Query_servers ?c" by (simp add: process_srv_results_def)
  show "snd (answer_servers (\<lambda>i. [i + 10]) [1, 0] ?c) = [None, Some [10, 11 :: nat]]"
    by (subst all_servers_answered[OF c]) (simp_all add: upt_rec)
qed

end
