(* ===== verification/ObjectProps.thy ===== *)
theory ObjectProps
  imports Objects
begin

text \<open>What the object system promises: casts, reference counts, the data store, and where it fails.\<close>

section \<open>Classes\<close>

lemma ancestors_self [simp]: "v \<in> set (ancestors v)"
  by (cases v) simp

lemma ancestors_not_Nil [simp]: "ancestors v \<noteq> []"
  by (cases v) simp

lemma has_type_ancestors: "has_type_from v t \<longleftrightarrow> t \<in> vp_id ` set (ancestors v)"
  by (induction v t rule: has_type_from.induct) (auto split: option.splits)

lemma ancestors_last_root: "vp_parent (last (ancestors v)) = None"
  by (induction v rule: ancestors.induct) (auto split: option.splits)

lemma common_floor:
  "last (ancestors v) = last (ancestors w) \<Longrightarrow> \<exists>c. find_common_floor v w = Some c
     \<and> c \<in> set (ancestors v) \<and> c \<in> set (ancestors w)
     \<and> (\<forall>d. d \<in> set (ancestors v) \<and> d \<in> set (ancestors w) \<longrightarrow> d \<in> set (ancestors c))"
proof (induction v w rule: find_common_floor.induct)
  case (1 i u f k p w)
  let ?v = "VPtr i u f k p"
  show ?case
  proof (cases "w \<in> set (ancestors ?v) \<or> ?v \<in> set (ancestors w)")
    case True
    then show ?thesis
      by auto
  next
    case False
    show ?thesis
    proof (cases p)
      case None
      then have "last (ancestors w) = ?v"
        using 1(2) by simp
      then show ?thesis
        using False last_in_set [of "ancestors w"] by auto
    next
      case (Some q)
      then have "last (ancestors q) = last (ancestors w)"
        using 1(2) by simp
      then obtain c where c: "find_common_floor q w = Some c" "c \<in> set (ancestors q)" "c \<in> set (ancestors w)"
          "\<forall>d. d \<in> set (ancestors q) \<and> d \<in> set (ancestors w) \<longrightarrow> d \<in> set (ancestors c)"
        using 1(1) [OF _ _ Some] False by auto
      then show ?thesis
        using Some False by auto
    qed
  qed
qed

text \<open>C22. Two classes with a common root have a nearest common ancestor, which \<open>find_common_floor\<close> finds: objects of both can
  be cast to it, and every other class that both descend from is above it.\<close>

theorem common_floor_nearest:
  assumes "last (ancestors v) = last (ancestors w)"
  shows "\<exists>c. find_common_floor v w = Some c \<and> has_type_from v (vp_id c) \<and> has_type_from w (vp_id c)
     \<and> (\<forall>d. d \<in> set (ancestors v) \<and> d \<in> set (ancestors w) \<longrightarrow> has_type_from c (vp_id d))"
  using common_floor [OF assms] by (auto simp: has_type_ancestors)

definition sample_root :: vptr where "sample_root = VPtr 0 False [] True None"
definition sample_message :: vptr where "sample_message = VPtr 1 True [] True (Some sample_root)"
definition sample_request :: vptr where "sample_request = VPtr 2 True [] True (Some sample_message)"
definition sample_response :: vptr where "sample_response = VPtr 3 True [] True (Some sample_message)"

theorem common_floor_nearest_witness:
  "find_common_floor sample_request sample_response = Some sample_message \<and> has_type_from sample_message 0"
proof -
  have "last (ancestors sample_request) = last (ancestors sample_response)"
    by code_simp
  moreover have "find_common_floor sample_request sample_response = Some sample_message"
    "sample_root \<in> set (ancestors sample_request)" "sample_root \<in> set (ancestors sample_response)" "vp_id sample_root = 0"
    by code_simp+
  ultimately show ?thesis
    using common_floor_nearest [of sample_request sample_response] by (metis option.inject)
qed

section \<open>Reference counts\<close>

text \<open>Calls that leave the world alone.\<close>

definition quiet :: "'d obj_calls \<Rightarrow> bool" where
  "quiet F \<longleftrightarrow> (\<forall>c w. F c w = Some w)"

lemma call_all_quiet [simp]: "quiet F \<Longrightarrow> call_all F cs w = Some (w\<lparr>ob_log := ob_log w @ cs\<rparr>)"
  by (induction cs arbitrary: w) (simp_all add: quiet_def)

lemma upd_obj_Some [simp]: "objs w a = Some r \<Longrightarrow> upd_obj w a f = Some (w\<lparr>objs := (objs w)(a \<mapsto> f r)\<rparr>)"
  by (simp add: upd_obj_def)

text \<open>What an object calls when it is deleted: its weak references, its classes up to the root, its data.\<close>

definition last_calls :: "nat \<Rightarrow> 'd obj \<Rightarrow> 'd obj_call list" where
  "last_calls a r = map (\<lambda>(n, u). CbWeak n u a) (ob_weak_refs r) @ map (\<lambda>v. CbDestroy (vp_id v) a) (ancestors (ob_vptr r))
     @ data_callbacks (ob_data r)"

lemma delete_quiet:
  assumes "quiet F" "objs w a = Some r"
  shows "belle_sip_object_delete F a w = Some (w\<lparr>objs := (objs w)(a := None), ob_log := ob_log w @ last_calls a r\<rparr>)"
  using assms by (simp add: belle_sip_object_delete_def belle_sip_object_loose_weak_refs_def belle_sip_object_data_clear_def last_calls_def)

fun unrefs :: "'d obj_calls \<Rightarrow> nat \<Rightarrow> nat \<Rightarrow> 'd oworld \<Rightarrow> 'd oworld option" where
  "unrefs F 0 a w = Some w"
| "unrefs F (Suc n) a w = Option.bind (belle_sip_object_unref F a w) (unrefs F n a)"

fun refs :: "nat \<Rightarrow> nat \<Rightarrow> 'd oworld \<Rightarrow> 'd oworld option" where
  "refs 0 a w = Some w"
| "refs (Suc n) a w = Option.bind (belle_sip_object_ref a w) (refs n a)"

lemma refs_owned:
  "objs w a = Some r \<Longrightarrow> 0 < ob_ref r \<Longrightarrow> refs n a w = Some (w\<lparr>objs := (objs w)(a \<mapsto> r\<lparr>ob_ref := ob_ref r + int n\<rparr>)\<rparr>)"
proof (induction n arbitrary: w r)
  case 0
  then show ?case
    by (simp add: fun_upd_idem)
next
  case (Suc n)
  then have "belle_sip_object_ref a w = Some (w\<lparr>objs := (objs w)(a \<mapsto> r\<lparr>ob_ref := ob_ref r + 1\<rparr>)\<rparr>)"
    by (simp add: belle_sip_object_ref_def split: option.split)
  then show ?case
    using Suc.IH [of "w\<lparr>objs := (objs w)(a \<mapsto> r\<lparr>ob_ref := ob_ref r + 1\<rparr>)\<rparr>" "r\<lparr>ob_ref := ob_ref r + 1\<rparr>"] Suc.prems
    by (simp add: add.assoc cong: if_cong)
qed

lemma unrefs_owned:
  "objs w a = Some r \<Longrightarrow> int n < ob_ref r \<Longrightarrow> unrefs F n a w = Some (w\<lparr>objs := (objs w)(a \<mapsto> r\<lparr>ob_ref := ob_ref r - int n\<rparr>)\<rparr>)"
proof (induction n arbitrary: w r)
  case 0
  then show ?case
    by (simp add: fun_upd_idem)
next
  case (Suc n)
  then have "belle_sip_object_unref F a w = Some (w\<lparr>objs := (objs w)(a \<mapsto> r\<lparr>ob_ref := ob_ref r - 1\<rparr>)\<rparr>)"
    by (simp add: belle_sip_object_unref_def split: option.split)
  then show ?case
    using Suc.IH [of "w\<lparr>objs := (objs w)(a \<mapsto> r\<lparr>ob_ref := ob_ref r - 1\<rparr>)\<rparr>" "r\<lparr>ob_ref := ob_ref r - 1\<rparr>"] Suc.prems
    by (simp add: diff_diff_eq cong: if_cong)
qed

lemma unrefs_Suc: "unrefs F (Suc n) a w = Option.bind (unrefs F n a w) (belle_sip_object_unref F a)"
proof (induction n arbitrary: w)
  case 0
  show ?case
    by (cases "belle_sip_object_unref F a w") simp_all
next
  case (Suc n)
  show ?case
    by (cases "belle_sip_object_unref F a w") (use Suc in simp_all)
qed

lemma last_unref:
  assumes "quiet F" "objs w a = Some r" "ob_ref r = 1"
  shows "belle_sip_object_unref F a w = Some (w\<lparr>objs := (objs w)(a := None), ob_log := ob_log w @ last_calls a r\<rparr>)"
  using assms delete_quiet [OF assms(1), of "w\<lparr>objs := (objs w)(a \<mapsto> r\<lparr>ob_ref := - 1\<rparr>)\<rparr>" a]
  by (simp add: belle_sip_object_unref_def last_calls_def)

lemma balanced:
  assumes "quiet F" "objs w a = Some r" "ob_ref r = 1"
  shows "k \<le> n \<Longrightarrow> Option.bind (refs n a w) (unrefs F k a) = Some (w\<lparr>objs := (objs w)(a \<mapsto> r\<lparr>ob_ref := 1 + int n - int k\<rparr>)\<rparr>)"
    and "Option.bind (refs n a w) (unrefs F (Suc n) a)
       = Some (w\<lparr>objs := (objs w)(a := None), ob_log := ob_log w @ last_calls a r\<rparr>)"
    and "Option.bind (refs n a w) (unrefs F (Suc (Suc n)) a) = None"
proof -
  let ?w = "w\<lparr>objs := (objs w)(a \<mapsto> r\<lparr>ob_ref := 1 + int n\<rparr>)\<rparr>"
  have refs: "refs n a w = Some ?w"
    using refs_owned [OF assms(2), of n] assms(3) by simp
  show some: "Option.bind (refs n a w) (unrefs F k a) = Some (w\<lparr>objs := (objs w)(a \<mapsto> r\<lparr>ob_ref := 1 + int n - int k\<rparr>)\<rparr>)" if "k \<le> n" for k
    using unrefs_owned [of ?w a "r\<lparr>ob_ref := 1 + int n\<rparr>" k F] that refs by simp
  have one: "w\<lparr>objs := (objs w)(a \<mapsto> r\<lparr>ob_ref := 1 + int n - int n\<rparr>)\<rparr> = w"
    using assms(2,3) by (simp add: fun_upd_idem)
  show all: "Option.bind (refs n a w) (unrefs F (Suc n) a)
      = Some (w\<lparr>objs := (objs w)(a := None), ob_log := ob_log w @ last_calls a r\<rparr>)"
    using some [of n] one refs last_unref [OF assms] by (simp only: unrefs_Suc bind.bind_lunit order_refl)
  show "Option.bind (refs n a w) (unrefs F (Suc (Suc n)) a) = None"
    using all refs by (simp only: unrefs_Suc [of F "Suc n"] bind.bind_lunit) (simp add: belle_sip_object_unref_def)
qed


definition sample_object :: "nat obj" where
  "sample_object = \<lparr>ob_vptr = sample_message, ob_ref = 1, ob_name = Some ''m'', ob_weak_refs = [(7, 8)], ob_pool = None, ob_data = []\<rparr>"

definition sample_oworld :: "nat oworld" where
  "sample_oworld = \<lparr>objs = [1 \<mapsto> sample_object], pools = (\<lambda>_. None), pool_stack = [], self_tid = 1, ob_brk = 2, ob_log = []\<rparr>"


section \<open>The data store\<close>

text \<open>The map that a data store implements.\<close>

definition data_map :: "'d obj \<Rightarrow> string \<Rightarrow> 'd option" where
  "data_map r n = map_option de_data (data_find (ob_data r) n)"

definition data_ok :: "'d obj \<Rightarrow> bool" where
  "data_ok r \<longleftrightarrow> distinct (map de_name (ob_data r))"

lemma data_find_simps [simp]:
  "data_find [] n = None" "data_find (e # es) n = (if de_name e = n then Some e else data_find es n)"
  by (simp_all add: data_find_def)

lemma data_find_append: "data_find (es @ es') n = (case data_find es n of None \<Rightarrow> data_find es' n | Some e \<Rightarrow> Some e)"
  by (induction es) auto

lemma data_find_name: "data_find es n = Some e \<Longrightarrow> de_name e = n"
  by (induction es) (auto split: if_splits)

lemma data_find_None: "data_find es n = None \<longleftrightarrow> n \<notin> set (map de_name es)"
  by (induction es) auto

lemma data_find_replace:
  "de_name e \<in> set (map de_name es) \<Longrightarrow> data_find (data_replace e es) n = (if n = de_name e then Some e else data_find es n)"
  by (induction es) auto

lemma data_replace_names: "map de_name (data_replace e es) = map de_name es"
  by (induction es) auto

lemma data_find_remove:
  "distinct (map de_name es) \<Longrightarrow> data_find (remove_first (\<lambda>e. de_name e = m) es) n = (if n = m then None else data_find es n)"
proof (induction es)
  case (Cons e es)
  then show ?case
    using data_find_None [of es m] by auto
qed simp

lemma data_remove_names:
  "distinct (map de_name es) \<Longrightarrow> distinct (map de_name (remove_first P es))"
proof (induction es)
  case (Cons e es)
  then show ?case
    using set_remove_first_subset [of P es] by auto
qed simp

lemma data_set_step:
  assumes "quiet F" "objs w a = Some r" "data_ok r"
  shows "\<exists>w' r'. belle_sip_object_data_set F a n d f w = Some (w', if data_map r n = None then 0 else 1) \<and> objs w' a = Some r'
    \<and> data_ok r' \<and> data_map r' = (data_map r)(n \<mapsto> d)"
proof (cases "data_find (ob_data r) n")
  case None
  let ?r = "r\<lparr>ob_data := ob_data r @ [\<lparr>de_name = n, de_data = d, de_destroy = f\<rparr>]\<rparr>"
  have "n \<notin> set (map de_name (ob_data r))"
    using None data_find_None [of "ob_data r" n] by simp
  then have "data_ok ?r" "data_map ?r = (data_map r)(n \<mapsto> d)"
    using assms(3) None by (auto simp: data_ok_def data_map_def data_find_append fun_eq_iff split: option.split)
  then show ?thesis
    using assms None by (simp add: belle_sip_object_data_set_def data_map_def)
next
  case (Some old)
  let ?e = "\<lparr>de_name = n, de_data = d, de_destroy = f\<rparr>"
  let ?r = "r\<lparr>ob_data := data_replace ?e (ob_data r)\<rparr>"
  have "n \<in> set (map de_name (ob_data r))"
    using Some data_find_None [of "ob_data r" n] by simp
  then have "data_ok ?r" "data_map ?r = (data_map r)(n \<mapsto> d)"
    using assms(3) by (auto simp: data_ok_def data_replace_names data_map_def data_find_replace fun_eq_iff)
  then show ?thesis
    using assms Some by (simp add: belle_sip_object_data_set_def data_map_def)
qed

lemma data_remove_step:
  assumes "quiet F" "objs w a = Some r" "data_ok r"
  shows "\<exists>w' r'. belle_sip_object_data_remove F a n w = Some (w', if data_map r n = None then 1 else 0) \<and> objs w' a = Some r'
    \<and> data_ok r' \<and> data_map r' = (data_map r)(n := None)"
proof -
  let ?r = "r\<lparr>ob_data := remove_first (\<lambda>e. de_name e = n) (ob_data r)\<rparr>"
  have "data_ok ?r" "data_map ?r = (data_map r)(n := None)"
    using assms(3) by (auto simp: data_ok_def data_remove_names data_map_def data_find_remove fun_eq_iff)
  moreover have "(data_map r)(n := None) = data_map r" if "data_map r n = None"
    using that by (simp add: fun_upd_idem)
  ultimately show ?thesis
    using assms by (cases "data_find (ob_data r) n") (simp_all add: belle_sip_object_data_remove_def data_map_def)
qed

lemma data_grab_step:
  assumes "objs w a = Some r" "data_ok r"
  shows "case data_map r n of None \<Rightarrow> belle_sip_object_data_grab a n w = None
    | Some d \<Rightarrow> \<exists>w' r'. belle_sip_object_data_grab a n w = Some (w', d) \<and> objs w' a = Some r' \<and> data_ok r'
        \<and> data_map r' = (data_map r)(n := None)"
proof (cases "data_find (ob_data r) n")
  case None
  then show ?thesis
    using assms by (simp add: belle_sip_object_data_grab_def data_map_def)
next
  case (Some e)
  let ?r = "r\<lparr>ob_data := remove_first (\<lambda>e. de_name e = n) (ob_data r)\<rparr>"
  have "data_ok ?r" "data_map ?r = (data_map r)(n := None)"
    using assms(2) by (auto simp: data_ok_def data_remove_names data_map_def data_find_remove fun_eq_iff)
  then show ?thesis
    using assms Some by (simp add: belle_sip_object_data_grab_def data_map_def)
qed

text \<open>C24. The data store of an object is a finite map: each operation does to the list of data what the same operation
  does to the map, and keeps its names distinct. Taking a datum that is not there crashes.\<close>

theorem data_store_refines_map:
  assumes "quiet F" "objs w a = Some r" "data_ok r"
  shows "belle_sip_object_data_get w a n = Some (data_map r n)
    \<and> belle_sip_object_data_exists w a n = Some (n \<in> dom (data_map r))
    \<and> (\<exists>w' r'. belle_sip_object_data_set F a n d f w = Some (w', if data_map r n = None then 0 else 1)
        \<and> objs w' a = Some r' \<and> data_ok r' \<and> data_map r' = (data_map r)(n \<mapsto> d))
    \<and> (\<exists>w' r'. belle_sip_object_data_remove F a n w = Some (w', if data_map r n = None then 1 else 0)
        \<and> objs w' a = Some r' \<and> data_ok r' \<and> data_map r' = (data_map r)(n := None))
    \<and> (case data_map r n of None \<Rightarrow> belle_sip_object_data_grab a n w = None
       | Some d \<Rightarrow> \<exists>w' r'. belle_sip_object_data_grab a n w = Some (w', d) \<and> objs w' a = Some r' \<and> data_ok r'
        \<and> data_map r' = (data_map r)(n := None))"
  using data_set_step [OF assms] data_remove_step [OF assms] data_grab_step [OF assms(2,3)] assms(2)
  by (auto simp: belle_sip_object_data_get_def belle_sip_object_data_exists_def data_map_def dom_def)

theorem data_store_refines_map_witness:
  "belle_sip_object_data_get sample_oworld 1 ''k'' = Some None \<and> belle_sip_object_data_grab 1 ''k'' sample_oworld = None
   \<and> (\<exists>w' r'. belle_sip_object_data_set (\<lambda>_. Some) 1 ''k'' 5 None sample_oworld = Some (w', 0)
        \<and> objs w' 1 = Some r' \<and> data_map r' = [''k'' \<mapsto> 5])"
proof -
  have 1: "quiet (\<lambda>_. Some)"
    by (simp add: quiet_def)
  have 2: "objs sample_oworld 1 = Some sample_object" and 3: "data_ok sample_object"
    by (simp_all add: sample_oworld_def sample_object_def data_ok_def)
  have "data_map sample_object = Map.empty"
    by (simp add: data_map_def sample_object_def fun_eq_iff)
  then show ?thesis
    using data_store_refines_map [OF 1 2 3, of "''k''" 5 None] by auto
qed

section \<open>Clones\<close>

text \<open>Clone functions of classes that do not set the name of the new object.\<close>

definition names_kept :: "(nat \<Rightarrow> nat \<Rightarrow> nat \<Rightarrow> 'd oworld \<Rightarrow> 'd oworld option) \<Rightarrow> bool" where
  "names_kept C \<longleftrightarrow> (\<forall>i n a w w'. C i n a w = Some w' \<longrightarrow>
     (\<forall>b. map_option ob_name (objs w' b) = map_option ob_name (objs w b)))"

lemma find_common_floor_self: "find_common_floor v v = Some v"
  by (cases v) simp

lemma copy_base_crash:
  "objs w a = Some r \<Longrightarrow> ob_name r \<noteq> None \<Longrightarrow> objs w n = Some r' \<Longrightarrow> ob_name r' = None \<Longrightarrow> copy_base n a w = None"
  by (auto simp: copy_base_def)

lemma clone_loop_crash:
  assumes "names_kept C"
  shows "map_option ob_name (objs w a) = Some (Some s) \<Longrightarrow> map_option ob_name (objs w n) = Some None
    \<Longrightarrow> clone_loop C (ancestors v) n a w = None"
proof (induction v arbitrary: w rule: ancestors.induct)
  case (1 i u f c p)
  show ?case
  proof (cases p)
    case None
    then show ?thesis
      using 1 copy_base_crash [of w a _ n] by (auto split: option.splits)
  next
    case (Some q)
    have "clone_loop C (ancestors q) n a w' = None" if "C i n a w = Some w'" for w'
    proof (rule 1(1) [OF Some])
      show "map_option ob_name (objs w' a) = Some (Some s)" "map_option ob_name (objs w' n) = Some None"
        using assms that 1(2,3) unfolding names_kept_def by metis+
    qed
    then show ?thesis
      using Some by (cases "C i n a w") auto
  qed
qed

lemma clone_named:
  assumes "names_kept C" "objs w a = Some r" "ob_name r = Some s" "a \<noteq> ob_brk w"
  shows "belle_sip_object_clone C a w = None"
proof -
  let ?new = "\<lparr>ob_vptr = ob_vptr r, ob_ref = (if vp_unowned (ob_vptr r) then 0 else 1), ob_name = None,
              ob_weak_refs = [], ob_pool = None, ob_data = []\<rparr>"
  let ?w = "w\<lparr>objs := (objs w)(ob_brk w \<mapsto> ?new), ob_brk := ob_brk w + 1\<rparr>"
  have "clone_loop C (ancestors (ob_vptr r)) (ob_brk w) a ?w = None"
    by (rule clone_loop_crash [OF assms(1)]) (use assms in simp_all)
  then have "belle_sip_object_copy C (ob_brk w) a ?w = None"
    using assms(2,4) by (simp add: belle_sip_object_copy_def find_common_floor_self)
  then show ?thesis
    using assms(2) by (simp add: belle_sip_object_clone_def Let_def)
qed

text \<open>The clone of an object that has a name crashes: the root class duplicates the name of the new object, which
  has none, in place of the name of the original.\<close>

lemma clone_of_named_crashes:
  assumes "names_kept C" "objs w a = Some r" "ob_name r = Some s" "a \<noteq> ob_brk w"
  shows "belle_sip_object_clone C a w = None"
  using assms by (rule clone_named)

lemma clone_of_named_crashes_sample: "belle_sip_object_clone (\<lambda>_ _ _. Some) 1 sample_oworld = None"
  by (rule clone_of_named_crashes [of _ _ _ sample_object "''m''"])
    (simp_all add: names_kept_def sample_oworld_def sample_object_def)

section \<open>Objects without a pool\<close>

text \<open>An unowned object that no pool holds is never deleted: a release leaves it allocated with the mark of a deleted one, and
  another is fatal.\<close>

lemma unowned_leak:
  assumes "objs w a = Some r" "ob_ref r = 0" "ob_pool r = None"
  shows "unrefs F 1 a w = Some (w\<lparr>objs := (objs w)(a \<mapsto> r\<lparr>ob_ref := - 1\<rparr>)\<rparr>) \<and> unrefs F 2 a w = None"
  using assms by (simp add: belle_sip_object_unref_def numeral_2_eq_2)

section \<open>Text forms\<close>

lemma marshal_pieces_size:
  "marshal_pieces n ps (b, k) = (s, BELLE_SIP_OK) \<Longrightarrow> ps \<noteq> [] \<longrightarrow> k + length (concat ps) < n"
  by (induction ps arbitrary: b k) (fastforce simp: belle_sip_snprintf_def split: if_splits)+

lemma alloc_string_whole:
  "size_hint \<noteq> 0 \<Longrightarrow> \<exists>hint. belle_sip_object_to_alloc_string ps size_hint = Some (concat ps, hint) \<and> length (concat ps) < hint"
proof (induction ps size_hint rule: belle_sip_object_to_alloc_string.induct)
  case (1 ps n)
  show ?case
  proof (cases "snd (marshal_pieces (n - 1) ps ([], 0)) = BELLE_SIP_BUFFER_OVERFLOW")
    case True
    then show ?thesis
      using 1 by (subst belle_sip_object_to_alloc_string.simps) simp
  next
    case False
    then have ok: "snd (marshal_pieces (n - 1) ps ([], 0)) = BELLE_SIP_OK"
      using marshal_error.exhaust by blast
    then obtain s where s: "marshal_pieces (n - 1) ps ([], 0) = (s, BELLE_SIP_OK)"
      by (metis prod.collapse)
    then show ?thesis
      using False 1(2) marshal_pieces_fits [OF s] marshal_pieces_size [OF s]
      by (subst belle_sip_object_to_alloc_string.simps) auto
  qed
qed

text \<open>Whatever the hint, the text form of an object is its whole text.\<close>

lemma to_string_whole: "\<exists>h. belle_sip_object_to_string hint ps = Some (concat ps, h) \<and> (hint = 0 \<longrightarrow> 128 \<le> h)"
proof (cases "hint = 0")
  case False
  then show ?thesis
    using alloc_string_whole [OF False, of ps] by (auto simp: belle_sip_object_to_string_def)
next
  case True
  obtain b k e where run: "marshal_pieces 2048 ps ([], 0) = ((b, k), e)"
    by (metis prod.collapse)
  show ?thesis
  proof (cases e)
    case BELLE_SIP_OK
    then show ?thesis
      using True run marshal_pieces_fits [of 2048 ps "[]" 0 "(b, k)"]
      by (auto simp: belle_sip_object_to_string_def get_hint_size_def)
  next
    case BELLE_SIP_BUFFER_OVERFLOW
    have "get_hint_size (2 * k) \<noteq> 0"
      by (simp add: get_hint_size_def)
    then obtain h where h: "belle_sip_object_to_alloc_string ps (get_hint_size (2 * k)) = Some (concat ps, h)"
        "length (concat ps) < h"
      using alloc_string_whole by blast
    moreover have "2048 \<le> length (concat ps)"
      using marshal_pieces_overflow [of 2048 ps "[]" 0] run BELLE_SIP_BUFFER_OVERFLOW by simp
    ultimately show ?thesis
      using True run BELLE_SIP_BUFFER_OVERFLOW by (auto simp: belle_sip_object_to_string_def)
  qed
qed

end
