(* ===== verification/Dict.thy ===== *)
theory Dict
  imports ObjectProps
begin

text \<open>Dictionaries (\<^verbatim>\<open>src/belle_sip_dict.c\<close>): strings and integers kept by name in the data store of an object.\<close>

section \<open>Texts of integers\<close>

text \<open>\<^verbatim>\<open>sscanf("%x")\<close> of a text that begins with \<^verbatim>\<open>0x\<close>, into an \<^verbatim>\<open>int\<close> that is 0 when no digit follows.\<close>

definition scan_hex :: "string \<Rightarrow> int" where
  "scan_hex s = sint (word_of_int (min (2 ^ 64 - 1)
     (foldl (\<lambda>n c. 16 * n + hex_value c) 0 (takeWhile is_hex_digit (drop 2 s)))) :: 32 word)"

section \<open>Operations\<close>

text \<open>The destructor of a string frees it: it is callback 0, which does nothing to objects.\<close>

definition belle_sip_dict_set_string :: "string obj_calls \<Rightarrow> nat \<Rightarrow> string \<Rightarrow> string \<Rightarrow> string oworld \<Rightarrow> string oworld option" where
  "belle_sip_dict_set_string F a key v w = map_option fst (belle_sip_object_data_set F a key v (Some 0) w)"

definition belle_sip_dict_get_string :: "string oworld \<Rightarrow> nat \<Rightarrow> string \<Rightarrow> string option \<Rightarrow> string option option" where
  "belle_sip_dict_get_string w a key dflt =
     map_option (\<lambda>d. case d of Some s \<Rightarrow> Some s | None \<Rightarrow> dflt) (belle_sip_object_data_get w a key)"

definition belle_sip_dict_set_int :: "string obj_calls \<Rightarrow> nat \<Rightarrow> string \<Rightarrow> int \<Rightarrow> string oworld \<Rightarrow> string oworld option" where
  "belle_sip_dict_set_int F a key v w = belle_sip_dict_set_string F a key (int_text v) w"

definition belle_sip_dict_get_int :: "string oworld \<Rightarrow> nat \<Rightarrow> string \<Rightarrow> int \<Rightarrow> int option" where
  "belle_sip_dict_get_int w a key dflt =
     map_option (\<lambda>d. case d of Some s \<Rightarrow> (if has_prefix ''0x'' s then scan_hex s else atoi s) | None \<Rightarrow> dflt)
       (belle_sip_object_data_get w a key)"

definition belle_sip_dict_set_int64 :: "string obj_calls \<Rightarrow> nat \<Rightarrow> string \<Rightarrow> int \<Rightarrow> string oworld \<Rightarrow> string oworld option" where
  "belle_sip_dict_set_int64 F a key v w = belle_sip_dict_set_string F a key (int_text v) w"

definition belle_sip_dict_get_int64 :: "string oworld \<Rightarrow> nat \<Rightarrow> string \<Rightarrow> int \<Rightarrow> int option" where
  "belle_sip_dict_get_int64 w a key dflt =
     map_option (\<lambda>d. case d of Some s \<Rightarrow> atoi s | None \<Rightarrow> dflt) (belle_sip_object_data_get w a key)"

definition belle_sip_dict_remove :: "string obj_calls \<Rightarrow> nat \<Rightarrow> string \<Rightarrow> string oworld \<Rightarrow> (string oworld \<times> int) option" where
  "belle_sip_dict_remove F a key w = belle_sip_object_data_remove F a key w"

definition belle_sip_dict_haskey :: "string oworld \<Rightarrow> nat \<Rightarrow> string \<Rightarrow> bool option" where
  "belle_sip_dict_haskey w a key = belle_sip_object_data_exists w a key"

definition belle_sip_dict_clear :: "string obj_calls \<Rightarrow> nat \<Rightarrow> string oworld \<Rightarrow> string oworld option" where
  "belle_sip_dict_clear F a w = belle_sip_object_data_clear F a w"

definition belle_sip_dict_merge :: "string obj_calls \<Rightarrow> nat \<Rightarrow> nat \<Rightarrow> string oworld \<Rightarrow> string oworld option" where
  "belle_sip_dict_merge F src dst w = belle_sip_object_data_merge F (Some (\<lambda>_ s. s)) src dst w"

definition belle_sip_dict_clone :: "string obj_calls \<Rightarrow> nat \<Rightarrow> nat \<Rightarrow> string oworld \<Rightarrow> string oworld option" where
  "belle_sip_dict_clone F src dst w = do {
     w \<leftarrow> belle_sip_dict_clear F dst w;
     belle_sip_dict_merge F src dst w }"

section \<open>Reading integers back\<close>

lemma int_text_not_hex: "\<not> has_prefix ''0x'' (int_text i)"
proof
  assume "has_prefix ''0x'' (int_text i)"
  then have "CHR ''x'' \<in> set (int_text i)" "hd (int_text i) = CHR ''0''" "int_text i \<noteq> []"
    unfolding has_prefix_def
    by (cases "int_text i"; cases "tl (int_text i)"; auto)+
  then have "0 \<le> i" "CHR ''x'' \<in> set (decimal (nat i))"
    by (auto simp: int_text_def split: if_splits)
  then show False
    using decimal_digits [of "nat i"] by (auto simp: list_all_iff is_digit_def dest!: bspec)
qed

section \<open>Merging\<close>

lemma merge_loop:
  assumes "quiet F"
  shows "objs w dst = Some r \<Longrightarrow> data_ok r \<Longrightarrow> \<exists>w' r'. data_merge_loop F (Some (\<lambda>_ s. s)) es dst w = Some w'
    \<and> objs w' dst = Some r' \<and> data_ok r' \<and> data_map r' = foldl (\<lambda>m e. m(de_name e \<mapsto> de_data e)) (data_map r) es"
proof (induction es arbitrary: w r)
  case (Cons e es)
  obtain w1 r1 ret where 1: "belle_sip_object_data_set F dst (de_name e) (de_data e) (de_destroy e) w = Some (w1, ret)"
      "objs w1 dst = Some r1" "data_ok r1" "data_map r1 = (data_map r)(de_name e \<mapsto> de_data e)"
    using data_set_step [OF assms Cons.prems] by blast
  then show ?case
    using Cons.IH [OF 1(2,3)] by simp
qed auto

lemma foldl_updates:
  "distinct (map de_name es) \<Longrightarrow> foldl (\<lambda>m e. m(de_name e \<mapsto> de_data e)) m es n
     = (case map_option de_data (data_find es n) of None \<Rightarrow> m n | Some d \<Rightarrow> Some d)"
proof (induction es arbitrary: m)
  case (Cons e es)
  then show ?case
    using data_find_None [of es n] by (auto split: option.splits)
qed simp

lemma dict_merge_map:
  assumes "quiet F" "objs w src = Some s" "data_ok s" "objs w dst = Some r" "data_ok r"
  shows "\<exists>w' r'. belle_sip_dict_merge F src dst w = Some w' \<and> objs w' dst = Some r' \<and> data_ok r' \<and> data_map r' = data_map r ++ data_map s"
proof -
  obtain w' r' where "data_merge_loop F (Some (\<lambda>_ s. s)) (ob_data s) dst w = Some w'" "objs w' dst = Some r'" "data_ok r'"
      "data_map r' = foldl (\<lambda>m e. m(de_name e \<mapsto> de_data e)) (data_map r) (ob_data s)"
    using merge_loop [OF assms(1,4,5)] by blast
  moreover have "foldl (\<lambda>m e. m(de_name e \<mapsto> de_data e)) (data_map r) (ob_data s) = data_map r ++ data_map s"
    using assms(3) by (intro ext) (simp add: foldl_updates data_ok_def map_add_def data_map_def)
  ultimately show ?thesis
    using assms(2) by (auto simp: belle_sip_dict_merge_def belle_sip_object_data_merge_def)
qed

text \<open>A dictionary gives back the integers and the strings put in it, and merging one into another adds its entries to
  those of the other, over the ones of the same name.\<close>

lemma dict_keeps:
  assumes "quiet F" "objs w a = Some r" "data_ok r"
  shows "\<exists>w'. belle_sip_dict_set_int F a key i w = Some w' \<and> belle_sip_dict_get_int w' a key dflt = Some i
      \<and> belle_sip_dict_get_string w' a key None = Some (Some (int_text i))
      \<and> (\<forall>src s. objs w' src = Some s \<and> data_ok s \<and> src \<noteq> a \<longrightarrow>
           (\<exists>w'' r''. belle_sip_dict_merge F src a w' = Some w'' \<and> objs w'' a = Some r''
             \<and> data_map r'' = (data_map r)(key \<mapsto> int_text i) ++ data_map s))"
proof -
  obtain w' r' where w': "belle_sip_object_data_set F a key (int_text i) (Some 0) w = Some (w', if data_map r key = None then 0 else 1)"
      "objs w' a = Some r'" "data_ok r'" "data_map r' = (data_map r)(key \<mapsto> int_text i)"
    using data_set_step [OF assms] by blast
  have get: "belle_sip_object_data_get w' a key = Some (Some (int_text i))"
    using w' by (simp add: belle_sip_object_data_get_def data_map_def fun_eq_iff)
  have "\<exists>w'' r''. belle_sip_dict_merge F src a w' = Some w'' \<and> objs w'' a = Some r''
      \<and> data_map r'' = (data_map r)(key \<mapsto> int_text i) ++ data_map s" if "objs w' src = Some s" "data_ok s" for src s
    using dict_merge_map [OF assms(1) that w'(2,3)] w'(4) by auto
  then show ?thesis
    using w'(1) get by (auto simp: belle_sip_dict_set_int_def belle_sip_dict_set_string_def belle_sip_dict_get_int_def
        belle_sip_dict_get_string_def int_text_not_hex atoi_int_text)
qed

end
