(* ===== verification/SdpProps.thy ===== *)
theory SdpProps
  imports Sdp
begin

text \<open>
  The payload types put in a media description are read back from it, and what copies and texts of descriptions lose.
\<close>

section \<open>Values of attributes\<close>

abbreviation raw_attribute :: "string \<Rightarrow> string \<Rightarrow> sdp_attribute" where
  "raw_attribute name v \<equiv> \<lparr>at_name = name, at_value = Raw_value (Some v)\<rparr>"

lemma raw_value:
  "belle_sdp_attribute_get_value \<lparr>at_name = n, at_value = Raw_value v\<rparr>
    = (case v of None \<Rightarrow> [] | Some s \<Rightarrow> dropWhile (\<lambda>c. c = CHR '' '') s)"
  by (cases v) (simp_all add: belle_sdp_attribute_get_value_def attribute_pieces_def belle_sdp_raw_attribute_marshal_def
      belle_sdp_attribute_marshal_def)

section \<open>Numbers in values\<close>

lemma digit_cases: "is_digit c \<Longrightarrow> \<not> is_space c \<and> c \<noteq> CHR ''-'' \<and> c \<noteq> CHR ''+'' \<and> c \<noteq> CHR '' ''"
  by (auto simp: is_digit_def is_space_def)

lemma decimal_hd_pos: "0 < n \<Longrightarrow> hd (decimal n) \<noteq> CHR ''0''"
proof (induction n rule: decimal.induct)
  case (1 n)
  show ?case
  proof (cases "n < 10")
    case True
    then have "(of_char (char_of (48 + n) :: char) :: nat) = 48 + n" by simp
    with 1 True show ?thesis by (subst decimal.simps) (auto dest: arg_cong[of _ _ "of_char :: char \<Rightarrow> nat"])
  next
    case False
    then have "hd (decimal n) = hd (decimal (n div 10))"
      by (subst decimal.simps) (simp add: decimal_not_Nil)
    with 1 False show ?thesis by simp
  qed
qed

lemma length_decimal: "n < 10 ^ Suc k \<Longrightarrow> length (decimal n) \<le> Suc k"
proof (induction k arbitrary: n)
  case 0
  then show ?case by (subst decimal.simps) simp
next
  case (Suc k)
  then have "length (decimal (n div 10)) \<le> Suc k" by (intro Suc.IH) (simp add: less_mult_imp_div_less)
  then show ?case by (subst decimal.simps) simp
qed

lemma number_in_base_ten: "list_all is_digit ds \<Longrightarrow> number_in_base 10 ds = digits_value ds"
  unfolding number_in_base_def digits_value_def
  by (rule foldl_cong) (auto simp: hex_value_def list_all_iff)

lemma take_digits: "takeWhile is_digit (decimal n @ CHR '' '' # t) = decimal n"
  and drop_digits: "dropWhile is_digit (decimal n @ CHR '' '' # t) = CHR '' '' # t"
proof -
  have "\<forall>c \<in> set (decimal n). is_digit c" using decimal_digits[of n] by (simp add: list_all_iff)
  then show "takeWhile is_digit (decimal n @ CHR '' '' # t) = decimal n"
    "dropWhile is_digit (decimal n @ CHR '' '' # t) = CHR '' '' # t"
    by (simp_all add: takeWhile_append dropWhile_append is_digit_def)
qed

lemma scan_pt_text:
  assumes "0 \<le> f"
  shows "scan_pt (int_text f @ CHR '' '' # t) = Some (f, skip_space t)"
proof -
  obtain c cs where cs: "decimal (nat f) = c # cs" using decimal_not_Nil by (cases "decimal (nat f)") auto
  have c: "is_digit c" using decimal_hd[of "nat f"] cs by simp
  have space: "skip_space (CHR '' '' # t) = skip_space t" by (simp add: skip_space_def is_space_def)
  have "scan_based (decimal (nat f) @ CHR '' '' # t) = Some (f, CHR '' '' # t)"
  proof (cases "f = 0")
    case True
    moreover have "(char_of (48 :: nat) :: char) = CHR ''0''" by code_simp
    ultimately show ?thesis
      by (simp add: decimal.simps scan_based_def scan_in_base_def is_octal_digit_def number_in_base_def hex_value_def is_digit_def)
  next
    case False
    then have "c \<noteq> CHR ''0''" using decimal_hd_pos[of "nat f"] assms cs by simp
    then have prefix: "take 2 (decimal (nat f) @ CHR '' '' # t) \<notin> {''0x'', ''0X''}"
      "take 1 (decimal (nat f) @ CHR '' '' # t) \<noteq> ''0''"
      unfolding cs by auto
    show ?thesis
      unfolding scan_based_def scan_in_base_def Let_def take_digits drop_digits if_not_P[OF prefix(1)] if_not_P[OF prefix(2)]
      using assms by (simp add: decimal_not_Nil number_in_base_ten decimal_digits digits_value_decimal)
  qed
  then show ?thesis
    using assms c digit_cases[OF c] space
    by (simp add: scan_pt_def int_text_def cs skip_space_def)
qed

lemma value_of_number:
  assumes "0 \<le> f"
  shows "belle_sdp_attribute_get_value (raw_attribute n (int_text f @ t)) = int_text f @ t"
proof -
  have "is_digit (hd (int_text f))" "int_text f \<noteq> []"
    using assms decimal_hd[of "nat f"] decimal_not_Nil by (auto simp: int_text_def)
  then show ?thesis by (cases "int_text f") (auto simp: raw_value dest: digit_cases)
qed

section \<open>Attributes of a name\<close>

definition named :: "string \<Rightarrow> 'a sdp_base_description_scheme \<Rightarrow> sdp_attribute list" where
  "named n d = filter (\<lambda>a. at_name a = n) (bd_attributes d)"

lemma named_set [simp]:
  "named n (belle_sdp_base_description_set_attribute_value d m v)
    = named n d @ (if m = n then [\<lparr>at_name = m, at_value = Raw_value v\<rparr>] else [])"
  by (simp add: named_def belle_sdp_base_description_set_attribute_value_def)

lemma filter_remove_first_other: "(\<And>x. Q x \<Longrightarrow> \<not> P x) \<Longrightarrow> filter P (remove_first Q l) = filter P l"
  by (induction l) auto

lemma filter_remove_first_same: "filter P (remove_first P l) = tl (filter P l)"
  by (induction l) auto

lemma named_remove [simp]:
  "named n (belle_sdp_base_description_remove_attribute d m) = (if m = n then tl (named n d) else named n d)"
  unfolding named_def belle_sdp_base_description_remove_attribute_def
  by (auto simp: filter_remove_first_same intro!: filter_remove_first_other)

lemma named_update [simp]: "named n (d\<lparr>md_media := m\<rparr>) = named n d"
  by (simp add: named_def)

lemma media_kept [simp]:
  "md_media (belle_sdp_base_description_set_attribute_value d m v) = md_media d"
  "md_media (belle_sdp_base_description_remove_attribute d m) = md_media d"
  by (simp_all add: belle_sdp_base_description_set_attribute_value_def belle_sdp_base_description_remove_attribute_def)

lemma find_filter: "find P l = (case filter P l of [] \<Rightarrow> None | x # _ \<Rightarrow> Some x)"
  by (induction l) auto

lemma attribute_as_int_named:
  "attribute_as_int d n k = (case named n d of [] \<Rightarrow> k | a # _ \<Rightarrow> atoi (belle_sdp_attribute_get_value a))"
  by (simp add: attribute_as_int_def belle_sdp_base_description_get_attribute_value_def
      belle_sdp_base_description_get_attribute_def named_def find_filter split: list.splits)

lemma attr_with_pt_filter: "attr_with_pt l pt field = attr_with_pt (filter (\<lambda>a. at_name a = field) l) pt field"
  by (induction l) (auto split: option.splits)


section \<open>Writing and reading the payload types\<close>

fun append_mime_parameters :: "sdp_media_description \<Rightarrow> sdp_mime_parameter list \<Rightarrow> sdp_media_description option" where
  "append_mime_parameters d [] = Some d"
| "append_mime_parameters d (p # ps) = do {
     d \<leftarrow> belle_sdp_media_description_append_values_from_mime_parameter d p;
     append_mime_parameters d ps }"

text \<open>The texts in full, before they are cut to the size of the local buffer.\<close>

definition rtpmap_of :: "sdp_mime_parameter \<Rightarrow> string" where
  "rtpmap_of p = the (mp_type p) @ ''/'' @ int_text (mp_rate p)
     @ (if 1 < mp_channel_count p then ''/'' @ int_text (mp_channel_count p) else [])"

text \<open>
  A payload type that can be read back. The number is not negative; the name has no slash and no space in front. For
  one that is not static, the number of channels is 1 on audio and 0 elsewhere, or at least 2. The parameters do
  not start with a space, and everything has room in its local buffer.
\<close>

definition plain_mime :: "bool \<Rightarrow> sdp_mime_parameter \<Rightarrow> bool" where
  "plain_mime is_audio p \<longleftrightarrow>
     0 \<le> mp_media_format p \<and> mp_ptime p < 10 ^ 9 \<and> mp_max_ptime p < 10 ^ 9
     \<and> (case mp_type p of None \<Rightarrow> False | Some t \<Rightarrow> CHR ''/'' \<notin> set t \<and> skip_space t = t)
     \<and> (mime_parameter_is_static p = Some True \<or> mp_channel_count p = (if is_audio then 1 else 0) \<or> 2 \<le> mp_channel_count p)
     \<and> (case mp_parameters p of None \<Rightarrow> True | Some f \<Rightarrow> f \<noteq> [] \<and> skip_space f = f
          \<and> length (int_text (mp_media_format p) @ '' '' @ f) < MAX_FMTP_LENGTH)
     \<and> length (int_text (mp_media_format p) @ '' '' @ rtpmap_of p) < MAX_FMTP_LENGTH"

lemma is_static_loop_some: "mp_type p = Some t \<Longrightarrow> is_static_loop p l \<noteq> None"
  by (induction p l rule: is_static_loop.induct) auto

text \<open>The attribute of a payload type that carries the value \<open>v\<close> gives it, when it has one.\<close>

definition pt_lines :: "string \<Rightarrow> (sdp_mime_parameter \<Rightarrow> string option) \<Rightarrow> sdp_mime_parameter \<Rightarrow> sdp_attribute list" where
  "pt_lines field v p = (case v p of None \<Rightarrow> []
     | Some s \<Rightarrow> [raw_attribute field (int_text (mp_media_format p) @ '' '' @ s)])"

definition rtpmap_value :: "sdp_mime_parameter \<Rightarrow> string option" where
  "rtpmap_value p = (if mime_parameter_is_static p = Some True then None else Some (rtpmap_of p))"

definition time_lines :: "string \<Rightarrow> int \<Rightarrow> sdp_attribute list" where
  "time_lines n t = (if 0 < t then [raw_attribute n (int_text t)] else [])"

lemma time_read: "named n d = time_lines n t \<Longrightarrow> attribute_as_int d n k = (if 0 < t then t else k)"
  using value_of_number[of t n "[]"] by (auto simp: attribute_as_int_named time_lines_def atoi_int_text)

lemma time_fits: "0 < t \<Longrightarrow> t < 10 ^ 9 \<Longrightarrow> in_buffer 10 (int_text t) = int_text t"
  using length_decimal[of "nat t" 8] by (simp add: in_buffer_def int_text_def nat_less_iff)

lemma named_set_greater:
  assumes "current < 10 ^ 9" "v < 10 ^ 9" "0 \<le> current" "named n d = []"
  shows "named n (set_greater d n current v) = time_lines n (max current v)"
  using assms by (auto simp: set_greater_def Let_def time_lines_def time_fits max_def)

lemma named_set_greater_other [simp]: "m \<noteq> n \<Longrightarrow> named n (set_greater d m current v) = named n d"
  by (simp add: set_greater_def Let_def)

lemma media_set_greater [simp]: "md_media (set_greater d m current v) = md_media d"
  by (simp add: set_greater_def Let_def)

lemma plain_rtpmap_text:
  assumes "plain_mime a p"
  shows "rtpmap_text p = Some (int_text (mp_media_format p) @ '' '' @ rtpmap_of p)"
  using assms by (auto simp: plain_mime_def rtpmap_text_def rtpmap_of_def in_buffer_def split: option.splits)

lemma plain_fmtp_text:
  assumes "plain_mime a p" "mp_parameters p = Some f"
  shows "in_buffer MAX_FMTP_LENGTH (int_text (mp_media_format p) @ '' '' @ f) = int_text (mp_media_format p) @ '' '' @ f"
  using assms by (auto simp: plain_mime_def in_buffer_def)

lemma append_one:
  assumes "plain_mime a p" "md_media d = Some media"
    and "named ''ptime'' d = time_lines ''ptime'' t" "named ''maxptime'' d = time_lines ''maxptime'' m"
    and "0 \<le> t" "t < 10 ^ 9" "0 \<le> m" "m < 10 ^ 9"
  shows "\<exists>d'. belle_sdp_media_description_append_values_from_mime_parameter d p = Some d'
    \<and> md_media d' = Some (media\<lparr>me_formats := me_formats media @ [mp_media_format p]\<rparr>)
    \<and> named ''rtpmap'' d' = named ''rtpmap'' d @ pt_lines ''rtpmap'' rtpmap_value p
    \<and> named ''fmtp'' d' = named ''fmtp'' d @ pt_lines ''fmtp'' mp_parameters p
    \<and> named ''ptime'' d' = time_lines ''ptime'' (max t (mp_ptime p))
    \<and> named ''maxptime'' d' = time_lines ''maxptime'' (max m (mp_max_ptime p))"
proof -
  obtain ty where ty: "mp_type p = Some ty" using assms(1) by (auto simp: plain_mime_def split: option.splits)
  obtain s where s: "mime_parameter_is_static p = Some s"
    using is_static_loop_some[OF ty] unfolding mime_parameter_is_static_def by blast
  have lt: "mp_ptime p < 10 ^ 9" "mp_max_ptime p < 10 ^ 9" using assms(1) by (auto simp: plain_mime_def)
  have cleared: "tl (time_lines n k) = []" for n k by (simp add: time_lines_def)
  let ?d1 = "d\<lparr>md_media := Some (media\<lparr>me_formats := me_formats media @ [mp_media_format p]\<rparr>)\<rparr>"
  let ?d2 = "belle_sdp_base_description_remove_attribute ?d1 ''ptime''"
  have t: "attribute_as_int ?d1 ''ptime'' 0 = t" "attribute_as_int ?d2 ''maxptime'' 0 = m"
    using time_read[of "''ptime''" ?d1 t 0] time_read[of "''maxptime''" ?d2 m 0] assms(3-8) by auto
  show ?thesis
    unfolding belle_sdp_media_description_append_values_from_mime_parameter_def assms(2) Let_def bind.bind_lunit
      t s plain_rtpmap_text[OF assms(1)]
    using assms(3-8) lt
    by (cases s; cases "mp_parameters p")
      (auto simp: s pt_lines_def rtpmap_value_def plain_fmtp_text[OF assms(1), simplified] cleared named_set_greater)
qed


lemma append_all:
  assumes "list_all (plain_mime a) ps" "md_media d = Some media"
    and "named ''ptime'' d = time_lines ''ptime'' t" "named ''maxptime'' d = time_lines ''maxptime'' m"
    and "0 \<le> t" "t < 10 ^ 9" "0 \<le> m" "m < 10 ^ 9"
  shows "\<exists>d'. append_mime_parameters d ps = Some d'
    \<and> md_media d' = Some (media\<lparr>me_formats := me_formats media @ map mp_media_format ps\<rparr>)
    \<and> named ''rtpmap'' d' = named ''rtpmap'' d @ concat (map (pt_lines ''rtpmap'' rtpmap_value) ps)
    \<and> named ''fmtp'' d' = named ''fmtp'' d @ concat (map (pt_lines ''fmtp'' mp_parameters) ps)
    \<and> named ''ptime'' d' = time_lines ''ptime'' (foldl max t (map mp_ptime ps))
    \<and> named ''maxptime'' d' = time_lines ''maxptime'' (foldl max m (map mp_max_ptime ps))"
  using assms
proof (induction ps arbitrary: d media t m)
  case (Cons p ps)
  have p: "plain_mime a p" "list_all (plain_mime a) ps" using Cons.prems(1) by auto
  obtain d1 where d1: "belle_sdp_media_description_append_values_from_mime_parameter d p = Some d1"
    "md_media d1 = Some (media\<lparr>me_formats := me_formats media @ [mp_media_format p]\<rparr>)"
    "named ''rtpmap'' d1 = named ''rtpmap'' d @ pt_lines ''rtpmap'' rtpmap_value p"
    "named ''fmtp'' d1 = named ''fmtp'' d @ pt_lines ''fmtp'' mp_parameters p"
    "named ''ptime'' d1 = time_lines ''ptime'' (max t (mp_ptime p))"
    "named ''maxptime'' d1 = time_lines ''maxptime'' (max m (mp_max_ptime p))"
    using append_one[OF p(1) Cons.prems(2-)] by blast
  have "max t (mp_ptime p) < 10 ^ 9" "max m (mp_max_ptime p) < 10 ^ 9" "0 \<le> max t (mp_ptime p)" "0 \<le> max m (mp_max_ptime p)"
    using p(1) Cons.prems(5-8) by (auto simp: plain_mime_def)
  from Cons.IH[OF p(2) d1(2,5,6) this(3,1,4,2)] d1 show ?case by auto
qed simp

lemma attr_with_pt_lines:
  assumes "distinct (map mp_media_format ps)" "\<forall>p \<in> set ps. 0 \<le> mp_media_format p"
    and "\<forall>p \<in> set ps. \<forall>s. v p = Some s \<longrightarrow> s \<noteq> [] \<and> skip_space s = s"
  shows "p \<in> set ps \<Longrightarrow> attr_with_pt (concat (map (pt_lines field v) ps)) (mp_media_format p) field = v p"
    and "f \<notin> mp_media_format ` set ps \<Longrightarrow> attr_with_pt (concat (map (pt_lines field v) ps)) f field = None"
proof -
  have step: "attr_with_pt (pt_lines field v q @ l) f field
      = (if f = mp_media_format q \<and> v q \<noteq> None then v q else attr_with_pt l f field)"
    if "q \<in> set ps" for q l f
    using that assms(2,3) scan_pt_text[of "mp_media_format q"] value_of_number[of "mp_media_format q" field]
    by (fastforce simp: pt_lines_def split: option.splits)
  have none: "f \<notin> mp_media_format ` set qs \<Longrightarrow> set qs \<subseteq> set ps
      \<Longrightarrow> attr_with_pt (concat (map (pt_lines field v) qs)) f field = None" for qs f
    by (induction qs) (auto simp: step)
  then show "f \<notin> mp_media_format ` set ps \<Longrightarrow> attr_with_pt (concat (map (pt_lines field v) ps)) f field = None"
    by blast
  have "set qs \<subseteq> set ps \<Longrightarrow> distinct (map mp_media_format qs) \<Longrightarrow> p \<in> set qs
      \<Longrightarrow> attr_with_pt (concat (map (pt_lines field v) qs)) (mp_media_format p) field = v p" for qs
  proof (induction qs)
    case (Cons q qs)
    show ?case
    proof (cases "p = q")
      case True
      then show ?thesis using Cons.prems none[of "mp_media_format q" qs] by (auto simp: step)
    next
      case False
      then have p: "p \<in> set qs" using Cons.prems by simp
      then have "mp_media_format p \<in> mp_media_format ` set qs" by (rule imageI)
      then have "mp_media_format p \<noteq> mp_media_format q" using Cons.prems(2) by auto
      with p show ?thesis using Cons by (simp add: step)
    qed
  qed simp
  then show "p \<in> set ps \<Longrightarrow> attr_with_pt (concat (map (pt_lines field v) ps)) (mp_media_format p) field = v p"
    using assms(1) by blast
qed

section \<open>What is read\<close>

lemma cut_at_slash_append:
  "CHR ''/'' \<notin> set s \<Longrightarrow> cut_at_slash (s @ t) = (s @ fst (cut_at_slash t), snd (cut_at_slash t))"
  unfolding cut_at_slash_def Let_def
  by (simp add: takeWhile_append dropWhile_append) (metis (mono_tags))

lemma cut_at_slash_here [simp]: "cut_at_slash (CHR ''/'' # t) = ([], Some t)" "cut_at_slash [] = ([], None)"
  by (simp_all add: cut_at_slash_def)

lemma no_slash: "CHR ''/'' \<notin> set (int_text i)"
proof -
  have "CHR ''/'' \<notin> set (decimal n)" for n
    using decimal_digits[of n] by (auto simp: list_all_iff is_digit_def)
  then show ?thesis by (simp add: int_text_def)
qed

lemma fill_from_rtpmap_of:
  assumes "mp_type p = Some t" "CHR ''/'' \<notin> set t"
  shows "mime_parameter_fill_from_rtpmap q (rtpmap_of p) a
    = q\<lparr>mp_channel_count := (if 1 < mp_channel_count p then mp_channel_count p else if a then 1 else mp_channel_count q),
        mp_rate := mp_rate p, mp_type := Some t\<rparr>"
  using assms
  by (simp add: mime_parameter_fill_from_rtpmap_def rtpmap_of_def cut_at_slash_append no_slash atoi_int_text
      cut_at_slash_append[OF no_slash, of _ "[]", simplified])

text \<open>A static payload type has a number of its own; its name is read as the table has it.\<close>

lemma static_numbers: "distinct (map fst static_payload_list)"
  by code_simp

lemma is_static_loop_found:
  assumes "is_static_loop p l = Some True" "distinct (map fst l)"
  shows "\<exists>t. find (\<lambda>(number, _). number = mp_media_format p) l = Some (mp_media_format p, mp_channel_count p, t, mp_rate p)"
  using assms
proof (induction l)
  case (Cons e l)
  obtain number channels type rate where e: "e = (number, channels, type, rate)" by (cases e)
  have none: "is_static_loop p l \<noteq> Some True" if "mp_media_format p \<notin> fst ` set l"
  proof -
    have "is_static_loop p l = Some False" using that by (induction l) (auto simp: prod.case_eq_if)
    then show ?thesis by simp
  qed
  show ?case using Cons none unfolding e by (auto split: if_splits option.splits)
qed simp

text \<open>The name of a payload type that is read, and the greatest of the times, or -1 when none is positive.\<close>

definition read_type :: "sdp_mime_parameter \<Rightarrow> string option" where
  "read_type p = (if mime_parameter_is_static p = Some True
     then map_option (\<lambda>(_, _, type, _). type) (find (\<lambda>(number, _). number = mp_media_format p) static_payload_list)
     else mp_type p)"

definition greatest_time :: "int list \<Rightarrow> int" where
  "greatest_time l = (let m = foldl max 0 l in if 0 < m then m else - 1)"

lemma plain_values:
  assumes "plain_mime a p"
  shows "rtpmap_value p = Some s \<Longrightarrow> s \<noteq> [] \<and> skip_space s = s"
    and "mp_parameters p = Some s \<Longrightarrow> s \<noteq> [] \<and> skip_space s = s"
proof -
  have slash: "\<not> is_space (CHR ''/'')" by code_simp
  obtain t where t: "mp_type p = Some t" "skip_space t = t" using assms by (auto simp: plain_mime_def split: option.splits)
  have "skip_space (t @ CHR ''/'' # u) = t @ CHR ''/'' # u" for u
  proof (cases t)
    case (Cons c cs)
    have "\<not> is_space c"
    proof
      assume "is_space c"
      then have "length (skip_space t) \<le> length cs" using Cons by (simp add: skip_space_def length_dropWhile_le)
      with t(2) Cons show False by simp
    qed
    with Cons show ?thesis by (simp add: skip_space_def)
  qed (use slash in \<open>simp add: skip_space_def\<close>)
  then show "rtpmap_value p = Some s \<Longrightarrow> s \<noteq> [] \<and> skip_space s = s"
    using t(1) by (auto simp: rtpmap_value_def rtpmap_of_def split: if_splits)
  show "mp_parameters p = Some s \<Longrightarrow> s \<noteq> [] \<and> skip_space s = s"
    using assms by (auto simp: plain_mime_def)
qed

lemma mime_read:
  assumes "plain_mime a p"
    and "attr_with_pt (bd_attributes d) (mp_media_format p) ''rtpmap'' = rtpmap_value p"
    and "attr_with_pt (bd_attributes d) (mp_media_format p) ''fmtp'' = mp_parameters p"
  shows "mime_of_format d a t m (mp_media_format p) = p\<lparr>mp_type := read_type p, mp_ptime := t, mp_max_ptime := m\<rparr>"
proof (cases "mime_parameter_is_static p = Some True")
  case True
  then obtain n where n: "find (\<lambda>(number, _). number = mp_media_format p) static_payload_list
      = Some (mp_media_format p, mp_channel_count p, n, mp_rate p)"
    using is_static_loop_found[OF _ static_numbers] unfolding mime_parameter_is_static_def by blast
  show ?thesis
    using True n assms(2,3)
    by (cases "mp_parameters p")
      (simp_all add: mime_of_format_def belle_sdp_media_description_a_attr_value_get_with_pt_def rtpmap_value_def read_type_def
        mime_parameter_fill_from_static_def belle_sdp_mime_parameter_new_def Let_def)
next
  case False
  obtain n where n: "mp_type p = Some n" "CHR ''/'' \<notin> set n" using assms(1) by (auto simp: plain_mime_def split: option.splits)
  have "mp_channel_count p = (if a then 1 else 0) \<or> 2 \<le> mp_channel_count p" using assms(1) False by (simp add: plain_mime_def)
  then show ?thesis
    using False assms(2,3) n
    by (cases "mp_parameters p")
      (auto simp: mime_of_format_def belle_sdp_media_description_a_attr_value_get_with_pt_def rtpmap_value_def read_type_def
        fill_from_rtpmap_of[OF n] belle_sdp_mime_parameter_new_def Let_def)
qed

text \<open>C33. Payload types with different numbers, put one after the other in a media description that has none and no
  attribute of theirs, are read back from it in the same order, static types by their numbers: with names, rates,
  channels and parameters as they were, a static name as the table writes it, and as times the greatest ones.\<close>

theorem mime_parameters_roundtrip:
  assumes "md_media d = Some media" "me_type media = Some t" "me_formats media = []"
    and "\<forall>a \<in> set (bd_attributes d). at_name a \<notin> {''rtpmap'', ''fmtp'', ''ptime'', ''maxptime''}"
    and "list_all (plain_mime (strcaseeq t ''audio'')) ps" "distinct (map mp_media_format ps)"
  shows "\<exists>d'. append_mime_parameters d ps = Some d'
    \<and> belle_sdp_media_description_build_mime_parameters d' = Some (map (\<lambda>p. p\<lparr>mp_type := read_type p,
        mp_ptime := greatest_time (map mp_ptime ps), mp_max_ptime := greatest_time (map mp_max_ptime ps)\<rparr>) ps)"
proof -
  let ?a = "strcaseeq t ''audio''"
  have clean: "named n d = []" if "n \<in> {''rtpmap'', ''fmtp'', ''ptime'', ''maxptime''}" for n
    using that assms(4) unfolding named_def by (auto simp: filter_empty_conv)
  then obtain d' where d': "append_mime_parameters d ps = Some d'"
    "md_media d' = Some (media\<lparr>me_formats := map mp_media_format ps\<rparr>)"
    "named ''rtpmap'' d' = concat (map (pt_lines ''rtpmap'' rtpmap_value) ps)"
    "named ''fmtp'' d' = concat (map (pt_lines ''fmtp'' mp_parameters) ps)"
    "named ''ptime'' d' = time_lines ''ptime'' (foldl max 0 (map mp_ptime ps))"
    "named ''maxptime'' d' = time_lines ''maxptime'' (foldl max 0 (map mp_max_ptime ps))"
    using append_all[OF assms(5,1), of 0 0] assms(3) by (auto simp: time_lines_def)
  have plain: "plain_mime ?a p" if "p \<in> set ps" for p using assms(5) that by (simp add: list_all_iff)
  then have nat: "\<forall>p \<in> set ps. 0 \<le> mp_media_format p" by (auto simp: plain_mime_def)
  have "mime_of_format d' ?a u m (mp_media_format p) = p\<lparr>mp_type := read_type p, mp_ptime := u, mp_max_ptime := m\<rparr>"
    if p: "p \<in> set ps" for p u m
  proof (rule mime_read[OF plain[OF p]])
    show "attr_with_pt (bd_attributes d') (mp_media_format p) ''rtpmap'' = rtpmap_value p"
      using attr_with_pt_lines(1)[OF assms(6) nat _ p, of rtpmap_value "''rtpmap''"] plain_values(1)[OF plain]
      by (subst attr_with_pt_filter) (simp add: d'(3)[unfolded named_def])
    show "attr_with_pt (bd_attributes d') (mp_media_format p) ''fmtp'' = mp_parameters p"
      using attr_with_pt_lines(1)[OF assms(6) nat _ p, of mp_parameters "''fmtp''"] plain_values(2)[OF plain]
      by (subst attr_with_pt_filter) (simp add: d'(4)[unfolded named_def])
  qed
  then show ?thesis
    using d' assms(2) time_read[OF d'(5)] time_read[OF d'(6)]
    by (auto simp: belle_sdp_media_description_build_mime_parameters_def greatest_time_def Let_def)
qed


definition audio_sample :: sdp_media_description where
  "audio_sample = belle_sdp_media_description_create (Some ''audio'') 7078 1 (Some ''RTP/AVP'') []"

definition mimes_sample :: "sdp_mime_parameter list" where
  "mimes_sample =
     [(belle_sdp_mime_parameter_create (Some ''opus'') 96 48000 2)\<lparr>mp_parameters := Some ''useinbandfec=1'', mp_ptime := 20\<rparr>,
      belle_sdp_mime_parameter_create (Some ''pcmu'') 0 8000 1,
      (belle_sdp_mime_parameter_create (Some ''speex'') 97 16000 1)\<lparr>mp_ptime := 40\<rparr>]"

theorem mime_parameters_roundtrip_witness:
  "\<exists>d'. append_mime_parameters audio_sample mimes_sample = Some d'
    \<and> belle_sdp_media_description_build_mime_parameters d' = Some
      [(belle_sdp_mime_parameter_create (Some ''opus'') 96 48000 2)\<lparr>mp_parameters := Some ''useinbandfec=1'', mp_ptime := 40\<rparr>,
       (belle_sdp_mime_parameter_create (Some ''PCMU'') 0 8000 1)\<lparr>mp_ptime := 40\<rparr>,
       (belle_sdp_mime_parameter_create (Some ''speex'') 97 16000 1)\<lparr>mp_ptime := 40\<rparr>]"
proof -
  have "list_all (plain_mime (strcaseeq ''audio'' ''audio'')) mimes_sample" "distinct (map mp_media_format mimes_sample)"
    by (simp_all add: mimes_sample_def plain_mime_def rtpmap_of_def MAX_FMTP_LENGTH_def
        belle_sdp_mime_parameter_create_def belle_sdp_mime_parameter_new_def skip_space_def is_space_def int_text_def
        decimal.simps strcaseeq_refl)
  moreover have "md_media audio_sample = Some (belle_sdp_media_create (Some ''audio'') 7078 1 (Some ''RTP/AVP'') [])"
    by (simp add: audio_sample_def belle_sdp_media_description_create_def)
  ultimately have "\<exists>d'. append_mime_parameters audio_sample mimes_sample = Some d'
    \<and> belle_sdp_media_description_build_mime_parameters d' = Some (map (\<lambda>p. p\<lparr>mp_type := read_type p,
        mp_ptime := greatest_time (map mp_ptime mimes_sample), mp_max_ptime := greatest_time (map mp_max_ptime mimes_sample)\<rparr>)
        mimes_sample)"
    by (intro mime_parameters_roundtrip[where t = "''audio''" and media = "belle_sdp_media_create (Some ''audio'') 7078 1 (Some ''RTP/AVP'') []"]) (simp_all add: belle_sdp_media_create_def audio_sample_def belle_sdp_media_description_create_def)
  moreover have "map (\<lambda>p. p\<lparr>mp_type := read_type p, mp_ptime := greatest_time (map mp_ptime mimes_sample),
        mp_max_ptime := greatest_time (map mp_max_ptime mimes_sample)\<rparr>) mimes_sample =
      [(belle_sdp_mime_parameter_create (Some ''opus'') 96 48000 2)\<lparr>mp_parameters := Some ''useinbandfec=1'', mp_ptime := 40\<rparr>,
       (belle_sdp_mime_parameter_create (Some ''PCMU'') 0 8000 1)\<lparr>mp_ptime := 40\<rparr>,
       (belle_sdp_mime_parameter_create (Some ''speex'') 97 16000 1)\<lparr>mp_ptime := 40\<rparr>]"
    by code_simp
  ultimately show ?thesis by simp
qed

section \<open>What is lost\<close>

text \<open>A copy of an attribute is written as the attribute was exactly when its syntax is its own, or it has a value that does
  not start with a space: a flag such as \<open>a=sendrecv\<close> becomes \<open>a=sendrecv:\<close>.\<close>

lemma attribute_clone_text:
  "concat (attribute_pieces (belle_sdp_attribute_clone a)) = concat (attribute_pieces a)
    \<longleftrightarrow> (case at_value a of Raw_value None \<Rightarrow> False | Raw_value (Some s) \<Rightarrow> take 1 s \<noteq> '' '' | _ \<Rightarrow> True)"
proof (cases "at_value a")
  case (Raw_value v)
  then obtain n where a: "a = \<lparr>at_name = n, at_value = Raw_value v\<rparr>" by (cases a) simp
  have "dropWhile (\<lambda>c. c = CHR '' '') s = s \<longleftrightarrow> take 1 s \<noteq> '' ''" for s
    using length_dropWhile_le[of "\<lambda>c. c = CHR '' ''" "tl s"] by (cases s) (auto dest!: arg_cong[of _ _ length])
  then show ?thesis
    unfolding a by (cases v) (simp_all add: belle_sdp_attribute_clone_def raw_value attribute_pieces_def
        belle_sdp_raw_attribute_marshal_def belle_sdp_attribute_marshal_def)
qed (simp_all add: belle_sdp_attribute_clone_def attribute_pieces_def)

lemma attribute_always_has_value: "belle_sdp_attribute_has_value a"
  by (simp add: belle_sdp_attribute_has_value_def)

text \<open>A number of a session from \<open>2^31\<close> on is written as a negative number.\<close>

lemma large_session_id_negative:
  assumes "2 ^ 31 \<le> uint (or_session_id x)" "or_username x = Some u" "or_network_type x = Some n"
    "or_address_type x = Some t" "or_address x = Some h"
  shows "belle_sdp_origin_marshal x = [Some (''o='' @ u @ '' -'' @ decimal (nat (2 ^ 32 - uint (or_session_id x)))
    @ '' '' @ int_text (sint (or_session_version x)) @ '' '' @ n @ '' '' @ t @ '' '' @ h)]"
proof -
  have "sint w = uint w - 2 ^ 32" if "2 ^ 31 \<le> uint w" for w :: "32 word"
  proof -
    have "uint w div 2 ^ 31 = 1" "take_bit 32 (uint w) = uint w"
      using that uint_bounded[of w] by (simp_all add: take_bit_int_eq_self)
    then have "bit (uint w) 31" by (simp add: bit_iff_odd)
    then show ?thesis
      using \<open>take_bit 32 (uint w) = uint w\<close> by (simp add: sint_uint signed_take_bit_eq_take_bit_minus)
  qed
  then show ?thesis
    using assms uint_bounded[of "or_session_id x"] by (simp add: belle_sdp_origin_marshal_def int_text_def)
qed

definition session_sample :: sdp_session_description where
  "session_sample = \<lparr>bd_info = None, bd_connection = None, bd_bandwidths = [],
     bd_attributes = [belle_sdp_raw_attribute_create ''sendrecv'' None], sd_version = Some 0, sd_emails = [Some ''a@b.c''],
     sd_origin = Some (belle_sdp_origin_create (Some ''bob'') 1 1 (Some ''IN'') (Some ''IP4'') (Some ''h'')),
     sd_session_name = Some (Some ''x''), sd_times = [], sd_media_descriptions = []\<rparr>"

text \<open>Without a time, \<open>t=\<close> stands before the next line; a second time has a line with no field. Emails are not written.\<close>

lemma times_text:
  "map_option concat (those (belle_sdp_session_description_marshal session_sample))
    = Some (''v=0'' @ line_end @ ''o=bob 1 1 IN IP4 h'' @ line_end @ ''s=x'' @ line_end @ ''t=a=sendrecv'' @ line_end)"
  "map_option concat (those (belle_sdp_session_description_marshal
      (session_sample\<lparr>sd_times := [belle_sdp_time_description_create 1 2, belle_sdp_time_description_create 3 4]\<rparr>)))
    = Some (''v=0'' @ line_end @ ''o=bob 1 1 IN IP4 h'' @ line_end @ ''s=x'' @ line_end @ ''t=1 2'' @ line_end @ ''3 4'' @ line_end @ ''a=sendrecv'' @ line_end)"
  by code_simp+

section \<open>Bandwidths\<close>

text \<open>When each bandwidth has a type of its own, they are a store of numbers by type.\<close>

definition bandwidths_by_type :: "'a sdp_base_description_scheme \<Rightarrow> bool" where
  "bandwidths_by_type d \<longleftrightarrow> distinct (map bw_type (bd_bandwidths d)) \<and> None \<notin> bw_type ` set (bd_bandwidths d)"

definition has_bandwidth :: "'a sdp_base_description_scheme \<Rightarrow> string \<Rightarrow> bool" where
  "has_bandwidth d t \<longleftrightarrow> Some t \<in> bw_type ` set (bd_bandwidths d)"

lemma find_bandwidth_index:
  "None \<notin> bw_type ` set l \<Longrightarrow> find_bandwidth t l = Some (find_index (\<lambda>b. bw_type b = Some t) l)"
  by (induction l) (auto split: option.splits)

lemma find_index_at:
  "find_index P l = Some i \<Longrightarrow> \<exists>x. l = take i l @ x # drop (Suc i) l \<and> l ! i = x \<and> P x \<and> i < length l"
  using find_index_Some[of P l i] by (auto simp: id_take_nth_drop)


definition put_bandwidth :: "'a sdp_base_description_scheme \<Rightarrow> string \<Rightarrow> int \<Rightarrow> 'a sdp_base_description_scheme" where
  "put_bandwidth d t v = the (belle_sdp_base_description_set_bandwidth d t v)"

definition del_bandwidth :: "'a sdp_base_description_scheme \<Rightarrow> string \<Rightarrow> 'a sdp_base_description_scheme" where
  "del_bandwidth d t = the (belle_sdp_base_description_remove_bandwidth d t)"

text \<open>The lists that the operations make, by the place of the bandwidth.\<close>

lemma bandwidth_cases:
  assumes "bandwidths_by_type d"
  obtains (Found) l b m where "bd_bandwidths d = l @ b # m" "bw_type b = Some t" "Some t \<notin> bw_type ` set (l @ m)"
      "find_bandwidth t (bd_bandwidths d) = Some (Some (length l))"
    | (Missing) "Some t \<notin> bw_type ` set (bd_bandwidths d)" "find_bandwidth t (bd_bandwidths d) = Some None"
proof (cases "find_index (\<lambda>b. bw_type b = Some t) (bd_bandwidths d)")
  case None
  then have "Some t \<notin> bw_type ` set (bd_bandwidths d)" by (auto simp: find_index_None)
  then show thesis
    using assms Missing None find_bandwidth_index[of "bd_bandwidths d" t] by (simp add: bandwidths_by_type_def)
next
  case (Some i)
  from find_index_at[OF this] obtain b where b: "bd_bandwidths d = take i (bd_bandwidths d) @ b # drop (Suc i) (bd_bandwidths d)"
    "bw_type b = Some t" "i < length (bd_bandwidths d)" by blast
  have "distinct (map bw_type (take i (bd_bandwidths d) @ b # drop (Suc i) (bd_bandwidths d)))"
    using assms b(1) unfolding bandwidths_by_type_def by simp
  then have "Some t \<notin> bw_type ` set (take i (bd_bandwidths d) @ drop (Suc i) (bd_bandwidths d))"
    using b(2) by (auto simp: image_iff)
  then show thesis
    using Found[OF b(1,2)] Some b(3) assms find_bandwidth_index[of "bd_bandwidths d" t]
    by (auto simp: bandwidths_by_type_def)
qed

lemma put_bandwidth_list:
  assumes "bandwidths_by_type d"
  shows "(\<exists>l b m. bd_bandwidths d = l @ b # m \<and> bw_type b = Some t \<and> Some t \<notin> bw_type ` set (l @ m)
        \<and> bd_bandwidths (put_bandwidth d t v) = l @ b\<lparr>bw_value := v\<rparr> # m \<and> bd_bandwidths (del_bandwidth d t) = l @ m)
    \<or> Some t \<notin> bw_type ` set (bd_bandwidths d) \<and> bd_bandwidths (del_bandwidth d t) = bd_bandwidths d
        \<and> bd_bandwidths (put_bandwidth d t v) = bd_bandwidths d @ [\<lparr>bw_type = Some t, bw_value = v\<rparr>]"
  using assms
proof (cases rule: bandwidth_cases[of d t])
  case (Found l b m)
  then have "bd_bandwidths (put_bandwidth d t v) = l @ b\<lparr>bw_value := v\<rparr> # m \<and> bd_bandwidths (del_bandwidth d t) = l @ m"
    by (simp add: put_bandwidth_def del_bandwidth_def belle_sdp_base_description_set_bandwidth_def
        belle_sdp_base_description_remove_bandwidth_def)
  with Found show ?thesis by blast
next
  case Missing
  then show ?thesis
    by (simp add: put_bandwidth_def del_bandwidth_def belle_sdp_base_description_set_bandwidth_def
        belle_sdp_base_description_remove_bandwidth_def)
qed

definition read_bandwidth :: "'a sdp_base_description_scheme \<Rightarrow> string \<Rightarrow> int" where
  "read_bandwidth d t = the (belle_sdp_base_description_get_bandwidth_value d t)"

lemma read_bandwidth_map:
  assumes "bandwidths_by_type d"
  shows "read_bandwidth d t
    = (case map_of (map (\<lambda>b. (bw_type b, bw_value b)) (bd_bandwidths d)) (Some t) of None \<Rightarrow> - 1 | Some v \<Rightarrow> v)"
proof -
  have found: "None \<notin> bw_type ` set l \<Longrightarrow> map_option (\<lambda>i. case i of None \<Rightarrow> - 1 | Some i \<Rightarrow> bw_value (l ! i)) (find_bandwidth t l)
      = Some (case map_of (map (\<lambda>b. (bw_type b, bw_value b)) l) (Some t) of None \<Rightarrow> - 1 | Some v \<Rightarrow> v)" for l
    by (induction l) (auto simp: find_bandwidth_index split: option.splits)
  have "None \<notin> bw_type ` set (bd_bandwidths d)" using assms by (simp add: bandwidths_by_type_def)
  from found[OF this] show ?thesis
    unfolding read_bandwidth_def belle_sdp_base_description_get_bandwidth_value_def by (simp only: option.sel)
qed

lemma bandwidth_absent: "Some t \<notin> bw_type ` set l \<Longrightarrow> map_of (map (\<lambda>b. (bw_type b, bw_value b)) l) (Some t) = None"
  by (induction l) auto

interpretation bw: assoc_store bandwidths_by_type has_bandwidth read_bandwidth put_bandwidth del_bandwidth
proof unfold_locales
  fix d :: "'a sdp_base_description_scheme" and k k' :: string and v :: int
  assume d: "bandwidths_by_type d"
  let ?put = "put_bandwidth d k v" and ?del = "del_bandwidth d k"
  note cases = put_bandwidth_list[OF d, of k v]
  show put: "bandwidths_by_type ?put" and del: "bandwidths_by_type ?del"
    using d cases by (auto simp: bandwidths_by_type_def)
  show "has_bandwidth ?put k' \<longleftrightarrow> k = k' \<or> has_bandwidth d k'" "has_bandwidth ?del k' \<longleftrightarrow> k \<noteq> k' \<and> has_bandwidth d k'"
    using cases by (auto simp: has_bandwidth_def image_iff)
  show "read_bandwidth ?put k' = (if k = k' then v else read_bandwidth d k')"
    "k \<noteq> k' \<Longrightarrow> read_bandwidth ?del k' = read_bandwidth d k'"
    using cases unfolding read_bandwidth_map[OF put] read_bandwidth_map[OF del] read_bandwidth_map[OF d]
    by (auto simp: map_add_def bandwidth_absent image_Un split: option.splits)
qed

end
