(* ===== verification/Http.thy ===== *)
theory Http
  imports AuthHelper UriText
begin

text \<open>
  HTTP on the same channels (\<^verbatim>\<open>src/http-provider.c\<close>, \<^verbatim>\<open>src/http-message.c\<close>): the requests, the context of a channel, which
  holds the requests sent on it and not answered yet, and the provider with its channels. Of a channel this
  theory keeps what the provider reads and changes; what a channel does by itself (taking a message from its queue, reading
  a response, failing, being freed) are inputs, in any order. Putting a message in the queue of a channel is the last thing
  \<open>belle_http_provider_send_request\<close> does, so what the channel does with it at once are inputs that follow.
  The application answers a request for credentials and does nothing else in its callbacks; they are written to
  \<open>hw_told\<close>. Reference counts are left out: a request and a channel live as long as an input names them, and
  an input may free a channel that the provider does not list. A result None is a crash.
\<close>

section \<open>Requests and responses\<close>

text \<open>The headers that the provider reads or adds; the URI of HTTP credentials is a generic one.\<close>

datatype http_value =
    Http_text "string option"
  | is_length: Http_length int
  | Http_credentials auth_header "generic_uri option"

type_synonym http_headers = "(string \<times> http_value) list"

record http_response =
  hs_status_code :: int
  hs_reason_phrase :: "string option"
  hs_www_authenticate :: "www_authenticate option"
  hs_connection :: "string option"

record http_request =
  hr_method :: "string option"
  hr_uri :: generic_uri
  hr_headers :: http_headers
  hr_body_size :: nat
  hr_listener :: bool
  hr_orig_uri :: "generic_uri option"
  hr_response :: "http_response option"
  hr_channel :: "nat option"
  hr_auth_attempt_count :: nat
  hr_background_task_id :: nat
  hr_cancelled :: bool

definition belle_http_request_create :: "string option \<Rightarrow> generic_uri \<Rightarrow> http_headers \<Rightarrow> nat \<Rightarrow> http_request" where
  "belle_http_request_create method url headers body_size =
     \<lparr>hr_method = method, hr_uri = url, hr_headers = headers, hr_body_size = body_size, hr_listener = False, hr_orig_uri = None,
      hr_response = None, hr_channel = None, hr_auth_attempt_count = 0, hr_background_task_id = 0, hr_cancelled = False\<rparr>"

definition belle_http_request_cancel :: "http_request \<Rightarrow> http_request" where
  "belle_http_request_cancel req = req\<lparr>hr_cancelled := True\<rparr>"

text \<open>
  Adding and removing headers as the containers of a message do; removing the container that is first in the message
  leaves a pointer to freed memory.
\<close>

definition http_add_header :: "http_headers \<Rightarrow> string \<Rightarrow> http_value \<Rightarrow> http_headers" where
  "http_add_header hs name v = hs @ [(name, v)]"

definition http_remove_header :: "http_headers \<Rightarrow> string \<Rightarrow> http_headers option" where
  "http_remove_header hs name =
     (if hs \<noteq> [] \<and> strcaseeq (fst (hd hs)) name then None
      else Some (filter (\<lambda>(n, _). \<not> strcaseeq n name) hs))"

section \<open>Credentials\<close>

text \<open>\<open>belle_sip_auth_helper_fill_authorization\<close> on the header of HTTP, whose URI is written by \<open>uri_to_string\<close>.\<close>

definition http_fill_authorization ::
  "(generic_uri \<Rightarrow> string) \<Rightarrow> 16 word \<Rightarrow> auth_header \<Rightarrow> generic_uri option \<Rightarrow> string option \<Rightarrow> string \<Rightarrow> (auth_header \<times> bool) option" where
  "http_fill_authorization uri_to_string address a uri method ha1 =
     (if auth_scheme a \<noteq> None \<and> auth_scheme a \<noteq> Some ''Digest''
        \<or> auth_qop a \<noteq> None \<and> auth_qop a \<noteq> Some ''auth''
        \<or> auth_realm a = None \<or> auth_nonce a = None \<or> uri = None
        \<or> auth_qop a = Some ''auth'' \<and> auth_nonce_count a = 0
      then Some (a, False)
      else let a = with_cnonce address a in
        case method of None \<Rightarrow> Some (a, False)
        | Some method \<Rightarrow> do {
            uri \<leftarrow> uri; nonce \<leftarrow> auth_nonce a;
            let ha2 = belle_sip_auth_helper_compute_ha2 method (uri_to_string uri);
            response \<leftarrow> (case auth_qop a of
                None \<Rightarrow> Some (belle_sip_auth_helper_compute_response ha1 nonce ha2)
              | Some qop \<Rightarrow> do {
                  cnonce \<leftarrow> auth_cnonce a;
                  Some (belle_sip_auth_helper_compute_response_qop_auth ha1 nonce
                    (word_of_int (auth_nonce_count a)) cnonce qop ha2) });
            Some (a\<lparr>auth_response := Some response\<rparr>, True) })"

definition belle_http_auth_helper_create_authorization :: "www_authenticate \<Rightarrow> auth_header" where
  "belle_http_auth_helper_create_authorization c = belle_sip_auth_helper_clone_authorization authorization_new c"

section \<open>The world of a provider\<close>

record http_channel =
  hc_transport :: string
  hc_peer_cname :: "string option"
  hc_peer_name :: string
  hc_peer_port :: int
  hc_srv_overrides_port :: bool
  hc_about_to_be_closed :: bool
  hc_force_close :: bool
  hc_outgoing_messages :: "nat list"
  hc_pending_requests :: "nat list"

datatype http_event = Told_headers nat http_response | Told_response nat http_response | Told_auth nat | Told_io_error nat

record http_world =
  hw_requests :: "nat \<Rightarrow> http_request option"
  hw_channels :: "nat \<Rightarrow> http_channel option"
  hw_tcp_channels :: "nat list"
  hw_tls_channels :: "nat list"
  hw_next :: nat
  hw_told :: "http_event list"

text \<open>
  What is outside: the user name, password and hash that the application gives for a realm, whether the numeric address
  of a hop is that of a channel, the text of a URI, the address of a header, whether TLS is built in, and the
  background tasks of the system.
\<close>

record http_env =
  he_credentials :: "nat \<Rightarrow> string option \<Rightarrow> string option \<times> string option \<times> string option"
  he_same_address :: "hop \<Rightarrow> nat \<Rightarrow> bool"
  he_uri_text :: "generic_uri \<Rightarrow> string"
  he_address :: "nat \<Rightarrow> 16 word"
  he_tls :: bool
  he_begin_task :: "nat \<Rightarrow> nat"

definition upd_req :: "http_world \<Rightarrow> nat \<Rightarrow> (http_request \<Rightarrow> http_request) \<Rightarrow> http_world option" where
  "upd_req w r f = (case hw_requests w r of None \<Rightarrow> None | Some x \<Rightarrow> Some (w\<lparr>hw_requests := (hw_requests w)(r \<mapsto> f x)\<rparr>))"

definition upd_hchan :: "http_world \<Rightarrow> nat \<Rightarrow> (http_channel \<Rightarrow> http_channel) \<Rightarrow> http_world option" where
  "upd_hchan w c f = (case hw_channels w c of None \<Rightarrow> None | Some x \<Rightarrow> Some (w\<lparr>hw_channels := (hw_channels w)(c \<mapsto> f x)\<rparr>))"

text \<open>\<open>BELLE_HTTP_REQUEST_INVOKE_LISTENER\<close>: nothing without a listener.\<close>

definition tell_request :: "http_world \<Rightarrow> nat \<Rightarrow> http_event \<Rightarrow> http_world option" where
  "tell_request w r ev = (case hw_requests w r of None \<Rightarrow> None
     | Some x \<Rightarrow> Some (if hr_listener x then w\<lparr>hw_told := hw_told w @ [ev]\<rparr> else w))"

definition end_background_task :: "http_world \<Rightarrow> nat \<Rightarrow> http_world option" where
  "end_background_task w r = upd_req w r (\<lambda>x. x\<lparr>hr_background_task_id := 0\<rparr>)"

section \<open>Sending a request\<close>

definition belle_sip_hop_new_from_generic_uri :: "generic_uri \<Rightarrow> hop option" where
  "belle_sip_hop_new_from_generic_uri uri = do {
     scheme \<leftarrow> gu_scheme uri;
     let (transport, well_known_port) =
       (if strcaseeq scheme ''http'' then (''TCP'', 80) else if strcaseeq scheme ''https'' then (''TLS'', 443) else (''TCP'', 0));
     Some (belle_sip_hop_new (Some transport) (gu_host uri) (gu_host uri) (if 0 < gu_port uri then gu_port uri else well_known_port)) }"

text \<open>The list of the channels of a transport; NULL for another one.\<close>

definition provider_get_channels :: "http_world \<Rightarrow> string \<Rightarrow> nat list option" where
  "provider_get_channels w transport_name =
     (if strcaseeq transport_name ''tcp'' then Some (hw_tcp_channels w)
      else if strcaseeq transport_name ''tls'' then Some (hw_tls_channels w)
      else None)"

definition provider_set_channels :: "http_world \<Rightarrow> string \<Rightarrow> nat list \<Rightarrow> http_world" where
  "provider_set_channels w transport_name l =
     (if strcaseeq transport_name ''tcp'' then w\<lparr>hw_tcp_channels := l\<rparr> else w\<lparr>hw_tls_channels := l\<rparr>)"

definition http_channel_matches :: "http_env \<Rightarrow> http_channel \<Rightarrow> nat \<Rightarrow> hop \<Rightarrow> string \<Rightarrow> bool" where
  "http_channel_matches E x c hop host =
     (if host = hc_peer_name x \<and> (hop_port hop = hc_peer_port x \<or> hc_srv_overrides_port x)
      then \<not> (hop_cname hop \<noteq> None \<and> hc_peer_cname x \<noteq> None \<and> hop_cname hop \<noteq> hc_peer_cname x)
      else he_same_address E hop c)"

text \<open>A channel that will be closed is passed over; the host is dereferenced for the others.\<close>

fun http_channel_find :: "http_env \<Rightarrow> http_world \<Rightarrow> hop \<Rightarrow> nat list \<Rightarrow> nat option option" where
  "http_channel_find E w hop [] = Some None"
| "http_channel_find E w hop (c # l) = do {
     x \<leftarrow> hw_channels w c;
     if hc_about_to_be_closed x then http_channel_find E w hop l
     else do {
       host \<leftarrow> hop_host hop;
       if http_channel_matches E x c hop host then Some (Some c) else http_channel_find E w hop l } }"

definition split_request_url :: "http_request \<Rightarrow> http_request option" where
  "split_request_url req =
     (let uri = hr_uri req in
      if gu_host uri = None \<and> hr_orig_uri req \<noteq> None then Some req
      else do {
        host \<leftarrow> gu_host uri;
        let host_value = (if 0 < gu_port uri then host @ '':'' @ int_text (gu_port uri) else host);
        let new_uri = belle_generic_uri_new\<lparr>gu_path := Some (case gu_path uri of Some p \<Rightarrow> p | None \<Rightarrow> ''/''), gu_query := gu_query uri\<rparr>;
        Some (req\<lparr>hr_headers := http_add_header (hr_headers req) ''Host'' (Http_text (Some host_value)),
                  hr_orig_uri := Some uri, hr_uri := new_uri\<rparr>) })"

definition fix_request :: "http_request \<Rightarrow> http_request" where
  "fix_request req =
     (if 0 < hr_body_size req \<and> \<not> list_ex (\<lambda>(n, v). is_length v) (hr_headers req)
      then req\<lparr>hr_headers := http_add_header (hr_headers req) ''Content-Length'' (Http_length (int (hr_body_size req)))\<rparr>
      else req)"

definition http_channel_init :: "string \<Rightarrow> hop \<Rightarrow> string \<Rightarrow> http_channel" where
  "http_channel_init transport hop host =
     \<lparr>hc_transport = transport, hc_peer_cname = hop_cname hop, hc_peer_name = host, hc_peer_port = hop_port hop,
      hc_srv_overrides_port = False, hc_about_to_be_closed = False, hc_force_close = False,
      hc_outgoing_messages = [], hc_pending_requests = []\<rparr>"

text \<open>The new channel goes first in its list; the result is None when TLS is not built in.\<close>

definition http_channel_new :: "http_env \<Rightarrow> http_world \<Rightarrow> hop \<Rightarrow> string \<Rightarrow> (http_world \<times> nat) option option" where
  "http_channel_new E w hop transport =
     (if strcaseeq transport ''tcp'' \<or> strcaseeq transport ''tls'' \<and> he_tls E
      then map_option (\<lambda>host. let c = hw_next w in
          Some (w\<lparr>hw_channels := (hw_channels w)(c \<mapsto> http_channel_init transport hop host), hw_next := Suc c\<rparr>, c)) (hop_host hop)
      else Some None)"

definition choose_channel :: "http_env \<Rightarrow> http_world \<Rightarrow> hop \<Rightarrow> (http_world \<times> nat) option option" where
  "choose_channel E w hop = do {
     transport \<leftarrow> hop_transport hop;
     channels \<leftarrow> provider_get_channels w transport;
     found \<leftarrow> http_channel_find E w hop channels;
     case found of
       Some c \<Rightarrow> Some (Some (w, c))
     | None \<Rightarrow> do {
         new \<leftarrow> http_channel_new E w hop transport;
         Some (map_option (\<lambda>(w, c). (provider_set_channels w transport (c # channels), c)) new) } }"

text \<open>
  The request is given its Host and Content-Length headers and put in the queue of the channel. A background task is begun
  only when there is one already.
\<close>

definition queue_request :: "http_env \<Rightarrow> nat \<Rightarrow> nat \<Rightarrow> http_world \<Rightarrow> http_world option" where
  "queue_request E r c w = do {
     req \<leftarrow> hw_requests w r;
     req \<leftarrow> split_request_url req;
     let req = (fix_request req)\<lparr>hr_channel := Some c\<rparr>;
     let req = (if hr_background_task_id req \<noteq> 0 then req\<lparr>hr_background_task_id := he_begin_task E r\<rparr> else req);
     w \<leftarrow> upd_req w r (\<lambda>_. req);
     upd_hchan w c (\<lambda>x. x\<lparr>hc_outgoing_messages := hc_outgoing_messages x @ [r]\<rparr>) }"

text \<open>The result is false when there is no channel to send on.\<close>

definition belle_http_provider_send_request :: "http_env \<Rightarrow> nat \<Rightarrow> bool \<Rightarrow> http_world \<Rightarrow> (http_world \<times> bool) option" where
  "belle_http_provider_send_request E r listener w = do {
     req \<leftarrow> hw_requests w r;
     hop \<leftarrow> belle_sip_hop_new_from_generic_uri (case hr_orig_uri req of Some u \<Rightarrow> u | None \<Rightarrow> hr_uri req);
     w \<leftarrow> (if listener then upd_req w r (\<lambda>x. x\<lparr>hr_listener := True\<rparr>) else Some w);
     chosen \<leftarrow> choose_channel E w hop;
     case chosen of
       None \<Rightarrow> Some (w, False)
     | Some (w, c) \<Rightarrow> map_option (\<lambda>w. (w, True)) (queue_request E r c w) }"

section \<open>What a channel tells\<close>

text \<open>
  The credentials for the challenge of a response: those of the original URI, or those of the application. The result
  tells whether the request was given up (-1). When the realm is missing, the hash that is not computed is not used either.
\<close>

definition http_credentials_of :: "http_env \<Rightarrow> nat \<Rightarrow> http_request \<Rightarrow> string option
    \<Rightarrow> bool \<times> string option \<times> string option \<times> string option" where
  "http_credentials_of E r req realm =
     (let username = Option.bind (hr_orig_uri req) gu_user;
          passwd = Option.bind (hr_orig_uri req) gu_user_password
      in if username = None \<or> passwd = None
         then (if hr_listener req then (True, he_credentials E r realm) else (True, None, None, None))
         else (False, username, passwd, None))"

text \<open>The request is sent again with credentials made of the hash \<open>ha1\<close>; false when they cannot be made.\<close>

definition resubmit_with_credentials ::
  "http_env \<Rightarrow> nat \<Rightarrow> www_authenticate \<Rightarrow> string option \<Rightarrow> string \<Rightarrow> http_world \<Rightarrow> (http_world \<times> bool) option" where
  "resubmit_with_credentials E r authenticate username ha1 w = do {
     w \<leftarrow> upd_req w r (\<lambda>x. x\<lparr>hr_auth_attempt_count := Suc (hr_auth_attempt_count x)\<rparr>);
     req \<leftarrow> hw_requests w r;
     let a = (belle_http_auth_helper_create_authorization authenticate)
       \<lparr>auth_qop := (case www_qop authenticate of [] \<Rightarrow> None | q # _ \<Rightarrow> Some q), auth_nonce_count := 1, auth_username := username\<rparr>;
     (a, filled) \<leftarrow> http_fill_authorization (he_uri_text E) (he_address E r) a (Some (hr_uri req)) (hr_method req) ha1;
     if \<not> filled then Some (w, False)
     else do {
       hs \<leftarrow> http_remove_header (hr_headers req) ''Authorization'';
       w \<leftarrow> upd_req w r (\<lambda>x. x\<lparr>hr_headers := http_add_header hs ''Authorization'' (Http_credentials a (Some (hr_uri req)))\<rparr>);
       map_option (\<lambda>(w, sent). (w, True)) (belle_http_provider_send_request E r False w) } }"

definition http_channel_context_handle_authentication :: "http_env \<Rightarrow> nat \<Rightarrow> http_world \<Rightarrow> (http_world \<times> bool) option" where
  "http_channel_context_handle_authentication E r w = do {
     req \<leftarrow> hw_requests w r;
     if 1 < hr_auth_attempt_count req
     then map_option (\<lambda>w. (w, False)) (upd_req w r (\<lambda>x. x\<lparr>hr_auth_attempt_count := 0\<rparr>))
     else case Option.bind (hr_response req) hs_www_authenticate of
       None \<Rightarrow> Some (w, False)
     | Some authenticate \<Rightarrow> do {
         scheme \<leftarrow> auth_scheme authenticate;
         if \<not> strcaseeq ''Digest'' scheme then Some (w, False)
         else do {
           let realm = auth_realm authenticate;
           let (asked, username, passwd, ha1) = http_credentials_of E r req realm;
           w \<leftarrow> (if asked then tell_request w r (Told_auth r) else Some w);
           let ha1 = (if ha1 = None \<and> username \<noteq> None \<and> passwd \<noteq> None
             then Some (case belle_sip_auth_helper_compute_ha1 username realm passwd of Some h \<Rightarrow> h | None \<Rightarrow> []) else ha1);
           case ha1 of
             None \<Rightarrow> Some (w, False)
           | Some ha1 \<Rightarrow> resubmit_with_credentials E r authenticate username ha1 w } } }"

definition http_channel_context_handle_response_headers :: "nat \<Rightarrow> http_response \<Rightarrow> http_world \<Rightarrow> http_world option" where
  "http_channel_context_handle_response_headers c response w = do {
     x \<leftarrow> hw_channels w c;
     case hc_pending_requests x of
       [] \<Rightarrow> Some w
     | r # _ \<Rightarrow> do {
         req \<leftarrow> hw_requests w r;
         if hr_cancelled req then Some w
         else if hs_status_code response \<noteq> 401 \<and> hs_status_code response \<noteq> 407 then tell_request w r (Told_headers r response)
         else Some w } }"

text \<open>\<open>strstr\<close> finds \<open>close\<close> anywhere in the value of the header.\<close>

definition says_close :: "http_response \<Rightarrow> bool" where
  "says_close response = (case hs_connection response of None \<Rightarrow> False | Some v \<Rightarrow> sublist ''close'' v)"

definition http_channel_context_handle_response :: "http_env \<Rightarrow> nat \<Rightarrow> http_response \<Rightarrow> http_world \<Rightarrow> http_world option" where
  "http_channel_context_handle_response E c response w = do {
     x \<leftarrow> hw_channels w c;
     case hc_pending_requests x of
       [] \<Rightarrow> Some w
     | r # rest \<Rightarrow> do {
         w \<leftarrow> upd_hchan w c (\<lambda>x. x\<lparr>hc_pending_requests := rest\<rparr>);
         req \<leftarrow> hw_requests w r;
         if hr_cancelled req then Some w
         else do {
           w \<leftarrow> (if says_close response then upd_hchan w c (\<lambda>x. x\<lparr>hc_about_to_be_closed := True\<rparr>) else Some w);
           w \<leftarrow> upd_req w r (\<lambda>x. x\<lparr>hr_response := Some response\<rparr>);
           (w, resubmitted) \<leftarrow> (if hs_status_code response = 401 \<or> hs_status_code response = 407
             then http_channel_context_handle_authentication E r w else Some (w, False));
           if resubmitted then Some w
           else do { w \<leftarrow> tell_request w r (Told_response r response); end_background_task w r } } } }"

fun io_error_each :: "nat list \<Rightarrow> http_world \<Rightarrow> http_world option" where
  "io_error_each [] w = Some w"
| "io_error_each (r # l) w = do { w \<leftarrow> tell_request w r (Told_io_error r); w \<leftarrow> end_background_task w r; io_error_each l w }"

text \<open>The requests of the queue are told only when none is pending.\<close>

definition http_channel_context_handle_io_error :: "nat \<Rightarrow> http_world \<Rightarrow> http_world option" where
  "http_channel_context_handle_io_error c w = do {
     x \<leftarrow> hw_channels w c;
     io_error_each (if hc_pending_requests x = [] then hc_outgoing_messages x else hc_pending_requests x) w }"

definition provider_remove_channel :: "nat \<Rightarrow> http_world \<Rightarrow> http_world option" where
  "provider_remove_channel c w = do {
     x \<leftarrow> hw_channels w c;
     channels \<leftarrow> provider_get_channels w (hc_transport x);
     Some (provider_set_channels w (hc_transport x) (remove1 c channels)) }"

text \<open>Of the states of a channel, two matter.\<close>

datatype http_channel_state = HTTP_ERROR | HTTP_DISCONNECTED | HTTP_OTHER

definition http_channel_state_changed :: "nat \<Rightarrow> http_channel_state \<Rightarrow> http_world \<Rightarrow> http_world option" where
  "http_channel_state_changed c s w =
     (if s = HTTP_OTHER then Some w
      else do {
        w \<leftarrow> (if s = HTTP_ERROR then http_channel_context_handle_io_error c w else Some w);
        x \<leftarrow> hw_channels w c;
        if hc_force_close x then Some w else provider_remove_channel c w })"

text \<open>The channel takes the first message of its queue: the context hears of it before the message is written.\<close>

definition http_channel_on_sending :: "nat \<Rightarrow> http_world \<Rightarrow> http_world option" where
  "http_channel_on_sending c w = do {
     x \<leftarrow> hw_channels w c;
     case hc_outgoing_messages x of
       [] \<Rightarrow> Some w
     | r # rest \<Rightarrow> upd_hchan w c (\<lambda>x. x\<lparr>hc_outgoing_messages := rest, hc_pending_requests := hc_pending_requests x @ [r]\<rparr>) }"

text \<open>When the channel is freed, so is its context; the requests forget the channel.\<close>

definition http_on_channel_destroyed :: "nat \<Rightarrow> http_world \<Rightarrow> http_world option" where
  "http_on_channel_destroyed c w =
     Some (w\<lparr>hw_channels := (hw_channels w)(c := None), hw_requests := (\<lambda>r. case hw_requests w r of None \<Rightarrow> None
       | Some x \<Rightarrow> Some (if hr_channel x = Some c then x\<lparr>hr_channel := None\<rparr> else x))\<rparr>)"

fun reenqueue_each :: "http_env \<Rightarrow> nat list \<Rightarrow> http_world \<Rightarrow> http_world option" where
  "reenqueue_each E [] w = Some w"
| "reenqueue_each E (r # l) w = do { (w, sent) \<leftarrow> belle_http_provider_send_request E r False w; reenqueue_each E l w }"

text \<open>Closing the channel tells the context DISCONNECTED with \<open>force_close\<close> set, which does nothing.\<close>

definition belle_http_provider_cancel_request :: "http_env \<Rightarrow> nat \<Rightarrow> http_world \<Rightarrow> http_world option" where
  "belle_http_provider_cancel_request E r w = do {
     w \<leftarrow> upd_req w r belle_http_request_cancel;
     req \<leftarrow> hw_requests w r;
     case hr_channel req of
       None \<Rightarrow> Some w
     | Some c \<Rightarrow> do {
         x \<leftarrow> hw_channels w c;
         w \<leftarrow> provider_remove_channel c w;
         w \<leftarrow> upd_hchan w c (\<lambda>x. x\<lparr>hc_force_close := True\<rparr>);
         w \<leftarrow> http_channel_state_changed c HTTP_DISCONNECTED w;
         reenqueue_each E (hc_outgoing_messages x) w } }"

section \<open>The provider as a transition system\<close>

text \<open>What the application asks and what the channels tell, in any order.\<close>

datatype http_input =
    App_create "string option" generic_uri http_headers nat
  | App_send nat bool
  | App_cancel nat
  | Chan_sending nat
  | Chan_headers nat http_response
  | Chan_message nat http_response
  | Chan_state nat http_channel_state
  | Chan_destroyed nat

text \<open>A channel that is in a list of the provider is referenced by it and is not freed.\<close>

fun http_step :: "http_env \<Rightarrow> http_input \<Rightarrow> http_world \<Rightarrow> http_world option" where
  "http_step E (App_create method uri headers body_size) w =
     Some (w\<lparr>hw_requests := (hw_requests w)(hw_next w \<mapsto> belle_http_request_create method uri headers body_size),
             hw_next := Suc (hw_next w)\<rparr>)"
| "http_step E (App_send r listener) w = map_option fst (belle_http_provider_send_request E r listener w)"
| "http_step E (App_cancel r) w = belle_http_provider_cancel_request E r w"
| "http_step E (Chan_sending c) w = http_channel_on_sending c w"
| "http_step E (Chan_headers c resp) w = http_channel_context_handle_response_headers c resp w"
| "http_step E (Chan_message c resp) w = http_channel_context_handle_response E c resp w"
| "http_step E (Chan_state c s) w = http_channel_state_changed c s w"
| "http_step E (Chan_destroyed c) w =
     (if c \<in> set (hw_tcp_channels w) \<union> set (hw_tls_channels w) then None else http_on_channel_destroyed c w)"

fun http_run :: "http_env \<Rightarrow> http_input list \<Rightarrow> http_world \<Rightarrow> http_world option" where
  "http_run E [] w = Some w"
| "http_run E (i # ins) w = Option.bind (http_step E i w) (http_run E ins)"

definition http_start :: http_world where
  "http_start = \<lparr>hw_requests = \<lambda>_. None, hw_channels = \<lambda>_. None, hw_tcp_channels = [], hw_tls_channels = [], hw_next = 0, hw_told = []\<rparr>"

inductive http_reachable :: "http_env \<Rightarrow> http_world \<Rightarrow> bool" for E where
  start: "http_reachable E http_start"
| step: "http_reachable E w \<Longrightarrow> http_step E i w = Some w' \<Longrightarrow> http_reachable E w'"

end
