(* ===== verification/HttpProps.thy ===== *)
theory HttpProps
  imports Http
begin

text \<open>
  What holds of the provider in every reachable world, the order of the answers, and what failures and cancellations lose.
\<close>

section \<open>What each operation changes\<close>

text \<open>A property of single requests that every operation keeps.\<close>

definition each_request :: "(http_request \<Rightarrow> bool) \<Rightarrow> http_world \<Rightarrow> bool" where
  "each_request P w \<longleftrightarrow> (\<forall>r x. hw_requests w r = Some x \<longrightarrow> P x)"

lemma each_request_upd:
  "upd_req w r f = Some w' \<Longrightarrow> each_request P w \<Longrightarrow> (\<And>x. hw_requests w r = Some x \<Longrightarrow> P x \<Longrightarrow> P (f x)) \<Longrightarrow> each_request P w'"
  by (auto simp: upd_req_def each_request_def split: option.splits if_splits)

lemma each_request_chan: "upd_hchan w c f = Some w' \<Longrightarrow> each_request P w' = each_request P w"
  by (auto simp: upd_hchan_def each_request_def split: option.splits)

lemma each_request_tell: "tell_request w r ev = Some w' \<Longrightarrow> each_request P w' = each_request P w"
  by (auto simp: tell_request_def each_request_def split: option.splits if_splits)

lemma each_request_set_channels [simp]: "each_request P (provider_set_channels w t l) = each_request P w"
  by (simp add: provider_set_channels_def each_request_def)

text \<open>The attempts and the background task of a request, as sending keeps them.\<close>

definition sane_request :: "http_request \<Rightarrow> bool" where
  "sane_request x \<longleftrightarrow> hr_auth_attempt_count x \<le> 2 \<and> hr_background_task_id x = 0"

text \<open>The channel chosen is one of the provider that will not be closed, or a new one with nothing to send.\<close>

definition fresh_channel :: "http_channel \<Rightarrow> bool" where
  "fresh_channel x \<longleftrightarrow> hc_outgoing_messages x = [] \<and> hc_pending_requests x = [] \<and> \<not> hc_force_close x \<and> \<not> hc_about_to_be_closed x"

lemma fresh_init [simp]: "fresh_channel (http_channel_init t hop h)"
  by (simp add: fresh_channel_def http_channel_init_def)

lemma http_channel_find_some:
  "http_channel_find E w hop l = Some (Some c) \<Longrightarrow>
    c \<in> set l \<and> (\<exists>x. hw_channels w c = Some x \<and> \<not> hc_about_to_be_closed x)"
  by (induction l) (auto split: Option.bind_splits if_splits)

lemma provider_channels_subset:
  "provider_get_channels w t = Some l \<Longrightarrow> set l \<subseteq> set (hw_tcp_channels w) \<union> set (hw_tls_channels w)"
  by (auto simp: provider_get_channels_def split: if_splits)

lemma choose_channel_result:
  assumes "choose_channel E w hop = Some (Some (w', c))"
  shows "(w' = w \<and> c \<in> set (hw_tcp_channels w) \<union> set (hw_tls_channels w)
      \<and> (\<exists>x. hw_channels w c = Some x \<and> \<not> hc_about_to_be_closed x))
    \<or> (c = hw_next w \<and> hw_requests w' = hw_requests w \<and> hw_told w' = hw_told w
      \<and> (\<exists>x. fresh_channel x \<and> hw_channels w' = (hw_channels w)(c \<mapsto> x)))"
proof -
  obtain t l found where 1: "provider_get_channels w t = Some l" "http_channel_find E w hop l = Some found"
    and 2: "(case found of Some c \<Rightarrow> Some (Some (w, c)) | None \<Rightarrow> do {
         new \<leftarrow> http_channel_new E w hop t;
         Some (map_option (\<lambda>(w, c). (provider_set_channels w t (c # l), c)) new) }) = Some (Some (w', c))"
    using assms unfolding choose_channel_def by (auto split: Option.bind_splits)
  show ?thesis
  proof (cases found)
    case None
    then show ?thesis
      using 2 by (auto simp: http_channel_new_def provider_set_channels_def Let_def
          split: Option.bind_splits if_splits intro!: exI[of _ "http_channel_init _ _ _"])
  next
    case (Some d)
    then show ?thesis
      using 2 http_channel_find_some[of E w hop l d] 1 provider_channels_subset[OF 1(1)] by auto
  qed
qed

text \<open>The request that is sent: it has its listener, and its counters are as they were.\<close>

definition same_progress :: "http_request \<Rightarrow> http_request \<Rightarrow> bool" where
  "same_progress x y \<longleftrightarrow> hr_auth_attempt_count y = hr_auth_attempt_count x \<and> hr_cancelled y = hr_cancelled x
     \<and> (hr_background_task_id x = 0 \<longrightarrow> hr_background_task_id y = 0) \<and> (hr_listener x \<longrightarrow> hr_listener y)"

lemma split_request_progress: "split_request_url x = Some y \<Longrightarrow> same_progress x y"
  by (auto simp: split_request_url_def same_progress_def Let_def split: if_splits Option.bind_splits)

definition queued_on :: "http_world \<Rightarrow> http_world \<Rightarrow> nat \<Rightarrow> nat \<Rightarrow> bool" where
  "queued_on w w' r c \<longleftrightarrow>
     (\<exists>x. (hw_channels w c = Some x \<and> \<not> hc_about_to_be_closed x \<and> c \<in> set (hw_tcp_channels w) \<union> set (hw_tls_channels w)
           \<or> c = hw_next w \<and> fresh_channel x)
        \<and> hw_channels w' = (hw_channels w)(c \<mapsto> x\<lparr>hc_outgoing_messages := hc_outgoing_messages x @ [r]\<rparr>))"

lemma send_request_result:
  assumes "belle_http_provider_send_request E r listener w = Some (w', b)"
  obtains req y where "hw_requests w r = Some req" "hw_requests w' = (hw_requests w)(r \<mapsto> y)" "same_progress req y"
    "hw_told w' = hw_told w" "b \<Longrightarrow> \<exists>c. hr_channel y = Some c \<and> queued_on w w' r c" "\<not> b \<Longrightarrow> hw_channels w' = hw_channels w"
proof -
  obtain req hop w1 chosen where 1: "hw_requests w r = Some req"
    "(if listener then upd_req w r (\<lambda>x. x\<lparr>hr_listener := True\<rparr>) else Some w) = Some w1"
    "choose_channel E w1 hop = Some chosen"
    and 2: "(case chosen of None \<Rightarrow> Some (w1, False)
     | Some (w, c) \<Rightarrow> map_option (\<lambda>w. (w, True)) (queue_request E r c w)) = Some (w', b)"
    using assms unfolding belle_http_provider_send_request_def by (auto split: Option.bind_splits)
  let ?req1 = "if listener then req\<lparr>hr_listener := True\<rparr> else req"
  have w1: "w1 = w\<lparr>hw_requests := (hw_requests w)(r \<mapsto> ?req1)\<rparr>" and prog: "same_progress req ?req1"
    using 1(1,2) fun_upd_idem[of "hw_requests w" r "Some req"] by (auto simp: upd_req_def same_progress_def split: if_splits)
  show thesis
  proof (cases chosen)
    case None
    then have "w' = w1" "\<not> b" using 2 by auto
    then show thesis using that[OF 1(1) _ prog] w1 by simp
  next
    case (Some p)
    then obtain w2 c where p: "chosen = Some (w2, c)" by (cases p) auto
    note chosen = choose_channel_result[OF 1(3)[unfolded p]]
    then have req2: "hw_requests w2 r = Some ?req1" "hw_told w2 = hw_told w" "hw_requests w2 = hw_requests w1" using w1 by auto
    have q: "queue_request E r c w2 = Some w'" and b using 2 p by auto
    then obtain y where y: "split_request_url ?req1 = Some y"
      using req2 unfolding queue_request_def by (auto split: Option.bind_splits)
    let ?y = "let y = (fix_request y)\<lparr>hr_channel := Some c\<rparr> in
      if hr_background_task_id y \<noteq> 0 then y\<lparr>hr_background_task_id := he_begin_task E r\<rparr> else y"
    obtain x where x: "hw_channels w2 c = Some x"
      "w' = w2\<lparr>hw_requests := (hw_requests w2)(r \<mapsto> ?y),
        hw_channels := (hw_channels w2)(c \<mapsto> x\<lparr>hc_outgoing_messages := hc_outgoing_messages x @ [r]\<rparr>)\<rparr>"
      using q req2 y unfolding queue_request_def
      by (auto simp: Let_def upd_req_def upd_hchan_def split: Option.bind_splits option.splits if_splits)
    have "same_progress y ?y" by (auto simp: Let_def same_progress_def fix_request_def)
    then have "same_progress req ?y"
      using prog split_request_progress[OF y] by (auto simp: same_progress_def)
    moreover have "hw_requests w' = (hw_requests w)(r \<mapsto> ?y)" using x(2) req2(3) w1 by simp
    moreover have "hr_channel ?y = Some c" by (simp add: Let_def)
    moreover have "queued_on w w' r c"
      using chosen x w1 unfolding queued_on_def by (elim disjE conjE exE) (auto intro!: exI[of _ x])
    ultimately show thesis using that[OF 1(1), of ?y] x(2) req2(2) \<open>b\<close> by auto
  qed
qed


section \<open>Counters\<close>

abbreviation "sane \<equiv> each_request sane_request"

lemma sane_send: "belle_http_provider_send_request E r listener w = Some (w', b) \<Longrightarrow> sane w \<Longrightarrow> sane w'"
  by (erule send_request_result) (auto simp: each_request_def same_progress_def sane_request_def split: if_splits)

lemma sane_tell: "tell_request w r ev = Some w' \<Longrightarrow> sane w \<Longrightarrow> sane w'"
  using each_request_tell by blast

lemma sane_chan: "upd_hchan w c f = Some w' \<Longrightarrow> sane w \<Longrightarrow> sane w'"
  using each_request_chan by blast

lemma sane_upd: "upd_req w r f = Some w' \<Longrightarrow> sane w \<Longrightarrow> (\<And>x. sane_request x \<Longrightarrow> sane_request (f x)) \<Longrightarrow> sane w'"
  using each_request_upd by blast

lemma sane_end: "end_background_task w r = Some w' \<Longrightarrow> sane w \<Longrightarrow> sane w'"
  unfolding end_background_task_def by (erule sane_upd) (auto simp: sane_request_def)

lemma sane_resubmit:
  assumes "resubmit_with_credentials E r c u h w = Some (w', b)" "sane w" "hw_requests w r = Some req" "hr_auth_attempt_count req \<le> 1"
  shows "sane w'"
proof -
  have "sane w1" if "upd_req w r (\<lambda>x. x\<lparr>hr_auth_attempt_count := Suc (hr_auth_attempt_count x)\<rparr>) = Some w1" for w1
    using that by (rule each_request_upd) (use assms(2-4) in \<open>auto simp: sane_request_def\<close>)
  then show ?thesis
    using assms(1) unfolding resubmit_with_credentials_def
    by (auto split: Option.bind_splits if_splits prod.splits simp: Let_def sane_request_def elim!: sane_send sane_upd)
qed

lemma told_kept:
  "tell_request w r ev = Some w' \<Longrightarrow> hw_requests w' = hw_requests w \<and> hw_channels w' = hw_channels w
    \<and> hw_tcp_channels w' = hw_tcp_channels w \<and> hw_tls_channels w' = hw_tls_channels w"
  by (auto simp: tell_request_def split: option.splits if_splits)

lemma sane_authentication:
  assumes "http_channel_context_handle_authentication E r w = Some (w', b)" "sane w"
  shows "sane w'"
proof -
  obtain req where req: "hw_requests w r = Some req"
    using assms(1) unfolding http_channel_context_handle_authentication_def by (auto split: Option.bind_splits)
  have first: "sane w1 \<and> hw_requests w1 = hw_requests w" if "tell_request w r ev = Some w1" for ev w1
    using that assms(2) sane_tell told_kept by blast
  have again: "sane w'" if "resubmit_with_credentials E r c u h w1 = Some (w', b)" "\<not> Suc 0 < hr_auth_attempt_count req"
      "sane w1 \<and> hw_requests w1 = hw_requests w" for c u h w1
    using that req by (auto intro: sane_resubmit)
  show ?thesis
    using assms req
    unfolding http_channel_context_handle_authentication_def
    by (auto split: Option.bind_splits if_splits option.splits prod.splits simp: Let_def sane_request_def
        elim!: sane_upd dest!: first elim!: again)
qed

lemma sane_headers: "http_channel_context_handle_response_headers c resp w = Some w' \<Longrightarrow> sane w \<Longrightarrow> sane w'"
  unfolding http_channel_context_handle_response_headers_def
  by (auto split: Option.bind_splits list.splits if_splits elim: sane_tell)

lemma sane_response: "http_channel_context_handle_response E c resp w = Some w' \<Longrightarrow> sane w \<Longrightarrow> sane w'"
  unfolding http_channel_context_handle_response_def
  by (auto split: Option.bind_splits list.splits if_splits prod.splits simp: sane_request_def
      elim!: sane_end sane_tell sane_authentication sane_upd sane_chan)

lemma sane_io_error_each: "io_error_each l w = Some w' \<Longrightarrow> sane w \<Longrightarrow> sane w'"
  by (induction l arbitrary: w) (auto split: Option.bind_splits dest: sane_tell sane_end)

lemma sane_remove: "provider_remove_channel c w = Some w' \<Longrightarrow> sane w \<Longrightarrow> sane w'"
  unfolding provider_remove_channel_def by (auto split: Option.bind_splits)

lemma sane_state: "http_channel_state_changed c s w = Some w' \<Longrightarrow> sane w \<Longrightarrow> sane w'"
  unfolding http_channel_state_changed_def http_channel_context_handle_io_error_def
  by (auto split: Option.bind_splits if_splits dest: sane_remove sane_io_error_each)

lemma sane_sending: "http_channel_on_sending c w = Some w' \<Longrightarrow> sane w \<Longrightarrow> sane w'"
  unfolding http_channel_on_sending_def by (auto split: Option.bind_splits list.splits elim: sane_chan)

lemma sane_reenqueue: "reenqueue_each E l w = Some w' \<Longrightarrow> sane w \<Longrightarrow> sane w'"
  by (induction l arbitrary: w) (auto split: Option.bind_splits dest: sane_send)

lemma sane_cancel: "belle_http_provider_cancel_request E r w = Some w' \<Longrightarrow> sane w \<Longrightarrow> sane w'"
  unfolding belle_http_provider_cancel_request_def
  by (auto split: Option.bind_splits option.splits simp: belle_http_request_cancel_def sane_request_def
      elim!: sane_reenqueue sane_state sane_chan sane_remove sane_upd)

lemma sane_step: "http_step E i w = Some w' \<Longrightarrow> sane w \<Longrightarrow> sane w'"
proof (cases i)
  case (App_send r l)
  then show "http_step E i w = Some w' \<Longrightarrow> sane w \<Longrightarrow> sane w'" using sane_send by auto
next
  case (Chan_destroyed c)
  then show "http_step E i w = Some w' \<Longrightarrow> sane w \<Longrightarrow> sane w'"
    by (auto simp: http_on_channel_destroyed_def each_request_def sane_request_def split: if_splits option.splits)
qed (auto simp: each_request_def sane_request_def belle_http_request_create_def split: if_splits
    dest: sane_cancel sane_sending sane_headers sane_response sane_state)


section \<open>Answers\<close>

lemma third_challenge_told:
  assumes "hw_channels w c = Some x" "hc_pending_requests x = r # rest" "hw_requests w r = Some req"
    and "hr_auth_attempt_count req = 2" "\<not> hr_cancelled req" "hr_listener req" "hs_status_code resp \<in> {401, 407}"
  shows "\<exists>w' req'. http_channel_context_handle_response E c resp w = Some w' \<and> hw_told w' = hw_told w @ [Told_response r resp]
    \<and> hw_requests w' r = Some req' \<and> hr_auth_attempt_count req' = 0"
  using assms
  by (auto simp: http_channel_context_handle_response_def http_channel_context_handle_authentication_def upd_hchan_def upd_req_def
      tell_request_def end_background_task_def)

text \<open>A request that listens and is not cancelled, and a response that is no challenge.\<close>

definition awaiting :: "http_world \<Rightarrow> nat \<Rightarrow> bool" where
  "awaiting w r \<longleftrightarrow> (\<exists>x. hw_requests w r = Some x \<and> hr_listener x \<and> \<not> hr_cancelled x)"

lemma sending_next:
  assumes "hw_channels w c = Some x" "hc_outgoing_messages x = r # rest"
  shows "\<exists>w' x'. http_channel_on_sending c w = Some w' \<and> hw_requests w' = hw_requests w \<and> hw_told w' = hw_told w
    \<and> hw_channels w' c = Some x' \<and> hc_outgoing_messages x' = rest \<and> hc_pending_requests x' = hc_pending_requests x @ [r]"
  using assms by (auto simp: http_channel_on_sending_def upd_hchan_def)

lemma response_next:
  assumes "hw_channels w c = Some x" "hc_pending_requests x = r # rest" "awaiting w r" "hs_status_code resp \<notin> {401, 407}"
  shows "\<exists>w' x'. http_channel_context_handle_response E c resp w = Some w' \<and> hw_told w' = hw_told w @ [Told_response r resp]
    \<and> hw_channels w' c = Some x' \<and> hc_pending_requests x' = rest \<and> hc_outgoing_messages x' = hc_outgoing_messages x
    \<and> (\<forall>q. awaiting w q \<longrightarrow> awaiting w' q)"
  using assms
  by (auto simp: http_channel_context_handle_response_def upd_hchan_def upd_req_def tell_request_def end_background_task_def awaiting_def)

text \<open>
  What a channel does, a response or (None) taking a message from its queue. With \<open>n\<close> requests pending and \<open>q\<close> in the
  queue, each response comes when a request is pending, and is no challenge.
\<close>

fun in_turn :: "nat \<Rightarrow> nat \<Rightarrow> http_response option list \<Rightarrow> bool" where
  "in_turn n q [] = True"
| "in_turn n q (None # ops) = (case q of 0 \<Rightarrow> False | Suc q \<Rightarrow> in_turn (Suc n) q ops)"
| "in_turn n q (Some p # ops) = (case n of 0 \<Rightarrow> False | Suc n \<Rightarrow> hs_status_code p \<notin> {401, 407} \<and> in_turn n q ops)"

definition channel_input :: "nat \<Rightarrow> http_response option \<Rightarrow> http_input" where
  "channel_input c p = (case p of None \<Rightarrow> Chan_sending c | Some p \<Rightarrow> Chan_message c p)"

definition responses_of :: "http_response option list \<Rightarrow> http_response list" where
  "responses_of ops = concat (map (\<lambda>p. case p of None \<Rightarrow> [] | Some p \<Rightarrow> [p]) ops)"

lemma responses_of_simps [simp]:
  "responses_of [] = []" "responses_of (None # ops) = responses_of ops" "responses_of (Some p # ops) = p # responses_of ops"
  by (simp_all add: responses_of_def)

text \<open>C35. However a channel interleaves sending the requests of its queue and receiving their responses, the application is told
  of each response once, for the request it answers: the pending ones first, then those of the queue, in order.\<close>

theorem responses_in_order:
  assumes "hw_channels w c = Some x" "\<forall>r \<in> set (hc_pending_requests x @ hc_outgoing_messages x). awaiting w r"
    and "in_turn (length (hc_pending_requests x)) (length (hc_outgoing_messages x)) ops"
  shows "\<exists>w'. http_run E (map (channel_input c) ops) w = Some w'
    \<and> hw_told w' = hw_told w @ map2 Told_response (hc_pending_requests x @ hc_outgoing_messages x) (responses_of ops)"
  using assms
proof (induction ops arbitrary: w x)
  case (Cons p ops)
  show ?case
  proof (cases p)
    case None
    then obtain r rest where r: "hc_outgoing_messages x = r # rest" using Cons.prems(3) by (cases "hc_outgoing_messages x") auto
    from sending_next[OF Cons.prems(1) r] obtain w1 x1 where 1: "http_channel_on_sending c w = Some w1"
      "hw_requests w1 = hw_requests w" "hw_told w1 = hw_told w" "hw_channels w1 c = Some x1" "hc_outgoing_messages x1 = rest"
      "hc_pending_requests x1 = hc_pending_requests x @ [r]" by blast
    from Cons.IH[OF 1(4)] 1 None r Cons.prems(2,3) show ?thesis by (auto simp: channel_input_def awaiting_def)
  next
    case (Some resp)
    then obtain r rest where r: "hc_pending_requests x = r # rest" and code: "hs_status_code resp \<notin> {401, 407}"
      using Cons.prems(3) by (cases "hc_pending_requests x") auto
    have "awaiting w r" using Cons.prems(2) r by simp
    from response_next[OF Cons.prems(1) r this code, of E] obtain w1 x1
      where 1: "http_channel_context_handle_response E c resp w = Some w1" "hw_told w1 = hw_told w @ [Told_response r resp]"
        "hw_channels w1 c = Some x1" "hc_pending_requests x1 = rest" "hc_outgoing_messages x1 = hc_outgoing_messages x"
        "\<forall>q. awaiting w q \<longrightarrow> awaiting w1 q" by blast
    from Cons.IH[OF 1(3)] 1 Some r Cons.prems(2,3) show ?thesis by (auto simp: channel_input_def)
  qed
qed simp

section \<open>Failures and cancellations\<close>

text \<open>The requests told of an error are those that listen, each once.\<close>

lemma io_error_each_told:
  assumes "\<forall>r \<in> set l. hw_requests w r \<noteq> None"
  shows "\<exists>w'. io_error_each l w = Some w' \<and> hw_channels w' = hw_channels w
    \<and> hw_tcp_channels w' = hw_tcp_channels w \<and> hw_tls_channels w' = hw_tls_channels w
    \<and> hw_told w' = hw_told w @ map Told_io_error (filter (\<lambda>r. \<exists>x. hw_requests w r = Some x \<and> hr_listener x) l)"
  using assms
proof (induction l arbitrary: w)
  case (Cons r l)
  then obtain x where x: "hw_requests w r = Some x" by auto
  define w1 where "w1 = (if hr_listener x then w\<lparr>hw_told := hw_told w @ [Told_io_error r]\<rparr> else w)
    \<lparr>hw_requests := (hw_requests w)(r \<mapsto> x\<lparr>hr_background_task_id := 0\<rparr>)\<rparr>"
  have w1: "do { w \<leftarrow> tell_request w r (Told_io_error r); end_background_task w r } = Some w1"
    using x by (auto simp: tell_request_def end_background_task_def upd_req_def w1_def)
  have same: "(\<exists>y. hw_requests w1 q = Some y \<and> hr_listener y) \<longleftrightarrow> (\<exists>y. hw_requests w q = Some y \<and> hr_listener y)" for q
    using x by (auto simp: w1_def)
  have "\<forall>q \<in> set l. hw_requests w1 q \<noteq> None" using Cons.prems by (auto simp: w1_def)
  from Cons.IH[OF this] w1 x show ?case
    unfolding same by (auto simp: w1_def split: Option.bind_splits if_splits)
qed simp


section \<open>A session\<close>

definition sample_url :: generic_uri where
  "sample_url = belle_generic_uri_new\<lparr>gu_scheme := Some ''http'', gu_host := Some ''h'', gu_path := Some ''/a''\<rparr>"

definition sample_http_env :: http_env where
  "sample_http_env = \<lparr>he_credentials = \<lambda>_ _. (None, None, None), he_same_address = \<lambda>_ _. False, he_uri_text = \<lambda>_. ''/a'',
     he_address = \<lambda>_. 0, he_tls = False, he_begin_task = \<lambda>_. 1\<rparr>"

definition sample_ok :: http_response where
  "sample_ok = \<lparr>hs_status_code = 200, hs_reason_phrase = None, hs_www_authenticate = None, hs_connection = None\<rparr>"

text \<open>Two requests to the same host wait on one channel, whose number is 2.\<close>

definition sample_inputs :: "http_input list" where
  "sample_inputs = [App_create (Some ''GET'') sample_url [] 0, App_create (Some ''GET'') sample_url [] 0, App_send 0 True, App_send 1 True]"

definition sample_http_world :: http_world where
  "sample_http_world = the (http_run sample_http_env sample_inputs http_start)"

definition seen :: "http_world \<Rightarrow> (nat list \<times> nat list \<times> bool \<times> string) option \<times> nat list \<times> http_event list" where
  "seen w = (map_option (\<lambda>x. (hc_pending_requests x, hc_outgoing_messages x, hc_force_close x, hc_transport x)) (hw_channels w 2),
     hw_tcp_channels w, hw_told w)"

definition request_state :: "http_world \<Rightarrow> nat \<Rightarrow> (bool \<times> bool) option" where
  "request_state w r = map_option (\<lambda>x. (hr_listener x, hr_cancelled x)) (hw_requests w r)"

lemma sample_run:
  "http_run sample_http_env sample_inputs http_start = Some sample_http_world"
  "seen sample_http_world = (Some ([], [0, 1], False, ''TCP''), [2], [])"
  "request_state sample_http_world 0 = Some (True, False)" "request_state sample_http_world 1 = Some (True, False)"
proof -
  have "map_option (\<lambda>w. (seen w, request_state w 0, request_state w 1)) (http_run sample_http_env sample_inputs http_start)
    = Some ((Some ([], [0, 1], False, ''TCP''), [2], []), Some (True, False), Some (True, False))"
    by code_simp
  then show "http_run sample_http_env sample_inputs http_start = Some sample_http_world"
    "seen sample_http_world = (Some ([], [0, 1], False, ''TCP''), [2], [])"
    "request_state sample_http_world 0 = Some (True, False)" "request_state sample_http_world 1 = Some (True, False)"
    by (auto simp: sample_http_world_def)
qed

lemma http_run_append: "http_run E (ks @ js) w = Option.bind (http_run E ks w) (http_run E js)"
  by (induction ks arbitrary: w) (auto split: Option.bind_splits)

lemma http_run_reachable: "http_reachable E w \<Longrightarrow> http_run E ks w = Some w' \<Longrightarrow> http_reachable E w'"
  by (induction ks arbitrary: w) (auto split: Option.bind_splits dest: http_reachable.step)


theorem responses_in_order_witness:
  "\<exists>w'. http_run sample_http_env (map (channel_input 2) [None, Some sample_ok, None, Some sample_ok]) sample_http_world = Some w'
    \<and> hw_told w' = [Told_response 0 sample_ok, Told_response 1 sample_ok]"
proof -
  obtain x where x: "hw_channels sample_http_world 2 = Some x" "hc_pending_requests x = []" "hc_outgoing_messages x = [0, 1]"
    "hw_told sample_http_world = []"
    using sample_run(2) by (auto simp: seen_def)
  have "awaiting sample_http_world 0" "awaiting sample_http_world 1"
    using sample_run(3,4) by (auto simp: request_state_def awaiting_def)
  then show ?thesis
    using responses_in_order[OF x(1), of "[None, Some sample_ok, None, Some sample_ok]" sample_http_env] x
    by (simp add: sample_ok_def)
qed


text \<open>A request that is cancelled while it waits in the queue is put in the queue of the new channel with the others.\<close>

lemma cancelled_request_queued_again:
  "map_option (\<lambda>w. (map_option hc_outgoing_messages (hw_channels w 3), request_state w 0, hw_tcp_channels w))
      (http_run sample_http_env (sample_inputs @ [App_cancel 0]) http_start)
    = Some (Some [0, 1], Some (True, True), [3])"
  by code_simp

text \<open>A channel that the peer closes is forgotten, and nobody is told of the requests that it has not answered.\<close>

lemma closed_channel_tells_nothing:
  "map_option (\<lambda>w. (hw_told w, hw_tcp_channels w))
      (http_run sample_http_env (sample_inputs @ [Chan_sending 2, Chan_state 2 HTTP_DISCONNECTED]) http_start)
    = Some ([], [])"
  by code_simp

text \<open>The credentials of HTTP are those of SIP for a URI of the same text.\<close>

lemma http_fill_as_sip:
  "http_fill_authorization t adr a (Some u) method ha1
    = map_option (\<lambda>(b, ok). (b\<lparr>auth_uri := auth_uri a\<rparr>, ok))
        (belle_sip_auth_helper_fill_authorization (\<lambda>_. t u) adr (a\<lparr>auth_uri := Some v\<rparr>) method ha1)"
  by (auto simp: http_fill_authorization_def belle_sip_auth_helper_fill_authorization_def fill_refused_def with_cnonce_def Let_def
      split: option.splits Option.bind_splits)

end
