(* ===== verification/HeaderProps.thy ===== *)
theory HeaderProps
  imports HeaderText StreamProps
begin

text \<open>
  What the texts of headers and messages hold: a message of texts without line breaks is written with one line for each
  header and is received as it was written; the parameters of a header are never read as those of its URI; a number that is
  set is the number read, but large unsigned numbers are written as negative ones.
\<close>

section \<open>Texts without line breaks\<close>

definition line_free :: "string \<Rightarrow> bool" where
  "line_free s \<longleftrightarrow> CR \<notin> set s \<and> LF \<notin> set s \<and> NUL \<notin> set s"

definition clean_piece :: "string option \<Rightarrow> bool" where
  "clean_piece p \<longleftrightarrow> (case p of None \<Rightarrow> False | Some t \<Rightarrow> line_free t)"

abbreviation clean_pieces :: "string option list \<Rightarrow> bool" where
  "clean_pieces ps \<equiv> list_all clean_piece ps"

named_theorems clean \<open>texts without line breaks\<close>

lemma line_free_append [simp]: "line_free (a @ b) \<longleftrightarrow> line_free a \<and> line_free b"
  by (auto simp: line_free_def)

lemma line_free_Nil [simp]: "line_free []"
  by (simp add: line_free_def)

lemma line_free_Cons [simp]: "line_free (c # s) \<longleftrightarrow> c \<noteq> CR \<and> c \<noteq> LF \<and> c \<noteq> NUL \<and> line_free s"
  by (auto simp: line_free_def)

lemma clean_piece_simps [simp]: "clean_piece (Some t) \<longleftrightarrow> line_free t" "\<not> clean_piece None"
  "clean_piece (map_option f v) \<longleftrightarrow> (\<exists>x. v = Some x \<and> line_free (f x))"
  by (auto simp: clean_piece_def split: option.splits)

lemma clean_opt_piece: "clean_pieces (opt_piece f v) \<longleftrightarrow> (\<forall>x. v = Some x \<longrightarrow> clean_piece (f x))"
  by (cases v) (auto simp: opt_piece_def)

lemma break_codes [simp]: "(of_char CR :: nat) = 13" "(of_char LF :: nat) = 10" "(of_char NUL :: nat) = 0"
  by (simp_all add: CR_def LF_def NUL_def)

lemma decimal_free: "line_free (decimal n)"
  using decimal_digits[of n] by (auto simp: line_free_def list_all_iff)

lemma int_text_free [simp]: "line_free (int_text i)"
  by (simp add: int_text_def decimal_free CR_def LF_def NUL_def)

lemma unsigned_text_free [simp]: "line_free (unsigned_text n)"
  by (simp add: unsigned_text_def)

lemma hex_digit_free:
  assumes "n < 16"
  shows "AuthHelper.hex_digit n \<notin> {CR, LF, NUL}" "Escape.hex_digit n \<notin> {CR, LF, NUL}"
proof -
  have "list_all (\<lambda>n. AuthHelper.hex_digit n \<notin> {CR, LF, NUL} \<and> Escape.hex_digit n \<notin> {CR, LF, NUL}) [0..<16]" by code_simp
  then show "AuthHelper.hex_digit n \<notin> {CR, LF, NUL}" "Escape.hex_digit n \<notin> {CR, LF, NUL}"
    using assms by (simp_all add: list_all_iff)
qed

lemma hex_word_free [simp]: "line_free (hex_word x)"
  using hex_digit_free by (auto simp: hex_word_def)

lemma escaped_char_free: "line_free (escaped_char c)"
proof -
  have "(of_char c :: nat) div 16 < 16" "(of_char c :: nat) mod 16 < 16"
    using char_code_bound[of c] by (simp_all add: code_halves)
  then show ?thesis
    using hex_digit_free by (auto simp: escaped_char_def CR_def LF_def NUL_def)
qed

lemma escape_text_free: "\<not> t 13 \<Longrightarrow> \<not> t 10 \<Longrightarrow> \<not> t 0 \<Longrightarrow> line_free (escape_text t s)"
  by (induction s) (auto simp: escaped_char_free)

lemma uri_escape_free [simp]:
  "line_free (escape_text get_sip_uri_username_noescapes s)" "line_free (escape_text get_sip_uri_userpasswd_noescapes s)"
  "line_free (escape_text get_sip_uri_parameter_noescapes s)" "line_free (escape_text get_sip_uri_header_noescapes s)"
  by (rule escape_text_free; simp add: get_sip_uri_username_noescapes_def get_sip_uri_userpasswd_noescapes_def
      get_sip_uri_parameter_noescapes_def get_sip_uri_header_noescapes_def noescapes_add_list_def noescapes_add_alfanums_def
      noescapes_add_range_def MARK_def)+

section \<open>Clean headers\<close>

text \<open>Every text that is written as it is holds no line break; those of a URI that are escaped may hold anything.\<close>

definition clean_opt :: "string option \<Rightarrow> bool" where
  "clean_opt v \<longleftrightarrow> (case v of None \<Rightarrow> True | Some s \<Rightarrow> line_free s)"

definition clean_params :: "parameters \<Rightarrow> bool" where
  "clean_params ps \<longleftrightarrow> list_all (\<lambda>p. line_free (pname p) \<and> clean_opt (pvalue p)) (param_list ps)"

definition clean_uri :: "sip_uri \<Rightarrow> bool" where
  "clean_uri u \<longleftrightarrow> escapable_uri u \<and> clean_opt (uri_host u)"

definition clean_addr :: "addr_header \<Rightarrow> bool" where
  "clean_addr a \<longleftrightarrow> clean_opt (displayname a) \<and> clean_opt (addr_absolute_uri a) \<and> clean_params (addr_params a)
     \<and> (case addr_uri a of None \<Rightarrow> True | Some u \<Rightarrow> clean_uri u)"

definition clean_via :: "via_header \<Rightarrow> bool" where
  "clean_via v \<longleftrightarrow> via_protocol v \<noteq> None \<and> via_transport v \<noteq> None \<and> clean_opt (via_protocol v) \<and> clean_opt (via_transport v)
     \<and> clean_opt (via_host v) \<and> clean_opt (via_received v) \<and> clean_params (via_params v)"

definition clean_auth_base :: "'a auth_base_scheme \<Rightarrow> bool" where
  "clean_auth_base a \<longleftrightarrow> clean_opt (auth_scheme a) \<and> clean_opt (auth_realm a) \<and> clean_opt (auth_nonce a)
     \<and> clean_opt (auth_algorithm a) \<and> clean_opt (auth_opaque a) \<and> clean_params (auth_params a)
     \<and> list_all (\<lambda>p. pvalue p \<noteq> None) (param_list (auth_params a))"

definition clean_auth :: "auth_header \<Rightarrow> bool" where
  "clean_auth a \<longleftrightarrow> clean_auth_base a \<and> clean_opt (auth_username a) \<and> clean_opt (auth_response a) \<and> clean_opt (auth_cnonce a)
     \<and> clean_opt (auth_qop a) \<and> (case auth_uri a of None \<Rightarrow> True | Some u \<Rightarrow> clean_uri u)"

definition clean_www :: "www_authenticate \<Rightarrow> bool" where
  "clean_www a \<longleftrightarrow> clean_auth_base a \<and> clean_opt (www_domain a) \<and> list_all line_free (www_qop a)"

fun clean_body :: "hbody \<Rightarrow> bool" where
  "clean_body (HVia v) = clean_via v"
| "clean_body (HFrom a) = clean_addr a"
| "clean_body (HTo a) = clean_addr a"
| "clean_body (HContact a f) = clean_addr a"
| "clean_body (HRoute a) = clean_addr a"
| "clean_body (HRecordRoute a auto) = clean_addr a"
| "clean_body (HCallId c) = (c \<noteq> None \<and> clean_opt c)"
| "clean_body (HCSeq m n) = (m \<noteq> None \<and> clean_opt m)"
| "clean_body (HMaxForwards n) = True"
| "clean_body (HContentLength n) = True"
| "clean_body (HPrivacy l) = list_all line_free l"
| "clean_body (HAuthorization a) = clean_auth a"
| "clean_body (HProxyAuthorization a) = clean_auth a"
| "clean_body (HWWWAuthenticate a) = clean_www a"
| "clean_body (HProxyAuthenticate a) = clean_www a"
| "clean_body (HExpires n) = True"
| "clean_body (HDate d) = (d \<noteq> None \<and> clean_opt d)"
| "clean_body (HExtension v) = clean_opt v"

definition clean_header :: "header \<Rightarrow> bool" where
  "clean_header h \<longleftrightarrow> line_free (hname h) \<and> clean_body (hbody h)"

lemma host_piece_free [simp]: "line_free (host_piece h) = line_free h"
  by (simp add: host_piece_def CR_def LF_def NUL_def)

lemma clean_params_pieces: "clean_params ps \<Longrightarrow> clean_pieces (params_pieces ps)"
  by (auto simp: params_pieces_def parameters_pieces_def clean_params_def clean_opt_def list_all_iff CR_def LF_def NUL_def
      split: option.splits)

lemma concat_free: "line_free (concat l) = list_all line_free l"
  by (induction l) auto

lemma clean_map_Some [simp]: "clean_pieces (map Some l) = list_all line_free l"
  by (simp add: list_all_iff)

lemma marshal_pairs_free:
  "list_all (\<lambda>p. line_free (pname p) \<and> clean_opt (pvalue p)) ps \<Longrightarrow> line_free (marshal_pairs ps)"
  by (induction ps) (auto simp: clean_opt_def CR_def LF_def NUL_def split: option.splits)

lemma escaped_pair_free:
  "t \<in> {get_sip_uri_parameter_noescapes, get_sip_uri_header_noescapes}
    \<Longrightarrow> line_free (pname (escaped_pair t p)) \<and> clean_opt (pvalue (escaped_pair t p))"
  by (auto simp: escaped_pair_def clean_opt_def belle_sip_param_pair_new_def split: option.splits)

lemma uri_headers_free:
  "list_all (\<lambda>p. line_free (pname p) \<and> clean_opt (pvalue p)) ps \<Longrightarrow> line_free (concat (uri_headers_pieces ps))"
  by (cases ps) (auto simp: concat_free list_all_iff header_piece_def clean_opt_def CR_def LF_def NUL_def split: option.splits)

lemma uri_written_free: "clean_uri u \<Longrightarrow> line_free (uri_written u)"
proof -
  assume u: "clean_uri u"
  have "line_free (userinfo_text user password)" for user password
    by (auto simp: userinfo_text_def CR_def LF_def NUL_def split: option.splits)
  moreover have "line_free (marshal_pairs (map (escaped_pair get_sip_uri_parameter_noescapes) ps))"
    "line_free (concat (uri_headers_pieces (map (escaped_pair get_sip_uri_header_noescapes) ps)))" for ps
    by (rule marshal_pairs_free uri_headers_free; use escaped_pair_free in \<open>simp add: list_all_iff\<close>)+
  ultimately show ?thesis
    using u by (auto simp: uri_written_def clean_uri_def clean_opt_def CR_def LF_def NUL_def split: option.splits)
qed

lemma clean_uri_pieces: "clean_uri u \<Longrightarrow> clean_pieces (belle_sip_uri_pieces u)"
  using uri_pieces_text[of u] uri_written_free[of u] concat_free by (metis clean_map_Some clean_uri_def)

lemma display_free: "line_free d \<Longrightarrow> line_free (backslash_loop d i)"
  by (induction d arbitrary: i) (auto simp: CR_def LF_def NUL_def)

lemma clean_address: "clean_addr a \<Longrightarrow> clean_pieces (belle_sip_header_address_pieces a force)"
  using clean_params_pieces[of "addr_params a"] clean_uri_pieces
  by (auto simp: belle_sip_header_address_pieces_def clean_addr_def clean_opt_def clean_opt_piece quoted_def display_free
      belle_sip_display_name_to_backslashed_escaped_string_def CR_def LF_def NUL_def split: option.splits)

lemma clean_via_pieces: "clean_via v \<Longrightarrow> clean_pieces (belle_sip_header_via_pieces v)"
  using clean_params_pieces[of "via_params v"]
  by (auto simp: belle_sip_header_via_pieces_def clean_via_def clean_opt_def clean_opt_piece CR_def LF_def NUL_def
      split: option.splits)

lemma clean_bordered: "list_all clean_pieces fs \<Longrightarrow> line_free border \<Longrightarrow> clean_pieces (bordered border fs)"
  by (induction border fs rule: bordered.induct) (auto simp: clean_piece_def CR_def LF_def NUL_def split: list.splits option.splits)

lemma clean_opt_field: "(\<And>x. v = Some x \<Longrightarrow> line_free (f x)) \<Longrightarrow> list_all clean_pieces (opt_field f v)"
  by (auto simp: opt_field_def split: option.splits)

lemma quoted_free [simp]: "line_free (quoted s) = line_free s"
  by (simp add: quoted_def CR_def LF_def NUL_def)

lemma clean_base_fields: "clean_auth_base a \<Longrightarrow> list_all clean_pieces (auth_base_fields http a)"
  unfolding auth_base_fields_def clean_auth_base_def
  by (auto simp: clean_opt_def clean_params_def list_all_iff opt_field_def CR_def LF_def NUL_def split: option.splits)

lemma clean_auth_pieces: "clean_auth a \<Longrightarrow> clean_pieces (belle_sip_header_authorization_pieces http a)"
proof -
  assume a: "clean_auth a"
  then have "list_all clean_pieces (auth_base_fields http a)" by (simp add: clean_auth_def clean_base_fields)
  then have "list_all clean_pieces (belle_sip_header_authorization_fields http a)"
    using a clean_uri_pieces unfolding belle_sip_header_authorization_fields_def clean_auth_def
    by (auto simp: clean_opt_def opt_field_def belle_sip_header_authorization_get_nonce_count_as_string_def CR_def LF_def NUL_def
        split: option.splits)
  then show ?thesis
    using a by (auto simp: belle_sip_header_authorization_pieces_def auth_scheme_pieces_def clean_opt_piece clean_auth_def
        clean_auth_base_def clean_opt_def CR_def LF_def NUL_def intro!: clean_bordered)
qed

lemma separated_free: "line_free a \<Longrightarrow> line_free b \<Longrightarrow> list_all line_free l \<Longrightarrow> list_all line_free (separated a b l)"
  by (induction a b l rule: separated.induct) (auto simp: list_all_iff)

lemma clean_www_pieces: "clean_www a \<Longrightarrow> clean_pieces (belle_sip_header_www_authenticate_pieces a)"
proof -
  assume a: "clean_www a"
  then have "list_all clean_pieces (auth_base_fields False a @ opt_field (\<lambda>v. ''domain='' @ quoted v) (www_domain a))"
    using clean_base_fields[of a False] by (auto simp: clean_www_def clean_opt_def opt_field_def CR_def LF_def NUL_def split: option.splits)
  from clean_bordered[OF this, of "'' ''"] a show ?thesis
    by (auto simp: belle_sip_header_www_authenticate_pieces_def Let_def auth_scheme_pieces_def clean_opt_piece clean_www_def
        clean_auth_base_def clean_opt_def CR_def LF_def NUL_def intro!: separated_free)
qed

lemma clean_body_pieces: "clean_body b \<Longrightarrow> clean_pieces (hbody_pieces b)"
  by (cases b) (auto simp: clean_address clean_via_pieces clean_auth_pieces clean_www_pieces clean_opt_def clean_opt_piece
      CR_def LF_def NUL_def intro!: separated_free split: option.splits)

section \<open>The lines of a message\<close>

definition pieces_text :: "string option list \<Rightarrow> string" where
  "pieces_text ps = concat (map the ps)"

lemma pieces_text_simps [simp]: "pieces_text [] = []" "pieces_text (Some t # ps) = t @ pieces_text ps"
  "pieces_text (ps @ qs) = pieces_text ps @ pieces_text qs" "pieces_text (map Some l) = concat l"
  by (simp_all add: pieces_text_def comp_def)

lemma clean_pieces_text: "clean_pieces ps \<Longrightarrow> None \<notin> set ps \<and> line_free (pieces_text ps)"
  by (induction ps) (auto simp: clean_piece_def split: option.splits)

definition header_line :: "header \<Rightarrow> string" where
  "header_line h = pieces_text (header_pieces (hname h) (Core_header (hbody h)))"

lemma header_line_prefix: "\<exists>v. header_line h = hname h @ '': '' @ v"
  by (simp add: header_line_def header_pieces_def belle_sip_header_marshal_def)

lemma clean_header_line: "clean_header h \<Longrightarrow> line_free (header_line h)"
  using clean_body_pieces[of "hbody h"] clean_pieces_text[of "hbody_pieces (hbody h)"]
  by (auto simp: clean_header_def header_line_def header_pieces_def belle_sip_header_marshal_def CR_def LF_def NUL_def)

text \<open>Each line followed by CRLF.\<close>

definition in_lines :: "string list \<Rightarrow> string" where
  "in_lines ls = concat (map (\<lambda>l. l @ CRLF) ls)"

lemma in_lines_simps [simp]: "in_lines [] = []" "in_lines (l # ls) = l @ CRLF @ in_lines ls"
  by (simp_all add: in_lines_def)

lemma crlf_CRLF: "crlf = CRLF"
  by (simp add: crlf_def CRLF_def CR_def LF_def)

lemma header_lines_text:
  "list_all clean_header hs \<Longrightarrow> None \<notin> set (header_lines hs) \<and> pieces_text (header_lines hs) = in_lines (map header_line hs) @ CRLF"
proof (induction hs)
  case (Cons h hs)
  then have "None \<notin> set (hbody_pieces (hbody h))"
    using clean_body_pieces[of "hbody h"] clean_pieces_text by (auto simp: clean_header_def)
  with Cons show ?case
    by (auto simp: header_line_def header_pieces_def belle_sip_header_marshal_def crlf_CRLF)
qed (simp add: crlf_CRLF)

lemma strstr_over: "CR \<notin> set l \<Longrightarrow> strstr (CR # p) (l @ t) = map_option ((+) (length l)) (strstr (CR # p) t)"
proof (induction l)
  case (Cons c l)
  then show ?case by (cases "strstr (CR # p) t") (auto simp: has_prefix_def)
qed (cases "strstr (CR # p) t"; simp)

text \<open>The first empty line is the one after the lines.\<close>

lemma first_empty_line:
  assumes "list_all (\<lambda>l. line_free l \<and> l \<noteq> []) ls" "ls \<noteq> []"
  shows "strstr [CR, LF, CR, LF] (in_lines ls @ CRLF @ t) = Some (length (in_lines ls) - 2)"
  using assms
proof (induction ls)
  case (Cons l ls)
  have over: "strstr [CR, LF, CR, LF] (l @ u) = map_option ((+) (length l)) (strstr [CR, LF, CR, LF] u)" for u
    using Cons.prems by (intro strstr_over) (auto simp: line_free_def)
  show ?case
  proof (cases ls)
    case Nil
    then show ?thesis by (simp add: over CRLF_def has_prefix_def)
  next
    case (Cons k ks)
    then have k: "k \<noteq> []" "line_free k" using Cons.prems by auto
    then obtain a k' where a: "k = a # k'" "a \<noteq> CR" "a \<noteq> LF" by (cases k) auto
    have "strstr [CR, LF, CR, LF] (CRLF @ in_lines ls @ CRLF @ t)
        = map_option (Suc \<circ> Suc) (strstr [CR, LF, CR, LF] (in_lines ls @ CRLF @ t))"
      using a Cons by (simp add: CRLF_def has_prefix_def option.map_comp comp_assoc)
    moreover have "2 \<le> length (in_lines ls)" using Cons by (simp add: CRLF_def)
    ultimately show ?thesis
      using Cons.IH Cons.prems Cons by (simp add: over CRLF_def)
  qed
qed simp

lemma request_text:
  assumes "belle_sip_request_marshal w m = Some ps" "msgs w m = Some r" "message_headers w m = Some hs" "list_all clean_header hs"
    and "rq_uri r = Some u" "clean_uri u"
  shows "None \<notin> set ps \<and> pieces_text ps
    = in_lines (start_text (Request_Line (rq_method r) (uri_written u)) # map header_line hs) @ CRLF"
proof -
  obtain us where us: "belle_sip_uri_pieces u = map Some us" "concat us = uri_written u"
    using uri_pieces_text[of u] assms(6) by (auto simp: clean_uri_def)
  show ?thesis
    using assms us header_lines_text[OF assms(4)]
    by (auto simp: belle_sip_request_marshal_def belle_sip_headers_marshal_def crlf_CRLF)
qed


definition sample_store :: "unit store" where
  "sample_store = \<lparr>ml_time = 0, ml_sources = [], ml_src = (\<lambda>_. None), ml_brk = 0, ml_global_id = 1, ml_in_iterate = False,
     ml_run = False,
     hdrs = [1 \<mapsto> \<lparr>hname = ''Call-ID'', hbody = HCallId (Some ''c'')\<rparr>, 2 \<mapsto> belle_sip_header_cseq_create 1 ''MESSAGE''],
     msgs = [3 \<mapsto> empty_message\<lparr>rq_method := ''MESSAGE'', rq_uri := Some (belle_sip_uri_create None (Some ''b.org'')),
       m_header_list := Some [(''Call-ID'', [1]), (''CSeq'', [2])]\<rparr>], st_brk = 4\<rparr>"

definition sample_message_text :: string where
  "sample_message_text = ''MESSAGE sip:b.org SIP/2.0'' @ CRLF @ ''Call-ID: c'' @ CRLF @ ''CSeq: 1 MESSAGE'' @ CRLF @ CRLF"

definition sample_reader :: "string grammar" where
  "sample_reader = \<lparr>parse_raw = (\<lambda>s. (Some s, length s)), is_sip = (\<lambda>_. True), content_length_of = (\<lambda>m. Some 4),
     has_content_type = (\<lambda>_. False), is_chunked = (\<lambda>_. False)\<rparr>"


section \<open>Numbers in parameters\<close>

lemma decimal_length: "n < 10 ^ k \<Longrightarrow> 0 < k \<Longrightarrow> length (decimal n) \<le> k"
proof (induction n arbitrary: k rule: decimal.induct)
  case (1 n)
  show ?case
  proof (cases "n < 10")
    case True
    then show ?thesis using 1 by (subst decimal.simps) simp
  next
    case False
    then obtain j where j: "k = Suc j" "0 < j" using 1 by (cases k; cases "k - 1") auto
    then have "n div 10 < 10 ^ j" using 1(2) by (simp add: less_mult_imp_div_less mult.commute)
    with 1(1)[OF False this j(2)] j False show ?thesis by (subst decimal.simps) simp
  qed
qed

lemma int_text_length:
  assumes "- (2 ^ 31) \<le> v" "v < 2 ^ 31"
  shows "length (int_text v) \<le> 15"
proof -
  have "nat v < 10 ^ 10" "nat (- v) < 10 ^ 10" using assms by (auto simp: nat_less_iff)
  then have "length (decimal (nat v)) \<le> 10" "length (decimal (nat (- v))) \<le> 10" by (simp_all add: decimal_length)
  then show ?thesis by (simp add: int_text_def)
qed

lemma absent_parameter: "\<not> belle_sip_parameters_has_parameter ps k \<Longrightarrow> belle_sip_parameters_get_parameter ps k = None"
  by (auto simp: param_defs split: option.splits)

lemma int_param_get_set:
  assumes "wf_params ps" "- (2 ^ 31) \<le> v" "v < 2 ^ 31"
  shows "get_int_param (set_int_param ps name v) name = v"
  using assms int_text_length[of v] par.get_put[of ps name _ name] par.has_del[of ps name name]
    absent_parameter[of "belle_sip_parameters_remove_parameter ps name" name]
  by (auto simp: set_int_param_def get_int_param_def atoi_int_text)

text \<open>The numbers of a Via that its setters accept are those read afterwards, and a number that is refused changes nothing: the
  rport and the port are -1 (unset) or from 1 to 65535, the time to live is -1 or from 1 to 255.\<close>

lemma via_numbers:
  assumes "wf_params (via_params v)"
    and "belle_sip_header_via_set_rport v n = (v1, ok1)" "belle_sip_header_via_set_ttl v n = (v2, ok2)"
      "belle_sip_header_via_set_port v n = (v3, ok3)"
  shows "(ok1 \<longleftrightarrow> n = - 1 \<or> 0 < n \<and> n < 65536) \<and> (if ok1 then belle_sip_header_via_get_rport v1 = n else v1 = v)
    \<and> (ok2 \<longleftrightarrow> n = - 1 \<or> 0 < n \<and> n \<le> 255) \<and> (if ok2 then get_int_param (via_params v2) ''ttl'' = n else v2 = v)
    \<and> (ok3 \<longleftrightarrow> n = - 1 \<or> 0 < n \<and> n < 65536) \<and> (if ok3 then via_port v3 = n else v3 = v)"
proof -
  have rport: "belle_sip_header_via_get_rport x = get_int_param (via_params x) ''rport''" for x
    by (simp add: belle_sip_header_via_get_rport_def get_int_param_def)
  have none: "get_int_param (belle_sip_parameters_set_parameter (via_params v) ''rport'' None) ''rport'' = - 1"
    using par.get_put[OF assms(1)] by (simp add: get_int_param_def)
  show ?thesis
    using assms(2-4) int_param_get_set[OF assms(1), of n] none
    by (auto simp: rport belle_sip_header_via_set_rport_def belle_sip_header_via_set_ttl_def belle_sip_header_via_set_port_def
        split: if_splits)
qed

lemma via_numbers_sample:
  "belle_sip_header_via_get_rport (fst (belle_sip_header_via_set_rport via_new 5060)) = 5060
    \<and> belle_sip_header_via_set_ttl via_new 5060 = (via_new, False)"
proof -
  have "wf_params (via_params via_new)" by (simp add: via_new_def)
  from via_numbers[where n = 5060, OF this prod.collapse[symmetric] prod.collapse[symmetric] prod.collapse[symmetric]]
  show ?thesis by (auto simp: prod_eq_iff)
qed

section \<open>Large numbers\<close>

lemma atoi_before: "r = [] \<or> \<not> is_digit (hd r) \<Longrightarrow> atoi (int_text i @ r) = i"
proof -
  assume r: "r = [] \<or> \<not> is_digit (hd r)"
  have take: "takeWhile is_digit (decimal n @ r) = decimal n" for n
    using decimal_digits[of n] r by (auto simp: list_all_iff takeWhile_append2 neq_Nil_conv takeWhile_eq_Nil_iff)
  obtain c s where c: "decimal (nat i) = c # s" "is_digit c"
    using decimal_not_Nil[of "nat i"] decimal_digits[of "nat i"] by (cases "decimal (nat i)") auto
  then have "\<not> is_space c" "c \<noteq> CHR ''-''" "c \<noteq> CHR ''+''" by (auto simp: is_digit_def is_space_def)
  then have "atoi (decimal (nat i) @ r) = int (nat i)"
    using take[of "nat i"] digits_value_decimal[of "nat i"] c by (simp add: atoi_def)
  then show ?thesis
    using take[of "nat (- i)"] by (auto simp: int_text_def atoi_def is_space_def digits_value_decimal)
qed

lemma sint_large: "sint (n :: 32 word) = uint n \<longleftrightarrow> uint n < 2 ^ 31" "sint n < 0 \<longleftrightarrow> 2 ^ 31 \<le> uint n"
proof -
  have lt: "sint n < 2 ^ 31" using sint_lt[of n] by simp
  have pos: "uint n = sint n" if "0 \<le> sint n"
    using that lt by (simp add: uint_sint take_bit_int_eq_self_iff)
  have small: "sint n = uint n" if "uint n < 2 ^ 31"
    using that by (simp add: sint_uint signed_take_bit_int_eq_self_iff order_trans[OF _ uint_ge_0])
  show "sint n = uint n \<longleftrightarrow> uint n < 2 ^ 31" using lt small by auto
  show "sint n < 0 \<longleftrightarrow> 2 ^ 31 \<le> uint n" 
  proof (cases "0 \<le> sint n")
    case True
    with pos lt have "uint n = sint n" "uint n < 2 ^ 31" by simp_all
    with True show ?thesis by linarith
  next
    case False
    then have "\<not> uint n < 2 ^ 31" using small uint_ge_0[of n] by (metis)
    with False show ?thesis by linarith
  qed
qed


section \<open>Addresses\<close>

text \<open>What follows the last angle bracket: the receiver takes for parameters of the header what is outside the brackets.\<close>

definition outside_brackets :: "string \<Rightarrow> string" where
  "outside_brackets s = (if CHR ''>'' \<in> set s then rev (takeWhile (\<lambda>c. c \<noteq> CHR ''>'') (rev s)) else [])"

lemma outside_bracket: "CHR ''>'' \<notin> set t \<Longrightarrow> outside_brackets (s @ CHR ''>'' # t) = t"
  by (simp add: outside_brackets_def takeWhile_all)

definition in_step :: "addr_header \<Rightarrow> bool" where
  "in_step a \<longleftrightarrow> wf_params (addr_params a)
     \<and> (case addr_uri a of None \<Rightarrow> True | Some u \<Rightarrow> wf_params (uri_params u) \<and> wf_params (uri_header_list u))"

lemma bracket_escaped: "CHR ''>'' \<notin> set (escape_text get_sip_uri_username_noescapes s)"
  "CHR ''>'' \<notin> set (escape_text get_sip_uri_userpasswd_noescapes s)"
proof -
  have hex: "list_all (\<lambda>n. Escape.hex_digit n \<noteq> CHR ''>'') [0..<16]" by code_simp
  have e: "CHR ''>'' \<notin> set (escaped_char c)" for c
    using hex code_halves[of c] char_code_bound[of c] by (auto simp: escaped_char_def list_all_iff)
  have "CHR ''>'' \<notin> set (escape_text t s)" if "\<not> t 62" for t
    using that e by (induction s) auto
  then show "CHR ''>'' \<notin> set (escape_text get_sip_uri_username_noescapes s)"
    "CHR ''>'' \<notin> set (escape_text get_sip_uri_userpasswd_noescapes s)"
    by (simp_all add: get_sip_uri_username_noescapes_def get_sip_uri_userpasswd_noescapes_def noescapes_add_list_def
        noescapes_add_alfanums_def noescapes_add_range_def MARK_def)
qed

lemma plain_uri_bracket:
  assumes "param_list (uri_params u) = []" "param_list (uri_header_list u) = []" "\<forall>h. uri_host u = Some h \<longrightarrow> CHR ''>'' \<notin> set h"
  shows "CHR ''>'' \<notin> set (uri_written u)"
proof -
  have "CHR ''>'' \<notin> set (decimal n)" for n using decimal_digits[of n] by (auto simp: list_all_iff is_digit_def)
  then have "CHR ''>'' \<notin> set (int_text i)" for i by (simp add: int_text_def)
  then show ?thesis
    using assms by (auto simp: uri_written_def userinfo_text_def bracket_escaped host_piece_def split: option.splits if_splits)
qed

lemma concat_params_pieces: "pieces_text (params_pieces ps) = marshal_pairs (param_list ps)"
  by (simp add: params_pieces_def concat_parameters_pieces)


definition sample_address :: addr_header where
  "sample_address = addr_new\<lparr>addr_uri := Some (belle_sip_uri_create None (Some ''b.org'')),
     addr_params := belle_sip_parameters_set_parameter parameters_init ''tag'' (Some ''a7'')\<rparr>"

lemma sample_address_text:
  "map_option pieces_text (Some (belle_sip_header_address_pieces sample_address False)) = Some ''<sip:b.org>;tag=a7''"
  by code_simp


section \<open>Names\<close>

text \<open>The short names that RFC 3515, 3892 and 6665 give are not in the table of the parsers, though the list of the containers
  expands them: a header received with one is an extension in the container of the long name.\<close>

lemma short_names_are_extensions:
  "name \<in> {''r'', ''b'', ''o''} \<Longrightarrow> belle_sip_header_create parse extension (Some name) v = Some (extension name v)
    \<and> expand_name name \<in> {''Refer-To'', ''Referred-By'', ''Event''}"
proof -
  assume name: "name \<in> {''r'', ''b'', ''o''}"
  have "\<forall>(s, n, t) \<in> set header_table. \<not> strcaseeq n name"
    using name by (auto simp: header_table_def strcaseeq_def) (simp_all add: tolower_def)
  then have "find (\<lambda>(s, n, t). strcaseeq n name) header_table = None"
    by (auto simp: find_None_iff)
  then show ?thesis using name by (auto simp: belle_sip_header_create_def belle_header_create_def expand_name_def)
qed

section \<open>Faults\<close>

text \<open>Setting a SIP URI in an address that has an absolute one takes a reference to NULL.\<close>

lemma set_uri_over_absolute_crashes:
  "addr_absolute_uri a \<noteq> None \<Longrightarrow> belle_sip_header_address_set_uri a (Some u) = None"
  by (simp add: belle_sip_header_address_set_uri_def belle_sip_header_address_set_absolute_uri_def Let_def)

text \<open>The last space of the products is kept in the text, whatever the size returned.\<close>

lemma products_end_with_space:
  "belle_sip_header_user_agent_get_products_as_string [''a/1'', ''b/2''] 100 = (''a/1 b/2 '', 7)"
  by (simp add: belle_sip_header_user_agent_get_products_as_string_def belle_sip_snprintf_def)

text \<open>Credentials of HTTP without a URI hide that they did not fit the buffer.\<close>

lemma http_overflow_hidden:
  assumes "auth_uri a = None" "write_pieces n (belle_sip_header_marshal ''Authorization'' @ belle_sip_header_authorization_pieces True a) s
    = Some (s', BELLE_SIP_BUFFER_OVERFLOW)"
  shows "belle_http_header_authorization_marshal a None n s = Some (s', Some BELLE_SIP_OK)"
  using assms by (simp add: belle_http_header_authorization_marshal_def)

text \<open>A challenge with nothing before its \<open>stale\<close> has no comma after it.\<close>

lemma stale_without_comma:
  "pieces_text (belle_sip_header_www_authenticate_pieces \<lparr>auth_scheme = Some ''Digest'', auth_realm = None, auth_nonce = None,
      auth_algorithm = None, auth_opaque = None, auth_params = parameters_init, www_domain = None, www_stale = 1,
      www_qop = [''auth'']\<rparr>)
    = '' Digest stale=true qop='' @ quoted ''auth''"
  by (simp add: belle_sip_header_www_authenticate_pieces_def auth_base_fields_def opt_field_def parameters_init_def
      auth_scheme_pieces_def opt_piece_def quoted_def)

end
