(* ===== verification/HeaderDate.thy ===== *)
theory HeaderDate
  imports InputStream
begin

text \<open>
  The Date header (\<^verbatim>\<open>src/belle_sip_headers_impl.c\<close>): its text for a time and the time of its text, with what the C
  library does for them: \<^verbatim>\<open>gmtime\<close> for a time from 1970 on, \<^verbatim>\<open>mktime\<close> in a zone whose standard time is \<open>tz\<close> seconds behind
  UTC, and \<^verbatim>\<open>sscanf\<close>. The time read is the time written, whatever the zone.
\<close>

section \<open>The calendar\<close>

definition leap :: "int \<Rightarrow> bool" where
  "leap y \<longleftrightarrow> 4 dvd y \<and> (\<not> 100 dvd y \<or> 400 dvd y)"

definition year_days :: "int \<Rightarrow> nat" where
  "year_days y = (if leap y then 366 else 365)"

definition month_days :: "int \<Rightarrow> nat \<Rightarrow> nat" where
  "month_days y m = (if m = 1 then (if leap y then 29 else 28) else if m \<in> {3, 5, 8, 10} then 30 else 31)"

function find_year :: "int \<Rightarrow> nat \<Rightarrow> int \<times> nat" where
  "find_year y d = (if d < year_days y then (y, d) else find_year (y + 1) (d - year_days y))"
  by pat_completeness auto
termination by (relation "measure snd") (auto simp: year_days_def split: if_splits)

function find_month :: "int \<Rightarrow> nat \<Rightarrow> nat \<Rightarrow> nat \<times> nat" where
  "find_month y m d = (if d < month_days y m then (m, d) else find_month y (Suc m) (d - month_days y m))"
  by pat_completeness auto
termination by (relation "measure (\<lambda>(y, m, d). d)") (auto simp: month_days_def split: if_splits)

declare find_year.simps [simp del] find_month.simps [simp del]

record tm =
  tm_wday :: nat
  tm_mday :: int
  tm_mon :: nat
  tm_year :: int
  tm_hour :: int
  tm_min :: int
  tm_sec :: int

definition gmtime :: "nat \<Rightarrow> tm" where
  "gmtime t = (let days = t div 86400; s = t mod 86400; (y, d) = find_year 1970 days; (m, d) = find_month y 0 d
     in \<lparr>tm_wday = (days + 4) mod 7, tm_mday = int d + 1, tm_mon = m, tm_year = y - 1900,
         tm_hour = int (s div 3600), tm_min = int (s mod 3600 div 60), tm_sec = int (s mod 60)\<rparr>)"

definition leaps_until :: "int \<Rightarrow> int" where
  "leaps_until y = y div 4 - y div 100 + y div 400"

definition days_before_year :: "int \<Rightarrow> int" where
  "days_before_year y = 365 * (y - 1970) + leaps_until (y - 1) - leaps_until 1969"

fun days_before_month :: "int \<Rightarrow> nat \<Rightarrow> int" where
  "days_before_month y 0 = 0"
| "days_before_month y (Suc m) = days_before_month y m + int (month_days y m)"

definition timegm :: "tm \<Rightarrow> int" where
  "timegm f = (let y = tm_year f + 1900
     in (((days_before_year y + days_before_month y (tm_mon f) + tm_mday f - 1) * 24 + tm_hour f) * 60 + tm_min f) * 60 + tm_sec f)"

definition mktime :: "int \<Rightarrow> tm \<Rightarrow> int" where
  "mktime tz f = timegm f + tz"

section \<open>The header\<close>

definition days :: "string list" where
  "days = [''Sun'', ''Mon'', ''Tue'', ''Wed'', ''Thu'', ''Fri'', ''Sat'']"

definition months :: "string list" where
  "months = [''Jan'', ''Feb'', ''Mar'', ''Apr'', ''May'', ''Jun'', ''Jul'', ''Aug'', ''Sep'', ''Oct'', ''Nov'', ''Dec'']"

text \<open>\<^verbatim>\<open>%02i\<close> of a number that is not negative, and \<^verbatim>\<open>%d\<close> of \<^verbatim>\<open>sscanf\<close>.\<close>

definition two_digits :: "int \<Rightarrow> string" where
  "two_digits n = (if n < 10 then ''0'' @ int_text n else int_text n)"

definition read_d :: "string \<Rightarrow> (int \<times> string) option" where
  "read_d s = (let t = skip_space s; ds = takeWhile is_digit (skip_sign t) in
     if ds = [] then None
     else Some (if has_prefix ''-'' t then - digits_value ds else digits_value ds, dropWhile is_digit (skip_sign t)))"

definition belle_sip_header_date_set_time :: "nat \<Rightarrow> string" where
  "belle_sip_header_date_set_time utc_time =
     (let f = gmtime utc_time in
      days ! tm_wday f @ '', '' @ int_text (tm_mday f) @ '' '' @ months ! tm_mon f @ '' '' @ int_text (1900 + tm_year f) @ '' ''
      @ two_digits (tm_hour f) @ '':'' @ two_digits (tm_min f) @ '':'' @ two_digits (tm_sec f) @ '' GMT'')"

record date_fields =
  df_day :: string
  df_mday :: int
  df_month :: string
  df_year :: int
  df_hour :: int
  df_min :: int
  df_sec :: int

text \<open>The fields that are read before the first that does not match; the others are zero.\<close>

definition scan_date :: "string \<Rightarrow> date_fields" where
  "scan_date s =
     (let f = \<lparr>df_day = take 3 s, df_mday = 0, df_month = [], df_year = 0, df_hour = 0, df_min = 0, df_sec = 0\<rparr>
      in case Option.bind (scan_literal '','' (drop 3 s)) read_d of None \<Rightarrow> f
       | Some (n, s) \<Rightarrow> let f = f\<lparr>df_mday := n\<rparr>
      in case scan_word 16 s of None \<Rightarrow> f
       | Some (w, s) \<Rightarrow> let f = f\<lparr>df_month := w\<rparr>
      in case read_d s of None \<Rightarrow> f
       | Some (n, s) \<Rightarrow> let f = f\<lparr>df_year := n\<rparr>
      in case read_d s of None \<Rightarrow> f
       | Some (n, s) \<Rightarrow> let f = f\<lparr>df_hour := n\<rparr>
      in case Option.bind (scan_literal '':'' s) read_d of None \<Rightarrow> f
       | Some (n, s) \<Rightarrow> let f = f\<lparr>df_min := n\<rparr>
      in case Option.bind (scan_literal '':'' s) read_d of None \<Rightarrow> f
       | Some (n, s) \<Rightarrow> f\<lparr>df_sec := n\<rparr>)"

text \<open>The month is read to a buffer of 16 bytes: 16 characters and their NUL are written beyond it (None). The time is -1 on failure.\<close>

definition belle_sip_header_date_get_time :: "int \<Rightarrow> string \<Rightarrow> int option" where
  "belle_sip_header_date_get_time tz date =
     (let f = scan_date date in
      if length (df_month f) = 16 then None
      else Some (case (find_index ((=) (df_day f)) days, find_index ((=) (df_month f)) months) of
          (Some i, Some j) \<Rightarrow>
            (let seconds = mktime tz \<lparr>tm_wday = i, tm_mday = df_mday f, tm_mon = j, tm_year = df_year f - 1900,
                tm_hour = df_hour f, tm_min = df_min f, tm_sec = df_sec f\<rparr>
             in if seconds = - 1 then - 1 else seconds - tz)
        | _ \<Rightarrow> - 1))"

section \<open>The calendar is counted back\<close>

lemma div_step:
  assumes "0 < k"
  shows "(y :: int) div k = (y - 1) div k + (if k dvd y then 1 else 0)"
proof (cases "k dvd y")
  case True
  then obtain q where y: "y = k * q" by (rule dvdE)
  have "(y - 1) div k = q - 1"
    by (rule int_div_pos_eq[where r = "k - 1"]) (use assms y in \<open>simp_all add: algebra_simps\<close>)
  then show ?thesis using assms y by simp
next
  case False
  then have "y mod k \<noteq> 0" "0 \<le> y mod k" "y mod k < k" using assms by (simp_all add: dvd_eq_mod_eq_0)
  then have "(y - 1) div k = y div k"
    by (intro int_div_pos_eq[where r = "y mod k - 1"]) (use mult_div_mod_eq[of k y] in \<open>simp_all add: algebra_simps\<close>)
  then show ?thesis using False by simp
qed

lemma leaps_step: "leaps_until y = leaps_until (y - 1) + (if leap y then 1 else 0)"
proof -
  have "4 dvd y" if "100 dvd y" using that dvd_trans[of 4 100 y] by simp
  moreover have "100 dvd y" if "400 dvd y" using that dvd_trans[of 100 400 y] by simp
  moreover have "y div 4 = (y - 1) div 4 + (if 4 dvd y then 1 else 0)" "y div 100 = (y - 1) div 100 + (if 100 dvd y then 1 else 0)"
    "y div 400 = (y - 1) div 400 + (if 400 dvd y then 1 else 0)" by (rule div_step, simp)+
  ultimately show ?thesis
    unfolding leaps_until_def leap_def by (smt (verit, best))
qed

lemma year_step: "days_before_year (y + 1) = days_before_year y + int (year_days y)"
  using leaps_step[of y] by (simp add: days_before_year_def year_days_def)

lemma find_year_counts: "find_year y d = (y', d') \<Longrightarrow> days_before_year y' + int d' = days_before_year y + int d \<and> d' < year_days y'"
proof (induction y d rule: find_year.induct)
  case (1 y d)
  show ?case
  proof (cases "d < year_days y")
    case True
    then show ?thesis using 1 by (simp add: find_year.simps)
  next
    case False
    then have "find_year (y + 1) (d - year_days y) = (y', d')" using 1(2) by (simp add: find_year.simps[of y d])
    from 1(1)[OF False this] False show ?thesis by (simp add: year_step)
  qed
qed

lemma find_year_later: "y \<le> fst (find_year y d)"
proof (induction y d rule: find_year.induct)
  case (1 y d)
  then show ?case by (cases "d < year_days y") (simp_all add: find_year.simps[of y d])
qed

lemma find_month_counts:
  "find_month y m d = (m', d') \<Longrightarrow> days_before_month y m' + int d' = days_before_month y m + int d \<and> m \<le> m' \<and> d' < month_days y m'"
proof (induction y m d rule: find_month.induct)
  case (1 y m d)
  show ?case
  proof (cases "d < month_days y m")
    case True
    then show ?thesis using 1 by (simp add: find_month.simps)
  next
    case False
    then have "find_month y (Suc m) (d - month_days y m) = (m', d')" using 1(2) by (simp add: find_month.simps[of y m d])
    from 1(1)[OF False this] False show ?thesis by simp
  qed
qed

lemma days_before_month_mono: "m \<le> n \<Longrightarrow> days_before_month y m \<le> days_before_month y n"
  by (induction n) (auto simp: le_Suc_eq)

lemma twelve_months: "days_before_month y 12 = int (year_days y)"
  by (simp add: eval_nat_numeral month_days_def year_days_def)

lemma find_month_year:
  assumes "find_month y 0 d = (m, e)" "d < year_days y"
  shows "m < 12" "days_before_month y m + int e = int d" "e < 31"
proof -
  note count = find_month_counts[OF assms(1)]
  show "days_before_month y m + int e = int d" using count by simp
  show "m < 12"
  proof (rule ccontr)
    assume "\<not> m < 12"
    then have "int (year_days y) \<le> days_before_month y m" using days_before_month_mono[of 12 m y] twelve_months by simp
    then show False using count assms(2) by simp
  qed
  have "month_days y m \<le> 31" by (simp add: month_days_def)
  then show "e < 31" using count by simp
qed

lemma clock_parts: "(s div 3600 * 60 + s mod 3600 div 60) * 60 + s mod 60 = (s :: nat)"
proof -
  have minutes: "s mod 3600 div 60 * 60 + s mod 60 = s mod 3600"
    using div_mult_mod_eq[of "s mod 3600" 60] by (simp add: mod_mod_cancel)
  have "(s div 3600 * 60 + s mod 3600 div 60) * 60 + s mod 60 = s div 3600 * 3600 + (s mod 3600 div 60 * 60 + s mod 60)"
    by (simp add: add_mult_distrib)
  also have "\<dots> = s" unfolding minutes by (rule div_mult_mod_eq)
  finally show ?thesis .
qed

text \<open>\<^verbatim>\<open>timegm\<close> undoes \<^verbatim>\<open>gmtime\<close>, whose fields are in their ranges.\<close>

lemma gmtime_fields:
  "timegm (gmtime t) = int t" "tm_mon (gmtime t) < 12" "tm_wday (gmtime t) < 7" "1 \<le> tm_mday (gmtime t)" "tm_mday (gmtime t) \<le> 31"
  "0 \<le> tm_hour (gmtime t)" "tm_hour (gmtime t) < 24" "0 \<le> tm_min (gmtime t)" "tm_min (gmtime t) < 60"
  "0 \<le> tm_sec (gmtime t)" "tm_sec (gmtime t) < 60"
proof -
  obtain y d where y: "find_year 1970 (t div 86400) = (y, d)" by fastforce
  obtain m e where m: "find_month y 0 d = (m, e)" by fastforce
  note year = find_year_counts[OF y]
  note month = find_month_year[OF m conjunct2[OF year]]
  have days: "days_before_year y + days_before_month y m + int e = int (t div 86400)"
    using year month by (simp add: days_before_year_def)
  let ?s = "t mod 86400"
  have s: "(int (?s div 3600) * 60 + int (?s mod 3600 div 60)) * 60 + int (?s mod 60) = int ?s"
    using arg_cong[OF clock_parts[of ?s], of int] by (simp only: of_nat_add of_nat_mult of_nat_numeral)
  have g: "gmtime t = \<lparr>tm_wday = (t div 86400 + 4) mod 7, tm_mday = int e + 1, tm_mon = m, tm_year = y - 1900,
      tm_hour = int (?s div 3600), tm_min = int (?s mod 3600 div 60), tm_sec = int (?s mod 60)\<rparr>"
    using y m by (simp add: gmtime_def Let_def)
  have "int (t div 86400) * 86400 + int ?s = int t"
    by (metis div_mult_mod_eq of_nat_add of_nat_mult of_nat_numeral)
  moreover have "timegm (gmtime t) = (days_before_year y + days_before_month y m + int e) * 86400
      + ((int (?s div 3600) * 60 + int (?s mod 3600 div 60)) * 60 + int (?s mod 60))"
    by (simp add: g timegm_def Let_def algebra_simps)
  ultimately show "timegm (gmtime t) = int t" using days s by simp
  have "?s div 3600 < 24" "?s mod 3600 div 60 < 60" by (simp_all add: less_mult_imp_div_less)
  then show "tm_mon (gmtime t) < 12" "tm_wday (gmtime t) < 7" "1 \<le> tm_mday (gmtime t)" "tm_mday (gmtime t) \<le> 31"
    "0 \<le> tm_hour (gmtime t)" "tm_hour (gmtime t) < 24" "0 \<le> tm_min (gmtime t)" "tm_min (gmtime t) < 60"
    "0 \<le> tm_sec (gmtime t)" "tm_sec (gmtime t) < 60"
    using month by (simp_all add: g)
qed

section \<open>The text is read back\<close>

lemma space_char: "is_space (CHR '' '')"
  by (simp add: is_space_def)

lemma read_digits:
  assumes "ds \<noteq> []" "list_all is_digit ds" "r = [] \<or> \<not> is_digit (hd r)"
  shows "read_d (ds @ r) = Some (digits_value ds, r)" "read_d (CHR '' '' # ds @ r) = Some (digits_value ds, r)"
proof -
  obtain c t where c: "ds = c # t" "is_digit c" using assms(1,2) by (cases ds) auto
  have sp: "\<not> is_space c" "c \<noteq> CHR ''-''" "c \<noteq> CHR ''+''" using c(2) by (auto simp: is_digit_def is_space_def)
  have "takeWhile is_digit (ds @ r) = ds \<and> dropWhile is_digit (ds @ r) = r"
    using assms(2,3) by (induction ds) (auto simp: neq_Nil_conv takeWhile_eq_Nil_iff dropWhile_eq_self_iff)
  moreover have "skip_space (ds @ r) = ds @ r" "skip_sign (ds @ r) = ds @ r" "\<not> has_prefix ''-'' (ds @ r)"
    "skip_space (CHR '' '' # ds @ r) = ds @ r"
    using c sp by (simp_all add: skip_space_def skip_sign_def has_prefix_def space_char)
  ultimately show "read_d (ds @ r) = Some (digits_value ds, r)" "read_d (CHR '' '' # ds @ r) = Some (digits_value ds, r)"
    using assms(1) by (simp_all add: read_d_def Let_def)
qed

lemma read_int:
  assumes "0 \<le> n" "r = [] \<or> \<not> is_digit (hd r)"
  shows "read_d (int_text n @ r) = Some (n, r)" "read_d (CHR '' '' # int_text n @ r) = Some (n, r)"
    "read_d (two_digits n @ r) = Some (n, r)" "read_d (CHR '' '' # two_digits n @ r) = Some (n, r)"
proof -
  have t: "int_text n = decimal (nat n)" using assms(1) by (simp add: int_text_def)
  have "digits_value (CHR ''0'' # ds) = digits_value ds" for ds by (simp add: digits_value_def)
  moreover have "is_digit (CHR ''0'')" by (simp add: is_digit_def)
  ultimately show "read_d (int_text n @ r) = Some (n, r)" "read_d (CHR '' '' # int_text n @ r) = Some (n, r)"
    "read_d (two_digits n @ r) = Some (n, r)" "read_d (CHR '' '' # two_digits n @ r) = Some (n, r)"
    using read_digits[of "decimal (nat n)" r] read_digits[of "CHR ''0'' # decimal (nat n)" r] assms decimal_digits[of "nat n"]
      decimal_not_Nil[of "nat n"] digits_value_decimal[of "nat n"]
    by (auto simp: t two_digits_def)
qed

lemma names_found:
  "i < 7 \<Longrightarrow> find_index ((=) (days ! i)) days = Some i \<and> length (days ! i) = 3"
  "j < 12 \<Longrightarrow> find_index ((=) (months ! j)) months = Some j \<and> length (months ! j) = 3
    \<and> list_all (\<lambda>c. \<not> is_space c) (months ! j)"
proof -
  have "list_all (\<lambda>i. find_index ((=) (days ! i)) days = Some i \<and> length (days ! i) = 3) [0..<7]"
    "list_all (\<lambda>j. find_index ((=) (months ! j)) months = Some j \<and> length (months ! j) = 3
      \<and> list_all (\<lambda>c. \<not> is_space c) (months ! j)) [0..<12]" by code_simp+
  then show "i < 7 \<Longrightarrow> find_index ((=) (days ! i)) days = Some i \<and> length (days ! i) = 3"
    "j < 12 \<Longrightarrow> find_index ((=) (months ! j)) months = Some j \<and> length (months ! j) = 3
      \<and> list_all (\<lambda>c. \<not> is_space c) (months ! j)" by (simp_all add: list_all_iff)
qed

lemma word_read:
  assumes "w \<noteq> []" "length w \<le> 16" "list_all (\<lambda>c. \<not> is_space c) w"
  shows "scan_word 16 (CHR '' '' # w @ CHR '' '' # r) = Some (w, CHR '' '' # r)"
proof -
  have "takeWhile (\<lambda>c. \<not> is_space c) (w @ CHR '' '' # r) = w"
    using assms(3) by (induction w) (auto simp: is_space_def)
  moreover have "skip_space (CHR '' '' # w @ CHR '' '' # r) = w @ CHR '' '' # r"
    using assms(1,3) by (cases w) (auto simp: skip_space_def is_space_def)
  ultimately show ?thesis
    using assms(1,2) by (simp add: scan_word_def Let_def)
qed

lemma scan_date_text:
  assumes "length d = 3" "w \<noteq> []" "length w \<le> 16" "list_all (\<lambda>c. \<not> is_space c) w"
    and "0 \<le> a" "0 \<le> b" "0 \<le> h" "0 \<le> m" "0 \<le> s"
  shows "scan_date (d @ '', '' @ int_text a @ '' '' @ w @ '' '' @ int_text b @ '' ''
      @ two_digits h @ '':'' @ two_digits m @ '':'' @ two_digits s @ '' GMT'')
    = \<lparr>df_day = d, df_mday = a, df_month = w, df_year = b, df_hour = h, df_min = m, df_sec = s\<rparr>"
proof -
  have "\<not> is_digit (CHR '' '')" "\<not> is_digit (CHR '':'')" by (simp_all add: is_digit_def)
  then show ?thesis
    using assms by (simp add: scan_date_def Let_def scan_literal_def has_prefix_def read_int word_read)
qed


lemmas sample_date_simps = gmtime_def Let_def find_year.simps find_month.simps year_days_def month_days_def leap_def days_def
  months_def two_digits_def int_text_def decimal.simps char_of_def bit_Suc bit_0


text \<open>A month of 16 characters or more, which comes from the network, is written beyond its buffer; one hour east of Greenwich
  the last second of 1969 in local time is not read; a date cut after its month is one of the year 0.\<close>

lemma long_month_overflows: "belle_sip_header_date_get_time tz ''Sun, 6 NovemberNovember 1994 08:49:37 GMT'' = None"
  by (simp add: belle_sip_header_date_get_time_def scan_date_def Let_def scan_literal_def has_prefix_def read_d_def skip_space_def
      skip_sign_def is_space_def is_digit_def scan_word_def)

lemma date_edges:
  "belle_sip_header_date_get_time (- 3600) ''Thu, 1 Jan 1970 00:59:59 GMT'' = Some (- 1)"
  "belle_sip_header_date_get_time 0 ''Sun, 6 Nov'' = Some (- 62140435200)"
  by code_simp+

end
